(* ===== verification/Rust_Prelude.thy ===== *)
theory Rust_Prelude
  imports Main "HOL-Library.Char_ord" "HOL-Library.List_Lexorder" "HOL-Library.Sublist"
    "HOL-Library.Monad_Syntax"
begin

text \<open>
  The part of the Rust standard library the model rests on. A Rust \<open>String\<close> / \<open>&str\<close> is
  its UTF-8 byte sequence, so a \<^typ>\<open>string\<close> here is a list of bytes and \<open>len()\<close> is
  \<^const>\<open>length\<close>; string comparison (\<open>Ord\<close>, used by \<open>sort\<close> and \<open>BTreeMap\<close>) is the
  byte-lexicographic order of \<open>HOL-Library.List_Lexorder\<close>.
  The theory holds decimal and hexadecimal printing and the checked parsers
  (\<open>str::parse\<close>), splitting, joining and trimming, ASCII case mapping, UTF-8 validity and
  the lossy decoder, and the lemmas on them that several components share.
\<close>

named_theorems str_simps \<open>evaluation rules for the string operations on closed terms\<close>

lemmas [str_simps] = char_of_def bit_0 Let_def

type_synonym bytes = "string"

subsection \<open>Decimal numbers\<close>

definition digit_char :: "nat \<Rightarrow> char" where
  "digit_char d = char_of (48 + d)"

definition is_digit :: "char \<Rightarrow> bool" where
  "is_digit c \<longleftrightarrow> 48 \<le> (of_char c :: nat) \<and> (of_char c :: nat) \<le> 57"

definition digit_val :: "char \<Rightarrow> nat" where
  "digit_val c = of_char c - 48"

fun show_nat :: "nat \<Rightarrow> string" where
  "show_nat n = (if n < 10 then [digit_char n] else show_nat (n div 10) @ [digit_char (n mod 10)])"

declare show_nat.simps [simp del]

definition show_int :: "int \<Rightarrow> string" where
  "show_int n = (if n < 0 then CHR ''-'' # show_nat (nat (- n)) else show_nat (nat n))"

fun parse_digits :: "nat \<Rightarrow> string \<Rightarrow> nat option" where
  "parse_digits acc [] = Some acc"
| "parse_digits acc (c # cs) =
     (if is_digit c then parse_digits (10 * acc + digit_val c) cs else None)"

text \<open>
  \<open>s.parse::<uN>().ok()\<close>: an optional \<open>+\<close>, then one or more digits, and \<open>None\<close> when the
  value does not fit; \<open>hi\<close> is the type's \<open>MAX\<close>.
\<close>

definition parse_uint :: "nat \<Rightarrow> string \<Rightarrow> nat option" where
  "parse_uint hi s =
     (let ds = (case s of c # cs \<Rightarrow> if c = CHR ''+'' then cs else s | [] \<Rightarrow> [])
      in if ds = [] then None
         else case parse_digits 0 ds of
                Some n \<Rightarrow> if n \<le> hi then Some n else None
              | None \<Rightarrow> None)"

text \<open>\<open>s.parse::<iN>().ok()\<close> with the type's \<open>MIN\<close> and \<open>MAX\<close>.\<close>

definition parse_sint :: "int \<Rightarrow> int \<Rightarrow> string \<Rightarrow> int option" where
  "parse_sint lo hi s =
     (let (neg, ds) = (case s of c # cs \<Rightarrow> if c = CHR ''-'' then (True, cs)
                                        else if c = CHR ''+'' then (False, cs) else (False, s)
                       | [] \<Rightarrow> (False, []))
      in if ds = [] then None
         else case parse_digits 0 ds of
                Some n \<Rightarrow> (let v = (if neg then - int n else int n)
                           in if lo \<le> v \<and> v \<le> hi then Some v else None)
              | None \<Rightarrow> None)"

abbreviation "u16_max \<equiv> (65535 :: nat)"
abbreviation "u32_max \<equiv> (4294967295 :: nat)"
abbreviation "u64_max \<equiv> (18446744073709551615 :: nat)"
abbreviation "u8_max \<equiv> (255 :: nat)"

abbreviation parse_u32 :: "string \<Rightarrow> nat option" where "parse_u32 \<equiv> parse_uint u32_max"
abbreviation parse_u64 :: "string \<Rightarrow> nat option" where "parse_u64 \<equiv> parse_uint u64_max"
abbreviation parse_u16 :: "string \<Rightarrow> nat option" where "parse_u16 \<equiv> parse_uint u16_max"
abbreviation parse_u8 :: "string \<Rightarrow> nat option" where "parse_u8 \<equiv> parse_uint u8_max"
abbreviation parse_i32 :: "string \<Rightarrow> int option" where
  "parse_i32 \<equiv> parse_sint (-2147483648) 2147483647"
abbreviation parse_i8 :: "string \<Rightarrow> int option" where "parse_i8 \<equiv> parse_sint (-128) 127"

lemma of_char_digit: "d < 10 \<Longrightarrow> (of_char (digit_char d) :: nat) = 48 + d"
  by (simp add: digit_char_def)

lemma is_digit_digit_char [simp]: "d < 10 \<Longrightarrow> is_digit (digit_char d)"
  by (simp add: is_digit_def of_char_digit)

lemma digit_val_digit_char [simp]: "d < 10 \<Longrightarrow> digit_val (digit_char d) = d"
  by (simp add: digit_val_def of_char_digit)

lemma parse_digits_append:
  "parse_digits acc (xs @ ys) =
     (case parse_digits acc xs of None \<Rightarrow> None | Some m \<Rightarrow> parse_digits m ys)"
  by (induction xs arbitrary: acc) auto

lemma show_nat_not_Nil [simp]: "show_nat n \<noteq> []"
  by (subst show_nat.simps) simp

lemma show_nat_digits: "c \<in> set (show_nat n) \<Longrightarrow> is_digit c"
proof (induction n rule: show_nat.induct)
  case (1 n)
  then show ?case
    by (cases "n < 10") (auto simp: show_nat.simps [of n])
qed

lemma parse_digits_show_nat: "parse_digits 0 (show_nat n) = Some n"
proof (induction n rule: show_nat.induct)
  case (1 n)
  then show ?case
    by (cases "n < 10") (auto simp: show_nat.simps [of n] parse_digits_append)
qed

lemma show_nat_inject [simp]: "show_nat m = show_nat n \<longleftrightarrow> m = n"
  by (metis option.inject parse_digits_show_nat)

lemma not_digit_simps [simp]:
  "\<not> is_digit CHR ''+''" "\<not> is_digit CHR ''-''" "\<not> is_digit CHR '':''" "\<not> is_digit CHR '',''"
  "\<not> is_digit CHR ''.''" "\<not> is_digit CHR '';''" "\<not> is_digit CHR ''=''" "\<not> is_digit CHR '' ''"
  "\<not> is_digit CHR ''*''" "\<not> is_digit CHR ''&''"
  by (simp_all add: is_digit_def)

lemma show_nat_notin: "\<not> is_digit c \<Longrightarrow> c \<notin> set (show_nat n)"
  using show_nat_digits by blast

lemma show_nat_hd_digit: "is_digit (hd (show_nat n))"
  by (rule show_nat_digits [of _ n]) simp

lemma parse_uint_show_nat [simp]: "n \<le> hi \<Longrightarrow> parse_uint hi (show_nat n) = Some n"
proof -
  assume le: "n \<le> hi"
  obtain c cs where eq: "show_nat n = c # cs"
    by (cases "show_nat n") auto
  have "c \<noteq> CHR ''+''"
    using show_nat_hd_digit [of n] eq by auto
  with eq le parse_digits_show_nat [of n] show ?thesis
    by (simp add: parse_uint_def)
qed

lemma parse_uint_le: "parse_uint hi s = Some n \<Longrightarrow> n \<le> hi"
  by (auto simp: parse_uint_def Let_def split: if_splits option.splits)

lemma parse_digits_None: "\<exists>c \<in> set s. \<not> is_digit c \<Longrightarrow> parse_digits acc s = None"
  by (induction s arbitrary: acc) auto

lemma show_int_nonneg: "0 \<le> n \<Longrightarrow> show_int n = show_nat (nat n)"
  by (simp add: show_int_def)

lemma parse_sint_show_int [simp]:
  assumes "lo \<le> n" and "n \<le> hi"
  shows "parse_sint lo hi (show_int n) = Some n"
proof (cases "n < 0")
  case True
  with assms parse_digits_show_nat [of "nat (- n)"] show ?thesis
    by (simp add: parse_sint_def show_int_def)
next
  case False
  obtain c cs where eq: "show_nat (nat n) = c # cs"
    by (cases "show_nat (nat n)") auto
  have "c \<noteq> CHR ''+''" "c \<noteq> CHR ''-''"
    using show_nat_hd_digit [of "nat n"] eq by auto
  with eq False assms parse_digits_show_nat [of "nat n"] show ?thesis
    by (simp add: parse_sint_def show_int_def)
qed

subsection \<open>Hexadecimal numbers\<close>

definition hex_digit_lower :: "nat \<Rightarrow> char" where
  "hex_digit_lower d = (if d < 10 then char_of (48 + d) else char_of (87 + d))"

definition hex_digit_upper :: "nat \<Rightarrow> char" where
  "hex_digit_upper d = (if d < 10 then char_of (48 + d) else char_of (55 + d))"

text \<open>\<open>{:x}\<close>.\<close>

fun show_hex :: "nat \<Rightarrow> string" where
  "show_hex n = (if n < 16 then [hex_digit_lower n]
                 else show_hex (n div 16) @ [hex_digit_lower (n mod 16)])"

declare show_hex.simps [simp del]

text \<open>\<open>{:02X}\<close> of a byte.\<close>

definition show_byte_upper :: "char \<Rightarrow> string" where
  "show_byte_upper c = [hex_digit_upper (of_char c div 16), hex_digit_upper (of_char c mod 16)]"

subsection \<open>Splitting and joining\<close>

text \<open>\<open>s.split(c)\<close>: always at least one piece.\<close>

fun split_on :: "char \<Rightarrow> string \<Rightarrow> string list" where
  "split_on c [] = [[]]"
| "split_on c (x # xs) =
     (if x = c then [] # split_on c xs
      else case split_on c xs of [] \<Rightarrow> [[x]] | p # ps \<Rightarrow> (x # p) # ps)"

text \<open>\<open>parts.join(sep)\<close>.\<close>

fun join :: "string \<Rightarrow> string list \<Rightarrow> string" where
  "join sep [] = []"
| "join sep [p] = p"
| "join sep (p # q # ps) = p @ sep @ join sep (q # ps)"

text \<open>\<open>s.split_once(c)\<close> and \<open>s.rsplit_once(c)\<close>.\<close>

fun split_once :: "char \<Rightarrow> string \<Rightarrow> (string \<times> string) option" where
  "split_once c [] = None"
| "split_once c (x # xs) =
     (if x = c then Some ([], xs)
      else map_option (\<lambda>(l, r). (x # l, r)) (split_once c xs))"

definition rsplit_once :: "char \<Rightarrow> string \<Rightarrow> (string \<times> string) option" where
  "rsplit_once c s = map_option (\<lambda>(l, r). (rev r, rev l)) (split_once c (rev s))"

text \<open>\<open>s.strip_prefix(p)\<close> and \<open>s.strip_suffix(p)\<close>.\<close>

fun strip_prefix :: "string \<Rightarrow> string \<Rightarrow> string option" where
  "strip_prefix [] s = Some s"
| "strip_prefix (p # ps) [] = None"
| "strip_prefix (p # ps) (x # xs) = (if p = x then strip_prefix ps xs else None)"

definition strip_suffix :: "string \<Rightarrow> string \<Rightarrow> string option" where
  "strip_suffix p s = map_option rev (strip_prefix (rev p) (rev s))"

text \<open>\<open>s.find(pat)\<close> for a non-empty pattern: the offset of the first occurrence.\<close>

fun find_sub :: "string \<Rightarrow> string \<Rightarrow> nat option" where
  "find_sub pat [] = (if pat = [] then Some 0 else None)"
| "find_sub pat (x # xs) =
     (if prefix pat (x # xs) then Some 0 else map_option Suc (find_sub pat xs))"

definition contains_sub :: "string \<Rightarrow> string \<Rightarrow> bool" where
  "contains_sub pat s \<longleftrightarrow> find_sub pat s \<noteq> None"

lemma split_on_not_Nil [simp]: "split_on c s \<noteq> []"
  by (induction s) (auto split: list.splits)

lemma split_on_no_sep: "c \<notin> set s \<Longrightarrow> split_on c s = [s]"
  by (induction s) auto

lemma split_on_append:
  "c \<notin> set p \<Longrightarrow> split_on c (p @ c # s) = p # split_on c s"
  by (induction p) auto

lemma split_on_join:
  "ps \<noteq> [] \<Longrightarrow> \<forall>p \<in> set ps. c \<notin> set p \<Longrightarrow> split_on c (join [c] ps) = ps"
  by (induction "[c]" ps rule: join.induct) (auto simp: split_on_no_sep split_on_append)

lemma split_on_pieces: "p \<in> set (split_on c s) \<Longrightarrow> c \<notin> set p"
proof (induction s arbitrary: p)
  case (Cons x xs)
  then show ?case
    by (cases "split_on c xs") (auto split: if_splits)
qed simp

lemma join_split_on: "join [c] (split_on c s) = s"
proof (induction s)
  case (Cons x xs)
  obtain p ps where eq: "split_on c xs = p # ps"
    by (cases "split_on c xs") auto
  show ?case
  proof (cases "x = c")
    case True
    with Cons eq show ?thesis by simp
  next
    case False
    with Cons eq show ?thesis by (cases ps) auto
  qed
qed simp

lemma set_join: "set (join sep ps) \<subseteq> set sep \<union> (\<Union>p \<in> set ps. set p)"
  by (induction sep ps rule: join.induct) auto

lemma split_once_None [simp]: "split_once c s = None \<longleftrightarrow> c \<notin> set s"
  by (induction s) auto

lemma split_once_append [simp]: "c \<notin> set l \<Longrightarrow> split_once c (l @ c # r) = Some (l, r)"
  by (induction l) auto

lemma split_once_Some: "split_once c s = Some (l, r) \<longleftrightarrow> s = l @ c # r \<and> c \<notin> set l"
proof (induction s arbitrary: l)
  case (Cons x xs)
  then show ?case by (cases l) auto
qed simp

lemma rsplit_once_None [simp]: "rsplit_once c s = None \<longleftrightarrow> c \<notin> set s"
  by (simp add: rsplit_once_def)

lemma rsplit_once_append: "c \<notin> set r \<Longrightarrow> rsplit_once c (l @ c # r) = Some (l, r)"
  by (simp add: rsplit_once_def)

lemma rsplit_once_Some: "rsplit_once c s = Some (l, r) \<longleftrightarrow> s = l @ c # r \<and> c \<notin> set r"
proof
  assume "rsplit_once c s = Some (l, r)"
  then obtain l' r' where *: "split_once c (rev s) = Some (l', r')" "l = rev r'" "r = rev l'"
    by (auto simp: rsplit_once_def)
  then have "rev s = l' @ c # r'" and "c \<notin> set l'"
    by (auto simp: split_once_Some)
  then show "s = l @ c # r \<and> c \<notin> set r"
    using * by (metis append.assoc append_Cons append_Nil rev_append rev_rev_ident rev.simps(2) set_rev)
next
  assume "s = l @ c # r \<and> c \<notin> set r"
  then show "rsplit_once c s = Some (l, r)" by (simp add: rsplit_once_append)
qed

lemma strip_prefix_append [simp]: "strip_prefix p (p @ s) = Some s"
  by (induction p) auto

lemma strip_prefix_Some: "strip_prefix p s = Some r \<longleftrightarrow> s = p @ r"
  by (induction p s rule: strip_prefix.induct) auto

lemma strip_prefix_None: "strip_prefix p s = None \<longleftrightarrow> \<not> prefix p s"
  by (induction p s rule: strip_prefix.induct) auto

lemma strip_suffix_append [simp]: "strip_suffix p (s @ p) = Some s"
  by (simp add: strip_suffix_def)

lemma strip_suffix_Some: "strip_suffix p s = Some r \<longleftrightarrow> s = r @ p"
proof
  assume "strip_suffix p s = Some r"
  then have "rev s = rev p @ rev r"
    by (auto simp: strip_suffix_def strip_prefix_Some)
  then show "s = r @ p"
    by (metis rev_append rev_rev_ident)
qed simp

lemma find_sub_Some:
  "pat \<noteq> [] \<Longrightarrow> find_sub pat s = Some i \<Longrightarrow>
     i + length pat \<le> length s \<and> take (length pat) (drop i s) = pat"
proof (induction s arbitrary: i)
  case (Cons x xs)
  show ?case
  proof (cases "prefix pat (x # xs)")
    case True
    with Cons.prems have "i = 0" by simp
    with True prefix_length_le [OF True] show ?thesis
      by (metis add_0 append_eq_conv_conj drop0 prefix_def)
  next
    case False
    with Cons.prems obtain j where "find_sub pat xs = Some j" and "i = Suc j" by auto
    with Cons.IH Cons.prems(1) show ?thesis by simp
  qed
qed simp

lemma find_sub_split:
  assumes "pat \<noteq> []" and "find_sub pat s = Some i"
  shows "s = take i s @ pat @ drop (i + length pat) s"
proof -
  have "take (length pat) (drop i s) = pat"
    using find_sub_Some [OF assms] by simp
  then have "drop i s = pat @ drop (length pat) (drop i s)"
    by (metis append_take_drop_id)
  then have "drop i s = pat @ drop (i + length pat) s"
    by (simp add: add.commute)
  then show ?thesis
    by (metis append_take_drop_id)
qed

subsection \<open>ASCII case mapping\<close>

definition ascii_upper :: "char \<Rightarrow> char" where
  "ascii_upper c = (let n = (of_char c :: nat) in if 97 \<le> n \<and> n \<le> 122 then char_of (n - 32) else c)"

definition ascii_lower :: "char \<Rightarrow> char" where
  "ascii_lower c = (let n = (of_char c :: nat) in if 65 \<le> n \<and> n \<le> 90 then char_of (n + 32) else c)"

definition to_upper :: "string \<Rightarrow> string" where "to_upper = map ascii_upper"
definition to_lower :: "string \<Rightarrow> string" where "to_lower = map ascii_lower"

text \<open>\<open>a.eq_ignore_ascii_case(b)\<close>.\<close>

definition eq_ci :: "string \<Rightarrow> string \<Rightarrow> bool" where
  "eq_ci a b \<longleftrightarrow> to_lower a = to_lower b"

lemmas [str_simps] = ascii_upper_def ascii_lower_def to_upper_def to_lower_def digit_char_def
  show_nat.simps

lemma eq_ci_refl [simp]: "eq_ci a a"
  by (simp add: eq_ci_def)

lemma eq_ci_sym: "eq_ci a b \<longleftrightarrow> eq_ci b a"
  by (auto simp: eq_ci_def)

lemma eq_ci_trans: "eq_ci a b \<Longrightarrow> eq_ci b c \<Longrightarrow> eq_ci a c"
  by (simp add: eq_ci_def)

text \<open>\<open>s.is_char_boundary(n)\<close>: slicing a \<open>&str\<close> anywhere else panics.\<close>

definition char_boundary :: "string \<Rightarrow> nat \<Rightarrow> bool" where
  "char_boundary s n \<longleftrightarrow> n = length s \<or>
     (n < length s \<and> \<not> (128 \<le> (of_char (s ! n) :: nat) \<and> (of_char (s ! n) :: nat) < 192))"

text \<open>
  The helper \<open>strip_prefix_ci\<close> that \<open>imap.rs\<close> and \<open>smtp.rs\<close> each define: \<open>None\<close> is the panic
  of the slice \<open>s[..prefix.len()]\<close>, \<open>Some None\<close> the absent prefix.
\<close>

definition strip_prefix_ci :: "string \<Rightarrow> string \<Rightarrow> string option option" where
  "strip_prefix_ci s p =
     (if length s < length p then Some None
      else if \<not> char_boundary s (length p) then None
      else if eq_ci (take (length p) s) p then Some (Some (drop (length p) s))
      else Some None)"

subsection \<open>White space\<close>

text \<open>
  \<open>char::is_whitespace\<close> over UTF-8: the six ASCII white-space bytes and the multi-byte
  encodings of the other \<open>White_Space\<close> code points (U+0085, U+00A0, U+1680, U+2000..U+200A,
  U+2028, U+2029, U+202F, U+205F, U+3000).
\<close>

definition ascii_ws :: "nat list" where "ascii_ws = [9, 10, 11, 12, 13, 32]"

definition wide_ws :: "nat list list" where
  "wide_ws = [[194, 133], [194, 160], [225, 154, 128]]
     @ map (\<lambda>i. [226, 128, 128 + i]) [0..<11]
     @ [[226, 128, 168], [226, 128, 169], [226, 128, 175], [226, 129, 159], [227, 128, 128]]"

definition ws_codes :: "string list" where
  "ws_codes = map (\<lambda>n. [char_of n]) ascii_ws @ map (map char_of) wide_ws"

text \<open>The white-space character at the front of \<open>s\<close>, as the number of bytes it takes.\<close>

definition ws_len :: "string \<Rightarrow> nat" where
  "ws_len s = (case find (\<lambda>w. prefix w s) ws_codes of Some w \<Rightarrow> length w | None \<Rightarrow> 0)"

lemma ws_codes_not_Nil: "w \<in> set ws_codes \<Longrightarrow> 0 < length w \<and> length w \<le> 3"
  by (auto simp: ws_codes_def wide_ws_def)

lemma find_SomeD: "find P xs = Some x \<Longrightarrow> x \<in> set xs \<and> P x"
  by (induction xs) (auto split: if_splits)

lemma ws_len_le: "ws_len s \<le> length s"
proof (cases "find (\<lambda>w. prefix w s) ws_codes")
  case (Some w)
  from find_SomeD [OF this] have "prefix w s" by simp
  then have "length w \<le> length s" by (rule prefix_length_le)
  with Some show ?thesis by (simp add: ws_len_def)
qed (simp add: ws_len_def)

function trim_start :: "string \<Rightarrow> string" where
  "trim_start s = (if ws_len s = 0 then s else trim_start (drop (ws_len s) s))"
  by pat_completeness auto
termination
  using ws_len_le by (relation "measure length") (auto, metis diff_less le_0_eq length_0_conv length_greater_0_conv neq0_conv)

declare trim_start.simps [simp del]

text \<open>The same at the end of the string, on the reversed byte list.\<close>

definition ws_len_rev :: "string \<Rightarrow> nat" where
  "ws_len_rev r = (case find (\<lambda>w. prefix (rev w) r) ws_codes of Some w \<Rightarrow> length w | None \<Rightarrow> 0)"

lemma ws_len_rev_le: "ws_len_rev s \<le> length s"
proof (cases "find (\<lambda>w. prefix (rev w) s) ws_codes")
  case (Some w)
  from find_SomeD [OF this] have "prefix (rev w) s" by simp
  then have "length (rev w) \<le> length s" by (rule prefix_length_le)
  with Some show ?thesis by (simp add: ws_len_rev_def)
qed (simp add: ws_len_rev_def)

function trim_start_rev :: "string \<Rightarrow> string" where
  "trim_start_rev s = (if ws_len_rev s = 0 then s else trim_start_rev (drop (ws_len_rev s) s))"
  by pat_completeness auto
termination
  using ws_len_rev_le by (relation "measure length") (auto, metis diff_less le_0_eq length_0_conv length_greater_0_conv neq0_conv)

declare trim_start_rev.simps [simp del]

definition trim_end :: "string \<Rightarrow> string" where
  "trim_end s = rev (trim_start_rev (rev s))"

definition trim :: "string \<Rightarrow> string" where
  "trim s = trim_end (trim_start s)"

text \<open>\<open>s.split_whitespace()\<close>: the non-empty runs between white-space characters.\<close>

function split_ws_aux :: "string \<Rightarrow> string \<Rightarrow> string list" where
  "split_ws_aux acc s =
     (case s of
        [] \<Rightarrow> if acc = [] then [] else [rev acc]
      | x # xs \<Rightarrow>
          if ws_len s = 0 then split_ws_aux (x # acc) xs
          else (if acc = [] then [] else [rev acc]) @ split_ws_aux [] (drop (ws_len s) s))"
  by pat_completeness auto
termination
  by (relation "measure (\<lambda>(acc, s). length s)") auto

declare split_ws_aux.simps [simp del]

definition split_ws :: "string \<Rightarrow> string list" where
  "split_ws s = split_ws_aux [] s"

text \<open>Bytes that occur in no white-space character: printable ASCII other than the space.\<close>

definition graphic :: "char \<Rightarrow> bool" where
  "graphic c \<longleftrightarrow> 32 < (of_char c :: nat) \<and> (of_char c :: nat) < 127"

lemma ws_codes_bytes: "w \<in> set ws_codes \<Longrightarrow> c \<in> set w \<Longrightarrow> \<not> graphic c"
  by (auto simp: ws_codes_def wide_ws_def ascii_ws_def graphic_def)

lemma ws_len_graphic: "graphic c \<Longrightarrow> ws_len (c # s) = 0"
proof -
  assume g: "graphic c"
  have "\<not> prefix w (c # s)" if "w \<in> set ws_codes" for w
    using g ws_codes_not_Nil [OF that] ws_codes_bytes [OF that] by (cases w) auto
  then have "find (\<lambda>w. prefix w (c # s)) ws_codes = None"
    by (auto simp: find_None_iff)
  then show ?thesis by (simp add: ws_len_def)
qed

lemma ws_len_rev_graphic: "graphic c \<Longrightarrow> ws_len_rev (c # s) = 0"
proof -
  assume g: "graphic c"
  have "\<not> prefix (rev w) (c # s)" if "w \<in> set ws_codes" for w
  proof -
    have "rev w \<noteq> []" using ws_codes_not_Nil [OF that] by auto
    then obtain a b where "rev w = a # b" by (cases "rev w") auto
    moreover from this have "a \<in> set w" by (metis list.set_intros(1) set_rev)
    ultimately show ?thesis using g ws_codes_bytes [OF that] by auto
  qed
  then have "find (\<lambda>w. prefix (rev w) (c # s)) ws_codes = None"
    by (auto simp: find_None_iff)
  then show ?thesis by (simp add: ws_len_rev_def)
qed

lemma ws_len_Nil [simp]: "ws_len [] = 0"
  using ws_len_le [of "[]"] by simp

lemma ws_len_rev_Nil [simp]: "ws_len_rev [] = 0"
  using ws_len_rev_le [of "[]"] by simp

lemma trim_start_graphic: "s = [] \<or> graphic (hd s) \<Longrightarrow> trim_start s = s"
  by (subst trim_start.simps) (cases s; simp add: ws_len_graphic)

lemma trim_end_graphic: "s = [] \<or> graphic (last s) \<Longrightarrow> trim_end s = s"
proof -
  assume a: "s = [] \<or> graphic (last s)"
  have "ws_len_rev (rev s) = 0"
  proof (cases "rev s")
    case (Cons x xs)
    then have "last s = x" by (metis hd_rev list.sel(1))
    with a Cons show ?thesis by (auto simp: ws_len_rev_graphic)
  qed simp
  then have "trim_start_rev (rev s) = rev s"
    by (subst trim_start_rev.simps) simp
  then show ?thesis by (simp add: trim_end_def)
qed

lemma trim_graphic: "\<forall>c \<in> set s. graphic c \<Longrightarrow> trim s = s"
  by (cases "s = []") (auto simp: trim_def trim_start_graphic trim_end_graphic)

lemma graphic_digit: "is_digit c \<Longrightarrow> graphic c"
  by (simp add: is_digit_def graphic_def)

lemma trim_show_nat [simp]: "trim (show_nat n) = show_nat n"
  by (rule trim_graphic) (auto dest: show_nat_digits graphic_digit)

subsection \<open>Debug formatting\<close>

text \<open>
  \<open>{s:?}\<close> of a string: quoted, with the escapes of \<open>str::escape_debug\<close> for ASCII; a byte
  of a multi-byte character is passed through (a non-printable code point outside ASCII,
  which Rust would escape, is not told apart).
\<close>

definition debug_char :: "char \<Rightarrow> string" where
  "debug_char c =
     (let n = (of_char c :: nat) in
      if n = 0 then [CHR 0x5C, CHR ''0'']
      else if n = 9 then [CHR 0x5C, CHR ''t'']
      else if n = 10 then [CHR 0x5C, CHR ''n'']
      else if n = 13 then [CHR 0x5C, CHR ''r'']
      else if n = 34 then [CHR 0x5C, CHR 0x22]
      else if n = 92 then [CHR 0x5C, CHR 0x5C]
      else if n < 32 \<or> n = 127 then [CHR 0x5C] @ ''u{'' @ show_hex n @ ''}''
      else [c])"

definition debug_str :: "string \<Rightarrow> string" where
  "debug_str s = [CHR 0x22] @ concat (map debug_char s) @ [CHR 0x22]"

subsection \<open>UTF-8\<close>

text \<open>
  The ranges of the bytes that may follow a lead byte (\<open>core::str::validations\<close>); \<open>None\<close>
  for a byte that starts no character.
\<close>

definition utf8_follow :: "nat \<Rightarrow> (nat \<times> nat) list option" where
  "utf8_follow b =
     (if b < 128 then Some []
      else if 194 \<le> b \<and> b \<le> 223 then Some [(128, 191)]
      else if b = 224 then Some [(160, 191), (128, 191)]
      else if (225 \<le> b \<and> b \<le> 236) \<or> b = 238 \<or> b = 239 then Some [(128, 191), (128, 191)]
      else if b = 237 then Some [(128, 159), (128, 191)]
      else if b = 240 then Some [(144, 191), (128, 191), (128, 191)]
      else if 241 \<le> b \<and> b \<le> 243 then Some [(128, 191), (128, 191), (128, 191)]
      else if b = 244 then Some [(128, 143), (128, 191), (128, 191)]
      else None)"

fun utf8_conts :: "(nat \<times> nat) list \<Rightarrow> string \<Rightarrow> nat \<times> bool" where
  "utf8_conts [] s = (0, True)"
| "utf8_conts (r # rs) [] = (0, False)"
| "utf8_conts ((lo, hi) # rs) (c # s) =
     (if lo \<le> (of_char c :: nat) \<and> (of_char c :: nat) \<le> hi
      then (let (n, ok) = utf8_conts rs s in (Suc n, ok)) else (0, False))"

text \<open>The length of the character (or of the maximal invalid prefix) that starts with \<open>c\<close>.\<close>

definition utf8_head :: "char \<Rightarrow> string \<Rightarrow> nat \<times> bool" where
  "utf8_head c s = (case utf8_follow (of_char c) of
      None \<Rightarrow> (1, False)
    | Some rs \<Rightarrow> (let (n, ok) = utf8_conts rs s in (Suc n, ok)))"

lemma utf8_head_pos: "0 < fst (utf8_head c s)"
  by (auto simp: utf8_head_def split: option.splits prod.splits)

text \<open>\<open>String::from_utf8_lossy\<close>: each maximal invalid prefix becomes U+FFFD.\<close>

function utf8_lossy :: "string \<Rightarrow> string" where
  "utf8_lossy s =
     (case s of
        [] \<Rightarrow> []
      | c # cs \<Rightarrow>
          (let (n, ok) = utf8_head c cs
           in (if ok then take n s else [CHR 0xEF, CHR 0xBF, CHR 0xBD]) @ utf8_lossy (drop n s)))"
  by pat_completeness auto
termination
proof (relation "measure length")
  fix s :: string and c cs x n and ok :: bool
  assume "s = c # cs" and "x = utf8_head c cs" and "(n, ok) = x"
  then show "(drop n s, s) \<in> measure length"
    using utf8_head_pos [of c cs] by (metis fst_conv in_measure length_drop diff_less length_greater_0_conv list.distinct(1))
qed simp

declare utf8_lossy.simps [simp del]

text \<open>\<open>std::str::from_utf8(b).is_ok()\<close>.\<close>

function utf8_valid :: "string \<Rightarrow> bool" where
  "utf8_valid s =
     (case s of
        [] \<Rightarrow> True
      | c # cs \<Rightarrow> (let (n, ok) = utf8_head c cs in ok \<and> utf8_valid (drop n s)))"
  by pat_completeness auto
termination
proof (relation "measure length")
  fix s :: string and c cs x n and ok :: bool
  assume "s = c # cs" and "x = utf8_head c cs" and "(n, ok) = x"
  then show "(drop n s, s) \<in> measure length"
    using utf8_head_pos [of c cs] by (metis fst_conv in_measure length_drop diff_less length_greater_0_conv list.distinct(1))
qed simp

declare utf8_valid.simps [simp del]

lemma utf8_lossy_valid: "utf8_valid s \<Longrightarrow> utf8_lossy s = s"
proof (induction s rule: utf8_lossy.induct)
  case (1 s)
  show ?case
  proof (cases s)
    case Nil
    then show ?thesis by (simp add: utf8_lossy.simps)
  next
    case (Cons c cs)
    obtain n ok where h: "utf8_head c cs = (n, ok)" by fastforce
    from "1.prems" Cons h have ok: ok and v: "utf8_valid (drop n s)"
      by (auto simp: utf8_valid.simps [of "c # cs"])
    from "1.IH" [OF Cons refl] h v have "utf8_lossy (drop n s) = drop n s"
      by metis
    with Cons h ok show ?thesis
      by (simp add: utf8_lossy.simps [of "c # cs"])
  qed
qed

lemma utf8_head_ascii: "(of_char c :: nat) < 128 \<Longrightarrow> utf8_head c s = (1, True)"
  by (simp add: utf8_head_def utf8_follow_def)

lemma utf8_valid_ascii: "\<forall>c \<in> set s. (of_char c :: nat) < 128 \<Longrightarrow> utf8_valid s"
proof (induction s)
  case Nil
  show ?case by (simp add: utf8_valid.simps)
next
  case (Cons c s)
  then show ?case by (simp add: utf8_valid.simps [of "c # s"] utf8_head_ascii)
qed

lemma utf8_lossy_ascii: "\<forall>c \<in> set s. (of_char c :: nat) < 128 \<Longrightarrow> utf8_lossy s = s"
  by (simp add: utf8_lossy_valid utf8_valid_ascii)

subsection \<open>Constants of the wire formats\<close>

abbreviation crlf :: string where "crlf \<equiv> [CHR 0x0D, CHR 0x0A]"
abbreviation dquote :: string where "dquote \<equiv> [CHR 0x22]"

text \<open>\<open>strip_crlf\<close> of \<open>imap.rs\<close> and \<open>smtp.rs\<close>.\<close>

definition strip_crlf :: "string \<Rightarrow> string" where
  "strip_crlf s = (case strip_suffix crlf s of
      Some r \<Rightarrow> r
    | None \<Rightarrow> (case strip_suffix [CHR 0x0A] s of Some r \<Rightarrow> r | None \<Rightarrow> s))"

subsection \<open>Lists\<close>

text \<open>\<open>v.sort(); v.dedup()\<close> on strings.\<close>

definition sort_dedup :: "string list \<Rightarrow> string list" where
  "sort_dedup xs = remdups_adj (sort xs)"

lemma set_sort_dedup [simp]: "set (sort_dedup xs) = set xs"
  by (simp add: sort_dedup_def)

lemma sorted_sort_dedup: "sorted (sort_dedup xs)"
  by (simp add: sort_dedup_def)

lemma distinct_sort_dedup [simp]: "distinct (sort_dedup xs)"
proof -
  have "distinct (remdups_adj ys)" if "sorted ys" for ys :: "string list"
    using that by (induction ys rule: remdups_adj.induct) auto
  then show ?thesis by (simp add: sort_dedup_def)
qed

lemma sort_dedup_eq_iff: "sort_dedup xs = sort_dedup ys \<longleftrightarrow> set xs = set ys"
  by (metis distinct_sort_dedup set_sort_dedup sorted_distinct_set_unique sorted_sort_dedup)

lemma sort_dedup_idem [simp]: "sort_dedup (sort_dedup xs) = sort_dedup xs"
  by (simp add: sort_dedup_eq_iff)

text \<open>The position-numbered view \<open>iter().enumerate()\<close> of a slice.\<close>

definition enumerate0 :: "'a list \<Rightarrow> (nat \<times> 'a) list" where
  "enumerate0 xs = enumerate 0 xs"

text \<open>Replacing the first element a predicate holds for (\<open>iter_mut().find(..)\<close>).\<close>

fun update_first :: "('a \<Rightarrow> bool) \<Rightarrow> ('a \<Rightarrow> 'a) \<Rightarrow> 'a list \<Rightarrow> 'a list" where
  "update_first P f [] = []"
| "update_first P f (x # xs) = (if P x then f x # xs else x # update_first P f xs)"

lemma length_update_first [simp]: "length (update_first P f xs) = length xs"
  by (induction xs) auto

lemma update_first_id: "\<forall>x \<in> set xs. \<not> P x \<Longrightarrow> update_first P f xs = xs"
  by (induction xs) auto

lemma map_update_first: "(\<And>x. g (f x) = g x) \<Longrightarrow> map g (update_first P f xs) = map g xs"
  by (induction xs) auto

text \<open>Removing the first element a predicate holds for (\<open>position\<close> and \<open>remove\<close>).\<close>

fun remove_first :: "('a \<Rightarrow> bool) \<Rightarrow> 'a list \<Rightarrow> 'a list" where
  "remove_first P [] = []"
| "remove_first P (x # xs) = (if P x then xs else x # remove_first P xs)"

lemma update_first_distinct:
  "distinct (map k xs) \<Longrightarrow>
     update_first (\<lambda>x. k x = i) g xs = map (\<lambda>x. if k x = i then g x else x) xs"
proof (induction xs)
  case (Cons x xs)
  show ?case
  proof (cases "k x = i")
    case True
    with Cons.prems have "\<forall>y \<in> set xs. k y \<noteq> i" by (auto simp: image_iff)
    then show ?thesis using True by (simp add: map_idI)
  qed (use Cons in simp)
qed simp

lemma remove_first_distinct:
  "distinct (map k xs) \<Longrightarrow> remove_first (\<lambda>x. k x = i) xs = filter (\<lambda>x. k x \<noteq> i) xs"
proof (induction xs)
  case (Cons x xs)
  show ?case
  proof (cases "k x = i")
    case True
    with Cons.prems have "\<forall>y \<in> set xs. k y \<noteq> i" by (auto simp: image_iff)
    then show ?thesis using True by simp
  qed (use Cons in simp)
qed simp

lemma find_only:
  assumes "x \<in> set xs" and "P x" and "\<forall>y \<in> set xs. P y \<longrightarrow> y = x"
  shows "find P xs = Some x"
proof (cases "find P xs")
  case None
  with assms(1,2) show ?thesis by (simp add: find_None_iff)
next
  case (Some y)
  then have "y \<in> set xs" "P y" by (auto simp: find_Some_iff)
  with assms(3) Some show ?thesis by blast
qed

lemma update_first_at:
  assumes "find P xs = Some x"
  shows "\<exists>n < length xs. xs ! n = x \<and> update_first P g xs = xs[n := g x]"
  using assms
proof (induction xs)
  case (Cons y ys)
  show ?case
  proof (cases "P y")
    case True
    then show ?thesis using Cons.prems by (intro exI [of _ 0]) simp
  next
    case False
    with Cons obtain n where "n < length ys" "ys ! n = x" "update_first P g ys = ys[n := g x]" by auto
    then show ?thesis using False by (intro exI [of _ "Suc n"]) simp
  qed
qed simp

lemma update_first_cong:
  "(\<And>x. x \<in> set xs \<Longrightarrow> P x = Q x) \<Longrightarrow> update_first P g xs = update_first Q g xs"
  by (induction xs) auto

lemma fold_same:
  "(\<And>x f. k (g x f) = k f) \<Longrightarrow> k (fold g xs f) = k f"
  by (induction xs arbitrary: f) auto

end
