(* ===== verification/Rust_Collections.thy ===== *)
theory Rust_Collections
  imports Rust_Prelude
begin

text \<open>
  The containers the program is built on, and the contracts its components rely on.
  A \<open>BTreeMap\<close> (and a \<open>HashMap\<close>, whose iteration order nothing here observes) is an
  association list kept in strictly ascending key order, so that iterating it is iterating
  the list; \<open>dict\<close> is the contract the clients use. A capped \<open>VecDeque\<close> that drops its
  oldest entry is a list with the contract \<open>bounded_ring\<close>, shared by the per-account change
  log and the request log. A counter that mints fresh ids has the contract \<open>id_mint\<close>.
\<close>

subsection \<open>Ordered maps\<close>

type_synonym ('k, 'v) btmap = "('k \<times> 'v) list"

fun bt_insert :: "'k::linorder \<Rightarrow> 'v \<Rightarrow> ('k, 'v) btmap \<Rightarrow> ('k, 'v) btmap" where
  "bt_insert k v [] = [(k, v)]"
| "bt_insert k v (e # m) =
     (if k = fst e then (k, v) # m
      else if k < fst e then (k, v) # e # m
      else e # bt_insert k v m)"

definition bt_remove :: "'k \<Rightarrow> ('k, 'v) btmap \<Rightarrow> ('k, 'v) btmap" where
  "bt_remove k m = filter (\<lambda>e. fst e \<noteq> k) m"

definition bt_ok :: "('k::linorder, 'v) btmap \<Rightarrow> bool" where
  "bt_ok m \<longleftrightarrow> sorted_wrt (<) (map fst m)"

text \<open>\<open>map.entry(k).or_insert(d)\<close> followed by an in-place update \<open>f\<close> of the value.\<close>

definition bt_entry :: "'k::linorder \<Rightarrow> 'v \<Rightarrow> ('v \<Rightarrow> 'v) \<Rightarrow> ('k, 'v) btmap \<Rightarrow> ('k, 'v) btmap" where
  "bt_entry k d f m = bt_insert k (f (case map_of m k of Some v \<Rightarrow> v | None \<Rightarrow> d)) m"

lemma bt_insert_keys [simp]: "fst ` set (bt_insert k v m) = insert k (fst ` set m)"
  by (induction m) auto

lemma map_of_bt_insert [simp]: "map_of (bt_insert k v m) = (map_of m)(k \<mapsto> v)"
proof (induction m)
  case (Cons e m)
  then show ?case by (cases e) auto
qed simp

lemma bt_ok_Nil [simp]: "bt_ok []"
  by (simp add: bt_ok_def)

lemma bt_ok_insert [simp]: "bt_ok m \<Longrightarrow> bt_ok (bt_insert k v m)"
proof (induction m)
  case (Cons e m)
  have keys: "\<forall>y \<in> fst ` set (bt_insert k v m). fst e < y" if "fst e < k"
    using Cons.prems that by (simp add: bt_ok_def)
  have rest: "bt_ok (bt_insert k v m)"
    using Cons by (simp add: bt_ok_def)
  show ?case
    using Cons.prems rest keys by (auto simp: bt_ok_def dest: order.strict_trans)
qed (simp add: bt_ok_def)

lemma map_of_bt_remove [simp]: "map_of (bt_remove k m) = (map_of m)(k := None)"
  by (induction m) (auto simp: bt_remove_def)

lemma bt_ok_remove [simp]: "bt_ok m \<Longrightarrow> bt_ok (bt_remove k m)"
  by (simp add: bt_ok_def bt_remove_def sorted_wrt_map sorted_wrt_filter)

lemma map_of_bt_entry [simp]:
  "map_of (bt_entry k d f m) = (map_of m)(k \<mapsto> f (case map_of m k of Some v \<Rightarrow> v | None \<Rightarrow> d))"
  by (simp add: bt_entry_def)

lemma bt_ok_entry [simp]: "bt_ok m \<Longrightarrow> bt_ok (bt_entry k d f m)"
  by (simp add: bt_entry_def)

lemma bt_ok_distinct: "bt_ok m \<Longrightarrow> distinct (map fst m)"
  by (simp add: bt_ok_def strict_sorted_iff)

lemma bt_ok_mem: "bt_ok m \<Longrightarrow> (k, v) \<in> set m \<longleftrightarrow> map_of m k = Some v"
  by (auto intro: map_of_is_SomeI [OF bt_ok_distinct] dest: map_of_SomeD)

lemma bt_insert_ne [simp]: "bt_insert k v m \<noteq> []"
  by (cases m) auto

text \<open>The contract of a dictionary and what a client may conclude from it.\<close>

locale dict =
  fixes lookup :: "'m \<Rightarrow> 'k \<Rightarrow> 'v option"
    and put :: "'k \<Rightarrow> 'v \<Rightarrow> 'm \<Rightarrow> 'm"
    and del :: "'k \<Rightarrow> 'm \<Rightarrow> 'm"
    and ok :: "'m \<Rightarrow> bool"
  assumes lookup_put: "ok m \<Longrightarrow> lookup (put k v m) k' = (if k' = k then Some v else lookup m k')"
    and lookup_del: "ok m \<Longrightarrow> lookup (del k m) k' = (if k' = k then None else lookup m k')"
    and ok_put: "ok m \<Longrightarrow> ok (put k v m)"
    and ok_del: "ok m \<Longrightarrow> ok (del k m)"
begin

lemma put_other: "ok m \<Longrightarrow> k' \<noteq> k \<Longrightarrow> lookup (put k v m) k' = lookup m k'"
  by (simp add: lookup_put)

lemma put_then_del: "ok m \<Longrightarrow> lookup (del k (put k v m)) k' = lookup (del k m) k'"
  by (simp add: lookup_put lookup_del ok_put)

lemma ok_fold_put: "ok m \<Longrightarrow> ok (fold (\<lambda>(k, v). put k v) kvs m)"
  by (induction kvs arbitrary: m) (auto simp: ok_put)

lemma lookup_fold_put:
  "ok m \<Longrightarrow> distinct (map fst kvs) \<Longrightarrow>
     lookup (fold (\<lambda>(k, v). put k v) kvs m) k =
       (case map_of kvs k of Some v \<Rightarrow> Some v | None \<Rightarrow> lookup m k)"
proof (induction kvs arbitrary: m)
  case (Cons kv kvs)
  obtain k1 v1 where kv: "kv = (k1, v1)" by fastforce
  have "lookup (fold (\<lambda>(k, v). put k v) kvs (put k1 v1 m)) k =
      (case map_of kvs k of Some v \<Rightarrow> Some v | None \<Rightarrow> lookup (put k1 v1 m) k)"
    using Cons kv by (simp add: ok_put)
  moreover have "map_of kvs k1 = None"
    using Cons.prems kv by (auto simp: map_of_eq_None_iff)
  ultimately show ?case
    using Cons.prems kv by (auto simp: lookup_put split: option.splits)
qed simp

end

interpretation bt: dict map_of bt_insert bt_remove bt_ok
  by unfold_locales auto

subsection \<open>Capped queues\<close>

text \<open>
  \<open>cap\<close> is the capacity. A push on a full queue drops the oldest entry; the contract is what
  the two pushes of the program have in common.
\<close>

locale bounded_ring =
  fixes cap :: nat
    and push :: "'a \<Rightarrow> 'a list \<Rightarrow> 'a list"
  assumes cap_pos: "0 < cap"
    and push_room: "length r < cap \<Longrightarrow> push x r = r @ [x]"
    and push_full: "cap \<le> length r \<Longrightarrow> push x r = tl r @ [x]"
begin

lemma push_drop: "length r \<le> cap \<Longrightarrow> push x r = drop (Suc (length r) - cap) (r @ [x])"
  using cap_pos by (cases "length r < cap") (auto simp: push_room push_full drop_Suc)

lemma push_len: "length r \<le> cap \<Longrightarrow> length (push x r) \<le> cap"
  by (simp add: push_drop)

lemma last_push: "last (push x r) = x"
  by (cases "length r < cap") (simp_all add: push_room push_full not_less)

lemma push_ne: "push x r \<noteq> []"
  by (cases "length r < cap") (simp_all add: push_room push_full not_less)

lemma set_push: "set (push x r) \<subseteq> insert x (set r)"
  by (cases "length r < cap"; cases r) (auto simp: push_room push_full not_less)

lemma fold_push:
  "length r \<le> cap \<Longrightarrow> fold push xs r = drop (length r + length xs - cap) (r @ xs)"
proof (induction xs arbitrary: r)
  case (Cons x xs)
  let ?r = "push x r"
  have len: "length ?r \<le> cap" using Cons.prems by (rule push_len)
  show ?case
  proof (cases "length r < cap")
    case True
    then have "?r = r @ [x]" by (rule push_room)
    with Cons.IH [OF len] show ?thesis by simp
  next
    case False
    with Cons.prems have full: "length r = cap" by simp
    then have "?r = tl r @ [x]" by (simp add: push_full)
    moreover obtain y ys where "r = y # ys"
      using full cap_pos by (cases r) auto
    ultimately show ?thesis
      using Cons.IH [OF len] by (simp add: full [symmetric])
  qed
qed simp

lemma fold_push_len: "length r \<le> cap \<Longrightarrow> length (fold push xs r) = min cap (length r + length xs)"
  by (simp add: fold_push)

lemma fold_push_keeps_all: "length r + length xs \<le> cap \<Longrightarrow> fold push xs r = r @ xs"
  by (simp add: fold_push)

end

subsection \<open>Minting ids\<close>

text \<open>
  A store that mints ids \<open>prefix\<close> \<open>n\<close> from a counter that only grows: no two mints along a
  run return the same id.
\<close>

locale id_mint =
  fixes mint :: "'s \<Rightarrow> string \<times> 's"
    and seq :: "'s \<Rightarrow> nat"
    and pre :: string
  assumes mint_id: "fst (mint s) = pre @ show_nat (Suc (seq s))"
    and mint_seq: "seq (snd (mint s)) = Suc (seq s)"
begin

fun mint_many :: "nat \<Rightarrow> 's \<Rightarrow> string list \<times> 's" where
  "mint_many 0 s = ([], s)"
| "mint_many (Suc n) s =
     (let (i, s') = mint s; (is, s'') = mint_many n s' in (i # is, s''))"

lemma mint_many_ids: "fst (mint_many n s) = map (\<lambda>k. pre @ show_nat (seq s + Suc k)) [0..<n]"
proof (induction n arbitrary: s)
  case (Suc n)
  obtain i s' where m: "mint s = (i, s')" by fastforce
  have "i = pre @ show_nat (Suc (seq s))" "seq s' = Suc (seq s)"
    using mint_id [of s] mint_seq [of s] m by auto
  then show ?case
    using Suc [of s'] m
    by (simp add: case_prod_beta Let_def upt_conv_Cons map_Suc_upt [symmetric] del: upt_Suc)
qed simp

lemma mint_many_distinct: "distinct (fst (mint_many n s))"
  by (simp add: mint_many_ids distinct_map inj_on_def)

end

end
