(* ===== verification/Fixture_Types.thy ===== *)
theory Fixture_Types
  imports Rust_Collections
begin

text \<open>
  The data model of \<open>src/fixture.rs\<close>: one record per struct, one datatype per enum, with the
  source's field names (prefixed where two structs share a name). A \<open>jiff::Timestamp\<close> is an
  integer, the nanoseconds since the epoch it is ordered by; a \<open>serde_json::Value\<close> is the
  datatype \<open>json\<close>, its objects in the key order of serde's \<open>BTreeMap\<close>.
  Counters and sizes are natural numbers or integers: none of the operations modelled here
  can bring a \<open>u64\<close> to overflow in fewer than 2^64 steps.
\<close>

type_synonym timestamp = int

subsection \<open>JSON values\<close>

datatype json_number = PosInt nat | NegInt int | JFloat string

datatype json =
    JNull
  | JBool bool
  | JNumber json_number
  | JString string
  | JArray "json list"
  | JObject "(string \<times> json) list"

subsection \<open>Enumerations\<close>

datatype role = Inbox | Archive | Drafts | Sent | Trash | Junk | Important

fun role_as_str :: "role \<Rightarrow> string" where
  "role_as_str Inbox = ''inbox''"
| "role_as_str Archive = ''archive''"
| "role_as_str Drafts = ''drafts''"
| "role_as_str Sent = ''sent''"
| "role_as_str Trash = ''trash''"
| "role_as_str Junk = ''junk''"
| "role_as_str Important = ''important''"

definition role_parse :: "string \<Rightarrow> string + role" where
  "role_parse s =
     (if s = ''inbox'' then Inr Inbox
      else if s = ''archive'' then Inr Archive
      else if s = ''drafts'' then Inr Drafts
      else if s = ''sent'' then Inr Sent
      else if s = ''trash'' then Inr Trash
      else if s = ''junk'' then Inr Junk
      else if s = ''important'' then Inr Important
      else Inl (''unknown role '' @ debug_str s))"

datatype disposition = Attach | Inline

fun disposition_as_str :: "disposition \<Rightarrow> string" where
  "disposition_as_str Attach = ''attachment''"
| "disposition_as_str Inline = ''inline''"

definition disposition_parse :: "string \<Rightarrow> string + disposition" where
  "disposition_parse s =
     (if s = ''attachment'' then Inr Attach
      else if s = ''inline'' then Inr Inline
      else Inl (''unknown disposition '' @ debug_str s))"

datatype participation_status = NeedsAction | Accepted | Declined | Tentative

fun as_jscalendar :: "participation_status \<Rightarrow> string" where
  "as_jscalendar NeedsAction = ''needs-action''"
| "as_jscalendar Accepted = ''accepted''"
| "as_jscalendar Declined = ''declined''"
| "as_jscalendar Tentative = ''tentative''"

fun as_google :: "participation_status \<Rightarrow> string" where
  "as_google NeedsAction = ''needsAction''"
| "as_google Accepted = ''accepted''"
| "as_google Declined = ''declined''"
| "as_google Tentative = ''tentative''"

fun as_graph :: "participation_status \<Rightarrow> string" where
  "as_graph NeedsAction = ''notResponded''"
| "as_graph Accepted = ''accepted''"
| "as_graph Declined = ''declined''"
| "as_graph Tentative = ''tentativelyAccepted''"

fun as_partstat :: "participation_status \<Rightarrow> string" where
  "as_partstat NeedsAction = ''NEEDS-ACTION''"
| "as_partstat Accepted = ''ACCEPTED''"
| "as_partstat Declined = ''DECLINED''"
| "as_partstat Tentative = ''TENTATIVE''"

text \<open>\<open>s.to_ascii_lowercase().replace(['_', '-'], "")\<close> matched against the spellings.\<close>

definition participation_parse :: "string \<Rightarrow> participation_status option" where
  "participation_parse s =
     (let k = filter (\<lambda>c. c \<noteq> CHR ''_'' \<and> c \<noteq> CHR ''-'') (to_lower s) in
      if k = ''needsaction'' \<or> k = ''notresponded'' \<or> k = ''none'' \<or> k = ''organizer''
      then Some NeedsAction
      else if k = ''accepted'' then Some Accepted
      else if k = ''declined'' then Some Declined
      else if k = ''tentative'' \<or> k = ''tentativelyaccepted'' then Some Tentative
      else None)"

subsection \<open>Mail\<close>

record address =
  ad_name :: "string option"
  ad_email :: string

datatype body = Text string

record attachment =
  at_blob_id :: string
  at_name :: string
  at_content_type :: string
  at_size :: int
  at_disposition :: disposition
  at_cid :: "string option"
  at_data :: bytes

record email =
  em_id :: string
  em_account_id :: string
  em_thread_id :: string
  mailbox_ids :: "string list"
  em_keywords :: "string list"
  em_size :: int
  received_at :: timestamp
  sent_at :: timestamp
  em_from :: "address option"
  em_to :: "address list"
  em_cc :: "address list"
  em_bcc :: "address list"
  reply_to :: "address list"
  em_subject :: "string option"
  em_preview :: "string option"
  message_id :: "string list"
  in_reply_to :: "string list"
  em_references :: "string list"
  has_attachment :: bool
  em_body :: body
  attachments :: "attachment list"
  raw_bytes :: "string option"
  reaction_type :: "string option"
  reaction_count :: "int option"

record mailbox =
  mb_id :: string
  mb_account_id :: string
  mb_name :: string
  mb_role :: "role option"
  mb_parent_id :: "string option"
  sort_order :: "int option"
  is_subscribed :: bool

record account =
  ac_id :: string
  ac_name :: string
  is_personal :: bool
  primary :: bool

record acl_grant =
  acl_mailbox_id :: string
  acl_identifier :: string
  acl_rights :: string

text \<open>\<open>OWNER_RIGHTS\<close> and \<open>DEFAULT_SHARED_RIGHTS\<close>.\<close>

definition owner_rights :: string where "owner_rights = ''lrswipkxtea''"
definition default_shared_rights :: string where "default_shared_rights = ''lr''"

subsection \<open>Calendars, contacts, groups\<close>

record calendar =
  cal_id :: string
  cal_name :: string
  cal_color :: "string option"
  cal_is_default :: bool
  cal_account_id :: string
  caldav_empty_report :: bool

record reminder =
  rm_trigger :: string
  rm_absolute :: bool
  related_end :: bool
  rm_action :: "string option"

record event_attendee =
  ea_address :: address
  ea_status :: participation_status

definition event_attendee_new :: "address \<Rightarrow> event_attendee" where
  "event_attendee_new a = \<lparr>ea_address = a, ea_status = NeedsAction\<rparr>"

definition event_attendee_email :: "event_attendee \<Rightarrow> string" where
  "event_attendee_email a = ad_email (ea_address a)"

record event =
  ev_id :: string
  ev_account_id :: string
  ev_calendar_id :: string
  ev_subject :: string
  body_preview :: "string option"
  body_text :: "string option"
  ev_start :: timestamp
  ev_end :: timestamp
  ev_location :: "string option"
  organizer :: "address option"
  attendees :: "event_attendee list"
  is_all_day :: bool
  recurrence_rule :: "string option"
  recurrence_exdates :: "timestamp list"
  time_zone :: "string option"
  reminders :: "reminder list"
  raw_ical :: "string option"

record contact_folder =
  cf_id :: string
  cf_account_id :: string
  cf_display_name :: string
  cf_parent_folder_id :: "string option"
  cf_is_default :: bool

record contact_email =
  ce_address :: string
  ce_name :: "string option"

record contact_phone =
  cp_number :: string
  cp_kind :: "string option"

record contact =
  ct_id :: string
  ct_account_id :: string
  ct_folder_id :: string
  ct_display_name :: "string option"
  ct_emails :: "contact_email list"
  ct_phones :: "contact_phone list"
  ct_company :: "string option"
  ct_job_title :: "string option"
  ct_department :: "string option"
  ct_notes :: "string option"
  ct_groups :: "string list"
  malformed_vcard :: bool

record contact_group =
  cg_id :: string
  cg_account_id :: string
  cg_name :: string

record other_contact =
  oc_id :: string
  oc_account_id :: string
  oc_display_name :: "string option"
  oc_emails :: "contact_email list"
  oc_phones :: "contact_phone list"

record directory_person =
  dp_id :: string
  dp_account_id :: string
  dp_display_name :: "string option"
  dp_emails :: "contact_email list"
  dp_phones :: "contact_phone list"
  dp_company :: "string option"
  dp_job_title :: "string option"
  dp_department :: "string option"

record category =
  ca_id :: string
  ca_account_id :: string
  ca_display_name :: string
  ca_color :: "string option"

record send_as =
  sa_account_id :: string
  send_as_email :: string
  sa_display_name :: "string option"
  reply_to_address :: "string option"
  signature :: "string option"
  sa_is_primary :: bool
  sa_is_default :: bool
  treat_as_alias :: bool

record group =
  gr_id :: string
  gr_display_name :: string
  gr_description :: "string option"
  gr_mail :: "string option"
  mail_enabled :: bool
  security_enabled :: bool
  group_types :: "string list"
  gr_members :: "string list"

record effective_rights =
  create_associated :: bool
  create_contents :: bool
  create_hierarchy :: bool
  er_delete :: bool
  er_modify :: bool
  er_read :: bool
  view_private_items :: bool

definition effective_rights_default :: effective_rights where
  "effective_rights_default = \<lparr>create_associated = False, create_contents = False,
     create_hierarchy = False, er_delete = False, er_modify = False, er_read = True,
     view_private_items = False\<rparr>"

record public_folder =
  pf_id :: string
  pf_display_name :: string
  pf_parent_id :: "string option"
  folder_class :: string
  pf_effective_rights :: effective_rights

record public_item =
  pi_id :: string
  pi_folder_id :: string
  pi_subject :: string
  pi_from :: address
  pi_to :: "address list"
  pi_body_text :: string
  pi_body_html :: "string option"
  pi_attachments :: "attachment list"
  pi_received_at :: timestamp

subsection \<open>Configuration\<close>

record oauth_config =
  enforce :: bool
  issuer :: string

definition oauth_config_default :: oauth_config where
  "oauth_config_default = \<lparr>enforce = False, issuer = ''https://saehrimnir.test/oauth''\<rparr>"

record caldav_config =
  scheduling :: bool

definition caldav_config_default :: caldav_config where
  "caldav_config_default = \<lparr>scheduling = True\<rparr>"

record announce_trigger =
  an_step :: string
  an_before :: string
  an_nth :: nat

record web_finger_link =
  wf_rel :: string
  wf_href :: string

record web_finger_doc =
  wf_links :: "web_finger_link list"
  wf_raw_body :: "string option"
  wf_raw_content_type :: "string option"

record oidc_doc =
  oidc_issuer :: string
  authorization_endpoint :: string
  token_endpoint_url :: string
  userinfo_endpoint_url :: "string option"
  scopes_supported :: "string list"
  code_challenge_methods_supported :: "string list"
  token_endpoint_auth_methods_supported :: "string list"
  oidc_raw_body :: "string option"
  oidc_raw_content_type :: "string option"

record autoconfig_doc =
  ac_raw_body :: string
  ac_raw_content_type :: "string option"

record discovery_entry =
  de_prefix :: string
  de_webfinger :: "web_finger_doc option"
  de_oidc :: "oidc_doc option"
  de_autoconfig :: "autoconfig_doc option"

record discovery_config =
  entries :: "discovery_entry list"

definition discovery_lookup :: "discovery_config \<Rightarrow> string \<Rightarrow> discovery_entry option" where
  "discovery_lookup d p = find (\<lambda>e. de_prefix e = p) (entries d)"

record gmail_label_color =
  text_color :: string
  background_color :: string

record uploaded_blob =
  ub_content_type :: string
  ub_data :: bytes

record fixture_identity =
  fi_path :: "string option"
  fi_sha256 :: string

subsection \<open>Mutations and the change log\<close>

record acl_ref =
  ar_mailbox_id :: string
  ar_identifier :: string
  owner_account_id :: string

record email_label_change =
  elc_id :: string
  elc_added :: "string list"
  elc_removed :: "string list"

text \<open>
  \<open>MutationDiff\<close>, and \<open>Transition\<close>: the same lists between two state tokens, so the record
  extends the diff's.
\<close>

record mutation_diff =
  email_created :: "string list"
  email_updated :: "string list"
  email_destroyed :: "string list"
  email_destroyed_accounts :: "string list"
  email_label_changes :: "email_label_change list"
  mailbox_created :: "string list"
  mailbox_updated :: "string list"
  mailbox_destroyed :: "string list"
  mailbox_destroyed_accounts :: "string list"
  event_created :: "string list"
  event_updated :: "string list"
  event_destroyed :: "string list"
  event_destroyed_parents :: "string list"
  calendar_created :: "string list"
  calendar_updated :: "string list"
  calendar_destroyed :: "string list"
  calendar_destroyed_accounts :: "string list"
  contact_created :: "string list"
  contact_updated :: "string list"
  contact_destroyed :: "string list"
  contact_destroyed_parents :: "string list"
  contact_folder_created :: "string list"
  contact_folder_updated :: "string list"
  contact_folder_destroyed :: "string list"
  contact_folder_destroyed_accounts :: "string list"
  category_created :: "string list"
  category_updated :: "string list"
  category_destroyed :: "string list"
  category_destroyed_accounts :: "string list"
  acl_granted :: "acl_ref list"
  acl_revoked :: "acl_ref list"

record transition = mutation_diff +
  from_state :: string
  to_state :: string

record change_log =
  transitions :: "transition list"
  cl_counter :: nat
  cl_seed :: string
  cl_state :: string

datatype change_op =
    EmailCreate email
  | EmailUpdate string json
  | EmailMove string "string list"
  | EmailDestroy string
  | EmailReaction string "string option" "int option" bool
  | MailboxCreate mailbox
  | MailboxUpdate string json
  | MailboxDestroy string
  | EventCreate event
  | EventUpdate string json
  | EventDestroy string
  | ContactFolderCreate contact_folder
  | ContactFolderUpdate string json
  | ContactFolderDestroy string
  | ContactCreate contact
  | ContactUpdate string json
  | ContactDestroy string
  | GroupCreate group
  | GroupUpdate string "string option" "string option option" "string list option" "string list option"
  | GroupDestroy string
  | AclGrant string string string
  | AclRevoke string string

record change_step =
  cs_id :: string
  cs_ops :: "change_op list"

subsection \<open>The fixture\<close>

record fixture =
  fx_name :: string
  identity :: fixture_identity
  state_seed :: string
  accounts :: "account list"
  mailboxes :: "mailbox list"
  emails :: "email list"
  oauth :: oauth_config
  caldav :: caldav_config
  announce :: "announce_trigger list"
  discovery :: discovery_config
  calendars :: "calendar list"
  events :: "event list"
  contact_folders :: "contact_folder list"
  contacts :: "contact list"
  categories :: "category list"
  groups :: "group list"
  acls :: "acl_grant list"
  public_folders :: "public_folder list"
  public_items :: "public_item list"
  send_as_list :: "send_as list"
  contact_groups :: "contact_group list"
  other_contacts :: "other_contact list"
  directory_people :: "directory_person list"
  account_logs :: "(string, change_log) btmap"
  change_script :: "change_step list"
  mailbox_uid_history :: "(string, string option list) btmap"
  synthetic_event_seq :: nat
  synthetic_email_seq :: nat
  synthetic_category_seq :: nat
  synthetic_contact_seq :: nat
  uploaded_blobs :: "(string, uploaded_blob) btmap"
  gmail_label_colors :: "(string, gmail_label_color) btmap"

subsection \<open>Round trips of the enumerations\<close>

lemma role_roundtrip: "role_parse (role_as_str r) = Inr r"
  by (cases r) (simp_all add: role_parse_def)

lemma participation_roundtrip:
  "participation_parse (as_jscalendar p) = Some p"
  "participation_parse (as_google p) = Some p"
  "participation_parse (as_graph p) = Some p"
  "participation_parse (as_partstat p) = Some p"
  by (cases p; simp add: participation_parse_def str_simps)+

lemma disposition_roundtrip: "disposition_parse (disposition_as_str d) = Inr d"
  by (cases d) (simp_all add: disposition_parse_def)

end
