(* ===== verification/Change_Log.thy ===== *)
theory Change_Log
  imports Fixture_Types
begin

text \<open>
  The per-account change log of \<open>src/fixture.rs\<close> (\<open>ChangeLog\<close>, \<open>Transition\<close>, \<open>DeltaSet\<close>):
  state tokens, the capped ring of transitions, the delta walk between two tokens and the
  RFC 8620 dominance rules. \<open>wf_log\<close> is the invariant every operation keeps; \<open>replay\<close> is the
  abstract history of live ids that a delta has to agree with.
\<close>

named_theorems log_simps \<open>the operations of the change log, unfolded\<close>

subsection \<open>Diffs\<close>

text \<open>\<open>MutationDiff::default()\<close> and \<open>MutationDiff::is_empty\<close> (which does not look at the
  label changes or at the parallel owner vectors).\<close>

definition diff_default :: mutation_diff where
  "diff_default = \<lparr>email_created = [], email_updated = [], email_destroyed = [],
     email_destroyed_accounts = [], email_label_changes = [],
     mailbox_created = [], mailbox_updated = [], mailbox_destroyed = [],
     mailbox_destroyed_accounts = [],
     event_created = [], event_updated = [], event_destroyed = [], event_destroyed_parents = [],
     calendar_created = [], calendar_updated = [], calendar_destroyed = [],
     calendar_destroyed_accounts = [],
     contact_created = [], contact_updated = [], contact_destroyed = [],
     contact_destroyed_parents = [],
     contact_folder_created = [], contact_folder_updated = [], contact_folder_destroyed = [],
     contact_folder_destroyed_accounts = [],
     category_created = [], category_updated = [], category_destroyed = [],
     category_destroyed_accounts = [], acl_granted = [], acl_revoked = []\<rparr>"

definition diff_is_empty :: "mutation_diff \<Rightarrow> bool" where
  "diff_is_empty d \<longleftrightarrow>
     email_created d = [] \<and> email_updated d = [] \<and> email_destroyed d = [] \<and>
     mailbox_created d = [] \<and> mailbox_updated d = [] \<and> mailbox_destroyed d = [] \<and>
     event_created d = [] \<and> event_updated d = [] \<and> event_destroyed d = [] \<and>
     calendar_created d = [] \<and> calendar_updated d = [] \<and> calendar_destroyed d = [] \<and>
     contact_created d = [] \<and> contact_updated d = [] \<and> contact_destroyed d = [] \<and>
     contact_folder_created d = [] \<and> contact_folder_updated d = [] \<and>
     contact_folder_destroyed d = [] \<and>
     category_created d = [] \<and> category_updated d = [] \<and> category_destroyed d = [] \<and>
     acl_granted d = [] \<and> acl_revoked d = []"

text \<open>The lists the destructors of \<open>transition_from_diff\<close> assert to be parallel.\<close>

definition diff_parallel :: "mutation_diff \<Rightarrow> bool" where
  "diff_parallel d \<longleftrightarrow>
     length (event_destroyed d) = length (event_destroyed_parents d) \<and>
     length (contact_destroyed d) = length (contact_destroyed_parents d) \<and>
     length (email_destroyed d) = length (email_destroyed_accounts d) \<and>
     length (mailbox_destroyed d) = length (mailbox_destroyed_accounts d) \<and>
     length (calendar_destroyed d) = length (calendar_destroyed_accounts d) \<and>
     length (contact_folder_destroyed d) = length (contact_folder_destroyed_accounts d) \<and>
     length (category_destroyed d) = length (category_destroyed_accounts d)"

definition transition_from_diff :: "string \<Rightarrow> string \<Rightarrow> mutation_diff \<Rightarrow> transition" where
  "transition_from_diff f t d = mutation_diff.extend d \<lparr>from_state = f, to_state = t\<rparr>"

lemma transition_from_diff_simps [simp]:
  "from_state (transition_from_diff f t d) = f"
  "to_state (transition_from_diff f t d) = t"
  "mutation_diff.truncate (transition_from_diff f t d) = d"
  by (simp_all add: transition_from_diff_def mutation_diff.defs transition.defs)

lemma transition_from_diff_fields [simp]:
  "email_created (transition_from_diff f t d) = email_created d"
  "email_updated (transition_from_diff f t d) = email_updated d"
  "email_destroyed (transition_from_diff f t d) = email_destroyed d"
  "email_label_changes (transition_from_diff f t d) = email_label_changes d"
  "mailbox_created (transition_from_diff f t d) = mailbox_created d"
  "mailbox_updated (transition_from_diff f t d) = mailbox_updated d"
  "mailbox_destroyed (transition_from_diff f t d) = mailbox_destroyed d"
  "event_created (transition_from_diff f t d) = event_created d"
  "event_updated (transition_from_diff f t d) = event_updated d"
  "event_destroyed (transition_from_diff f t d) = event_destroyed d"
  "event_destroyed_parents (transition_from_diff f t d) = event_destroyed_parents d"
  "calendar_created (transition_from_diff f t d) = calendar_created d"
  "calendar_updated (transition_from_diff f t d) = calendar_updated d"
  "calendar_destroyed (transition_from_diff f t d) = calendar_destroyed d"
  "contact_created (transition_from_diff f t d) = contact_created d"
  "contact_updated (transition_from_diff f t d) = contact_updated d"
  "contact_destroyed (transition_from_diff f t d) = contact_destroyed d"
  "contact_destroyed_parents (transition_from_diff f t d) = contact_destroyed_parents d"
  by (simp_all add: transition_from_diff_def mutation_diff.defs transition.defs)

subsection \<open>State tokens\<close>

definition counter_of_state :: "string \<Rightarrow> nat" where
  "counter_of_state s =
     (case rsplit_once CHR ''.'' s of
        None \<Rightarrow> 0
      | Some (_, n) \<Rightarrow> (case parse_u64 n of None \<Rightarrow> 0 | Some k \<Rightarrow> k))"

text \<open>The token of counter \<open>n\<close>: the bare seed, then \<open>seed.1\<close>, \<open>seed.2\<close>, and so on.\<close>

definition state_token :: "string \<Rightarrow> nat \<Rightarrow> string" where
  "state_token seed n = (if n = 0 then seed else seed @ ''.'' @ show_nat n)"

lemma state_token_inject [simp]: "state_token seed m = state_token seed n \<longleftrightarrow> m = n"
  by (auto simp: state_token_def)

lemma counter_of_token:
  assumes "Suc n \<le> u64_max"
  shows "counter_of_state (state_token seed (Suc n)) = Suc n"
proof -
  have "CHR ''.'' \<notin> set (show_nat (Suc n))" by (rule show_nat_notin) simp
  then have "rsplit_once CHR ''.'' (seed @ CHR ''.'' # show_nat (Suc n)) = Some (seed, show_nat (Suc n))"
    by (rule rsplit_once_append)
  then show ?thesis
    using assms by (simp add: counter_of_state_def state_token_def)
qed

subsection \<open>The log\<close>

definition max_transitions :: nat where "max_transitions = 256"

definition change_log_new :: "string \<Rightarrow> change_log" where
  "change_log_new s = \<lparr>transitions = [], cl_counter = 0, cl_seed = s, cl_state = s\<rparr>"

definition advance :: "change_log \<Rightarrow> (string \<times> string) \<times> change_log" where
  "advance l =
     (let l' = l\<lparr>cl_counter := Suc (cl_counter l),
                cl_state := cl_seed l @ ''.'' @ show_nat (Suc (cl_counter l))\<rparr>
      in ((cl_state l, cl_state l'), l'))"

definition ring_push :: "transition \<Rightarrow> transition list \<Rightarrow> transition list" where
  "ring_push t ts = (if length ts \<ge> max_transitions then tl ts else ts) @ [t]"

definition log_push :: "transition \<Rightarrow> change_log \<Rightarrow> change_log" where
  "log_push t l = l\<lparr>transitions := ring_push t (transitions l)\<rparr>"

interpretation tr: bounded_ring max_transitions ring_push
  by unfold_locales (auto simp: max_transitions_def ring_push_def)

text \<open>What \<open>record_transition\<close> does to one account's log.\<close>

definition log_record :: "mutation_diff \<Rightarrow> change_log \<Rightarrow> change_log" where
  "log_record d l = (let ((f, t), l') = advance l in log_push (transition_from_diff f t d) l')"

fun modseq_scan :: "string \<Rightarrow> nat \<Rightarrow> transition list \<Rightarrow> nat" where
  "modseq_scan e best [] = best"
| "modseq_scan e best (t # ts) =
     modseq_scan e (if e \<in> set (email_created t) \<or> e \<in> set (email_updated t)
                    then max (counter_of_state (to_state t)) best else best) ts"

definition modseq_for_email :: "change_log \<Rightarrow> string \<Rightarrow> nat" where
  "modseq_for_email l e = modseq_scan e 0 (transitions l) + 1"

subsection \<open>Deltas\<close>

record delta_set =
  ds_created :: "string list"
  ds_updated :: "string list"
  ds_destroyed :: "string list"

definition delta_set_default :: delta_set where
  "delta_set_default = \<lparr>ds_created = [], ds_updated = [], ds_destroyed = []\<rparr>"

type_synonym projection = "transition \<Rightarrow> string list \<times> string list \<times> string list"

text \<open>The closure \<open>email_delta_since\<close> passes.\<close>

definition project_emails :: projection where
  "project_emails t = (email_created t, email_updated t, email_destroyed t)"

fun dedup_keep :: "string set \<Rightarrow> string list \<Rightarrow> string list" where
  "dedup_keep seen [] = []"
| "dedup_keep seen (x # xs) =
     (if x \<in> seen then dedup_keep seen xs else x # dedup_keep (insert x seen) xs)"

definition dedup_preserving_order :: "string list \<Rightarrow> string list" where
  "dedup_preserving_order v = (if length v < 2 then v else dedup_keep {} v)"

definition apply_dominance_and_dedup ::
    "string list \<times> string list \<times> string list \<Rightarrow> delta_set" where
  "apply_dominance_and_dedup = (\<lambda>(created, updated, destroyed).
     let cancel = set (filter (\<lambda>i. i \<in> set destroyed) created);
         created' = filter (\<lambda>i. i \<notin> cancel) created;
         destroyed' = filter (\<lambda>i. i \<notin> cancel) destroyed;
         updated' = filter (\<lambda>i. i \<notin> set created' \<and> i \<notin> set destroyed') updated
     in \<lparr>ds_created = dedup_preserving_order created',
         ds_updated = dedup_preserving_order updated',
         ds_destroyed = dedup_preserving_order destroyed'\<rparr>)"

fun delta_walk ::
    "projection \<Rightarrow> string \<Rightarrow> bool \<Rightarrow> string list \<times> string list \<times> string list \<Rightarrow> transition list
      \<Rightarrow> string list \<times> string list \<times> string list" where
  "delta_walk project since started acc [] = acc"
| "delta_walk project since started (c, u, d) (t # ts) =
     (if \<not> started \<and> from_state t \<noteq> since
      then delta_walk project since False (c, u, d) ts
      else let (tc, tu, td) = project t
           in delta_walk project since True (c @ tc, u @ tu, d @ td) ts)"

definition delta_since :: "change_log \<Rightarrow> string \<Rightarrow> projection \<Rightarrow> delta_set option" where
  "delta_since l since project =
     (if since = cl_state l then Some delta_set_default
      else let seed_known = (since = cl_seed l);
               head_known = list_ex (\<lambda>t. from_state t = since) (transitions l)
           in if \<not> seed_known \<and> \<not> head_known then None
              else Some (apply_dominance_and_dedup
                (delta_walk project since seed_known ([], [], []) (transitions l))))"

text \<open>The destroyed ids of a transition whose recorded parent is \<open>parent_id\<close>.\<close>

definition filter_destroyed :: "string list \<Rightarrow> string list option \<Rightarrow> string \<Rightarrow> string list" where
  "filter_destroyed d ps parent_id =
     (case ps of
        Some p \<Rightarrow> if length p = length d
                  then map fst (filter (\<lambda>(i, q). q = parent_id) (zip d p)) else []
      | None \<Rightarrow> [])"

definition delta_since_filtered_destroys ::
    "change_log \<Rightarrow> string \<Rightarrow> projection \<Rightarrow> (transition \<Rightarrow> string list option) \<Rightarrow> string
      \<Rightarrow> delta_set option" where
  "delta_since_filtered_destroys l since project parents parent_id =
     (if since = cl_state l then Some delta_set_default
      else let seed_known = (since = cl_seed l);
               head_known = list_ex (\<lambda>t. from_state t = since) (transitions l);
               project' = (\<lambda>t. let (c, u, d) = project t
                               in (c, u, filter_destroyed d (parents t) parent_id))
           in if \<not> seed_known \<and> \<not> head_known then None
              else Some (apply_dominance_and_dedup
                (delta_walk project' since seed_known ([], [], []) (transitions l))))"

lemmas [log_simps] = change_log_new_def advance_def log_push_def log_record_def
  delta_set_default_def

subsection \<open>The dominance rules\<close>

lemma set_dedup_keep: "set (dedup_keep seen xs) = set xs - seen"
  by (induction xs arbitrary: seen) auto

lemma distinct_dedup_keep: "distinct (dedup_keep seen xs)"
  by (induction xs arbitrary: seen) (auto simp: set_dedup_keep)

lemma set_dedup [simp]: "set (dedup_preserving_order xs) = set xs"
  by (simp add: dedup_preserving_order_def set_dedup_keep)

lemma distinct_dedup [simp]: "distinct (dedup_preserving_order xs)"
proof -
  have "distinct xs" if "length xs < 2"
    using that by (cases xs rule: remdups_adj.cases) auto
  then show ?thesis
    by (simp add: dedup_preserving_order_def distinct_dedup_keep)
qed

lemma dominance_sets:
  defines "R c u d \<equiv> apply_dominance_and_dedup (c, u, d)"
  shows "set (ds_created (R c u d)) = set c - set d"
    and "set (ds_destroyed (R c u d)) = set d - set c"
    and "set (ds_updated (R c u d)) = set u - (set c - set d) - (set d - set c)"
  by (auto simp: R_def apply_dominance_and_dedup_def Let_def)

lemma dominance_distinct:
  "distinct (ds_created (apply_dominance_and_dedup x)) \<and>
   distinct (ds_updated (apply_dominance_and_dedup x)) \<and>
   distinct (ds_destroyed (apply_dominance_and_dedup x))"
  by (cases x) (simp add: apply_dominance_and_dedup_def Let_def)

text \<open>
  The dominance rules of RFC 8620, exactly: an id that was created and destroyed in the
  window is in neither list, whether it was created first or destroyed first; \<open>updated\<close>
  keeps the updated ids that are in neither of the two. So an id the client already holds that
  is destroyed and then created again disappears from the delta, although the client knew it.
\<close>

theorem dominance_exact:
  "set (ds_created (apply_dominance_and_dedup (c, u, d))) = set c - set d \<and>
   set (ds_destroyed (apply_dominance_and_dedup (c, u, d))) = set d - set c \<and>
   set (ds_updated (apply_dominance_and_dedup (c, u, d))) =
     set u - ((set c - set d) \<union> (set d - set c)) \<and>
   distinct (ds_created (apply_dominance_and_dedup (c, u, d))) \<and>
   distinct (ds_updated (apply_dominance_and_dedup (c, u, d))) \<and>
   distinct (ds_destroyed (apply_dominance_and_dedup (c, u, d)))"
  using dominance_distinct by (auto simp: dominance_sets)

lemma dominance_disjoint:
  "distinct (ds_created (apply_dominance_and_dedup x) @
     ds_destroyed (apply_dominance_and_dedup x) @ ds_updated (apply_dominance_and_dedup x))"
  using dominance_distinct [of x] by (cases x) (auto simp: dominance_sets)

subsection \<open>The log invariant\<close>

definition wf_log :: "change_log \<Rightarrow> bool" where
  "wf_log l \<longleftrightarrow>
     (let n = length (transitions l); base = cl_counter l - n in
      n \<le> max_transitions \<and> n \<le> cl_counter l \<and> (n = cl_counter l \<or> n = max_transitions) \<and>
      cl_state l = state_token (cl_seed l) (cl_counter l) \<and>
      (\<forall>i < n. from_state (transitions l ! i) = state_token (cl_seed l) (base + i) \<and>
               to_state (transitions l ! i) = state_token (cl_seed l) (Suc (base + i))))"

lemma wf_log_new [simp]: "wf_log (change_log_new s)"
  by (simp add: wf_log_def change_log_new_def state_token_def Let_def)

lemma log_record_fields [simp]:
  "cl_counter (log_record d l) = Suc (cl_counter l)"
  "cl_seed (log_record d l) = cl_seed l"
  "cl_state (log_record d l) = state_token (cl_seed l) (Suc (cl_counter l))"
  "transitions (log_record d l) =
     ring_push (transition_from_diff (cl_state l) (state_token (cl_seed l) (Suc (cl_counter l))) d)
       (transitions l)"
  by (simp_all add: log_simps state_token_def Let_def)

lemma wf_log_record [simp]: "wf_log l \<Longrightarrow> wf_log (log_record d l)"
proof -
  assume wf: "wf_log l"
  let ?n = "length (transitions l)"
  let ?ts = "transitions (log_record d l)"
  define t where "t = transition_from_diff (cl_state l) (state_token (cl_seed l) (Suc (cl_counter l))) d"
  note facts = wf [unfolded wf_log_def Let_def]
  show ?thesis
  proof (cases "?n < max_transitions")
    case True
    then have "?ts = transitions l @ [t]" and "?n = cl_counter l"
      using facts by (auto simp: ring_push_def t_def)
    with facts True show ?thesis
      by (auto simp: wf_log_def Let_def nth_append t_def less_Suc_eq)
  next
    case False
    then have full: "?n = max_transitions" using facts by simp
    then have ts: "?ts = tl (transitions l) @ [t]" by (simp add: ring_push_def t_def)
    have ge: "max_transitions \<le> cl_counter l" and pos: "0 < ?n"
      using facts full by (auto simp: max_transitions_def)
    have len: "length ?ts = max_transitions"
      using full pos ts by simp
    have nth: "?ts ! i = (if Suc i < ?n then transitions l ! Suc i else t)" if "i < ?n" for i
      using that pos unfolding ts by (auto simp: nth_append nth_tl)
    show ?thesis
      unfolding wf_log_def Let_def len
    proof (intro conjI allI impI)
      fix i assume i: "i < max_transitions"
      show "from_state (?ts ! i) = state_token (cl_seed (log_record d l))
              (cl_counter (log_record d l) - max_transitions + i)"
        using nth [of i] i full ge facts by (auto simp: t_def Suc_diff_le)
      show "to_state (?ts ! i) = state_token (cl_seed (log_record d l))
              (Suc (cl_counter (log_record d l) - max_transitions + i))"
        using nth [of i] i full ge facts by (auto simp: t_def Suc_diff_le)
    qed (use ge in auto)
  qed
qed

subsection \<open>What a delta walk returns\<close>

lemma delta_walk_started:
  "delta_walk project since True (c, u, d) ts =
     (c @ concat (map (\<lambda>t. fst (project t)) ts),
      u @ concat (map (\<lambda>t. fst (snd (project t))) ts),
      d @ concat (map (\<lambda>t. snd (snd (project t))) ts))"
  by (induction ts arbitrary: c u d) (auto simp: case_prod_beta Let_def)

lemma delta_walk_seek:
  "i < length ts \<Longrightarrow> from_state (ts ! i) = since \<Longrightarrow> \<forall>j < i. from_state (ts ! j) \<noteq> since \<Longrightarrow>
     delta_walk project since False acc ts = delta_walk project since True acc (drop i ts)"
proof (induction ts arbitrary: i)
  case (Cons t ts)
  obtain c u d where acc: "acc = (c, u, d)" by (cases acc)
  show ?case
  proof (cases i)
    case 0
    with Cons.prems acc show ?thesis by simp
  next
    case (Suc k)
    with Cons.prems have "from_state t \<noteq> since" by auto
    moreover have "\<forall>j<k. from_state (ts ! j) \<noteq> since"
      using Cons.prems(3) Suc by auto
    ultimately show ?thesis
      using Cons Suc acc by auto
  qed
qed simp

text \<open>The index in the ring of the transition that leaves a token.\<close>

lemma wf_from_state:
  "wf_log l \<Longrightarrow> i < length (transitions l) \<Longrightarrow>
     from_state (transitions l ! i) = state_token (cl_seed l) (cl_counter l - length (transitions l) + i)"
  by (simp add: wf_log_def Let_def)

lemma wf_to_state:
  "wf_log l \<Longrightarrow> i < length (transitions l) \<Longrightarrow>
     to_state (transitions l ! i) = state_token (cl_seed l) (Suc (cl_counter l - length (transitions l) + i))"
  by (simp add: wf_log_def Let_def)

lemma wf_log_len: "wf_log l \<Longrightarrow> length (transitions l) \<le> cl_counter l"
  by (simp add: wf_log_def Let_def)

lemma wf_log_state: "wf_log l \<Longrightarrow> cl_state l = state_token (cl_seed l) (cl_counter l)"
  by (simp add: wf_log_def Let_def)

lemma delta_since_walk:
  assumes wf: "wf_log l" and i: "i < length (transitions l)"
    and since: "since = state_token (cl_seed l) (cl_counter l - length (transitions l) + i)"
  shows "delta_since l since project =
    Some (apply_dominance_and_dedup
      (concat (map (\<lambda>t. fst (project t)) (drop i (transitions l))),
       concat (map (\<lambda>t. fst (snd (project t))) (drop i (transitions l))),
       concat (map (\<lambda>t. snd (snd (project t))) (drop i (transitions l)))))"
proof -
  let ?ts = "transitions l" and ?b = "cl_counter l - length (transitions l)"
  have not_state: "since \<noteq> cl_state l"
    using wf_log_len [OF wf] wf_log_state [OF wf] since i by auto
  have from_i: "from_state (?ts ! i) = since"
    using wf_from_state [OF wf i] since by simp
  then have known: "list_ex (\<lambda>t. from_state t = since) ?ts"
    using i by (auto simp: list_ex_iff intro: bexI [of _ "?ts ! i"])
  have walk: "delta_walk project since (since = cl_seed l) ([], [], []) ?ts =
      delta_walk project since True ([], [], []) (drop i ?ts)"
  proof (cases "since = cl_seed l")
    case True
    then have "?b + i = 0" using since by (metis state_token_def state_token_inject)
    with True show ?thesis by simp
  next
    case False
    have "\<forall>j<i. from_state (?ts ! j) \<noteq> since"
      using wf_from_state [OF wf] since i by auto
    from delta_walk_seek [OF i from_i this] False show ?thesis by simp
  qed
  show ?thesis
    using not_state known walk by (simp add: delta_since_def Let_def delta_walk_started)
qed

lemma delta_since_current: "delta_since l (cl_state l) project = Some delta_set_default"
  by (simp add: delta_since_def)

text \<open>The seed of a log that has evicted: everything retained, whatever came before.\<close>

lemma delta_since_seed:
  assumes "wf_log l" and "cl_counter l \<noteq> 0"
  shows "delta_since l (cl_seed l) project =
    Some (apply_dominance_and_dedup
      (concat (map (\<lambda>t. fst (project t)) (transitions l)),
       concat (map (\<lambda>t. fst (snd (project t))) (transitions l)),
       concat (map (\<lambda>t. snd (snd (project t))) (transitions l))))"
proof -
  have "cl_seed l \<noteq> cl_state l"
    using wf_log_state [OF assms(1)] assms(2) by (simp add: state_token_def)
  then show ?thesis
    by (simp add: delta_since_def Let_def delta_walk_started)
qed

lemma delta_since_None_iff:
  assumes "wf_log l"
  shows "delta_since l since project = None \<longleftrightarrow>
    since \<noteq> cl_seed l \<and>
    (\<forall>k. cl_counter l - length (transitions l) \<le> k \<and> k \<le> cl_counter l \<longrightarrow>
         since \<noteq> state_token (cl_seed l) k)"
proof -
  let ?n = "length (transitions l)" and ?b = "cl_counter l - length (transitions l)"
  have ex: "list_ex (\<lambda>t. from_state t = since) (transitions l) \<longleftrightarrow>
      (\<exists>i < ?n. since = state_token (cl_seed l) (?b + i))"
  proof
    assume "list_ex (\<lambda>t. from_state t = since) (transitions l)"
    then obtain i where "i < ?n" "from_state (transitions l ! i) = since"
      by (auto simp: list_ex_iff in_set_conv_nth)
    then show "\<exists>i < ?n. since = state_token (cl_seed l) (?b + i)"
      using wf_from_state [OF assms] by auto
  next
    assume "\<exists>i < ?n. since = state_token (cl_seed l) (?b + i)"
    then obtain i where "i < ?n" "from_state (transitions l ! i) = since"
      using wf_from_state [OF assms] by auto
    then show "list_ex (\<lambda>t. from_state t = since) (transitions l)"
      by (auto simp: list_ex_iff intro: bexI [of _ "transitions l ! i"])
  qed
  have split: "(\<exists>i < ?n. P (?b + i)) \<or> P (cl_counter l) \<longleftrightarrow>
      (\<exists>k. ?b \<le> k \<and> k \<le> cl_counter l \<and> P k)" for P
  proof -
    have "\<exists>i < ?n. k = ?b + i" if "?b \<le> k" "k < cl_counter l" for k
      using that wf_log_len [OF assms] by (intro exI [of _ "k - ?b"]) auto
    note below = this
    show ?thesis
    proof (intro iffI)
      assume "(\<exists>i < ?n. P (?b + i)) \<or> P (cl_counter l)"
      then show "\<exists>k. ?b \<le> k \<and> k \<le> cl_counter l \<and> P k"
      proof
        assume "\<exists>i < ?n. P (?b + i)"
        then obtain i where "i < ?n" "P (?b + i)" by auto
        then show ?thesis
          using wf_log_len [OF assms] by (intro exI [of _ "?b + i"]) auto
      next
        assume "P (cl_counter l)"
        then show ?thesis by (intro exI [of _ "cl_counter l"]) auto
      qed
    next
      assume "\<exists>k. ?b \<le> k \<and> k \<le> cl_counter l \<and> P k"
      then obtain k where "?b \<le> k" "k \<le> cl_counter l" "P k" by auto
      then show "(\<exists>i < ?n. P (?b + i)) \<or> P (cl_counter l)"
        using below [of k] by (cases "k = cl_counter l") auto
    qed
  qed
  show ?thesis
    unfolding delta_since_def Let_def ex wf_log_state [OF assms]
    using split [of "\<lambda>k. since = state_token (cl_seed l) k"] by auto
qed

subsection \<open>Deltas against the history of live ids\<close>

text \<open>
  \<open>replay\<close> is the set of live ids after a run of transitions; \<open>recorded\<close> says that the run
  records the history of a store whose ids are never used twice: \<open>K\<close> are the ids used so far,
  \<open>S\<close> the live ones.
\<close>

fun replay :: "projection \<Rightarrow> string set \<Rightarrow> transition list \<Rightarrow> string set" where
  "replay project S [] = S"
| "replay project S (t # ts) =
     (let (c, u, d) = project t in replay project ((S \<union> set c) - set d) ts)"

fun recorded :: "projection \<Rightarrow> string set \<Rightarrow> string set \<Rightarrow> transition list \<Rightarrow> bool" where
  "recorded project K S [] \<longleftrightarrow> True"
| "recorded project K S (t # ts) \<longleftrightarrow>
     (let (c, u, d) = project t
      in set c \<inter> K = {} \<and> set d \<subseteq> S \<union> set c \<and>
         recorded project (K \<union> set c) ((S \<union> set c) - set d) ts)"

definition all_created :: "projection \<Rightarrow> transition list \<Rightarrow> string set" where
  "all_created project ts = (\<Union>t \<in> set ts. set (fst (project t)))"

definition all_destroyed :: "projection \<Rightarrow> transition list \<Rightarrow> string set" where
  "all_destroyed project ts = (\<Union>t \<in> set ts. set (snd (snd (project t))))"

lemma recorded_summary:
  "recorded project K S ts \<Longrightarrow> S \<subseteq> K \<Longrightarrow>
     all_created project ts \<inter> K = {} \<and>
     all_destroyed project ts \<subseteq> S \<union> all_created project ts \<and>
     replay project S ts = (S \<union> all_created project ts) - all_destroyed project ts"
proof (induction ts arbitrary: K S)
  case Nil
  then show ?case by (simp add: all_created_def all_destroyed_def)
next
  case (Cons t ts)
  obtain c u d where p: "project t = (c, u, d)" by (cases "project t")
  let ?S = "(S \<union> set c) - set d" and ?K = "K \<union> set c"
  from Cons.prems p have c: "set c \<inter> K = {}" and d: "set d \<subseteq> S \<union> set c"
    and rest: "recorded project ?K ?S ts" by simp_all
  from Cons.IH [OF rest] Cons.prems(2)
  have C: "all_created project ts \<inter> ?K = {}"
    and D: "all_destroyed project ts \<subseteq> ?S \<union> all_created project ts"
    and R: "replay project ?S ts = (?S \<union> all_created project ts) - all_destroyed project ts"
    by auto
  have split: "all_created project (t # ts) = set c \<union> all_created project ts"
    "all_destroyed project (t # ts) = set d \<union> all_destroyed project ts"
    using p by (simp_all add: all_created_def all_destroyed_def)
  have later: "set d \<inter> all_created project ts = {}"
    using C d Cons.prems(2) by blast
  have "replay project S (t # ts) =
      (S \<union> all_created project (t # ts)) - all_destroyed project (t # ts)"
    using p R split later by auto
  then show ?case using split C D c d Cons.prems(2) by auto
qed

text \<open>
  The client that holds \<open>S\<close>, the live ids at token \<open>since\<close>, and applies the delta, holds the
  live ids at the current token.
\<close>

definition client_apply :: "delta_set \<Rightarrow> string set \<Rightarrow> string set" where
  "client_apply ds S = (S - set (ds_destroyed ds)) \<union> set (ds_created ds)"

lemma dominance_replay:
  assumes rec: "recorded project K S ts" and "S \<subseteq> K"
  defines "ds \<equiv> apply_dominance_and_dedup
      (concat (map (\<lambda>t. fst (project t)) ts),
       concat (map (\<lambda>t. fst (snd (project t))) ts),
       concat (map (\<lambda>t. snd (snd (project t))) ts))"
  shows "client_apply ds S = replay project S ts"
    and "set (ds_created ds) \<inter> S = {}" and "set (ds_destroyed ds) \<subseteq> S"
proof -
  note sum = recorded_summary [OF rec assms(2)]
  have ds: "set (ds_created ds) = all_created project ts - all_destroyed project ts"
    "set (ds_destroyed ds) = all_destroyed project ts - all_created project ts"
    by (auto simp: ds_def dominance_sets all_created_def all_destroyed_def)
  show "client_apply ds S = replay project S ts"
    using sum assms(2) by (auto simp: client_apply_def ds)
  show "set (ds_created ds) \<inter> S = {}" "set (ds_destroyed ds) \<subseteq> S"
    using sum assms(2) ds by auto
qed


text \<open>
  C1. An incremental sync is exact. Let a client hold the live ids \<open>S\<close> at the token of the
  \<open>i\<close>-th retained transition, and let the retained transitions record a history that never
  re-uses an id. Then \<open>delta_since\<close> at that token answers, applying its created and destroyed
  lists to \<open>S\<close> gives exactly the live ids at the current token, it creates only ids the
  client does not have, destroys only ids it has, and no id is listed twice or in two lists.
\<close>

theorem delta_since_sync:
  assumes "wf_log l" and "i < length (transitions l)"
    and "recorded project K S (drop i (transitions l))" and "S \<subseteq> K"
  shows "\<exists>ds. delta_since l (state_token (cl_seed l) (cl_counter l - length (transitions l) + i)) project
        = Some ds \<and>
      client_apply ds S = replay project S (drop i (transitions l)) \<and>
      set (ds_created ds) \<inter> S = {} \<and> set (ds_destroyed ds) \<subseteq> S \<and>
      distinct (ds_created ds @ ds_destroyed ds @ ds_updated ds)"
  using delta_since_walk [OF assms(1,2) refl, of project] dominance_replay [OF assms(3,4)]
    dominance_disjoint by auto

subsection \<open>Histories\<close>

text \<open>The log of an account after the diffs \<open>ds\<close>, oldest first, since load.\<close>

definition log_run :: "string \<Rightarrow> mutation_diff list \<Rightarrow> change_log" where
  "log_run seed ds = fold log_record ds (change_log_new seed)"

lemma log_run_Nil [simp]: "log_run seed [] = change_log_new seed"
  by (simp add: log_run_def)

lemma log_run_snoc [simp]: "log_run seed (ds @ [d]) = log_record d (log_run seed ds)"
  by (simp add: log_run_def)

lemma wf_log_run [simp]: "wf_log (log_run seed ds)"
  by (induction ds rule: rev_induct) simp_all

lemma log_run_fields [simp]:
  "cl_counter (log_run seed ds) = length ds" "cl_seed (log_run seed ds) = seed"
  "cl_state (log_run seed ds) = state_token seed (length ds)"
  by (induction ds rule: rev_induct) (simp_all add: change_log_new_def state_token_def)

text \<open>The transition the \<open>k\<close>-th diff was recorded as.\<close>

definition recorded_as :: "string \<Rightarrow> mutation_diff list \<Rightarrow> nat \<Rightarrow> transition" where
  "recorded_as seed ds k = transition_from_diff (state_token seed k) (state_token seed (Suc k)) (ds ! k)"

lemma recorded_as_append [simp]:
  "map (recorded_as seed (ds @ ds')) [0..<length ds] = map (recorded_as seed ds) [0..<length ds]"
  by (simp add: recorded_as_def nth_append)

lemma log_run_transitions:
  "transitions (log_run seed ds) =
     drop (length ds - max_transitions) (map (recorded_as seed ds) [0..<length ds])"
proof (induction ds rule: rev_induct)
  case Nil
  then show ?case by (simp add: change_log_new_def)
next
  case (snoc d ds)
  have len: "length (transitions (log_run seed ds)) \<le> max_transitions"
    by (simp add: snoc)
  have last: "recorded_as seed (ds @ [d]) (length ds) =
      transition_from_diff (state_token seed (length ds)) (state_token seed (Suc (length ds))) d"
    by (simp add: recorded_as_def)
  have "ring_push x (drop (length ds - max_transitions) xs) =
      drop (Suc (length ds) - max_transitions) (xs @ [x])" if "length xs = length ds"
    for x and xs :: "transition list"
    using that tr.cap_pos
    by (cases "length ds < max_transitions")
       (simp_all add: ring_push_def Suc_diff_le drop_Suc tl_drop)
  then show ?case by (simp add: snoc last)
qed

lemma length_log_run: "length (transitions (log_run seed ds)) = min (length ds) max_transitions"
  by (simp add: log_run_transitions)

definition sample_diffs :: "mutation_diff list" where
  "sample_diffs =
     [diff_default\<lparr>email_created := [''m1'', ''m2'']\<rparr>,
      diff_default\<lparr>email_updated := [''m1''], email_destroyed := [''m2'']\<rparr>,
      diff_default\<lparr>email_created := [''m3'']\<rparr>]"

lemma sample_transitions:
  "transitions (log_run ''s0'' sample_diffs) = map (recorded_as ''s0'' sample_diffs) [0, 1, 2]"
proof -
  have "[0..<3] = [0, 1, 2 :: nat]" by (simp add: upt_rec)
  moreover have "length sample_diffs = 3" by (simp add: sample_diffs_def)
  ultimately show ?thesis by (simp add: log_run_transitions max_transitions_def)
qed

theorem delta_since_sync_witness:
  "wf_log (log_run ''s0'' sample_diffs) \<and>
   (\<exists>ds. delta_since (log_run ''s0'' sample_diffs) (state_token ''s0'' 1) project_emails = Some ds \<and>
      client_apply ds {''m1'', ''m2''} = {''m1'', ''m3''})"
proof -
  have hist: "recorded project_emails {''m1'', ''m2''} {''m1'', ''m2''}
      (drop 1 (transitions (log_run ''s0'' sample_diffs)))"
    "replay project_emails {''m1'', ''m2''} (drop 1 (transitions (log_run ''s0'' sample_diffs))) =
       {''m1'', ''m3''}"
    unfolding sample_transitions
    by (auto simp: recorded_as_def project_emails_def sample_diffs_def diff_default_def)
  have len: "length sample_diffs = 3" by (simp add: sample_diffs_def)
  then have "1 < length (transitions (log_run ''s0'' sample_diffs))"
    by (simp add: length_log_run max_transitions_def)
  from delta_since_sync [OF wf_log_run this hist(1) order_refl] hist(2) len show ?thesis
    by (auto simp: length_log_run max_transitions_def)
qed

text \<open>
  C35. Which tokens are answered. After any history of \<open>n\<close> diffs, the token a client got after
  \<open>k\<close> of them is refused (\<open>None\<close>, which the protocols turn into their resync error) exactly
  when it is not the seed and more than 256 transitions have happened since; a string that
  was never issued is always refused.
\<close>

theorem delta_since_answers_iff:
  "(\<forall>k \<le> length ds. delta_since (log_run seed ds) (state_token seed k) project = None \<longleftrightarrow>
        0 < k \<and> k + 256 < length ds) \<and>
   ((\<forall>k \<le> length ds. since \<noteq> state_token seed k) \<longrightarrow>
        delta_since (log_run seed ds) since project = None)"
proof -
  have iff: "delta_since (log_run seed ds) s project = None \<longleftrightarrow>
      s \<noteq> seed \<and> (\<forall>k. length ds - min (length ds) 256 \<le> k \<and> k \<le> length ds \<longrightarrow> s \<noteq> state_token seed k)"
    for s
    using delta_since_None_iff [OF wf_log_run, of seed ds s project]
    by (simp add: length_log_run max_transitions_def)
  have window: "(\<forall>j. length ds - min (length ds) 256 \<le> j \<and> j \<le> length ds \<longrightarrow> k \<noteq> j) \<longleftrightarrow>
      k + 256 < length ds" if "k \<le> length ds" for k
  proof
    assume "\<forall>j. length ds - min (length ds) 256 \<le> j \<and> j \<le> length ds \<longrightarrow> k \<noteq> j"
    with that have "\<not> length ds - min (length ds) 256 \<le> k" by blast
    then show "k + 256 < length ds" by arith
  qed auto
  have zero: "state_token seed k = seed \<longleftrightarrow> k = 0" for k
    by (simp add: state_token_def)
  have "since \<noteq> seed" if "\<forall>k \<le> length ds. since \<noteq> state_token seed k"
    using that zero [of 0] by auto
  then show ?thesis
    unfolding iff using window by (auto simp: zero)
qed

theorem delta_since_answers_iff_witness:
  "delta_since (log_run ''s0'' (replicate 300 diff_default)) (state_token ''s0'' 43) project_emails = None \<and>
   delta_since (log_run ''s0'' (replicate 300 diff_default)) (state_token ''s0'' 44) project_emails \<noteq> None \<and>
   delta_since (log_run ''s0'' []) ''other'' project_emails = None"
proof -
  have "\<forall>k \<le> length ([] :: mutation_diff list). ''other'' \<noteq> state_token ''s0'' k"
    by (simp add: state_token_def)
  then show ?thesis
    using delta_since_answers_iff [of "replicate 300 diff_default" "''s0''" project_emails "''s0''"]
      delta_since_answers_iff [of "[]" "''s0''" project_emails "''other''"]
    by (auto simp del: log_run_Nil)
qed

text \<open>
  The seed outlives eviction, but not its history: once more than 256 transitions have
  happened, a client that asks with the seed token gets the very delta of the oldest retained
  token, so whatever the evicted transitions did is missing from it, with no error.
\<close>

theorem seed_delta_after_eviction:
  assumes "256 < length ds"
  shows "delta_since (log_run seed ds) seed project =
         delta_since (log_run seed ds) (state_token seed (length ds - 256)) project \<and>
         delta_since (log_run seed ds) seed project \<noteq> None"
proof -
  have len: "length (transitions (log_run seed ds)) = 256"
    using assms by (simp add: length_log_run max_transitions_def)
  have "delta_since (log_run seed ds) seed project =
      Some (apply_dominance_and_dedup
      (concat (map (\<lambda>t. fst (project t)) (transitions (log_run seed ds))),
       concat (map (\<lambda>t. fst (snd (project t))) (transitions (log_run seed ds))),
       concat (map (\<lambda>t. snd (snd (project t))) (transitions (log_run seed ds)))))"
    using delta_since_seed [OF wf_log_run, of seed ds project] assms by fastforce
  moreover have "delta_since (log_run seed ds) (state_token seed (length ds - 256)) project = \<dots>"
    using delta_since_walk [OF wf_log_run, of 0 seed ds "state_token seed (length ds - 256)" project]
      len by simp
  ultimately show ?thesis by simp
qed

theorem seed_delta_after_eviction_witness:
  "delta_since (log_run ''s0'' (replicate 300 diff_default)) ''s0'' project_emails =
   delta_since (log_run ''s0'' (replicate 300 diff_default)) (state_token ''s0'' 44) project_emails"
  using seed_delta_after_eviction [of "replicate 300 diff_default" "''s0''" project_emails]
  by simp

subsection \<open>CONDSTORE mod-sequences\<close>

definition diff_touches :: "string \<Rightarrow> mutation_diff \<Rightarrow> bool" where
  "diff_touches e d \<longleftrightarrow> e \<in> set (email_created d) \<or> e \<in> set (email_updated d)"

lemma modseq_scan_less:
  "m < modseq_scan e best ts \<longleftrightarrow> m < best \<or>
     (\<exists>t \<in> set ts. (e \<in> set (email_created t) \<or> e \<in> set (email_updated t)) \<and>
        m < counter_of_state (to_state t))"
  by (induction ts arbitrary: best) (auto simp: less_max_iff_disj)

lemma set_log_run:
  "set (transitions (log_run seed ds)) = recorded_as seed ds ` {length ds - 256..<length ds}"
proof -
  have "set (drop m (map f [0..<n])) = f ` {m..<n}" for m n and f :: "nat \<Rightarrow> transition"
    by (simp add: drop_map)
  then show ?thesis by (simp add: log_run_transitions max_transitions_def)
qed

text \<open>
  \<open>CHANGEDSINCE\<close> is exact within retention. After \<open>n\<close> diffs the account's HIGHESTMODSEQ is
  \<open>n + 1\<close>; when later diffs have been recorded, an email's MODSEQ exceeds that value exactly
  when one of the later diffs that are still retained created or updated the email, and it
  never exceeds the current HIGHESTMODSEQ. A change made after the client's sync point
  and evicted since is therefore missed.
\<close>

theorem modseq_changed_since:
  assumes "length ds \<le> u64_max" and "n \<le> length ds"
  shows "(n + 1 < modseq_for_email (log_run seed ds) e \<longleftrightarrow>
      (\<exists>k. max n (length ds - 256) \<le> k \<and> k < length ds \<and> diff_touches e (ds ! k))) \<and>
    1 \<le> modseq_for_email (log_run seed ds) e \<and>
    modseq_for_email (log_run seed ds) e \<le> length ds + 1"
proof -
  have later: "m < counter_of_state (state_token seed (Suc k)) \<longleftrightarrow> m \<le> k" if "k < length ds" for m k
    using that assms by (simp add: counter_of_token less_Suc_eq_le)
  have iff: "m < modseq_scan e 0 (transitions (log_run seed ds)) \<longleftrightarrow>
      (\<exists>k. max m (length ds - 256) \<le> k \<and> k < length ds \<and> diff_touches e (ds ! k))" for m
    unfolding modseq_scan_less set_log_run
    by (auto simp: recorded_as_def diff_touches_def later)
  show ?thesis
    using iff [of n] iff [of "length ds"] by (auto simp: modseq_for_email_def not_less [symmetric])
qed

theorem modseq_changed_since_witness:
  "modseq_for_email (log_run ''s0'' sample_diffs) ''m1'' = 3"
proof -
  have "diff_touches ''m1'' (sample_diffs ! 1)" "\<not> diff_touches ''m1'' (sample_diffs ! 2)"
    by (simp_all add: sample_diffs_def diff_touches_def diff_default_def)
  moreover have "length sample_diffs = 3" by (simp add: sample_diffs_def)
  moreover have "3 \<le> u64_max" by simp
  moreover have two: "k < 3 \<Longrightarrow> 2 \<le> k \<Longrightarrow> k = 2" for k :: nat by arith
  ultimately have "1 + 1 < modseq_for_email (log_run ''s0'' sample_diffs) ''m1'' \<and>
    \<not> 2 + 1 < modseq_for_email (log_run ''s0'' sample_diffs) ''m1''"
    using modseq_changed_since [of sample_diffs 1 "''s0''" "''m1''"]
      modseq_changed_since [of sample_diffs 2 "''s0''" "''m1''"]
    by (auto dest: two)
  then show ?thesis by simp
qed

end
