(* ===== verification/Fixture_Store.thy ===== *)
theory Fixture_Store
  imports Change_Log
begin

text \<open>
  The store of \<open>src/fixture.rs\<close>: the accessors of \<open>Fixture\<close>, the per-mailbox UID history, the
  id mints, the split of a mutation's diff by owning account and \<open>record_transition\<close>, which
  advances the change log of exactly the touched accounts.
\<close>

named_theorems store_simps \<open>accessors and updates of the fixture, unfolded\<close>

subsection \<open>Accessors\<close>

text \<open>
  A \<open>HashMap\<close> collected from a list keeps the last of two equal keys; \<open>find\<close> on the list
  itself keeps the first.
\<close>

definition collect_map :: "('a \<Rightarrow> string) \<Rightarrow> ('a \<Rightarrow> 'b) \<Rightarrow> 'a list \<Rightarrow> string \<Rightarrow> 'b option" where
  "collect_map k v xs = map_of (rev (map (\<lambda>x. (k x, v x)) xs))"

definition change_log_transitions_for :: "fixture \<Rightarrow> string \<Rightarrow> transition list" where
  "change_log_transitions_for f a =
     (case map_of (account_logs f) a of Some l \<Rightarrow> transitions l | None \<Rightarrow> [])"

definition change_log_seed :: "fixture \<Rightarrow> string" where
  "change_log_seed f = state_seed f"

definition state_for :: "fixture \<Rightarrow> string \<Rightarrow> string" where
  "state_for f a = (case map_of (account_logs f) a of Some l \<Rightarrow> cl_state l | None \<Rightarrow> state_seed f)"

text \<open>The loader guarantees a primary account; without one the code panics.\<close>

definition primary_account :: "fixture \<Rightarrow> account" where
  "primary_account f = the (find primary (accounts f))"

definition primary_state :: "fixture \<Rightarrow> string" where
  "primary_state f = state_for f (ac_id (primary_account f))"

definition imap_highestmodseq :: "fixture \<Rightarrow> string \<Rightarrow> nat" where
  "imap_highestmodseq f a =
     (case map_of (account_logs f) a of Some l \<Rightarrow> cl_counter l | None \<Rightarrow> 0) + 1"

definition email_modseq :: "fixture \<Rightarrow> string \<Rightarrow> string \<Rightarrow> nat" where
  "email_modseq f a e =
     (case map_of (account_logs f) a of Some l \<Rightarrow> modseq_for_email l e | None \<Rightarrow> 1)"

definition find_account :: "fixture \<Rightarrow> string \<Rightarrow> account option" where
  "find_account f i = find (\<lambda>a. ac_id a = i) (accounts f)"

definition mailboxes_for :: "fixture \<Rightarrow> string \<Rightarrow> mailbox list" where
  "mailboxes_for f a = filter (\<lambda>m. mb_account_id m = a) (mailboxes f)"

definition mailbox_by_id :: "fixture \<Rightarrow> string \<Rightarrow> mailbox option" where
  "mailbox_by_id f i = find (\<lambda>m. mb_id m = i) (mailboxes f)"

definition acls_for_viewer :: "fixture \<Rightarrow> string \<Rightarrow> acl_grant list" where
  "acls_for_viewer f v = filter (\<lambda>a. acl_identifier a = v) (acls f)"

fun is_acl_grant_op :: "change_op \<Rightarrow> bool" where
  "is_acl_grant_op (AclGrant _ _ _) = True"
| "is_acl_grant_op _ = False"

definition imap_advertises_other_namespace :: "fixture \<Rightarrow> bool" where
  "imap_advertises_other_namespace f =
     (if acls f \<noteq> [] then True
      else if list_ex (\<lambda>a. \<not> is_personal a) (accounts f) then True
      else list_ex (\<lambda>s. list_ex is_acl_grant_op (cs_ops s)) (change_script f))"

definition acls_for_mailbox :: "fixture \<Rightarrow> string \<Rightarrow> acl_grant list" where
  "acls_for_mailbox f m = filter (\<lambda>a. acl_mailbox_id a = m) (acls f)"

definition rights_for :: "fixture \<Rightarrow> string \<Rightarrow> string \<Rightarrow> string option" where
  "rights_for f m viewer =
     (case mailbox_by_id f m of
        None \<Rightarrow> None
      | Some mb \<Rightarrow>
          if mb_account_id mb = viewer then Some owner_rights
          else map_option acl_rights
            (find (\<lambda>a. acl_mailbox_id a = m \<and> acl_identifier a = viewer) (acls f)))"

definition find_public_folder :: "fixture \<Rightarrow> string \<Rightarrow> public_folder option" where
  "find_public_folder f i = find (\<lambda>p. pf_id p = i) (public_folders f)"

definition public_folders_under :: "fixture \<Rightarrow> string option \<Rightarrow> public_folder list" where
  "public_folders_under f parent = filter (\<lambda>p. pf_parent_id p = parent) (public_folders f)"

definition public_items_in :: "fixture \<Rightarrow> string \<Rightarrow> public_item list" where
  "public_items_in f folder = filter (\<lambda>i. pi_folder_id i = folder) (public_items f)"

definition find_public_item :: "fixture \<Rightarrow> string \<Rightarrow> public_item option" where
  "find_public_item f i = find (\<lambda>p. pi_id p = i) (public_items f)"

fun first_attachment :: "string \<Rightarrow> public_item list \<Rightarrow> (public_item \<times> attachment) option" where
  "first_attachment i [] = None"
| "first_attachment i (it # its) =
     (case find (\<lambda>a. at_blob_id a = i) (pi_attachments it) of
        Some a \<Rightarrow> Some (it, a)
      | None \<Rightarrow> first_attachment i its)"

definition public_attachment :: "fixture \<Rightarrow> string \<Rightarrow> (public_item \<times> attachment) option" where
  "public_attachment f i = first_attachment i (public_items f)"

definition emails_for :: "fixture \<Rightarrow> string \<Rightarrow> email list" where
  "emails_for f a = filter (\<lambda>e. em_account_id e = a) (emails f)"

definition calendars_for :: "fixture \<Rightarrow> string \<Rightarrow> calendar list" where
  "calendars_for f a = filter (\<lambda>c. cal_account_id c = a) (calendars f)"

definition events_for :: "fixture \<Rightarrow> string \<Rightarrow> event list" where
  "events_for f a = filter (\<lambda>e. ev_account_id e = a) (events f)"

definition contact_folders_for :: "fixture \<Rightarrow> string \<Rightarrow> contact_folder list" where
  "contact_folders_for f a = filter (\<lambda>c. cf_account_id c = a) (contact_folders f)"

definition contacts_for :: "fixture \<Rightarrow> string \<Rightarrow> contact list" where
  "contacts_for f a = filter (\<lambda>c. ct_account_id c = a) (contacts f)"

definition contact_groups_for :: "fixture \<Rightarrow> string \<Rightarrow> contact_group list" where
  "contact_groups_for f a = filter (\<lambda>g. cg_account_id g = a) (contact_groups f)"

definition other_contacts_for :: "fixture \<Rightarrow> string \<Rightarrow> other_contact list" where
  "other_contacts_for f a = filter (\<lambda>c. oc_account_id c = a) (other_contacts f)"

definition directory_people_for :: "fixture \<Rightarrow> string \<Rightarrow> directory_person list" where
  "directory_people_for f a = filter (\<lambda>p. dp_account_id p = a) (directory_people f)"

definition categories_for :: "fixture \<Rightarrow> string \<Rightarrow> category list" where
  "categories_for f a = filter (\<lambda>c. ca_account_id c = a) (categories f)"

definition send_as_for :: "fixture \<Rightarrow> string \<Rightarrow> send_as list" where
  "send_as_for f a = filter (\<lambda>s. sa_account_id s = a) (send_as_list f)"

lemma rights_for_owner:
  "mailbox_by_id f m = Some mb \<Longrightarrow> rights_for f m (mb_account_id mb) = Some owner_rights"
  by (simp add: rights_for_def)

subsection \<open>Fresh ids\<close>

abbreviation mock_mailbox :: "nat \<Rightarrow> string" where
  "mock_mailbox n \<equiv> ''mock-mailbox-'' @ show_nat n"

lemma finite_taken: "finite {k. n \<le> k \<and> mock_mailbox k \<in> set ids}"
proof -
  have "inj mock_mailbox" by (simp add: inj_on_def)
  then have "finite (mock_mailbox -` set ids)" by (rule finite_vimageI [OF finite_set])
  then show ?thesis by (rule rev_finite_subset) auto
qed

function probe_mailbox_id :: "string list \<Rightarrow> nat \<Rightarrow> string" where
  "probe_mailbox_id ids n =
     (if mock_mailbox n \<notin> set ids then mock_mailbox n else probe_mailbox_id ids (Suc n))"
  by pat_completeness auto
termination
proof (relation "measure (\<lambda>(ids, n). card {k. n \<le> k \<and> mock_mailbox k \<in> set ids})")
  fix ids :: "string list" and n
  assume "\<not> mock_mailbox n \<notin> set ids"
  then have "{k. Suc n \<le> k \<and> mock_mailbox k \<in> set ids} \<subset> {k. n \<le> k \<and> mock_mailbox k \<in> set ids}"
    by (auto simp: Suc_le_eq)
  then show "((ids, Suc n), ids, n) \<in>
      measure (\<lambda>(ids, n). card {k. n \<le> k \<and> mock_mailbox k \<in> set ids})"
    using psubset_card_mono [OF finite_taken] by simp
qed simp

declare probe_mailbox_id.simps [simp del]

definition fresh_mailbox_id :: "fixture \<Rightarrow> string" where
  "fresh_mailbox_id f = probe_mailbox_id (map mb_id (mailboxes f)) (length (mailboxes f) + 1)"

lemma probe_fresh: "probe_mailbox_id ids n \<notin> set ids"
  by (induction ids n rule: probe_mailbox_id.induct)
     (subst probe_mailbox_id.simps, simp)

definition mint_event_id :: "fixture \<Rightarrow> string \<times> fixture" where
  "mint_event_id f =
     (let f' = f\<lparr>synthetic_event_seq := Suc (synthetic_event_seq f)\<rparr>
      in (''mock-event-'' @ show_nat (synthetic_event_seq f'), f'))"

definition mint_email_id :: "fixture \<Rightarrow> string \<times> fixture" where
  "mint_email_id f =
     (let f' = f\<lparr>synthetic_email_seq := Suc (synthetic_email_seq f)\<rparr>
      in (''mock-email-'' @ show_nat (synthetic_email_seq f'), f'))"

definition mint_category_id :: "fixture \<Rightarrow> string \<times> fixture" where
  "mint_category_id f =
     (let f' = f\<lparr>synthetic_category_seq := Suc (synthetic_category_seq f)\<rparr>
      in (''mock-category-'' @ show_nat (synthetic_category_seq f'), f'))"

definition mint_contact_id :: "fixture \<Rightarrow> string \<times> fixture" where
  "mint_contact_id f =
     (let f' = f\<lparr>synthetic_contact_seq := Suc (synthetic_contact_seq f)\<rparr>
      in (''mock-contact-'' @ show_nat (synthetic_contact_seq f'), f'))"

interpretation ev_mint: id_mint mint_event_id synthetic_event_seq "''mock-event-''"
  by unfold_locales (simp_all add: mint_event_id_def Let_def)

interpretation em_mint: id_mint mint_email_id synthetic_email_seq "''mock-email-''"
  by unfold_locales (simp_all add: mint_email_id_def Let_def)

interpretation ca_mint: id_mint mint_category_id synthetic_category_seq "''mock-category-''"
  by unfold_locales (simp_all add: mint_category_id_def Let_def)

interpretation ct_mint: id_mint mint_contact_id synthetic_contact_seq "''mock-contact-''"
  by unfold_locales (simp_all add: mint_contact_id_def Let_def)

definition store_uploaded_blob :: "string \<Rightarrow> bytes \<Rightarrow> fixture \<Rightarrow> string \<times> fixture" where
  "store_uploaded_blob ct data f =
     (let blob_id = ''uploadblob-'' @ show_nat (length (uploaded_blobs f) + 1)
      in (blob_id, f\<lparr>uploaded_blobs :=
            bt_insert blob_id \<lparr>ub_content_type = ct, ub_data = data\<rparr> (uploaded_blobs f)\<rparr>))"


text \<open>The upload store holds the blobs \<open>1..n\<close>: it is only ever inserted into.\<close>

definition blobs_ok :: "fixture \<Rightarrow> bool" where
  "blobs_ok f \<longleftrightarrow> bt_ok (uploaded_blobs f) \<and>
     fst ` set (uploaded_blobs f) =
       (\<lambda>k. ''uploadblob-'' @ show_nat k) ` {1..length (uploaded_blobs f)}"

lemma bt_insert_length:
  "k \<notin> fst ` set m \<Longrightarrow> length (bt_insert k v m) = Suc (length m)"
  by (induction m) auto

text \<open>
  An uploaded blob gets an id no earlier upload has: storing keeps the store's invariant
  (ids \<open>uploadblob-1\<close> to \<open>uploadblob-n\<close>), the new id finds the new blob and every earlier blob
  is still found unchanged.
\<close>

theorem store_uploaded_blob_fresh:
  assumes "blobs_ok f" and "store_uploaded_blob ct data f = (i, f')"
  shows "blobs_ok f' \<and> map_of (uploaded_blobs f) i = None \<and>
    map_of (uploaded_blobs f') i = Some \<lparr>ub_content_type = ct, ub_data = data\<rparr> \<and>
    (\<forall>j \<noteq> i. map_of (uploaded_blobs f') j = map_of (uploaded_blobs f) j)"
proof -
  let ?n = "length (uploaded_blobs f)"
  from assms(2) have i: "i = ''uploadblob-'' @ show_nat (Suc ?n)"
    and f': "uploaded_blobs f' =
      bt_insert i \<lparr>ub_content_type = ct, ub_data = data\<rparr> (uploaded_blobs f)"
    by (auto simp: store_uploaded_blob_def Let_def)
  have new: "i \<notin> fst ` set (uploaded_blobs f)"
    using assms(1) i by (auto simp: blobs_ok_def)
  have "{1..Suc ?n} = insert (Suc ?n) {1..?n}" by auto
  then show ?thesis
    using assms(1) new i f'
    by (auto simp: blobs_ok_def bt_insert_length map_of_eq_None_iff)
qed

definition empty_fixture :: fixture where
  "empty_fixture = \<lparr>fx_name = [], identity = \<lparr>fi_path = None, fi_sha256 = []\<rparr>,
     state_seed = ''s0'', accounts = [], mailboxes = [], emails = [],
     oauth = oauth_config_default, caldav = caldav_config_default, announce = [],
     discovery = \<lparr>entries = []\<rparr>, calendars = [], events = [], contact_folders = [],
     contacts = [], categories = [], groups = [], acls = [], public_folders = [],
     public_items = [], send_as_list = [], contact_groups = [], other_contacts = [],
     directory_people = [], account_logs = [], change_script = [], mailbox_uid_history = [],
     synthetic_event_seq = 0, synthetic_email_seq = 0, synthetic_category_seq = 0,
     synthetic_contact_seq = 0, uploaded_blobs = [], gmail_label_colors = []\<rparr>"

theorem store_uploaded_blob_fresh_witness:
  "blobs_ok (snd (store_uploaded_blob ''text/plain'' ''x'' empty_fixture))"
  using store_uploaded_blob_fresh [of empty_fixture "''text/plain''" "''x''"
      "fst (store_uploaded_blob ''text/plain'' ''x'' empty_fixture)"
      "snd (store_uploaded_blob ''text/plain'' ''x'' empty_fixture)"]
  by (simp add: blobs_ok_def empty_fixture_def)

subsection \<open>UIDs\<close>

text \<open>Slot \<open>i\<close> of a mailbox's history holds the email with UID \<open>i + 1\<close>, or nothing once it left.\<close>

definition slots_of :: "(string, string option list) btmap \<Rightarrow> string \<Rightarrow> string option list" where
  "slots_of h mb = (case map_of h mb of Some s \<Rightarrow> s | None \<Rightarrow> [])"

lemma slots_of_Nil [simp]: "slots_of [] mb = []"
  by (simp add: slots_of_def)

lemma slots_of_insert [simp]: "slots_of (bt_insert mb s h) mb' = (if mb' = mb then s else slots_of h mb')"
  by (simp add: slots_of_def)

lemma slots_of_entry [simp]:
  "slots_of (bt_entry mb [] g h) mb' = (if mb' = mb then g (slots_of h mb) else slots_of h mb')"
  by (simp add: slots_of_def)

definition uid_history :: "fixture \<Rightarrow> string \<Rightarrow> string option list" where
  "uid_history f mb = slots_of (mailbox_uid_history f) mb"

text \<open>
  The code hands a UID out as \<open>u32\<close> with an \<open>expect\<close>; it is a \<open>nat\<close> here, as the history would need
  \<open>2^32\<close> slots in memory for the conversion to fail.
\<close>

definition uidnext :: "fixture \<Rightarrow> string \<Rightarrow> nat" where
  "uidnext f mb = length (uid_history f mb) + 1"

definition assign_uid :: "string \<Rightarrow> string \<Rightarrow> fixture \<Rightarrow> nat \<times> fixture" where
  "assign_uid mb e f =
     (let f' = f\<lparr>mailbox_uid_history :=
                  bt_entry mb [] (\<lambda>h. h @ [Some e]) (mailbox_uid_history f)\<rparr>
      in (length (uid_history f' mb), f'))"

definition retire_slot :: "string \<Rightarrow> string option list \<Rightarrow> string option list" where
  "retire_slot e h = update_first (\<lambda>s. s = Some e) (\<lambda>s. None) h"

definition retire_uid :: "string \<Rightarrow> string \<Rightarrow> fixture \<Rightarrow> fixture" where
  "retire_uid mb e f =
     (case map_of (mailbox_uid_history f) mb of
        Some h \<Rightarrow> f\<lparr>mailbox_uid_history := bt_insert mb (retire_slot e h) (mailbox_uid_history f)\<rparr>
      | None \<Rightarrow> f)"

definition sync_mailbox_uids :: "string \<Rightarrow> string list \<Rightarrow> string list \<Rightarrow> fixture \<Rightarrow> fixture" where
  "sync_mailbox_uids e olds news f =
     (let f1 = fold (\<lambda>m f. if m \<notin> set news then retire_uid m e f else f) olds f
      in fold (\<lambda>m f. if m \<notin> set olds then snd (assign_uid m e f) else f) news f1)"

definition rebuild_uid_history :: "fixture \<Rightarrow> fixture" where
  "rebuild_uid_history f =
     f\<lparr>mailbox_uid_history :=
        fold (\<lambda>e h. fold (\<lambda>mb. bt_entry mb [] (\<lambda>s. s @ [Some (em_id e)])) (mailbox_ids e) h)
          (emails f) []\<rparr>"

lemma uid_history_assign:
  "uid_history (snd (assign_uid mb e f)) mb' =
     (if mb' = mb then uid_history f mb @ [Some e] else uid_history f mb')"
  by (simp add: assign_uid_def uid_history_def Let_def)

lemma uid_history_retire:
  "uid_history (retire_uid mb e f) mb' =
     (if mb' = mb then retire_slot e (uid_history f mb) else uid_history f mb')"
  by (auto simp: retire_uid_def uid_history_def retire_slot_def slots_of_def split: option.splits)

lemma assign_uid_fields [simp]:
  "emails (snd (assign_uid mb e f)) = emails f"
  "mailboxes (snd (assign_uid mb e f)) = mailboxes f"
  "account_logs (snd (assign_uid mb e f)) = account_logs f"
  "accounts (snd (assign_uid mb e f)) = accounts f"
  "state_seed (snd (assign_uid mb e f)) = state_seed f"
  "synthetic_email_seq (snd (assign_uid mb e f)) = synthetic_email_seq f"
  by (simp_all add: assign_uid_def Let_def)

lemma retire_uid_fields [simp]:
  "emails (retire_uid mb e f) = emails f"
  "mailboxes (retire_uid mb e f) = mailboxes f"
  "account_logs (retire_uid mb e f) = account_logs f"
  "accounts (retire_uid mb e f) = accounts f"
  "state_seed (retire_uid mb e f) = state_seed f"
  "synthetic_email_seq (retire_uid mb e f) = synthetic_email_seq f"
  by (simp_all add: retire_uid_def split: option.splits)

lemma assign_uid_result: "fst (assign_uid mb e f) = uidnext f mb"
  using uid_history_assign [of mb e f mb] by (simp add: assign_uid_def Let_def uidnext_def)

text \<open>
  What may happen to a history: it grows, and a slot already handed out keeps its email or is
  emptied. A UID is therefore never given to another email.
\<close>

definition uids_extend :: "string option list \<Rightarrow> string option list \<Rightarrow> bool" where
  "uids_extend h h' \<longleftrightarrow> length h \<le> length h' \<and> (\<forall>i < length h. h' ! i = h ! i \<or> h' ! i = None)"

lemma uids_extend_refl [simp]: "uids_extend h h"
  by (simp add: uids_extend_def)

lemma uids_extend_trans: "uids_extend h h' \<Longrightarrow> uids_extend h' h'' \<Longrightarrow> uids_extend h h''"
  unfolding uids_extend_def by (metis le_trans less_le_trans)

lemma length_retire_slot [simp]: "length (retire_slot e h) = length h"
  by (simp add: retire_slot_def)

lemma retire_slot_simps [simp]:
  "retire_slot e [] = []"
  "retire_slot e (s # h) = (if s = Some e then None # h else s # retire_slot e h)"
  by (simp_all add: retire_slot_def)

lemma uids_extend_Cons: "s' = s \<or> s' = None \<Longrightarrow> uids_extend h h' \<Longrightarrow> uids_extend (s # h) (s' # h')"
  unfolding uids_extend_def by (auto simp: nth_Cons split: nat.splits)

lemma uids_extend_retire: "uids_extend h (retire_slot e h)"
  by (induction h) (auto intro!: uids_extend_Cons)

lemma uids_extend_append: "uids_extend h (h @ xs)"
  by (auto simp: uids_extend_def nth_append)

definition fixture_uids_extend :: "fixture \<Rightarrow> fixture \<Rightarrow> bool" where
  "fixture_uids_extend f f' \<longleftrightarrow> (\<forall>mb. uids_extend (uid_history f mb) (uid_history f' mb))"

lemma fixture_uids_extend_refl [simp]: "fixture_uids_extend f f"
  by (simp add: fixture_uids_extend_def)

lemma fixture_uids_extend_trans:
  "fixture_uids_extend f f' \<Longrightarrow> fixture_uids_extend f' f'' \<Longrightarrow> fixture_uids_extend f f''"
  unfolding fixture_uids_extend_def by (blast intro: uids_extend_trans)

lemma fixture_uids_extend_steps [intro]:
  "fixture_uids_extend f (snd (assign_uid mb e f))"
  "fixture_uids_extend f (retire_uid mb e f)"
  by (simp_all add: fixture_uids_extend_def uid_history_assign uid_history_retire
      uids_extend_append uids_extend_retire)

lemma fixture_uids_extend_fold:
  "(\<And>x f. fixture_uids_extend f (g x f)) \<Longrightarrow> fixture_uids_extend f (fold g xs f)"
proof (induction xs arbitrary: f)
  case (Cons x xs)
  then show ?case using fixture_uids_extend_trans [of f "g x f"] by simp
qed simp

lemma fixture_uids_extend_sync: "fixture_uids_extend f (sync_mailbox_uids e olds news f)"
  unfolding sync_mailbox_uids_def Let_def
  by (rule fixture_uids_extend_trans; rule fixture_uids_extend_fold) auto

lemma fold_retire_history:
  "distinct olds \<Longrightarrow>
     uid_history (fold (\<lambda>m f. if m \<notin> set news then retire_uid m e f else f) olds f) mb =
     (if mb \<in> set olds \<and> mb \<notin> set news then retire_slot e (uid_history f mb)
      else uid_history f mb)"
  by (induction olds arbitrary: f) (auto simp: uid_history_retire)

lemma fold_assign_history:
  "distinct news \<Longrightarrow>
     uid_history (fold (\<lambda>m f. if m \<notin> set olds then snd (assign_uid m e f) else f) news f) mb =
     (if mb \<in> set news \<and> mb \<notin> set olds then uid_history f mb @ [Some e] else uid_history f mb)"
  by (induction news arbitrary: f) (auto simp: uid_history_assign)

text \<open>The number of live slots of an email in a mailbox, and the program's invariant on them.\<close>

definition held :: "fixture \<Rightarrow> string \<Rightarrow> string \<Rightarrow> nat" where
  "held f mb e = count_list (uid_history f mb) (Some e)"

lemma count_retire_slot:
  "count_list (retire_slot e h) (Some e') = count_list h (Some e') - (if e' = e then 1 else 0)"
proof (induction h)
  case (Cons s h)
  then show ?case by auto
qed simp

lemma count_edited_slots:
  "count_list (if b then h @ [Some e] else if c then retire_slot e h else h) (Some e') =
   count_list h (Some e') + (if e' = e \<and> b then 1 else 0) -
      (if e' = e \<and> \<not> b \<and> c then 1 else 0)"
  by (simp add: count_retire_slot)

lemma sync_fields [simp]:
  "emails (sync_mailbox_uids i olds news f) = emails f"
  "mailboxes (sync_mailbox_uids i olds news f) = mailboxes f"
  "account_logs (sync_mailbox_uids i olds news f) = account_logs f"
  "accounts (sync_mailbox_uids i olds news f) = accounts f"
  "state_seed (sync_mailbox_uids i olds news f) = state_seed f"
  "synthetic_email_seq (sync_mailbox_uids i olds news f) = synthetic_email_seq f"
  by (simp_all add: sync_mailbox_uids_def Let_def fold_same)

lemma sync_uid_history:
  assumes "distinct olds" and "distinct news"
  shows "uid_history (sync_mailbox_uids e olds news f) mb =
      (if mb \<in> set news - set olds then uid_history f mb @ [Some e]
       else if mb \<in> set olds - set news then retire_slot e (uid_history f mb)
       else uid_history f mb)"
  using assms by (simp add: sync_mailbox_uids_def Let_def fold_assign_history fold_retire_history)

lemma sync_held:
  assumes "distinct olds" and "distinct news"
    and "\<forall>mb. held f mb e = (if mb \<in> set olds then 1 else 0)"
  shows "held (sync_mailbox_uids e olds news f) mb e' =
    (if e' = e then (if mb \<in> set news then 1 else 0) else held f mb e')"
  using count_edited_slots [of "mb \<in> set news - set olds" "uid_history f mb" e
      "mb \<in> set olds - set news" e', folded sync_uid_history [OF assms(1,2)] held_def] assms(3)
  by (cases "e' = e"; cases "mb \<in> set news"; cases "mb \<in> set olds") simp_all

text \<open>
  C21. An in-place edit of an email's mailboxes keeps the UID histories in step: the mailboxes
  it joined get a new highest UID for it, in those it left its UID is retired, all other
  mailboxes keep their history unchanged; and if it had exactly one UID in each of its old mailboxes
  and none elsewhere, it has exactly one in each of its new ones and none elsewhere.
\<close>

theorem sync_mailbox_uids_correct:
  assumes "distinct olds" and "distinct news"
    and "\<forall>mb. held f mb e = (if mb \<in> set olds then 1 else 0)"
  defines "f' \<equiv> sync_mailbox_uids e olds news f"
  shows "(\<forall>mb. uid_history f' mb =
      (if mb \<in> set news - set olds then uid_history f mb @ [Some e]
       else if mb \<in> set olds - set news then retire_slot e (uid_history f mb)
       else uid_history f mb)) \<and>
    (\<forall>mb. held f' mb e = (if mb \<in> set news then 1 else 0)) \<and>
    (\<forall>mb e'. e' \<noteq> e \<longrightarrow> held f' mb e' = held f mb e')"
  using sync_uid_history [OF assms(1,2)] sync_held [OF assms(1-3)] by (simp add: f'_def)

definition two_mailboxes :: fixture where
  "two_mailboxes = snd (assign_uid ''mb1'' ''m1'' (snd (assign_uid ''mb1'' ''m0'' empty_fixture)))"

theorem sync_mailbox_uids_correct_witness:
  "held (sync_mailbox_uids ''m1'' [''mb1''] [''mb2''] two_mailboxes) ''mb2'' ''m1'' = 1"
proof -
  have "held two_mailboxes mb ''m1'' = (if mb \<in> set [''mb1''] then 1 else 0)" for mb
    by (simp add: held_def two_mailboxes_def uid_history_assign)
       (simp add: uid_history_def empty_fixture_def)
  then show ?thesis
    using sync_mailbox_uids_correct [of "[''mb1'']" "[''mb2'']" two_mailboxes "''m1''"] by auto
qed

text \<open>The UID operations a run of the program performs, in any order.\<close>

datatype uid_op =
    OpAssign string string
  | OpRetire string string
  | OpSync string "string list" "string list"

fun uid_step :: "uid_op \<Rightarrow> fixture \<Rightarrow> fixture" where
  "uid_step (OpAssign mb e) f = snd (assign_uid mb e f)"
| "uid_step (OpRetire mb e) f = retire_uid mb e f"
| "uid_step (OpSync e olds news) f = sync_mailbox_uids e olds news f"

lemma uid_step_extend: "fixture_uids_extend f (uid_step op f)"
  by (cases op) (auto simp: fixture_uids_extend_sync)

lemma uid_steps_extend: "fixture_uids_extend f (fold uid_step ops f)"
  by (rule fixture_uids_extend_fold) (rule uid_step_extend)

text \<open>
  C20. A UID is never re-used. Whatever sequence of assignments, retirements and membership
  edits happens, UIDNEXT never decreases, a slot that has been handed out holds the email
  it was given to or nothing, and the next UID handed out in a mailbox is the UIDNEXT that
  was announced for it, above every UID seen before.
\<close>

theorem uid_never_reused:
  "(\<forall>mb. uidnext f mb \<le> uidnext (fold uid_step ops f) mb) \<and>
   (\<forall>mb i. i + 1 < uidnext f mb \<longrightarrow>
      uid_history (fold uid_step ops f) mb ! i \<in> {uid_history f mb ! i, None}) \<and>
   fst (assign_uid mb e (fold uid_step ops f)) = uidnext (fold uid_step ops f) mb \<and>
   uid_history (snd (assign_uid mb e (fold uid_step ops f))) mb !
      (uidnext (fold uid_step ops f) mb - 1) = Some e"
  using uid_steps_extend [of f ops]
  by (auto simp: fixture_uids_extend_def uids_extend_def uidnext_def assign_uid_result
      uid_history_assign)

theorem uid_never_reused_witness:
  "uid_history (fold uid_step [OpRetire ''mb1'' ''m0'', OpAssign ''mb1'' ''m2''] two_mailboxes)
     ''mb1'' ! 1 \<in> {Some ''m1'', None}"
proof -
  have "uid_history two_mailboxes ''mb1'' = [Some ''m0'', Some ''m1'']"
    by (simp add: two_mailboxes_def uid_history_assign)
       (simp add: uid_history_def empty_fixture_def)
  then show ?thesis
    using uid_never_reused [THEN conjunct2, THEN conjunct1, rule_format, of 1 two_mailboxes "''mb1''"
        "[OpRetire ''mb1'' ''m0'', OpAssign ''mb1'' ''m2'']"]
    by (simp add: uidnext_def)
qed

text \<open>Loading: \<open>rebuild_uid_history\<close> gives every membership of every email one slot.\<close>

lemma count_fold_entry:
  "count_list (slots_of (fold (\<lambda>mb. bt_entry mb [] (\<lambda>s. s @ [x])) ms h) mb) y =
   count_list (slots_of h mb) y + (if y = x then count_list ms mb else 0)"
  by (induction ms arbitrary: h) simp_all

lemma rebuild_held:
  "held (rebuild_uid_history f) mb e =
     sum_list (map (\<lambda>m. if em_id m = e then count_list (mailbox_ids m) mb else 0) (emails f))"
proof -
  have "count_list (slots_of (fold (\<lambda>e h. fold (\<lambda>mb. bt_entry mb [] (\<lambda>s. s @ [Some (em_id e)]))
         (mailbox_ids e) h) es h) mb) (Some e) =
      count_list (slots_of h mb) (Some e) +
      sum_list (map (\<lambda>m. if em_id m = e then count_list (mailbox_ids m) mb else 0) es)"
    for es h
    by (induction es arbitrary: h) (simp_all add: count_fold_entry)
  from this [of "emails f" "[]"] show ?thesis
    by (simp add: held_def uid_history_def rebuild_uid_history_def)
qed

subsection \<open>Splitting a diff by owning account\<close>

abbreviation primary_id :: "fixture \<Rightarrow> string" where
  "primary_id f \<equiv> ac_id (primary_account f)"

definition or_primary :: "fixture \<Rightarrow> string option \<Rightarrow> string" where
  "or_primary f r = (case r of Some a \<Rightarrow> a | None \<Rightarrow> primary_id f)"

definition resolve_email :: "fixture \<Rightarrow> string \<Rightarrow> string" where
  "resolve_email f i = or_primary f (collect_map em_id em_account_id (emails f) i)"

definition resolve_mailbox :: "fixture \<Rightarrow> string \<Rightarrow> string" where
  "resolve_mailbox f i = or_primary f (collect_map mb_id mb_account_id (mailboxes f) i)"

definition resolve_calendar :: "fixture \<Rightarrow> string \<Rightarrow> string" where
  "resolve_calendar f i = or_primary f (collect_map cal_id cal_account_id (calendars f) i)"

definition resolve_event :: "fixture \<Rightarrow> string \<Rightarrow> string" where
  "resolve_event f i =
     (case collect_map ev_id ev_calendar_id (events f) i of
        Some c \<Rightarrow> resolve_calendar f c
      | None \<Rightarrow> primary_id f)"

definition resolve_folder :: "fixture \<Rightarrow> string \<Rightarrow> string" where
  "resolve_folder f i = or_primary f (collect_map cf_id cf_account_id (contact_folders f) i)"

definition resolve_contact :: "fixture \<Rightarrow> string \<Rightarrow> string" where
  "resolve_contact f i =
     (case collect_map ct_id ct_folder_id (contacts f) i of
        Some c \<Rightarrow> resolve_folder f c
      | None \<Rightarrow> primary_id f)"

definition resolve_category :: "fixture \<Rightarrow> string \<Rightarrow> string" where
  "resolve_category f i = or_primary f (collect_map ca_id ca_account_id (categories f) i)"

type_synonym account_diffs = "(string, mutation_diff) btmap"

text \<open>One loop of \<open>split_diff_by_account\<close>: each entry is pushed into its account's sub-diff.\<close>

definition route ::
    "('a \<Rightarrow> string) \<Rightarrow> ('a \<Rightarrow> mutation_diff \<Rightarrow> mutation_diff) \<Rightarrow> 'a list
      \<Rightarrow> account_diffs \<Rightarrow> account_diffs" where
  "route res put xs out = fold (\<lambda>x. bt_entry (res x) diff_default (put x)) xs out"

definition push_to :: "(('a list \<Rightarrow> 'a list) \<Rightarrow> 's \<Rightarrow> 's) \<Rightarrow> 'a \<Rightarrow> 's \<Rightarrow> 's" where
  "push_to upd x = upd (\<lambda>l. l @ [x])"

definition push_both ::
    "((string list \<Rightarrow> string list) \<Rightarrow> 's \<Rightarrow> 's) \<Rightarrow> ((string list \<Rightarrow> string list) \<Rightarrow> 's \<Rightarrow> 's)
      \<Rightarrow> string \<times> string \<Rightarrow> 's \<Rightarrow> 's" where
  "push_both upd upd2 x = push_to upd2 (snd x) \<circ> push_to upd (fst x)"

definition split_emails :: "fixture \<Rightarrow> mutation_diff \<Rightarrow> account_diffs \<Rightarrow> account_diffs" where
  "split_emails f d =
     route snd (push_both email_destroyed_update email_destroyed_accounts_update)
       (zip (email_destroyed d) (email_destroyed_accounts d))
     \<circ> route (\<lambda>c. resolve_email f (elc_id c)) (push_to email_label_changes_update)
       (email_label_changes d)
     \<circ> route (resolve_email f) (push_to email_updated_update) (email_updated d)
     \<circ> route (resolve_email f) (push_to email_created_update) (email_created d)"

definition split_mailboxes :: "fixture \<Rightarrow> mutation_diff \<Rightarrow> account_diffs \<Rightarrow> account_diffs" where
  "split_mailboxes f d =
     route snd (push_both mailbox_destroyed_update mailbox_destroyed_accounts_update)
       (zip (mailbox_destroyed d) (mailbox_destroyed_accounts d))
     \<circ> route (resolve_mailbox f) (push_to mailbox_updated_update) (mailbox_updated d)
     \<circ> route (resolve_mailbox f) (push_to mailbox_created_update) (mailbox_created d)"

definition split_events :: "fixture \<Rightarrow> mutation_diff \<Rightarrow> account_diffs \<Rightarrow> account_diffs" where
  "split_events f d =
     route (\<lambda>x. resolve_calendar f (snd x)) (push_both event_destroyed_update event_destroyed_parents_update)
       (zip (event_destroyed d) (event_destroyed_parents d))
     \<circ> route (resolve_event f) (push_to event_updated_update) (event_updated d)
     \<circ> route (resolve_event f) (push_to event_created_update) (event_created d)"

definition split_calendars :: "fixture \<Rightarrow> mutation_diff \<Rightarrow> account_diffs \<Rightarrow> account_diffs" where
  "split_calendars f d =
     route snd (push_both calendar_destroyed_update calendar_destroyed_accounts_update)
       (zip (calendar_destroyed d) (calendar_destroyed_accounts d))
     \<circ> route (resolve_calendar f) (push_to calendar_updated_update) (calendar_updated d)
     \<circ> route (resolve_calendar f) (push_to calendar_created_update) (calendar_created d)"

definition split_contacts :: "fixture \<Rightarrow> mutation_diff \<Rightarrow> account_diffs \<Rightarrow> account_diffs" where
  "split_contacts f d =
     route (\<lambda>x. resolve_folder f (snd x)) (push_both contact_destroyed_update contact_destroyed_parents_update)
       (zip (contact_destroyed d) (contact_destroyed_parents d))
     \<circ> route (resolve_contact f) (push_to contact_updated_update) (contact_updated d)
     \<circ> route (resolve_contact f) (push_to contact_created_update) (contact_created d)"

definition split_folders :: "fixture \<Rightarrow> mutation_diff \<Rightarrow> account_diffs \<Rightarrow> account_diffs" where
  "split_folders f d =
     route snd (push_both contact_folder_destroyed_update contact_folder_destroyed_accounts_update)
       (zip (contact_folder_destroyed d) (contact_folder_destroyed_accounts d))
     \<circ> route (resolve_folder f) (push_to contact_folder_updated_update) (contact_folder_updated d)
     \<circ> route (resolve_folder f) (push_to contact_folder_created_update) (contact_folder_created d)"

definition split_categories :: "fixture \<Rightarrow> mutation_diff \<Rightarrow> account_diffs \<Rightarrow> account_diffs" where
  "split_categories f d =
     route snd (push_both category_destroyed_update category_destroyed_accounts_update)
       (zip (category_destroyed d) (category_destroyed_accounts d))
     \<circ> route (resolve_category f) (push_to category_updated_update) (category_updated d)
     \<circ> route (resolve_category f) (push_to category_created_update) (category_created d)"

text \<open>A grant or a revocation is recorded for its owner and then for its grantee.\<close>

definition two_sided :: "acl_ref list \<Rightarrow> (string \<times> acl_ref) list" where
  "two_sided xs = concat (map (\<lambda>a. [(owner_account_id a, a), (ar_identifier a, a)]) xs)"

definition split_acls :: "mutation_diff \<Rightarrow> account_diffs \<Rightarrow> account_diffs" where
  "split_acls d =
     route fst (\<lambda>x. push_to acl_revoked_update (snd x)) (two_sided (acl_revoked d))
     \<circ> route fst (\<lambda>x. push_to acl_granted_update (snd x)) (two_sided (acl_granted d))"

definition split_diff_by_account :: "fixture \<Rightarrow> mutation_diff \<Rightarrow> account_diffs" where
  "split_diff_by_account f d =
     split_acls d (split_categories f d (split_folders f d (split_contacts f d
       (split_calendars f d (split_events f d (split_mailboxes f d (split_emails f d [])))))))"

definition accounts_touched :: "fixture \<Rightarrow> mutation_diff \<Rightarrow> string list" where
  "accounts_touched f d =
     (if diff_is_empty d then [] else map fst (split_diff_by_account f d))"

subsection \<open>Recording a transition\<close>

definition record_transition :: "mutation_diff \<Rightarrow> fixture \<Rightarrow> transition \<times> fixture" where
  "record_transition d f =
     (let agg_from = primary_state f in
      if diff_is_empty d then (transition_from_diff agg_from agg_from diff_default, f)
      else
        let f' = f\<lparr>account_logs :=
              fold (\<lambda>(a, sub). bt_entry a (change_log_new (state_seed f)) (log_record sub))
                (split_diff_by_account f d) (account_logs f)\<rparr>
        in (transition_from_diff agg_from (primary_state f') d, f'))"

definition mutate :: "(fixture \<Rightarrow> mutation_diff \<times> fixture) \<Rightarrow> fixture \<Rightarrow> transition \<times> fixture" where
  "mutate g f = (let (d, f') = g f in record_transition d f')"

subsection \<open>What the split computes\<close>

definition sub_diff :: "account_diffs \<Rightarrow> string \<Rightarrow> mutation_diff" where
  "sub_diff out a = (case map_of out a of Some s \<Rightarrow> s | None \<Rightarrow> diff_default)"

lemma sub_diff_Nil [simp]: "sub_diff [] a = diff_default"
  by (simp add: sub_diff_def)

lemma sub_diff_route:
  "sub_diff (route res put xs out) a = fold put (filter (\<lambda>x. res x = a) xs) (sub_diff out a)"
proof (induction xs arbitrary: out)
  case (Cons x xs)
  have "sub_diff (bt_entry (res x) diff_default (put x) out) a =
      (if res x = a then put x (sub_diff out a) else sub_diff out a)"
    by (simp add: sub_diff_def)
  with Cons show ?case by (simp add: route_def)
qed (simp add: route_def)

lemma keys_route: "fst ` set (route res put xs out) = fst ` set out \<union> res ` set xs"
  by (induction xs arbitrary: out) (simp_all add: route_def bt_entry_def insert_commute)

lemma bt_ok_route: "bt_ok out \<Longrightarrow> bt_ok (route res put xs out)"
  by (induction xs arbitrary: out) (simp_all add: route_def)

text \<open>Field updates compose, so a run of pushes appends the whole list.\<close>

definition update_fun :: "(('a \<Rightarrow> 'a) \<Rightarrow> 's \<Rightarrow> 's) \<Rightarrow> bool" where
  "update_fun upd \<longleftrightarrow> (\<forall>g h s. upd g (upd h s) = upd (\<lambda>x. g (h x)) s) \<and> (\<forall>s. upd (\<lambda>x. x) s = s)"

lemma fold_push_to: "update_fun upd \<Longrightarrow> fold (push_to upd) xs s = upd (\<lambda>l. l @ xs) s"
  by (induction xs arbitrary: s) (auto simp: push_to_def update_fun_def)

lemma fold_push_snd:
  "update_fun upd \<Longrightarrow> fold (\<lambda>x. push_to upd (snd x)) xs s = upd (\<lambda>l. l @ map snd xs) s"
  by (induction xs arbitrary: s) (auto simp: push_to_def update_fun_def)

lemma fold_push_both:
  "update_fun upd \<Longrightarrow> update_fun upd2 \<Longrightarrow> (\<And>g h s. upd2 g (upd h s) = upd h (upd2 g s)) \<Longrightarrow>
     fold (push_both upd upd2) xs s = upd2 (\<lambda>l. l @ map snd xs) (upd (\<lambda>l. l @ map fst xs) s)"
  by (induction xs arbitrary: s) (auto simp: push_both_def push_to_def update_fun_def)

lemma update_funs:
  "update_fun email_created_update" "update_fun email_updated_update"
  "update_fun email_label_changes_update" "update_fun email_destroyed_update"
  "update_fun email_destroyed_accounts_update"
  "update_fun mailbox_created_update" "update_fun mailbox_updated_update"
  "update_fun mailbox_destroyed_update" "update_fun mailbox_destroyed_accounts_update"
  "update_fun event_created_update" "update_fun event_updated_update"
  "update_fun event_destroyed_update" "update_fun event_destroyed_parents_update"
  "update_fun calendar_created_update" "update_fun calendar_updated_update"
  "update_fun calendar_destroyed_update" "update_fun calendar_destroyed_accounts_update"
  "update_fun contact_created_update" "update_fun contact_updated_update"
  "update_fun contact_destroyed_update" "update_fun contact_destroyed_parents_update"
  "update_fun contact_folder_created_update" "update_fun contact_folder_updated_update"
  "update_fun contact_folder_destroyed_update" "update_fun contact_folder_destroyed_accounts_update"
  "update_fun category_created_update" "update_fun category_updated_update"
  "update_fun category_destroyed_update" "update_fun category_destroyed_accounts_update"
  "update_fun acl_granted_update" "update_fun acl_revoked_update"
  by (simp_all add: update_fun_def comp_def)

text \<open>The ids of a destroyed list whose parallel entry satisfies \<open>P\<close>.\<close>

definition kept :: "(string \<Rightarrow> bool) \<Rightarrow> string list \<Rightarrow> string list \<Rightarrow> (string \<times> string) list" where
  "kept P is as = filter (\<lambda>x. P (snd x)) (zip is as)"

text \<open>The part of a diff that concerns one account, written down directly.\<close>

definition account_part :: "fixture \<Rightarrow> string \<Rightarrow> mutation_diff \<Rightarrow> mutation_diff" where
  "account_part f a d =
     (let em = kept (\<lambda>x. x = a) (email_destroyed d) (email_destroyed_accounts d);
          mb = kept (\<lambda>x. x = a) (mailbox_destroyed d) (mailbox_destroyed_accounts d);
          ev = kept (\<lambda>x. resolve_calendar f x = a) (event_destroyed d) (event_destroyed_parents d);
          cl = kept (\<lambda>x. x = a) (calendar_destroyed d) (calendar_destroyed_accounts d);
          ct = kept (\<lambda>x. resolve_folder f x = a) (contact_destroyed d) (contact_destroyed_parents d);
          cf = kept (\<lambda>x. x = a) (contact_folder_destroyed d) (contact_folder_destroyed_accounts d);
          ca = kept (\<lambda>x. x = a) (category_destroyed d) (category_destroyed_accounts d);
          own = (\<lambda>x. fst x = a)
      in \<lparr>email_created = filter (\<lambda>i. resolve_email f i = a) (email_created d),
          email_updated = filter (\<lambda>i. resolve_email f i = a) (email_updated d),
          email_destroyed = map fst em, email_destroyed_accounts = map snd em,
          email_label_changes =
            filter (\<lambda>c. resolve_email f (elc_id c) = a) (email_label_changes d),
          mailbox_created = filter (\<lambda>i. resolve_mailbox f i = a) (mailbox_created d),
          mailbox_updated = filter (\<lambda>i. resolve_mailbox f i = a) (mailbox_updated d),
          mailbox_destroyed = map fst mb, mailbox_destroyed_accounts = map snd mb,
          event_created = filter (\<lambda>i. resolve_event f i = a) (event_created d),
          event_updated = filter (\<lambda>i. resolve_event f i = a) (event_updated d),
          event_destroyed = map fst ev, event_destroyed_parents = map snd ev,
          calendar_created = filter (\<lambda>i. resolve_calendar f i = a) (calendar_created d),
          calendar_updated = filter (\<lambda>i. resolve_calendar f i = a) (calendar_updated d),
          calendar_destroyed = map fst cl, calendar_destroyed_accounts = map snd cl,
          contact_created = filter (\<lambda>i. resolve_contact f i = a) (contact_created d),
          contact_updated = filter (\<lambda>i. resolve_contact f i = a) (contact_updated d),
          contact_destroyed = map fst ct, contact_destroyed_parents = map snd ct,
          contact_folder_created =
            filter (\<lambda>i. resolve_folder f i = a) (contact_folder_created d),
          contact_folder_updated =
            filter (\<lambda>i. resolve_folder f i = a) (contact_folder_updated d),
          contact_folder_destroyed = map fst cf, contact_folder_destroyed_accounts = map snd cf,
          category_created = filter (\<lambda>i. resolve_category f i = a) (category_created d),
          category_updated = filter (\<lambda>i. resolve_category f i = a) (category_updated d),
          category_destroyed = map fst ca, category_destroyed_accounts = map snd ca,
          acl_granted = map snd (filter own (two_sided (acl_granted d))),
          acl_revoked = map snd (filter own (two_sided (acl_revoked d)))\<rparr>)"

lemmas split_defs = split_emails_def split_mailboxes_def split_events_def split_calendars_def
  split_contacts_def split_folders_def split_categories_def split_acls_def

lemma sub_diff_split: "sub_diff (split_diff_by_account f d) a = account_part f a d"
  by (simp add: split_diff_by_account_def split_defs sub_diff_route fold_push_to fold_push_snd
      fold_push_both update_funs diff_default_def account_part_def kept_def Let_def)

text \<open>The accounts a diff names, resource by resource.\<close>

definition named_accounts :: "fixture \<Rightarrow> mutation_diff \<Rightarrow> string set" where
  "named_accounts f d =
     resolve_email f ` (set (email_created d) \<union> set (email_updated d) \<union>
       elc_id ` set (email_label_changes d)) \<union>
     snd ` set (zip (email_destroyed d) (email_destroyed_accounts d)) \<union>
     resolve_mailbox f ` (set (mailbox_created d) \<union> set (mailbox_updated d)) \<union>
     snd ` set (zip (mailbox_destroyed d) (mailbox_destroyed_accounts d)) \<union>
     resolve_event f ` (set (event_created d) \<union> set (event_updated d)) \<union>
     (\<lambda>x. resolve_calendar f (snd x)) ` set (zip (event_destroyed d) (event_destroyed_parents d)) \<union>
     resolve_calendar f ` (set (calendar_created d) \<union> set (calendar_updated d)) \<union>
     snd ` set (zip (calendar_destroyed d) (calendar_destroyed_accounts d)) \<union>
     resolve_contact f ` (set (contact_created d) \<union> set (contact_updated d)) \<union>
     (\<lambda>x. resolve_folder f (snd x)) ` set (zip (contact_destroyed d) (contact_destroyed_parents d)) \<union>
     resolve_folder f ` (set (contact_folder_created d) \<union> set (contact_folder_updated d)) \<union>
     snd ` set (zip (contact_folder_destroyed d) (contact_folder_destroyed_accounts d)) \<union>
     resolve_category f ` (set (category_created d) \<union> set (category_updated d)) \<union>
     snd ` set (zip (category_destroyed d) (category_destroyed_accounts d)) \<union>
     owner_account_id ` (set (acl_granted d) \<union> set (acl_revoked d)) \<union>
     ar_identifier ` (set (acl_granted d) \<union> set (acl_revoked d))"

lemma set_two_sided:
  "fst ` set (two_sided xs) = owner_account_id ` set xs \<union> ar_identifier ` set xs"
  by (induction xs) (auto simp: two_sided_def)

lemma keys_split: "fst ` set (split_diff_by_account f d) = named_accounts f d"
  unfolding split_diff_by_account_def split_defs comp_apply keys_route set_two_sided
    named_accounts_def image_Un image_image list.set(1) image_empty
  by (simp only: Un_ac Un_empty_left)

lemma bt_ok_split [simp]: "bt_ok (split_diff_by_account f d)"
  by (simp add: split_diff_by_account_def split_defs bt_ok_route)

lemma map_of_split:
  "map_of (split_diff_by_account f d) a =
     (if a \<in> named_accounts f d then Some (account_part f a d) else None)"
  using sub_diff_split [of f d a] keys_split [of f d]
  by (auto simp: sub_diff_def map_of_eq_None_iff split: option.splits)

lemma map_of_fold_entry:
  "distinct (map fst xs) \<Longrightarrow>
     map_of (fold (\<lambda>(a, s). bt_entry a v (g s)) xs m) a =
       (case map_of xs a of
          Some s \<Rightarrow> Some (g s (case map_of m a of Some w \<Rightarrow> w | None \<Rightarrow> v))
        | None \<Rightarrow> map_of m a)"
proof (induction xs arbitrary: m)
  case (Cons x xs)
  obtain b s where x: "x = (b, s)" by fastforce
  then have "map_of xs b = None"
    using Cons.prems by (simp add: map_of_eq_None_iff)
  with Cons x show ?case by (auto split: option.split)
qed simp

lemma bt_ok_fold_entry: "bt_ok m \<Longrightarrow> bt_ok (fold (\<lambda>(a, s). bt_entry a v (g s)) xs m)"
  by (induction xs arbitrary: m) (auto simp: case_prod_beta)

subsection \<open>What recording a transition does\<close>

text \<open>The log of an account, the one \<open>or_insert_with\<close> would create when there is none yet.\<close>

definition log_for :: "fixture \<Rightarrow> string \<Rightarrow> change_log" where
  "log_for f a = (case map_of (account_logs f) a of
     Some l \<Rightarrow> l | None \<Rightarrow> change_log_new (state_seed f))"

lemma state_for_log: "state_for f a = cl_state (log_for f a)"
  by (simp add: state_for_def log_for_def change_log_new_def split: option.split)

lemma highestmodseq_log: "imap_highestmodseq f a = cl_counter (log_for f a) + 1"
  by (simp add: imap_highestmodseq_def log_for_def change_log_new_def split: option.split)

lemma email_modseq_log: "email_modseq f a e = modseq_for_email (log_for f a) e"
  by (simp add: email_modseq_def log_for_def change_log_new_def modseq_for_email_def
      split: option.split)

lemma transitions_for_log: "change_log_transitions_for f a = transitions (log_for f a)"
  by (simp add: change_log_transitions_for_def log_for_def change_log_new_def split: option.split)

definition wf_store :: "fixture \<Rightarrow> bool" where
  "wf_store f \<longleftrightarrow> bt_ok (account_logs f) \<and>
     (\<forall>l \<in> snd ` set (account_logs f). wf_log l \<and> cl_seed l = state_seed f)"

lemma wf_store_log: "wf_store f \<Longrightarrow> wf_log (log_for f a) \<and> cl_seed (log_for f a) = state_seed f"
  by (auto simp: wf_store_def log_for_def change_log_new_def wf_log_new
        [unfolded change_log_new_def] split: option.split dest!: map_of_SomeD)

lemma record_transition_empty:
  "diff_is_empty d \<Longrightarrow> snd (record_transition d f) = f"
  by (simp add: record_transition_def Let_def)

lemma record_transition_frame:
  "snd (record_transition d f) = f\<lparr>account_logs := account_logs (snd (record_transition d f))\<rparr>"
  by (simp add: record_transition_def Let_def)

lemma log_for_record:
  assumes "\<not> diff_is_empty d"
  shows "log_for (snd (record_transition d f)) a =
    (if a \<in> named_accounts f d then log_record (account_part f a d) (log_for f a)
     else log_for f a)"
  using assms map_of_fold_entry [OF bt_ok_distinct [OF bt_ok_split], of
      "change_log_new (state_seed f)" log_record f d "account_logs f" a]
  by (simp add: record_transition_def Let_def log_for_def map_of_split split: option.split)

lemma wf_store_record:
  assumes "wf_store f"
  shows "wf_store (snd (record_transition d f))"
proof (cases "diff_is_empty d")
  case True
  then show ?thesis using assms by (simp add: record_transition_empty)
next
  case False
  let ?f = "snd (record_transition d f)"
  have ok: "bt_ok (account_logs ?f)" and seed: "state_seed ?f = state_seed f"
    using assms False by (simp_all add: record_transition_def Let_def wf_store_def bt_ok_fold_entry)
  have "wf_log l \<and> cl_seed l = state_seed f" if l: "(a, l) \<in> set (account_logs ?f)" for a l
  proof -
    have "log_for ?f a = l"
      using l bt_ok_mem [OF ok] by (simp add: log_for_def)
    then show ?thesis
      using log_for_record [OF False, of f a] wf_store_log [OF assms, of a]
        wf_log_record [of "log_for f a" "account_part f a d"]
        log_record_fields(2) [of "account_part f a d" "log_for f a"]
      by (cases "a \<in> named_accounts f d") simp_all
  qed
  with ok seed show ?thesis by (auto simp: wf_store_def)
qed

lemma set_accounts_touched:
  "set (accounts_touched f d) = (if diff_is_empty d then {} else named_accounts f d)"
  by (simp add: accounts_touched_def keys_split)

text \<open>
  C2. Recording a mutation advances exactly the accounts it touches. \<open>record_transition\<close>
  changes nothing of the fixture but the change logs. An account in \<open>accounts_touched\<close> gets one
  new transition, with exactly the part of the diff that belongs to it, between its old token
  and the next one, and its HIGHESTMODSEQ grows by one; any other account keeps its log, its
  state token and its mod-sequences. A diff with no id at all records nothing.
\<close>

theorem record_transition_isolated:
  fixes d f
  defines "f' \<equiv> snd (record_transition d f)"
  shows "f' = f\<lparr>account_logs := account_logs f'\<rparr> \<and>
    (\<forall>a. log_for f' a =
       (if a \<in> set (accounts_touched f d) then log_record (account_part f a d) (log_for f a)
        else log_for f a)) \<and>
    (\<forall>a. imap_highestmodseq f' a =
       imap_highestmodseq f a + (if a \<in> set (accounts_touched f d) then 1 else 0)) \<and>
    (diff_is_empty d \<longrightarrow> f' = f) \<and> (wf_store f \<longrightarrow> wf_store f')"
proof (cases "diff_is_empty d")
  case True
  then have "f' = f" by (simp add: f'_def record_transition_empty)
  then show ?thesis using True by (simp add: accounts_touched_def)
next
  case False
  then have logs: "log_for f' a =
       (if a \<in> set (accounts_touched f d) then log_record (account_part f a d) (log_for f a)
        else log_for f a)" for a
    by (simp add: f'_def log_for_record set_accounts_touched)
  have frame: "f' = f\<lparr>account_logs := account_logs f'\<rparr>"
    unfolding f'_def by (rule record_transition_frame)
  have "imap_highestmodseq f' a =
       imap_highestmodseq f a + (if a \<in> set (accounts_touched f d) then 1 else 0)" for a
    by (simp add: highestmodseq_log logs)
  moreover have "wf_store f'" if "wf_store f"
    using that by (simp add: f'_def wf_store_record)
  ultimately show ?thesis using frame logs False by blast
qed

definition two_accounts :: fixture where
  "two_accounts = empty_fixture\<lparr>accounts :=
     [\<lparr>ac_id = ''a'', ac_name = ''A'', is_personal = True, primary = True\<rparr>,
      \<lparr>ac_id = ''b'', ac_name = ''B'', is_personal = True, primary = False\<rparr>],
     mailboxes := [\<lparr>mb_id = ''x'', mb_account_id = ''b'', mb_name = ''X'', mb_role = None,
       mb_parent_id = None, sort_order = None, is_subscribed = True\<rparr>]\<rparr>"

theorem record_transition_isolated_witness:
  "imap_highestmodseq (snd (record_transition (diff_default\<lparr>mailbox_created := [''x'']\<rparr>) two_accounts)) ''b'' = 2 \<and>
   imap_highestmodseq (snd (record_transition (diff_default\<lparr>mailbox_created := [''x'']\<rparr>) two_accounts)) ''a'' = 1 \<and>
   wf_store (snd (record_transition (diff_default\<lparr>mailbox_created := [''x'']\<rparr>) two_accounts))"
proof -
  have "set (accounts_touched two_accounts (diff_default\<lparr>mailbox_created := [''x'']\<rparr>)) = {''b''}"
    by (simp add: set_accounts_touched named_accounts_def diff_is_empty_def diff_default_def
        two_accounts_def resolve_mailbox_def or_primary_def collect_map_def)
  moreover have "imap_highestmodseq two_accounts i = 1" "wf_store two_accounts" for i
    by (simp_all add: imap_highestmodseq_def two_accounts_def empty_fixture_def wf_store_def)
  ultimately show ?thesis
    using record_transition_isolated [of "diff_default\<lparr>mailbox_created := [''x'']\<rparr>" two_accounts]
    by simp
qed

end
