(* ===== verification/Fixture_Delta.thy ===== *)
theory Fixture_Delta
  imports Fixture_Store
begin

text \<open>
  The delta queries of \<open>Fixture\<close> (\<open>src/fixture.rs\<close>): the per-account and per-container walks
  that JMAP, Graph and People sync through, and Gmail's label sets and \<open>history.list\<close>.
\<close>

subsection \<open>Per-account and per-container deltas\<close>

definition seed_only_delta :: "fixture \<Rightarrow> string \<Rightarrow> delta_set option" where
  "seed_only_delta f since = (if since = state_seed f then Some delta_set_default else None)"

definition walk_account :: "fixture \<Rightarrow> string \<Rightarrow> string \<Rightarrow> projection \<Rightarrow> delta_set option" where
  "walk_account f since a project =
     (case map_of (account_logs f) a of
        Some l \<Rightarrow> delta_since l since project
      | None \<Rightarrow> seed_only_delta f since)"

definition walk_account_filtered ::
    "fixture \<Rightarrow> string \<Rightarrow> string \<Rightarrow> projection \<Rightarrow> (transition \<Rightarrow> string list option) \<Rightarrow> string
      \<Rightarrow> delta_set option" where
  "walk_account_filtered f since a project parents parent_id =
     (case map_of (account_logs f) a of
        Some l \<Rightarrow> delta_since_filtered_destroys l since project parents parent_id
      | None \<Rightarrow> seed_only_delta f since)"

definition project_mailboxes :: projection where
  "project_mailboxes t = (mailbox_created t, mailbox_updated t, mailbox_destroyed t)"

definition project_events :: projection where
  "project_events t = (event_created t, event_updated t, event_destroyed t)"

definition project_calendars :: projection where
  "project_calendars t = (calendar_created t, calendar_updated t, calendar_destroyed t)"

definition project_contacts :: projection where
  "project_contacts t = (contact_created t, contact_updated t, contact_destroyed t)"

definition email_delta_since_account :: "fixture \<Rightarrow> string \<Rightarrow> string \<Rightarrow> delta_set option" where
  "email_delta_since_account f since a = walk_account f since a project_emails"

definition mailbox_delta_since_account :: "fixture \<Rightarrow> string \<Rightarrow> string \<Rightarrow> delta_set option" where
  "mailbox_delta_since_account f since a = walk_account f since a project_mailboxes"

definition event_delta_since :: "fixture \<Rightarrow> string \<Rightarrow> string \<Rightarrow> delta_set option" where
  "event_delta_since f since calendar_id =
     (case find (\<lambda>c. cal_id c = calendar_id) (calendars f) of
        None \<Rightarrow> seed_only_delta f since
      | Some c \<Rightarrow>
          (case walk_account_filtered f since (cal_account_id c) project_events
                  (\<lambda>t. Some (event_destroyed_parents t)) calendar_id of
             None \<Rightarrow> None
           | Some delta \<Rightarrow>
               let live = collect_map ev_id ev_calendar_id (events f);
                   here = (\<lambda>i. live i = Some calendar_id)
               in Some (delta\<lparr>ds_created := filter here (ds_created delta),
                              ds_updated := filter here (ds_updated delta)\<rparr>)))"

definition calendar_delta_since_account :: "fixture \<Rightarrow> string \<Rightarrow> string \<Rightarrow> delta_set option" where
  "calendar_delta_since_account f since a = walk_account f since a project_calendars"

definition event_delta_since_any :: "fixture \<Rightarrow> string \<Rightarrow> string \<Rightarrow> delta_set option" where
  "event_delta_since_any f since a = walk_account f since a project_events"

definition contact_delta_since :: "fixture \<Rightarrow> string \<Rightarrow> string \<Rightarrow> delta_set option" where
  "contact_delta_since f since folder_id =
     (case find (\<lambda>c. cf_id c = folder_id) (contact_folders f) of
        None \<Rightarrow> seed_only_delta f since
      | Some c \<Rightarrow>
          walk_account_filtered f since (cf_account_id c) project_contacts
            (\<lambda>t. Some (contact_destroyed_parents t)) folder_id)"

definition contact_delta_since_any :: "fixture \<Rightarrow> string \<Rightarrow> string \<Rightarrow> delta_set option" where
  "contact_delta_since_any f since a = walk_account f since a project_contacts"

lemma walk_account_log: "walk_account f since a project = delta_since (log_for f a) since project"
  by (simp add: walk_account_def log_for_def change_log_new_def delta_since_def seed_only_delta_def
      split: option.split)

lemma delta_since_new_transition:
  assumes "wf_log l"
  shows "delta_since (log_record d l) (cl_state l) project =
    Some (apply_dominance_and_dedup
      (project (transition_from_diff (cl_state l) (state_token (cl_seed l) (Suc (cl_counter l))) d)))"
proof -
  let ?l = "log_record d l" and ?ts = "transitions (log_record d l)"
  let ?t = "transition_from_diff (cl_state l) (state_token (cl_seed l) (Suc (cl_counter l))) d"
  have wf: "wf_log ?l" using assms by simp
  have ne: "?ts \<noteq> []" and last: "last ?ts = ?t"
    by (simp_all add: tr.push_ne tr.last_push)
  then have pos: "0 < length ?ts" by (simp only: length_greater_0_conv not_False_eq_True)
  have drop: "drop (length ?ts - 1) ?ts = [?t]"
    using ne last by (metis One_nat_def append_butlast_last_id append_eq_conv_conj length_butlast)
  have "cl_counter ?l - length ?ts + (length ?ts - 1) = cl_counter l"
    using wf_log_len [OF wf] pos unfolding log_record_fields(1) by linarith
  then have since: "cl_state l =
      state_token (cl_seed ?l) (cl_counter ?l - length ?ts + (length ?ts - 1))"
    using wf_log_state [OF assms] by simp
  have "length ?ts - 1 < length ?ts" using pos by simp
  from delta_since_walk [OF wf this since, of project] show ?thesis
    unfolding drop by simp
qed

text \<open>
  A mutation is seen, and only where it belongs. After recording a mutation, asking an
  account's email delta from the token the account had before answers the emails the mutation
  created, updated and destroyed in that account (after the dominance rules), and for an
  account the mutation does not touch it answers the empty delta under an unchanged token.
\<close>

theorem email_delta_after_record:
  assumes "wf_store f" and "\<not> diff_is_empty d"
  defines "f' \<equiv> snd (record_transition d f)"
  shows "(a \<in> named_accounts f d \<longrightarrow>
      email_delta_since_account f' (state_for f a) a = Some (apply_dominance_and_dedup
        (email_created (account_part f a d), email_updated (account_part f a d),
         email_destroyed (account_part f a d))) \<and>
      state_for f' a \<noteq> state_for f a) \<and>
    (a \<notin> named_accounts f d \<longrightarrow>
      email_delta_since_account f' (state_for f a) a = Some delta_set_default \<and>
      state_for f' a = state_for f a)"
proof -
  note log = log_for_record [OF assms(2), of f a, folded f'_def]
  have wf: "wf_log (log_for f a)" using wf_store_log [OF assms(1)] by simp
  have "state_token (cl_seed (log_for f a)) (Suc (cl_counter (log_for f a))) \<noteq> cl_state (log_for f a)"
    using wf_log_state [OF wf] by simp
  then show ?thesis
    using delta_since_new_transition [OF wf, of "account_part f a d" project_emails]
    by (auto simp: email_delta_since_account_def walk_account_log state_for_log log
        delta_since_current project_emails_def)
qed

theorem email_delta_after_record_witness:
  "email_delta_since_account
     (snd (record_transition (diff_default\<lparr>mailbox_created := [''x'']\<rparr>) two_accounts))
     (state_for two_accounts ''a'') ''a'' = Some delta_set_default"
proof -
  have "named_accounts two_accounts (diff_default\<lparr>mailbox_created := [''x'']\<rparr>) = {''b''}"
    by (simp add: named_accounts_def diff_default_def two_accounts_def resolve_mailbox_def
        or_primary_def collect_map_def)
  moreover have "wf_store two_accounts" "\<not> diff_is_empty (diff_default\<lparr>mailbox_created := [''x'']\<rparr>)"
    by (simp_all add: two_accounts_def empty_fixture_def wf_store_def diff_is_empty_def)
  ultimately show ?thesis
    using email_delta_after_record [of two_accounts "diff_default\<lparr>mailbox_created := [''x'']\<rparr>" "''a''"]
    by simp
qed

subsection \<open>Gmail labels\<close>

fun role_label :: "mailbox \<Rightarrow> string list" where
  "role_label m =
     (case mb_role m of
        Some Inbox \<Rightarrow> [''INBOX'']
      | Some Sent \<Rightarrow> [''SENT'']
      | Some Drafts \<Rightarrow> [''DRAFT'']
      | Some Trash \<Rightarrow> [''TRASH'']
      | Some Junk \<Rightarrow> [''SPAM'']
      | Some Important \<Rightarrow> [''IMPORTANT'']
      | Some Archive \<Rightarrow> []
      | None \<Rightarrow> [''Label_'' @ mb_id m])"

definition gmail_label_ids :: "fixture \<Rightarrow> email \<Rightarrow> string list" where
  "gmail_label_ids f e =
     (let by_id = collect_map mb_id (\<lambda>m. m) (mailboxes f);
          out = concat (map (\<lambda>i. case by_id i of None \<Rightarrow> [] | Some m \<Rightarrow> role_label m) (mailbox_ids e))
            @ (if ''$seen'' \<notin> set (em_keywords e) then [''UNREAD''] else [])
            @ (if ''$flagged'' \<in> set (em_keywords e) then [''STARRED''] else [])
            @ (if ''$draft'' \<in> set (em_keywords e) then [''DRAFT''] else [])
            @ map (\<lambda>k. ''Label_'' @ k) (filter (\<lambda>k. \<not> prefix ''$'' k) (em_keywords e))
      in sort_dedup out)"

definition gmail_history_id :: "fixture \<Rightarrow> string \<Rightarrow> nat" where
  "gmail_history_id f a =
     (case map_of (account_logs f) a of Some l \<Rightarrow> cl_counter l | None \<Rightarrow> 0) + 1"

definition gmail_label_change ::
    "string \<Rightarrow> string list \<Rightarrow> string list \<Rightarrow> email_label_change option" where
  "gmail_label_change i old new =
     (let added = filter (\<lambda>l. l \<notin> set old) new;
          removed = filter (\<lambda>l. l \<notin> set new) old
      in if added = [] \<and> removed = [] then None
         else Some \<lparr>elc_id = i, elc_added = added, elc_removed = removed\<rparr>)"

text \<open>
  A recorded label change is exactly the difference of the label sets: nothing is recorded
  when the sets agree, and otherwise removing \<open>removed\<close> from the old labels and adding \<open>added\<close>
  gives the new ones, with nothing added that was there and nothing removed that was not.
\<close>

theorem gmail_label_change_exact:
  "case gmail_label_change i old new of
     None \<Rightarrow> set old = set new
   | Some c \<Rightarrow> elc_id c = i \<and> set old \<noteq> set new \<and>
       (set old - set (elc_removed c)) \<union> set (elc_added c) = set new \<and>
       set (elc_added c) \<inter> set old = {} \<and> set (elc_removed c) \<subseteq> set old"
  by (auto simp: gmail_label_change_def Let_def filter_empty_conv)

theorem gmail_label_change_exact_witness:
  "gmail_label_change ''m1'' [''INBOX'', ''UNREAD''] [''INBOX'', ''STARRED''] =
     Some \<lparr>elc_id = ''m1'', elc_added = [''STARRED''], elc_removed = [''UNREAD'']\<rparr> \<and>
   set [''INBOX'', ''UNREAD''] \<noteq> set [''INBOX'', ''STARRED'']"
proof -
  have "gmail_label_change ''m1'' [''INBOX'', ''UNREAD''] [''INBOX'', ''STARRED''] =
     Some \<lparr>elc_id = ''m1'', elc_added = [''STARRED''], elc_removed = [''UNREAD'']\<rparr>"
    by (simp add: gmail_label_change_def)
  then show ?thesis
    using gmail_label_change_exact [where i = "''m1''" and old = "[''INBOX'', ''UNREAD'']" and
        new = "[''INBOX'', ''STARRED'']"]
    by simp
qed

subsection \<open>Gmail history\<close>

record gmail_history_record =
  gh_id :: nat
  messages_added :: "string list"
  messages_deleted :: "string list"
  labels_added :: "(string \<times> string list) list"
  labels_removed :: "(string \<times> string list) list"

datatype gmail_history =
    Unknown
  | Delta "gmail_history_record list" nat

definition history_record :: "nat \<Rightarrow> transition \<Rightarrow> gmail_history_record" where
  "history_record i t =
     \<lparr>gh_id = i, messages_added = email_created t, messages_deleted = email_destroyed t,
      labels_added = map (\<lambda>c. (elc_id c, elc_added c))
        (filter (\<lambda>c. elc_added c \<noteq> []) (email_label_changes t)),
      labels_removed = map (\<lambda>c. (elc_id c, elc_removed c))
        (filter (\<lambda>c. elc_removed c \<noteq> []) (email_label_changes t))\<rparr>"

fun history_loop :: "nat \<Rightarrow> nat \<Rightarrow> transition list \<Rightarrow> gmail_history_record list" where
  "history_loop to start [] = []"
| "history_loop to start (t # ts) =
     (if to \<le> start then history_loop (Suc to) start ts
      else history_record (to + 1) t # history_loop (Suc to) start ts)"

definition gmail_history_since :: "fixture \<Rightarrow> string \<Rightarrow> nat \<Rightarrow> gmail_history" where
  "gmail_history_since f a start0 =
     (let start = start0 - 1 in
      case map_of (account_logs f) a of
        None \<Rightarrow> if start = 0 then Delta [] 1 else Unknown
      | Some l \<Rightarrow>
          let current = cl_counter l in
          if start \<ge> current then Delta [] (current + 1)
          else
            let front_from = current - length (transitions l) in
            if start < front_from then Unknown
            else Delta (history_loop (front_from + 1) start (transitions l)) (current + 1))"

lemma upt_shift: "map ((+) n) [i..<m] = [n + i..<n + m]"
  by (induction m) auto

lemma upt_rebase: "b \<le> k \<Longrightarrow> k \<le> n \<Longrightarrow> [k..<n] = map ((+) b) [k - b..<n - b]"
  using upt_shift [of b "k - b" "n - b"] by simp

lemma history_loop_skip:
  "history_loop to start ts =
     map (\<lambda>j. history_record (to + j + 1) (ts ! j)) [Suc start - to..<length ts]"
proof (induction ts arbitrary: to)
  case (Cons t ts)
  have shift: "map (\<lambda>j. history_record (to + j + 1) ((t # ts) ! j)) [Suc k..<Suc (length ts)] =
      map (\<lambda>j. history_record (Suc to + j + 1) (ts ! j)) [k..<length ts]" for k
    by (simp add: map_Suc_upt [symmetric] del: upt_Suc)
  show ?case
  proof (cases "to \<le> start")
    case True
    then have "Suc start - to = Suc (Suc start - Suc to)" by simp
    then show ?thesis using True Cons shift by (simp del: upt_Suc)
  next
    case False
    then have "[Suc start - to..<Suc (length ts)] = 0 # [Suc 0..<Suc (length ts)]"
      by (simp add: upt_conv_Cons del: upt_Suc)
    then show ?thesis using False Cons [of "Suc to"] shift [of 0] by (simp del: upt_Suc)
  qed
qed simp

text \<open>
  C36. \<open>history.list\<close> lists each later mutation once, in order. For an account that has recorded
  \<open>n\<close> diffs, a start id that stands for \<open>k\<close> of them (\<open>k + 1\<close>, or \<open>0\<close> for the load point) is
  refused exactly when one of the diffs after \<open>k\<close> has been evicted, so never silently
  incomplete; otherwise there is one record per diff \<open>k, ..., n - 1\<close>, with the ids
  \<open>k + 2, ..., n + 1\<close> and the created and destroyed messages of that diff, and the cursor
  returned is the account's current history id.
\<close>

theorem gmail_history_exact:
  assumes "map_of (account_logs f) a = Some (log_run seed ds)" and "start - 1 \<le> length ds"
  shows "gmail_history_since f a start =
     (if start - 1 < length ds \<and> start - 1 + 256 < length ds then Unknown
      else Delta (map (\<lambda>k. history_record (k + 2) (recorded_as seed ds k)) [start - 1..<length ds])
             (gmail_history_id f a)) \<and>
     gmail_history_id f a = length ds + 1"
proof -
  let ?n = "length ds" and ?k = "start - 1" and ?f = "length ds - min (length ds) 256"
  have nth: "transitions (log_run seed ds) ! j = recorded_as seed ds (?f + j)"
    if "j < min ?n 256" for j
    using that by (simp add: log_run_transitions max_transitions_def min_def split: if_splits)
  have "history_loop (?f + 1) ?k (transitions (log_run seed ds)) =
      map (\<lambda>k. history_record (k + 2) (recorded_as seed ds k)) [?k..<?n]"
    if "?f \<le> ?k" "?k < ?n"
  proof -
    have len: "?n - ?f = min ?n 256" by simp
    have "[?k..<?n] = map ((+) ?f) [?k - ?f..<min ?n 256]"
      using upt_rebase [of ?f ?k ?n] that unfolding len by simp
    moreover have "Suc ?k - (?f + 1) = ?k - ?f" by simp
    ultimately show ?thesis
      unfolding history_loop_skip length_log_run max_transitions_def
      by (simp add: nth o_def del: upt_Suc diff_Suc_Suc)
  qed
  then show ?thesis
    using assms by (auto simp: gmail_history_since_def gmail_history_id_def Let_def
        length_log_run max_transitions_def)
qed

theorem gmail_history_exact_witness:
  "gmail_history_since (empty_fixture\<lparr>account_logs := [(''a'', log_run ''s0'' sample_diffs)]\<rparr>) ''a'' 2 =
     Delta [history_record 3 (recorded_as ''s0'' sample_diffs 1),
            history_record 4 (recorded_as ''s0'' sample_diffs 2)] 4"
proof -
  have "length sample_diffs = 3" "[1..<3] = [1, 2 :: nat]"
    by (simp_all add: sample_diffs_def upt_rec)
  then show ?thesis
    using gmail_history_exact [of "empty_fixture\<lparr>account_logs := [(''a'', log_run ''s0'' sample_diffs)]\<rparr>"
        "''a''" "''s0''" sample_diffs 2]
    by (simp add: eval_nat_numeral)
qed

end
