(* ===== verification/Imap_Syntax.thy ===== *)
theory Imap_Syntax
  imports Fixture_Types
begin

text \<open>
  The argument syntax of the IMAP listener (\<open>src/imap.rs\<close>): command lines, astrings and the
  argument lists built from them, SASL responses, UID sets, search criteria, flag operations,
  FETCH attribute lists and the SELECT parameters, with the printers they are paired with.
  \<open>AstringParser\<close> is a string and an index; here it is the string that is left.
\<close>

named_theorems imap_simps \<open>evaluation rules for the IMAP parsers\<close>

subsection \<open>Command lines\<close>

definition trim_end_char :: "char \<Rightarrow> string \<Rightarrow> string" where
  "trim_end_char c s = rev (dropWhile (\<lambda>x. x = c) (rev s))"

record parsed =
  pa_tag :: string
  pa_command :: string
  pa_args :: string

definition parse_command_line :: "string \<Rightarrow> parsed option" where
  "parse_command_line line0 =
     (let line = trim_end_char CHR '' '' line0 in
      if line = [] then None
      else case split_once CHR '' '' line of
             None \<Rightarrow> None
           | Some (tag, rest0) \<Rightarrow>
               let rest = dropWhile (\<lambda>x. x = CHR '' '') rest0 in
               if rest = [] then None
               else case split_once CHR '' '' rest of
                      Some (c, a) \<Rightarrow> Some \<lparr>pa_tag = tag, pa_command = c,
                                        pa_args = dropWhile (\<lambda>x. x = CHR '' '') a\<rparr>
                    | None \<Rightarrow> Some \<lparr>pa_tag = tag, pa_command = rest, pa_args = []\<rparr>)"

subsection \<open>Astrings\<close>

definition skip_spaces :: "string \<Rightarrow> string" where
  "skip_spaces s = dropWhile (\<lambda>c. c = CHR '' '') s"

definition consume :: "char \<Rightarrow> string \<Rightarrow> bool \<times> string" where
  "consume c s =
     (case skip_spaces s of
        [] \<Rightarrow> (False, [])
      | x # xs \<Rightarrow> if x = c then (True, xs) else (False, x # xs))"

definition peek :: "char \<Rightarrow> string \<Rightarrow> bool" where
  "peek c s = (case skip_spaces s of [] \<Rightarrow> False | x # xs \<Rightarrow> x = c)"

fun skip_depth :: "nat \<Rightarrow> string \<Rightarrow> string option" where
  "skip_depth depth [] = None"
| "skip_depth depth (c # cs) =
     (if c = CHR ''('' then skip_depth (Suc depth) cs
      else if c = CHR '')'' then (if depth = 1 then Some cs else skip_depth (depth - 1) cs)
      else skip_depth depth cs)"

definition skip_balanced_parens :: "string \<Rightarrow> string option" where
  "skip_balanced_parens s =
     (case consume CHR ''('' s of (True, r) \<Rightarrow> skip_depth 1 r | (False, _) \<Rightarrow> None)"

definition atom_char :: "char \<Rightarrow> bool" where
  "atom_char c \<longleftrightarrow> c \<noteq> CHR '' '' \<and> c \<noteq> CHR ''('' \<and> c \<noteq> CHR '')'' \<and> c \<noteq> CHR 0x22"

definition next_atom :: "string \<Rightarrow> (string \<times> string) option" where
  "next_atom s =
     (let r = skip_spaces s; a = takeWhile atom_char r in
      if a = [] then None else Some (a, dropWhile atom_char r))"

definition next_astring :: "string \<Rightarrow> (string \<times> string) option" where
  "next_astring s =
     (case skip_spaces s of
        [] \<Rightarrow> None
      | x # xs \<Rightarrow>
          if x = CHR 0x22 then
            (case dropWhile (\<lambda>c. c \<noteq> CHR 0x22) xs of
               [] \<Rightarrow> None
             | q # rest \<Rightarrow> Some (takeWhile (\<lambda>c. c \<noteq> CHR 0x22) xs, rest))
          else next_atom (x # xs))"

lemma length_skip_spaces: "length (skip_spaces s) \<le> length s"
  by (simp add: skip_spaces_def length_dropWhile_le)

lemma length_consume: "consume c s = (b, r) \<Longrightarrow> length r \<le> length s"
proof -
  assume c: "consume c s = (b, r)"
  have "length r \<le> length (skip_spaces s)"
  proof (cases "skip_spaces s")
    case (Cons x xs)
    then show ?thesis using c by (cases "x = c") (simp_all add: consume_def)
  qed (use c in \<open>simp add: consume_def\<close>)
  then show ?thesis using length_skip_spaces order.trans by blast
qed

lemma length_next_atom: "next_atom s = Some (a, r) \<Longrightarrow> length r < length s"
proof -
  assume n: "next_atom s = Some (a, r)"
  then have "a \<noteq> []" "skip_spaces s = a @ r"
    by (auto simp: next_atom_def Let_def split: if_splits)
  then show ?thesis
    using length_skip_spaces [of s] by (cases a) auto
qed

lemma length_skip_depth: "skip_depth d s = Some r \<Longrightarrow> length r < length s"
  by (induction d s rule: skip_depth.induct) (auto split: if_splits)

lemma length_skip_balanced: "skip_balanced_parens s = Some r \<Longrightarrow> length r < length s"
  by (auto simp: skip_balanced_parens_def split: prod.splits bool.splits
      dest!: length_skip_depth length_consume)

definition parse_one_astring :: "string \<Rightarrow> string option" where
  "parse_one_astring args =
     (case next_astring args of
        None \<Rightarrow> None
      | Some (a, r) \<Rightarrow> if skip_spaces r = [] then Some a else None)"

definition parse_two_astrings :: "string \<Rightarrow> (string \<times> string) option" where
  "parse_two_astrings args =
     (case next_astring args of
        None \<Rightarrow> None
      | Some (a, r) \<Rightarrow>
          (case next_astring (skip_spaces r) of
             None \<Rightarrow> None
           | Some (b, r2) \<Rightarrow> if skip_spaces r2 = [] then Some (a, b) else None))"

function status_items :: "string list \<Rightarrow> string \<Rightarrow> string list option" where
  "status_items items s =
     (if fst (consume CHR '')'' s) then Some items
      else case next_atom s of
             None \<Rightarrow> None
           | Some (item, r) \<Rightarrow>
               if skip_spaces r = [] then None else status_items (items @ [item]) (skip_spaces r))"
  by pat_completeness auto
termination
  by (relation "measure (\<lambda>(items, s). length s)")
     (auto dest: length_next_atom intro: le_less_trans [OF length_skip_spaces])

declare status_items.simps [simp del]

record status_args =
  sa_name :: string
  sa_items :: "string list"

definition parse_status_args :: "string \<Rightarrow> status_args option" where
  "parse_status_args args =
     (case next_astring args of
        None \<Rightarrow> None
      | Some (name, r) \<Rightarrow>
          (case consume CHR ''('' (skip_spaces r) of
             (False, _) \<Rightarrow> None
           | (True, r2) \<Rightarrow>
               map_option (\<lambda>items. \<lparr>sa_name = name, sa_items = items\<rparr>)
                 (status_items [] (skip_spaces r2))))"

subsection \<open>UID sets\<close>

datatype uid_set_item = SetSingle nat | SetRange nat "nat option"

type_synonym uid_set = "uid_set_item list"

fun item_matches :: "nat \<Rightarrow> uid_set_item \<Rightarrow> bool" where
  "item_matches u (SetSingle n) \<longleftrightarrow> n = u"
| "item_matches u (SetRange lo hi) \<longleftrightarrow> lo \<le> u \<and> (case hi of None \<Rightarrow> True | Some h \<Rightarrow> u \<le> h)"

definition uid_set_matches :: "uid_set \<Rightarrow> nat \<Rightarrow> bool" where
  "uid_set_matches is u = list_ex (item_matches u) is"

definition parse_range_end :: "string \<Rightarrow> nat option option" where
  "parse_range_end hi = (if hi = ''*'' then Some None else map_option Some (parse_u32 hi))"

definition parse_set_part :: "string \<Rightarrow> uid_set_item option" where
  "parse_set_part part0 =
     (let part = trim part0 in
      if part = [] then None
      else case split_once CHR '':'' part of
             Some (lo, hi) \<Rightarrow>
               (case parse_u32 lo of
                  None \<Rightarrow> None
                | Some l \<Rightarrow> map_option (SetRange l) (parse_range_end hi))
           | None \<Rightarrow> map_option SetSingle (parse_u32 part))"

fun parse_set_parts :: "string list \<Rightarrow> uid_set option" where
  "parse_set_parts [] = Some []"
| "parse_set_parts (p # ps) =
     (case parse_set_part p of
        None \<Rightarrow> None
      | Some i \<Rightarrow> map_option ((#) i) (parse_set_parts ps))"

definition parse_uid_set :: "string \<Rightarrow> uid_set option" where
  "parse_uid_set s =
     (case parse_set_parts (split_on CHR '','' s) of
        None \<Rightarrow> None
      | Some is \<Rightarrow> if is = [] then None else Some is)"

text \<open>\<open>split_after_set\<close>: the set token and what follows it.\<close>

definition split_after_set :: "string \<Rightarrow> (string \<times> string) option" where
  "split_after_set s =
     map_option (\<lambda>(set, rest). (trim set, trim_start rest)) (split_once CHR '' '' (trim_start s))"

text \<open>\<open>format_uid_ranges\<close>; the inner loop extends the run \<open>lo..hi\<close>.\<close>

definition show_run :: "nat \<Rightarrow> nat \<Rightarrow> string" where
  "show_run lo hi = (if lo = hi then show_nat lo else show_nat lo @ '':'' @ show_nat hi)"

fun uid_runs :: "nat \<Rightarrow> nat \<Rightarrow> nat list \<Rightarrow> string list" where
  "uid_runs lo hi [] = [show_run lo hi]"
| "uid_runs lo hi (u # us) =
     (if u = hi + 1 then uid_runs lo u us else show_run lo hi # uid_runs u u us)"

definition format_uid_ranges :: "nat list \<Rightarrow> string" where
  "format_uid_ranges uids =
     join '','' (case uids of [] \<Rightarrow> [] | u # us \<Rightarrow> uid_runs u u us)"

subsection \<open>Searches\<close>

datatype search_criteria =
    SearchAll
  | SearchUidRange nat "nat option"
  | SearchSince timestamp

fun search_matches :: "search_criteria \<Rightarrow> nat \<Rightarrow> email \<Rightarrow> bool" where
  "search_matches SearchAll uid e \<longleftrightarrow> True"
| "search_matches (SearchUidRange lo hi) uid e \<longleftrightarrow>
     lo \<le> uid \<and> (case hi of None \<Rightarrow> True | Some h \<Rightarrow> uid \<le> h)"
| "search_matches (SearchSince ts) uid e \<longleftrightarrow> ts \<le> received_at e"

text \<open>
  \<open>parse_imap_date\<close> after the quotes are trimmed, and the midnight of that date: \<open>strptime\<close> is
  \<open>civil::Date::strptime("%d-%b-%Y", s)\<close> followed by \<open>utc_midnight\<close>.
\<close>

definition trim_quotes :: "string \<Rightarrow> string" where
  "trim_quotes s = trim_end_char CHR 0x22 (dropWhile (\<lambda>c. c = CHR 0x22) s)"

text \<open>The outer \<open>None\<close> is the panic of \<open>strip_prefix_ci\<close>.\<close>

definition parse_uid_search ::
    "(string \<Rightarrow> timestamp option) \<Rightarrow> string \<Rightarrow> search_criteria option option" where
  "parse_uid_search strptime args =
     (let trimmed = trim args in
      if trimmed = [] \<or> eq_ci trimmed ''ALL'' then Some (Some SearchAll)
      else case strip_prefix_ci trimmed ''SINCE '' of
             None \<Rightarrow> None
           | Some (Some rest) \<Rightarrow>
               Some (map_option SearchSince (strptime (trim_quotes (trim rest))))
           | Some None \<Rightarrow>
               Some (case split_once CHR '':'' trimmed of
                  Some (lo, hi) \<Rightarrow>
                    (case parse_u32 lo of
                       None \<Rightarrow> None
                     | Some l \<Rightarrow> map_option (SearchUidRange l) (parse_range_end hi))
                | None \<Rightarrow> None))"

subsection \<open>Flag operations\<close>

datatype store_kind = StoreAdd | StoreRemove | StoreReplace

record store_op =
  so_kind :: store_kind
  so_flags :: "string list"
  so_silent :: bool

abbreviation backslash :: char where "backslash \<equiv> CHR 0x5C"

definition imap_flag_to_keyword :: "string \<Rightarrow> string" where
  "imap_flag_to_keyword t =
     (if t = backslash # ''Seen'' then ''$seen''
      else if t = backslash # ''Flagged'' then ''$flagged''
      else if t = backslash # ''Draft'' then ''$draft''
      else if t = backslash # ''Answered'' then ''$answered''
      else if t = backslash # ''Deleted'' then ''$deleted''
      else t)"

fun push_missing :: "string list \<Rightarrow> string list \<Rightarrow> string list" where
  "push_missing [] ks = ks"
| "push_missing (r # rs) ks = push_missing rs (if r \<in> set ks then ks else ks @ [r])"

definition apply_in_place :: "store_op \<Rightarrow> email \<Rightarrow> bool \<times> email" where
  "apply_in_place op e =
     (let requested = map imap_flag_to_keyword (so_flags op);
          ks = (case so_kind op of
                  StoreAdd \<Rightarrow> push_missing requested (em_keywords e)
                | StoreRemove \<Rightarrow> filter (\<lambda>k. k \<notin> set requested) (em_keywords e)
                | StoreReplace \<Rightarrow> requested);
          e' = e\<lparr>em_keywords := sort_dedup ks\<rparr>
      in (em_keywords e' \<noteq> sort_dedup (em_keywords e), e'))"

definition parse_flag_list :: "string \<Rightarrow> string list option" where
  "parse_flag_list s0 =
     (let s = trim s0;
          inner = (case strip_prefix ''('' s of
                     Some stripped \<Rightarrow> map_option trim (strip_suffix '')'' stripped)
                   | None \<Rightarrow> Some s)
      in case inner of
           None \<Rightarrow> None
         | Some i \<Rightarrow> if i = [] then Some [] else Some (split_ws i))"

definition parse_store_op :: "string \<Rightarrow> store_op option" where
  "parse_store_op s =
     (case split_once CHR '' '' (trim s) of
        None \<Rightarrow> None
      | Some (op_token, rest) \<Rightarrow>
          let op_upper = to_upper op_token;
              (op_word, silent) = (case strip_suffix ''.SILENT'' op_upper of
                                     Some w \<Rightarrow> (w, True) | None \<Rightarrow> (op_upper, False));
              kind = (if op_word = ''+FLAGS'' then Some StoreAdd
                      else if op_word = ''-FLAGS'' then Some StoreRemove
                      else if op_word = ''FLAGS'' then Some StoreReplace
                      else None)
          in case kind of
               None \<Rightarrow> None
             | Some k \<Rightarrow> map_option (\<lambda>fl. \<lparr>so_kind = k, so_flags = fl, so_silent = silent\<rparr>)
                           (parse_flag_list (trim rest)))"

subsection \<open>FETCH attributes\<close>

text \<open>The offset after the parenthesis that closes the one at the start of \<open>s\<close>.\<close>

fun close_offset :: "int \<Rightarrow> nat \<Rightarrow> string \<Rightarrow> nat option" where
  "close_offset depth i [] = None"
| "close_offset depth i (b # bs) =
     (if b = CHR ''('' then close_offset (depth + 1) (Suc i) bs
      else if b = CHR '')'' then
        (if depth - 1 = 0 then Some (Suc i) else close_offset (depth - 1) (Suc i) bs)
      else close_offset depth (Suc i) bs)"

definition split_attrs_and_modifiers :: "string \<Rightarrow> string \<times> string" where
  "split_attrs_and_modifiers s0 =
     (let s = trim s0 in
      if \<not> prefix ''('' s then (s, [])
      else case close_offset 0 0 s of
             None \<Rightarrow> (s, [])
           | Some end \<Rightarrow> (take end s, trim_start (drop end s)))"

datatype fetch_attr =
    FaUid | FaFlags | FaInternalDate | FaRfc822Size | FaEnvelope | FaModSeq
  | FaBodyFull | FaBodyHeader | FaBodyText | FaBodyStructure
  | FaBodyPart nat | FaBodyPartMime nat

definition parse_part_section :: "string \<Rightarrow> fetch_attr option" where
  "parse_part_section token =
     (case (case strip_prefix ''BODY['' token of
              Some a \<Rightarrow> Some a | None \<Rightarrow> strip_prefix ''BODY.PEEK['' token) of
        None \<Rightarrow> None
      | Some after \<Rightarrow>
          (case strip_suffix '']'' after of
             None \<Rightarrow> None
           | Some inner \<Rightarrow>
               (case strip_suffix ''.MIME'' inner of
                  Some num \<Rightarrow>
                    (case parse_u32 num of
                       None \<Rightarrow> None
                     | Some n \<Rightarrow> if n = 0 then None else Some (FaBodyPartMime n))
                | None \<Rightarrow>
                    (case parse_u32 inner of
                       None \<Rightarrow> None
                     | Some n \<Rightarrow> if n = 0 then None else Some (FaBodyPart n)))))"

definition parse_fetch_attr :: "string \<Rightarrow> fetch_attr option" where
  "parse_fetch_attr raw =
     (let upper = to_upper raw in
      if upper = ''UID'' then Some FaUid
      else if upper = ''FLAGS'' then Some FaFlags
      else if upper = ''INTERNALDATE'' then Some FaInternalDate
      else if upper = ''RFC822.SIZE'' then Some FaRfc822Size
      else if upper = ''ENVELOPE'' then Some FaEnvelope
      else if upper = ''MODSEQ'' then Some FaModSeq
      else if upper \<in> {''RFC822'', ''BODY[]'', ''BODY.PEEK[]''} then Some FaBodyFull
      else if upper \<in> {''BODY[HEADER]'', ''BODY.PEEK[HEADER]'', ''RFC822.HEADER''}
        then Some FaBodyHeader
      else if upper \<in> {''BODY[TEXT]'', ''BODY.PEEK[TEXT]'', ''RFC822.TEXT''} then Some FaBodyText
      else if upper = ''BODYSTRUCTURE'' then Some FaBodyStructure
      else parse_part_section upper)"

fun fetch_attr_loop :: "fetch_attr list \<Rightarrow> string list \<Rightarrow> fetch_attr list option" where
  "fetch_attr_loop out [] = Some out"
| "fetch_attr_loop out (r # rs) =
     (case parse_fetch_attr r of
        None \<Rightarrow> None
      | Some a \<Rightarrow> fetch_attr_loop (if a \<in> set out then out else out @ [a]) rs)"

definition parse_fetch_attrs :: "string \<Rightarrow> fetch_attr list option" where
  "parse_fetch_attrs s0 =
     (let s = trim s0;
          inner = (case strip_prefix ''('' s of
                     Some stripped \<Rightarrow> strip_suffix '')'' stripped
                   | None \<Rightarrow> Some s)
      in case inner of
           None \<Rightarrow> None
         | Some i \<Rightarrow> (case fetch_attr_loop [] (split_ws i) of
                        None \<Rightarrow> None
                      | Some out \<Rightarrow> if out = [] then None else Some out))"

fun fetch_attr_name :: "fetch_attr \<Rightarrow> string" where
  "fetch_attr_name FaUid = ''UID''"
| "fetch_attr_name FaFlags = ''FLAGS''"
| "fetch_attr_name FaInternalDate = ''INTERNALDATE''"
| "fetch_attr_name FaRfc822Size = ''RFC822.SIZE''"
| "fetch_attr_name FaEnvelope = ''ENVELOPE''"
| "fetch_attr_name FaModSeq = ''MODSEQ''"
| "fetch_attr_name FaBodyFull = ''BODY[]''"
| "fetch_attr_name FaBodyHeader = ''BODY[HEADER]''"
| "fetch_attr_name FaBodyText = ''BODY[TEXT]''"
| "fetch_attr_name FaBodyStructure = ''BODYSTRUCTURE''"
| "fetch_attr_name (FaBodyPart n) = ''BODY['' @ show_nat n @ '']''"
| "fetch_attr_name (FaBodyPartMime n) = ''BODY['' @ show_nat n @ ''.MIME]''"

text \<open>\<open>Err(())\<close> is \<open>None\<close>, an absent modifier \<open>Some None\<close>.\<close>

definition parse_changedsince :: "string \<Rightarrow> nat option option" where
  "parse_changedsince modifiers =
     (let m = trim modifiers in
      if m = [] then Some None
      else case Option.bind (strip_prefix ''('' m) (strip_suffix '')'') of
             None \<Rightarrow> None
           | Some inner \<Rightarrow>
               (case split_ws inner of
                  [key, v] \<Rightarrow> if eq_ci key ''CHANGEDSINCE'' then map_option Some (parse_u64 v) else None
                | _ \<Rightarrow> None))"

subsection \<open>SELECT parameters\<close>

text \<open>
  The parenthesised group after the atom \<open>QRESYNC\<close>: the known UIDs, when given, and the string
  that is left.
\<close>

definition qresync_known :: "string \<Rightarrow> (uid_set option \<times> string) option" where
  "qresync_known s =
     (if peek CHR '')'' s \<or> peek CHR ''('' s then Some (None, s)
      else case next_atom s of
             None \<Rightarrow> None
           | Some (a, r) \<Rightarrow> map_option (\<lambda>k. (Some k, r)) (parse_uid_set a))"

definition qresync_close :: "string \<Rightarrow> string option" where
  "qresync_close s =
     (case (if peek CHR ''('' s then skip_balanced_parens s else Some s) of
        None \<Rightarrow> None
      | Some r \<Rightarrow> (case consume CHR '')'' r of (True, r2) \<Rightarrow> Some r2 | (False, _) \<Rightarrow> None))"

definition qresync_param :: "string \<Rightarrow> (uid_set option \<times> string) option" where
  "qresync_param s =
     (case consume CHR ''('' s of
        (False, _) \<Rightarrow> None
      | (True, s1) \<Rightarrow>
          (case next_atom s1 of
             None \<Rightarrow> None
           | Some (uidvalidity, s2) \<Rightarrow>
               if parse_u32 uidvalidity = None then None
               else (case next_atom s2 of
                       None \<Rightarrow> None
                     | Some (modseq, s3) \<Rightarrow>
                         if parse_u64 modseq = None then None
                         else (case qresync_known s3 of
                                 None \<Rightarrow> None
                               | Some (known, s4) \<Rightarrow> map_option (Pair known) (qresync_close s4)))))"

lemma length_qresync: "qresync_param s = Some (k, r) \<Longrightarrow> length r \<le> length s"
proof -
  have known: "length r' \<le> length s'" if "qresync_known s' = Some (k', r')" for s' k' r'
    using that by (auto simp: qresync_known_def split: if_splits option.splits dest!: length_next_atom)
  have close: "length r' \<le> length s'" if "qresync_close s' = Some r'" for s' r'
    using that by (auto simp: qresync_close_def split: if_splits option.splits prod.splits bool.splits
        dest!: length_skip_balanced length_consume)
  assume "qresync_param s = Some (k, r)"
  then show ?thesis
    by (auto simp: qresync_param_def split: option.splits prod.splits bool.splits if_splits
        dest!: known close length_next_atom length_consume)
qed

text \<open>The loop over the parameters; the first component is \<open>out.qresync\<close>.\<close>

function select_params ::
    "uid_set option option \<Rightarrow> string \<Rightarrow> (uid_set option option \<times> string) option" where
  "select_params qr s =
     (if fst (consume CHR '')'' s) then Some (qr, snd (consume CHR '')'' s))
      else case next_atom s of
             None \<Rightarrow> None
           | Some (key, r) \<Rightarrow>
               if eq_ci key ''CONDSTORE'' then
                 (if skip_spaces r = [] then None else select_params qr (skip_spaces r))
               else if eq_ci key ''QRESYNC'' then
                 (case qresync_param r of
                    None \<Rightarrow> None
                  | Some (known, r2) \<Rightarrow>
                      if skip_spaces r2 = [] then None
                      else select_params (Some known) (skip_spaces r2))
               else None)"
  by pat_completeness auto
termination
  by (relation "measure (\<lambda>(qr, s). length s)")
     (auto dest!: length_next_atom length_qresync intro: le_less_trans [OF length_skip_spaces])

declare select_params.simps [simp del]

record select_args =
  sel_name :: string
  sel_qresync :: "uid_set option option"

definition parse_select_args :: "string \<Rightarrow> select_args option" where
  "parse_select_args args =
     (case next_astring args of
        None \<Rightarrow> None
      | Some (name, r0) \<Rightarrow>
          let r = skip_spaces r0 in
          if r = [] then Some \<lparr>sel_name = name, sel_qresync = None\<rparr>
          else case consume CHR ''('' r of
                 (False, _) \<Rightarrow> None
               | (True, r1) \<Rightarrow>
                   (case select_params None r1 of
                      None \<Rightarrow> None
                    | Some (qr, r2) \<Rightarrow>
                        if skip_spaces r2 = [] then Some \<lparr>sel_name = name, sel_qresync = qr\<rparr>
                        else None))"

subsection \<open>Paths and patterns\<close>

definition split_parent_leaf :: "string \<Rightarrow> string option \<times> string" where
  "split_parent_leaf path =
     (case rsplit_once CHR ''/'' path of
        Some (parent, leaf) \<Rightarrow> (Some parent, leaf)
      | None \<Rightarrow> (None, path))"

definition pattern_matches :: "string \<Rightarrow> string \<Rightarrow> bool" where
  "pattern_matches pattern candidate \<longleftrightarrow>
     pattern = ''*'' \<or> pattern = candidate \<or>
     (case strip_suffix ''*'' pattern of Some p \<Rightarrow> prefix p candidate | None \<Rightarrow> False) \<or>
     (case strip_prefix ''*'' pattern of Some p \<Rightarrow> suffix p candidate | None \<Rightarrow> False)"

subsection \<open>Properties of the parsers\<close>

text \<open>A printed UID run reads back as the run.\<close>

lemma graphic_run: "c \<in> set (show_run lo hi) \<Longrightarrow> graphic c"
  by (auto simp: show_run_def dest!: show_nat_digits graphic_digit split: if_splits)
     (simp add: graphic_def)

lemma comma_run: "CHR '','' \<notin> set (show_run lo hi)"
  by (auto simp: show_run_def show_nat_notin)

lemma parse_run:
  assumes "lo \<le> hi" and "hi \<le> u32_max"
  shows "\<exists>i. parse_set_part (show_run lo hi) = Some i \<and> (\<forall>u. item_matches u i \<longleftrightarrow> lo \<le> u \<and> u \<le> hi)"
proof -
  have trim: "trim (show_run lo hi) = show_run lo hi"
    by (rule trim_graphic) (auto intro: graphic_run)
  show ?thesis
  proof (cases "lo = hi")
    case True
    then have "show_run lo hi = show_nat lo" by (simp add: show_run_def)
    moreover have none: "split_once CHR '':'' (show_nat hi) = None" by (simp add: show_nat_notin)
    ultimately have "parse_set_part (show_run lo hi) = Some (SetSingle lo)"
      using trim assms True by (simp add: parse_set_part_def Let_def none)
    then show ?thesis using True by auto
  next
    case False
    then have run: "show_run lo hi = show_nat lo @ CHR '':'' # show_nat hi"
      by (simp add: show_run_def)
    have star: "show_nat hi \<noteq> ''*''"
      using show_nat_notin [of "CHR ''*''" hi] by auto
    have "split_once CHR '':'' (show_run lo hi) = Some (show_nat lo, show_nat hi)"
      unfolding run by (rule split_once_append) (simp add: show_nat_notin)
    then show ?thesis
      using trim assms False star by (auto simp: parse_set_part_def parse_range_end_def run Let_def)
  qed
qed

lemma uid_runs_ne [simp]: "uid_runs lo hi us \<noteq> []"
  by (induction lo hi us rule: uid_runs.induct) auto

lemma uid_runs_commas: "p \<in> set (uid_runs lo hi us) \<Longrightarrow> CHR '','' \<notin> set p"
  by (induction lo hi us rule: uid_runs.induct) (auto simp: comma_run split: if_splits)

lemma uid_set_matches_Cons [simp]:
  "uid_set_matches (i # is) u \<longleftrightarrow> item_matches u i \<or> uid_set_matches is u"
  by (simp add: uid_set_matches_def)

lemma parse_uid_runs:
  "lo \<le> hi \<Longrightarrow> sorted_wrt (<) (hi # us) \<Longrightarrow> (\<forall>u \<in> set (hi # us). u \<le> u32_max) \<Longrightarrow>
     \<exists>is. parse_set_parts (uid_runs lo hi us) = Some is \<and> is \<noteq> [] \<and>
       (\<forall>u. uid_set_matches is u \<longleftrightarrow> (lo \<le> u \<and> u \<le> hi) \<or> u \<in> set us)"
proof (induction lo hi us rule: uid_runs.induct)
  case (1 lo hi)
  then show ?case
    using parse_run [of lo hi] by (auto simp: uid_set_matches_def)
next
  case (2 lo hi u us)
  show ?case
  proof (cases "u = hi + 1")
    case True
    have "lo \<le> u" "sorted_wrt (<) (u # us)" "\<forall>v \<in> set (u # us). v \<le> u32_max"
      using 2(3-5) True by auto
    from 2(1) [OF True this] obtain "is" where rest:
      "parse_set_parts (uid_runs lo u us) = Some is" "is \<noteq> []"
      "\<forall>v. uid_set_matches is v \<longleftrightarrow> (lo \<le> v \<and> v \<le> u) \<or> v \<in> set us"
      by blast
    have "\<forall>v. uid_set_matches is v \<longleftrightarrow> (lo \<le> v \<and> v \<le> hi) \<or> v \<in> set (u # us)"
      unfolding rest(3) [rule_format] using True 2(3) by (auto simp: le_Suc_eq)
    then show ?thesis using rest(1,2) True by auto
  next
    case False
    have "sorted_wrt (<) (u # us)" "\<forall>v \<in> set (u # us). v \<le> u32_max" using 2(4,5) by auto
    from 2(2) [OF False order_refl this] obtain "is" where
      rest: "parse_set_parts (uid_runs u u us) = Some is"
      "\<forall>v. uid_set_matches is v \<longleftrightarrow> (u \<le> v \<and> v \<le> u) \<or> v \<in> set us"
      by blast
    have "hi \<le> u32_max" using 2(5) by simp
    then obtain i where run: "parse_set_part (show_run lo hi) = Some i"
      "\<forall>v. item_matches v i \<longleftrightarrow> lo \<le> v \<and> v \<le> hi"
      using parse_run 2(3) by blast
    have "parse_set_parts (uid_runs lo hi (u # us)) = Some (i # is)"
      using False rest(1) run(1) by simp
    moreover have "\<forall>v. uid_set_matches (i # is) v \<longleftrightarrow> (lo \<le> v \<and> v \<le> hi) \<or> v \<in> set (u # us)"
      unfolding uid_set_matches_Cons rest(2) [rule_format] run(2) [rule_format] by auto
    ultimately show ?thesis by blast
  qed
qed

lemma format_uid_set_reads:
  assumes "uids \<noteq> []" and "sorted_wrt (<) uids" and "\<forall>u \<in> set uids. u \<le> u32_max"
  shows "\<exists>is. parse_uid_set (format_uid_ranges uids) = Some is \<and>
    (\<forall>u. uid_set_matches is u \<longleftrightarrow> u \<in> set uids)"
proof -
  obtain v us where uids: "uids = v # us" using assms(1) by (cases uids) auto
  obtain "is" where "is": "parse_set_parts (uid_runs v v us) = Some is" "is \<noteq> []"
    "\<forall>u. uid_set_matches is u \<longleftrightarrow> (v \<le> u \<and> u \<le> v) \<or> u \<in> set us"
    using parse_uid_runs [of v v us] assms uids by auto
  have "split_on CHR '','' (format_uid_ranges uids) = uid_runs v v us"
    unfolding format_uid_ranges_def uids
    by (simp add: split_on_join uid_runs_commas)
  with "is" show ?thesis
    unfolding uids by (auto simp: parse_uid_set_def)
qed

text \<open>
  The UID set the server prints is the UID set it means: for a non-empty, strictly ascending
  list of 32-bit UIDs, \<open>format_uid_ranges\<close> prints a sequence-set that \<open>parse_uid_set\<close>
  accepts and that matches exactly the UIDs of the list.
\<close>

theorem format_parse_uid_set:
  assumes "uids \<noteq> []" and "sorted_wrt (<) uids" and "\<forall>u \<in> set uids. u \<le> u32_max"
  shows "\<exists>is. parse_uid_set (format_uid_ranges uids) = Some is \<and>
    (\<forall>u. uid_set_matches is u \<longleftrightarrow> u \<in> set uids)"
  using assms by (rule format_uid_set_reads)

theorem format_parse_uid_set_witness:
  "\<exists>is. parse_uid_set (format_uid_ranges [1, 2, 3, 7]) = Some is \<and>
    (\<forall>u. uid_set_matches is u \<longleftrightarrow> u \<in> set [1, 2, 3, 7])"
  by (rule format_parse_uid_set) simp_all

text \<open>A quoted string reads back, whatever it holds but a quote.\<close>

lemma takeWhile_quote: "CHR 0x22 \<notin> set s \<Longrightarrow> takeWhile (\<lambda>c. c \<noteq> CHR 0x22) (s @ CHR 0x22 # r) = s"
  by (induction s) auto

lemma dropWhile_quote: "CHR 0x22 \<notin> set s \<Longrightarrow> dropWhile (\<lambda>c. c \<noteq> CHR 0x22) (s @ CHR 0x22 # r) = CHR 0x22 # r"
  by (induction s) auto

lemma next_astring_quoted:
  "CHR 0x22 \<notin> set s \<Longrightarrow> next_astring (dquote @ s @ dquote @ r) = Some (s, r)"
  by (simp add: next_astring_def skip_spaces_def takeWhile_quote dropWhile_quote)

lemma parse_one_quoted: "CHR 0x22 \<notin> set s \<Longrightarrow> parse_one_astring (dquote @ s @ dquote) = Some s"
  using next_astring_quoted [of s "[]"] by (simp add: parse_one_astring_def skip_spaces_def)

lemma set_push_missing: "set (push_missing rs ks) = set ks \<union> set rs"
  by (induction rs ks rule: push_missing.induct) auto

text \<open>
  Flag operations are set operations. Whatever the order or repetition of the flags, adding
  gives the union, removing the difference and replacing the requested keywords; the keywords
  end up sorted without repetition and nothing else of the email changes; the operation
  reports a change exactly when the set of keywords changed, and doing it again changes nothing.
\<close>

theorem store_op_is_set_operation:
  fixes op :: store_op and e :: email
  defines "req \<equiv> set (map imap_flag_to_keyword (so_flags op))" and "old \<equiv> set (em_keywords e)"
    and "e' \<equiv> snd (apply_in_place op e)"
  shows "set (em_keywords e') =
      (case so_kind op of StoreAdd \<Rightarrow> old \<union> req | StoreRemove \<Rightarrow> old - req | StoreReplace \<Rightarrow> req) \<and>
    sorted (em_keywords e') \<and> distinct (em_keywords e') \<and>
    e' = e\<lparr>em_keywords := em_keywords e'\<rparr> \<and>
    (fst (apply_in_place op e) \<longleftrightarrow> set (em_keywords e') \<noteq> old) \<and>
    apply_in_place op e' = (False, e')"
proof -
  define ks :: "email \<Rightarrow> string list" where "ks = (\<lambda>e. case so_kind op of
      StoreAdd \<Rightarrow> push_missing (map imap_flag_to_keyword (so_flags op)) (em_keywords e)
    | StoreRemove \<Rightarrow> filter (\<lambda>k. k \<notin> set (map imap_flag_to_keyword (so_flags op))) (em_keywords e)
    | StoreReplace \<Rightarrow> map imap_flag_to_keyword (so_flags op))"
  have app: "apply_in_place op e =
      (sort_dedup (ks e) \<noteq> sort_dedup (em_keywords e), e\<lparr>em_keywords := sort_dedup (ks e)\<rparr>)" for e
    by (simp add: apply_in_place_def ks_def Let_def)
  have set_ks: "set (ks e) = (case so_kind op of StoreAdd \<Rightarrow> set (em_keywords e) \<union> req
      | StoreRemove \<Rightarrow> set (em_keywords e) - req | StoreReplace \<Rightarrow> req)" for e
    by (auto simp: ks_def req_def set_push_missing split: store_kind.split)
  have e': "e' = e\<lparr>em_keywords := sort_dedup (ks e)\<rparr>"
    by (simp add: e'_def app)
  then have "set (ks e') = set (ks e)"
    unfolding set_ks by (auto simp: set_ks split: store_kind.split)
  then have "sort_dedup (ks e') = sort_dedup (ks e)"
    by (simp add: sort_dedup_eq_iff)
  then have "apply_in_place op e' = (False, e')"
    by (simp add: app e')
  moreover have "sorted (sort_dedup xs)" for xs by (rule sorted_sort_dedup)
  ultimately show ?thesis
    unfolding e' old_def using set_ks [of e] by (simp add: app sort_dedup_eq_iff)
qed

text \<open>
  Where a search kills the connection. \<open>UID SEARCH\<close> panics exactly when its argument is
  longer than the six bytes of \<open>SINCE \<close> and the slice after them falls inside a multi-byte
  character; on any other argument the parser returns criteria or the BAD of an unsupported
  search.
\<close>

theorem uid_search_panics_iff:
  "parse_uid_search strptime args = None \<longleftrightarrow>
     \<not> eq_ci (trim args) ''ALL'' \<and> 6 < length (trim args) \<and>
     128 \<le> (of_char (trim args ! 6) :: nat) \<and> (of_char (trim args ! 6) :: nat) < 192"
proof -
  have six: "Suc (Suc (Suc (Suc (Suc (Suc 0))))) = 6" by simp
  show ?thesis
    by (auto simp: parse_uid_search_def strip_prefix_ci_def char_boundary_def Let_def six
        split: option.splits)
qed

end
