(* ===== verification/Imap_Mailbox.thy ===== *)
theory Imap_Mailbox
  imports Fixture_Store Imap_Syntax
begin

text \<open>
  The mailbox projection of the IMAP listener (\<open>src/imap.rs\<close>): the paths of \<open>LIST\<close>, the shared
  folders of the other-users namespace, the live messages of a mailbox with their UIDs, its
  counts and its expunged UIDs. The walk up the parents is a \<open>while\<close> loop that need not end,
  so a path, and every list of paths, is an option: \<open>None\<close> is a call that never returns.
\<close>

definition shared_namespace_prefix :: string where "shared_namespace_prefix = ''#user/''"

record list_entry =
  le_fixture_id :: string
  le_path :: string
  le_attributes :: "string list"

record resolved_mailbox =
  rm_account_id :: string
  rm_fixture_id :: string
  rm_path :: string
  rm_rights :: string

record shared_list_entry =
  sl_fixture_id :: string
  sl_owner_account_id :: string
  sl_path :: string
  sl_attributes :: "string list"
  sl_rights :: string

record counts =
  co_exists :: nat
  co_unseen :: nat
  co_uidnext :: nat

subsection \<open>Paths\<close>

text \<open>The names of the ancestors, nearest first.\<close>

partial_function (option) ancestors :: "(string \<Rightarrow> mailbox option) \<Rightarrow> mailbox \<Rightarrow> string list option" where
  "ancestors by_id cur =
     (case mb_parent_id cur of
        None \<Rightarrow> Some []
      | Some p \<Rightarrow>
          (case by_id p of
             None \<Rightarrow> Some []
           | Some parent \<Rightarrow> Option.bind (ancestors by_id parent) (\<lambda>ns. Some (mb_name parent # ns))))"

definition mailbox_path :: "mailbox \<Rightarrow> (string \<Rightarrow> mailbox option) \<Rightarrow> string option" where
  "mailbox_path m by_id =
     (if mb_role m = Some Inbox then Some ''INBOX''
      else map_option (\<lambda>ns. join ''/'' (rev (mb_name m # ns))) (ancestors by_id m))"

fun role_attributes :: "role option \<Rightarrow> string list" where
  "role_attributes (Some Inbox) = [backslash # ''Inbox'']"
| "role_attributes (Some Archive) = [backslash # ''Archive'']"
| "role_attributes (Some Drafts) = [backslash # ''Drafts'']"
| "role_attributes (Some Sent) = [backslash # ''Sent'']"
| "role_attributes (Some Trash) = [backslash # ''Trash'']"
| "role_attributes (Some Junk) = [backslash # ''Junk'']"
| "role_attributes (Some Important) = [backslash # ''Important'']"
| "role_attributes None = []"

definition mailboxes_by_id :: "fixture \<Rightarrow> string \<Rightarrow> string \<Rightarrow> mailbox option" where
  "mailboxes_by_id f a = collect_map mb_id (\<lambda>m. m) (mailboxes_for f a)"

definition mailbox_entry :: "fixture \<Rightarrow> string \<Rightarrow> mailbox \<Rightarrow> list_entry option" where
  "mailbox_entry f a m =
     map_option (\<lambda>p. \<lparr>le_fixture_id = mb_id m, le_path = p, le_attributes = role_attributes (mb_role m)\<rparr>)
       (mailbox_path m (mailboxes_by_id f a))"

definition list_mailboxes :: "fixture \<Rightarrow> string \<Rightarrow> list_entry list option" where
  "list_mailboxes f a = those (map (mailbox_entry f a) (mailboxes_for f a))"

text \<open>\<open>entries.iter().find(|e| e.path.eq_ignore_ascii_case(name)).map(|e| e.fixture_id)\<close>\<close>

definition find_path :: "string \<Rightarrow> list_entry list \<Rightarrow> list_entry option" where
  "find_path name es = find (\<lambda>e. eq_ci (le_path e) name) es"

subsection \<open>Shared folders\<close>

definition account_name_or_id :: "fixture \<Rightarrow> string \<Rightarrow> string" where
  "account_name_or_id f a = (case find_account f a of Some x \<Rightarrow> ac_name x | None \<Rightarrow> a)"

definition shared_entry :: "fixture \<Rightarrow> acl_grant \<Rightarrow> shared_list_entry option option" where
  "shared_entry f grant =
     (case mailbox_by_id f (acl_mailbox_id grant) of
        None \<Rightarrow> Some None
      | Some mailbox \<Rightarrow>
          let owner = mb_account_id mailbox in
          map_option
            (\<lambda>es. map_option
               (\<lambda>e. \<lparr>sl_fixture_id = acl_mailbox_id grant, sl_owner_account_id = owner,
                     sl_path = shared_namespace_prefix @ account_name_or_id f owner @ ''/'' @ le_path e,
                     sl_attributes = le_attributes e, sl_rights = acl_rights grant\<rparr>)
               (find (\<lambda>e. le_fixture_id e = acl_mailbox_id grant) es))
            (list_mailboxes f owner))"

definition list_shared_mailboxes :: "fixture \<Rightarrow> string \<Rightarrow> shared_list_entry list option" where
  "list_shared_mailboxes f viewer =
     map_option (List.map_filter (\<lambda>x. x)) (those (map (shared_entry f) (acls_for_viewer f viewer)))"

text \<open>
  \<open>accounts.iter().any(..)\<close> stops at the first account that has the path, so only the accounts
  up to it are listed.
\<close>

fun any_owner :: "fixture \<Rightarrow> string \<Rightarrow> string \<Rightarrow> account list \<Rightarrow> bool option" where
  "any_owner f viewer rest [] = Some False"
| "any_owner f viewer rest (a # as) =
     (if ac_id a = viewer then any_owner f viewer rest as
      else case strip_prefix (ac_name a @ ''/'') rest of
             None \<Rightarrow> any_owner f viewer rest as
           | Some owner_path \<Rightarrow>
               (case list_mailboxes f (ac_id a) of
                  None \<Rightarrow> None
                | Some es \<Rightarrow>
                    if list_ex (\<lambda>e. eq_ci (le_path e) owner_path) es then Some True
                    else any_owner f viewer rest as))"

definition shared_mailbox_path_exists :: "fixture \<Rightarrow> string \<Rightarrow> string \<Rightarrow> bool option" where
  "shared_mailbox_path_exists f viewer path =
     (case strip_prefix shared_namespace_prefix path of
        None \<Rightarrow> Some False
      | Some rest \<Rightarrow> any_owner f viewer rest (accounts f))"

text \<open>\<open>resolve_mailbox\<close> of a connection authenticated as \<open>a\<close>.\<close>

definition resolve_mailbox_name :: "fixture \<Rightarrow> string \<Rightarrow> string \<Rightarrow> resolved_mailbox option option" where
  "resolve_mailbox_name f a name =
     (if prefix shared_namespace_prefix name then
        map_option
          (\<lambda>shared. map_option
             (\<lambda>s. \<lparr>rm_account_id = sl_owner_account_id s, rm_fixture_id = sl_fixture_id s,
                   rm_path = sl_path s, rm_rights = sl_rights s\<rparr>)
             (find (\<lambda>s. eq_ci (sl_path s) name) shared))
          (list_shared_mailboxes f a)
      else
        map_option
          (\<lambda>es. map_option
             (\<lambda>e. \<lparr>rm_account_id = a, rm_fixture_id = le_fixture_id e, rm_path = le_path e,
                   rm_rights = owner_rights\<rparr>)
             (find_path name es))
          (list_mailboxes f a))"

subsection \<open>Messages\<close>

definition emails_by_id :: "fixture \<Rightarrow> string \<Rightarrow> string \<Rightarrow> email option" where
  "emails_by_id f a = collect_map em_id (\<lambda>e. e) (emails_for f a)"

definition slot_email :: "(string \<Rightarrow> email option) \<Rightarrow> nat \<times> string option \<Rightarrow> (nat \<times> email) option" where
  "slot_email by_id s = map_option (Pair (fst s + 1)) (Option.bind (snd s) by_id)"

definition mailbox_messages :: "fixture \<Rightarrow> string \<Rightarrow> string \<Rightarrow> (nat \<times> email) list" where
  "mailbox_messages f a mb =
     List.map_filter (slot_email (emails_by_id f a)) (enumerate0 (uid_history f mb))"

definition live_uids :: "fixture \<Rightarrow> string \<Rightarrow> string \<Rightarrow> nat list" where
  "live_uids f a mb = map fst (mailbox_messages f a mb)"

fun count_slots :: "(string \<Rightarrow> email option) \<Rightarrow> string option list \<Rightarrow> nat \<times> nat \<Rightarrow> nat \<times> nat" where
  "count_slots by_id [] c = c"
| "count_slots by_id (slot # slots) (n, u) =
     (case Option.bind slot by_id of
        None \<Rightarrow> count_slots by_id slots (n, u)
      | Some e \<Rightarrow>
          count_slots by_id slots (n + 1, if ''$seen'' \<notin> set (em_keywords e) then u + 1 else u))"

definition mailbox_counts :: "fixture \<Rightarrow> string \<Rightarrow> string \<Rightarrow> counts" where
  "mailbox_counts f a mb =
     (let (n, u) = count_slots (emails_by_id f a) (uid_history f mb) (0, 0)
      in \<lparr>co_exists = n, co_unseen = u, co_uidnext = uidnext f mb\<rparr>)"

definition expunged_uids :: "fixture \<Rightarrow> string \<Rightarrow> uid_set option \<Rightarrow> nat list" where
  "expunged_uids f mb known =
     List.map_filter
       (\<lambda>(i, slot). if slot \<noteq> None then None
                     else if (case known of None \<Rightarrow> True | Some k \<Rightarrow> uid_set_matches k (i + 1))
                          then Some (i + 1) else None)
       (enumerate0 (uid_history f mb))"

definition flag_token :: "string \<Rightarrow> string" where
  "flag_token k =
     (if k = ''$seen'' then backslash # ''Seen''
      else if k = ''$flagged'' then backslash # ''Flagged''
      else if k = ''$draft'' then backslash # ''Draft''
      else if k = ''$answered'' then backslash # ''Answered''
      else if k = ''$deleted'' then backslash # ''Deleted''
      else k)"

definition flags_for :: "email \<Rightarrow> string" where
  "flags_for e = join '' '' (sort (map flag_token (em_keywords e)))"

subsection \<open>When listing returns\<close>

text \<open>A rank that decreases towards the parents: the parent links have no cycle.\<close>

definition parents_ranked :: "(string \<Rightarrow> nat) \<Rightarrow> (string \<Rightarrow> mailbox option) \<Rightarrow> bool" where
  "parents_ranked r by_id \<longleftrightarrow>
     (\<forall>m p parent. by_id m \<noteq> None \<longrightarrow> mb_parent_id (the (by_id m)) = Some p \<longrightarrow>
        by_id p = Some parent \<longrightarrow> r p < r m)"

lemma ancestors_total:
  "parents_ranked r by_id \<Longrightarrow> by_id i = Some m \<Longrightarrow> ancestors by_id m \<noteq> None"
proof (induction "r i" arbitrary: i m rule: less_induct)
  case less
  show ?case
  proof (cases "Option.bind (mb_parent_id m) by_id")
    case None
    then show ?thesis
      by (subst ancestors.simps) (auto split: option.splits bind_splits)
  next
    case (Some parent)
    then obtain p where p: "mb_parent_id m = Some p" "by_id p = Some parent"
      by (auto split: bind_splits)
    then have "r p < r i" using less.prems unfolding parents_ranked_def by force
    from less.hyps [OF this less.prems(1) p(2)] obtain ns where "ancestors by_id parent = Some ns"
      by auto
    with p show ?thesis by (subst ancestors.simps) simp
  qed
qed

lemma those_map_total: "(\<forall>x \<in> set xs. g x \<noteq> None) \<Longrightarrow> those (map g xs) \<noteq> None"
  by (induction xs) auto

lemma those_map_Some: "those (map g xs) = Some ys \<longleftrightarrow> list_all2 (\<lambda>x y. g x = Some y) xs ys"
  by (induction xs arbitrary: ys) (auto simp: list_all2_Cons1 split: option.splits)

lemma those_None: "x \<in> set xs \<Longrightarrow> g x = None \<Longrightarrow> those (map g xs) = None"
  by (induction xs) (auto split: option.splits)

lemma collect_map_mem: "distinct (map k xs) \<Longrightarrow> x \<in> set xs \<Longrightarrow> collect_map k v xs (k x) = Some (v x)"
  unfolding collect_map_def
  by (rule map_of_is_SomeI) (auto simp: rev_map comp_def simp flip: rev_map)

lemma collect_map_SomeD: "collect_map k v xs i = Some y \<Longrightarrow> \<exists>x \<in> set xs. k x = i \<and> v x = y"
  by (auto simp: collect_map_def dest!: map_of_SomeD)

text \<open>The mailboxes of an account have distinct ids and no cycle of parents.\<close>

definition mailboxes_ok :: "fixture \<Rightarrow> string \<Rightarrow> bool" where
  "mailboxes_ok f a \<longleftrightarrow> distinct (map mb_id (mailboxes_for f a)) \<and>
     (\<exists>r. parents_ranked r (mailboxes_by_id f a))"

lemma list_mailboxes_total:
  assumes "mailboxes_ok f a"
  shows "list_mailboxes f a \<noteq> None"
proof -
  obtain r where r: "parents_ranked r (mailboxes_by_id f a)"
    using assms by (auto simp: mailboxes_ok_def)
  have "mailbox_entry f a m \<noteq> None" if "m \<in> set (mailboxes_for f a)" for m
  proof -
    have "mailboxes_by_id f a (mb_id m) = Some m"
      unfolding mailboxes_by_id_def
      using assms that by (intro collect_map_mem) (auto simp: mailboxes_ok_def)
    from ancestors_total [OF r this] show ?thesis
      by (auto simp: mailbox_entry_def mailbox_path_def)
  qed
  then show ?thesis unfolding list_mailboxes_def by (intro those_map_total) blast
qed

text \<open>A mailbox that is its own parent makes every listing of its account run forever.\<close>

lemma ancestors_self:
  assumes "mb_parent_id m = Some i" and "by_id i = Some m"
  shows "ancestors by_id m = None"
proof (cases "ancestors by_id m")
  case (Some ns)
  have "ancestors by_id m = Option.bind (ancestors by_id m) (\<lambda>ns. Some (mb_name m # ns))"
    using assms by (subst ancestors.simps) simp
  with Some have "ns = mb_name m # ns" by simp
  then show ?thesis by simp
qed

lemma list_mailboxes_self_parent:
  assumes "m \<in> set (mailboxes_for f a)" and "mb_role m \<noteq> Some Inbox"
    and "mb_parent_id m = Some (mb_id m)" and "distinct (map mb_id (mailboxes_for f a))"
  shows "list_mailboxes f a = None"
proof -
  have "mailboxes_by_id f a (mb_id m) = Some m"
    unfolding mailboxes_by_id_def using assms(4,1) by (rule collect_map_mem)
  from ancestors_self [where by_id = "mailboxes_by_id f a", OF assms(3) this]
  have "mailbox_entry f a m = None"
    using assms(2) by (simp add: mailbox_entry_def mailbox_path_def)
  with assms(1) show ?thesis unfolding list_mailboxes_def by (rule those_None)
qed

subsection \<open>The view of a mailbox\<close>

lemma map_filter_enumerate:
  "y \<in> set (List.map_filter g (enumerate n xs)) \<longleftrightarrow>
     (\<exists>i < length xs. g (n + i, xs ! i) = Some y)"
proof (induction xs arbitrary: n)
  case (Cons x xs)
  have "y \<in> set (List.map_filter g (enumerate n (x # xs))) \<longleftrightarrow>
      g (n, x) = Some y \<or> y \<in> set (List.map_filter g (enumerate (Suc n) xs))"
    by (auto simp: map_filter_simps split: option.split)
  also have "\<dots> \<longleftrightarrow> g (n, x) = Some y \<or> (\<exists>i < length xs. g (Suc n + i, xs ! i) = Some y)"
    using Cons by simp
  also have "\<dots> \<longleftrightarrow> (\<exists>i < length (x # xs). g (n + i, (x # xs) ! i) = Some y)"
    by (simp add: Ex_less_Suc2)
  finally show ?case .
qed (simp add: map_filter_simps)

lemma sorted_map_filter_enumerate:
  assumes "\<And>i x y. g (i, x) = Some y \<Longrightarrow> key y = Suc i"
  shows "sorted_wrt (<) (map key (List.map_filter g (enumerate n xs)))"
proof (induction xs arbitrary: n)
  case (Cons x xs)
  have "Suc n < key y" if "y \<in> set (List.map_filter g (enumerate (Suc n) xs))" for y
    using that assms unfolding map_filter_enumerate by fastforce
  then show ?case
    using Cons assms by (auto simp: map_filter_simps split: option.split)
qed (simp add: map_filter_simps)

lemma mem_mailbox_messages:
  "(u, e) \<in> set (mailbox_messages f a mb) \<longleftrightarrow>
     1 \<le> u \<and> u < uidnext f mb \<and> Option.bind (uid_history f mb ! (u - 1)) (emails_by_id f a) = Some e"
  unfolding mailbox_messages_def enumerate0_def map_filter_enumerate
  by (cases u) (auto simp: slot_email_def uidnext_def)

lemma live_uids_sorted: "sorted_wrt (<) (live_uids f a mb)"
  unfolding live_uids_def mailbox_messages_def enumerate0_def
  by (rule sorted_map_filter_enumerate) (auto simp: slot_email_def)

lemma mem_expunged_uids:
  "u \<in> set (expunged_uids f mb known) \<longleftrightarrow>
     1 \<le> u \<and> u < uidnext f mb \<and> uid_history f mb ! (u - 1) = None \<and>
     (case known of None \<Rightarrow> True | Some k \<Rightarrow> uid_set_matches k u)"
  unfolding expunged_uids_def enumerate0_def map_filter_enumerate
  by (cases u) (auto simp: uidnext_def split: option.splits if_splits)

lemma expunged_uids_sorted: "sorted_wrt (<) (expunged_uids f mb known)"
proof -
  let ?g = "\<lambda>(i, slot). if slot \<noteq> None then None
    else if (case known of None \<Rightarrow> True | Some k \<Rightarrow> uid_set_matches k (i + 1)) then Some (i + 1) else None"
  have "sorted_wrt (<) (map (\<lambda>u. u) (List.map_filter ?g (enumerate 0 (uid_history f mb))))"
    by (rule sorted_map_filter_enumerate) (auto split: if_splits)
  then show ?thesis
    by (simp add: expunged_uids_def enumerate0_def)
qed

lemma count_slots_messages:
  "count_slots by_id slots (n, u) =
     (let ms = List.map_filter (slot_email by_id) (enumerate k slots) in
      (n + length ms, u + length (filter (\<lambda>m. ''$seen'' \<notin> set (em_keywords (snd m))) ms)))"
proof (induction slots arbitrary: n u k)
  case (Cons slot slots)
  show ?case
    using Cons [of _ _ "Suc k"]
    by (cases "Option.bind slot by_id") (auto simp: slot_email_def map_filter_simps Let_def)
qed (simp add: map_filter_simps)

text \<open>
  SELECT, STATUS, FETCH and SEARCH see one mailbox. The counts are those of the listed
  messages; the live UIDs are strictly ascending, at least 1 and below the UIDNEXT that is
  reported; the expunged UIDs are strictly ascending, are UIDs that were handed out and are
  disjoint from the live ones.
\<close>

theorem mailbox_view_consistent:
  "co_exists (mailbox_counts f a mb) = length (mailbox_messages f a mb) \<and>
   co_unseen (mailbox_counts f a mb) =
     length (filter (\<lambda>m. ''$seen'' \<notin> set (em_keywords (snd m))) (mailbox_messages f a mb)) \<and>
   sorted_wrt (<) (live_uids f a mb) \<and> sorted_wrt (<) (expunged_uids f mb known) \<and>
   set (live_uids f a mb) \<subseteq> {1..<co_uidnext (mailbox_counts f a mb)} \<and>
   set (expunged_uids f mb known) \<subseteq> {1..<co_uidnext (mailbox_counts f a mb)} \<and>
   set (live_uids f a mb) \<inter> set (expunged_uids f mb known) = {}"
proof -
  have counts: "count_slots (emails_by_id f a) (uid_history f mb) (0, 0) =
      (length (mailbox_messages f a mb),
       length (filter (\<lambda>m. ''$seen'' \<notin> set (em_keywords (snd m))) (mailbox_messages f a mb)))"
    using count_slots_messages [of "emails_by_id f a" "uid_history f mb" 0 0 0]
    by (simp add: mailbox_messages_def enumerate0_def Let_def)
  have live: "\<exists>i e. 1 \<le> u \<and> u < uidnext f mb \<and> uid_history f mb ! (u - 1) = Some i"
    if "u \<in> set (live_uids f a mb)" for u
    using that by (auto simp: live_uids_def mem_mailbox_messages split: bind_splits)
  have range: "set (live_uids f a mb) \<subseteq> {1..<uidnext f mb}"
    "set (expunged_uids f mb known) \<subseteq> {1..<uidnext f mb}"
    using live by (auto simp: mem_expunged_uids)
  have "set (live_uids f a mb) \<inter> set (expunged_uids f mb known) = {}"
    using live by (fastforce simp: mem_expunged_uids)
  then show ?thesis
    using range by (simp add: mailbox_counts_def counts live_uids_sorted expunged_uids_sorted)
qed

text \<open>
  The \<open>VANISHED (EARLIER)\<close> report of a QRESYNC SELECT is exact on the wire: when there is
  something to report, the printed UID set parses, and it matches exactly the UIDs that were
  handed out in the mailbox, are no longer in use, and are in the client's known set when it
  sent one.
\<close>

theorem vanished_report_exact:
  assumes "expunged_uids f mb known \<noteq> []" and "uidnext f mb \<le> u32_max"
  shows "\<exists>is. parse_uid_set (format_uid_ranges (expunged_uids f mb known)) = Some is \<and>
    (\<forall>u. uid_set_matches is u \<longleftrightarrow> 1 \<le> u \<and> u < uidnext f mb \<and>
       uid_history f mb ! (u - 1) = None \<and>
       (case known of None \<Rightarrow> True | Some k \<Rightarrow> uid_set_matches k u))"
proof -
  have "\<forall>u \<in> set (expunged_uids f mb known). u \<le> u32_max"
    using assms(2) by (auto simp: mem_expunged_uids)
  from format_uid_set_reads [OF assms(1) expunged_uids_sorted this]
  show ?thesis by (simp add: mem_expunged_uids)
qed

theorem vanished_report_exact_witness:
  "\<exists>is. parse_uid_set (format_uid_ranges
      (expunged_uids (retire_uid ''mb1'' ''m0'' two_mailboxes) ''mb1'' None)) = Some is \<and>
    uid_set_matches is 1 \<and> \<not> uid_set_matches is 2"
proof -
  have hist: "uid_history (retire_uid ''mb1'' ''m0'' two_mailboxes) ''mb1'' = [None, Some ''m1'']"
    by (simp add: uid_history_retire two_mailboxes_def uid_history_assign)
       (simp add: uid_history_def empty_fixture_def)
  then have nxt: "uidnext (retire_uid ''mb1'' ''m0'' two_mailboxes) ''mb1'' = 3"
    by (simp add: uidnext_def)
  have "1 \<in> set (expunged_uids (retire_uid ''mb1'' ''m0'' two_mailboxes) ''mb1'' None)"
    by (simp add: mem_expunged_uids hist nxt)
  then have "expunged_uids (retire_uid ''mb1'' ''m0'' two_mailboxes) ''mb1'' None \<noteq> []"
    by (metis empty_iff list.set(1))
  from vanished_report_exact [OF this] nxt hist show ?thesis by auto
qed

end
