(* ===== verification/Sasl_Base64.thy ===== *)
theory Sasl_Base64
  imports Rust_Prelude
begin

text \<open>
  The base64 code of \<open>src/imap.rs\<close> (\<open>base64_wrapped\<close>, which writes attachment parts, and
  \<open>sasl_decode_b64\<close>, which reads SASL responses on IMAP and SMTP) and the extraction of the
  user, the password and the bearer token from a decoded response. The decoder's \<open>u32\<close>
  buffer is a natural number taken modulo \<open>2^32\<close> where it is shifted.
\<close>

subsection \<open>The alphabet\<close>

definition b64_alphabet :: string where
  "b64_alphabet = ''ABCDEFGHIJKLMNOPQRSTUVWXYZabcdefghijklmnopqrstuvwxyz0123456789+/''"

definition b64_char :: "nat \<Rightarrow> char" where
  "b64_char i = b64_alphabet ! i"

text \<open>The decoder's table, \<open>None\<close> for \<open>-1\<close>.\<close>

definition b64_val :: "char \<Rightarrow> nat option" where
  "b64_val c = map_of (zip b64_alphabet [0..<64]) c"

lemma b64_alphabet_length: "length b64_alphabet = 64"
  by (simp add: b64_alphabet_def)

lemma b64_alphabet_distinct: "distinct b64_alphabet"
  by (simp add: b64_alphabet_def)

lemma b64_val_char [simp]: "i < 64 \<Longrightarrow> b64_val (b64_char i) = Some i"
  unfolding b64_val_def b64_char_def
  by (rule map_of_is_SomeI)
     (auto simp: b64_alphabet_length b64_alphabet_distinct in_set_zip intro!: exI [of _ i])

lemma b64_val_less: "b64_val c = Some v \<Longrightarrow> v < 64"
  by (auto simp: b64_val_def dest!: map_of_SomeD set_zip_rightD)

lemma b64_char_alphabet: "i < 64 \<Longrightarrow> b64_char i \<in> set b64_alphabet"
  by (simp add: b64_char_def b64_alphabet_length)

lemma b64_char_graphic [simp]:
  "i < 64 \<Longrightarrow> b64_char i \<noteq> CHR ''=''" "i < 64 \<Longrightarrow> b64_char i \<noteq> CHR 0x0D"
  "i < 64 \<Longrightarrow> b64_char i \<noteq> CHR 0x0A" "i < 64 \<Longrightarrow> b64_char i \<noteq> CHR '' ''"
  by (auto simp: b64_alphabet_def dest: b64_char_alphabet)

subsection \<open>Encoding\<close>

fun b64_encode :: "string \<Rightarrow> string" where
  "b64_encode (c0 # c1 # c2 # rest) =
     (let n = of_char c0 * 65536 + of_char c1 * 256 + of_char c2 in
      b64_char (n div 262144 mod 64) # b64_char (n div 4096 mod 64) #
      b64_char (n div 64 mod 64) # b64_char (n mod 64) # b64_encode rest)"
| "b64_encode [c0, c1] =
     (let n = of_char c0 * 65536 + of_char c1 * 256 in
      [b64_char (n div 262144 mod 64), b64_char (n div 4096 mod 64),
       b64_char (n div 64 mod 64), CHR ''=''])"
| "b64_encode [c0] =
     (let n = of_char c0 * 65536 in
      [b64_char (n div 262144 mod 64), b64_char (n div 4096 mod 64), CHR ''='', CHR ''=''])"
| "b64_encode [] = []"

function wrap76 :: "string \<Rightarrow> string" where
  "wrap76 s = (if s = [] then [] else take 76 s @ crlf @ wrap76 (drop 76 s))"
  by pat_completeness auto
termination by (relation "measure length") auto

declare wrap76.simps [simp del]

definition base64_wrapped :: "string \<Rightarrow> string" where
  "base64_wrapped input = wrap76 (b64_encode input)"

subsection \<open>Decoding\<close>

fun b64_loop :: "nat \<Rightarrow> nat \<Rightarrow> string \<Rightarrow> string option" where
  "b64_loop buf bits [] = Some []"
| "b64_loop buf bits (c # cs) =
     (if c = CHR ''='' \<or> c = CHR 0x0D \<or> c = CHR 0x0A \<or> c = CHR '' '' then b64_loop buf bits cs
      else case b64_val c of
             None \<Rightarrow> None
           | Some v \<Rightarrow>
               let buf' = (buf * 64) mod 2 ^ 32 + v; bits' = bits + 6 in
               if bits' \<ge> 8
               then map_option ((#) (char_of (buf' div 2 ^ (bits' - 8) mod 256)))
                      (b64_loop buf' (bits' - 8) cs)
               else b64_loop buf' bits' cs)"

definition sasl_decode_b64 :: "string \<Rightarrow> string option" where
  "sasl_decode_b64 s = b64_loop 0 0 s"

text \<open>What lies above the pending bits of the buffer never reaches the output.\<close>

lemma shift_low:
  fixes buf v :: nat
  assumes "bits \<le> 7"
  shows "(buf * 64 mod 2 ^ 32 + v) mod 2 ^ (bits + 6) = (buf mod 2 ^ bits * 64 + v) mod 2 ^ (bits + 6)"
proof -
  have "(2::nat) ^ (bits + 6) dvd 2 ^ 32" using assms by (intro le_imp_power_dvd) simp
  then have "(buf * 64 mod 2 ^ 32) mod 2 ^ (bits + 6) = buf * 64 mod (2 ^ bits * 64)"
    by (simp add: mod_mod_cancel power_add)
  also have "\<dots> = buf mod 2 ^ bits * 64"
    by (rule mod_mult_mult2)
  finally have eq: "(buf * 64 mod 2 ^ 32) mod 2 ^ (bits + 6) = buf mod 2 ^ bits * 64" .
  show ?thesis by (subst mod_add_left_eq [symmetric], subst eq) (rule refl)
qed

lemma byte_at: "x div 2 ^ k mod 256 = x mod 2 ^ (k + 8) div 2 ^ k" for x :: nat
proof -
  have "x mod (2 ^ k * 256) = 2 ^ k * (x div 2 ^ k mod 256) + x mod 2 ^ k"
    by (rule mod_mult2_eq)
  then show ?thesis by (simp add: power_add)
qed

lemma low_bits: "x mod 2 ^ k = x mod 2 ^ (k + 8) mod 2 ^ k" for x :: nat
  by (rule mod_mod_cancel [symmetric]) (rule le_imp_power_dvd, simp)

lemma b64_loop_low:
  "bits \<le> 7 \<Longrightarrow> buf mod 2 ^ bits = buf' mod 2 ^ bits \<Longrightarrow> b64_loop buf bits s = b64_loop buf' bits s"
proof (induction s arbitrary: buf buf' bits)
  case (Cons c cs)
  show ?case
  proof (cases "b64_val c")
    case None
    then show ?thesis using Cons.IH [OF Cons.prems] by simp
  next
    case (Some v)
    define b where "b = buf * 64 mod 2 ^ 32 + v"
    define b' where "b' = buf' * 64 mod 2 ^ 32 + v"
    have low: "b mod 2 ^ (bits + 6) = b' mod 2 ^ (bits + 6)"
      using Cons.prems by (simp only: shift_low b_def b'_def)
    show ?thesis
    proof (cases "8 \<le> bits + 6")
      case True
      define k where "k = bits + 6 - 8"
      have k: "bits + 6 = k + 8" "k \<le> 7" using True Cons.prems(1) by (auto simp: k_def)
      have out: "b div 2 ^ k mod 256 = b' div 2 ^ k mod 256"
        unfolding byte_at low [unfolded k(1)] by (rule refl)
      then have "char_of (b div 2 ^ k) = char_of (b' div 2 ^ k)"
        by (metis char_of_mod_256)
      note out = this
      have "b mod 2 ^ k = b' mod 2 ^ k"
        unfolding low_bits [of b k] low_bits [of b' k] low [unfolded k(1)] by (rule refl)
      from Cons.IH [OF k(2) this] Cons.IH [OF Cons.prems] show ?thesis
        unfolding b64_loop.simps Some Let_def option.case k(1) b_def [symmetric] b'_def [symmetric]
        by (simp add: out)
    next
      case False
      then have "bits + 6 \<le> 7" by simp
      from Cons.IH [OF this low] Cons.IH [OF Cons.prems] show ?thesis
        unfolding b64_loop.simps Some Let_def option.case b_def [symmetric] b'_def [symmetric]
        using False by simp
    qed
  qed
qed simp

lemma b64_loop_aligned: "b64_loop buf 0 s = b64_loop 0 0 s"
  by (rule b64_loop_low) simp_all

text \<open>Four digits give back the three bytes they were made of.\<close>

lemma b64_loop_digit:
  "v < 64 \<Longrightarrow> buf < 67108864 \<Longrightarrow> b64_loop buf bits (b64_char v # cs) =
     (if bits + 6 \<ge> 8
      then map_option ((#) (char_of ((buf * 64 + v) div 2 ^ (bits + 6 - 8))))
             (b64_loop (buf * 64 + v) (bits + 6 - 8) cs)
      else b64_loop (buf * 64 + v) (bits + 6) cs)"
  by (simp add: Let_def)

lemma b64_two:
  assumes "v0 < 64" "v1 < 64"
  shows "b64_loop 0 0 (b64_char v0 # b64_char v1 # cs) =
    map_option ((#) (char_of ((v0 * 64 + v1) div 16))) (b64_loop (v0 * 64 + v1) 4 cs)"
  using assms by (simp add: b64_loop_digit del: b64_loop.simps)

lemma b64_three:
  assumes "v0 < 64" "v1 < 64" "v2 < 64"
  defines "n1 \<equiv> v0 * 64 + v1" and "n2 \<equiv> (v0 * 64 + v1) * 64 + v2"
  shows "b64_loop 0 0 (b64_char v0 # b64_char v1 # b64_char v2 # cs) =
    map_option (\<lambda>r. char_of (n1 div 16) # char_of (n2 div 4) # r) (b64_loop n2 2 cs)"
proof -
  have "n1 < 67108864" using assms(1,2) by (simp add: n1_def)
  then show ?thesis
    unfolding b64_two [OF assms(1,2)] n1_def [symmetric] n2_def
    by (simp add: b64_loop_digit assms(3) option.map_comp comp_def del: b64_loop.simps)
qed

lemma b64_four:
  assumes "v0 < 64" "v1 < 64" "v2 < 64" "v3 < 64"
  defines "n1 \<equiv> v0 * 64 + v1" and "n2 \<equiv> (v0 * 64 + v1) * 64 + v2"
  defines "n3 \<equiv> n2 * 64 + v3"
  shows "b64_loop 0 0 (b64_char v0 # b64_char v1 # b64_char v2 # b64_char v3 # cs) =
    map_option (\<lambda>r. char_of (n1 div 16) # char_of (n2 div 4) # char_of n3 # r) (b64_loop 0 0 cs)"
proof -
  have "n2 < 67108864" using assms(1-3) by (simp add: n2_def)
  then have "b64_loop n2 2 (b64_char v3 # cs) = map_option ((#) (char_of n3)) (b64_loop 0 0 cs)"
    unfolding n3_def using b64_loop_aligned [of "n2 * 64 + v3" cs]
    by (simp add: b64_loop_digit assms(4) del: b64_loop.simps)
  then show ?thesis
    unfolding b64_three [OF assms(1-3)] n1_def n2_def [symmetric]
    by (simp add: option.map_comp comp_def del: b64_loop.simps)
qed

lemma digits_of:
  fixes n :: nat
  assumes "n < 16777216"
  shows "n div 262144 mod 64 * 64 + n div 4096 mod 64 = n div 4096"
    and "n div 4096 * 64 + n div 64 mod 64 = n div 64"
    and "n div 64 * 64 + n mod 64 = n"
proof -
  have d: "n div 4096 div 64 = n div 262144" "n div 64 div 64 = n div 4096"
    by (simp_all flip: div_mult2_eq)
  moreover have "n div 262144 mod 64 = n div 262144" using assms by simp
  ultimately show "n div 262144 mod 64 * 64 + n div 4096 mod 64 = n div 4096"
    by (metis div_mult_mod_eq)
  show "n div 4096 * 64 + n div 64 mod 64 = n div 64"
    using d by (metis div_mult_mod_eq)
  show "n div 64 * 64 + n mod 64 = n" by simp
qed

lemma of_char_256 [simp]: "(of_char c :: nat) < 256"
  by simp

lemma div_add_256: "k < 256 \<Longrightarrow> (256 * m + k) div 256 = m" for m k :: nat
  by simp

lemma char_of_add_256: "char_of (256 * m + k :: nat) = (char_of k :: char)"
  by (metis char_of_mod_256 mod_mult_self4)

lemma b64_loop_encode: "b64_loop 0 0 (b64_encode s) = Some s"
proof (induction s rule: b64_encode.induct)
  case (1 c0 c1 c2 rest)
  define n where "n = (of_char c0 * 65536 + of_char c1 * 256 + of_char c2 :: nat)"
  have n: "n < 16777216"
    using of_char_256 [of c0] of_char_256 [of c1] of_char_256 [of c2] unfolding n_def by linarith
  have "n = 65536 * of_char c0 + (256 * of_char c1 + of_char c2)" by (simp add: n_def)
  moreover have "256 * of_char c1 + of_char c2 < (65536 :: nat)"
    using of_char_256 [of c1] of_char_256 [of c2] by linarith
  ultimately have "n div 65536 = of_char c0" by simp
  then have d0: "char_of (n div 4096 div 16) = c0" by (simp flip: div_mult2_eq)
  have "n = 256 * (256 * of_char c0 + of_char c1) + of_char c2" by (simp add: n_def)
  then have "n div 256 = 256 * of_char c0 + of_char c1" "char_of n = c2"
    using div_add_256 [of "of_char c2" "256 * of_char c0 + of_char c1"]
      char_of_add_256 [of "256 * of_char c0 + of_char c1" "of_char c2"] of_char_256 [of c2]
    by (simp_all only: char_of_char)
  then have d1: "char_of (n div 64 div 4) = c1"
    using char_of_add_256 [of "of_char c0" "of_char c1"] by (simp flip: div_mult2_eq)
  have "b64_encode (c0 # c1 # c2 # rest) =
      b64_char (n div 262144 mod 64) # b64_char (n div 4096 mod 64) #
      b64_char (n div 64 mod 64) # b64_char (n mod 64) # b64_encode rest"
    by (simp only: b64_encode.simps Let_def n_def)
  then show ?case
    using b64_four [of "n div 262144 mod 64" "n div 4096 mod 64" "n div 64 mod 64" "n mod 64"
        "b64_encode rest"] 1 [OF n_def [unfolded n_def, symmetric]] d0 d1 \<open>char_of n = c2\<close>
    unfolding digits_of [OF n] by (simp del: b64_loop.simps b64_encode.simps)
next
  case (2 c0 c1)
  define n where "n = (of_char c0 * 65536 + of_char c1 * 256 :: nat)"
  have n: "n < 16777216"
    using of_char_256 [of c0] of_char_256 [of c1] unfolding n_def by linarith
  have "n = 65536 * of_char c0 + 256 * of_char c1" "256 * of_char c1 < (65536 :: nat)"
    using of_char_256 [of c1] by (simp_all add: n_def)
  then have "n div 65536 = of_char c0" by simp
  then have d0: "char_of (n div 4096 div 16) = c0" by (simp flip: div_mult2_eq)
  have "n = 256 * (256 * of_char c0 + of_char c1)" by (simp add: n_def)
  then have "n div 256 = 256 * of_char c0 + of_char c1" by simp
  then have d1: "char_of (n div 64 div 4) = c1"
    using char_of_add_256 [of "of_char c0" "of_char c1"] by (simp flip: div_mult2_eq)
  have "b64_encode [c0, c1] = [b64_char (n div 262144 mod 64), b64_char (n div 4096 mod 64),
      b64_char (n div 64 mod 64), CHR ''='']"
    by (simp only: b64_encode.simps Let_def n_def)
  moreover have "b64_loop b 2 [CHR ''=''] = Some []" for b by simp
  ultimately show ?case
    using b64_three [of "n div 262144 mod 64" "n div 4096 mod 64" "n div 64 mod 64" "[CHR ''='']"] d0 d1
    unfolding digits_of [OF n] by (simp del: b64_loop.simps b64_encode.simps)
next
  case (3 c0)
  define n where "n = (of_char c0 * 65536 :: nat)"
  have n: "n < 16777216"
    using of_char_256 [of c0] unfolding n_def by linarith
  have "n div 65536 = of_char c0" by (simp add: n_def)
  then have d0: "char_of (n div 4096 div 16) = c0" by (simp flip: div_mult2_eq)
  have "b64_encode [c0] = [b64_char (n div 262144 mod 64), b64_char (n div 4096 mod 64),
      CHR ''='', CHR ''='']"
    by (simp only: b64_encode.simps Let_def n_def)
  moreover have "b64_loop b 4 [CHR ''='', CHR ''=''] = Some []" for b by simp
  ultimately show ?case
    using b64_two [of "n div 262144 mod 64" "n div 4096 mod 64" "[CHR ''='', CHR ''='']"] d0
    unfolding digits_of [OF n] by (simp del: b64_loop.simps b64_encode.simps)
qed simp

text \<open>Line breaks are skipped.\<close>

lemma b64_loop_skip: "b64_loop buf bits (filter (\<lambda>c. c \<noteq> CHR 0x0D \<and> c \<noteq> CHR 0x0A) s) = b64_loop buf bits s"
proof (induction s arbitrary: buf bits)
  case (Cons c s)
  show ?case
  proof (cases "c = CHR 0x0D \<or> c = CHR 0x0A")
    case True
    then show ?thesis using Cons by auto
  next
    case False
    then show ?thesis using Cons by (simp add: Let_def split: option.split)
  qed
qed simp

lemma filter_wrap76:
  "filter (\<lambda>c. c \<noteq> CHR 0x0D \<and> c \<noteq> CHR 0x0A) (wrap76 s) =
   filter (\<lambda>c. c \<noteq> CHR 0x0D \<and> c \<noteq> CHR 0x0A) s"
proof (induction s rule: wrap76.induct)
  case (1 s)
  have "filter P s = filter P (take 76 s) @ filter P (drop 76 s)" for P
    by (metis append_take_drop_id filter_append)
  then show ?case using 1 by (subst wrap76.simps) simp
qed

lemma base64_roundtrip_bytes: "sasl_decode_b64 (base64_wrapped s) = Some s"
  unfolding sasl_decode_b64_def base64_wrapped_def
  by (subst b64_loop_skip [symmetric]) (simp only: filter_wrap76 b64_loop_skip b64_loop_encode)

text \<open>
  What the server writes as base64 it reads back: decoding the wrapped encoding of any byte
  string, with its line breaks and padding, gives the byte string.
\<close>

theorem base64_roundtrip: "sasl_decode_b64 (base64_wrapped s) = Some s"
  by (rule base64_roundtrip_bytes)

subsection \<open>SASL responses\<close>

definition first_field :: "(string \<Rightarrow> string option) \<Rightarrow> string list \<Rightarrow> string option" where
  "first_field g fields = (case List.map_filter g fields of [] \<Rightarrow> None | x # _ \<Rightarrow> Some x)"

text \<open>A non-empty value after trimming.\<close>

definition non_empty :: "string \<Rightarrow> string option" where
  "non_empty s = (if s = [] then None else Some s)"

definition sasl_extract_bearer :: "string \<Rightarrow> string option" where
  "sasl_extract_bearer decoded =
     (if \<not> utf8_valid decoded then None
      else first_field
        (\<lambda>field. case (case strip_prefix ''auth=Bearer '' field of
                         Some r \<Rightarrow> Some r | None \<Rightarrow> strip_prefix ''auth=bearer '' field) of
                   Some rest \<Rightarrow> non_empty (trim rest)
                 | None \<Rightarrow> None)
        (split_on CHR 0x01 decoded))"

text \<open>One field of an XOAUTH2 or OAUTHBEARER response: \<open>user=\<close>, then the GS2 header \<open>n,a=\<close>.\<close>

definition oauth_user :: "string \<Rightarrow> string option" where
  "oauth_user field =
     (case Option.bind (strip_prefix ''user='' field) (\<lambda>rest. non_empty (trim rest)) of
        Some user \<Rightarrow> Some user
      | None \<Rightarrow>
          (case strip_prefix ''n,a='' field of
             None \<Rightarrow> None
           | Some rest \<Rightarrow>
               (case split_once CHR '','' rest of
                  Some (user, _) \<Rightarrow> non_empty user
                | None \<Rightarrow> None)))"

definition sasl_extract_username :: "string \<Rightarrow> string \<Rightarrow> string option" where
  "sasl_extract_username mech decoded =
     (if \<not> utf8_valid decoded then None
      else if mech = ''PLAIN'' then
        (let parts = split_on CHR 0x00 decoded in
         if length parts \<ge> 3 then
           (if utf8_valid (parts ! 1) then non_empty (parts ! 1) else None)
         else None)
      else if mech = ''XOAUTH2'' \<or> mech = ''OAUTHBEARER'' then
        first_field oauth_user (split_on CHR 0x01 decoded)
      else if mech = ''LOGIN'' then non_empty (trim decoded)
      else None)"

definition sasl_extract_password :: "string \<Rightarrow> string \<Rightarrow> string option" where
  "sasl_extract_password mech decoded =
     (if mech \<noteq> ''PLAIN'' then None
      else let parts = split_on CHR 0x00 decoded in
           if length parts \<ge> 3 then (if utf8_valid (parts ! 2) then Some (parts ! 2) else None)
           else None)"

text \<open>A PLAIN response as a client sends it.\<close>

definition sasl_plain :: "string \<Rightarrow> string \<Rightarrow> string \<Rightarrow> string" where
  "sasl_plain authz user pass = authz @ CHR 0x00 # user @ CHR 0x00 # pass"

lemma split_plain:
  "CHR 0x00 \<notin> set authz \<Longrightarrow> CHR 0x00 \<notin> set user \<Longrightarrow> CHR 0x00 \<notin> set pass \<Longrightarrow>
     split_on CHR 0x00 (sasl_plain authz user pass) = [authz, user, pass]"
  by (simp add: sasl_plain_def split_on_append split_on_no_sep)

text \<open>
  A PLAIN response reads back. For ASCII credentials without NUL bytes, decoding the base64
  of \<open>authzid NUL user NUL password\<close> and extracting gives exactly the user name (none if it is
  empty) and exactly the password, so the rejection sentinel is recognised exactly when it is the
  password that was sent.
\<close>

theorem sasl_plain_extract:
  assumes "\<forall>c \<in> set (authz @ user @ pass). 0 < (of_char c :: nat) \<and> (of_char c :: nat) < 128"
  shows "\<exists>d. sasl_decode_b64 (base64_wrapped (sasl_plain authz user pass)) = Some d \<and>
    sasl_extract_username ''PLAIN'' d = (if user = [] then None else Some user) \<and>
    sasl_extract_password ''PLAIN'' d = Some pass"
proof -
  have zero: "(of_char (CHR 0x00) :: nat) = 0" by simp
  have "CHR 0x00 \<notin> set (authz @ user @ pass)"
    using assms zero by (metis less_irrefl)
  then have no_nul: "CHR 0x00 \<notin> set authz" "CHR 0x00 \<notin> set user" "CHR 0x00 \<notin> set pass"
    by simp_all
  have "utf8_valid (sasl_plain authz user pass)" "utf8_valid user" "utf8_valid pass"
    by (rule utf8_valid_ascii, use assms in \<open>auto simp: sasl_plain_def\<close>)+
  then show ?thesis
    by (simp add: base64_roundtrip_bytes sasl_extract_username_def sasl_extract_password_def
        split_plain [OF no_nul] non_empty_def Let_def)
qed

theorem sasl_plain_extract_witness:
  "\<exists>d. sasl_decode_b64 (base64_wrapped (sasl_plain [] ''alice@x.test'' ''secret'')) = Some d \<and>
    sasl_extract_username ''PLAIN'' d = Some ''alice@x.test'' \<and>
    sasl_extract_password ''PLAIN'' d = Some ''secret''"
  using sasl_plain_extract [of "[]" "''alice@x.test''" "''secret''"] by simp

end
