(* ===== verification/Imap_Render.thy ===== *)
theory Imap_Render
  imports Imap_Mailbox Sasl_Base64
begin

text \<open>
  The rendering half of \<open>src/imap.rs\<close>: the RFC 822 text of an email (structured or raw), its MIME
  parts, ENVELOPE, BODYSTRUCTURE and the FETCH response line. What the code takes from outside is
  bundled in \<open>render_env\<close>: \<open>strftime\<close> (the \<open>jiff\<close> crate) and Unicode upper-casing
  (\<open>str::to_uppercase\<close>, used on media types only). The results are byte strings; a literal's octet
  count is the length of the byte string.
\<close>

record render_env =
  strftime :: "string \<Rightarrow> timestamp \<Rightarrow> string"
  unicode_upper :: "string \<Rightarrow> string"

definition rfc2822 :: "render_env \<Rightarrow> timestamp \<Rightarrow> string" where
  "rfc2822 ev ts = strftime ev ''%a, %d %b %Y %H:%M:%S +0000'' ts"

subsection \<open>Headers and text\<close>

definition push_header :: "string \<Rightarrow> string \<Rightarrow> string \<Rightarrow> string" where
  "push_header out name v = out @ name @ '': '' @ v @ crlf"

definition format_address :: "address \<Rightarrow> string" where
  "format_address a =
     (case ad_name a of
        Some name \<Rightarrow> name @ '' <'' @ ad_email a @ ''>''
      | None \<Rightarrow> ''<'' @ ad_email a @ ''>'')"

definition format_address_list :: "address list \<Rightarrow> string" where
  "format_address_list xs = join '', '' (map format_address xs)"

fun normalize_from :: "char \<Rightarrow> string \<Rightarrow> string" where
  "normalize_from prev [] = []"
| "normalize_from prev (c # s) =
     (if c = CHR 0x0A \<and> prev \<noteq> CHR 0x0D then [CHR 0x0D] else []) @ c # normalize_from c s"

definition normalize_crlf :: "string \<Rightarrow> string" where
  "normalize_crlf s = normalize_from (CHR 0x00) s"

definition split_raw :: "string \<Rightarrow> string \<times> string" where
  "split_raw raw =
     (case find_sub (crlf @ crlf) raw of
        Some i \<Rightarrow> (take (i + 2) raw, drop (i + 4) raw)
      | None \<Rightarrow> (raw, []))"

definition multipart_boundary :: "email \<Rightarrow> string" where
  "multipart_boundary e = ''=_saehrimnir_'' @ em_id e @ ''_=''"

definition body_text :: "email \<Rightarrow> string" where
  "body_text e = (case em_body e of Text t \<Rightarrow> normalize_crlf t)"

definition render_rfc822_headers :: "render_env \<Rightarrow> email \<Rightarrow> string" where
  "render_rfc822_headers ev e =
     (case raw_bytes e of
        Some raw \<Rightarrow> fst (split_raw raw)
      | None \<Rightarrow>
          let out = [];
              out = (case em_from e of
                  Some from \<Rightarrow> push_header out ''From'' (format_address from) | None \<Rightarrow> out);
              out = (if em_to e \<noteq> [] then push_header out ''To'' (format_address_list (em_to e)) else out);
              out = (if em_cc e \<noteq> [] then push_header out ''Cc'' (format_address_list (em_cc e)) else out);
              out = (if em_bcc e \<noteq> [] then push_header out ''Bcc'' (format_address_list (em_bcc e)) else out);
              out = (if reply_to e \<noteq> []
                  then push_header out ''Reply-To'' (format_address_list (reply_to e)) else out);
              out = push_header out ''Date'' (rfc2822 ev (sent_at e));
              out = (case em_subject e of
                  Some subject \<Rightarrow> push_header out ''Subject'' subject | None \<Rightarrow> out);
              out = (if message_id e \<noteq> []
                  then push_header out ''Message-ID'' (join '' '' (message_id e)) else out);
              out = (if in_reply_to e \<noteq> []
                  then push_header out ''In-Reply-To'' (join '' '' (in_reply_to e)) else out);
              out = (if em_references e \<noteq> []
                  then push_header out ''References'' (join '' '' (em_references e)) else out);
              out = push_header out ''MIME-Version'' ''1.0''
          in if attachments e = []
             then push_header (push_header out ''Content-Type'' ''text/plain; charset=utf-8'')
                    ''Content-Transfer-Encoding'' ''8bit''
             else push_header out ''Content-Type''
                    (''multipart/mixed; boundary='' @ dquote @ multipart_boundary e @ dquote))"

definition part_mime_text :: string where
  "part_mime_text =
     push_header (push_header [] ''Content-Type'' ''text/plain; charset=utf-8'')
       ''Content-Transfer-Encoding'' ''8bit'' @ crlf"

definition part_mime_attachment :: "attachment \<Rightarrow> string" where
  "part_mime_attachment a =
     (let out = push_header [] ''Content-Type''
            (at_content_type a @ ''; name='' @ dquote @ at_name a @ dquote);
          out = push_header out ''Content-Disposition''
            (disposition_as_str (at_disposition a) @ ''; filename='' @ dquote @ at_name a @ dquote);
          out = push_header out ''Content-Transfer-Encoding'' ''base64'';
          out = (case at_cid a of
            Some cid \<Rightarrow> push_header out ''Content-ID'' (''<'' @ cid @ ''>'') | None \<Rightarrow> out)
      in out @ crlf)"

definition render_multipart_body :: "email \<Rightarrow> string" where
  "render_multipart_body e =
     (let boundary = multipart_boundary e;
          out = ''--'' @ boundary @ crlf @ part_mime_text @ body_text e @ crlf;
          out = fold (\<lambda>a out. out @ ''--'' @ boundary @ crlf @ part_mime_attachment a @
                       base64_wrapped (at_data a) @ crlf) (attachments e) out
      in out @ ''--'' @ boundary @ ''--'' @ crlf)"

definition render_rfc822_text_body :: "email \<Rightarrow> string" where
  "render_rfc822_text_body e =
     (case raw_bytes e of
        Some raw \<Rightarrow> snd (split_raw raw)
      | None \<Rightarrow> if attachments e = [] then body_text e else render_multipart_body e)"

record rendered =
  rd_headers :: string
  rd_text :: string
  rd_full :: string

definition rendered_for_email :: "render_env \<Rightarrow> email \<Rightarrow> rendered" where
  "rendered_for_email ev e =
     (case raw_bytes e of
        Some raw \<Rightarrow>
          let (h, t) = split_raw raw in \<lparr>rd_headers = h, rd_text = t, rd_full = raw\<rparr>
      | None \<Rightarrow>
          let headers = render_rfc822_headers ev e; text = render_rfc822_text_body e
          in \<lparr>rd_headers = headers, rd_text = text, rd_full = headers @ crlf @ text\<rparr>)"

definition assembled_rfc822 :: "render_env \<Rightarrow> email \<Rightarrow> string" where
  "assembled_rfc822 ev e = rd_full (rendered_for_email ev e)"

subsection \<open>Parts\<close>

definition render_part_n :: "email \<Rightarrow> nat \<Rightarrow> string option" where
  "render_part_n e n =
     (if n = 0 then None
      else case raw_bytes e of
        Some raw \<Rightarrow> if n = 1 then Some (snd (split_raw raw)) else None
      | None \<Rightarrow>
          if n = 1 then Some (body_text e)
          else if n - 2 < length (attachments e)
          then Some (base64_wrapped (at_data (attachments e ! (n - 2)))) else None)"

definition render_part_n_mime :: "email \<Rightarrow> nat \<Rightarrow> string option" where
  "render_part_n_mime e n =
     (if n = 0 then None
      else case raw_bytes e of
        Some raw \<Rightarrow> if n = 1 then Some (fst (split_raw raw)) else None
      | None \<Rightarrow>
          if attachments e = [] then (if n = 1 then Some part_mime_text else None)
          else if n = 1 then Some part_mime_text
          else if n - 2 < length (attachments e)
          then Some (part_mime_attachment (attachments e ! (n - 2))) else None)"

subsection \<open>ENVELOPE\<close>

fun escape_char :: "char \<Rightarrow> string" where
  "escape_char c =
     (if c = CHR 0x5C then [CHR 0x5C, CHR 0x5C]
      else if c = CHR 0x22 then [CHR 0x5C, CHR 0x22] else [c])"

text \<open>The two successive \<open>replace\<close> calls (first backslashes, then quotes) in one pass.\<close>

definition imap_nstring :: "string option \<Rightarrow> string" where
  "imap_nstring s =
     (case s of None \<Rightarrow> ''NIL'' | Some s \<Rightarrow> dquote @ concat (map escape_char s) @ dquote)"

definition imap_nstring_join :: "string list \<Rightarrow> string" where
  "imap_nstring_join parts = (if parts = [] then ''NIL'' else imap_nstring (Some (join '' '' parts)))"

definition imap_addr :: "address \<Rightarrow> string" where
  "imap_addr a =
     (let name = imap_nstring (ad_name a);
          (mailbox, host) = (case rsplit_once CHR ''@'' (ad_email a) of
            Some (m, h) \<Rightarrow> (imap_nstring (Some m), imap_nstring (Some h))
          | None \<Rightarrow> (imap_nstring (Some (ad_email a)), ''NIL''))
      in ''('' @ name @ '' NIL '' @ mailbox @ '' '' @ host @ '')'')"

definition imap_addr_list :: "address list \<Rightarrow> string" where
  "imap_addr_list addrs =
     (if addrs = [] then ''NIL'' else ''('' @ concat (map imap_addr addrs) @ '')'')"

definition render_envelope :: "render_env \<Rightarrow> email \<Rightarrow> string" where
  "render_envelope ev e =
     (let date = imap_nstring (Some (rfc2822 ev (sent_at e)));
          subject = imap_nstring (em_subject e);
          from = imap_addr_list (case em_from e of Some a \<Rightarrow> [a] | None \<Rightarrow> []);
          sender = from;
          reply = (if reply_to e = [] then from else imap_addr_list (reply_to e));
          to = imap_addr_list (em_to e);
          cc = imap_addr_list (em_cc e);
          bcc = imap_addr_list (em_bcc e);
          irt = imap_nstring_join (in_reply_to e);
          mid = imap_nstring_join (message_id e)
      in ''('' @ join '' '' [date, subject, from, sender, reply, to, cc, bcc, irt, mid] @ '')'')"

subsection \<open>BODYSTRUCTURE\<close>

text \<open>\<open>s.matches("\r\n").count()\<close>\<close>

fun count_crlf :: "string \<Rightarrow> nat" where
  "count_crlf (a # b # s) =
     (if a = CHR 0x0D \<and> b = CHR 0x0A then Suc (count_crlf s) else count_crlf (b # s))"
| "count_crlf _ = 0"

definition format_params :: "render_env \<Rightarrow> (string \<times> string) list \<Rightarrow> string" where
  "format_params ev params =
     (if params = [] then ''NIL''
      else ''('' @ join '' '' (map (\<lambda>(k, v). dquote @ unicode_upper ev k @ dquote @ '' '' @ dquote @ v @ dquote)
             params) @ '')'')"

definition split_media_type :: "string \<Rightarrow> string \<times> string" where
  "split_media_type ct =
     (let main = trim (hd (split_on CHR '';'' ct)) in
      case split_once CHR ''/'' main of Some (t, s) \<Rightarrow> (t, s) | None \<Rightarrow> (main, ''PLAIN''))"

definition body_structure_text_leaf ::
    "render_env \<Rightarrow> string \<Rightarrow> string \<Rightarrow> (string \<times> string) list \<Rightarrow> string" where
  "body_structure_text_leaf ev bd encoding params =
     (let octets = length bd;
          lines = count_crlf bd +
            (if bd \<noteq> [] \<and> strip_suffix crlf bd = None then 1 else 0)
      in ''('' @ dquote @ ''TEXT'' @ dquote @ '' '' @ dquote @ ''PLAIN'' @ dquote @ '' '' @
         format_params ev params @ '' NIL NIL '' @ dquote @ encoding @ dquote @ '' '' @
         show_nat octets @ '' '' @ show_nat lines @ '')'')"

definition body_structure_attachment_leaf :: "render_env \<Rightarrow> attachment \<Rightarrow> string" where
  "body_structure_attachment_leaf ev a =
     (let (typ, sub) = split_media_type (at_content_type a);
          encoded = base64_wrapped (at_data a);
          octets = length encoded;
          params = [(''NAME'', at_name a)];
          start = ''('' @ dquote @ unicode_upper ev typ @ dquote @ '' '' @
            dquote @ unicode_upper ev sub @ dquote @ '' '' @ format_params ev params @
            '' NIL NIL '' @ dquote @ ''BASE64'' @ dquote @ '' '' @ show_nat octets
      in if eq_ci typ ''text'' then start @ '' '' @ show_nat (count_crlf encoded) @ '')''
         else start @ '')'')"

definition render_bodystructure :: "render_env \<Rightarrow> email \<Rightarrow> string" where
  "render_bodystructure ev e =
     (case raw_bytes e of
        Some raw \<Rightarrow> body_structure_text_leaf ev raw ''8BIT'' [(''CHARSET'', ''utf-8'')]
      | None \<Rightarrow>
          let bd = body_text e;
              leaf = body_structure_text_leaf ev bd ''8BIT'' [(''CHARSET'', ''utf-8'')]
          in if attachments e = [] then leaf
             else ''('' @ leaf @ concat (map (body_structure_attachment_leaf ev) (attachments e)) @
                  '' '' @ dquote @ ''MIXED'' @ dquote @ '' ('' @ dquote @ ''BOUNDARY'' @ dquote @ '' '' @
                  dquote @ multipart_boundary e @ dquote @ '') NIL NIL NIL)'')"

subsection \<open>The FETCH response line\<close>

definition literal :: "string \<Rightarrow> string \<Rightarrow> string" where
  "literal name bytes = name @ '' {'' @ show_nat (length bytes) @ ''}'' @ crlf @ bytes"

fun fetch_item :: "render_env \<Rightarrow> nat \<Rightarrow> nat \<Rightarrow> email \<Rightarrow> fetch_attr \<Rightarrow> string" where
  "fetch_item ev uid modseq e FaUid = ''UID '' @ show_nat uid"
| "fetch_item ev uid modseq e FaFlags = ''FLAGS ('' @ flags_for e @ '')''"
| "fetch_item ev uid modseq e FaInternalDate =
     ''INTERNALDATE '' @ dquote @ strftime ev ''%d-%b-%Y %H:%M:%S %z'' (received_at e) @ dquote"
| "fetch_item ev uid modseq e FaRfc822Size =
     ''RFC822.SIZE '' @ show_nat (length (rd_full (rendered_for_email ev e)))"
| "fetch_item ev uid modseq e FaEnvelope = ''ENVELOPE '' @ render_envelope ev e"
| "fetch_item ev uid modseq e FaModSeq = ''MODSEQ ('' @ show_nat modseq @ '')''"
| "fetch_item ev uid modseq e FaBodyFull = literal ''BODY[]'' (rd_full (rendered_for_email ev e))"
| "fetch_item ev uid modseq e FaBodyHeader =
     literal ''BODY[HEADER]'' (rd_headers (rendered_for_email ev e))"
| "fetch_item ev uid modseq e FaBodyText =
     literal ''BODY[TEXT]'' (rd_text (rendered_for_email ev e))"
| "fetch_item ev uid modseq e FaBodyStructure = ''BODYSTRUCTURE '' @ render_bodystructure ev e"
| "fetch_item ev uid modseq e (FaBodyPart n) =
     (case render_part_n e n of
        Some bytes \<Rightarrow> literal (''BODY['' @ show_nat n @ '']'') bytes
      | None \<Rightarrow> ''BODY['' @ show_nat n @ ''] NIL'')"
| "fetch_item ev uid modseq e (FaBodyPartMime n) =
     (case render_part_n_mime e n of
        Some bytes \<Rightarrow> literal (''BODY['' @ show_nat n @ ''.MIME]'') bytes
      | None \<Rightarrow> ''BODY['' @ show_nat n @ ''.MIME] NIL'')"

definition fetch_response_line ::
    "render_env \<Rightarrow> nat \<Rightarrow> nat \<Rightarrow> nat \<Rightarrow> email \<Rightarrow> fetch_attr list \<Rightarrow> string" where
  "fetch_response_line ev sq uid modseq e attrs =
     ''* '' @ show_nat sq @ '' FETCH ('' @ join '' '' (map (fetch_item ev uid modseq e) attrs) @ '')'' @ crlf"

subsection \<open>Splitting a message\<close>

text \<open>The header fields of a structured email, in the order they are written.\<close>

definition header_fields :: "render_env \<Rightarrow> email \<Rightarrow> (string \<times> string) list" where
  "header_fields ev e =
     (case em_from e of Some a \<Rightarrow> [(''From'', format_address a)] | None \<Rightarrow> []) @
     (if em_to e \<noteq> [] then [(''To'', format_address_list (em_to e))] else []) @
     (if em_cc e \<noteq> [] then [(''Cc'', format_address_list (em_cc e))] else []) @
     (if em_bcc e \<noteq> [] then [(''Bcc'', format_address_list (em_bcc e))] else []) @
     (if reply_to e \<noteq> [] then [(''Reply-To'', format_address_list (reply_to e))] else []) @
     [(''Date'', rfc2822 ev (sent_at e))] @
     (case em_subject e of Some s \<Rightarrow> [(''Subject'', s)] | None \<Rightarrow> []) @
     (if message_id e \<noteq> [] then [(''Message-ID'', join '' '' (message_id e))] else []) @
     (if in_reply_to e \<noteq> [] then [(''In-Reply-To'', join '' '' (in_reply_to e))] else []) @
     (if em_references e \<noteq> [] then [(''References'', join '' '' (em_references e))] else []) @
     [(''MIME-Version'', ''1.0'')] @
     (if attachments e = []
      then [(''Content-Type'', ''text/plain; charset=utf-8''), (''Content-Transfer-Encoding'', ''8bit'')]
      else [(''Content-Type'', ''multipart/mixed; boundary='' @ dquote @ multipart_boundary e @ dquote)])"

definition header_line :: "string \<times> string \<Rightarrow> string" where
  "header_line h = fst h @ '': '' @ snd h"

definition header_lines :: "(string \<times> string) list \<Rightarrow> string" where
  "header_lines hs = concat (map (\<lambda>h. header_line h @ crlf) hs)"

lemma header_lines_append: "header_lines (hs @ ks) = header_lines hs @ header_lines ks"
  by (simp add: header_lines_def)

lemma push_header_steps:
  "push_header out n v = out @ header_lines [(n, v)]"
  "(if b then push_header out n v else out) = out @ header_lines (if b then [(n, v)] else [])"
  "(case x of Some a \<Rightarrow> push_header out n (g a) | None \<Rightarrow> out) =
     out @ header_lines (case x of Some a \<Rightarrow> [(n, g a)] | None \<Rightarrow> [])"
  by (auto simp: push_header_def header_lines_def header_line_def split: option.split)

lemma headers_are_fields:
  assumes "raw_bytes e = None"
  shows "render_rfc822_headers ev e = header_lines (header_fields ev e)"
proof -
  have two: "header_lines [h, k] = header_lines [h] @ header_lines [k]" for h k
    by (simp add: header_lines_def)
  show ?thesis
    unfolding render_rfc822_headers_def header_fields_def assms option.case Let_def
      push_header_steps(2,3)
    unfolding push_header_steps(1) header_lines_append append_assoc append_Nil
    by (cases "attachments e = []") (simp_all only: simp_thms if_True if_False append_assoc two)
qed

definition header_safe :: "render_env \<Rightarrow> email \<Rightarrow> bool" where
  "header_safe ev e \<longleftrightarrow> (\<forall>h \<in> set (header_fields ev e). CHR 0x0A \<notin> set (snd h))"

lemma header_fields_names:
  assumes "h \<in> set (header_fields ev e)"
  shows "fst h \<noteq> [] \<and> hd (fst h) \<noteq> CHR 0x0D \<and> CHR 0x0A \<notin> set (fst h)"
proof -
  let ?names = "{''From'', ''To'', ''Cc'', ''Bcc'', ''Reply-To'', ''Date'', ''Subject'', ''Message-ID'',
    ''In-Reply-To'', ''References'', ''MIME-Version'', ''Content-Type'', ''Content-Transfer-Encoding''}"
  have "fst ` set (header_fields ev e) \<subseteq> ?names"
    unfolding header_fields_def set_append image_Un Un_subset_iff
    by (intro conjI; cases "em_from e"; cases "em_subject e"; auto)
  then have "fst h \<in> ?names"
    using assms by blast
  then show ?thesis by auto
qed

lemma header_fields_not_Nil: "header_fields ev e \<noteq> []"
  by (simp add: header_fields_def)

lemma find_blank_line_step:
  assumes "CHR 0x0A \<notin> set w"
  shows "find_sub (crlf @ crlf) (w @ crlf @ rest) =
    (if prefix crlf rest then Some (length w)
     else map_option (\<lambda>i. length w + 2 + i) (find_sub (crlf @ crlf) rest))"
  using assms
proof (induction w)
  case Nil
  show ?case
    by (cases "find_sub (crlf @ crlf) rest") (auto simp: option.map_comp o_def)
next
  case (Cons c w)
  have "\<not> prefix (crlf @ crlf) (c # w @ crlf @ rest)"
    using Cons.prems by (cases w) auto
  then have "find_sub (crlf @ crlf) ((c # w) @ crlf @ rest) =
      map_option Suc (find_sub (crlf @ crlf) (w @ crlf @ rest))"
    by (simp only: append_Cons find_sub.simps if_False)
  also have "find_sub (crlf @ crlf) (w @ crlf @ rest) =
      (if prefix crlf rest then Some (length w)
       else map_option (\<lambda>i. length w + 2 + i) (find_sub (crlf @ crlf) rest))"
    using Cons by simp
  finally show ?case
    by (simp add: option.map_comp o_def)
qed

lemma find_blank_line:
  assumes "ls \<noteq> []" and "\<forall>w \<in> set ls. w \<noteq> [] \<and> hd w \<noteq> CHR 0x0D \<and> CHR 0x0A \<notin> set w"
  shows "\<exists>i. find_sub (crlf @ crlf) (concat (map (\<lambda>w. w @ crlf) ls) @ crlf @ rest) = Some i \<and>
    i + 2 = length (concat (map (\<lambda>w. w @ crlf) ls))"
  using assms
proof (induction ls rule: induct_list012)
  case (2 w)
  then show ?case
    using find_blank_line_step [of w "crlf @ rest"] by simp
next
  case (3 w v ls)
  let ?rest = "concat (map (\<lambda>w. w @ crlf) (v # ls)) @ crlf @ rest"
  have "\<not> prefix crlf ?rest"
    using "3.prems" by (cases v) auto
  moreover obtain i where "find_sub (crlf @ crlf) ?rest = Some i"
    and "i + 2 = length (concat (map (\<lambda>w. w @ crlf) (v # ls)))"
    using "3.IH"(2) "3.prems" by fastforce
  ultimately show ?case
    using "3.prems" find_blank_line_step [of w ?rest] by auto
qed simp

lemma split_raw_lines:
  assumes "ls \<noteq> []" and "\<forall>w \<in> set ls. w \<noteq> [] \<and> hd w \<noteq> CHR 0x0D \<and> CHR 0x0A \<notin> set w"
  shows "split_raw (concat (map (\<lambda>w. w @ crlf) ls) @ crlf @ rest) =
    (concat (map (\<lambda>w. w @ crlf) ls), rest)"
proof -
  obtain i where i: "find_sub (crlf @ crlf) (concat (map (\<lambda>w. w @ crlf) ls) @ crlf @ rest) = Some i"
    "i + 2 = length (concat (map (\<lambda>w. w @ crlf) ls))"
    using find_blank_line [OF assms] by blast
  have "i + 4 = length (concat (map (\<lambda>w. w @ crlf) ls) @ crlf)"
    using i(2) by simp
  then show ?thesis
    unfolding split_raw_def i(1) option.case i(2)
    by (metis append_assoc append_eq_conv_conj)
qed

text \<open>
  Freezing an email keeps its wire form. For a structured email whose header values hold no
  line feed, storing the assembled message (\<open>BODY[]\<close>) as raw bytes changes none of
  \<open>RFC822.SIZE\<close>, \<open>BODY[]\<close>, \<open>BODY[HEADER]\<close> and \<open>BODY[TEXT]\<close>: cutting the message at the first blank
  line gives back exactly the headers and the text it was assembled from.
\<close>

theorem frozen_email_same_wire:
  assumes "raw_bytes e = None" and "header_safe ev e"
  shows "rendered_for_email ev (e\<lparr>raw_bytes := Some (assembled_rfc822 ev e)\<rparr>) = rendered_for_email ev e"
proof -
  let ?ls = "map header_line (header_fields ev e)"
  have safe: "\<forall>w \<in> set ?ls. w \<noteq> [] \<and> hd w \<noteq> CHR 0x0D \<and> CHR 0x0A \<notin> set w"
    using assms(2) header_fields_names by (fastforce simp: header_line_def header_safe_def hd_append)
  have "render_rfc822_headers ev e = concat (map (\<lambda>w. w @ crlf) ?ls)"
    using assms(1) by (simp add: headers_are_fields header_lines_def o_def)
  then have "split_raw (assembled_rfc822 ev e) = (render_rfc822_headers ev e, render_rfc822_text_body e)"
    using split_raw_lines [OF _ safe] header_fields_not_Nil assms(1)
    by (simp add: assembled_rfc822_def rendered_for_email_def Let_def)
  then show ?thesis
    using assms(1) by (simp add: rendered_for_email_def assembled_rfc822_def Let_def)
qed

text \<open>A structured email with an attachment, for the witnesses.\<close>

definition sample_email :: email where
  "sample_email =
     \<lparr>em_id = ''e1'', em_account_id = ''a'', em_thread_id = ''t1'', mailbox_ids = [''mb''], em_keywords = [],
      em_size = 0, received_at = 0, sent_at = 0,
      em_from = Some \<lparr>ad_name = Some ''Alice'', ad_email = ''alice@example.com''\<rparr>,
      em_to = [\<lparr>ad_name = None, ad_email = ''bob@example.com''\<rparr>], em_cc = [], em_bcc = [], reply_to = [],
      em_subject = Some ''Hello'', em_preview = None, message_id = [''<e1@x>''], in_reply_to = [],
      em_references = [], has_attachment = True, em_body = Text ''hi'',
      attachments = [\<lparr>at_blob_id = ''b1'', at_name = ''a.bin'', at_content_type = ''application/pdf'',
        at_size = 3, at_disposition = Attach, at_cid = None, at_data = ''abc''\<rparr>],
      raw_bytes = None, reaction_type = None, reaction_count = None\<rparr>"

definition sample_env :: render_env where
  "sample_env = \<lparr>strftime = (\<lambda>f ts. ''Thu, 15 Jan 2026 10:00:00 +0000''), unicode_upper = to_upper\<rparr>"

theorem frozen_email_same_wire_witness:
  "rendered_for_email sample_env
     (sample_email\<lparr>raw_bytes := Some (assembled_rfc822 sample_env sample_email)\<rparr>) =
   rendered_for_email sample_env sample_email"
  by (rule frozen_email_same_wire)
     (simp_all add: header_safe_def header_fields_def sample_email_def sample_env_def
       format_address_def format_address_list_def rfc2822_def multipart_boundary_def)

subsection \<open>The parts of a multipart message\<close>

lemma map_upt_shift2:
  "(\<And>i. i < length xs \<Longrightarrow> f (i + 2) = g (xs ! i)) \<Longrightarrow> map f [2..<length xs + 2] = map g xs"
  by (rule nth_equalityI) (simp_all del: upt_Suc add_2_eq_Suc add_2_eq_Suc' add: add.commute)

lemma fold_append_each: "fold (\<lambda>a out. out @ h a) as out = out @ concat (map h as)"
  by (induction as arbitrary: out) auto

lemma attachment_part:
  assumes "raw_bytes e = None" and "i < length (attachments e)"
  shows "render_part_n e (i + 2) = Some (base64_wrapped (at_data (attachments e ! i)))"
    and "render_part_n_mime e (i + 2) = Some (part_mime_attachment (attachments e ! i))"
  using assms by (auto simp: render_part_n_def render_part_n_mime_def)

lemma first_part:
  assumes "raw_bytes e = None"
  shows "render_part_n e (Suc 0) = Some (body_text e)"
    and "render_part_n_mime e (Suc 0) = Some part_mime_text"
  using assms by (simp_all add: render_part_n_def render_part_n_mime_def)

text \<open>
  The part fetches cut the message where its boundaries are. For an email with attachments,
  \<open>BODY[TEXT]\<close> is the sequence of its parts, each behind its own delimiter line and each being
  \<open>BODY[n.MIME]\<close> followed by \<open>BODY[n]\<close> for \<open>n = 1, ..., k + 1\<close>, and the closing delimiter; part
  numbers outside this range answer NIL for both fetches.
\<close>

theorem multipart_body_is_its_parts:
  assumes "raw_bytes e = None" and "attachments e \<noteq> []"
  shows "render_rfc822_text_body e =
      concat (map (\<lambda>n. ''--'' @ multipart_boundary e @ crlf @ the (render_part_n_mime e n) @
                the (render_part_n e n) @ crlf) [1..<length (attachments e) + 2]) @
      ''--'' @ multipart_boundary e @ ''--'' @ crlf \<and>
    (\<forall>n. render_part_n e n \<noteq> None \<longleftrightarrow> 1 \<le> n \<and> n \<le> length (attachments e) + 1) \<and>
    (\<forall>n. render_part_n_mime e n \<noteq> None \<longleftrightarrow> 1 \<le> n \<and> n \<le> length (attachments e) + 1)"
proof (intro conjI allI)
  let ?b = "multipart_boundary e" and ?as = "attachments e"
  let ?part = "\<lambda>n. ''--'' @ ?b @ crlf @ the (render_part_n_mime e n) @ the (render_part_n e n) @ crlf"
  let ?att = "\<lambda>a. ''--'' @ ?b @ crlf @ part_mime_attachment a @ base64_wrapped (at_data a) @ crlf"
  have "map ?part [2..<length ?as + 2] = map ?att ?as"
    by (rule map_upt_shift2) (simp only: attachment_part [OF assms(1)] option.sel)
  moreover have "[1..<length ?as + 2] = 1 # [2..<length ?as + 2]"
    by (subst upt_conv_Cons) (simp_all add: one_add_one [symmetric] del: one_add_one)
  ultimately have parts: "concat (map ?part [1..<length ?as + 2]) = ?part 1 @ concat (map ?att ?as)"
    by (simp only: list.map concat.simps)
  show "render_rfc822_text_body e = concat (map ?part [1..<length ?as + 2]) @ ''--'' @ ?b @ ''--'' @ crlf"
    unfolding parts
    by (simp add: render_rfc822_text_body_def render_multipart_body_def assms first_part
        fold_append_each Let_def)
  fix n
  show "render_part_n e n \<noteq> None \<longleftrightarrow> 1 \<le> n \<and> n \<le> length ?as + 1"
    using assms by (auto simp: render_part_n_def)
  show "render_part_n_mime e n \<noteq> None \<longleftrightarrow> 1 \<le> n \<and> n \<le> length ?as + 1"
    using assms by (auto simp: render_part_n_mime_def)
qed

theorem multipart_body_is_its_parts_witness:
  "render_part_n sample_email 2 \<noteq> None \<and> render_part_n_mime sample_email 3 = None"
proof -
  have "raw_bytes sample_email = None" and "attachments sample_email \<noteq> []"
    and k: "length (attachments sample_email) = 1"
    by (simp_all add: sample_email_def)
  note parts = multipart_body_is_its_parts [OF this(1,2), THEN conjunct2]
  show ?thesis
    using parts [THEN conjunct1, rule_format, of 2] parts [THEN conjunct2, rule_format, of 3]
    by (simp add: k)
qed

subsection \<open>Reading an ENVELOPE back\<close>

text \<open>
  A client's reader of the envelope grammar of RFC 3501: nstrings, addresses, address lists. A quoted string
  holds \<open>TEXT-CHAR\<close>s (7 bits, not NUL, CR or LF), with a backslash before a quote or a backslash only.
\<close>

definition text_char :: "char \<Rightarrow> bool" where
  "text_char c \<longleftrightarrow> (let n = of_char c :: nat in 0 < n \<and> n < 128 \<and> n \<noteq> 10 \<and> n \<noteq> 13)"

fun read_quoted :: "string \<Rightarrow> (string \<times> string) option" where
  "read_quoted [] = None"
| "read_quoted (c # s) =
     (if c = CHR 0x22 then Some ([], s)
      else if c = CHR 0x5C
      then (case s of [] \<Rightarrow> None
            | d # s' \<Rightarrow> if d = CHR 0x22 \<or> d = CHR 0x5C then map_option (apfst (Cons d)) (read_quoted s') else None)
      else if text_char c then map_option (apfst (Cons c)) (read_quoted s)
      else None)"

definition read_nstring :: "string \<Rightarrow> (string option \<times> string) option" where
  "read_nstring s =
     (case strip_prefix ''NIL'' s of
        Some r \<Rightarrow> Some (None, r)
      | None \<Rightarrow> Option.bind (strip_prefix dquote s)
          (\<lambda>t. map_option (\<lambda>(v, r). (Some v, r)) (read_quoted t)))"

definition read_addr :: "string \<Rightarrow> (address \<times> string) option" where
  "read_addr s =
     do {
       s \<leftarrow> strip_prefix ''('' s;
       (name, s) \<leftarrow> read_nstring s;
       s \<leftarrow> strip_prefix '' NIL '' s;
       (mailbox, s) \<leftarrow> read_nstring s;
       s \<leftarrow> strip_prefix '' '' s;
       (host, s) \<leftarrow> read_nstring s;
       s \<leftarrow> strip_prefix '')'' s;
       m \<leftarrow> mailbox;
       Some (\<lparr>ad_name = name,
              ad_email = (case host of Some h \<Rightarrow> m @ CHR ''@'' # h | None \<Rightarrow> m)\<rparr>, s)
     }"

fun read_addrs :: "nat \<Rightarrow> string \<Rightarrow> (address list \<times> string) option" where
  "read_addrs 0 s = None"
| "read_addrs (Suc n) s =
     (case strip_prefix '')'' s of
        Some r \<Rightarrow> Some ([], r)
      | None \<Rightarrow> do {
          (a, r) \<leftarrow> read_addr s;
          (as, r) \<leftarrow> read_addrs n r;
          Some (a # as, r)
        })"

definition read_addr_list :: "string \<Rightarrow> (address list \<times> string) option" where
  "read_addr_list s =
     (case strip_prefix ''NIL'' s of
        Some r \<Rightarrow> Some ([], r)
      | None \<Rightarrow> do { r \<leftarrow> strip_prefix ''('' s; read_addrs (length r) r })"

record envelope =
  env_date :: "string option"
  env_subject :: "string option"
  env_from :: "address list"
  env_sender :: "address list"
  env_reply_to :: "address list"
  env_to :: "address list"
  env_cc :: "address list"
  env_bcc :: "address list"
  env_in_reply_to :: "string option"
  env_message_id :: "string option"

definition read_envelope :: "string \<Rightarrow> (envelope \<times> string) option" where
  "read_envelope s =
     do {
       s \<leftarrow> strip_prefix ''('' s;
       (date, s) \<leftarrow> read_nstring s; s \<leftarrow> strip_prefix '' '' s;
       (subject, s) \<leftarrow> read_nstring s; s \<leftarrow> strip_prefix '' '' s;
       (from, s) \<leftarrow> read_addr_list s; s \<leftarrow> strip_prefix '' '' s;
       (sender, s) \<leftarrow> read_addr_list s; s \<leftarrow> strip_prefix '' '' s;
       (reply, s) \<leftarrow> read_addr_list s; s \<leftarrow> strip_prefix '' '' s;
       (to, s) \<leftarrow> read_addr_list s; s \<leftarrow> strip_prefix '' '' s;
       (cc, s) \<leftarrow> read_addr_list s; s \<leftarrow> strip_prefix '' '' s;
       (bcc, s) \<leftarrow> read_addr_list s; s \<leftarrow> strip_prefix '' '' s;
       (irt, s) \<leftarrow> read_nstring s; s \<leftarrow> strip_prefix '' '' s;
       (mid, s) \<leftarrow> read_nstring s;
       s \<leftarrow> strip_prefix '')'' s;
       Some (\<lparr>env_date = date, env_subject = subject, env_from = from, env_sender = sender,
              env_reply_to = reply, env_to = to, env_cc = cc, env_bcc = bcc,
              env_in_reply_to = irt, env_message_id = mid\<rparr>, s)
     }"

text \<open>What the quoted strings of the grammar can carry, of a field, an address and an email.\<close>

definition nstring_text :: "string option \<Rightarrow> bool" where
  "nstring_text x = (case x of None \<Rightarrow> True | Some v \<Rightarrow> list_all text_char v)"

definition addr_text :: "address \<Rightarrow> bool" where
  "addr_text a \<longleftrightarrow> nstring_text (ad_name a) \<and> list_all text_char (ad_email a)"

definition envelope_text :: "render_env \<Rightarrow> email \<Rightarrow> bool" where
  "envelope_text ev e \<longleftrightarrow> list_all text_char (rfc2822 ev (sent_at e)) \<and> nstring_text (em_subject e) \<and>
     (case em_from e of Some a \<Rightarrow> addr_text a | None \<Rightarrow> True) \<and>
     list_all addr_text (reply_to e) \<and> list_all addr_text (em_to e) \<and> list_all addr_text (em_cc e) \<and>
     list_all addr_text (em_bcc e) \<and> list_all (list_all text_char) (in_reply_to e) \<and>
     list_all (list_all text_char) (message_id e)"

lemma text_specials [simp]: "text_char CHR 0x22" "text_char CHR 0x5C" "text_char CHR ''@''" "text_char CHR '' ''"
  by (simp_all add: text_char_def)

lemma bind_if: "Option.bind (if b then Some x else None) f = (if b then f x else None)"
  by simp

lemma read_quoted_escaped:
  "read_quoted (concat (map escape_char v) @ dquote @ r) = (if list_all text_char v then Some (v, r) else None)"
  by (induction v) (simp_all add: apfst_def map_prod_def)

lemma read_nstring_printed [simp]: "read_nstring (imap_nstring x @ r) = (if nstring_text x then Some (x, r) else None)"
proof (cases x)
  case None
  then show ?thesis by (simp add: read_nstring_def imap_nstring_def nstring_text_def)
next
  case (Some v)
  then show ?thesis
    using read_quoted_escaped [of v r] by (simp add: read_nstring_def imap_nstring_def nstring_text_def)
qed

lemma text_join: "list_all text_char (join '' '' ps) \<longleftrightarrow> list_all (list_all text_char) ps"
  by (induction "'' ''" ps rule: join.induct) simp_all

lemma read_nstring_joined [simp]:
  "read_nstring (imap_nstring_join ps @ r) =
     (if list_all (list_all text_char) ps then Some (if ps = [] then None else Some (join '' '' ps), r) else None)"
proof -
  have "imap_nstring_join ps = imap_nstring (if ps = [] then None else Some (join '' '' ps))"
    by (simp add: imap_nstring_join_def imap_nstring_def)
  then show ?thesis by (simp add: nstring_text_def text_join)
qed

lemma strip_prefix_skip [simp]: "strip_prefix [c] (c # s) = Some s"
  by simp

lemma nil_nstring: "''NIL'' = imap_nstring None"
  by (simp add: imap_nstring_def)

lemma read_addr_printed: "read_addr (imap_addr a @ r) = (if addr_text a then Some (a, r) else None)"
proof (cases "rsplit_once CHR ''@'' (ad_email a)")
  case None
  show ?thesis
    unfolding imap_addr_def None option.case Let_def prod.case nil_nstring
    by (simp add: read_addr_def addr_text_def nstring_text_def bind_if)
next
  case (Some mh)
  obtain m h where mh: "mh = (m, h)" by (cases mh)
  with Some have "ad_email a = m @ CHR ''@'' # h"
    by (simp add: rsplit_once_Some)
  then show ?thesis
    unfolding imap_addr_def Some mh option.case Let_def prod.case
    by (simp add: read_addr_def addr_text_def nstring_text_def bind_if)
qed

lemma imap_addr_start: "\<exists>t. imap_addr a = CHR ''('' # t"
  by (simp add: imap_addr_def Let_def split: prod.split)

lemma read_addrs_printed:
  "length as < n \<Longrightarrow>
     read_addrs n (concat (map imap_addr as) @ '')'' @ r) = (if list_all addr_text as then Some (as, r) else None)"
proof (induction as arbitrary: n)
  case Nil
  then show ?case by (cases n) auto
next
  case (Cons a as)
  then obtain k where k: "n = Suc k" "length as < k" by (cases n) auto
  let ?rest = "concat (map imap_addr as) @ '')'' @ r"
  obtain t where "imap_addr a = CHR ''('' # t" using imap_addr_start by blast
  then have "strip_prefix '')'' (imap_addr a @ ?rest) = None" by simp
  then have "read_addrs n (imap_addr a @ ?rest) = (if list_all addr_text (a # as) then Some (a # as, r) else None)"
    using Cons.IH [OF k(2)] read_addr_printed [of a ?rest] unfolding k(1) read_addrs.simps by simp
  then show ?case by simp
qed

lemma length_addrs: "length as \<le> length (concat (map imap_addr as))"
proof (induction as)
  case (Cons a as)
  obtain t where "imap_addr a = CHR ''('' # t" using imap_addr_start by blast
  with Cons show ?case by simp
qed simp

lemma read_addr_list_printed [simp]:
  "read_addr_list (imap_addr_list as @ r) = (if list_all addr_text as then Some (as, r) else None)"
proof (cases "as = []")
  case False
  let ?r = "concat (map imap_addr as) @ '')'' @ r"
  have "length as < length ?r"
    using length_addrs [of as] by simp
  from read_addrs_printed [OF this] False show ?thesis
    by (simp add: read_addr_list_def imap_addr_list_def)
qed (simp add: read_addr_list_def imap_addr_list_def)

text \<open>
  C40. ENVELOPE reads back, exactly when it can. A client that reads the response by the grammar of RFC 3501
  recovers the date, the subject, every address of every list with its display name, and the joined id
  headers, whatever quotes, backslashes or at-signs they contain; the sender is the from list, and so is
  the reply-to list when the email has none. This holds exactly for the emails whose fields are 7-bit text
  without NUL, CR and LF: the server sends quoted strings only, so for any other email the response is outside
  the grammar.
\<close>

theorem envelope_roundtrip:
  "read_envelope (render_envelope ev e @ rest) =
     (if envelope_text ev e
      then Some (\<lparr>env_date = Some (rfc2822 ev (sent_at e)), env_subject = em_subject e,
             env_from = (case em_from e of Some a \<Rightarrow> [a] | None \<Rightarrow> []),
             env_sender = (case em_from e of Some a \<Rightarrow> [a] | None \<Rightarrow> []),
             env_reply_to = (if reply_to e = [] then (case em_from e of Some a \<Rightarrow> [a] | None \<Rightarrow> [])
                            else reply_to e),
             env_to = em_to e, env_cc = em_cc e, env_bcc = em_bcc e,
             env_in_reply_to = (if in_reply_to e = [] then None else Some (join '' '' (in_reply_to e))),
             env_message_id = (if message_id e = [] then None else Some (join '' '' (message_id e)))\<rparr>,
           rest)
      else None)"
proof -
  have sender: "list_all addr_text (case em_from e of Some a \<Rightarrow> [a] | None \<Rightarrow> []) \<longleftrightarrow>
      (case em_from e of Some a \<Rightarrow> addr_text a | None \<Rightarrow> True)"
    by (simp split: option.split)
  have reply: "(if reply_to e = [] then imap_addr_list fr else imap_addr_list (reply_to e)) =
      imap_addr_list (if reply_to e = [] then fr else reply_to e)" for fr
    by simp
  have date: "nstring_text (Some (rfc2822 ev (sent_at e))) = list_all text_char (rfc2822 ev (sent_at e))"
    by (simp add: nstring_text_def)
  show ?thesis
    unfolding render_envelope_def read_envelope_def Let_def reply
    by (simp add: sender date envelope_text_def bind_if)
qed

end
