(* ===== verification/Oauth_Store.thy ===== *)
theory Oauth_Store
  imports Fixture_Store "HOL-Library.Word"
begin

text \<open>
  The OAuth mock provider of \<open>src/oauth.rs\<close>: the token store with its revocation cascade, the
  token, userinfo and invalidate endpoints, and the bearer checks of the HTTP listeners.
  A header map is an association list with lower-case names; serde's parser is the parameter
  \<open>parse_json\<close>. An HTTP response is its status, its JSON body and the \<open>WWW-Authenticate\<close> header.
\<close>

unbundle bit_operations_syntax

subsection \<open>The token store\<close>

record token_metadata =
  tm_grant_type :: string
  tm_account_id :: string
  paired_refresh :: "string option"

record token_store =
  tokens :: "(string, token_metadata) btmap"
  revoked_refresh :: "string list"
  ts_counter :: nat

definition token_store_new :: token_store where
  "token_store_new = \<lparr>tokens = [], revoked_refresh = [], ts_counter = 0\<rparr>"

definition token_string :: "nat \<Rightarrow> 64 word \<Rightarrow> string" where
  "token_string n h = ''mock-access-'' @ show_nat n @ ''-'' @ show_hex (unat h)"

definition mint :: "string \<Rightarrow> string \<Rightarrow> 64 word \<Rightarrow> token_store \<Rightarrow> string \<times> token_store" where
  "mint grant_type account_id body_hash s =
     (let s1 = s\<lparr>ts_counter := Suc (ts_counter s)\<rparr>;
          token = token_string (ts_counter s1) body_hash
      in (token, s1\<lparr>tokens := bt_insert token
            \<lparr>tm_grant_type = grant_type, tm_account_id = account_id, paired_refresh = None\<rparr>
            (tokens s1)\<rparr>))"

definition pair_refresh :: "string \<Rightarrow> string \<Rightarrow> token_store \<Rightarrow> token_store" where
  "pair_refresh access refresh s =
     (case map_of (tokens s) access of
        Some m \<Rightarrow> s\<lparr>tokens := bt_insert access (m\<lparr>paired_refresh := Some refresh\<rparr>) (tokens s)\<rparr>
      | None \<Rightarrow> s)"

definition is_refresh_revoked :: "token_store \<Rightarrow> string \<Rightarrow> bool" where
  "is_refresh_revoked s token \<longleftrightarrow> token \<in> set (revoked_refresh s)"

definition is_active :: "token_store \<Rightarrow> string \<Rightarrow> bool" where
  "is_active s token \<longleftrightarrow> map_of (tokens s) token \<noteq> None"

definition account_for_token :: "token_store \<Rightarrow> string \<Rightarrow> string option" where
  "account_for_token s token = map_option tm_account_id (map_of (tokens s) token)"

definition invalidate :: "string \<Rightarrow> token_store \<Rightarrow> bool \<times> token_store" where
  "invalidate token s =
     (case map_of (tokens s) token of
        None \<Rightarrow> (False, s)
      | Some m \<Rightarrow>
          let s1 = s\<lparr>tokens := bt_remove token (tokens s)\<rparr>;
              s2 = (if tm_grant_type m = ''refresh''
                    then s1\<lparr>revoked_refresh := List.insert token (revoked_refresh s1)\<rparr> else s1);
              s3 = (case paired_refresh m of
                      Some rt \<Rightarrow> s2\<lparr>tokens := bt_remove rt (tokens s2),
                                  revoked_refresh := List.insert rt (revoked_refresh s2)\<rparr>
                    | None \<Rightarrow> s2)
          in (True, s3))"

definition store_clear :: "token_store \<Rightarrow> token_store" where
  "store_clear s = s\<lparr>tokens := [], revoked_refresh := [], ts_counter := 0\<rparr>"

definition active_count :: "token_store \<Rightarrow> nat" where
  "active_count s = length (tokens s)"

subsection \<open>The token endpoint\<close>

definition fnv1a64 :: "string \<Rightarrow> 64 word" where
  "fnv1a64 bs = fold (\<lambda>b h. (h XOR of_nat (of_char b)) * 0x100000001b3) bs 0xcbf29ce484222325"

record http_response =
  rs_status :: nat
  www_authenticate :: "string option"
  rs_body :: "json option"

definition json_response :: "nat \<Rightarrow> json \<Rightarrow> http_response" where
  "json_response st b = \<lparr>rs_status = st, www_authenticate = None, rs_body = Some b\<rparr>"

definition oauth_error :: "string \<Rightarrow> string \<Rightarrow> json" where
  "oauth_error e d = JObject [(''error'', JString e), (''error_description'', JString d)]"

type_synonym headers = "(string \<times> string) list"

text \<open>\<open>headers.get(name).and_then(|v| v.to_str().ok())\<close>\<close>

definition header_str :: "headers \<Rightarrow> string \<Rightarrow> string option" where
  "header_str hs name =
     (case map_of hs name of
        Some v \<Rightarrow> if list_all (\<lambda>c. c = CHR 0x09 \<or> (32 \<le> (of_char c :: nat) \<and> (of_char c :: nat) < 127)) v
                  then Some v else None
      | None \<Rightarrow> None)"

definition hex_nibble :: "char \<Rightarrow> nat option" where
  "hex_nibble b =
     (let n = of_char b :: nat in
      if 48 \<le> n \<and> n \<le> 57 then Some (n - 48)
      else if 97 \<le> n \<and> n \<le> 102 then Some (n - 97 + 10)
      else if 65 \<le> n \<and> n \<le> 70 then Some (n - 65 + 10)
      else None)"

fun urldecode_bytes :: "string \<Rightarrow> string" where
  "urldecode_bytes [] = []"
| "urldecode_bytes (b # bs) =
     (if b = CHR ''+'' then CHR '' '' # urldecode_bytes bs
      else if b = CHR ''%'' then
        (case bs of
           x # y # rest \<Rightarrow>
             (case (hex_nibble x, hex_nibble y) of
                (Some h, Some l) \<Rightarrow> char_of (16 * h + l) # urldecode_bytes rest
              | _ \<Rightarrow> b # urldecode_bytes bs)
         | _ \<Rightarrow> b # urldecode_bytes bs)
      else b # urldecode_bytes bs)"

definition urldecode :: "string \<Rightarrow> string" where
  "urldecode s = utf8_lossy (urldecode_bytes s)"

definition parse_form :: "string \<Rightarrow> (string \<times> string) list" where
  "parse_form s =
     List.map_filter
       (\<lambda>p. map_option (\<lambda>(k, v). (urldecode k, urldecode v)) (split_once CHR ''='' p))
       (filter (\<lambda>p. p \<noteq> []) (split_on CHR ''&'' s))"

fun string_field :: "string \<times> json \<Rightarrow> (string \<times> string) option" where
  "string_field (k, JString s) = Some (k, s)"
| "string_field _ = None"

text \<open>The collected \<open>HashMap\<close> keeps the last of two equal keys.\<close>

definition parse_token_body ::
    "(string \<Rightarrow> json option) \<Rightarrow> headers \<Rightarrow> string \<Rightarrow> (string \<times> string) list" where
  "parse_token_body parse_json hs body =
     (let content_type = (case header_str hs ''content-type'' of Some v \<Rightarrow> v | None \<Rightarrow> []) in
      if prefix ''application/json'' content_type then
        (case parse_json body of
           Some (JObject obj) \<Rightarrow> rev (List.map_filter string_field obj)
         | _ \<Rightarrow> [])
      else rev (parse_form (if utf8_valid body then body else [])))"

definition grant_account :: "fixture \<Rightarrow> token_store \<Rightarrow> (string \<times> string) list \<Rightarrow> string" where
  "grant_account f s form =
     (case Option.bind (map_of form ''refresh_token'') (account_for_token s) of
        Some a \<Rightarrow> if find_account f a \<noteq> None then a else primary_id f
      | None \<Rightarrow> primary_id f)"

definition issue_tokens :: "string \<Rightarrow> string \<Rightarrow> string \<Rightarrow> token_store \<Rightarrow> http_response \<times> token_store" where
  "issue_tokens grant_type account_id body s =
     (let h = fnv1a64 body;
          (access, s1) = mint grant_type account_id h s;
          (refresh, s2) = mint ''refresh'' account_id (word_rotl 1 h) s1
      in (json_response 200 (JObject
            [(''access_token'', JString access), (''expires_in'', JNumber (PosInt 3600)),
             (''refresh_token'', JString refresh), (''scope'', JString ''openid email profile''),
             (''token_type'', JString ''Bearer'')]),
          pair_refresh access refresh s2))"

definition token_endpoint ::
    "(string \<Rightarrow> json option) \<Rightarrow> fixture \<Rightarrow> headers \<Rightarrow> string \<Rightarrow> token_store
      \<Rightarrow> http_response \<times> token_store" where
  "token_endpoint parse_json f hs body s =
     (let form = parse_token_body parse_json hs body;
          grant_type = (case map_of form ''grant_type'' of Some g \<Rightarrow> g | None \<Rightarrow> [])
      in
      if grant_type \<noteq> ''authorization_code'' \<and> grant_type \<noteq> ''refresh_token'' then
        (json_response 400 (oauth_error ''unsupported_grant_type''
           ''v0 supports authorization_code and refresh_token grants only''), s)
      else if grant_type = ''refresh_token'' \<and>
              (case map_of form ''refresh_token'' of Some rt \<Rightarrow> is_refresh_revoked s rt | None \<Rightarrow> False)
      then (json_response 400 (oauth_error ''invalid_grant'' ''refresh token has been revoked''), s)
      else
        (case map_of form ''account_id'' of
           Some (c # cs) \<Rightarrow>
             (case find_account f (c # cs) of
                Some a \<Rightarrow> issue_tokens grant_type (ac_id a) body s
              | None \<Rightarrow>
                  (json_response 400 (oauth_error ''invalid_request''
                     (''account_id '' @ debug_str (c # cs) @ '' does not match any declared account'')), s))
         | _ \<Rightarrow> issue_tokens grant_type (grant_account f s form) body s))"

subsection \<open>Userinfo, invalidation, bearer checks\<close>

definition bearer_token :: "headers \<Rightarrow> string option" where
  "bearer_token hs =
     (case header_str hs ''authorization'' of
        None \<Rightarrow> None
      | Some raw \<Rightarrow>
          (case strip_prefix ''Bearer '' (trim raw) of
             None \<Rightarrow> None
           | Some t \<Rightarrow> let token = trim t in if token = [] then None else Some token))"

definition unauthorized :: "string \<Rightarrow> http_response" where
  "unauthorized detail =
     \<lparr>rs_status = 401, www_authenticate = Some ''Bearer'',
      rs_body = Some (oauth_error ''invalid_token'' detail)\<rparr>"

definition userinfo_endpoint :: "fixture \<Rightarrow> token_store \<Rightarrow> headers \<Rightarrow> http_response" where
  "userinfo_endpoint f s hs =
     (case bearer_token hs of
        None \<Rightarrow> unauthorized ''missing or malformed Authorization header''
      | Some token \<Rightarrow>
          (case account_for_token s token of
             None \<Rightarrow> unauthorized ''token is unknown or has been invalidated''
           | Some account_id \<Rightarrow>
               let acct = (case find_account f account_id of
                             Some a \<Rightarrow> a | None \<Rightarrow> primary_account f)
               in json_response 200 (JObject
                    [(''email'', JString (ac_name acct)), (''email_verified'', JBool True),
                     (''iss'', JString (issuer (oauth f))), (''name'', JString (ac_name acct)),
                     (''sub'', JString (ac_id acct))])))"

definition invalidate_endpoint :: "string \<Rightarrow> token_store \<Rightarrow> http_response \<times> token_store" where
  "invalidate_endpoint token s =
     (let (removed, s') = invalidate token s in
      if removed then (\<lparr>rs_status = 204, www_authenticate = None, rs_body = None\<rparr>, s')
      else (json_response 404 (oauth_error ''unknown_token'' ''token was not active''), s'))"

definition account_from_bearer :: "fixture \<Rightarrow> token_store \<Rightarrow> headers \<Rightarrow> string" where
  "account_from_bearer f s hs =
     (case Option.bind (bearer_token hs) (account_for_token s) of
        Some a \<Rightarrow> if find_account f a \<noteq> None then a else primary_id f
      | None \<Rightarrow> primary_id f)"

datatype bearer_decision = Allow | Deny string

definition check_bearer :: "fixture \<Rightarrow> token_store \<Rightarrow> headers \<Rightarrow> bearer_decision" where
  "check_bearer f s hs =
     (if \<not> enforce (oauth f) then Allow
      else case bearer_token hs of
             None \<Rightarrow> Deny ''missing or malformed Authorization: Bearer header''
           | Some t \<Rightarrow> if \<not> is_active s t then Deny ''token is unknown or has been invalidated''
                       else Allow)"

subsection \<open>The invariant of the store\<close>

text \<open>
  Every token the store knows was minted by it, with a counter value it has passed, and no
  revoked token is active.
\<close>

definition issued :: "nat \<Rightarrow> string \<Rightarrow> bool" where
  "issued n t \<longleftrightarrow> (\<exists>k h. k \<le> n \<and> t = token_string k h)"

definition wf_tokens :: "token_store \<Rightarrow> bool" where
  "wf_tokens s \<longleftrightarrow> bt_ok (tokens s) \<and>
     (\<forall>t m. map_of (tokens s) t = Some m \<longrightarrow> issued (ts_counter s) t \<and>
        (\<forall>rt. paired_refresh m = Some rt \<longrightarrow> issued (ts_counter s) rt)) \<and>
     (\<forall>t \<in> set (revoked_refresh s). issued (ts_counter s) t \<and> \<not> is_active s t)"

lemma token_string_counter: "token_string k h = token_string k' h' \<Longrightarrow> k = k'"
proof -
  assume "token_string k h = token_string k' h'"
  then have "split_once CHR ''-'' (show_nat k @ CHR ''-'' # show_hex (unat h)) =
      split_once CHR ''-'' (show_nat k' @ CHR ''-'' # show_hex (unat h'))"
    by (simp add: token_string_def)
  then show "k = k'"
    by (simp add: show_nat_notin)
qed

lemma issued_mono: "issued n t \<Longrightarrow> n \<le> n' \<Longrightarrow> issued n' t"
  unfolding issued_def using order.trans by blast

lemma issued_Suc: "issued n t \<Longrightarrow> issued (Suc n) t"
  by (erule issued_mono) simp

lemma issued_self [simp]: "k \<le> n \<Longrightarrow> issued n (token_string k h)"
  by (auto simp: issued_def)

lemma not_issued_next [simp]: "\<not> issued n (token_string (Suc n) h)"
  by (auto simp: issued_def dest: token_string_counter)

lemma wf_tokens_new [simp]: "wf_tokens token_store_new"
  by (simp add: wf_tokens_def token_store_new_def)

lemma wf_tokens_fresh:
  assumes "wf_tokens s"
  shows "map_of (tokens s) (token_string (Suc (ts_counter s)) h) = None"
    and "token_string (Suc (ts_counter s)) h \<notin> set (revoked_refresh s)"
  using assms not_issued_next [of "ts_counter s" h] unfolding wf_tokens_def
  by (metis not_None_eq) (metis assms wf_tokens_def not_issued_next)

lemma mint_fields:
  "fst (mint g a h s) = token_string (Suc (ts_counter s)) h"
  "ts_counter (snd (mint g a h s)) = Suc (ts_counter s)"
  "revoked_refresh (snd (mint g a h s)) = revoked_refresh s"
  "map_of (tokens (snd (mint g a h s))) t =
     (if t = token_string (Suc (ts_counter s)) h
      then Some \<lparr>tm_grant_type = g, tm_account_id = a, paired_refresh = None\<rparr>
      else map_of (tokens s) t)"
  by (auto simp: mint_def Let_def)

lemma bt_ok_mint: "bt_ok (tokens s) \<Longrightarrow> bt_ok (tokens (snd (mint g a h s)))"
  by (simp add: mint_def Let_def)

lemma wf_tokens_mint:
  assumes "wf_tokens s" shows "wf_tokens (snd (mint g a h s))"
  using assms wf_tokens_fresh [OF assms, of h] unfolding wf_tokens_def is_active_def
  by (auto simp: mint_fields bt_ok_mint intro: issued_Suc split: if_splits)

lemma pair_refresh_fields:
  "ts_counter (pair_refresh a r s) = ts_counter s"
  "revoked_refresh (pair_refresh a r s) = revoked_refresh s"
  "map_of (tokens (pair_refresh a r s)) t =
     (if t = a then map_option (paired_refresh_update (\<lambda>_. Some r)) (map_of (tokens s) a)
      else map_of (tokens s) t)"
  by (auto simp: pair_refresh_def split: option.split)

lemma wf_tokens_pair:
  assumes "wf_tokens s" and "issued (ts_counter s) r" shows "wf_tokens (pair_refresh a r s)"
proof -
  have "bt_ok (tokens (pair_refresh a r s))"
    using assms(1) by (auto simp: pair_refresh_def wf_tokens_def split: option.split)
  then show ?thesis
    using assms unfolding wf_tokens_def is_active_def
    by (auto simp: pair_refresh_fields split: if_splits)
qed

lemma invalidate_fields:
  "ts_counter (snd (invalidate t s)) = ts_counter s"
  "fst (invalidate t s) = is_active s t"
  "set (revoked_refresh (snd (invalidate t s))) = set (revoked_refresh s) \<union>
     (case map_of (tokens s) t of None \<Rightarrow> {}
      | Some m \<Rightarrow> (if tm_grant_type m = ''refresh'' then {t} else {}) \<union> set_option (paired_refresh m))"
  "map_of (tokens (snd (invalidate t s))) x =
     (if x = t \<or> Option.bind (map_of (tokens s) t) paired_refresh = Some x then None
      else map_of (tokens s) x)"
  by (auto simp: invalidate_def is_active_def Let_def split: option.split)

lemma wf_tokens_invalidate:
  assumes "wf_tokens s" shows "wf_tokens (snd (invalidate t s))"
proof -
  have "bt_ok (tokens (snd (invalidate t s)))"
    using assms by (auto simp: invalidate_def Let_def wf_tokens_def split: option.split)
  then show ?thesis
    using assms unfolding wf_tokens_def is_active_def
    by (auto simp: invalidate_fields split: option.splits if_splits)
qed

lemma issue_tokens_fields:
  fixes body :: string
  assumes "wf_tokens s"
  defines "n \<equiv> ts_counter s" and "h \<equiv> fnv1a64 body"
  defines "access \<equiv> token_string (Suc n) h" and "refresh \<equiv> token_string (Suc (Suc n)) (word_rotl 1 h)"
  shows "rs_status (fst (issue_tokens g a body s)) = 200"
    and "rs_body (fst (issue_tokens g a body s)) = Some (JObject
            [(''access_token'', JString access), (''expires_in'', JNumber (PosInt 3600)),
             (''refresh_token'', JString refresh), (''scope'', JString ''openid email profile''),
             (''token_type'', JString ''Bearer'')])"
    and "wf_tokens (snd (issue_tokens g a body s))"
    and "revoked_refresh (snd (issue_tokens g a body s)) = revoked_refresh s"
    and "map_of (tokens (snd (issue_tokens g a body s))) =
      (map_of (tokens s))(
        access \<mapsto> \<lparr>tm_grant_type = g, tm_account_id = a, paired_refresh = Some refresh\<rparr>,
        refresh \<mapsto> \<lparr>tm_grant_type = ''refresh'', tm_account_id = a, paired_refresh = None\<rparr>)"
    and "access \<noteq> refresh"
proof -
  have ne: "access \<noteq> refresh"
    using token_string_counter [of "Suc n" h "Suc (Suc n)" "word_rotl 1 h"]
    by (auto simp: access_def refresh_def)
  define s1 where "s1 = snd (mint g a h s)"
  define s2 where "s2 = snd (mint ''refresh'' a (word_rotl 1 h) s1)"
  have mints: "mint g a h s = (access, s1)" "mint ''refresh'' a (word_rotl 1 h) s1 = (refresh, s2)"
    by (simp_all add: s1_def s2_def access_def refresh_def prod_eq_iff mint_fields n_def)
  have eq: "issue_tokens g a body s = (json_response 200 (JObject
            [(''access_token'', JString access), (''expires_in'', JNumber (PosInt 3600)),
             (''refresh_token'', JString refresh), (''scope'', JString ''openid email profile''),
             (''token_type'', JString ''Bearer'')]), pair_refresh access refresh s2)"
    using mints by (simp add: issue_tokens_def Let_def h_def)
  show "rs_status (fst (issue_tokens g a body s)) = 200"
    and "rs_body (fst (issue_tokens g a body s)) = Some (JObject
            [(''access_token'', JString access), (''expires_in'', JNumber (PosInt 3600)),
             (''refresh_token'', JString refresh), (''scope'', JString ''openid email profile''),
             (''token_type'', JString ''Bearer'')])"
    by (simp_all add: eq json_response_def)
  show "wf_tokens (snd (issue_tokens g a body s))"
    using assms(1) by (simp add: eq s1_def s2_def wf_tokens_pair wf_tokens_mint mint_fields refresh_def n_def)
  show "revoked_refresh (snd (issue_tokens g a body s)) = revoked_refresh s"
    by (simp add: eq s1_def s2_def pair_refresh_fields mint_fields)
  show "map_of (tokens (snd (issue_tokens g a body s))) =
      (map_of (tokens s))(
        access \<mapsto> \<lparr>tm_grant_type = g, tm_account_id = a, paired_refresh = Some refresh\<rparr>,
        refresh \<mapsto> \<lparr>tm_grant_type = ''refresh'', tm_account_id = a, paired_refresh = None\<rparr>)"
    using ne by (auto simp: eq s1_def s2_def pair_refresh_fields mint_fields access_def refresh_def
        n_def fun_eq_iff)
  show "access \<noteq> refresh" by (rule ne)
qed

subsection \<open>Runs of the provider\<close>

text \<open>The requests that change the store, apart from the reset.\<close>

datatype oauth_op =
    OpToken fixture headers string
  | OpInvalidate string

fun oauth_step :: "(string \<Rightarrow> json option) \<Rightarrow> oauth_op \<Rightarrow> token_store \<Rightarrow> token_store" where
  "oauth_step pj (OpToken f hs body) s = snd (token_endpoint pj f hs body s)"
| "oauth_step pj (OpInvalidate t) s = snd (invalidate_endpoint t s)"

text \<open>The account a grant is for: an explicit one, else the refresh token's, else the primary.\<close>

definition grant_account_spec :: "fixture \<Rightarrow> token_store \<Rightarrow> (string \<times> string) list \<Rightarrow> string option" where
  "grant_account_spec f s form =
     (case map_of form ''account_id'' of
        Some a \<Rightarrow> if a = [] then Some (grant_account f s form)
                  else if find_account f a \<noteq> None then Some a else None
      | None \<Rightarrow> Some (grant_account f s form))"

lemma find_account_id: "find_account f a = Some x \<Longrightarrow> ac_id x = a"
  by (auto simp: find_account_def find_Some_iff)

text \<open>The endpoint either answers an error and leaves the store alone, or issues a pair.\<close>

lemma token_endpoint_disj:
  "(rs_status (fst (token_endpoint pj f hs body s)) = 400 \<and>
      snd (token_endpoint pj f hs body s) = s) \<or>
   (\<exists>g a. grant_account_spec f s (parse_token_body pj hs body) = Some a \<and>
      token_endpoint pj f hs body s = issue_tokens g a body s)"
proof -
  define form where "form = parse_token_body pj hs body"
  define g where "g = (case map_of form ''grant_type'' of Some g \<Rightarrow> g | None \<Rightarrow> [])"
  show ?thesis
    unfolding token_endpoint_def Let_def form_def [symmetric] g_def [symmetric]
    by (cases "map_of form ''account_id''")
       (auto simp: json_response_def grant_account_spec_def find_account_id
          split: list.split option.split)
qed

lemma token_endpoint_cases:
  obtains "rs_status (fst (token_endpoint pj f hs body s)) = 400"
      and "snd (token_endpoint pj f hs body s) = s"
  | g a where "token_endpoint pj f hs body s = issue_tokens g a body s"
      and "grant_account_spec f s (parse_token_body pj hs body) = Some a"
  using token_endpoint_disj [of pj f hs body s] by blast

lemma wf_tokens_step: "wf_tokens s \<Longrightarrow> wf_tokens (oauth_step pj op s)"
proof (cases op)
  case (OpToken f hs body)
  assume "wf_tokens s"
  then show ?thesis
    using OpToken by (cases rule: token_endpoint_cases [of pj f hs body s])
      (simp_all add: issue_tokens_fields(3))
qed (simp add: invalidate_endpoint_def case_prod_beta wf_tokens_invalidate)

lemma revoked_step:
  "wf_tokens s \<Longrightarrow> set (revoked_refresh s) \<subseteq> set (revoked_refresh (oauth_step pj op s))"
proof (cases op)
  case (OpToken f hs body)
  assume "wf_tokens s"
  then show ?thesis
    using OpToken by (cases rule: token_endpoint_cases [of pj f hs body s])
      (simp_all add: issue_tokens_fields(4))
qed (simp add: invalidate_endpoint_def case_prod_beta invalidate_fields)

text \<open>A token that was handed out and is no longer active stays so.\<close>

definition dead :: "token_store \<Rightarrow> string \<Rightarrow> bool" where
  "dead s t \<longleftrightarrow> issued (ts_counter s) t \<and> \<not> is_active s t"

lemma dead_mint: "dead s t \<Longrightarrow> dead (snd (mint g a h s)) t"
  using not_issued_next by (auto simp: dead_def is_active_def mint_fields intro: issued_Suc)

lemma dead_pair: "dead s t \<Longrightarrow> dead (pair_refresh a r s) t"
  by (auto simp: dead_def is_active_def pair_refresh_fields)

lemma dead_step: "dead s t \<Longrightarrow> dead (oauth_step pj op s) t"
proof (cases op)
  case (OpToken f hs body)
  assume "dead s t"
  then have "dead (snd (issue_tokens g a body s)) t" for g a
    by (simp add: issue_tokens_def Let_def case_prod_beta dead_pair dead_mint)
  then show ?thesis
    using OpToken \<open>dead s t\<close> by (cases rule: token_endpoint_cases [of pj f hs body s]) simp_all
qed (simp add: invalidate_endpoint_def case_prod_beta dead_def is_active_def invalidate_fields)

lemma oauth_run:
  "wf_tokens s \<Longrightarrow> dead s t \<Longrightarrow>
     wf_tokens (fold (oauth_step pj) ops s) \<and> dead (fold (oauth_step pj) ops s) t \<and>
     set (revoked_refresh s) \<subseteq> set (revoked_refresh (fold (oauth_step pj) ops s))"
proof (induction ops arbitrary: s)
  case (Cons op ops)
  from Cons.IH [OF wf_tokens_step [OF Cons.prems(1)] dead_step [OF Cons.prems(2)]]
    revoked_step [OF Cons.prems(1)] show ?case
    by fastforce
qed simp

text \<open>
  C38. Invalidation makes the session unrecoverable. Once an access token is invalidated, it is
  never active again and the refresh token issued with it is revoked for good: whatever token
  requests and invalidations follow (short of a reset), that refresh token is never active
  again, and a refresh grant that presents it is answered \<open>400 invalid_grant\<close> with no change of
  the store; the same holds for a refresh token invalidated directly.
\<close>

theorem invalidated_refresh_is_dead:
  assumes "wf_tokens s" and "map_of (tokens s) t = Some m"
    and "paired_refresh m = Some rt \<or> tm_grant_type m = ''refresh'' \<and> rt = t"
    and "s' = fold (oauth_step pj) ops (snd (invalidate_endpoint t s))"
    and "map_of (parse_token_body pj hs body) ''grant_type'' = Some ''refresh_token''"
    and "map_of (parse_token_body pj hs body) ''refresh_token'' = Some rt"
  shows "rs_status (fst (invalidate_endpoint t s)) = 204 \<and>
    \<not> is_active s' t \<and> \<not> is_active s' rt \<and>
    token_endpoint pj f hs body s' =
      (json_response 400 (oauth_error ''invalid_grant'' ''refresh token has been revoked''), s')"
proof -
  define s1 where "s1 = snd (invalidate_endpoint t s)"
  have s1: "s1 = snd (invalidate t s)" and status: "rs_status (fst (invalidate_endpoint t s)) = 204"
    using assms(2) by (auto simp: s1_def invalidate_endpoint_def case_prod_beta invalidate_fields is_active_def)
  have iss: "issued (ts_counter s) t" "issued (ts_counter s) rt"
    using assms(1-3) by (auto simp: wf_tokens_def)
  have "dead s1 t" "dead s1 rt" and rev: "rt \<in> set (revoked_refresh s1)"
    using assms(2,3) iss by (auto simp: s1 dead_def is_active_def invalidate_fields)
  moreover have "wf_tokens s1" using assms(1) by (simp add: s1 wf_tokens_invalidate)
  ultimately have "dead s' t" "dead s' rt" "rt \<in> set (revoked_refresh s')"
    using oauth_run [of s1 t pj ops] oauth_run [of s1 rt pj ops] assms(4) by (auto simp: s1_def)
  then show ?thesis
    using status assms(5,6)
    by (simp add: dead_def token_endpoint_def is_refresh_revoked_def)
qed

definition refresh_body :: "string \<Rightarrow> json" where
  "refresh_body rt = JObject [(''grant_type'', JString ''refresh_token''), (''refresh_token'', JString rt)]"

theorem invalidated_refresh_is_dead_witness:
  "let s = snd (issue_tokens ''authorization_code'' ''a'' ''code=1'' token_store_new);
       access = token_string 1 (fnv1a64 ''code=1'');
       refresh = token_string 2 (word_rotl 1 (fnv1a64 ''code=1''));
       s' = snd (invalidate_endpoint access s)
   in token_endpoint (\<lambda>_. Some (refresh_body refresh)) two_accounts
        [(''content-type'', ''application/json'')] ''body'' s' =
      (json_response 400 (oauth_error ''invalid_grant'' ''refresh token has been revoked''), s')"
proof -
  define s where "s = snd (issue_tokens ''authorization_code'' ''a'' ''code=1'' token_store_new)"
  define access where "access = token_string 1 (fnv1a64 ''code=1'')"
  define refresh where "refresh = token_string 2 (word_rotl 1 (fnv1a64 ''code=1''))"
  define hs where "hs = [(''content-type'', ''application/json'')]"
  note new = issue_tokens_fields [OF wf_tokens_new]
  have count: "ts_counter token_store_new = 0" by (simp add: token_store_new_def)
  have two: "Suc (Suc 0) = 2" by simp
  have s: "map_of (tokens s) access =
      Some \<lparr>tm_grant_type = ''authorization_code'', tm_account_id = ''a'', paired_refresh = Some refresh\<rparr>"
    using new(5) [where body = "''code=1''"] new(6) [where body = "''code=1''"] by (simp add: s_def access_def refresh_def count two)
  have wf: "wf_tokens s" unfolding s_def by (rule new(3))
  have form: "parse_token_body (\<lambda>_. Some (refresh_body refresh)) hs ''body'' =
      [(''refresh_token'', refresh), (''grant_type'', ''refresh_token'')]"
    by (simp add: parse_token_body_def hs_def header_str_def refresh_body_def map_filter_simps)
  have "token_endpoint (\<lambda>_. Some (refresh_body refresh)) two_accounts hs ''body''
        (snd (invalidate_endpoint access s)) =
      (json_response 400 (oauth_error ''invalid_grant'' ''refresh token has been revoked''),
       snd (invalidate_endpoint access s))"
    using invalidated_refresh_is_dead [OF wf s, where rt = refresh and ops = "[]" and hs = hs and
        pj = "\<lambda>_. Some (refresh_body refresh)" and body = "''body''" and f = two_accounts] form
    by simp
  then show ?thesis
    by (simp add: Let_def s_def access_def refresh_def hs_def)
qed

text \<open>
  A successful grant. When the endpoint answers 200, it has issued two new tokens, distinct,
  neither active nor revoked before; both are active afterwards for the account the request
  resolves to (an explicit declared \<open>account_id\<close>, else the account the presented refresh token is
  bound to, else the primary), the access token remembers its refresh token, no other token
  is touched and the store's invariant is kept. Otherwise it answers 400 and changes nothing.
\<close>

theorem token_endpoint_grants:
  fixes pj f hs body
  assumes "wf_tokens s"
  defines "r \<equiv> fst (token_endpoint pj f hs body s)" and "s' \<equiv> snd (token_endpoint pj f hs body s)"
  shows "wf_tokens s' \<and>
    (rs_status r = 400 \<and> s' = s \<or>
     rs_status r = 200 \<and>
     (\<exists>access refresh a g.
        access \<noteq> refresh \<and>
        (\<forall>t \<in> {access, refresh}. \<not> is_active s t \<and> \<not> is_refresh_revoked s t) \<and>
        rs_body r = Some (JObject
          [(''access_token'', JString access), (''expires_in'', JNumber (PosInt 3600)),
           (''refresh_token'', JString refresh), (''scope'', JString ''openid email profile''),
           (''token_type'', JString ''Bearer'')]) \<and>
        grant_account_spec f s (parse_token_body pj hs body) = Some a \<and>
        map_of (tokens s') = (map_of (tokens s))(
          access \<mapsto> \<lparr>tm_grant_type = g, tm_account_id = a, paired_refresh = Some refresh\<rparr>,
          refresh \<mapsto> \<lparr>tm_grant_type = ''refresh'', tm_account_id = a, paired_refresh = None\<rparr>)))"
proof (cases rule: token_endpoint_cases [of pj f hs body s])
  case 1
  then show ?thesis using assms(1) by (simp add: r_def s'_def)
next
  case (2 g a)
  note new = issue_tokens_fields [OF assms(1)]
  have "\<not> issued (ts_counter s) (token_string (Suc (Suc (ts_counter s))) h)" for h
    by (auto simp: issued_def dest: token_string_counter)
  then have "\<not> is_active s t \<and> \<not> is_refresh_revoked s t"
    if "t \<in> {token_string (Suc (ts_counter s)) h, token_string (Suc (Suc (ts_counter s))) h'}" for t h h'
    using that assms(1) not_issued_next [of "ts_counter s" h]
    unfolding wf_tokens_def is_active_def is_refresh_revoked_def by (metis empty_iff insert_iff not_None_eq)
  then show ?thesis
    using 2 new unfolding r_def s'_def by (intro conjI disjI2 exI) (auto simp del: fun_upd_apply)
qed

theorem token_endpoint_grants_witness:
  "wf_tokens (snd (token_endpoint (\<lambda>_. None) two_accounts [] ''grant_type=password'' token_store_new))"
  using token_endpoint_grants [OF wf_tokens_new, of "\<lambda>_. None" two_accounts "[]" "''grant_type=password''"]
  by simp

subsection \<open>Presenting a token\<close>

lemma show_hex_graphic: "c \<in> set (show_hex n) \<Longrightarrow> graphic c"
proof (induction n rule: show_hex.induct)
  case (1 n)
  have "graphic (hex_digit_lower d)" if "d < 16" for d
    using that by (simp add: hex_digit_lower_def graphic_def)
  with 1 show ?case
    by (subst (asm) (2) show_hex.simps) (auto split: if_splits)
qed

lemma token_string_graphic: "c \<in> set (token_string n h) \<Longrightarrow> graphic c"
  by (auto simp: token_string_def show_hex_graphic dest: show_nat_digits graphic_digit)
     (simp_all add: graphic_def)

lemma bearer_token_issued:
  assumes "issued n t" and "header_str hs ''authorization'' = Some (''Bearer '' @ t)"
  shows "bearer_token hs = Some t"
proof -
  have g: "\<forall>c \<in> set t. graphic c" and ne: "t \<noteq> []"
    using assms(1) token_string_graphic by (auto simp: issued_def) (simp add: token_string_def)
  have "trim (''Bearer '' @ t) = ''Bearer '' @ t"
    using g ne trim_start_graphic [of "''Bearer '' @ t"] trim_end_graphic [of "''Bearer '' @ t"]
    by (simp add: trim_def graphic_def [of "CHR ''B''"])
  moreover have "trim t = t" using g by (rule trim_graphic)
  ultimately show ?thesis
    using assms(2) ne strip_prefix_append [of "''Bearer ''" t] by (simp add: bearer_token_def)
qed

text \<open>
  C37. The life of a bearer. A request that presents an active token is let through by every
  bearer-enforced listener and is served as the account the token was issued for (the primary
  one when the fixture no longer declares it); once the token is invalidated the same
  request is denied if enforcement is on, gets 401 from userinfo, and is never served as a
  secondary account again.
\<close>

theorem bearer_lifecycle:
  assumes "wf_tokens s" and "map_of (tokens s) t = Some m"
    and "header_str hs ''authorization'' = Some (''Bearer '' @ t)"
  shows "check_bearer f s hs = Allow \<and> rs_status (userinfo_endpoint f s hs) = 200 \<and>
    account_from_bearer f s hs =
      (if find_account f (tm_account_id m) \<noteq> None then tm_account_id m else primary_id f) \<and>
    (check_bearer f (snd (invalidate_endpoint t s)) hs = Allow \<longleftrightarrow> \<not> enforce (oauth f)) \<and>
    rs_status (userinfo_endpoint f (snd (invalidate_endpoint t s)) hs) = 401 \<and>
    account_from_bearer f (snd (invalidate_endpoint t s)) hs = primary_id f"
proof -
  have "issued (ts_counter s) t" using assms(1,2) by (auto simp: wf_tokens_def)
  from bearer_token_issued [OF this assms(3)]
  have tok: "bearer_token hs = Some t" .
  have gone: "map_of (tokens (snd (invalidate_endpoint t s))) t = None"
    by (simp add: invalidate_endpoint_def case_prod_beta invalidate_fields)
  show ?thesis
    using assms(2) gone
    by (simp add: check_bearer_def userinfo_endpoint_def account_from_bearer_def tok is_active_def
        account_for_token_def json_response_def unauthorized_def Let_def)
qed

theorem bearer_lifecycle_witness:
  "check_bearer two_accounts (snd (mint ''refresh'' ''b'' 7 token_store_new))
     [(''authorization'', ''Bearer mock-access-1-7'')] = Allow \<and>
   account_from_bearer two_accounts (snd (mint ''refresh'' ''b'' 7 token_store_new))
     [(''authorization'', ''Bearer mock-access-1-7'')] = ''b''"
proof -
  have t: "token_string 1 7 = ''mock-access-1-7''"
    by (simp add: token_string_def show_nat.simps show_hex.simps hex_digit_lower_def str_simps)
  have "map_of (tokens (snd (mint ''refresh'' ''b'' 7 token_store_new))) ''mock-access-1-7'' =
      Some \<lparr>tm_grant_type = ''refresh'', tm_account_id = ''b'', paired_refresh = None\<rparr>"
    using t by (simp add: mint_fields) (simp add: token_store_new_def)
  moreover have "header_str [(''authorization'', ''Bearer mock-access-1-7'')] ''authorization'' =
      Some (''Bearer '' @ ''mock-access-1-7'')"
    by (simp add: header_str_def)
  ultimately show ?thesis
    using bearer_lifecycle [OF wf_tokens_mint [OF wf_tokens_new], of "''refresh''" "''b''" 7
        "''mock-access-1-7''" _ "[(''authorization'', ''Bearer mock-access-1-7'')]" two_accounts]
    by (simp add: two_accounts_def find_account_def)
qed

end
