(* ===== verification/Test_Knobs.thy ===== *)
theory Test_Knobs
  imports Fixture_Types
begin

text \<open>
  The harness knobs every listener shares: the forced session-open failure of
  \<open>src/open_fault.rs\<close>, the latency settings of \<open>src/latency.rs\<close> and the capped request log of
  \<open>src/request_log.rs\<close>. A mutex-guarded handle is the value it guards; a method is a function
  on it. Sleeping is not modelled: \<open>sleep_for\<close> is the number of milliseconds it sleeps.
\<close>

subsection \<open>Forced session-open failures\<close>

record armed =
  ar_remaining :: "nat option"
  ar_status :: nat
  ar_message :: string

type_synonym open_fault = "armed option"

definition default_fail_status :: nat where "default_fail_status = 503"

definition default_fail_message :: string where
  "default_fail_message = ''session establishment forced to fail by test harness''"

definition fault_arm :: "nat option \<Rightarrow> nat \<Rightarrow> string \<Rightarrow> open_fault \<Rightarrow> open_fault" where
  "fault_arm count status message g =
     (if count = Some 0 then None
      else Some \<lparr>ar_remaining = count, ar_status = status, ar_message = message\<rparr>)"

definition fault_take :: "open_fault \<Rightarrow> (nat \<times> string) option \<times> open_fault" where
  "fault_take g =
     (case g of
        None \<Rightarrow> (None, None)
      | Some a \<Rightarrow>
          let out = (ar_status a, ar_message a) in
          (case ar_remaining a of
             Some n \<Rightarrow>
               let n' = n - 1 in
               (Some out, if n' > 0 then Some (a\<lparr>ar_remaining := Some n'\<rparr>) else None)
           | None \<Rightarrow> (Some out, Some a)))"

definition fault_clear :: "open_fault \<Rightarrow> open_fault" where
  "fault_clear g = None"

definition fault_snapshot :: "open_fault \<Rightarrow> nat option option" where
  "fault_snapshot g = map_option ar_remaining g"

text \<open>The outcomes of \<open>k\<close> consecutive session opens.\<close>

fun takes :: "nat \<Rightarrow> open_fault \<Rightarrow> (nat \<times> string) option list \<times> open_fault" where
  "takes 0 g = ([], g)"
| "takes (Suc k) g =
     (let (r, g') = fault_take g; (rs, g'') = takes k g' in (r # rs, g''))"

lemma takes_disarmed: "takes k None = (replicate k None, None)"
  by (induction k) (simp_all add: fault_take_def)

lemma takes_finite:
  "takes k (fault_arm (Some n) st m g) =
     (replicate (min n k) (Some (st, m)) @ replicate (k - n) None, fault_arm (Some (n - k)) st m g)"
proof (induction k arbitrary: n)
  case (Suc k)
  show ?case
  proof (cases n)
    case 0
    then show ?thesis by (simp add: fault_arm_def fault_take_def takes_disarmed)
  next
    case (Suc m')
    have "fault_take (fault_arm (Some n) st m g) = (Some (st, m), fault_arm (Some m') st m g)"
      using Suc by (simp add: fault_take_def fault_arm_def)
    then show ?thesis
      using Suc.IH [of m'] Suc by simp
  qed
qed (simp add: fault_arm_def)

lemma takes_sticky:
  "takes k (fault_arm None st m g) = (replicate k (Some (st, m)), fault_arm None st m g)"
  by (induction k) (simp_all add: fault_arm_def fault_take_def)

text \<open>
  The reopen budget is exact. Arming the fault for \<open>n\<close> failures makes exactly the next \<open>n\<close>
  session opens fail, with the armed status and message, and every later one succeed; the
  snapshot shows what is left of the budget, and nothing once it is used up. Arming without a
  count fails every open until \<open>clear\<close>, after which none fails.
\<close>

theorem open_fault_budget_exact:
  "fst (takes k (fault_arm (Some n) st m g)) =
     replicate (min n k) (Some (st, m)) @ replicate (k - n) None \<and>
   fault_snapshot (snd (takes k (fault_arm (Some n) st m g))) =
     (if k < n then Some (Some (n - k)) else None) \<and>
   fst (takes k (fault_arm None st m g)) = replicate k (Some (st, m)) \<and>
   fst (takes k (fault_clear g)) = replicate k None"
  by (simp add: takes_finite takes_sticky takes_disarmed fault_clear_def fault_snapshot_def)
     (simp add: fault_arm_def)

subsection \<open>Latency\<close>

type_synonym latency_knob = "(string, nat) btmap"

definition knob_get :: "latency_knob \<Rightarrow> string \<Rightarrow> nat" where
  "knob_get g k = (case map_of g k of Some v \<Rightarrow> v | None \<Rightarrow> 0)"

definition saturating_add :: "nat \<Rightarrow> nat \<Rightarrow> nat" where
  "saturating_add a b = min (a + b) u64_max"

definition latency_lookup :: "latency_knob \<Rightarrow> string \<Rightarrow> nat" where
  "latency_lookup g protocol = saturating_add (knob_get g ''global'') (knob_get g protocol)"

definition sleep_for :: "latency_knob \<Rightarrow> string \<Rightarrow> nat" where
  "sleep_for g protocol = latency_lookup g protocol"

definition sleep_for_attachment :: "latency_knob \<Rightarrow> string \<Rightarrow> nat" where
  "sleep_for_attachment g blob_id =
     saturating_add (saturating_add (knob_get g ''global'') (knob_get g ''attachment''))
       (knob_get g (''attachment:'' @ blob_id))"

definition latency_set :: "string \<Rightarrow> nat \<Rightarrow> latency_knob \<Rightarrow> latency_knob" where
  "latency_set protocol ms g = (if ms = 0 then bt_remove protocol g else bt_insert protocol ms g)"

definition latency_snapshot :: "latency_knob \<Rightarrow> (string, nat) btmap" where
  "latency_snapshot g = g"

definition latency_clear :: "latency_knob \<Rightarrow> latency_knob" where
  "latency_clear g = []"

lemma knob_get_set:
  "bt_ok g \<Longrightarrow> knob_get (latency_set p ms g) k = (if k = p then ms else knob_get g k)"
  by (simp add: knob_get_def latency_set_def bt.lookup_put bt.lookup_del)

text \<open>The knob after a run of \<open>set\<close> calls, and the value last set for a key.\<close>

definition set_all :: "(string \<times> nat) list \<Rightarrow> latency_knob" where
  "set_all ss = fold (\<lambda>(p, ms). latency_set p ms) ss (latency_clear [])"

definition last_set :: "(string \<times> nat) list \<Rightarrow> string \<Rightarrow> nat" where
  "last_set ss k = (case map_of (rev ss) k of Some v \<Rightarrow> v | None \<Rightarrow> 0)"

lemma set_all_ok: "bt_ok (set_all ss)"
  by (induction ss rule: rev_induct)
     (auto simp: set_all_def latency_clear_def latency_set_def)

lemma knob_get_set_all: "knob_get (set_all ss) k = last_set ss k"
proof (induction ss rule: rev_induct)
  case Nil
  then show ?case by (simp add: set_all_def latency_clear_def knob_get_def last_set_def)
next
  case (snoc s ss)
  have "set_all (ss @ [s]) = latency_set (fst s) (snd s) (set_all ss)"
    by (simp add: set_all_def case_prod_beta)
  then show ?case
    using snoc knob_get_set [OF set_all_ok] by (auto simp: last_set_def)
qed

text \<open>
  The latency of a request is the sum of the settings in force, saturating at the largest
  \<open>u64\<close>. After any sequence of \<open>set\<close> calls since the last reset, looking a protocol up adds the value
  last set for it to the value last set for \<open>global\<close>, where a key never set or set to 0
  counts 0; an attachment sleeps the global, the base and its own setting together.
\<close>

theorem latency_last_setting:
  "latency_lookup (set_all ss) p = min (last_set ss ''global'' + last_set ss p) u64_max \<and>
   sleep_for_attachment (set_all ss) b =
     min (last_set ss ''global'' + last_set ss ''attachment'' + last_set ss (''attachment:'' @ b))
       u64_max"
  by (simp add: latency_lookup_def sleep_for_attachment_def knob_get_set_all saturating_add_def)

subsection \<open>The request log\<close>

definition request_log_cap :: nat where "request_log_cap = 100000"

record request_entry =
  re_protocol :: string
  re_command :: string
  re_received_at :: timestamp
  re_detail :: json
  re_connection_id :: "nat option"

definition request_log_push :: "request_entry \<Rightarrow> request_entry list \<Rightarrow> request_entry list" where
  "request_log_push e g = (if length g \<ge> request_log_cap then tl g else g) @ [e]"

text \<open>\<open>record_with_conn\<close>; \<open>now\<close> is the wall clock.\<close>

definition record_with_conn ::
    "timestamp \<Rightarrow> string \<Rightarrow> string \<Rightarrow> json \<Rightarrow> nat option \<Rightarrow> request_entry list \<Rightarrow> request_entry list"
  where
  "record_with_conn now protocol command detail conn g =
     request_log_push \<lparr>re_protocol = protocol, re_command = command, re_received_at = now,
       re_detail = detail, re_connection_id = conn\<rparr> g"

definition request_log_record ::
    "timestamp \<Rightarrow> string \<Rightarrow> string \<Rightarrow> json \<Rightarrow> request_entry list \<Rightarrow> request_entry list" where
  "request_log_record now protocol command detail g =
     record_with_conn now protocol command detail None g"

fun request_log_extend :: "request_entry list \<Rightarrow> request_entry list \<Rightarrow> request_entry list" where
  "request_log_extend [] g = g"
| "request_log_extend (e # es) g =
     request_log_extend es ((if length g \<ge> request_log_cap then tl g else g) @ [e])"

definition request_log_clear :: "request_entry list \<Rightarrow> request_entry list" where
  "request_log_clear g = []"

definition request_log_len :: "request_entry list \<Rightarrow> nat" where
  "request_log_len g = length g"

definition request_log_is_empty :: "request_entry list \<Rightarrow> bool" where
  "request_log_is_empty g \<longleftrightarrow> request_log_len g = 0"

definition request_log_body_max_bytes :: nat where "request_log_body_max_bytes = 4096"

text \<open>\<open>body_detail\<close>; \<open>ser\<close> is serde's serialization of a value.\<close>

definition body_detail :: "(json \<Rightarrow> string) \<Rightarrow> json \<Rightarrow> json" where
  "body_detail ser body =
     (let serialized = ser body in
      if length serialized > request_log_body_max_bytes
      then JObject [(''body'', JObject [(''size'', JNumber (PosInt (length serialized))),
                                        (''truncated'', JBool True)])]
      else JObject [(''body'', body)])"

interpretation rl: bounded_ring request_log_cap request_log_push
  by unfold_locales (auto simp: request_log_cap_def request_log_push_def)

lemma request_log_extend_fold: "request_log_extend es g = fold request_log_push es g"
  by (induction es arbitrary: g) (simp_all add: request_log_push_def)

text \<open>
  The request log keeps the newest entries in order and nothing else. Appending a batch is
  appending its entries one by one; a log within its capacity holds afterwards exactly the
  last \<open>REQUEST_LOG_CAP\<close> of its old entries followed by the batch, so it never
  exceeds its capacity, and nothing at all is dropped while the total fits.
\<close>

theorem request_log_keeps_newest:
  assumes "request_log_len g \<le> request_log_cap"
  shows "request_log_extend es g = fold request_log_push es g \<and>
    request_log_extend es g = drop (length g + length es - request_log_cap) (g @ es) \<and>
    request_log_len (request_log_extend es g) = min request_log_cap (length g + length es)"
  using assms rl.fold_push [of g es] rl.fold_push_len [of g es]
  by (simp add: request_log_extend_fold request_log_len_def)

theorem request_log_keeps_newest_witness:
  "request_log_extend [\<lparr>re_protocol = ''imap'', re_command = ''NOOP'', re_received_at = 0,
      re_detail = JNull, re_connection_id = Some 1\<rparr>] (request_log_clear []) =
    [\<lparr>re_protocol = ''imap'', re_command = ''NOOP'', re_received_at = 0,
      re_detail = JNull, re_connection_id = Some 1\<rparr>]"
  using request_log_keeps_newest [of "request_log_clear []" "[\<lparr>re_protocol = ''imap'',
      re_command = ''NOOP'', re_received_at = 0, re_detail = JNull, re_connection_id = Some 1\<rparr>]"]
  by (simp add: request_log_clear_def request_log_len_def request_log_cap_def request_log_push_def
      del: request_log_extend.simps)

end
