(* ===== verification/Imap_Session.thy ===== *)
theory Imap_Session
  imports Imap_Render Oauth_Store Test_Knobs
begin

text \<open>
  The connection of \<open>src/imap.rs\<close> and the commands that do not change the fixture: greeting,
  authentication, \<open>ENABLE\<close>, \<open>LIST\<close>, \<open>NAMESPACE\<close>, \<open>MYRIGHTS\<close>, \<open>GETACL\<close>, \<open>STATUS\<close>, \<open>SELECT\<close> /
  \<open>EXAMINE\<close>, \<open>CLOSE\<close>, \<open>UID SEARCH\<close> and \<open>UID FETCH\<close>. A handler takes what it reads (the fixture, the
  token store, the connection) and returns what it does on the wire and the new connection. What it
  does is a list of actions: bytes written, or a latency sleep. The result is an option where the
  handler can panic or walk a parent cycle forever: then it is \<open>None\<close>. A write to the socket is
  taken to succeed, and a command runs without another connection's mutation in between.
\<close>

datatype action = Send string | Sleep nat

definition line :: "string \<Rightarrow> action" where "line s = Send (s @ crlf)"

definition reply :: "string \<Rightarrow> string \<Rightarrow> action" where "reply tag s = line (tag @ '' '' @ s)"

text \<open>\<open>if ms > 0 { sleep }\<close>\<close>

definition sleep :: "nat \<Rightarrow> action list" where "sleep ms = (if ms > 0 then [Sleep ms] else [])"

subsection \<open>The connection\<close>

datatype imap_state = NotAuthenticated | Authenticated | Selected | Logout

record conn =
  cn_state :: imap_state
  cn_selected :: "string option"
  cn_selected_account :: "string option"
  cn_selected_rights :: "string option"
  cn_account_id :: string
  cn_connection_id :: nat
  qresync_enabled :: bool

definition greeting :: string where "greeting = ''* OK saehrimnir IMAP4rev1 ready'' @ crlf"

definition capabilities :: string where
  "capabilities = ''IMAP4REV1 IDLE CONDSTORE QRESYNC MOVE UIDPLUS NAMESPACE ACL''"

definition is_reject_password :: "string \<Rightarrow> bool" where
  "is_reject_password pass \<longleftrightarrow> pass = ''saehrimnir-reject-auth''"

text \<open>The connection that \<open>serve_connection\<close> starts with.\<close>

definition conn_new :: "fixture \<Rightarrow> nat \<Rightarrow> conn" where
  "conn_new f n =
     \<lparr>cn_state = NotAuthenticated, cn_selected = None, cn_selected_account = None,
      cn_selected_rights = None, cn_account_id = primary_id f, cn_connection_id = n,
      qresync_enabled = False\<rparr>"

definition is_authenticated :: "conn \<Rightarrow> bool" where
  "is_authenticated c \<longleftrightarrow> cn_state c \<in> {Authenticated, Selected}"

definition effective_account :: "conn \<Rightarrow> string" where
  "effective_account c = (case cn_selected_account c of Some a \<Rightarrow> a | None \<Rightarrow> cn_account_id c)"

definition holds_rights :: "conn \<Rightarrow> string \<Rightarrow> bool" where
  "holds_rights c needed =
     (case cn_selected_rights c of Some rights \<Rightarrow> set needed \<subseteq> set rights | None \<Rightarrow> True)"

text \<open>\<open>Some\<close> is the rejection that has been written.\<close>

definition reject_shared_write :: "string \<Rightarrow> string \<Rightarrow> string \<Rightarrow> conn \<Rightarrow> action list option" where
  "reject_shared_write tag cmd needed c =
     (if cn_selected_account c \<noteq> None \<and> \<not> holds_rights c needed
      then Some [reply tag (''NO [NOPERM] '' @ cmd @ '' not permitted on this shared folder (requires '' @
             debug_str needed @ '', holds '' @
             debug_str (case cn_selected_rights c of Some r \<Rightarrow> r | None \<Rightarrow> []) @ '')'')]
      else None)"

subsection \<open>Capability, login, authentication\<close>

definition cmd_capability :: "string \<Rightarrow> action list" where
  "cmd_capability tag =
     [line (''* CAPABILITY '' @ capabilities), reply tag ''OK CAPABILITY completed'']"

definition cmd_noop :: "string \<Rightarrow> action list" where
  "cmd_noop tag = [reply tag ''OK NOOP completed'']"

definition cmd_logout :: "string \<Rightarrow> conn \<Rightarrow> action list \<times> conn" where
  "cmd_logout tag c =
     ([line ''* BYE saehrimnir signing off'', reply tag ''OK LOGOUT completed''],
      c\<lparr>cn_state := Logout\<rparr>)"

definition account_id_for_username :: "fixture \<Rightarrow> string \<Rightarrow> string option" where
  "account_id_for_username f ident =
     map_option ac_id (find (\<lambda>a. eq_ci (ac_name a) (trim ident)) (accounts f))"

definition bind_account :: "string option \<Rightarrow> conn \<Rightarrow> conn" where
  "bind_account i c = (case i of Some a \<Rightarrow> c\<lparr>cn_account_id := a\<rparr> | None \<Rightarrow> c)"

definition cmd_login :: "fixture \<Rightarrow> string \<Rightarrow> string \<Rightarrow> conn \<Rightarrow> action list \<times> conn" where
  "cmd_login f tag args c =
     (if cn_state c \<noteq> NotAuthenticated then ([reply tag ''BAD LOGIN only valid pre-auth''], c)
      else
        let creds = parse_two_astrings args;
            accept = (\<lambda>c. ([reply tag (''OK [CAPABILITY '' @ capabilities @ ''] LOGIN completed'')],
                          c\<lparr>cn_state := Authenticated\<rparr>))
        in case creds of
             None \<Rightarrow> accept c
           | Some (user, pass) \<Rightarrow>
               if is_reject_password pass
               then ([reply tag ''NO [AUTHENTICATIONFAILED] LOGIN failed: invalid credentials''], c)
               else accept (bind_account (account_id_for_username f user) c))"

text \<open>\<open>args.splitn(2, ' ')\<close>\<close>

definition splitn2 :: "string \<Rightarrow> string \<times> string option" where
  "splitn2 s = (case split_once CHR '' '' s of Some (a, b) \<Rightarrow> (a, Some b) | None \<Rightarrow> (s, None))"

text \<open>From the base64 response on.\<close>

definition authenticate_finish ::
    "fixture \<Rightarrow> token_store \<Rightarrow> string \<Rightarrow> string \<Rightarrow> string \<Rightarrow> conn \<Rightarrow> action list \<times> conn" where
  "authenticate_finish f ts tag mech b64 c =
     (let accept = (\<lambda>c. ([reply tag (''OK [CAPABILITY '' @ capabilities @ ''] '' @ mech @
                            '' authentication accepted'')],
                        c\<lparr>cn_state := Authenticated\<rparr>))
      in case sasl_decode_b64 b64 of
           None \<Rightarrow> accept c
         | Some decoded \<Rightarrow>
             if (case sasl_extract_password mech decoded of
                   Some pass \<Rightarrow> is_reject_password pass | None \<Rightarrow> False)
             then ([reply tag (''NO [AUTHENTICATIONFAILED] '' @ mech @
                      '' failed: invalid credentials'')], c)
             else accept (bind_account
                    (case Option.bind (sasl_extract_bearer decoded) (account_for_token ts) of
                       Some a \<Rightarrow> Some a
                     | None \<Rightarrow> Option.bind (sasl_extract_username mech decoded)
                                (account_id_for_username f)) c))"

text \<open>
  \<open>cont\<close> is the line that is read when the client sent no initial response, \<open>None\<close> when the
  peer has closed.
\<close>

definition cmd_authenticate ::
    "fixture \<Rightarrow> token_store \<Rightarrow> string option \<Rightarrow> string \<Rightarrow> string \<Rightarrow> conn \<Rightarrow> action list \<times> conn"
  where
  "cmd_authenticate f ts cont tag args c =
     (if cn_state c \<noteq> NotAuthenticated then ([reply tag ''BAD AUTHENTICATE only valid pre-auth''], c)
      else
        let (mech0, rest) = splitn2 args;
            mech = to_upper mech0;
            initial_response = map_option trim rest
        in if mech \<in> {''PLAIN'', ''XOAUTH2'', ''OAUTHBEARER'', ''LOGIN''} then
             (case initial_response of
                Some b64 \<Rightarrow> authenticate_finish f ts tag mech b64 c
              | None \<Rightarrow>
                  (case cont of
                     None \<Rightarrow> ([line ''+''], c)
                   | Some l \<Rightarrow>
                       if trim l = ''*'' then ([line ''+'', reply tag ''BAD AUTHENTICATE aborted''], c)
                       else apfst (Cons (line ''+'')) (authenticate_finish f ts tag mech l c)))
           else if mech = [] then ([reply tag ''BAD AUTHENTICATE missing mechanism''], c)
           else ([reply tag (''NO unsupported SASL mechanism '' @ debug_str mech)], c))"

definition enabled_extension :: "string \<Rightarrow> string option" where
  "enabled_extension ext =
     (if eq_ci ext ''QRESYNC'' then Some ''QRESYNC''
      else if eq_ci ext ''CONDSTORE'' then Some ''CONDSTORE'' else None)"

definition cmd_enable :: "string \<Rightarrow> string \<Rightarrow> conn \<Rightarrow> action list \<times> conn" where
  "cmd_enable tag args c =
     (if cn_state c = NotAuthenticated then ([reply tag ''BAD ENABLE requires authentication''], c)
      else
        let enabled = List.map_filter enabled_extension (split_ws args)
        in ((if enabled \<noteq> [] then [line (''* ENABLED '' @ join '' '' enabled)] else []) @
              [reply tag ''OK ENABLE completed''],
            if list_ex (\<lambda>e. eq_ci e ''QRESYNC'') (split_ws args)
            then c\<lparr>qresync_enabled := True\<rparr> else c))"

subsection \<open>Listing and access rights\<close>

definition list_line :: "list_entry \<Rightarrow> action" where
  "list_line e =
     line (''* LIST ('' @ join '' '' (le_attributes e) @ '') '' @ dquote @ ''/'' @ dquote @ '' '' @
           dquote @ le_path e @ dquote)"

definition shared_as_entry :: "shared_list_entry \<Rightarrow> list_entry" where
  "shared_as_entry s =
     \<lparr>le_fixture_id = sl_fixture_id s, le_path = sl_path s, le_attributes = sl_attributes s\<rparr>"

definition cmd_list :: "fixture \<Rightarrow> string \<Rightarrow> string \<Rightarrow> conn \<Rightarrow> action list option" where
  "cmd_list f tag args c =
     (if \<not> is_authenticated c then Some [reply tag ''BAD LIST requires authentication'']
      else case parse_two_astrings args of
        None \<Rightarrow> Some [reply tag (''BAD LIST expects '' @ dquote @ ''reference'' @ dquote @ '' '' @
                               dquote @ ''pattern'' @ dquote)]
      | Some (reference, pattern) \<Rightarrow>
          if pattern = []
          then Some [line (''* LIST ('' @ [backslash] @ ''Noselect) '' @ dquote @ ''/'' @ dquote @ '' '' @
                           dquote @ dquote),
                     reply tag ''OK LIST completed'']
          else do {
            personal \<leftarrow> list_mailboxes f (cn_account_id c);
            shared \<leftarrow> (if contains_sub shared_namespace_prefix pattern
                      then map_option (map shared_as_entry) (list_shared_mailboxes f (cn_account_id c))
                      else Some []);
            Some (map list_line (filter (\<lambda>e. pattern_matches pattern (le_path e)) (personal @ shared)) @
                  [reply tag ''OK LIST completed''])
          })"

definition cmd_namespace :: "fixture \<Rightarrow> string \<Rightarrow> conn \<Rightarrow> action list" where
  "cmd_namespace f tag c =
     (if \<not> is_authenticated c then [reply tag ''BAD NAMESPACE requires authentication'']
      else
        let own = ''* NAMESPACE (('' @ dquote @ dquote @ '' '' @ dquote @ ''/'' @ dquote @ '')) ''
        in [line (if imap_advertises_other_namespace f
                  then own @ ''(('' @ dquote @ shared_namespace_prefix @ dquote @ '' '' @
                       dquote @ ''/'' @ dquote @ '')) NIL''
                  else own @ ''NIL NIL''),
            reply tag ''OK NAMESPACE completed''])"

definition cmd_myrights :: "fixture \<Rightarrow> string \<Rightarrow> string \<Rightarrow> conn \<Rightarrow> action list option" where
  "cmd_myrights f tag args c =
     (if \<not> is_authenticated c then Some [reply tag ''BAD MYRIGHTS requires authentication'']
      else case parse_one_astring args of
        None \<Rightarrow> Some [reply tag (''BAD MYRIGHTS expects '' @ dquote @ ''mailbox'' @ dquote)]
      | Some name \<Rightarrow>
          do {
            r \<leftarrow> resolve_mailbox_name f (cn_account_id c) name;
            Some (case r of
              None \<Rightarrow> [reply tag ''NO MYRIGHTS unknown or inaccessible mailbox'']
            | Some m \<Rightarrow>
                [line (''* MYRIGHTS '' @ dquote @ rm_path m @ dquote @ '' '' @ rm_rights m),
                 reply tag ''OK MYRIGHTS completed''])
          })"

definition acl_pairs :: "fixture \<Rightarrow> resolved_mailbox \<Rightarrow> (string \<times> string) list" where
  "acl_pairs f m =
     (account_name_or_id f (rm_account_id m), owner_rights) #
     map (\<lambda>g. (account_name_or_id f (acl_identifier g), acl_rights g))
       (acls_for_mailbox f (rm_fixture_id m))"

definition cmd_getacl :: "fixture \<Rightarrow> string \<Rightarrow> string \<Rightarrow> conn \<Rightarrow> action list option" where
  "cmd_getacl f tag args c =
     (if \<not> is_authenticated c then Some [reply tag ''BAD GETACL requires authentication'']
      else case parse_one_astring args of
        None \<Rightarrow> Some [reply tag (''BAD GETACL expects '' @ dquote @ ''mailbox'' @ dquote)]
      | Some name \<Rightarrow>
          do {
            r \<leftarrow> resolve_mailbox_name f (cn_account_id c) name;
            Some (case r of
              None \<Rightarrow> [reply tag ''NO GETACL unknown or inaccessible mailbox'']
            | Some m \<Rightarrow>
                [line (''* ACL '' @ dquote @ rm_path m @ dquote @ '' '' @
                       join '' '' (map (\<lambda>(i, r). i @ '' '' @ r) (acl_pairs f m))),
                 reply tag ''OK GETACL completed''])
          })"

subsection \<open>STATUS, SELECT, CLOSE\<close>

definition status_item :: "fixture \<Rightarrow> string \<Rightarrow> counts \<Rightarrow> string \<Rightarrow> string option" where
  "status_item f a n item =
     (let u = to_upper item in
      if u = ''MESSAGES'' then Some (''MESSAGES '' @ show_nat (co_exists n))
      else if u = ''UNSEEN'' then Some (''UNSEEN '' @ show_nat (co_unseen n))
      else if u = ''RECENT'' then Some ''RECENT 0''
      else if u = ''UIDNEXT'' then Some (''UIDNEXT '' @ show_nat (co_uidnext n))
      else if u = ''UIDVALIDITY'' then Some ''UIDVALIDITY 1''
      else if u = ''HIGHESTMODSEQ'' then Some (''HIGHESTMODSEQ '' @ show_nat (imap_highestmodseq f a))
      else None)"

definition cmd_status :: "fixture \<Rightarrow> string \<Rightarrow> string \<Rightarrow> conn \<Rightarrow> action list option" where
  "cmd_status f tag args c =
     (if \<not> is_authenticated c then Some [reply tag ''BAD STATUS requires authentication'']
      else case parse_status_args args of
        None \<Rightarrow> Some [reply tag (''BAD STATUS expects '' @ dquote @ ''name'' @ dquote @ '' (item ...)'')]
      | Some st \<Rightarrow>
          do {
            es \<leftarrow> list_mailboxes f (cn_account_id c);
            Some (case find_path (sa_name st) es of
              None \<Rightarrow> [reply tag ''NO STATUS unknown mailbox'']
            | Some e \<Rightarrow>
                let n = mailbox_counts f (cn_account_id c) (le_fixture_id e);
                    items = List.map_filter (status_item f (cn_account_id c) n) (sa_items st)
                in [line (''* STATUS '' @ dquote @ le_path e @ dquote @ '' ('' @ join '' '' items @ '')''),
                    reply tag ''OK STATUS completed''])
          })"

definition deselect :: "conn \<Rightarrow> conn" where
  "deselect c = c\<lparr>cn_state := Authenticated, cn_selected := None, cn_selected_account := None,
     cn_selected_rights := None\<rparr>"

definition imap_flags :: string where
  "imap_flags = join '' '' (map (Cons backslash) [''Seen'', ''Flagged'', ''Draft'', ''Answered'', ''Deleted''])"

text \<open>The untagged lines of a successful SELECT, and the access word of its completion.\<close>

definition select_lines ::
    "fixture \<Rightarrow> uid_set option option \<Rightarrow> string \<Rightarrow> string \<Rightarrow> action list" where
  "select_lines f qr owner mb =
     (let n = mailbox_counts f owner mb;
          first_unseen = map fst (filter (\<lambda>(i, m). ''$seen'' \<notin> set (em_keywords (snd m)))
            (enumerate0 (mailbox_messages f owner mb)))
      in [line (''* '' @ show_nat (co_exists n) @ '' EXISTS''),
          line ''* 0 RECENT'',
          line (''* FLAGS ('' @ imap_flags @ '')''),
          line (''* OK [PERMANENTFLAGS ('' @ imap_flags @ '' '' @ [backslash] @ ''*)] flags writable'')] @
         (case first_unseen of
            i # _ \<Rightarrow> [line (''* OK [UNSEEN '' @ show_nat (i + 1) @ ''] first unseen'')]
          | [] \<Rightarrow> []) @
         [line ''* OK [UIDVALIDITY 1] folder identity'',
          line (''* OK [UIDNEXT '' @ show_nat (co_uidnext n) @ ''] predicted next UID''),
          line (''* OK [HIGHESTMODSEQ '' @ show_nat (imap_highestmodseq f owner) @ ''] modseq'')] @
         (case qr of
            None \<Rightarrow> []
          | Some known \<Rightarrow>
              let gone = expunged_uids f mb known
              in if gone \<noteq> [] then [line (''* VANISHED (EARLIER) '' @ format_uid_ranges gone)] else []))"

definition select_access :: "bool \<Rightarrow> string \<Rightarrow> string" where
  "select_access read_write rights =
     (let writable = list_ex (\<lambda>ch. ch \<in> set rights) ''iwset''
      in if read_write \<and> writable then ''READ-WRITE'' else ''READ-ONLY'')"

definition cmd_select ::
    "fixture \<Rightarrow> string \<Rightarrow> string \<Rightarrow> bool \<Rightarrow> conn \<Rightarrow> (action list \<times> conn) option" where
  "cmd_select f tag args read_write c =
     (if \<not> is_authenticated c then Some ([reply tag ''BAD SELECT requires authentication''], c)
      else case parse_select_args args of
        None \<Rightarrow> Some ([reply tag (''BAD SELECT expects '' @ dquote @ ''name'' @ dquote @
                      '' [(modifiers)]'')], c)
      | Some sel \<Rightarrow>
          do {
            r \<leftarrow> resolve_mailbox_name f (cn_account_id c) (sel_name sel);
            (case r of
              None \<Rightarrow> do {
                revoked \<leftarrow> shared_mailbox_path_exists f (cn_account_id c) (sel_name sel);
                Some ([reply tag (if revoked then ''NO [NOPERM] SELECT access revoked''
                                  else ''NO SELECT unknown mailbox'')], deselect c)
              }
            | Some m \<Rightarrow>
                Some (select_lines f (sel_qresync sel) (rm_account_id m) (rm_fixture_id m) @
                      [reply tag (''OK ['' @ select_access read_write (rm_rights m) @ ''] '' @
                         (if read_write then ''SELECT'' else ''EXAMINE'') @ '' completed'')],
                      c\<lparr>cn_state := Selected, cn_selected := Some (rm_fixture_id m),
                        cn_selected_rights := Some (rm_rights m),
                        cn_selected_account :=
                          (if rm_account_id m = cn_account_id c then None else Some (rm_account_id m))\<rparr>))
          })"

definition cmd_close :: "string \<Rightarrow> conn \<Rightarrow> action list \<times> conn" where
  "cmd_close tag c =
     (if cn_state c \<noteq> Selected then ([reply tag ''BAD CLOSE requires SELECT''], c)
      else ([reply tag ''OK CLOSE completed''], deselect c))"

subsection \<open>UID SEARCH and UID FETCH\<close>

text \<open>A panic of the criteria parser, or a missing selection, is \<open>None\<close>.\<close>

definition cmd_uid_search ::
    "(string \<Rightarrow> timestamp option) \<Rightarrow> fixture \<Rightarrow> string \<Rightarrow> string \<Rightarrow> conn \<Rightarrow> action list option" where
  "cmd_uid_search strptime f tag args c =
     do {
       selected_id \<leftarrow> cn_selected c;
       criteria \<leftarrow> parse_uid_search strptime args;
       Some (case criteria of
         None \<Rightarrow> [reply tag ''BAD UID SEARCH unsupported criteria'']
       | Some cr \<Rightarrow>
           let hits = sort (map fst (filter (\<lambda>(uid, e). search_matches cr uid e)
                        (mailbox_messages f (effective_account c) selected_id)))
           in [line (''* SEARCH'' @ concat (map (\<lambda>u. CHR '' '' # show_nat u) hits)),
               reply tag ''OK UID SEARCH completed''])
     }"

text \<open>The snapshot: sequence number, UID, mod-sequence and email of each message to report.\<close>

definition fetch_snapshot ::
    "fixture \<Rightarrow> string \<Rightarrow> string \<Rightarrow> uid_set \<Rightarrow> nat option \<Rightarrow> (nat \<times> nat \<times> nat \<times> email) list" where
  "fetch_snapshot f a mb uids changedsince =
     List.map_filter
       (\<lambda>(live_idx, (uid, e)).
          let modseq = email_modseq f a (em_id e) in
          if \<not> uid_set_matches uids uid then None
          else if (case changedsince of Some since \<Rightarrow> modseq \<le> since | None \<Rightarrow> False) then None
          else Some (live_idx + 1, uid, modseq, e))
       (enumerate0 (mailbox_messages f a mb))"

text \<open>The latency of the attachment parts that are asked for.\<close>

definition attachment_sleeps :: "latency_knob \<Rightarrow> email \<Rightarrow> fetch_attr list \<Rightarrow> action list" where
  "attachment_sleeps lat e attrs =
     concat (map (\<lambda>attr. case attr of
         FaBodyPart n \<Rightarrow>
           if n \<ge> 2 \<and> n - 2 < length (attachments e)
           then sleep (sleep_for_attachment lat (at_blob_id (attachments e ! (n - 2)))) else []
       | _ \<Rightarrow> []) attrs)"

definition fetch_attrs_asked :: "fetch_attr list \<Rightarrow> nat option \<Rightarrow> fetch_attr list" where
  "fetch_attrs_asked attrs changedsince =
     (if changedsince \<noteq> None \<and> FaModSeq \<notin> set attrs then attrs @ [FaModSeq] else attrs)"

text \<open>\<open>override\<close> is the answer of the reactive callback, if one is registered and overrides.\<close>

definition cmd_uid_fetch ::
    "(string \<Rightarrow> string \<Rightarrow> string \<Rightarrow> (string \<times> string) option) \<Rightarrow> render_env \<Rightarrow> latency_knob \<Rightarrow> fixture \<Rightarrow>
     string \<Rightarrow> string \<Rightarrow> conn \<Rightarrow> action list option" where
  "cmd_uid_fetch override ev lat f tag args c =
     (case split_after_set args of
        None \<Rightarrow> Some [reply tag ''BAD UID FETCH expects <set> <attrs>'']
      | Some (uid_set_str, after_set) \<Rightarrow>
          (case parse_uid_set uid_set_str of
             None \<Rightarrow> Some [reply tag ''BAD UID FETCH bad sequence-set'']
           | Some uids \<Rightarrow>
               let (attrs_str, modifiers_str) = split_attrs_and_modifiers after_set in
               (case parse_fetch_attrs attrs_str of
                  None \<Rightarrow> Some [reply tag ''BAD UID FETCH bad attribute list'']
                | Some attrs0 \<Rightarrow>
                    (case parse_changedsince modifiers_str of
                       None \<Rightarrow> Some [reply tag ''BAD UID FETCH bad modifier list'']
                     | Some changedsince \<Rightarrow>
                         let attrs = fetch_attrs_asked attrs0 changedsince in
                         do {
                           selected_id \<leftarrow> cn_selected c;
                           Some (case override uid_set_str attrs_str selected_id of
                             Some (st, message) \<Rightarrow> [reply tag (st @ '' '' @ message)]
                           | None \<Rightarrow>
                               concat (map (\<lambda>(sq, uid, modseq, e).
                                   attachment_sleeps lat e attrs @
                                   [Send (fetch_response_line ev sq uid modseq e attrs)])
                                 (fetch_snapshot f (effective_account c) selected_id uids changedsince)) @
                               [reply tag ''OK UID FETCH completed''])
                         }))))"

end
