(* ===== verification/Imap_Folders.thy ===== *)
theory Imap_Folders
  imports Imap_Session
begin

text \<open>
  \<open>CREATE\<close>, \<open>RENAME\<close> and \<open>DELETE\<close> of \<open>src/imap.rs\<close>. Each resolves its names against the paths \<open>LIST\<close>
  shows, then changes the mailboxes through \<open>Fixture::mutate\<close>. The outcome computed under the
  write lock is a sum: \<open>Inl\<close> the reason of the \<open>NO\<close>, \<open>Inr\<close> the new fixture; a listing that never
  returns (a parent cycle) is \<open>None\<close>.
\<close>

subsection \<open>The operations\<close>

text \<open>The parent of a new path: none for a single segment, else the mailbox listed there.\<close>

definition resolve_parent ::
    "string \<Rightarrow> string \<Rightarrow> list_entry list \<Rightarrow> string option \<Rightarrow> string + string option" where
  "resolve_parent verb name es parent_path =
     (case parent_path of
        None \<Rightarrow> Inr None
      | Some pp \<Rightarrow>
          (case find_path pp es of
             Some e \<Rightarrow> Inr (Some (le_fixture_id e))
           | None \<Rightarrow> Inl (verb @ '' unknown parent for '' @ debug_str name)))"

definition push_mailbox :: "mailbox \<Rightarrow> fixture \<Rightarrow> mutation_diff \<times> fixture" where
  "push_mailbox m f =
     (diff_default\<lparr>mailbox_created := [mb_id m]\<rparr>, f\<lparr>mailboxes := mailboxes f @ [m]\<rparr>)"

definition create_mailbox :: "string \<Rightarrow> string \<Rightarrow> fixture \<Rightarrow> (string + fixture) option" where
  "create_mailbox a name f =
     do {
       es \<leftarrow> list_mailboxes f a;
       Some (if find_path name es \<noteq> None
             then Inl (''CREATE mailbox '' @ debug_str name @ '' already exists'')
             else
               let (parent_path, leaf) = split_parent_leaf name in
               (case resolve_parent ''CREATE'' name es parent_path of
                  Inl reason \<Rightarrow> Inl reason
                | Inr parent_id \<Rightarrow>
                    Inr (snd (mutate (push_mailbox
                      \<lparr>mb_id = fresh_mailbox_id f, mb_account_id = a, mb_name = leaf, mb_role = None,
                       mb_parent_id = parent_id, sort_order = None, is_subscribed = True\<rparr>) f))))
     }"

definition move_mailbox :: "string \<Rightarrow> string \<Rightarrow> string option \<Rightarrow> fixture \<Rightarrow> mutation_diff \<times> fixture" where
  "move_mailbox i leaf parent_id f =
     (if \<exists>m \<in> set (mailboxes f). mb_id m = i
      then (diff_default\<lparr>mailbox_updated := [i]\<rparr>,
            f\<lparr>mailboxes := update_first (\<lambda>m. mb_id m = i)
                (\<lambda>m. m\<lparr>mb_name := leaf, mb_parent_id := parent_id\<rparr>) (mailboxes f)\<rparr>)
      else (diff_default, f))"

definition rename_mailbox :: "string \<Rightarrow> string \<Rightarrow> string \<Rightarrow> fixture \<Rightarrow> (string + fixture) option" where
  "rename_mailbox a old_name new_name f =
     do {
       es \<leftarrow> list_mailboxes f a;
       Some (case find_path old_name es of
         None \<Rightarrow> Inl (''RENAME unknown mailbox '' @ debug_str old_name)
       | Some target \<Rightarrow>
           if find_path new_name es \<noteq> None
           then Inl (''RENAME target '' @ debug_str new_name @ '' already exists'')
           else
             let (parent_path, leaf) = split_parent_leaf new_name in
             (case resolve_parent ''RENAME'' new_name es parent_path of
                Inl reason \<Rightarrow> Inl reason
              | Inr parent_id \<Rightarrow>
                  Inr (snd (mutate (move_mailbox (le_fixture_id target) leaf parent_id) f))))
     }"

definition drop_mailbox :: "string \<Rightarrow> string option \<Rightarrow> fixture \<Rightarrow> mutation_diff \<times> fixture" where
  "drop_mailbox i account_id f =
     (let f' = f\<lparr>mailboxes := filter (\<lambda>m. mb_id m \<noteq> i) (mailboxes f)\<rparr>
      in (if length (mailboxes f') < length (mailboxes f)
          then diff_default\<lparr>mailbox_destroyed := [i], mailbox_destroyed_accounts := [the account_id]\<rparr>
          else diff_default, f'))"

definition delete_mailbox :: "string \<Rightarrow> string \<Rightarrow> fixture \<Rightarrow> (string + fixture) option" where
  "delete_mailbox a name f =
     do {
       es \<leftarrow> list_mailboxes f a;
       Some (case find_path name es of
         None \<Rightarrow> Inl (''DELETE unknown mailbox '' @ debug_str name)
       | Some target \<Rightarrow>
           let i = le_fixture_id target in
           if list_ex (\<lambda>m. mb_parent_id m = Some i) (mailboxes f)
           then Inl (''DELETE mailbox '' @ debug_str name @ '' has inferior mailboxes'')
           else
             let account_id = map_option mb_account_id (find (\<lambda>m. mb_id m = i) (mailboxes f))
             in Inr (snd (mutate (drop_mailbox i account_id) f)))
     }"

definition folder_reply :: "string \<Rightarrow> string \<Rightarrow> fixture \<Rightarrow> string + fixture \<Rightarrow> action list \<times> fixture" where
  "folder_reply tag verb f outcome =
     (case outcome of
        Inr f' \<Rightarrow> ([reply tag (''OK '' @ verb @ '' completed'')], f')
      | Inl reason \<Rightarrow> ([reply tag (''NO '' @ reason)], f))"

definition cmd_create :: "string \<Rightarrow> string \<Rightarrow> conn \<Rightarrow> fixture \<Rightarrow> (action list \<times> fixture) option" where
  "cmd_create tag args c f =
     (if \<not> is_authenticated c then Some ([reply tag ''BAD CREATE requires authentication''], f)
      else case parse_one_astring args of
        None \<Rightarrow> Some ([reply tag (''BAD CREATE expects '' @ dquote @ ''mailbox'' @ dquote)], f)
      | Some name0 \<Rightarrow>
          let name = trim_end_char CHR ''/'' name0 in
          if name = [] then Some ([reply tag ''NO CREATE empty mailbox name''], f)
          else map_option (folder_reply tag ''CREATE'' f) (create_mailbox (cn_account_id c) name f))"

definition cmd_rename :: "string \<Rightarrow> string \<Rightarrow> conn \<Rightarrow> fixture \<Rightarrow> (action list \<times> fixture) option" where
  "cmd_rename tag args c f =
     (if \<not> is_authenticated c then Some ([reply tag ''BAD RENAME requires authentication''], f)
      else case parse_two_astrings args of
        None \<Rightarrow> Some ([reply tag (''BAD RENAME expects '' @ dquote @ ''old'' @ dquote @ '' '' @
                                dquote @ ''new'' @ dquote)], f)
      | Some (old_name, new_name) \<Rightarrow>
          map_option (folder_reply tag ''RENAME'' f)
            (rename_mailbox (cn_account_id c) old_name (trim_end_char CHR ''/'' new_name) f))"

definition cmd_delete :: "string \<Rightarrow> string \<Rightarrow> conn \<Rightarrow> fixture \<Rightarrow> (action list \<times> fixture) option" where
  "cmd_delete tag args c f =
     (if \<not> is_authenticated c then Some ([reply tag ''BAD DELETE requires authentication''], f)
      else case parse_one_astring args of
        None \<Rightarrow> Some ([reply tag (''BAD DELETE expects '' @ dquote @ ''mailbox'' @ dquote)], f)
      | Some name \<Rightarrow>
          map_option (folder_reply tag ''DELETE'' f)
            (delete_mailbox (cn_account_id c) (trim_end_char CHR ''/'' name) f))"

end
