(* ===== verification/Imap_Messages.thy ===== *)
theory Imap_Messages
  imports Imap_Session
begin

text \<open>
  The commands of \<open>src/imap.rs\<close> that change messages, \<open>UID STORE\<close>, \<open>UID COPY\<close>, \<open>UID MOVE\<close> and
  \<open>UID EXPUNGE\<close>, the \<open>UID\<close> dispatcher over them, and \<open>IDLE\<close>. The part a command does under the
  write lock is a function on the fixture, run through \<open>Fixture::mutate\<close>; the lines it reports are
  computed with it. A missing selection (\<open>expect\<close>) and a listing that never returns are \<open>None\<close>.
\<close>

subsection \<open>UID STORE\<close>

text \<open>
  The loop over the emails of the mailbox: \<open>slot\<close> counts them, and the UID that is compared and
  reported is this count plus one. The results are the emails, the ids that changed, the lines.
\<close>

fun store_emails ::
    "uid_set \<Rightarrow> store_op \<Rightarrow> string \<Rightarrow> nat \<Rightarrow> email list \<Rightarrow> email list \<times> string list \<times> action list" where
  "store_emails uids op mb slot [] = ([], [], [])"
| "store_emails uids op mb slot (e # es) =
     (if mb \<notin> set (mailbox_ids e)
      then let (es', u, l) = store_emails uids op mb slot es in (e # es', u, l)
      else
        let uid = slot + 1; (es', u, l) = store_emails uids op mb (slot + 1) es in
        if \<not> uid_set_matches uids uid then (e # es', u, l)
        else
          let (changed, e') = apply_in_place op e
          in (e' # es', (if changed then em_id e' # u else u),
              (if so_silent op then l
               else Send (''* '' @ show_nat uid @ '' FETCH (UID '' @ show_nat uid @ '' FLAGS ('' @
                      flags_for e' @ ''))'' @ crlf) # l)))"

definition store_messages ::
    "uid_set \<Rightarrow> store_op \<Rightarrow> string \<Rightarrow> fixture \<Rightarrow> action list \<times> fixture" where
  "store_messages uids op mb f =
     (let (es, updated, emitted) = store_emails uids op mb 0 (emails f)
      in (emitted, snd (mutate (\<lambda>f. (diff_default\<lparr>email_updated := updated\<rparr>, f\<lparr>emails := es\<rparr>)) f)))"

definition cmd_uid_store :: "string \<Rightarrow> string \<Rightarrow> conn \<Rightarrow> fixture \<Rightarrow> (action list \<times> fixture) option" where
  "cmd_uid_store tag args c f =
     (case reject_shared_write tag ''UID STORE'' ''w'' c of
        Some out \<Rightarrow> Some (out, f)
      | None \<Rightarrow>
          (case split_after_set args of
             None \<Rightarrow> Some ([reply tag ''BAD UID STORE expects <set> <flag-op> <flags>''], f)
           | Some (uid_set_str, after) \<Rightarrow>
               (case parse_uid_set uid_set_str of
                  None \<Rightarrow> Some ([reply tag ''BAD UID STORE bad sequence-set''], f)
                | Some uids \<Rightarrow>
                    (case parse_store_op after of
                       None \<Rightarrow> Some ([reply tag ''BAD UID STORE bad flag list''], f)
                     | Some op \<Rightarrow>
                         do {
                           selected_id \<leftarrow> cn_selected c;
                           (let (emitted, f') = store_messages uids op selected_id f
                            in Some (emitted @ [reply tag ''OK UID STORE completed''], f'))
                         }))))"

subsection \<open>UID COPY\<close>

text \<open>The occupied slots of a mailbox: UID and email id.\<close>

definition live_slots :: "fixture \<Rightarrow> string \<Rightarrow> (nat \<times> string) list" where
  "live_slots f mb = List.map_filter (\<lambda>(i, slot). map_option (Pair (i + 1)) slot) (enumerate0 (uid_history f mb))"

definition email_with_id :: "fixture \<Rightarrow> string \<Rightarrow> email option" where
  "email_with_id f i = find (\<lambda>e. em_id e = i) (emails f)"

definition update_email :: "string \<Rightarrow> (email \<Rightarrow> email) \<Rightarrow> fixture \<Rightarrow> fixture" where
  "update_email i g f = f\<lparr>emails := update_first (\<lambda>e. em_id e = i) g (emails f)\<rparr>"

definition copy_one ::
    "uid_set \<Rightarrow> string \<Rightarrow> nat \<times> string \<Rightarrow> mutation_diff \<times> fixture \<Rightarrow> mutation_diff \<times> fixture" where
  "copy_one uids target_id = (\<lambda>(uid, i) (d, f).
     if \<not> uid_set_matches uids uid then (d, f)
     else case email_with_id f i of
       None \<Rightarrow> (d, f)
     | Some e \<Rightarrow>
         if target_id \<in> set (mailbox_ids e) then (d, f)
         else (d\<lparr>email_updated := email_updated d @ [em_id e]\<rparr>,
               snd (assign_uid target_id i
                 (update_email i (\<lambda>e. e\<lparr>mailbox_ids := mailbox_ids e @ [target_id]\<rparr>) f))))"

definition copy_messages :: "uid_set \<Rightarrow> string \<Rightarrow> string \<Rightarrow> fixture \<Rightarrow> mutation_diff \<times> fixture" where
  "copy_messages uids mb target_id f =
     fold (copy_one uids target_id) (live_slots f mb) (diff_default, f)"

definition target_mailbox :: "fixture \<Rightarrow> string \<Rightarrow> string \<Rightarrow> string option option" where
  "target_mailbox f a name = map_option (\<lambda>es. map_option le_fixture_id (find_path name es)) (list_mailboxes f a)"

definition cmd_uid_copy :: "string \<Rightarrow> string \<Rightarrow> conn \<Rightarrow> fixture \<Rightarrow> (action list \<times> fixture) option" where
  "cmd_uid_copy tag args c f =
     (case reject_shared_write tag ''UID COPY'' ''i'' c of
        Some out \<Rightarrow> Some (out, f)
      | None \<Rightarrow>
          if cn_state c \<noteq> Selected then Some ([reply tag ''BAD UID COPY requires SELECT first''], f)
          else case split_after_set args of
             None \<Rightarrow> Some ([reply tag ''BAD UID COPY expects <set> <mailbox>''], f)
           | Some (uid_set_str, target_raw) \<Rightarrow>
               (case parse_uid_set uid_set_str of
                  None \<Rightarrow> Some ([reply tag ''BAD UID COPY bad sequence-set''], f)
                | Some uids \<Rightarrow>
                    (case parse_one_astring target_raw of
                       None \<Rightarrow> Some ([reply tag (''BAD UID COPY expects '' @ dquote @ ''mailbox'' @ dquote)], f)
                     | Some target_name \<Rightarrow>
                         do {
                           selected_id \<leftarrow> cn_selected c;
                           target \<leftarrow> target_mailbox f (cn_account_id c) target_name;
                           Some (case target of
                             None \<Rightarrow> ([reply tag (''NO [TRYCREATE] unknown mailbox '' @
                                        debug_str target_name)], f)
                           | Some target_id \<Rightarrow>
                               ([reply tag ''OK UID COPY completed''],
                                snd (mutate (copy_messages uids selected_id target_id) f)))
                         })))"

subsection \<open>UID MOVE\<close>

record move_report =
  mv_src :: "nat list"
  mv_dst :: "nat list"
  mv_seqs :: "nat list"

definition numbered_slots :: "fixture \<Rightarrow> string \<Rightarrow> (nat \<times> nat \<times> string) list" where
  "numbered_slots f mb = map (\<lambda>(k, (uid, i)). (k + 1, uid, i)) (enumerate0 (live_slots f mb))"

definition move_one ::
    "string \<Rightarrow> string \<Rightarrow> nat \<times> nat \<times> string \<Rightarrow> move_report \<times> mutation_diff \<times> fixture \<Rightarrow>
     move_report \<times> mutation_diff \<times> fixture" where
  "move_one mb target_id = (\<lambda>(sq, uid, i) (r, d, f).
     case email_with_id f i of
       None \<Rightarrow> (r, d, f)
     | Some e \<Rightarrow>
         let f1 = (if target_id \<notin> set (mailbox_ids e)
                   then update_email i (\<lambda>e. e\<lparr>mailbox_ids := mailbox_ids e @ [target_id]\<rparr>) f else f);
             (dst, f2) = assign_uid target_id i f1;
             f3 = update_email i (\<lambda>e. e\<lparr>mailbox_ids := filter (\<lambda>m. m \<noteq> mb) (mailbox_ids e)\<rparr>) f2;
             f4 = retire_uid mb i f3
         in (\<lparr>mv_src = mv_src r @ [uid], mv_dst = mv_dst r @ [dst], mv_seqs = mv_seqs r @ [sq]\<rparr>,
             d\<lparr>email_updated := email_updated d @ [i]\<rparr>, f4))"

definition move_messages ::
    "uid_set \<Rightarrow> string \<Rightarrow> string \<Rightarrow> fixture \<Rightarrow> move_report \<times> mutation_diff \<times> fixture" where
  "move_messages uids mb target_id f =
     (let matched = sort_key (\<lambda>(_, uid, _). uid)
            (filter (\<lambda>(_, uid, _). uid_set_matches uids uid) (numbered_slots f mb))
      in fold (move_one mb target_id) matched (\<lparr>mv_src = [], mv_dst = [], mv_seqs = []\<rparr>, diff_default, f))"

text \<open>Sequence numbers highest first.\<close>

definition expunge_line :: "nat \<Rightarrow> action" where
  "expunge_line n = line (''* '' @ show_nat n @ '' EXPUNGE'')"

definition expunge_lines :: "nat list \<Rightarrow> action list" where
  "expunge_lines seqs = map expunge_line (sort_key (\<lambda>n. - int n) seqs)"

definition comma_list :: "nat list \<Rightarrow> string" where
  "comma_list ns = join '','' (map show_nat ns)"

definition move_lines :: "string \<Rightarrow> conn \<Rightarrow> move_report \<Rightarrow> action list" where
  "move_lines tag c r =
     (if qresync_enabled c
      then (if mv_src r \<noteq> [] then [line (''* VANISHED '' @ comma_list (mv_src r))] else [])
      else expunge_lines (mv_seqs r)) @
     [reply tag (if mv_src r = [] then ''OK UID MOVE completed''
        else ''OK [COPYUID 1 '' @ comma_list (mv_src r) @ '' '' @ comma_list (mv_dst r) @
             ''] UID MOVE completed'')]"

definition cmd_uid_move :: "string \<Rightarrow> string \<Rightarrow> conn \<Rightarrow> fixture \<Rightarrow> (action list \<times> fixture) option" where
  "cmd_uid_move tag args c f =
     (case reject_shared_write tag ''UID MOVE'' ''it'' c of
        Some out \<Rightarrow> Some (out, f)
      | None \<Rightarrow>
          if cn_state c \<noteq> Selected then Some ([reply tag ''BAD UID MOVE requires SELECT first''], f)
          else case split_after_set args of
             None \<Rightarrow> Some ([reply tag ''BAD UID MOVE expects <set> <mailbox>''], f)
           | Some (uid_set_str, target_raw) \<Rightarrow>
               (case parse_uid_set uid_set_str of
                  None \<Rightarrow> Some ([reply tag ''BAD UID MOVE bad sequence-set''], f)
                | Some uids \<Rightarrow>
                    (case parse_one_astring target_raw of
                       None \<Rightarrow> Some ([reply tag (''BAD UID MOVE expects '' @ dquote @ ''mailbox'' @ dquote)], f)
                     | Some target_name \<Rightarrow>
                         do {
                           selected_id \<leftarrow> cn_selected c;
                           target \<leftarrow> target_mailbox f (cn_account_id c) target_name;
                           Some (case target of
                             None \<Rightarrow> ([reply tag (''NO [TRYCREATE] unknown mailbox '' @
                                        debug_str target_name)], f)
                           | Some target_id \<Rightarrow>
                               if target_id = selected_id
                               then (move_lines tag c \<lparr>mv_src = [], mv_dst = [], mv_seqs = []\<rparr>, f)
                               else
                                 let (r, d, f') = move_messages uids selected_id target_id f
                                 in (move_lines tag c r, snd (mutate (\<lambda>_. (d, f')) f)))
                         })))"

subsection \<open>UID EXPUNGE\<close>

text \<open>The marked messages of the set: sequence number and id, highest sequence number first.\<close>

definition expunge_victims :: "uid_set \<Rightarrow> string \<Rightarrow> fixture \<Rightarrow> (nat \<times> string) list" where
  "expunge_victims uids mb f =
     sort_key (\<lambda>(sq, _). - int sq)
       (map (\<lambda>(sq, _, i). (sq, i))
         (filter (\<lambda>(_, uid, i). uid_set_matches uids uid \<and>
              (case email_with_id f i of Some e \<Rightarrow> ''$deleted'' \<in> set (em_keywords e) | None \<Rightarrow> False))
           (numbered_slots f mb)))"

definition expunge_one ::
    "string \<Rightarrow> nat \<times> string \<Rightarrow> mutation_diff \<times> fixture \<Rightarrow> mutation_diff \<times> fixture" where
  "expunge_one mb = (\<lambda>(_, i) (d, f).
     case email_with_id f i of
       None \<Rightarrow> (d, f)
     | Some e \<Rightarrow>
         let left = filter (\<lambda>m. m \<noteq> mb) (mailbox_ids e);
             f1 = retire_uid mb i (update_email i (\<lambda>e. e\<lparr>mailbox_ids := left\<rparr>) f)
         in if left = []
            then (d\<lparr>email_destroyed := email_destroyed d @ [i],
                    email_destroyed_accounts := email_destroyed_accounts d @ [em_account_id e]\<rparr>,
                  f1\<lparr>emails := remove_first (\<lambda>e. em_id e = i) (emails f1)\<rparr>)
            else (d\<lparr>email_updated := email_updated d @ [i]\<rparr>, f1))"

definition expunge_messages :: "uid_set \<Rightarrow> string \<Rightarrow> fixture \<Rightarrow> nat list \<times> mutation_diff \<times> fixture" where
  "expunge_messages uids mb f =
     (let victims = expunge_victims uids mb f
      in (map fst victims, fold (expunge_one mb) victims (diff_default, f)))"

definition cmd_uid_expunge :: "string \<Rightarrow> string \<Rightarrow> conn \<Rightarrow> fixture \<Rightarrow> (action list \<times> fixture) option" where
  "cmd_uid_expunge tag args c f =
     (case reject_shared_write tag ''UID EXPUNGE'' ''e'' c of
        Some out \<Rightarrow> Some (out, f)
      | None \<Rightarrow>
          if cn_state c \<noteq> Selected then Some ([reply tag ''BAD UID EXPUNGE requires SELECT first''], f)
          else case parse_uid_set (trim args) of
             None \<Rightarrow> Some ([reply tag ''BAD UID EXPUNGE bad sequence-set''], f)
           | Some uids \<Rightarrow>
               do {
                 selected_id \<leftarrow> cn_selected c;
                 (let (seqs, d, f') = expunge_messages uids selected_id f
                  in Some (map expunge_line seqs @
                             [reply tag ''OK UID EXPUNGE completed''],
                           snd (mutate (\<lambda>_. (d, f')) f)))
               })"

subsection \<open>The UID commands\<close>

record session_env =
  se_now :: timestamp
  se_strptime :: "string \<Rightarrow> timestamp option"
  se_render :: render_env
  se_override :: "string \<Rightarrow> string \<Rightarrow> string \<Rightarrow> (string \<times> string) option"
  se_latency :: latency_knob

definition cmd_uid ::
    "session_env \<Rightarrow> string \<Rightarrow> string \<Rightarrow> conn \<Rightarrow> fixture \<Rightarrow> (action list \<times> fixture) option" where
  "cmd_uid env tag args c f =
     (if cn_state c \<noteq> Selected then Some ([reply tag ''BAD UID requires SELECT''], f)
      else
        let (sub0, rest0) = splitn2 args;
            sub = to_upper sub0;
            rest = (case rest0 of Some r \<Rightarrow> trim r | None \<Rightarrow> []);
            read = map_option (\<lambda>out. (out, f))
        in if sub = ''SEARCH'' then read (cmd_uid_search (se_strptime env) f tag rest c)
           else if sub = ''FETCH'' then
             read (cmd_uid_fetch (se_override env) (se_render env) (se_latency env) f tag rest c)
           else if sub = ''STORE'' then cmd_uid_store tag rest c f
           else if sub = ''COPY'' then cmd_uid_copy tag rest c f
           else if sub = ''MOVE'' then cmd_uid_move tag rest c f
           else if sub = ''EXPUNGE'' then cmd_uid_expunge tag rest c f
           else Some ([reply tag (''BAD UID '' @ sub @ '' not implemented in v0'')], f))"

subsection \<open>IDLE\<close>

text \<open>
  What reaches an idling connection: a line, the end of the stream, the shutdown signal, or a
  wake of the push hub, with the fixture as it is when the connection reads it.
\<close>

datatype idle_event = IdleLine string | IdleClosed | IdleShutdown | IdleWake fixture

definition idle_expunged :: "nat list \<Rightarrow> nat list \<Rightarrow> nat list" where
  "idle_expunged last_uids new_uids =
     map (\<lambda>(i, _). i + 1) (filter (\<lambda>(_, uid). uid \<notin> set new_uids) (enumerate0 last_uids))"

definition emit_idle_updates :: "nat list \<Rightarrow> nat list \<Rightarrow> action list" where
  "emit_idle_updates new_uids last_uids =
     (let arrivals = length (filter (\<lambda>uid. uid \<notin> set last_uids) new_uids)
      in expunge_lines (idle_expunged last_uids new_uids) @
         (if arrivals > 0
          then [line (''* '' @ show_nat (length new_uids) @ '' EXISTS''),
                line (''* '' @ show_nat arrivals @ '' RECENT'')]
          else []))"

text \<open>
  The loop over the events. The result is what was written, the connection, the fixture last
  seen, and the view while the connection is still idling (\<open>None\<close> once it has stopped).
\<close>

fun idle_loop ::
    "string \<Rightarrow> string \<Rightarrow> nat list \<Rightarrow> conn \<Rightarrow> fixture \<Rightarrow> idle_event list \<Rightarrow>
     action list \<times> conn \<times> fixture \<times> nat list option" where
  "idle_loop tag mb last_uids c f [] = ([], c, f, Some last_uids)"
| "idle_loop tag mb last_uids c f (e # es) =
     (case e of
        IdleShutdown \<Rightarrow> ([line ''* BYE saehrimnir shutting down''], c\<lparr>cn_state := Logout\<rparr>, f, None)
      | IdleClosed \<Rightarrow> ([], c\<lparr>cn_state := Logout\<rparr>, f, None)
      | IdleLine l \<Rightarrow>
          if eq_ci (trim (strip_crlf l)) ''DONE'' then ([reply tag ''OK IDLE terminated''], c, f, None)
          else idle_loop tag mb last_uids c f es
      | IdleWake f' \<Rightarrow>
          let new_uids = live_uids f' (effective_account c) mb
          in apfst (append (emit_idle_updates new_uids last_uids))
               (idle_loop tag mb new_uids c f' es))"

definition cmd_idle ::
    "string \<Rightarrow> idle_event list \<Rightarrow> conn \<Rightarrow> fixture \<Rightarrow> (action list \<times> conn \<times> fixture) option" where
  "cmd_idle tag evs c f =
     (if cn_state c \<noteq> Selected then Some ([reply tag ''BAD IDLE requires SELECT first''], c, f)
      else do {
        selected_id \<leftarrow> cn_selected c;
        (let (out, c', f', _) =
             idle_loop tag selected_id (live_uids f (effective_account c) selected_id) c f evs
         in Some (line ''+ idling'' # out, c', f'))
      })"

end
