(* ===== verification/Imap_Dispatch.thy ===== *)
theory Imap_Dispatch
  imports Imap_Folders Imap_Messages
begin

text \<open>
  The command dispatcher of \<open>src/imap.rs\<close>: one line from the client is parsed, recorded in the
  request log (with the credentials of LOGIN and AUTHENTICATE left out), and handled. The state
  it threads is the connection, the fixture and the request log.
\<close>

record world =
  wd_conn :: conn
  wd_fixture :: fixture
  wd_log :: "request_entry list"

definition word_at :: "nat \<Rightarrow> string \<Rightarrow> string" where
  "word_at n s = (if n < length (split_ws s) then split_ws s ! n else [])"

text \<open>The name a command is recorded under, and the arguments that are recorded.\<close>

definition recorded_command :: "string \<Rightarrow> string \<Rightarrow> string" where
  "recorded_command cmd_upper args =
     (if cmd_upper = ''UID''
      then let sub = to_upper (word_at 0 args) in if sub = [] then ''UID'' else ''UID '' @ sub
      else cmd_upper)"

definition logged_args :: "string \<Rightarrow> string \<Rightarrow> string" where
  "logged_args cmd_upper args =
     (if cmd_upper = ''LOGIN'' then []
      else if cmd_upper = ''AUTHENTICATE'' then word_at 0 args else args)"

fun is_body_attr :: "fetch_attr \<Rightarrow> bool" where
  "is_body_attr FaBodyFull = True"
| "is_body_attr FaBodyHeader = True"
| "is_body_attr FaBodyText = True"
| "is_body_attr (FaBodyPart _) = True"
| "is_body_attr (FaBodyPartMime _) = True"
| "is_body_attr _ = False"

definition log_detail :: "string \<Rightarrow> string \<Rightarrow> string \<Rightarrow> string \<Rightarrow> json" where
  "log_detail tag verb logged args =
     JObject (
       (''args'', JString logged) #
       (if verb = ''UID FETCH'' then
          let attr_tail = join '' '' (drop 2 (split_ws args));
              attrs = (case parse_fetch_attrs (fst (split_attrs_and_modifiers attr_tail)) of
                Some as \<Rightarrow> as | None \<Rightarrow> [])
          in [(''attrs'', JArray (map (\<lambda>a. JString (fetch_attr_name a)) attrs)),
              (''body'', JBool (list_ex is_body_attr attrs))]
        else []) @
       [(''tag'', JString tag)])"

text \<open>What a command may read beyond its own line: a continuation line, or the events of an IDLE.\<close>

record command_input =
  ci_cont :: "string option"
  ci_idle :: "idle_event list"

definition handle ::
    "session_env \<Rightarrow> token_store \<Rightarrow> command_input \<Rightarrow> string \<Rightarrow> string \<Rightarrow> string \<Rightarrow> conn \<Rightarrow> fixture \<Rightarrow>
     (action list \<times> conn \<times> fixture) option" where
  "handle env ts inp cmd tag args c f =
     (let pure = (\<lambda>out. Some (out, c, f));
          on_conn = (\<lambda>(out, c'). Some (out, c', f));
          reads = map_option (\<lambda>out. (out, c, f));
          writes = map_option (\<lambda>(out, f'). (out, c, f'))
      in if cmd = ''CAPABILITY'' then pure (cmd_capability tag)
         else if cmd = ''NOOP'' then pure (cmd_noop tag)
         else if cmd = ''LOGOUT'' then on_conn (cmd_logout tag c)
         else if cmd = ''LOGIN'' then on_conn (cmd_login f tag args c)
         else if cmd = ''AUTHENTICATE'' then on_conn (cmd_authenticate f ts (ci_cont inp) tag args c)
         else if cmd = ''ENABLE'' then on_conn (cmd_enable tag args c)
         else if cmd = ''NAMESPACE'' then pure (cmd_namespace f tag c)
         else if cmd = ''MYRIGHTS'' then reads (cmd_myrights f tag args c)
         else if cmd = ''GETACL'' then reads (cmd_getacl f tag args c)
         else if cmd = ''LIST'' then reads (cmd_list f tag args c)
         else if cmd = ''CREATE'' then writes (cmd_create tag args c f)
         else if cmd = ''RENAME'' then writes (cmd_rename tag args c f)
         else if cmd = ''DELETE'' then writes (cmd_delete tag args c f)
         else if cmd = ''STATUS'' then reads (cmd_status f tag args c)
         else if cmd = ''SELECT'' then
           map_option (\<lambda>(out, c'). (out, c', f)) (cmd_select f tag args True c)
         else if cmd = ''EXAMINE'' then
           map_option (\<lambda>(out, c'). (out, c', f)) (cmd_select f tag args False c)
         else if cmd = ''UID'' then writes (cmd_uid env tag args c f)
         else if cmd = ''IDLE'' then cmd_idle tag (ci_idle inp) c f
         else if cmd = ''CLOSE'' then on_conn (cmd_close tag c)
         else pure [reply tag (''BAD '' @ cmd @ '' not implemented in v0'')])"

definition dispatch ::
    "session_env \<Rightarrow> token_store \<Rightarrow> command_input \<Rightarrow> string \<Rightarrow> world \<Rightarrow> (action list \<times> world) option" where
  "dispatch env ts inp ln w =
     (case parse_command_line ln of
        None \<Rightarrow> Some ([line ''* BAD malformed command line''], w)
      | Some p \<Rightarrow>
          let cmd = to_upper (pa_command p);
              verb = recorded_command cmd (pa_args p);
              detail = log_detail (pa_tag p) verb (logged_args cmd (pa_args p)) (pa_args p);
              log' = record_with_conn (se_now env) ''imap'' verb detail
                       (Some (cn_connection_id (wd_conn w))) (wd_log w)
          in map_option (\<lambda>(out, c, f). (out, \<lparr>wd_conn = c, wd_fixture = f, wd_log = log'\<rparr>))
               (handle env ts inp cmd (pa_tag p) (pa_args p) (wd_conn w) (wd_fixture w)))"

text \<open>
  One turn of the loop in \<open>serve_connection\<close>: the latency sleep, then the command. The loop
  stops once the connection has logged out.
\<close>

definition serve_line ::
    "session_env \<Rightarrow> token_store \<Rightarrow> command_input \<Rightarrow> string \<Rightarrow> world \<Rightarrow> (action list \<times> world) option" where
  "serve_line env ts inp ln w =
     map_option (apfst (append (sleep (sleep_for (se_latency env) ''imap'')))) (dispatch env ts inp ln w)"

fun serve_lines ::
    "session_env \<Rightarrow> token_store \<Rightarrow> (command_input \<times> string) list \<Rightarrow> world \<Rightarrow> (action list \<times> world) option"
  where
  "serve_lines env ts [] w = Some ([], w)"
| "serve_lines env ts ((inp, ln) # rest) w =
     do {
       (out, w') \<leftarrow> serve_line env ts inp ln w;
       if cn_state (wd_conn w') = Logout then Some (out, w')
       else map_option (apfst (append out)) (serve_lines env ts rest w')
     }"

end
