(* ===== verification/Imap_Views.thy ===== *)
theory Imap_Views
  imports Imap_Messages
begin

text \<open>
  What a client sees of the message commands. A client that keeps the list of the messages of
  the selected mailbox and removes one for every \<open>* n EXPUNGE\<close> line it reads stays in step with the
  server over \<open>UID EXPUNGE\<close>, \<open>UID MOVE\<close> and \<open>IDLE\<close>. The shared facts are the numbering of
  sequence numbers, the order in which they are reported, and the effect of retiring slots.
\<close>

subsection \<open>The client's list\<close>

definition remove_at :: "nat \<Rightarrow> 'a list \<Rightarrow> 'a list" where
  "remove_at n xs = take (n - 1) xs @ drop n xs"

text \<open>The sequence number of an \<open>EXPUNGE\<close> line, read from its bytes.\<close>

fun read_expunge :: "action \<Rightarrow> nat option" where
  "read_expunge (Send s) =
     do {
       r \<leftarrow> strip_prefix ''* '' s;
       n \<leftarrow> strip_suffix ('' EXPUNGE'' @ crlf) r;
       parse_digits 0 n
     }"
| "read_expunge (Sleep _) = None"

definition client_step :: "action \<Rightarrow> 'a list \<Rightarrow> 'a list" where
  "client_step a xs = (case read_expunge a of Some n \<Rightarrow> remove_at n xs | None \<Rightarrow> xs)"

definition client_view :: "action list \<Rightarrow> 'a list \<Rightarrow> 'a list" where
  "client_view out xs = fold client_step out xs"

lemma client_view_append [simp]: "client_view (out @ out') xs = client_view out' (client_view out xs)"
  by (simp add: client_view_def)

lemma client_view_Nil [simp]: "client_view [] xs = xs"
  by (simp add: client_view_def)

lemma client_view_Cons [simp]: "client_view (a # out) xs = client_view out (client_step a xs)"
  by (simp add: client_view_def)

lemma client_step_expunge [simp]: "client_step (expunge_line n) xs = remove_at n xs"
proof -
  have "''* '' @ show_nat n @ '' EXPUNGE'' @ crlf = ''* '' @ ((show_nat n @ '' EXPUNGE'' @ crlf))"
    by simp
  then have "read_expunge (Send ((''* '' @ show_nat n @ '' EXPUNGE'') @ crlf)) = Some n"
    using strip_suffix_append [of "'' EXPUNGE'' @ crlf" "show_nat n"]
    by (simp add: parse_digits_show_nat)
  then show ?thesis
    by (simp add: client_step_def expunge_line_def line_def)
qed

text \<open>A line that ends in another character than the word is not a line with this word.\<close>

lemma no_word:
  assumes "''* '' @ r = s @ crlf" and "s \<noteq> []" and "last s \<noteq> last w" and "w \<noteq> []"
  shows "strip_suffix (w @ crlf) r = None"
proof (rule ccontr)
  assume "strip_suffix (w @ crlf) r \<noteq> None"
  then obtain n where "r = n @ w @ crlf"
    by (auto simp: strip_suffix_Some)
  with assms(1) have "s @ crlf = (''* '' @ n @ w) @ crlf" by simp
  then have "s = ''* '' @ n @ w" by (simp only: append_same_eq)
  with assms show False by simp
qed

lemma read_expunge_other:
  assumes "s \<noteq> []" and "last s \<noteq> CHR ''E''"
  shows "read_expunge (line s) = None"
  using no_word [OF _ assms(1), of _ "'' EXPUNGE''"] assms(2)
  by (cases "strip_prefix ''* '' (s @ crlf)") (auto simp: line_def strip_prefix_Some)

lemma client_step_other: "s \<noteq> [] \<Longrightarrow> last s \<noteq> CHR ''E'' \<Longrightarrow> client_step (line s) xs = xs"
  by (simp add: client_step_def read_expunge_other)

subsection \<open>Sequence numbers\<close>

text \<open>The 1-based positions at which a predicate holds.\<close>

definition positions :: "('a \<Rightarrow> bool) \<Rightarrow> 'a list \<Rightarrow> nat list" where
  "positions P xs = map (\<lambda>(i, _). i + 1) (filter (\<lambda>(_, x). P x) (enumerate0 xs))"

lemma enumerate0_snoc: "enumerate0 (xs @ [x]) = enumerate0 xs @ [(length xs, x)]"
  by (simp add: enumerate0_def enumerate_append_eq)

lemma positions_Nil [simp]: "positions P [] = []"
  by (simp add: positions_def enumerate0_def)

lemma positions_snoc [simp]:
  "positions P (xs @ [x]) = positions P xs @ (if P x then [length xs + 1] else [])"
  by (simp add: positions_def enumerate0_snoc)

lemma positions_bound: "n \<in> set (positions P xs) \<Longrightarrow> 1 \<le> n \<and> n \<le> length xs"
  by (induction xs rule: rev_induct) (auto split: if_splits)

lemma positions_sorted: "sorted_wrt (<) (positions P xs)"
  by (induction xs rule: rev_induct) (auto simp: sorted_wrt_append dest: positions_bound)

lemma insort_key_last: "\<forall>y \<in> set ys. f y < f x \<Longrightarrow> insort_key f x ys = ys @ [x]"
  by (induction ys) auto

lemma sort_key_descending: "sorted_wrt (<) ns \<Longrightarrow> sort_key (\<lambda>n. - int n) ns = rev ns"
  by (induction ns) (simp_all add: insort_key_last)

lemma expunge_lines_positions:
  "expunge_lines (positions P xs) = map expunge_line (rev (positions P xs))"
  by (simp add: expunge_lines_def sort_key_descending positions_sorted)

text \<open>Highest sequence number first, the lines remove exactly the messages they mean.\<close>

lemma remove_descending: "fold remove_at (rev (positions P xs)) (xs @ ys) = filter (\<lambda>x. \<not> P x) xs @ ys"
proof (induction xs arbitrary: ys rule: rev_induct)
  case (snoc x xs)
  then show ?case
    using snoc.IH [of ys] snoc.IH [of "x # ys"] by (simp add: remove_at_def)
qed simp

lemma client_view_expunges:
  "client_view (map expunge_line ns) xs = fold remove_at ns xs"
  by (induction ns arbitrary: xs) simp_all

lemma client_view_expunge_lines:
  "client_view (expunge_lines (positions P xs)) xs = filter (\<lambda>x. \<not> P x) xs"
  using remove_descending [of P xs "[]"] by (simp add: expunge_lines_positions client_view_expunges)

subsection \<open>IDLE\<close>

lemma idle_expunged_positions: "idle_expunged xs ys = positions (\<lambda>u. u \<notin> set ys) xs"
  by (simp add: idle_expunged_def positions_def)

text \<open>The message count of an \<open>EXISTS\<close> line.\<close>

fun read_exists :: "action \<Rightarrow> nat option" where
  "read_exists (Send s) =
     do {
       r \<leftarrow> strip_prefix ''* '' s;
       n \<leftarrow> strip_suffix ('' EXISTS'' @ crlf) r;
       parse_digits 0 n
     }"
| "read_exists (Sleep _) = None"

lemma read_exists_line: "read_exists (line (''* '' @ show_nat n @ '' EXISTS'')) = Some n"
  using strip_suffix_append [of "'' EXISTS'' @ crlf" "show_nat n"]
  by (simp add: line_def parse_digits_show_nat)

lemma read_exists_other:
  assumes "s \<noteq> []" and "last s \<noteq> CHR ''S''"
  shows "read_exists (line s) = None"
  using no_word [OF _ assms(1), of _ "'' EXISTS''"] assms(2)
  by (cases "strip_prefix ''* '' (s @ crlf)") (auto simp: line_def strip_prefix_Some)

text \<open>
  An idling client: it knows the UID of the messages it has seen, and only that there is a
  message for those that arrived. An \<open>EXPUNGE\<close> line removes a message, an \<open>EXISTS\<close> line adds the
  missing number of messages at the end.
\<close>

definition idle_client :: "action \<Rightarrow> nat option list \<Rightarrow> nat option list" where
  "idle_client a cs =
     (case read_exists a of
        Some n \<Rightarrow> cs @ replicate (n - length cs) None
      | None \<Rightarrow> client_step a cs)"

definition idle_view :: "action list \<Rightarrow> nat option list \<Rightarrow> nat option list" where
  "idle_view out cs = fold idle_client out cs"

text \<open>The client agrees with the server on the number of messages and on every UID it knows.\<close>

definition in_step :: "nat option list \<Rightarrow> nat list \<Rightarrow> bool" where
  "in_step cs uids \<longleftrightarrow> list_all2 (\<lambda>c u. c = None \<or> c = Some u) cs uids"

lemma positions_map: "positions P (map g xs) = positions (\<lambda>x. P (g x)) xs"
  by (induction xs rule: rev_induct) simp_all

lemma fold_remove_map: "fold remove_at ns (map g xs) = map g (fold remove_at ns xs)"
  by (induction ns arbitrary: xs) (simp_all add: remove_at_def take_map drop_map flip: map_append)

lemma in_step_remove:
  assumes "in_step cs xs"
  shows "in_step (fold remove_at (rev (positions P xs)) cs) (filter (\<lambda>x. \<not> P x) xs)"
proof -
  have len: "length cs = length xs"
    using assms by (auto simp: in_step_def dest: list_all2_lengthD)
  define zs where "zs = zip cs xs"
  have cs: "cs = map fst zs" and xs: "xs = map snd zs"
    using len by (simp_all add: zs_def)
  have "fold remove_at (rev (positions P xs)) cs = map fst (filter (\<lambda>z. \<not> P (snd z)) zs)"
    using remove_descending [of "\<lambda>z. P (snd z)" zs "[]"]
    by (simp add: cs xs positions_map fold_remove_map)
  moreover have "filter (\<lambda>x. \<not> P x) xs = map snd (filter (\<lambda>z. \<not> P (snd z)) zs)"
    by (simp add: xs filter_map o_def)
  moreover have "fst z = None \<or> fst z = Some (snd z)" if "z \<in> set zs" for z
    using that assms len by (auto simp: zs_def in_step_def list_all2_conv_all_nth in_set_zip)
  ultimately show ?thesis
    by (simp add: in_step_def list_all2_conv_all_nth) (metis filter_is_subset nth_mem subsetD)
qed

lemma idle_client_expunge [simp]: "idle_client (expunge_line n) cs = remove_at n cs"
proof -
  have "last (''* '' @ show_nat n @ '' EXPUNGE'') \<noteq> CHR ''S''" by simp
  then have "read_exists (expunge_line n) = None"
    unfolding expunge_line_def by (intro read_exists_other) simp_all
  then show ?thesis by (simp add: idle_client_def)
qed

lemma idle_client_other [simp]:
  "s \<noteq> [] \<Longrightarrow> last s \<notin> {CHR ''S'', CHR ''E''} \<Longrightarrow> idle_client (line s) cs = cs"
  by (simp add: idle_client_def read_exists_other client_step_other)

lemma idle_client_exists [simp]:
  "idle_client (line (''* '' @ show_nat n @ '' EXISTS'')) cs = cs @ replicate (n - length cs) None"
  unfolding idle_client_def read_exists_line by simp

lemma idle_view_append [simp]: "idle_view (out @ out') cs = idle_view out' (idle_view out cs)"
  by (simp add: idle_view_def)

lemma idle_view_expunges: "idle_view (map expunge_line ns) cs = fold remove_at ns cs"
  by (induction ns arbitrary: cs) (simp_all add: idle_view_def)

text \<open>New UIDs are above all the old ones.\<close>

definition evolves :: "nat list \<Rightarrow> nat list \<Rightarrow> bool" where
  "evolves old new \<longleftrightarrow> sorted_wrt (<) old \<and> sorted_wrt (<) new \<and>
     (\<forall>u \<in> set new - set old. \<forall>v \<in> set old. v < u)"

lemma evolves_split:
  assumes "evolves old new"
  shows "new = filter (\<lambda>u. u \<in> set new) old @ filter (\<lambda>u. u \<notin> set old) new"
proof (rule strict_sorted_equal)
  show "sorted_wrt (<) (filter (\<lambda>u. u \<in> set new) old @ filter (\<lambda>u. u \<notin> set old) new)"
    using assms by (auto simp: evolves_def sorted_wrt_append sorted_wrt_filter)
qed (use assms in \<open>auto simp: evolves_def\<close>)

lemma emit_in_step:
  assumes "in_step cs last_uids" and "evolves last_uids new_uids"
  shows "in_step (idle_view (emit_idle_updates new_uids last_uids) cs) new_uids"
proof -
  define kept new where "kept = filter (\<lambda>u. u \<in> set new_uids) last_uids"
    and "new = filter (\<lambda>u. u \<notin> set last_uids) new_uids"
  define cs' where "cs' = fold remove_at (rev (positions (\<lambda>u. u \<notin> set new_uids) last_uids)) cs"
  have kept: "in_step cs' kept"
    using in_step_remove [OF assms(1), of "\<lambda>u. u \<notin> set new_uids"] by (simp add: kept_def cs'_def)
  have split: "new_uids = kept @ new"
    unfolding kept_def new_def by (rule evolves_split [OF assms(2)])
  have len: "length cs' = length kept"
    using kept by (simp add: in_step_def list_all2_lengthD)
  have emit: "idle_view (emit_idle_updates new_uids last_uids) cs =
      (if new = [] then cs' else cs' @ replicate (length new_uids - length cs') None)"
    unfolding emit_idle_updates_def Let_def new_def [symmetric] expunge_lines_positions
      idle_expunged_positions idle_view_append idle_view_expunges
    by (simp add: idle_view_def idle_client_exists [simplified] cs'_def)
  have "in_step (cs' @ replicate (length new) None) (kept @ new)"
    using kept unfolding in_step_def
    by (rule list_all2_appendI) (simp add: list_all2_conv_all_nth)
  then show ?thesis
    unfolding emit using kept by (cases "new = []") (simp_all add: split len)
qed

text \<open>Every occupied slot of the mailbox holds an email of the account.\<close>

definition slots_resolve :: "fixture \<Rightarrow> string \<Rightarrow> string \<Rightarrow> bool" where
  "slots_resolve f a mb \<longleftrightarrow> (\<forall>i. Some i \<in> set (uid_history f mb) \<longrightarrow> emails_by_id f a i \<noteq> None)"

lemma map_filter_append: "List.map_filter g (xs @ ys) = List.map_filter g xs @ List.map_filter g ys"
  by (simp add: List.map_filter_def)

lemma live_uids_positions:
  assumes "slots_resolve f a mb"
  shows "live_uids f a mb = positions (\<lambda>s. s \<noteq> None) (uid_history f mb)"
proof -
  have "map fst (List.map_filter (slot_email (emails_by_id f a)) (enumerate0 h)) =
      positions (\<lambda>s. s \<noteq> None) h"
    if "\<forall>i. Some i \<in> set h \<longrightarrow> emails_by_id f a i \<noteq> None" for h
    using that
  proof (induction h rule: rev_induct)
    case (snoc s h)
    then show ?case
      by (cases s) (auto simp: enumerate0_snoc map_filter_append map_filter_simps slot_email_def)
  qed (simp add: enumerate0_def map_filter_simps)
  then show ?thesis
    using assms by (simp add: live_uids_def mailbox_messages_def slots_resolve_def)
qed

lemma mem_positions: "u \<in> set (positions P xs) \<longleftrightarrow> 1 \<le> u \<and> u \<le> length xs \<and> P (xs ! (u - 1))"
  by (induction xs rule: rev_induct) (auto simp: nth_append le_Suc_eq)

lemma uids_extend_evolves:
  assumes "uids_extend h h'"
  shows "evolves (positions (\<lambda>s. s \<noteq> None) h) (positions (\<lambda>s. s \<noteq> None) h')"
proof -
  have "v < u" if "u \<in> set (positions (\<lambda>s. s \<noteq> None) h')" "u \<notin> set (positions (\<lambda>s. s \<noteq> None) h)"
    "v \<in> set (positions (\<lambda>s. s \<noteq> None) h)" for u v
  proof (rule ccontr)
    assume "\<not> v < u"
    with that have "u - 1 < length h" and "h ! (u - 1) = None" and "h' ! (u - 1) \<noteq> None"
      by (auto simp: mem_positions)
    with assms show False unfolding uids_extend_def by metis
  qed
  then show ?thesis
    by (simp add: evolves_def positions_sorted)
qed

text \<open>
  The fixtures an idling connection wakes to: each follows the one before it by UID operations (a reset of the
  fixture, which takes the histories back, does not), and no slot of the mailbox dangles.
\<close>

fun wakes_extend :: "string \<Rightarrow> string \<Rightarrow> fixture \<Rightarrow> idle_event list \<Rightarrow> bool" where
  "wakes_extend a mb f [] = True"
| "wakes_extend a mb f (IdleWake f' # es) =
     (fixture_uids_extend f f' \<and> slots_resolve f' a mb \<and> wakes_extend a mb f' es)"
| "wakes_extend a mb f (_ # es) = wakes_extend a mb f es"

text \<open>
  C22. IDLE keeps the client in step. A client that starts with the mailbox's live messages and
  applies the \<open>EXPUNGE\<close> and \<open>EXISTS\<close> lines it gets, through any sequence of stray lines, wakes and
  the end of the idle, where between two wakes UIDs are only assigned and retired (the fixture is not reset), ends with as many messages as the mailbox has at the last wake, and at every
  position whose UID it knew from the start it still has the UID the server has there.
\<close>

theorem idle_keeps_client_in_step:
  assumes "slots_resolve f (effective_account c) mb"
    and "wakes_extend (effective_account c) mb f evs"
    and "in_step cs (live_uids f (effective_account c) mb)"
    and "idle_loop tag mb (live_uids f (effective_account c) mb) c f evs = (out, c', f', r)"
  shows "in_step (idle_view out cs) (live_uids f' (effective_account c) mb)"
  using assms
proof (induction evs arbitrary: f cs out)
  case Nil
  then show ?case by (simp add: idle_view_def)
next
  case (Cons e evs)
  let ?a = "effective_account c"
  show ?case
  proof (cases e)
    case (IdleLine l)
    show ?thesis
    proof (cases "eq_ci (trim (strip_crlf l)) ''DONE''")
      case True
      then show ?thesis
        using Cons.prems IdleLine by (auto simp: idle_view_def reply_def)
    next
      case False
      then show ?thesis
        using Cons.IH [of f cs out] Cons.prems IdleLine by simp
    qed
  next
    case (IdleWake g)
    obtain out' where out: "out = emit_idle_updates (live_uids g ?a mb) (live_uids f ?a mb) @ out'"
      and rest: "idle_loop tag mb (live_uids g ?a mb) c g evs = (out', c', f', r)"
      using Cons.prems(4) IdleWake
      by (cases "idle_loop tag mb (live_uids g ?a mb) c g evs") (auto simp: Let_def)
    have g: "slots_resolve g ?a mb" "fixture_uids_extend f g" "wakes_extend ?a mb g evs"
      using Cons.prems(2) IdleWake by simp_all
    have "evolves (live_uids f ?a mb) (live_uids g ?a mb)"
      using g(2) uids_extend_evolves
      by (simp add: live_uids_positions Cons.prems(1) g(1) fixture_uids_extend_def)
    from emit_in_step [OF Cons.prems(3) this]
    have "in_step (idle_view out' (idle_view (emit_idle_updates (live_uids g ?a mb) (live_uids f ?a mb)) cs))
        (live_uids f' ?a mb)"
      by (rule Cons.IH [OF g(1,3) _ rest])
    then show ?thesis by (simp add: out)
  qed (use Cons.prems in \<open>auto simp: idle_view_def\<close>)
qed

text \<open>Two messages in one mailbox, for the witnesses.\<close>

definition sample_inbox :: fixture where
  "sample_inbox = empty_fixture\<lparr>
     accounts := [\<lparr>ac_id = ''a'', ac_name = ''alice'', is_personal = True, primary = True\<rparr>],
     mailboxes := [\<lparr>mb_id = ''mb'', mb_account_id = ''a'', mb_name = ''Inbox'', mb_role = Some Inbox,
         mb_parent_id = None, sort_order = None, is_subscribed = True\<rparr>,
       \<lparr>mb_id = ''arch'', mb_account_id = ''a'', mb_name = ''Archive'', mb_role = None,
         mb_parent_id = None, sort_order = None, is_subscribed = True\<rparr>],
     emails := [sample_email\<lparr>em_keywords := [''$deleted'']\<rparr>, sample_email\<lparr>em_id := ''e2''\<rparr>],
     mailbox_uid_history := [(''mb'', [Some ''e1'', Some ''e2''])]\<rparr>"

definition sample_conn :: conn where
  "sample_conn = \<lparr>cn_state = Selected, cn_selected = Some ''mb'', cn_selected_account = None,
     cn_selected_rights = Some owner_rights, cn_account_id = ''a'', cn_connection_id = 1,
     qresync_enabled = False\<rparr>"

lemma sample_history: "uid_history sample_inbox m = (if m = ''mb'' then [Some ''e1'', Some ''e2''] else [])"
  by (simp add: sample_inbox_def uid_history_def slots_of_def)

lemma sample_emails_by_id:
  "emails_by_id (sample_inbox\<lparr>mailbox_uid_history := h\<rparr>) ''a'' i =
     (if i = ''e1'' then Some (sample_email\<lparr>em_keywords := [''$deleted'']\<rparr>)
      else if i = ''e2'' then Some (sample_email\<lparr>em_id := ''e2''\<rparr>) else None)"
  by (simp add: emails_by_id_def collect_map_def emails_for_def sample_inbox_def sample_email_def)

lemma sample_effective: "effective_account sample_conn = ''a''"
  by (simp add: effective_account_def sample_conn_def)

definition sample_woken :: fixture where
  "sample_woken = sample_inbox\<lparr>mailbox_uid_history := [(''mb'', [None, Some ''e2''])]\<rparr>"

theorem idle_keeps_client_in_step_witness:
  "in_step (idle_view (fst (idle_loop ''t'' ''mb'' [1, 2] sample_conn sample_inbox
       [IdleLine ''NOOP'', IdleWake sample_woken])) [Some 1, Some 2])
     (live_uids sample_woken ''a'' ''mb'')"
proof -
  have hist: "uid_history sample_woken m = (if m = ''mb'' then [None, Some ''e2''] else [])" for m
    by (simp add: sample_woken_def uid_history_def slots_of_def)
  have resolve: "slots_resolve sample_inbox ''a'' ''mb''" "slots_resolve sample_woken ''a'' ''mb''"
    unfolding slots_resolve_def sample_history hist
    using sample_emails_by_id [of "mailbox_uid_history sample_inbox"]
    by (auto simp: sample_woken_def sample_emails_by_id)
  have "[Some ''e1'', Some ''e2''] = ([Some ''e1''] @ []) @ [Some ''e2'']" by simp
  then have live: "live_uids sample_inbox ''a'' ''mb'' = [1, 2]"
    by (simp add: live_uids_positions resolve sample_history positions_def enumerate0_def)
  have "fixture_uids_extend sample_inbox sample_woken"
    by (auto simp: fixture_uids_extend_def hist sample_history uids_extend_def less_Suc_eq)
  then have wakes: "wakes_extend ''a'' ''mb'' sample_inbox [IdleLine ''NOOP'', IdleWake sample_woken]"
    using resolve by simp
  obtain out c' f' r where loop: "idle_loop ''t'' ''mb'' [1, 2] sample_conn sample_inbox
      [IdleLine ''NOOP'', IdleWake sample_woken] = (out, c', f', r)"
    by (metis prod_cases4)
  have "\<not> eq_ci (trim (strip_crlf ''NOOP'')) ''DONE''"
    by code_simp
  then have "f' = sample_woken"
    using loop by (simp add: Let_def)
  then show ?thesis
    using idle_keeps_client_in_step [of sample_inbox sample_conn "''mb''"
        "[IdleLine ''NOOP'', IdleWake sample_woken]" "[Some 1, Some 2]" "''t''"] resolve wakes loop
    by (simp add: sample_effective live in_step_def)
qed

end
