(* ===== verification/Imap_Expunge.thy ===== *)
theory Imap_Expunge
  imports Imap_Views
begin

text \<open>
  The effect of \<open>UID EXPUNGE\<close> and \<open>UID MOVE\<close> on the fixture and on the client's list. Both retire
  slots of the selected mailbox one message at a time; the lemmas collect the steps into one
  map over the emails and one over the UID history.
\<close>

subsection \<open>One email, one slot\<close>

text \<open>
  The mailbox and the emails agree: ids are unique, and an email has one live slot in the
  mailbox if it is a member and none if it is not.
\<close>

definition mailbox_ok :: "fixture \<Rightarrow> string \<Rightarrow> bool" where
  "mailbox_ok f mb \<longleftrightarrow> distinct (map em_id (emails f)) \<and>
     (\<forall>i. held f mb i = (if \<exists>e \<in> set (emails f). em_id e = i \<and> mb \<in> set (mailbox_ids e) then 1 else 0))"

definition vacate :: "string set \<Rightarrow> string option \<Rightarrow> string option" where
  "vacate I s = (if s \<in> Some ` I then None else s)"

lemma retire_slot_vacate:
  "count_list h (Some i) \<le> 1 \<Longrightarrow> retire_slot i h = map (vacate {i}) h"
proof (induction h)
  case (Cons s h)
  show ?case
  proof (cases "s = Some i")
    case True
    with Cons.prems have "Some i \<notin> set h" by (simp add: count_list_0_iff)
    then have "map (vacate {i}) h = h" by (auto simp: vacate_def intro!: map_idI)
    with True show ?thesis by (simp add: vacate_def [of _ "Some i"])
  qed (use Cons in \<open>auto simp: vacate_def\<close>)
qed simp

lemma vacate_vacate: "vacate I (vacate J s) = vacate (I \<union> J) s"
  by (auto simp: vacate_def)

lemma count_vacate: "count_list (map (vacate I) h) (Some i) = (if i \<in> I then 0 else count_list h (Some i))"
  by (induction h) (auto simp: vacate_def)

lemma find_id:
  "distinct (map k xs) \<Longrightarrow> find (\<lambda>x. k x = i) xs = Some x \<longleftrightarrow> x \<in> set xs \<and> k x = i"
  by (induction xs) auto

lemma email_with_id_Some:
  "distinct (map em_id (emails f)) \<Longrightarrow> email_with_id f i = Some e \<longleftrightarrow> e \<in> set (emails f) \<and> em_id e = i"
  unfolding email_with_id_def by (rule find_id)

lemma email_with_id_None: "email_with_id f i = None \<longleftrightarrow> i \<notin> em_id ` set (emails f)"
  by (auto simp: email_with_id_def find_None_iff)

subsection \<open>Slots\<close>

definition slots_view :: "string option list \<Rightarrow> (nat \<times> string) list" where
  "slots_view h = List.map_filter (\<lambda>(i, slot). map_option (Pair (i + 1)) slot) (enumerate0 h)"

lemma live_slots_view: "live_slots f mb = slots_view (uid_history f mb)"
  by (simp add: live_slots_def slots_view_def)

lemma slots_view_Nil [simp]: "slots_view [] = []"
  by (simp add: slots_view_def enumerate0_def map_filter_simps)

lemma slots_view_snoc [simp]:
  "slots_view (h @ [s]) = slots_view h @ (case s of Some i \<Rightarrow> [(length h + 1, i)] | None \<Rightarrow> [])"
  by (simp add: slots_view_def enumerate0_snoc map_filter_append map_filter_simps split: option.split)

lemma slots_view_vacate: "slots_view (map (vacate I) h) = filter (\<lambda>(u, i). i \<notin> I) (slots_view h)"
  by (induction h rule: rev_induct) (auto simp: vacate_def split: option.splits)

lemma slots_view_uids: "map fst (slots_view h) = positions (\<lambda>s. s \<noteq> None) h"
  by (induction h rule: rev_induct) (auto split: option.split)

lemma slots_view_ids: "i \<in> snd ` set (slots_view h) \<longleftrightarrow> Some i \<in> set h"
  by (induction h rule: rev_induct) (auto split: option.splits)

lemma slots_view_distinct: "\<forall>i. count_list h (Some i) \<le> 1 \<Longrightarrow> distinct (map snd (slots_view h))"
proof (induction h rule: rev_induct)
  case (snoc s h)
  have "\<forall>i. count_list h (Some i) \<le> 1"
    using snoc.prems by (auto intro: le_trans [OF le_add1])
  moreover have "i \<notin> snd ` set (slots_view h)" if "s = Some i" for i
    using snoc.prems [rule_format, of i] that by (simp add: slots_view_ids count_list_0_iff)
  ultimately show ?case
    using snoc.IH by (auto split: option.split)
qed simp

lemma live_ids_distinct: "mailbox_ok f mb \<Longrightarrow> distinct (map snd (live_slots f mb))"
  unfolding live_slots_view by (rule slots_view_distinct) (simp add: mailbox_ok_def held_def)

lemma live_ids_member:
  assumes "mailbox_ok f mb"
  shows "i \<in> snd ` set (live_slots f mb) \<longleftrightarrow> (\<exists>e \<in> set (emails f). em_id e = i \<and> mb \<in> set (mailbox_ids e))"
proof -
  have "i \<in> snd ` set (live_slots f mb) \<longleftrightarrow> count_list (uid_history f mb) (Some i) \<noteq> 0"
    by (simp add: live_slots_view slots_view_ids count_list_0_iff)
  then show ?thesis
    using assms unfolding mailbox_ok_def held_def by (smt (verit) zero_neq_one)
qed

lemma live_ids_known: "mailbox_ok f mb \<Longrightarrow> snd ` set (live_slots f mb) \<subseteq> em_id ` set (emails f)"
  by (rule subsetI) (auto simp only: live_ids_member)

text \<open>The slots picked by a predicate, when their ids are left out.\<close>

lemma filter_picked_ids:
  assumes "distinct (map snd xs)"
  shows "filter (\<lambda>(u, i). i \<notin> snd ` set (filter P xs)) xs = filter (\<lambda>x. \<not> P x) xs"
proof (rule filter_cong [OF refl])
  fix x
  assume x: "x \<in> set xs"
  have "snd x \<in> snd ` set (filter P xs) \<longleftrightarrow> P x"
  proof
    assume "snd x \<in> snd ` set (filter P xs)"
    then obtain y where "y \<in> set xs" and "P y" and "snd x = snd y" by auto
    moreover from this x assms have "y = x" by (metis distinct_map inj_on_def)
    ultimately show "P x" by simp
  next
    assume "P x"
    with x have "x \<in> set (filter P xs)" by simp
    then show "snd x \<in> snd ` set (filter P xs)" by (rule imageI)
  qed
  then show "(case x of (u, i) \<Rightarrow> i \<notin> snd ` set (filter P xs)) \<longleftrightarrow> \<not> P x"
    by (simp add: case_prod_unfold)
qed

lemma numbered_slots_filter:
  "map (\<lambda>(sq, _, i). (sq, i)) (filter (\<lambda>(_, ui). P ui) (numbered_slots f mb)) =
     zip (positions P (live_slots f mb)) (map snd (filter P (live_slots f mb)))"
proof -
  have "map (\<lambda>(sq, _, i). (sq, i)) (filter (\<lambda>(_, ui). P ui)
      (map (\<lambda>(k, (u, i)). (k + 1, u, i)) (enumerate0 xs))) = zip (positions P xs) (map snd (filter P xs))"
    for xs :: "(nat \<times> string) list"
  proof (induction xs rule: rev_induct)
    case (snoc x xs)
    have "length (positions P xs) = length (filter P xs)"
      by (induction xs rule: rev_induct) auto
    with snoc show ?case
      by (cases x) (auto simp: enumerate0_snoc)
  qed (simp add: enumerate0_def)
  then show ?thesis by (simp add: numbered_slots_def)
qed

subsection \<open>UID EXPUNGE\<close>

text \<open>What an expunge of the ids \<open>I\<close> does to an email: it leaves the mailbox, or is gone.\<close>

definition expunge_email :: "string \<Rightarrow> string set \<Rightarrow> email \<Rightarrow> email option" where
  "expunge_email mb I e =
     (if em_id e \<notin> I then Some e
      else
        let left = filter (\<lambda>m. m \<noteq> mb) (mailbox_ids e)
        in if left = [] then None else Some (e\<lparr>mailbox_ids := left\<rparr>))"

lemma expunge_email_id: "expunge_email mb I e = Some e' \<Longrightarrow> em_id e' = em_id e"
  by (auto simp: expunge_email_def Let_def split: if_splits)

lemma expunge_email_union:
  "i \<notin> I \<Longrightarrow> Option.bind (expunge_email mb {i} e) (expunge_email mb I) = expunge_email mb (insert i I) e"
  by (auto simp: expunge_email_def Let_def)

lemma map_filter_map_filter:
  "List.map_filter g (List.map_filter h xs) = List.map_filter (\<lambda>x. Option.bind (h x) g) xs"
  by (induction xs) (simp_all add: map_filter_simps split: option.split)

lemma map_filter_ids:
  assumes "\<And>x y. g x = Some y \<Longrightarrow> k y = k x"
  shows "set (map k (List.map_filter g xs)) \<subseteq> set (map k xs)"
    and "distinct (map k xs) \<Longrightarrow> distinct (map k (List.map_filter g xs))"
proof -
  show sub: "set (map k (List.map_filter g xs)) \<subseteq> set (map k xs)" for xs
    by (induction xs) (auto simp: map_filter_simps assms split: option.split)
  show "distinct (map k xs) \<Longrightarrow> distinct (map k (List.map_filter g xs))"
  proof (induction xs)
    case (Cons x xs)
    then show ?case
      using sub [of xs] by (auto simp: map_filter_simps assms split: option.split)
  qed (simp add: map_filter_simps)
qed

lemma update_email_fields [simp]:
  "uid_history (update_email i g f) mb = uid_history f mb"
  "account_logs (update_email i g f) = account_logs f"
  "mailboxes (update_email i g f) = mailboxes f"
  by (simp_all add: update_email_def uid_history_def)

lemma uid_history_emails [simp]: "uid_history (f\<lparr>emails := es\<rparr>) mb = uid_history f mb"
  by (simp add: uid_history_def)

lemma update_email_emails:
  "distinct (map em_id (emails f)) \<Longrightarrow>
     emails (update_email i g f) = map (\<lambda>e. if em_id e = i then g e else e) (emails f)"
  unfolding update_email_def by (simp add: update_first_distinct)

lemma map_filter_expunge_one:
  fixes mb :: string
  assumes "distinct (map em_id es)" and "e \<in> set es" and "em_id e = i"
  defines "left \<equiv> filter (\<lambda>m. m \<noteq> mb) (mailbox_ids e)"
  shows "List.map_filter (expunge_email mb {i}) es =
    (if left = [] then filter (\<lambda>x. em_id x \<noteq> i) es
     else map (\<lambda>x. if em_id x = i then x\<lparr>mailbox_ids := left\<rparr> else x) es)"
proof -
  have "x = e" if "x \<in> set es" "em_id x = i" for x
    using that assms(1-3) by (metis distinct_map inj_on_def)
  then have "expunge_email mb {i} x =
      (if em_id x = i then (if left = [] then None else Some (x\<lparr>mailbox_ids := left\<rparr>)) else Some x)"
    if "x \<in> set es" for x
    using that by (auto simp: expunge_email_def left_def Let_def)
  then have "List.map_filter (expunge_email mb {i}) es = List.map_filter
      (\<lambda>x. if em_id x = i then (if left = [] then None else Some (x\<lparr>mailbox_ids := left\<rparr>)) else Some x) es"
    by (auto simp: List.map_filter_def intro!: arg_cong [of _ _ "map the"] map_cong filter_cong
        cong: map_cong filter_cong)
  also have "\<dots> = (if left = [] then filter (\<lambda>x. em_id x \<noteq> i) es
     else map (\<lambda>x. if em_id x = i then x\<lparr>mailbox_ids := left\<rparr> else x) es)"
    by (induction es) (auto simp: map_filter_simps)
  finally show ?thesis .
qed

lemma expunge_one_effect:
  fixes mb :: string and sq :: nat and d :: mutation_diff
  assumes "distinct (map em_id (emails f))" and "held f mb i \<le> 1" and "i \<in> em_id ` set (emails f)"
  defines "f' \<equiv> snd (expunge_one mb (sq, i) (d, f))"
  shows "emails f' = List.map_filter (expunge_email mb {i}) (emails f)"
    and "uid_history f' m = (if m = mb then map (vacate {i}) (uid_history f mb) else uid_history f m)"
proof -
  obtain e where e: "email_with_id f i = Some e"
    using assms(3) email_with_id_None by blast
  then have mem: "e \<in> set (emails f)" "em_id e = i"
    using assms(1) by (simp_all add: email_with_id_Some)
  have ids: "distinct (map em_id (map (\<lambda>x. if em_id x = i then x\<lparr>mailbox_ids := ms\<rparr> else x) (emails f)))" for ms
    using assms(1) by (simp add: o_def if_distrib [of em_id] cong: if_cong)
  show "emails f' = List.map_filter (expunge_email mb {i}) (emails f)"
    unfolding map_filter_expunge_one [OF assms(1) mem]
    using e assms(1) ids remove_first_distinct [OF ids]
    by (auto simp: f'_def expunge_one_def Let_def update_email_emails filter_map o_def intro: map_idI)
  show "uid_history f' m = (if m = mb then map (vacate {i}) (uid_history f mb) else uid_history f m)"
    using e retire_slot_vacate [of "uid_history f mb" i] assms(2)
    by (auto simp: f'_def expunge_one_def Let_def uid_history_retire held_def)
qed

lemma fold_expunge:
  assumes "distinct (map snd vs)" and "snd ` set vs \<subseteq> em_id ` set (emails f)"
    and "distinct (map em_id (emails f))" and "\<forall>i. held f mb i \<le> 1"
  shows "emails (snd (fold (expunge_one mb) vs (d, f))) =
      List.map_filter (expunge_email mb (snd ` set vs)) (emails f) \<and>
    uid_history (snd (fold (expunge_one mb) vs (d, f))) m =
      (if m = mb then map (vacate (snd ` set vs)) (uid_history f mb) else uid_history f m)"
  using assms
proof (induction vs arbitrary: d f)
  case Nil
  have "List.map_filter (expunge_email mb {}) es = es" for es
    by (induction es) (simp_all add: map_filter_simps expunge_email_def)
  then show ?case by (auto simp: vacate_def intro!: map_idI [symmetric])
next
  case (Cons v vs)
  obtain sq i where v: "v = (sq, i)" by (cases v)
  let ?p = "expunge_one mb (sq, i) (d, f)"
  obtain d1 f1 where p: "?p = (d1, f1)" by (cases ?p)
  have i: "i \<in> em_id ` set (emails f)" "i \<notin> snd ` set vs" "held f mb i \<le> 1"
    using Cons.prems v by auto
  have e1: "emails f1 = List.map_filter (expunge_email mb {i}) (emails f)"
    and h1: "uid_history f1 m = (if m = mb then map (vacate {i}) (uid_history f mb) else uid_history f m)" for m
    using expunge_one_effect [OF Cons.prems(3) i(3,1), of sq d] p by simp_all
  have ids: "em_id ` set (emails f) - {i} \<subseteq> em_id ` set (emails f1)"
  proof
    fix j
    assume "j \<in> em_id ` set (emails f) - {i}"
    then obtain e where "e \<in> set (emails f)" "em_id e = j" "j \<noteq> i" by auto
    then have "expunge_email mb {i} e = Some e" by (simp add: expunge_email_def)
    with \<open>e \<in> set (emails f)\<close> have "e \<in> set (emails f1)"
      unfolding e1 by (force simp: List.map_filter_def)
    then show "j \<in> em_id ` set (emails f1)" using \<open>em_id e = j\<close> by blast
  qed
  have "distinct (map em_id (emails f1))"
    unfolding e1 by (rule map_filter_ids(2) [OF expunge_email_id Cons.prems(3)])
  moreover have "\<forall>j. held f1 mb j \<le> 1"
    using Cons.prems(4) by (simp add: held_def h1 count_vacate)
  moreover have "snd ` set vs \<subseteq> em_id ` set (emails f1)"
  proof
    fix j
    assume j: "j \<in> snd ` set vs"
    then have "j \<in> em_id ` set (emails f) - {i}" using Cons.prems(2) i(2) by auto
    with ids show "j \<in> em_id ` set (emails f1)" by (rule subsetD)
  qed
  ultimately have IH: "emails (snd (fold (expunge_one mb) vs (d1, f1))) =
      List.map_filter (expunge_email mb (snd ` set vs)) (emails f1) \<and>
    uid_history (snd (fold (expunge_one mb) vs (d1, f1))) m =
      (if m = mb then map (vacate (snd ` set vs)) (uid_history f1 mb) else uid_history f1 m)"
    using Cons.prems(1) by (intro Cons.IH) simp_all
  then show ?case
    using i(2) by (simp add: v p e1 h1 map_filter_map_filter expunge_email_union vacate_vacate)
qed

lemma mutate_fields [simp]:
  "emails (snd (mutate g f)) = emails (snd (g f))"
  "mailboxes (snd (mutate g f)) = mailboxes (snd (g f))"
  "uid_history (snd (mutate g f)) m = uid_history (snd (g f)) m"
proof -
  let ?f = "snd (g f)" and ?r = "snd (record_transition (fst (g f)) (snd (g f)))"
  have r: "?r = ?f\<lparr>account_logs := account_logs ?r\<rparr>"
    by (rule record_transition_frame)
  have m: "snd (mutate g f) = ?r"
    by (simp add: mutate_def case_prod_unfold Let_def)
  show "emails (snd (mutate g f)) = emails ?f" "mailboxes (snd (mutate g f)) = mailboxes ?f"
    "uid_history (snd (mutate g f)) m = uid_history ?f m"
    unfolding m by (subst r; simp add: uid_history_def)+
qed

lemma live_slots_mutate [simp]: "live_slots (snd (mutate g f)) mb = live_slots (snd (g f)) mb"
  by (simp add: live_slots_view)

text \<open>The messages an expunge takes: in the set and marked as deleted.\<close>

definition doomed :: "uid_set \<Rightarrow> fixture \<Rightarrow> nat \<times> string \<Rightarrow> bool" where
  "doomed uids f ui \<longleftrightarrow> uid_set_matches uids (fst ui) \<and>
     (\<exists>e \<in> set (emails f). em_id e = snd ui \<and> ''$deleted'' \<in> set (em_keywords e))"

lemma sort_key_fst_descending:
  "sorted_wrt (<) (map fst vs) \<Longrightarrow> sort_key (\<lambda>(sq, _). - int sq) vs = rev vs"
  by (induction vs) (auto simp: insort_key_last case_prod_unfold)

lemma expunge_victims_eq:
  assumes "distinct (map em_id (emails f))"
  shows "expunge_victims uids mb f = rev (zip (positions (doomed uids f) (live_slots f mb))
     (map snd (filter (doomed uids f) (live_slots f mb))))"
proof -
  have marked: "(case email_with_id f i of Some e \<Rightarrow> ''$deleted'' \<in> set (em_keywords e) | None \<Rightarrow> False) \<longleftrightarrow>
      (\<exists>e \<in> set (emails f). em_id e = i \<and> ''$deleted'' \<in> set (em_keywords e))" for i
  proof (cases "email_with_id f i")
    case None
    then have "\<forall>e \<in> set (emails f). em_id e \<noteq> i" by (auto simp: email_with_id_None)
    with None show ?thesis by simp
  next
    case (Some e)
    then have "e' = e" if "e' \<in> set (emails f)" "em_id e' = i" for e'
      using that email_with_id_Some [OF assms, of i e'] by simp
    moreover have "e \<in> set (emails f)" "em_id e = i"
      using Some email_with_id_Some [OF assms] by simp_all
    ultimately show ?thesis unfolding Some option.case by blast
  qed
  have eq: "(\<lambda>(sq :: nat, u, i). uid_set_matches uids u \<and>
      (case email_with_id f i of Some e \<Rightarrow> ''$deleted'' \<in> set (em_keywords e) | None \<Rightarrow> False)) =
      (\<lambda>(sq, ui). doomed uids f ui)"
    by (intro ext) (simp add: case_prod_unfold doomed_def marked)
  have len: "length (positions P xs) = length (filter P xs)" for P :: "nat \<times> string \<Rightarrow> bool" and xs
    by (induction xs rule: rev_induct) auto
  show ?thesis
    unfolding expunge_victims_def eq numbered_slots_filter
    by (rule sort_key_fst_descending) (simp add: len positions_sorted)
qed

lemma mem_expunged:
  "(\<exists>e \<in> set (List.map_filter (expunge_email mb I) es). em_id e = i \<and> mb \<in> set (mailbox_ids e)) \<longleftrightarrow>
     i \<notin> I \<and> (\<exists>e \<in> set es. em_id e = i \<and> mb \<in> set (mailbox_ids e))"
proof (induction es)
  case (Cons e es)
  have "(\<exists>e'. expunge_email mb I e = Some e' \<and> em_id e' = i \<and> mb \<in> set (mailbox_ids e')) \<longleftrightarrow>
      i \<notin> I \<and> em_id e = i \<and> mb \<in> set (mailbox_ids e)"
    by (auto simp: expunge_email_def Let_def split: if_splits)
  with Cons show ?case
    by (cases "expunge_email mb I e") (auto simp: map_filter_simps)
qed (simp add: map_filter_simps)

lemma mailbox_ok_after_expunge:
  assumes "mailbox_ok f mb" and "emails f' = List.map_filter (expunge_email mb I) (emails f)"
    and "uid_history f' mb = map (vacate I) (uid_history f mb)"
  shows "mailbox_ok f' mb"
proof -
  have "distinct (map em_id (emails f'))"
    unfolding assms(2)
    using assms(1) map_filter_ids(2) [where g = "expunge_email mb I" and k = em_id and xs = "emails f"]
    by (auto simp: mailbox_ok_def dest: expunge_email_id)
  moreover have "held f' mb i = (if i \<in> I then 0 else held f mb i)" for i
    by (simp add: held_def assms(3) count_vacate)
  ultimately show ?thesis
    using assms(1) unfolding mailbox_ok_def assms(2) mem_expunged by auto
qed

lemma client_step_completed [simp]: "client_step (reply tag (s @ '' completed'')) xs = xs"
  unfolding reply_def by (rule client_step_other) simp_all

text \<open>
  C5. UID EXPUNGE is exact, and the client can follow it. On a mailbox that agrees with its
  emails, the command retires the slots of exactly the messages of the set that are marked
  as deleted, destroys those that are in no other mailbox and takes the others out of this one; other
  mailboxes, UIDNEXT and the agreement are kept. A client that removes a message for each
  \<open>EXPUNGE\<close> line it reads ends with exactly the messages that are left.
\<close>

theorem uid_expunge_exact:
  assumes "mailbox_ok f mb" and "cn_state c = Selected" and "cn_selected c = Some mb"
    and "reject_shared_write tag ''UID EXPUNGE'' ''e'' c = None"
    and "parse_uid_set (trim args) = Some uids"
  shows "\<exists>out f'. cmd_uid_expunge tag args c f = Some (out, f') \<and>
    live_slots f' mb = filter (\<lambda>s. \<not> doomed uids f s) (live_slots f mb) \<and>
    client_view out (live_slots f mb) = live_slots f' mb \<and>
    emails f' = List.map_filter
      (expunge_email mb (snd ` set (filter (doomed uids f) (live_slots f mb)))) (emails f) \<and>
    (\<forall>m. m \<noteq> mb \<longrightarrow> uid_history f' m = uid_history f m) \<and>
    uidnext f' mb = uidnext f mb \<and> mailbox_ok f' mb"
proof -
  let ?live = "live_slots f mb" and ?P = "doomed uids f"
  let ?I = "snd ` set (filter ?P ?live)"
  let ?vs = "expunge_victims uids mb f"
  have ids: "distinct (map em_id (emails f))" and held: "\<forall>i. held f mb i \<le> 1"
    using assms(1) by (auto simp: mailbox_ok_def)
  have len: "length (positions Q xs) = length (filter Q xs)" for Q :: "nat \<times> string \<Rightarrow> bool" and xs
    by (induction xs rule: rev_induct) auto
  have vs: "?vs = rev (zip (positions ?P ?live) (map snd (filter ?P ?live)))"
    by (rule expunge_victims_eq [OF ids])
  have seqs: "map fst ?vs = rev (positions ?P ?live)"
    and sent: "map snd ?vs = rev (map snd (filter ?P ?live))"
    unfolding vs by (simp_all add: rev_map [symmetric] len)
  have vids: "snd ` set ?vs = ?I"
    using sent by (metis list.set_map set_rev)
  have dist: "distinct (map snd ?vs)"
    unfolding sent using live_ids_distinct [OF assms(1)] by (simp add: distinct_map_filter)
  have sub: "snd ` set ?vs \<subseteq> em_id ` set (emails f)"
  proof
    fix i
    assume "i \<in> snd ` set ?vs"
    then have "i \<in> snd ` set ?live" unfolding vids by auto
    then show "i \<in> em_id ` set (emails f)"
      unfolding live_ids_member [OF assms(1)] by blast
  qed
  obtain d f1 where fold: "fold (expunge_one mb) ?vs (diff_default, f) = (d, f1)"
    by (cases "fold (expunge_one mb) ?vs (diff_default, f)")
  note effect = fold_expunge [OF dist sub ids held, of diff_default, unfolded fold snd_conv vids]
  define f' where "f' = snd (mutate (\<lambda>_. (d, f1)) f)"
  have run: "cmd_uid_expunge tag args c f = Some (map expunge_line (map fst ?vs) @
      [reply tag ''OK UID EXPUNGE completed''], f')"
    using assms(2-5) fold by (simp add: cmd_uid_expunge_def expunge_messages_def Let_def f'_def)
  have hist: "uid_history f' m = (if m = mb then map (vacate ?I) (uid_history f mb) else uid_history f m)" for m
    using effect by (simp add: f'_def)
  have emails: "emails f' = List.map_filter (expunge_email mb ?I) (emails f)"
    using effect by (simp add: f'_def)
  have live: "live_slots f' mb = filter (\<lambda>s. \<not> ?P s) ?live"
    using filter_picked_ids [OF live_ids_distinct [OF assms(1)], of ?P]
    by (simp add: live_slots_view hist slots_view_vacate)
  have "client_view (map expunge_line (map fst ?vs) @ [reply tag (''OK UID EXPUNGE'' @ '' completed'')]) ?live =
      filter (\<lambda>s. \<not> ?P s) ?live"
    unfolding seqs client_view_append client_view_expunges
    using remove_descending [of ?P ?live "[]"] by (simp del: append.simps)
  then show ?thesis
    using run hist emails live mailbox_ok_after_expunge [OF assms(1) emails] by (simp add: uidnext_def)
qed

lemma sample_mailbox_ok: "mailbox_ok sample_inbox ''mb''"
proof -
  have "held sample_inbox ''mb'' i = (if i = ''e1'' \<or> i = ''e2'' then 1 else 0)" for i
    by (simp add: held_def sample_history)
  moreover have "emails sample_inbox = [sample_email\<lparr>em_keywords := [''$deleted'']\<rparr>, sample_email\<lparr>em_id := ''e2''\<rparr>]"
    by (simp add: sample_inbox_def)
  moreover have "em_id sample_email = ''e1''" "mailbox_ids sample_email = [''mb'']"
    by (simp_all add: sample_email_def)
  ultimately show ?thesis
    by (simp add: mailbox_ok_def)
qed

lemma parse_uid_set_single:
  assumes "n \<le> u32_max"
  shows "parse_uid_set (show_nat n) = Some [SetSingle n]"
proof -
  have "split_on CHR '','' (show_nat n) = [show_nat n]"
    by (rule split_on_no_sep) (simp add: show_nat_notin)
  moreover have none: "split_once CHR '':'' (show_nat n) = None"
    by (simp add: show_nat_notin)
  ultimately show ?thesis
    using assms by (simp add: parse_uid_set_def parse_set_part_def Let_def none)
qed

theorem uid_expunge_exact_witness:
  "\<exists>out f'. cmd_uid_expunge ''t'' ''1'' sample_conn sample_inbox = Some (out, f') \<and>
    client_view out (live_slots sample_inbox ''mb'') = live_slots f' ''mb'' \<and>
    uidnext f' ''mb'' = uidnext sample_inbox ''mb''"
proof -
  have c: "cn_state sample_conn = Selected" "cn_selected sample_conn = Some ''mb''"
    "cn_selected_account sample_conn = None"
    by (simp_all add: sample_conn_def)
  then have ok: "reject_shared_write ''t'' ''UID EXPUNGE'' ''e'' sample_conn = None"
    by (simp add: reject_shared_write_def)
  have "show_nat 1 = ''1''"
    by code_simp
  then have args: "parse_uid_set (trim ''1'') = Some [SetSingle 1]"
    using parse_uid_set_single [of 1] trim_show_nat [of 1] by simp
  show ?thesis
    using uid_expunge_exact [OF sample_mailbox_ok c(1,2) ok args] by blast
qed

end
