(* ===== verification/Imap_Move.thy ===== *)
theory Imap_Move
  imports Imap_Expunge
begin

text \<open>
  The effect of \<open>UID MOVE\<close> and \<open>UID COPY\<close> of \<open>src/imap.rs\<close>: what each step does to one email and to
  the two UID histories, collected over the messages of the set.
\<close>

subsection \<open>UID MOVE\<close>

definition move_email :: "string \<Rightarrow> string \<Rightarrow> string set \<Rightarrow> email \<Rightarrow> email" where
  "move_email mb t I e =
     (if em_id e \<notin> I then e
      else e\<lparr>mailbox_ids := filter (\<lambda>m. m \<noteq> mb)
               (if t \<in> set (mailbox_ids e) then mailbox_ids e else mailbox_ids e @ [t])\<rparr>)"

lemma move_email_id [simp]: "em_id (move_email mb t I e) = em_id e"
  by (simp add: move_email_def)

lemma move_email_union:
  "i \<notin> I \<Longrightarrow> move_email mb t I (move_email mb t {i} e) = move_email mb t (insert i I) e"
  by (simp add: move_email_def)

lemma map_ids [simp]: "map em_id (map (\<lambda>e. if em_id e = i then e\<lparr>mailbox_ids := g e\<rparr> else e) es) = map em_id es"
  by (induction es) simp_all

lemma move_one_effect:
  assumes "distinct (map em_id (emails f))" and "held f mb i \<le> 1" and "i \<in> em_id ` set (emails f)"
    and "t \<noteq> mb" and "move_one mb t (sq, uid, i) (r, d, f) = (r', d', f')"
  shows "emails f' = map (move_email mb t {i}) (emails f)"
    and "uid_history f' m =
      (if m = t then uid_history f t @ [Some i]
       else if m = mb then map (vacate {i}) (uid_history f mb) else uid_history f m)"
    and "r' = \<lparr>mv_src = mv_src r @ [uid], mv_dst = mv_dst r @ [uidnext f t], mv_seqs = mv_seqs r @ [sq]\<rparr>"
proof -
  obtain e where e: "email_with_id f i = Some e"
    using assms(3) email_with_id_None by blast
  then have mem: "e \<in> set (emails f)" "em_id e = i"
    using assms(1) by (simp_all add: email_with_id_Some)
  then have uniq: "x = e" if "x \<in> set (emails f)" "em_id x = i" for x
    using that assms(1) by (metis distinct_map inj_on_def)
  define f1 where "f1 = (if t \<notin> set (mailbox_ids e)
      then update_email i (\<lambda>e. e\<lparr>mailbox_ids := mailbox_ids e @ [t]\<rparr>) f else f)"
  define f2 where "f2 = snd (assign_uid t i f1)"
  have h1: "uid_history f1 m = uid_history f m" for m by (simp add: f1_def)
  have e1: "emails f1 = map (\<lambda>x. if em_id x = i then x\<lparr>mailbox_ids :=
      (if t \<in> set (mailbox_ids x) then mailbox_ids x else mailbox_ids x @ [t])\<rparr> else x) (emails f)"
    using assms(1) uniq by (auto simp: f1_def update_email_emails intro!: map_idI [symmetric])
  have ids1: "distinct (map em_id (emails f2))"
    using assms(1) unfolding f2_def assign_uid_fields e1 map_ids .
  have h2: "uid_history f2 m = (if m = t then uid_history f t @ [Some i] else uid_history f m)" for m
    by (simp add: f2_def uid_history_assign h1)
  have f': "f' = retire_uid mb i
      (update_email i (\<lambda>e. e\<lparr>mailbox_ids := filter (\<lambda>m. m \<noteq> mb) (mailbox_ids e)\<rparr>) f2)"
    and r': "r' = \<lparr>mv_src = mv_src r @ [uid], mv_dst = mv_dst r @ [fst (assign_uid t i f1)],
        mv_seqs = mv_seqs r @ [sq]\<rparr>"
    using assms(5) e by (auto simp: move_one_def f2_def f1_def Let_def case_prod_unfold)
  have "emails f' = map (\<lambda>x. if em_id x = i then x\<lparr>mailbox_ids := filter (\<lambda>m. m \<noteq> mb) (mailbox_ids x)\<rparr>
      else x) (emails f2)"
    using ids1 by (simp add: f' update_email_emails)
  also have "\<dots> = map (move_email mb t {i}) (emails f)"
    by (auto simp: f2_def e1 move_email_def)
  finally show "emails f' = map (move_email mb t {i}) (emails f)" .
  show "uid_history f' m = (if m = t then uid_history f t @ [Some i]
       else if m = mb then map (vacate {i}) (uid_history f mb) else uid_history f m)"
    using assms(2,4) retire_slot_vacate [of "uid_history f mb" i]
    by (auto simp: f' uid_history_retire h2 held_def)
  show "r' = \<lparr>mv_src = mv_src r @ [uid], mv_dst = mv_dst r @ [uidnext f t], mv_seqs = mv_seqs r @ [sq]\<rparr>"
    using r' by (simp add: assign_uid_result uidnext_def h1)
qed

lemma fold_move:
  assumes "distinct (map (\<lambda>(_, _, i). i) vs)" and "(\<lambda>(_, _, i). i) ` set vs \<subseteq> em_id ` set (emails f)"
    and "distinct (map em_id (emails f))" and "\<forall>i. held f mb i \<le> 1" and "t \<noteq> mb"
    and "fold (move_one mb t) vs (r, d, f) = (r', d', f')"
  shows "emails f' = map (move_email mb t ((\<lambda>(_, _, i). i) ` set vs)) (emails f) \<and>
    (\<forall>m. uid_history f' m =
      (if m = t then uid_history f t @ map (\<lambda>(_, _, i). Some i) vs
       else if m = mb then map (vacate ((\<lambda>(_, _, i). i) ` set vs)) (uid_history f mb)
       else uid_history f m)) \<and>
    r' = \<lparr>mv_src = mv_src r @ map (\<lambda>(_, uid, _). uid) vs,
          mv_dst = mv_dst r @ [uidnext f t ..< uidnext f t + length vs],
          mv_seqs = mv_seqs r @ map fst vs\<rparr>"
  using assms
proof (induction vs arbitrary: r d f)
  case Nil
  then show ?case by (auto simp: vacate_def move_email_def intro!: map_idI [symmetric])
next
  case (Cons v vs)
  obtain sq uid i where v: "v = (sq, uid, i)" by (cases v)
  obtain r1 d1 f1 where p: "move_one mb t (sq, uid, i) (r, d, f) = (r1, d1, f1)"
    by (cases "move_one mb t (sq, uid, i) (r, d, f)")
  have i: "i \<in> em_id ` set (emails f)" "i \<notin> (\<lambda>(_, _, i). i) ` set vs" "held f mb i \<le> 1"
    using Cons.prems v by (auto simp: case_prod_unfold)
  note e1 = move_one_effect(1) [OF Cons.prems(3) i(3,1) Cons.prems(5) p]
    and h1 = move_one_effect(2) [OF Cons.prems(3) i(3,1) Cons.prems(5) p]
    and r1 = move_one_effect(3) [OF Cons.prems(3) i(3,1) Cons.prems(5) p]
  have ids: "map em_id (emails f1) = map em_id (emails f)" by (simp add: e1)
  then have "em_id ` set (emails f1) = em_id ` set (emails f)"
    by (metis list.set_map)
  moreover have "\<forall>j. held f1 mb j \<le> 1"
    using Cons.prems(4,5) by (simp add: held_def h1 count_vacate)
  ultimately have IH: "emails f' = map (move_email mb t ((\<lambda>(_, _, i). i) ` set vs)) (emails f1) \<and>
    (\<forall>m. uid_history f' m =
      (if m = t then uid_history f1 t @ map (\<lambda>(_, _, i). Some i) vs
       else if m = mb then map (vacate ((\<lambda>(_, _, i). i) ` set vs)) (uid_history f1 mb)
       else uid_history f1 m)) \<and>
    r' = \<lparr>mv_src = mv_src r1 @ map (\<lambda>(_, uid, _). uid) vs,
          mv_dst = mv_dst r1 @ [uidnext f1 t ..< uidnext f1 t + length vs],
          mv_seqs = mv_seqs r1 @ map fst vs\<rparr>"
    using Cons.prems v p ids by (intro Cons.IH) auto
  have next1: "uidnext f1 t = Suc (uidnext f t)"
    by (simp add: uidnext_def h1)
  have moved: "move_email mb t ((\<lambda>(_, _, i). i) ` set vs) \<circ> move_email mb t {i} =
      move_email mb t (insert i ((\<lambda>(_, _, i). i) ` set vs))"
    by (rule ext) (simp add: move_email_union [OF i(2)])
  have vacated: "vacate ((\<lambda>(_, _, i). i) ` set vs) \<circ> vacate {i} =
      vacate (insert i ((\<lambda>(_, _, i). i) ` set vs))"
    by (rule ext) (simp add: vacate_vacate)
  have range: "[uidnext f t ..< uidnext f t + length (v # vs)] =
      uidnext f t # [uidnext f1 t ..< uidnext f1 t + length vs]"
    unfolding next1 by (simp add: upt_conv_Cons del: upt_Suc)
  have "emails f' = map (move_email mb t (insert i ((\<lambda>(_, _, i). i) ` set vs))) (emails f)"
    using IH by (simp add: e1 moved)
  moreover have "uid_history f' m =
      (if m = t then uid_history f t @ map (\<lambda>(_, _, i). Some i) (v # vs)
       else if m = mb then map (vacate (insert i ((\<lambda>(_, _, i). i) ` set vs))) (uid_history f mb)
       else uid_history f m)" for m
    using IH Cons.prems(5) by (simp add: h1 v vacated)
  ultimately show ?case
    using IH unfolding range by (simp add: v r1)
qed

lemma numbered_slots_parts:
  "map (\<lambda>(_, uid, i). (uid, i)) (filter (\<lambda>(_, ui). P ui) (numbered_slots f mb)) = filter P (live_slots f mb)"
  "map fst (filter (\<lambda>(_, ui). P ui) (numbered_slots f mb)) = positions P (live_slots f mb)"
proof -
  have "map (\<lambda>(_, uid, i). (uid, i)) (filter (\<lambda>(_, ui). P ui)
      (map (\<lambda>(k, (u, i)). (k + 1, u, i)) (enumerate0 xs))) = filter P xs \<and>
    map fst (filter (\<lambda>(_, ui). P ui)
      (map (\<lambda>(k, (u, i)). (k + 1, u, i)) (enumerate0 xs))) = positions P xs"
    for xs :: "(nat \<times> string) list"
  proof (induction xs rule: rev_induct)
    case (snoc x xs)
    then show ?case by (cases x) (auto simp: enumerate0_snoc)
  qed (simp add: enumerate0_def)
  then show "map (\<lambda>(_, uid, i). (uid, i)) (filter (\<lambda>(_, ui). P ui) (numbered_slots f mb)) = filter P (live_slots f mb)"
    "map fst (filter (\<lambda>(_, ui). P ui) (numbered_slots f mb)) = positions P (live_slots f mb)"
    by (simp_all add: numbered_slots_def)
qed

lemma sort_key_sorted: "sorted_wrt (<) (map k xs) \<Longrightarrow> sort_key k xs = xs" for k :: "'a \<Rightarrow> nat"
  by (rule sort_key_id_if_sorted) (simp add: strict_sorted_imp_sorted)

lemma live_slots_sorted: "sorted_wrt (<) (map fst (live_slots f mb))"
  by (simp add: live_slots_view slots_view_uids positions_sorted)

definition picked :: "uid_set \<Rightarrow> fixture \<Rightarrow> string \<Rightarrow> (nat \<times> string) list" where
  "picked uids f mb = filter (\<lambda>(uid, _). uid_set_matches uids uid) (live_slots f mb)"

lemma move_messages_effect:
  assumes "mailbox_ok f mb" and "t \<noteq> mb" and "move_messages uids mb t f = (r, d, f')"
  shows "emails f' = map (move_email mb t (snd ` set (picked uids f mb))) (emails f)"
    and "uid_history f' m =
      (if m = t then uid_history f t @ map (\<lambda>(_, i). Some i) (picked uids f mb)
       else if m = mb then map (vacate (snd ` set (picked uids f mb))) (uid_history f mb)
       else uid_history f m)"
    and "r = \<lparr>mv_src = map fst (picked uids f mb),
        mv_dst = [uidnext f t ..< uidnext f t + length (picked uids f mb)],
        mv_seqs = positions (\<lambda>(uid, _). uid_set_matches uids uid) (live_slots f mb)\<rparr>"
proof -
  let ?P = "\<lambda>(uid, _ :: string). uid_set_matches uids uid"
  define vs where "vs = filter (\<lambda>(_, ui). ?P ui) (numbered_slots f mb)"
  have pairs: "map (\<lambda>(_, uid, i). (uid, i)) vs = picked uids f mb"
    and seqs: "map fst vs = positions ?P (live_slots f mb)"
    unfolding vs_def picked_def by (rule numbered_slots_parts)+
  have uids: "map (\<lambda>(_, uid, _). uid) vs = map fst (picked uids f mb)"
    unfolding pairs [symmetric] by (simp add: case_prod_unfold)
  have ids: "map (\<lambda>(_, _, i). i) vs = map snd (picked uids f mb)"
    unfolding pairs [symmetric] by (simp add: case_prod_unfold)
  have some: "map (\<lambda>(_, _, i). Some i) vs = map (\<lambda>(_, i). Some i) (picked uids f mb)"
    unfolding pairs [symmetric] by (simp add: case_prod_unfold)
  have idset: "(\<lambda>(_, _, i). i) ` set vs = snd ` set (picked uids f mb)"
    using ids by (metis list.set_map)
  have "sorted_wrt (<) (map fst (picked uids f mb))"
    using live_slots_sorted [of f mb] unfolding picked_def sorted_wrt_map by (rule sorted_wrt_filter)
  then have sorted: "sort_key (\<lambda>(_, uid, _). uid) vs = vs"
    by (intro sort_key_sorted) (simp add: uids)
  have run: "fold (move_one mb t) vs (\<lparr>mv_src = [], mv_dst = [], mv_seqs = []\<rparr>, diff_default, f) = (r, d, f')"
    using assms(3) sorted by (simp add: move_messages_def vs_def case_prod_unfold Let_def)
  have dist: "distinct (map (\<lambda>(_, _, i). i) vs)"
    unfolding ids picked_def using live_ids_distinct [OF assms(1)] by (simp add: distinct_map_filter)
  have sub: "(\<lambda>(_, _, i). i) ` set vs \<subseteq> em_id ` set (emails f)"
    unfolding idset
  proof
    fix i
    assume "i \<in> snd ` set (picked uids f mb)"
    then have "i \<in> snd ` set (live_slots f mb)" by (auto simp: picked_def)
    then show "i \<in> em_id ` set (emails f)" unfolding live_ids_member [OF assms(1)] by blast
  qed
  have ok: "distinct (map em_id (emails f))" "\<forall>i. held f mb i \<le> 1"
    using assms(1) by (auto simp: mailbox_ok_def)
  note effect = fold_move [OF dist sub ok assms(2) run, unfolded idset some seqs uids]
  have len: "length vs = length (picked uids f mb)"
    using pairs by (metis length_map)
  show "emails f' = map (move_email mb t (snd ` set (picked uids f mb))) (emails f)"
    "uid_history f' m =
      (if m = t then uid_history f t @ map (\<lambda>(_, i). Some i) (picked uids f mb)
       else if m = mb then map (vacate (snd ` set (picked uids f mb))) (uid_history f mb)
       else uid_history f m)"
    "r = \<lparr>mv_src = map fst (picked uids f mb),
        mv_dst = [uidnext f t ..< uidnext f t + length (picked uids f mb)],
        mv_seqs = positions ?P (live_slots f mb)\<rparr>"
    using effect by (simp_all add: len)
qed

lemma slots_view_append_ids:
  "slots_view (h @ map (\<lambda>(_, i). Some i) ps) =
     slots_view h @ zip [length h + 1 ..< length h + 1 + length ps] (map snd ps)"
proof (induction ps arbitrary: h)
  case (Cons p ps)
  have "slots_view ((h @ [Some (snd p)]) @ map (\<lambda>(_, i). Some i) ps) = slots_view h @
      (length h + 1, snd p) # zip [length h + 2 ..< length h + 2 + length ps] (map snd ps)"
    unfolding Cons.IH by simp
  then show ?case
    by (simp add: case_prod_unfold upt_conv_Cons del: upt_Suc)
qed simp

lemma mem_moved:
  "t \<noteq> mb \<Longrightarrow>
     (\<exists>e \<in> set (map (move_email mb t I) es). em_id e = i \<and> mb \<in> set (mailbox_ids e)) \<longleftrightarrow>
     i \<notin> I \<and> (\<exists>e \<in> set es. em_id e = i \<and> mb \<in> set (mailbox_ids e))"
  by (auto simp: move_email_def split: if_splits)

lemma mailbox_ok_after_move:
  assumes "mailbox_ok f mb" and "emails f' = map (move_email mb t I) (emails f)" and "t \<noteq> mb"
    and "uid_history f' mb = map (vacate I) (uid_history f mb)"
  shows "mailbox_ok f' mb"
proof -
  have "em_id \<circ> move_email mb t I = em_id" by (rule ext) simp
  moreover have "held f' mb i = (if i \<in> I then 0 else held f mb i)" for i
    by (simp add: held_def assms(4) count_vacate)
  ultimately show ?thesis
    using assms(1) unfolding mailbox_ok_def assms(2) mem_moved [OF assms(3)] by auto
qed

lemma count_ids: "distinct (map snd ps) \<Longrightarrow>
    count_list (map (\<lambda>(_, i). Some i) ps) (Some j) = (if j \<in> snd ` set ps then 1 else 0)"
  by (induction ps) (auto simp: rev_image_eqI)

lemma last_reply [simp]: "last (xs @ [a]) = a" by simp

text \<open>
  C4. UID MOVE is exact. On a mailbox that agrees with its emails, the messages of the set, and only
  they, leave the selected mailbox and appear at the end of the target, in UID order, under the UIDs
  from the target's UIDNEXT on; these are the UIDs \<open>COPYUID\<close> reports. Other mailboxes are
  unchanged. A client in step stays in step by the \<open>EXPUNGE\<close> lines, and with QRESYNC \<open>VANISHED\<close>
  lists exactly the UIDs that left. A moved message gets one more slot in the target, so one that
  was already there has two.
\<close>

theorem uid_move_exact:
  assumes "mailbox_ok f mb" and "cn_state c = Selected" and "cn_selected c = Some mb"
    and "reject_shared_write tag ''UID MOVE'' ''it'' c = None"
    and "split_after_set args = Some (set_str, target_raw)" and "parse_uid_set set_str = Some uids"
    and "parse_one_astring target_raw = Some name"
    and "target_mailbox f (cn_account_id c) name = Some (Some t)" and "t \<noteq> mb"
  defines "ps \<equiv> picked uids f mb"
  shows "\<exists>out f'. cmd_uid_move tag args c f = Some (out, f') \<and>
    live_slots f' mb = filter (\<lambda>(uid, _). \<not> uid_set_matches uids uid) (live_slots f mb) \<and>
    live_slots f' t = live_slots f t @
      zip [uidnext f t ..< uidnext f t + length ps] (map snd ps) \<and>
    (ps \<noteq> [] \<longrightarrow> last out = reply tag (''OK [COPYUID 1 '' @ comma_list (map fst ps) @ '' '' @
       comma_list [uidnext f t ..< uidnext f t + length ps] @ ''] UID MOVE completed'')) \<and>
    (\<not> qresync_enabled c \<longrightarrow> client_view out (live_slots f mb) = live_slots f' mb) \<and>
    (qresync_enabled c \<and> ps \<noteq> [] \<longrightarrow> hd out = line (''* VANISHED '' @ comma_list (map fst ps))) \<and>
    emails f' = map (move_email mb t (snd ` set ps)) (emails f) \<and>
    (\<forall>m. m \<noteq> mb \<and> m \<noteq> t \<longrightarrow> uid_history f' m = uid_history f m) \<and>
    (\<forall>i. held f' t i = held f t i + (if i \<in> snd ` set ps then 1 else 0)) \<and> mailbox_ok f' mb"
proof -
  let ?P = "\<lambda>(uid, _ :: string). uid_set_matches uids uid" and ?I = "snd ` set ps"
  obtain r d f1 where mm: "move_messages uids mb t f = (r, d, f1)"
    by (cases "move_messages uids mb t f")
  define f' where "f' = snd (mutate (\<lambda>_. (d, f1)) f)"
  note effect = move_messages_effect [OF assms(1,9) mm, folded ps_def]
  have run: "cmd_uid_move tag args c f = Some (move_lines tag c r, f')"
    using assms(2-9) mm by (simp add: cmd_uid_move_def f'_def)
  have hist: "uid_history f' m =
      (if m = t then uid_history f t @ map (\<lambda>(_, i). Some i) ps
       else if m = mb then map (vacate ?I) (uid_history f mb) else uid_history f m)" for m
    using effect(2) by (simp add: f'_def)
  have emails: "emails f' = map (move_email mb t ?I) (emails f)"
    using effect(1) by (simp add: f'_def)
  have live: "live_slots f' mb = filter (\<lambda>x. \<not> ?P x) (live_slots f mb)"
    using filter_picked_ids [OF live_ids_distinct [OF assms(1)], of ?P] assms(9)
    by (simp add: live_slots_view hist slots_view_vacate ps_def picked_def)
  have target: "live_slots f' t = live_slots f t @ zip [uidnext f t ..< uidnext f t + length ps] (map snd ps)"
    by (simp add: live_slots_view hist slots_view_append_ids uidnext_def)
  have dist: "distinct (map snd ps)"
    unfolding ps_def picked_def using live_ids_distinct [OF assms(1)] by (simp add: distinct_map_filter)
  have held: "held f' t i = held f t i + (if i \<in> ?I then 1 else 0)" for i
    by (simp add: held_def hist count_ids [OF dist])
  have view: "client_view (move_lines tag c r) (live_slots f mb) = live_slots f' mb"
    if "\<not> qresync_enabled c"
  proof -
    have "client_step (line (tag @ '' '' @ s @ '' UID MOVE completed'')) xs = xs" for s and xs :: "(nat \<times> string) list"
      by (rule client_step_other) simp_all
    from this [of "''OK''"] this [of "''OK [COPYUID 1 '' @ comma_list (mv_src r) @ '' '' @ comma_list (mv_dst r) @ '']''"]
    show ?thesis
      using that live
      by (simp add: move_lines_def effect(3) client_view_expunge_lines reply_def)
  qed
  have "mailbox_ok f' mb"
    by (rule mailbox_ok_after_move [OF assms(1) emails assms(9)]) (simp add: hist assms(9) [symmetric])
  moreover have "ps \<noteq> [] \<longrightarrow> last (move_lines tag c r) = reply tag (''OK [COPYUID 1 '' @
      comma_list (map fst ps) @ '' '' @
      comma_list [uidnext f t ..< uidnext f t + length ps] @ ''] UID MOVE completed'')"
    by (simp add: move_lines_def effect(3))
  moreover have "qresync_enabled c \<and> ps \<noteq> [] \<longrightarrow>
      hd (move_lines tag c r) = line (''* VANISHED '' @ comma_list (map fst ps))"
    by (simp add: move_lines_def effect(3))
  ultimately show ?thesis
    using run live target view emails held hist by (auto simp: case_prod_unfold)
qed

lemma ancestors_top [simp]: "mb_parent_id m = None \<Longrightarrow> ancestors by_id m = Some []"
  by (simp add: ancestors.simps)

lemma sample_target: "target_mailbox sample_inbox ''a'' ''Archive'' = Some (Some ''arch'')"
  by code_simp (simp, code_simp)

lemma sample_args:
  "split_after_set ''1 Archive'' = Some (''1'', ''Archive'')" "parse_uid_set ''1'' = Some [SetSingle 1]"
  "parse_one_astring ''Archive'' = Some ''Archive''"
proof -
  show "split_after_set ''1 Archive'' = Some (''1'', ''Archive'')"
    by (simp add: split_after_set_def trim_graphic trim_start_graphic graphic_def)
  show "parse_one_astring ''Archive'' = Some ''Archive''"
    by code_simp
  have "show_nat 1 = ''1''"
    by code_simp
  then show "parse_uid_set ''1'' = Some [SetSingle 1]"
    using parse_uid_set_single [of 1] by simp
qed

theorem uid_move_exact_witness:
  "\<exists>out f'. cmd_uid_move ''t'' ''1 Archive'' sample_conn sample_inbox = Some (out, f') \<and>
    client_view out (live_slots sample_inbox ''mb'') = live_slots f' ''mb'' \<and>
    live_slots f' ''arch'' = live_slots sample_inbox ''arch'' @
      zip [uidnext sample_inbox ''arch'' ..< uidnext sample_inbox ''arch'' +
             length (picked [SetSingle 1] sample_inbox ''mb'')]
        (map snd (picked [SetSingle 1] sample_inbox ''mb''))"
proof -
  have c: "cn_state sample_conn = Selected" "cn_selected sample_conn = Some ''mb''"
    "cn_selected_account sample_conn = None" "cn_account_id sample_conn = ''a''" "\<not> qresync_enabled sample_conn"
    by (simp_all add: sample_conn_def)
  then have ok: "reject_shared_write ''t'' ''UID MOVE'' ''it'' sample_conn = None"
    by (simp add: reject_shared_write_def)
  show ?thesis
    using uid_move_exact [OF sample_mailbox_ok c(1,2) ok sample_args, of "''arch''"] sample_target c(4,5)
    by auto
qed

subsection \<open>UID COPY\<close>

definition copy_email :: "string \<Rightarrow> string set \<Rightarrow> email \<Rightarrow> email" where
  "copy_email t I e =
     (if em_id e \<in> I \<and> t \<notin> set (mailbox_ids e) then e\<lparr>mailbox_ids := mailbox_ids e @ [t]\<rparr> else e)"

lemma copy_email_id [simp]: "em_id (copy_email t I e) = em_id e"
  by (simp add: copy_email_def)

lemma copy_email_union: "copy_email t I (copy_email t {i} e) = copy_email t (insert i I) e"
  by (auto simp: copy_email_def)

definition member_of :: "fixture \<Rightarrow> string \<Rightarrow> string \<Rightarrow> bool" where
  "member_of f mb i \<longleftrightarrow> (\<exists>e \<in> set (emails f). em_id e = i \<and> mb \<in> set (mailbox_ids e))"

lemma member_of_email_with_id:
  assumes "distinct (map em_id (emails f))" and "email_with_id f i = Some e"
  shows "member_of f mb i \<longleftrightarrow> mb \<in> set (mailbox_ids e)"
proof -
  have "e' = e" if "e' \<in> set (emails f)" "em_id e' = i" for e'
    using that assms email_with_id_Some [OF assms(1), of i e'] by simp
  then show ?thesis
    using assms by (auto simp: member_of_def email_with_id_Some)
qed

lemma copy_one_effect:
  assumes "distinct (map em_id (emails f))" and "i \<in> em_id ` set (emails f)"
    and "copy_one uids t (u, i) (d, f) = (d', f')"
  defines "new \<equiv> uid_set_matches uids u \<and> \<not> member_of f t i"
  shows "emails f' = map (copy_email t (if new then {i} else {})) (emails f)"
    and "uid_history f' m = (if m = t \<and> new then uid_history f t @ [Some i] else uid_history f m)"
    and "mailboxes f' = mailboxes f"
    and "\<not> new \<Longrightarrow> (d', f') = (d, f)"
proof -
  obtain e where e: "email_with_id f i = Some e"
    using assms(2) email_with_id_None by blast
  note mem = member_of_email_with_id [OF assms(1) e]
  have idle: "map (copy_email t {}) es = es" for es
    by (rule map_idI) (simp add: copy_email_def)
  have eq: "x = e" if "x \<in> set (emails f)" "em_id x = i" for x
    using that e email_with_id_Some [OF assms(1), of i x] by simp
  show "emails f' = map (copy_email t (if new then {i} else {})) (emails f)"
    using assms(1,3) e eq
    by (auto simp: copy_one_def new_def mem idle update_email_emails copy_email_def split: if_splits)
  show "uid_history f' m = (if m = t \<and> new then uid_history f t @ [Some i] else uid_history f m)"
    "mailboxes f' = mailboxes f" "\<not> new \<Longrightarrow> (d', f') = (d, f)"
    using assms(3) e by (auto simp: copy_one_def new_def mem uid_history_assign split: if_splits)
qed

lemma mem_copy_email:
  "m \<in> set (mailbox_ids (copy_email t I e)) \<longleftrightarrow> m \<in> set (mailbox_ids e) \<or> (m = t \<and> em_id e \<in> I)"
  by (auto simp: copy_email_def)

lemma member_of_copied:
  "emails f' = map (copy_email t I) (emails f) \<Longrightarrow>
     member_of f' m i \<longleftrightarrow> member_of f m i \<or> (m = t \<and> i \<in> I \<and> i \<in> em_id ` set (emails f))"
  using mem_copy_email by (auto simp: member_of_def)

definition new_slots :: "uid_set \<Rightarrow> string \<Rightarrow> fixture \<Rightarrow> (nat \<times> string) list \<Rightarrow> (nat \<times> string) list" where
  "new_slots uids t f = filter (\<lambda>(u, i). uid_set_matches uids u \<and> \<not> member_of f t i)"

lemma fold_copy:
  assumes "distinct (map snd vs)" and "snd ` set vs \<subseteq> em_id ` set (emails f)"
    and "distinct (map em_id (emails f))" and "fold (copy_one uids t) vs (d, f) = (d', f')"
  shows "emails f' = map (copy_email t (snd ` set (new_slots uids t f vs))) (emails f) \<and>
    (\<forall>m. uid_history f' m =
       (if m = t then uid_history f t @ map (\<lambda>(_, i). Some i) (new_slots uids t f vs)
        else uid_history f m)) \<and>
    mailboxes f' = mailboxes f \<and> (new_slots uids t f vs = [] \<longrightarrow> (d', f') = (d, f))"
  using assms
proof (induction vs arbitrary: d f)
  case Nil
  then show ?case by (auto simp: copy_email_def new_slots_def intro!: map_idI [symmetric])
next
  case (Cons v vs)
  obtain u i where v: "v = (u, i)" by (cases v)
  obtain d1 f1 where p: "copy_one uids t (u, i) (d, f) = (d1, f1)"
    by (cases "copy_one uids t (u, i) (d, f)")
  let ?n = "uid_set_matches uids u \<and> \<not> member_of f t i"
  let ?new = "new_slots uids t f vs"
  have i: "i \<in> em_id ` set (emails f)" "i \<notin> snd ` set vs"
    using Cons.prems(1,2) v by auto
  note one = copy_one_effect [OF Cons.prems(3) i(1) p]
  have ids: "map em_id (emails f1) = map em_id (emails f)"
    by (simp add: one(1))
  have "member_of f1 t j \<longleftrightarrow> member_of f t j" if "j \<in> snd ` set vs" for j
    using that i(2) by (auto simp: member_of_copied [OF one(1)])
  then have same: "new_slots uids t f1 vs = ?new"
    unfolding new_slots_def by (intro filter_cong) force+
  have sub: "snd ` set vs \<subseteq> em_id ` set (emails f1)"
    using Cons.prems(2) ids by (metis (no_types, lifting) image_subset_iff list.set_intros(2) list.set_map)
  have IH: "emails f' = map (copy_email t (snd ` set ?new)) (emails f1) \<and>
    (\<forall>m. uid_history f' m =
       (if m = t then uid_history f1 t @ map (\<lambda>(_, i). Some i) ?new else uid_history f1 m)) \<and>
    mailboxes f' = mailboxes f1 \<and> (?new = [] \<longrightarrow> (d', f') = (d1, f1))"
    using Cons.IH [of f1 d1] Cons.prems v p ids sub unfolding same by simp
  have step: "new_slots uids t f (v # vs) = (if ?n then (u, i) # ?new else ?new)"
    by (simp add: new_slots_def v)
  have "copy_email t (snd ` set ?new) (copy_email t (if ?n then {i} else {}) e) =
      copy_email t (snd ` set (if ?n then (u, i) # ?new else ?new)) e" for e
    by (simp add: copy_email_union) (simp add: copy_email_def)
  then have "copy_email t (snd ` set ?new) \<circ> copy_email t (if ?n then {i} else {}) =
      copy_email t (snd ` set (if ?n then (u, i) # ?new else ?new))"
    by (simp add: fun_eq_iff)
  then have "emails f' = map (copy_email t (snd ` set (new_slots uids t f (v # vs)))) (emails f)"
    using IH by (simp only: step one(1) map_map)
  moreover have "uid_history f' m = (if m = t then uid_history f t @
      map (\<lambda>(_, i). Some i) (new_slots uids t f (v # vs)) else uid_history f m)" for m
    using IH by (auto simp: step one(2))
  moreover have "(d', f') = (d, f)" if "new_slots uids t f (v # vs) = []"
    using that IH one(4) by (simp add: step split: if_splits)
  ultimately show ?case
    using IH one(3) by simp
qed

lemma list_mailboxes_frame: "mailboxes f' = mailboxes f \<Longrightarrow> list_mailboxes f' = list_mailboxes f"
  by (rule ext) (simp add: list_mailboxes_def mailboxes_for_def mailbox_entry_def mailboxes_by_id_def cong: map_cong)

lemma target_mailbox_frame: "mailboxes f' = mailboxes f \<Longrightarrow> target_mailbox f' a name = target_mailbox f a name"
  by (simp add: target_mailbox_def list_mailboxes_frame [of f' f])

lemma mailbox_ok_member: "mailbox_ok f mb \<longleftrightarrow> distinct (map em_id (emails f)) \<and>
    (\<forall>i. held f mb i = (if member_of f mb i then 1 else 0))"
  by (simp add: mailbox_ok_def member_of_def)

text \<open>
  C26. UID COPY is exact and idempotent. On a mailbox that agrees with its emails, the messages of
  the set that are not yet in the target, and only they, join it, in UID order and under the UIDs
  from its UIDNEXT on; no other history changes, and the target agrees with its emails
  afterwards if it did before. The same command again changes nothing, the change logs included.
\<close>

theorem uid_copy_exact:
  assumes "mailbox_ok f mb" and "cn_state c = Selected" and "cn_selected c = Some mb"
    and "reject_shared_write tag ''UID COPY'' ''i'' c = None"
    and "split_after_set args = Some (set_str, target_raw)" and "parse_uid_set set_str = Some uids"
    and "parse_one_astring target_raw = Some name"
    and "target_mailbox f (cn_account_id c) name = Some (Some t)"
  defines "ps \<equiv> new_slots uids t f (live_slots f mb)"
  shows "\<exists>f'. cmd_uid_copy tag args c f = Some ([reply tag ''OK UID COPY completed''], f') \<and>
    emails f' = map (copy_email t (snd ` set ps)) (emails f) \<and>
    live_slots f' t = live_slots f t @ zip [uidnext f t ..< uidnext f t + length ps] (map snd ps) \<and>
    (\<forall>m. m \<noteq> t \<longrightarrow> uid_history f' m = uid_history f m) \<and>
    (mailbox_ok f t \<longrightarrow> mailbox_ok f' t) \<and>
    cmd_uid_copy tag args c f' = Some ([reply tag ''OK UID COPY completed''], f')"
proof -
  let ?vs = "live_slots f mb"
  have ids: "distinct (map em_id (emails f))"
    using assms(1) by (auto simp: mailbox_ok_def)
  have dist: "distinct (map snd ?vs)"
    by (rule live_ids_distinct [OF assms(1)])
  have sub: "snd ` set ?vs \<subseteq> em_id ` set (emails f)"
    by (rule live_ids_known [OF assms(1)])
  obtain d f1 where run: "fold (copy_one uids t) ?vs (diff_default, f) = (d, f1)"
    by (cases "fold (copy_one uids t) ?vs (diff_default, f)")
  note effect = fold_copy [OF dist sub ids run, folded ps_def]
  define f' where "f' = snd (mutate (copy_messages uids mb t) f)"
  have fields: "emails f' = emails f1" "mailboxes f' = mailboxes f1" "uid_history f' m = uid_history f1 m" for m
    by (simp_all add: f'_def copy_messages_def run)
  have em: "emails f' = map (copy_email t (snd ` set ps)) (emails f)"
    and hist: "uid_history f' m =
      (if m = t then uid_history f t @ map (\<lambda>(_, i). Some i) ps else uid_history f m)" for m
    using effect by (simp_all add: fields)
  have mbs: "mailboxes f' = mailboxes f"
    using effect by (simp add: fields)
  have once: "cmd_uid_copy tag args c g =
      Some ([reply tag ''OK UID COPY completed''], snd (mutate (copy_messages uids mb t) g))"
    if "mailboxes g = mailboxes f" for g
    using assms(2-8) target_mailbox_frame [OF that] by (simp add: cmd_uid_copy_def)
  have dist_ps: "distinct (map snd ps)" and sub_ps: "snd ` set ps \<subseteq> em_id ` set (emails f)"
    unfolding ps_def new_slots_def using dist sub by (auto simp: distinct_map_filter)
  have members: "member_of f' m i \<longleftrightarrow> member_of f m i \<or> (m = t \<and> i \<in> snd ` set ps)" for m i
    unfolding member_of_copied [OF em] using sub_ps by auto
  have ids': "distinct (map em_id (emails f'))"
    using ids by (simp add: em o_def)
  have ok: "mailbox_ok f' t" if "mailbox_ok f t"
  proof -
    have "\<not> member_of f t i" if "i \<in> snd ` set ps" for i
      using that by (auto simp: ps_def new_slots_def)
    then show ?thesis
      using that ids' by (auto simp: mailbox_ok_member members held_def hist count_ids [OF dist_ps])
  qed
  have "set (live_slots f' mb) \<subseteq> set ?vs \<union> {p. member_of f' t (snd p)} \<and> distinct (map snd (live_slots f' mb))
      \<and> snd ` set (live_slots f' mb) \<subseteq> em_id ` set (emails f')"
  proof (cases "mb = t")
    case True
    then have "member_of f t i" if "i \<in> snd ` set ?vs" for i
      using live_ids_member [OF assms(1)] that by (auto simp: member_of_def)
    then have "ps = []" by (force simp: ps_def new_slots_def filter_empty_conv)
    then show ?thesis
      using dist sub True by (simp add: live_slots_view hist em image_comp o_def)
  next
    case False
    then show ?thesis
      using dist sub by (auto simp: live_slots_view hist em image_comp o_def)
  qed
  moreover have "member_of f' t i" if "(u, i) \<in> set ?vs" "uid_set_matches uids u" for u i
    using that by (cases "member_of f t i") (force simp: members ps_def new_slots_def)+
  ultimately have again: "new_slots uids t f' (live_slots f' mb) = []"
    and dist': "distinct (map snd (live_slots f' mb))"
    and sub': "snd ` set (live_slots f' mb) \<subseteq> em_id ` set (emails f')"
    by (auto simp: new_slots_def filter_empty_conv)
  obtain d2 f2 where run2: "fold (copy_one uids t) (live_slots f' mb) (diff_default, f') = (d2, f2)"
    by (cases "fold (copy_one uids t) (live_slots f' mb) (diff_default, f')")
  then have "(d2, f2) = (diff_default, f')"
    using fold_copy [OF dist' sub' ids' run2] again by blast
  then have "snd (mutate (copy_messages uids mb t) f') = f'"
    using run2 record_transition_empty [of diff_default]
    by (simp add: mutate_def copy_messages_def diff_is_empty_def diff_default_def)
  moreover have "live_slots f' t = live_slots f t @ zip [uidnext f t ..< uidnext f t + length ps] (map snd ps)"
    by (simp add: live_slots_view hist slots_view_append_ids uidnext_def)
  ultimately show ?thesis
    using once [of f] once [OF mbs] em hist ok by (auto simp: f'_def [symmetric])
qed

theorem uid_copy_exact_witness:
  "\<exists>f'. cmd_uid_copy ''t'' ''1 Archive'' sample_conn sample_inbox =
      Some ([reply ''t'' ''OK UID COPY completed''], f') \<and>
    cmd_uid_copy ''t'' ''1 Archive'' sample_conn f' =
      Some ([reply ''t'' ''OK UID COPY completed''], f')"
proof -
  have c: "cn_state sample_conn = Selected" "cn_selected sample_conn = Some ''mb''"
    "cn_selected_account sample_conn = None" "cn_account_id sample_conn = ''a''"
    by (simp_all add: sample_conn_def)
  then have ok: "reject_shared_write ''t'' ''UID COPY'' ''i'' sample_conn = None"
    by (simp add: reject_shared_write_def)
  have target: "target_mailbox sample_inbox (cn_account_id sample_conn) ''Archive'' = Some (Some ''arch'')"
    using sample_target c(4) by simp
  show ?thesis
    using uid_copy_exact [OF sample_mailbox_ok c(1,2) ok sample_args target] by blast
qed

subsection \<open>UID STORE\<close>

text \<open>The ids that a STORE hits: those of the members whose count, from \<open>k\<close> on, is in the set.\<close>

definition store_hits :: "uid_set \<Rightarrow> string \<Rightarrow> nat \<Rightarrow> email list \<Rightarrow> string set" where
  "store_hits uids mb k es =
     {em_id e | j e. (j, e) \<in> set (enumerate k (filter (\<lambda>e. mb \<in> set (mailbox_ids e)) es)) \<and>
        uid_set_matches uids (j + 1)}"

lemma store_hits_Nil [simp]: "store_hits uids mb k [] = {}"
  by (simp add: store_hits_def)

lemma store_hits_Cons:
  "store_hits uids mb k (e # es) =
     (if mb \<in> set (mailbox_ids e)
      then (if uid_set_matches uids (k + 1) then {em_id e} else {}) \<union> store_hits uids mb (k + 1) es
      else store_hits uids mb k es)"
  by (auto simp: store_hits_def)

lemma store_hits_ids: "store_hits uids mb k es \<subseteq> em_id ` set es"
  by (induction es arbitrary: k) (auto simp: store_hits_Cons dest: subsetD)

lemma store_emails_effect:
  "distinct (map em_id es) \<Longrightarrow> fst (store_emails uids op mb k es) =
     map (\<lambda>e. if em_id e \<in> store_hits uids mb k es then snd (apply_in_place op e) else e) es"
proof (induction es arbitrary: k)
  case (Cons e es)
  have fresh: "em_id e \<notin> store_hits uids mb j es" for j
    using Cons.prems store_hits_ids [of uids mb j es] by auto
  have rest: "map (\<lambda>x. if em_id x = em_id e \<or> em_id x \<in> I then g x else x) es =
      map (\<lambda>x. if em_id x \<in> I then g x else x) es" for I g
    using Cons.prems by (intro map_cong) (auto simp: image_iff)
  show ?case
    using Cons.IH [of k] Cons.IH [of "k + 1"] Cons.prems fresh
    by (auto simp: store_hits_Cons Let_def rest split: prod.splits)
qed simp

lemma store_hits_in_order:
  assumes "uid_history f mb = map (\<lambda>e. Some (em_id e)) (filter (\<lambda>e. mb \<in> set (mailbox_ids e)) (emails f))"
  shows "store_hits uids mb 0 (emails f) = snd ` set (picked uids f mb)"
proof -
  define ms where "ms = filter (\<lambda>e. mb \<in> set (mailbox_ids e)) (emails f)"
  have "slots_view (map (\<lambda>e. Some (em_id e)) es) = map (\<lambda>(j, e). (j + 1, em_id e)) (enumerate 0 es)" for es
    by (induction es rule: rev_induct) (simp_all add: enumerate_append_eq)
  then have "live_slots f mb = map (\<lambda>(j, e). (j + 1, em_id e)) (enumerate 0 ms)"
    by (simp add: live_slots_view assms ms_def)
  then show ?thesis
    unfolding picked_def store_hits_def ms_def [symmetric]
    by (auto simp: image_iff case_prod_unfold) force+
qed

text \<open>
  UID STORE applies its operation to the emails of the mailbox whose count, in the order of the
  account's emails, is in the set, and to no other; UIDs do not change, and a silent STORE reports
  nothing. These are the messages with the UIDs of the set where every email of the mailbox was
  assigned its UID in this order and none has been expunged; otherwise they need not be.
\<close>

theorem uid_store_exact:
  assumes "distinct (map em_id (emails f))" and "cn_selected c = Some mb"
    and "reject_shared_write tag ''UID STORE'' ''w'' c = None"
    and "split_after_set args = Some (set_str, rest)" and "parse_uid_set set_str = Some uids"
    and "parse_store_op rest = Some op"
  shows "\<exists>out f'. cmd_uid_store tag args c f = Some (out @ [reply tag ''OK UID STORE completed''], f') \<and>
    emails f' = map (\<lambda>e. if em_id e \<in> store_hits uids mb 0 (emails f)
                         then snd (apply_in_place op e) else e) (emails f) \<and>
    (\<forall>m. uid_history f' m = uid_history f m) \<and> (so_silent op \<longrightarrow> out = []) \<and>
    (uid_history f mb = map (\<lambda>e. Some (em_id e)) (filter (\<lambda>e. mb \<in> set (mailbox_ids e)) (emails f)) \<longrightarrow>
      store_hits uids mb 0 (emails f) = snd ` set (picked uids f mb))"
proof -
  have silent: "so_silent op \<Longrightarrow> snd (snd (store_emails uids op mb k es)) = []" for k es
    by (induction es arbitrary: k) (simp_all add: Let_def case_prod_unfold)
  obtain out f' where run: "store_messages uids op mb f = (out, f')"
    by (cases "store_messages uids op mb f")
  then have "cmd_uid_store tag args c f = Some (out @ [reply tag ''OK UID STORE completed''], f')"
    using assms(2-6) by (simp add: cmd_uid_store_def)
  moreover from run have "emails f' = fst (store_emails uids op mb 0 (emails f))"
    "out = snd (snd (store_emails uids op mb 0 (emails f)))" "uid_history f' m = uid_history f m" for m
    by (auto simp: store_messages_def case_prod_unfold Let_def)
  ultimately show ?thesis
    using store_emails_effect [OF assms(1)] silent store_hits_in_order by simp
qed

text \<open>
  The mailbox of \<open>sample_inbox\<close> after its first message, UID 1, has been expunged: STORE of UID 1
  changes the message with UID 2.
\<close>

definition sample_expunged :: fixture where
  "sample_expunged = sample_inbox\<lparr>emails := [sample_email\<lparr>em_id := ''e2'', em_keywords := [''$seen'']\<rparr>],
     mailbox_uid_history := [(''mb'', [None, Some ''e2''])]\<rparr>"

theorem uid_store_exact_witness:
  "\<exists>out f'. cmd_uid_store ''t'' ''1 FLAGS ()'' sample_conn sample_expunged = Some (out, f') \<and>
    emails f' = [sample_email\<lparr>em_id := ''e2'', em_keywords := []\<rparr>] \<and>
    uid_history f' ''mb'' = [None, Some ''e2'']"
proof -
  have c: "cn_selected sample_conn = Some ''mb''" "cn_selected_account sample_conn = None"
    by (simp_all add: sample_conn_def)
  then have ok: "reject_shared_write ''t'' ''UID STORE'' ''w'' sample_conn = None"
    by (simp add: reject_shared_write_def)
  have args: "split_after_set ''1 FLAGS ()'' = Some (''1'', ''FLAGS ()'')"
    by (simp add: split_after_set_def trim_graphic trim_start_graphic graphic_def)
  have op: "parse_store_op ''FLAGS ()'' =
      Some \<lparr>so_kind = StoreReplace, so_flags = [], so_silent = False\<rparr>"
    by (simp add: parse_store_op_def parse_flag_list_def trim_def trim_start_graphic trim_end_graphic
        graphic_def str_simps Let_def strip_suffix_def)
  have emails: "emails sample_expunged = [sample_email\<lparr>em_id := ''e2'', em_keywords := [''$seen'']\<rparr>]"
    by (simp add: sample_expunged_def)
  have hits: "store_hits [SetSingle 1] ''mb'' 0 (emails sample_expunged) = {''e2''}"
    by (simp add: emails store_hits_Cons uid_set_matches_def sample_email_def)
  have stored: "snd (apply_in_place \<lparr>so_kind = StoreReplace, so_flags = [], so_silent = False\<rparr>
      (sample_email\<lparr>em_id := ''e2'', em_keywords := [''$seen'']\<rparr>)) = sample_email\<lparr>em_id := ''e2'', em_keywords := []\<rparr>"
    by code_simp
  have hist: "uid_history sample_expunged ''mb'' = [None, Some ''e2'']"
    by (simp add: sample_expunged_def uid_history_def slots_of_def)
  show ?thesis
    using uid_store_exact [OF _ c(1) ok args sample_args(2) op, of sample_expunged]
    unfolding hits by (auto simp: emails stored hist)
qed

end
