(* ===== verification/Imap_Safety.thy ===== *)
theory Imap_Safety
  imports Imap_Dispatch Imap_Move
begin

text \<open>
  What holds of every command of \<open>src/imap.rs\<close> and of whole sessions: the connection state keeps
  its invariant, the mailboxes stay a forest, every command is answered under its tag, credentials
  are not logged, and nothing of the fixture is served or changed before authentication.
\<close>

subsection \<open>Answers\<close>

definition answers :: "string \<Rightarrow> action list \<Rightarrow> bool" where
  "answers tag out \<longleftrightarrow> (\<exists>pre s. out = pre @ [reply tag s])"

lemma answers_reply [simp]: "answers tag [reply tag s]"
  by (auto simp: answers_def)

lemma answers_append [simp]: "answers tag (out @ [reply tag s])"
  by (auto simp: answers_def)

lemma answers_append2 [simp]: "answers tag (out @ out' @ [reply tag s])"
  using answers_append [of tag "out @ out'" s] by simp

lemma answers_Cons: "answers tag out \<Longrightarrow> answers tag (a # out)"
  unfolding answers_def by (metis append_Cons)

lemma answers_two [simp]: "answers tag [a, reply tag s]"
  by (simp add: answers_Cons)

subsection \<open>ASCII arguments\<close>

definition ascii_only :: "string \<Rightarrow> bool" where
  "ascii_only s \<longleftrightarrow> (\<forall>c \<in> set s. (of_char c :: nat) < 128)"

lemma ascii_only_sub: "set s \<subseteq> set s' \<Longrightarrow> ascii_only s' \<Longrightarrow> ascii_only s"
  by (auto simp: ascii_only_def)

lemma set_trim_start: "set (trim_start s) \<subseteq> set s"
proof (induction s rule: trim_start.induct)
  case (1 s)
  then show ?case by (subst trim_start.simps) (auto dest: in_set_dropD)
qed

lemma set_trim_start_rev: "set (trim_start_rev s) \<subseteq> set s"
proof (induction s rule: trim_start_rev.induct)
  case (1 s)
  then show ?case by (subst trim_start_rev.simps) (auto dest: in_set_dropD)
qed

lemma set_trim: "set (trim s) \<subseteq> set s"
  using set_trim_start [of s] set_trim_start_rev [of "rev (trim_start s)"]
  by (auto simp: trim_def trim_end_def)

lemma split_once_sub: "split_once c s = Some (a, b) \<Longrightarrow> set a \<subseteq> set s \<and> set b \<subseteq> set s"
  by (induction s arbitrary: a b) (auto split: if_splits)

lemma set_dropWhile_sub: "set (dropWhile P s) \<subseteq> set s"
  by (auto dest: set_dropWhileD)

lemma set_trim_end_char: "set (trim_end_char c s) \<subseteq> set s"
  using set_dropWhile_sub [of _ "rev s"] by (auto simp: trim_end_char_def)

lemma parse_command_line_sub:
  assumes "parse_command_line ln = Some p"
  shows "set (pa_args p) \<subseteq> set ln"
proof -
  let ?ln = "trim_end_char CHR '' '' ln" and ?skip = "dropWhile (\<lambda>x. x = CHR '' '')"
  obtain tag rest where split: "split_once CHR '' '' ?ln = Some (tag, rest)"
    using assms by (auto simp: parse_command_line_def Let_def split: if_splits option.splits)
  have rest: "set (?skip rest) \<subseteq> set ln"
    using split_once_sub [OF split] set_trim_end_char set_dropWhile_sub by (meson order_trans)
  show ?thesis
  proof (cases "split_once CHR '' '' (?skip rest)")
    case None
    show ?thesis
      using assms split by (auto simp: parse_command_line_def Let_def None split: if_splits)
  next
    case (Some x)
    obtain c a where x: "x = (c, a)" by (cases x)
    then have "pa_args p = ?skip a"
      using assms split Some by (auto simp: parse_command_line_def Let_def split: if_splits)
    moreover have "set a \<subseteq> set (?skip rest)"
      using split_once_sub Some x by blast
    ultimately show ?thesis
      using rest set_dropWhile_sub by (metis order_trans)
  qed
qed

lemma parse_uid_search_total: "ascii_only args \<Longrightarrow> parse_uid_search strptime args \<noteq> None"
proof -
  assume "ascii_only args"
  then have "ascii_only (trim args)" by (rule ascii_only_sub [OF set_trim])
  then have "(of_char (trim args ! n) :: nat) < 128" if "n < length (trim args)" for n
    using that by (simp add: ascii_only_def)
  then have "char_boundary (trim args) n" if "n \<le> length (trim args)" for n
    using that by (force simp: char_boundary_def le_less)
  then show ?thesis
    by (auto simp: parse_uid_search_def strip_prefix_ci_def Let_def split: option.splits)
qed

subsection \<open>The mailboxes stay a forest\<close>

definition tree_ok :: "fixture \<Rightarrow> bool" where
  "tree_ok f \<longleftrightarrow> distinct (map mb_id (mailboxes f)) \<and>
     (\<exists>r :: string \<Rightarrow> nat. \<forall>m \<in> set (mailboxes f). \<forall>p. mb_parent_id m = Some p \<longrightarrow>
        p \<in> mb_id ` set (mailboxes f) \<and> r p < r (mb_id m))"

lemma mailboxes_by_id_mem:
  "mailboxes_by_id f a i = Some m \<Longrightarrow> m \<in> set (mailboxes f) \<and> mb_id m = i"
  by (auto simp: mailboxes_by_id_def mailboxes_for_def dest!: collect_map_SomeD)

lemma ranked_by_id:
  assumes "\<forall>m \<in> set (mailboxes f). \<forall>p. mb_parent_id m = Some p \<longrightarrow>
      p \<in> mb_id ` set (mailboxes f) \<and> r p < r (mb_id m)"
  shows "parents_ranked r (mailboxes_by_id f a)"
  unfolding parents_ranked_def
proof (intro allI impI)
  fix i p parent
  assume "mailboxes_by_id f a i \<noteq> None" "mb_parent_id (the (mailboxes_by_id f a i)) = Some p"
  then obtain m where "mailboxes_by_id f a i = Some m" "mb_parent_id m = Some p" by auto
  with assms mailboxes_by_id_mem show "r p < r i" by blast
qed

lemma tree_ok_lists:
  assumes "tree_ok f"
  shows "\<exists>es. list_mailboxes f a = Some es"
proof -
  obtain r :: "string \<Rightarrow> nat" where r: "\<forall>m \<in> set (mailboxes f). \<forall>p. mb_parent_id m = Some p \<longrightarrow>
      p \<in> mb_id ` set (mailboxes f) \<and> r p < r (mb_id m)"
    and ids: "distinct (map mb_id (mailboxes f))"
    using assms by (auto simp: tree_ok_def)
  have "parents_ranked r (mailboxes_by_id f a)"
    by (rule ranked_by_id [OF r])
  moreover have "distinct (map mb_id (mailboxes_for f a))"
    using ids by (simp add: mailboxes_for_def distinct_map_filter)
  ultimately have "mailboxes_ok f a" by (auto simp: mailboxes_ok_def)
  from list_mailboxes_total [OF this] show ?thesis by blast
qed

lemma tree_ok_frame: "mailboxes f' = mailboxes f \<Longrightarrow> tree_ok f \<Longrightarrow> tree_ok f'"
  by (simp add: tree_ok_def)

lemma list_mailboxes_ids:
  assumes "list_mailboxes f a = Some es" and "e \<in> set es"
  shows "le_fixture_id e \<in> mb_id ` set (mailboxes f)"
proof -
  have all: "list_all2 (\<lambda>m e. mailbox_entry f a m = Some e) (mailboxes_for f a) es"
    using assms(1) by (simp add: list_mailboxes_def those_map_Some)
  obtain k where "k < length es" "es ! k = e"
    using assms(2) by (metis in_set_conv_nth)
  with list_all2_nthD2 [OF all, of k] list_all2_lengthD [OF all]
  have m: "mailbox_entry f a (mailboxes_for f a ! k) = Some e" "mailboxes_for f a ! k \<in> set (mailboxes_for f a)"
    by simp_all
  then have "le_fixture_id e = mb_id (mailboxes_for f a ! k)" by (auto simp: mailbox_entry_def)
  with m(2) show ?thesis by (auto simp: mailboxes_for_def)
qed

lemma tree_ok_push:
  assumes "tree_ok f" and "mb_id m \<notin> mb_id ` set (mailboxes f)"
    and "\<And>p. mb_parent_id m = Some p \<Longrightarrow> p \<in> mb_id ` set (mailboxes f)"
    and "mailboxes f' = mailboxes f @ [m]"
  shows "tree_ok f'"
proof -
  obtain r :: "string \<Rightarrow> nat" where r: "\<forall>m \<in> set (mailboxes f). \<forall>p. mb_parent_id m = Some p \<longrightarrow>
      p \<in> mb_id ` set (mailboxes f) \<and> r p < r (mb_id m)"
    and ids: "distinct (map mb_id (mailboxes f))"
    using assms(1) by (auto simp: tree_ok_def)
  define r' where "r' = r(mb_id m := (case mb_parent_id m of Some p \<Rightarrow> Suc (r p) | None \<Rightarrow> 0))"
  have old: "r' i = r i" if "i \<in> mb_id ` set (mailboxes f)" for i
    using that assms(2) by (metis fun_upd_other r'_def)
  have "p \<in> mb_id ` set (mailboxes f') \<and> r' p < r' (mb_id x)"
    if "x \<in> set (mailboxes f')" "mb_parent_id x = Some p" for x p
  proof (cases "x = m")
    case True
    with that assms(3) have p: "p \<in> mb_id ` set (mailboxes f)" by simp
    with old [OF p] True that show ?thesis by (auto simp: assms(4) r'_def)
  next
    case False
    with that have x: "x \<in> set (mailboxes f)" by (simp add: assms(4))
    with r that have "p \<in> mb_id ` set (mailboxes f)" "r p < r (mb_id x)" by blast+
    with old [of p] old [of "mb_id x"] x show ?thesis by (simp add: assms(4))
  qed
  moreover have "distinct (map mb_id (mailboxes f'))"
    using ids assms(2) by (simp add: assms(4))
  ultimately show ?thesis unfolding tree_ok_def by blast
qed

lemma tree_ok_drop:
  assumes "tree_ok f" and "\<forall>m \<in> set (mailboxes f). mb_parent_id m \<noteq> Some i"
    and "mailboxes f' = filter (\<lambda>m. mb_id m \<noteq> i) (mailboxes f)"
  shows "tree_ok f'"
proof -
  obtain r :: "string \<Rightarrow> nat" where r: "\<forall>m \<in> set (mailboxes f). \<forall>p. mb_parent_id m = Some p \<longrightarrow>
      p \<in> mb_id ` set (mailboxes f) \<and> r p < r (mb_id m)"
    and ids: "distinct (map mb_id (mailboxes f))"
    using assms(1) by (auto simp: tree_ok_def)
  have "p \<in> mb_id ` set (mailboxes f') \<and> r p < r (mb_id x)"
    if "x \<in> set (mailboxes f')" "mb_parent_id x = Some p" for x p
    using that r assms(2) by (force simp: assms(3))
  moreover have "distinct (map mb_id (mailboxes f'))"
    using ids by (simp add: assms(3) distinct_map_filter)
  ultimately show ?thesis unfolding tree_ok_def by blast
qed

lemma find_path_ids:
  "list_mailboxes f a = Some es \<Longrightarrow> find_path name es = Some e \<Longrightarrow> le_fixture_id e \<in> mb_id ` set (mailboxes f)"
  by (auto simp: find_path_def find_Some_iff intro: list_mailboxes_ids)

subsection \<open>Folder commands\<close>

lemma create_mailbox_ok:
  assumes "tree_ok f"
  shows "\<exists>r. create_mailbox a name f = Some r \<and> (\<forall>f'. r = Inr f' \<longrightarrow> tree_ok f')"
proof -
  obtain es where es: "list_mailboxes f a = Some es"
    using tree_ok_lists [OF assms] by blast
  have "tree_ok f'" if run: "create_mailbox a name f = Some (Inr f')" for f'
  proof -
    obtain pp leaf where split: "split_parent_leaf name = (pp, leaf)"
      by (cases "split_parent_leaf name")
    obtain parent where resolved: "resolve_parent ''CREATE'' name es pp = Inr parent"
      and f': "f' = snd (mutate (push_mailbox
        \<lparr>mb_id = fresh_mailbox_id f, mb_account_id = a, mb_name = leaf, mb_role = None,
          mb_parent_id = parent, sort_order = None, is_subscribed = True\<rparr>) f)"
      using run es split by (auto simp: create_mailbox_def split: if_splits sum.splits)
    then have parent: "parent = None \<or> (\<exists>e pp. find_path pp es = Some e \<and> parent = Some (le_fixture_id e))"
      by (auto simp: resolve_parent_def split: option.splits)
    show ?thesis
    proof (rule tree_ok_push [OF assms])
      show "mailboxes f' = mailboxes f @ [\<lparr>mb_id = fresh_mailbox_id f, mb_account_id = a,
          mb_name = leaf, mb_role = None, mb_parent_id = parent, sort_order = None, is_subscribed = True\<rparr>]"
        by (simp add: f' push_mailbox_def)
    qed (use parent find_path_ids [OF es] probe_fresh [of "map mb_id (mailboxes f)"] in
        \<open>auto simp: fresh_mailbox_id_def\<close>)
  qed
  then show ?thesis using es by (simp add: create_mailbox_def)
qed

lemma delete_mailbox_ok:
  assumes "tree_ok f"
  shows "\<exists>r. delete_mailbox a name f = Some r \<and> (\<forall>f'. r = Inr f' \<longrightarrow> tree_ok f')"
proof -
  obtain es where es: "list_mailboxes f a = Some es"
    using tree_ok_lists [OF assms] by blast
  have "tree_ok f'" if "delete_mailbox a name f = Some (Inr f')" for f'
  proof -
    from that es obtain i acc where f': "f' = snd (mutate (drop_mailbox i acc) f)"
      and free: "\<not> list_ex (\<lambda>m. mb_parent_id m = Some i) (mailboxes f)"
      by (auto simp: delete_mailbox_def Let_def split: if_splits option.splits)
    from free show ?thesis
      by (intro tree_ok_drop [OF assms]) (auto simp: f' drop_mailbox_def Let_def list_ex_iff)
  qed
  then show ?thesis using es by (simp add: delete_mailbox_def)
qed

lemma folder_reply_answers: "folder_reply tag verb f r = (out, f') \<Longrightarrow> answers tag out"
  by (auto simp: folder_reply_def split: sum.splits)

lemma folder_reply_tree:
  "tree_ok f \<Longrightarrow> \<forall>g. r = Inr g \<longrightarrow> tree_ok g \<Longrightarrow> folder_reply tag verb f r = (out, f') \<Longrightarrow> tree_ok f'"
  by (auto simp: folder_reply_def split: sum.splits)

lemma cmd_create_ok:
  assumes "tree_ok f"
  shows "\<exists>out f'. cmd_create tag args c f = Some (out, f') \<and> answers tag out \<and> tree_ok f'"
proof (cases "parse_one_astring args")
  case (Some name)
  let ?n = "trim_end_char CHR ''/'' name"
  obtain r where r: "create_mailbox (cn_account_id c) ?n f = Some r" "\<forall>g. r = Inr g \<longrightarrow> tree_ok g"
    using create_mailbox_ok [OF assms] by blast
  obtain out f' where o: "folder_reply tag ''CREATE'' f r = (out, f')"
    by (cases "folder_reply tag ''CREATE'' f r")
  show ?thesis
    using Some r o assms folder_reply_answers [OF o] folder_reply_tree [OF assms r(2) o]
    by (simp add: cmd_create_def Let_def)
qed (use assms in \<open>simp add: cmd_create_def\<close>)

lemma cmd_delete_ok:
  assumes "tree_ok f"
  shows "\<exists>out f'. cmd_delete tag args c f = Some (out, f') \<and> answers tag out \<and> tree_ok f'"
proof (cases "parse_one_astring args")
  case (Some name)
  let ?n = "trim_end_char CHR ''/'' name"
  obtain r where r: "delete_mailbox (cn_account_id c) ?n f = Some r" "\<forall>g. r = Inr g \<longrightarrow> tree_ok g"
    using delete_mailbox_ok [OF assms] by blast
  obtain out f' where o: "folder_reply tag ''DELETE'' f r = (out, f')"
    by (cases "folder_reply tag ''DELETE'' f r")
  show ?thesis
    using Some r o assms folder_reply_answers [OF o] folder_reply_tree [OF assms r(2) o]
    by (simp add: cmd_delete_def Let_def)
qed (use assms in \<open>simp add: cmd_delete_def\<close>)

lemma cmd_rename_ok:
  assumes "tree_ok f"
  shows "\<exists>out f'. cmd_rename tag args c f = Some (out, f') \<and> answers tag out"
proof -
  obtain es where "list_mailboxes f (cn_account_id c) = Some es"
    using tree_ok_lists [OF assms] by blast
  then have "\<exists>r. rename_mailbox (cn_account_id c) x y f = Some r" for x y
    by (simp add: rename_mailbox_def)
  then show ?thesis
    by (auto simp: cmd_rename_def split: option.split) (metis folder_reply_answers surj_pair)
qed

subsection \<open>Name resolution\<close>

lemma list_shared_total: "tree_ok f \<Longrightarrow> \<exists>xs. list_shared_mailboxes f viewer = Some xs"
proof -
  assume ok: "tree_ok f"
  have "shared_entry f g \<noteq> None" for g
    using tree_ok_lists [OF ok] by (auto simp: shared_entry_def Let_def split: option.split)
  then have "those (map (shared_entry f) (acls_for_viewer f viewer)) \<noteq> None"
    by (intro those_map_total) blast
  then show ?thesis by (auto simp: list_shared_mailboxes_def)
qed

lemma resolve_total: "tree_ok f \<Longrightarrow> \<exists>r. resolve_mailbox_name f a name = Some r"
  using tree_ok_lists [of f a] list_shared_total [of f a] by (auto simp: resolve_mailbox_name_def)

lemma any_owner_total: "tree_ok f \<Longrightarrow> any_owner f viewer rest as \<noteq> None"
proof (induction as)
  case (Cons a as)
  then show ?case using tree_ok_lists [of f "ac_id a"] by (force split: option.split)
qed simp

lemma shared_path_total: "tree_ok f \<Longrightarrow> \<exists>b. shared_mailbox_path_exists f viewer p = Some b"
  using any_owner_total [of f viewer] by (auto simp: shared_mailbox_path_exists_def split: option.split)

subsection \<open>The connection\<close>

text \<open>
  A connection has a mailbox selected in the Selected state, may keep it over a LOGOUT, and has none
  before; the rights and the owner belong to the selection.
\<close>

definition wf_conn :: "conn \<Rightarrow> bool" where
  "wf_conn c \<longleftrightarrow>
     (cn_state c = Selected \<longrightarrow> cn_selected c \<noteq> None) \<and>
     (cn_state c \<in> {NotAuthenticated, Authenticated} \<longrightarrow> cn_selected c = None) \<and>
     (cn_selected c = None \<longleftrightarrow> cn_selected_rights c = None) \<and>
     (cn_selected c = None \<longrightarrow> cn_selected_account c = None)"

lemma wf_conn_new: "wf_conn (conn_new f n)"
  by (simp add: wf_conn_def conn_new_def)

lemma wf_logout: "wf_conn c \<Longrightarrow> wf_conn (c\<lparr>cn_state := Logout\<rparr>)"
  by (simp add: wf_conn_def)

lemma wf_deselect: "wf_conn (deselect c)"
  by (simp add: wf_conn_def deselect_def)

lemma wf_accept: "wf_conn c \<Longrightarrow> cn_state c = NotAuthenticated \<Longrightarrow> wf_conn ((bind_account i c)\<lparr>cn_state := Authenticated\<rparr>)"
  by (auto simp: wf_conn_def bind_account_def split: option.split)

lemma wf_accept_self: "wf_conn c \<Longrightarrow> cn_state c = NotAuthenticated \<Longrightarrow> wf_conn (c\<lparr>cn_state := Authenticated\<rparr>)"
  by (auto simp: wf_conn_def)

lemma wf_qresync: "wf_conn c \<Longrightarrow> wf_conn (c\<lparr>qresync_enabled := b\<rparr>)"
  by (auto simp: wf_conn_def)

lemmas wf_intros = wf_logout wf_deselect wf_accept wf_accept_self wf_qresync

lemma cmd_login_ok:
  "wf_conn c \<Longrightarrow> cmd_login f tag args c = (out, c') \<Longrightarrow> answers tag out \<and> wf_conn c'"
  by (auto simp: cmd_login_def Let_def wf_intros split: if_splits option.splits)

lemma authenticate_finish_ok:
  "wf_conn c \<Longrightarrow> cn_state c = NotAuthenticated \<Longrightarrow> authenticate_finish f ts tag mech b64 c = (out, c') \<Longrightarrow>
     answers tag out \<and> wf_conn c'"
  by (auto simp: authenticate_finish_def Let_def wf_intros split: if_splits option.splits)

lemma cmd_authenticate_ok:
  assumes "wf_conn c" and "cmd_authenticate f ts cont tag args c = (out, c')"
  shows "wf_conn c'" and "cont \<noteq> None \<Longrightarrow> answers tag out"
proof -
  have "wf_conn c' \<and> (cont \<noteq> None \<longrightarrow> answers tag out)"
  proof (cases "cn_state c = NotAuthenticated")
    case True
    have fin: "answers tag o1 \<and> wf_conn c1" if "authenticate_finish f ts tag mech b64 c = (o1, c1)" for mech b64 o1 c1
      using authenticate_finish_ok [OF assms(1) True that] .
    show ?thesis
      using assms True
      by (auto simp: cmd_authenticate_def Let_def answers_Cons apfst_def map_prod_def
          split: if_splits option.splits prod.splits dest!: fin)
  next
    case False
    then show ?thesis using assms by (auto simp: cmd_authenticate_def)
  qed
  then show "wf_conn c'" "cont \<noteq> None \<Longrightarrow> answers tag out" by blast+
qed

lemma cmd_enable_ok: "wf_conn c \<Longrightarrow> cmd_enable tag args c = (out, c') \<Longrightarrow> answers tag out \<and> wf_conn c'"
  by (auto simp: cmd_enable_def Let_def wf_intros split: if_splits)

lemma cmd_close_ok: "wf_conn c \<Longrightarrow> cmd_close tag c = (out, c') \<Longrightarrow> answers tag out \<and> wf_conn c'"
  by (auto simp: cmd_close_def wf_intros split: if_splits)

lemma cmd_logout_ok: "wf_conn c \<Longrightarrow> cmd_logout tag c = (out, c') \<Longrightarrow> answers tag out \<and> wf_conn c'"
  by (auto simp: cmd_logout_def wf_intros)

subsection \<open>Commands that only read\<close>

lemma cmd_list_ok: "tree_ok f \<Longrightarrow> \<exists>out. cmd_list f tag args c = Some out \<and> answers tag out"
  using tree_ok_lists [of f "cn_account_id c"] list_shared_total [of f "cn_account_id c"]
  by (auto simp: cmd_list_def split: option.split)

lemma cmd_myrights_ok:
  assumes "tree_ok f"
  shows "\<exists>out. cmd_myrights f tag args c = Some out \<and> answers tag out"
proof (cases "parse_one_astring args")
  case (Some name)
  obtain r where "resolve_mailbox_name f (cn_account_id c) name = Some r"
    using resolve_total [OF assms] by blast
  with Some show ?thesis by (cases r) (simp_all add: cmd_myrights_def)
qed (simp add: cmd_myrights_def)

lemma cmd_getacl_ok:
  assumes "tree_ok f"
  shows "\<exists>out. cmd_getacl f tag args c = Some out \<and> answers tag out"
proof (cases "parse_one_astring args")
  case (Some name)
  obtain r where "resolve_mailbox_name f (cn_account_id c) name = Some r"
    using resolve_total [OF assms] by blast
  with Some show ?thesis by (cases r) (simp_all add: cmd_getacl_def)
qed (simp add: cmd_getacl_def)

lemma cmd_status_ok: "tree_ok f \<Longrightarrow> \<exists>out. cmd_status f tag args c = Some out \<and> answers tag out"
  using tree_ok_lists [of f "cn_account_id c"]
  by (auto simp: cmd_status_def Let_def split: option.split)

lemma cmd_select_ok:
  assumes "tree_ok f" and "wf_conn c"
  shows "\<exists>out c'. cmd_select f tag args rw c = Some (out, c') \<and> answers tag out \<and> wf_conn c'"
proof (cases "is_authenticated c")
  case True
  show ?thesis
  proof (cases "parse_select_args args")
    case (Some sel)
    obtain r where r: "resolve_mailbox_name f (cn_account_id c) (sel_name sel) = Some r"
      using resolve_total [OF assms(1)] by blast
    obtain b where b: "shared_mailbox_path_exists f (cn_account_id c) (sel_name sel) = Some b"
      using shared_path_total [OF assms(1)] by blast
    show ?thesis
    proof (cases r)
      case None
      then show ?thesis
        using True Some r b by (simp add: cmd_select_def wf_deselect)
    next
      case (Some m)
      then show ?thesis
        using True \<open>parse_select_args args = Some sel\<close> r by (simp add: cmd_select_def wf_conn_def)
    qed
  qed (use True assms(2) in \<open>simp add: cmd_select_def\<close>)
qed (use assms(2) in \<open>simp add: cmd_select_def\<close>)

subsection \<open>The UID commands\<close>

lemma fold_frame:
  "(\<And>x s. P (h x s) = P s) \<Longrightarrow> P (fold h xs s) = P s"
  by (induction xs arbitrary: s) simp_all

lemma copy_messages_mailboxes: "mailboxes (snd (copy_messages uids mb t f)) = mailboxes f"
proof -
  have "mailboxes (snd (copy_one uids t x s)) = mailboxes (snd s)" for x s
    by (auto simp: copy_one_def split: prod.split option.split)
  then show ?thesis
    unfolding copy_messages_def
    by (subst fold_frame [where P = "\<lambda>s. mailboxes (snd s)"]) simp_all
qed

lemma move_messages_mailboxes: "mailboxes (snd (snd (move_messages uids mb t f))) = mailboxes f"
proof -
  have "mailboxes (snd (snd (move_one mb t (sq, u, i) (r, d, g)))) = mailboxes g" for sq u i r d g
    by (simp add: move_one_def Let_def case_prod_unfold split: option.split)
  then have "mailboxes (snd (snd (move_one mb t x s))) = mailboxes (snd (snd s))" for x s
    by (metis prod_cases3 snd_conv)
  then show ?thesis
    unfolding move_messages_def Let_def
    by (subst fold_frame [where P = "\<lambda>s. mailboxes (snd (snd s))"]) simp_all
qed

lemma expunge_messages_mailboxes: "mailboxes (snd (snd (expunge_messages uids mb f))) = mailboxes f"
proof -
  have "mailboxes (snd (expunge_one mb x s)) = mailboxes (snd s)" for x s
    by (auto simp: expunge_one_def Let_def split: prod.split option.split)
  then show ?thesis
    unfolding expunge_messages_def Let_def snd_conv
    by (subst fold_frame [where P = "\<lambda>s. mailboxes (snd s)"]) simp_all
qed

lemma reject_answers: "reject_shared_write tag cmd needed c = Some out \<Longrightarrow> answers tag out"
  by (auto simp: reject_shared_write_def split: if_splits)

lemma target_total:
  assumes "tree_ok f"
  shows "\<exists>t. target_mailbox f a name = Some t"
  using tree_ok_lists [OF assms, of a] by (auto simp: target_mailbox_def)

definition kept_and_answered :: "string \<Rightarrow> fixture \<Rightarrow> (action list \<times> fixture) option \<Rightarrow> bool" where
  "kept_and_answered tag f r \<longleftrightarrow> (\<exists>out f'. r = Some (out, f') \<and> answers tag out \<and> mailboxes f' = mailboxes f)"

lemma kept_and_answered_Some [simp]:
  "kept_and_answered tag f (Some p) \<longleftrightarrow> answers tag (fst p) \<and> mailboxes (snd p) = mailboxes f"
  by (cases p) (simp add: kept_and_answered_def)

lemma cmd_uid_store_ok:
  assumes "cn_selected c = Some mb"
  shows "kept_and_answered tag f (cmd_uid_store tag args c f)"
  using assms reject_answers
  by (auto simp: cmd_uid_store_def store_messages_def case_prod_unfold Let_def split: option.split)

lemma cmd_uid_copy_ok:
  assumes "tree_ok f" and "cn_selected c = Some mb"
  shows "kept_and_answered tag f (cmd_uid_copy tag args c f)"
proof -
  have "kept_and_answered tag f (do {
      selected_id \<leftarrow> cn_selected c;
      target \<leftarrow> target_mailbox f (cn_account_id c) name;
      Some (case target of
        None \<Rightarrow> ([reply tag (''NO [TRYCREATE] unknown mailbox '' @ debug_str name)], f)
      | Some t \<Rightarrow> ([reply tag ''OK UID COPY completed''], snd (mutate (copy_messages uids selected_id t) f)))})"
    for name uids
  proof -
    obtain t where "target_mailbox f (cn_account_id c) name = Some t"
      using target_total [OF assms(1)] by blast
    then show ?thesis
      using assms(2) by (cases t) (simp_all add: copy_messages_mailboxes)
  qed
  then show ?thesis
    using reject_answers unfolding cmd_uid_copy_def
    by (auto split: option.split)
qed

lemma cmd_uid_move_ok:
  assumes "tree_ok f" and "cn_selected c = Some mb"
  shows "kept_and_answered tag f (cmd_uid_move tag args c f)"
proof -
  have lines: "answers tag (move_lines tag c r)" for r
    by (simp add: move_lines_def)
  have "kept_and_answered tag f (do {
      selected_id \<leftarrow> cn_selected c;
      target \<leftarrow> target_mailbox f (cn_account_id c) name;
      Some (case target of
        None \<Rightarrow> ([reply tag (''NO [TRYCREATE] unknown mailbox '' @ debug_str name)], f)
      | Some t \<Rightarrow>
          if t = selected_id then (move_lines tag c \<lparr>mv_src = [], mv_dst = [], mv_seqs = []\<rparr>, f)
          else let (r, d, f') = move_messages uids selected_id t f
               in (move_lines tag c r, snd (mutate (\<lambda>_. (d, f')) f)))})"
    for name uids
  proof -
    obtain t where "target_mailbox f (cn_account_id c) name = Some t"
      using target_total [OF assms(1)] by blast
    then show ?thesis
      using assms(2) move_messages_mailboxes [of uids mb]
      by (cases t) (simp_all add: lines case_prod_unfold Let_def)
  qed
  then show ?thesis
    using reject_answers unfolding cmd_uid_move_def
    by (auto split: option.split)
qed

lemma cmd_uid_expunge_ok:
  assumes "cn_selected c = Some mb"
  shows "kept_and_answered tag f (cmd_uid_expunge tag args c f)"
  using assms reject_answers expunge_messages_mailboxes [of _ mb f]
  by (auto simp: cmd_uid_expunge_def case_prod_unfold Let_def split: option.split)

lemma cmd_uid_ok:
  assumes "tree_ok f" and "wf_conn c" and "ascii_only args"
  shows "kept_and_answered tag f (cmd_uid env tag args c f)"
proof (cases "cn_state c = Selected")
  case True
  then obtain mb where mb: "cn_selected c = Some mb"
    using assms(2) by (auto simp: wf_conn_def)
  obtain sub rest where split: "splitn2 args = (sub, rest)" by (cases "splitn2 args")
  define r where "r = (case rest of Some r \<Rightarrow> trim r | None \<Rightarrow> [])"
  have "set r \<subseteq> set args"
    using split split_once_sub [of "CHR '' ''" args] order_trans [OF set_trim]
    by (auto simp: splitn2_def r_def split: option.splits) blast
  from parse_uid_search_total [OF ascii_only_sub [OF this assms(3)]]
  obtain cr where cr: "parse_uid_search (se_strptime env) r = Some cr" by blast
  have search: "kept_and_answered tag f (map_option (\<lambda>out. (out, f)) (cmd_uid_search (se_strptime env) f tag r c))"
    using mb cr by (cases cr) (simp_all add: cmd_uid_search_def Let_def)
  have "\<exists>out. cmd_uid_fetch (se_override env) (se_render env) (se_latency env) f tag r c = Some out \<and> answers tag out"
    using mb by (auto simp: cmd_uid_fetch_def Let_def split: option.split prod.split)
  then have fetch: "kept_and_answered tag f (map_option (\<lambda>out. (out, f))
      (cmd_uid_fetch (se_override env) (se_render env) (se_latency env) f tag r c))"
    by auto
  show ?thesis
    using True split search fetch cmd_uid_store_ok [OF mb] cmd_uid_copy_ok [OF assms(1) mb]
      cmd_uid_move_ok [OF assms(1) mb] cmd_uid_expunge_ok [OF mb]
    by (simp add: cmd_uid_def Let_def r_def [symmetric])
qed (simp add: cmd_uid_def)

subsection \<open>The dispatcher\<close>

fun wakes_trees :: "idle_event list \<Rightarrow> bool" where
  "wakes_trees [] = True"
| "wakes_trees (IdleWake f # es) = (tree_ok f \<and> wakes_trees es)"
| "wakes_trees (_ # es) = wakes_trees es"

lemma idle_loop_ok:
  assumes "wf_conn c" and "tree_ok f" and "wakes_trees evs" and "idle_loop tag mb uids c f evs = (out, c', f', r)"
  shows "wf_conn c' \<and> tree_ok f'"
  using assms
proof (induction evs arbitrary: f uids out)
  case (Cons e evs)
  then show ?case
    by (cases e) (fastforce simp: wf_logout Let_def apfst_def map_prod_def split: if_splits prod.splits)+
qed simp

text \<open>A command that returns, answers if \<open>a\<close>, and leaves a forest if \<open>t\<close>.\<close>

definition served :: "string \<Rightarrow> bool \<Rightarrow> bool \<Rightarrow> (action list \<times> conn \<times> fixture) option \<Rightarrow> bool" where
  "served tag a t r \<longleftrightarrow>
     (\<exists>out c f. r = Some (out, c, f) \<and> (a \<longrightarrow> answers tag out) \<and> wf_conn c \<and> (t \<longrightarrow> tree_ok f))"

lemma served_Some [simp]:
  "served tag a t (Some (out, c, f)) \<longleftrightarrow> (a \<longrightarrow> answers tag out) \<and> wf_conn c \<and> (t \<longrightarrow> tree_ok f)"
  by (simp add: served_def)

lemma served_reads:
  "tree_ok f \<Longrightarrow> wf_conn c \<Longrightarrow> \<exists>out. r = Some out \<and> answers tag out \<Longrightarrow>
     served tag a t (map_option (\<lambda>out. (out, c, f)) r)"
  by auto

lemma served_writes:
  "wf_conn c \<Longrightarrow> \<exists>out f'. r = Some (out, f') \<and> answers tag out \<and> (t \<longrightarrow> tree_ok f') \<Longrightarrow>
     served tag a t (map_option (\<lambda>(out, f'). (out, c, f')) r)"
  by auto

lemma served_on_conn:
  "tree_ok f \<Longrightarrow> (\<And>out c'. r = (out, c') \<Longrightarrow> (a \<longrightarrow> answers tag out) \<and> wf_conn c') \<Longrightarrow>
     served tag a t (case r of (out, c') \<Rightarrow> Some (out, c', f))"
  by (cases r) simp

lemma handle_served:
  assumes "tree_ok f" and "wf_conn c" and "ascii_only args" and "wakes_trees (ci_idle inp)"
    and "a \<longrightarrow> cmd \<noteq> ''IDLE'' \<and> (cmd = ''AUTHENTICATE'' \<longrightarrow> ci_cont inp \<noteq> None)"
    and "t \<longrightarrow> cmd \<noteq> ''RENAME''"
  shows "served tag a t (handle env ts inp cmd tag args c f)"
proof -
  note tree = assms(1) and wf = assms(2)
  have reads: "served tag a t (map_option (\<lambda>out. (out, c, f)) (cmd_myrights f tag args c))"
    "served tag a t (map_option (\<lambda>out. (out, c, f)) (cmd_getacl f tag args c))"
    "served tag a t (map_option (\<lambda>out. (out, c, f)) (cmd_list f tag args c))"
    "served tag a t (map_option (\<lambda>out. (out, c, f)) (cmd_status f tag args c))"
    by (intro served_reads tree wf cmd_myrights_ok cmd_getacl_ok cmd_list_ok cmd_status_ok)+
  have uid: "served tag a t (map_option (\<lambda>(out, f'). (out, c, f')) (cmd_uid env tag args c f))"
    using cmd_uid_ok [OF tree wf assms(3), of tag env] tree_ok_frame [OF _ tree]
    by (intro served_writes wf) (auto simp: kept_and_answered_def)
  have writes: "served tag a t (map_option (\<lambda>(out, f'). (out, c, f')) (cmd_create tag args c f))"
    "served tag a t (map_option (\<lambda>(out, f'). (out, c, f')) (cmd_delete tag args c f))"
    using cmd_create_ok [OF tree, of tag args c] cmd_delete_ok [OF tree, of tag args c]
    by (auto intro!: served_writes wf)
  have rename: "served tag a t (map_option (\<lambda>(out, f'). (out, c, f')) (cmd_rename tag args c f))"
    if "cmd = ''RENAME''"
    using cmd_rename_ok [OF tree, of tag args c] assms(6) that by (auto intro!: served_writes wf)
  have select: "served tag a t (map_option (\<lambda>(out, c'). (out, c', f)) (cmd_select f tag args rw c))" for rw
    using cmd_select_ok [OF tree wf, of tag args rw] tree by auto
  have idle: "served tag a t (cmd_idle tag (ci_idle inp) c f)" if "cmd = ''IDLE''"
  proof (cases "cn_state c = Selected")
    case True
    then obtain mb where mb: "cn_selected c = Some mb"
      using wf by (auto simp: wf_conn_def)
    obtain out c' f' r where loop: "idle_loop tag mb (live_uids f (effective_account c) mb) c f (ci_idle inp) =
        (out, c', f', r)"
      by (metis prod_cases4)
    from idle_loop_ok [OF wf tree assms(4) loop] show ?thesis
      using True mb loop assms(5) that by (simp add: cmd_idle_def)
  qed (use that assms(5) tree wf in \<open>simp add: cmd_idle_def\<close>)
  have conn: "served tag a t (case cmd_login f tag args c of (out, c') \<Rightarrow> Some (out, c', f))"
    "served tag a t (case cmd_enable tag args c of (out, c') \<Rightarrow> Some (out, c', f))"
    "served tag a t (case cmd_close tag c of (out, c') \<Rightarrow> Some (out, c', f))"
    "served tag a t (case cmd_logout tag c of (out, c') \<Rightarrow> Some (out, c', f))"
    using cmd_login_ok [OF wf] cmd_enable_ok [OF wf] cmd_close_ok [OF wf] cmd_logout_ok [OF wf]
    by (auto intro!: served_on_conn tree)
  have auth: "served tag a t (case cmd_authenticate f ts (ci_cont inp) tag args c of (out, c') \<Rightarrow> Some (out, c', f))"
    if "cmd = ''AUTHENTICATE''"
    using cmd_authenticate_ok [OF wf] that assms(5) by (intro served_on_conn tree) auto
  have pure: "served tag a t (Some (out, c, f))" if "answers tag out" for out
    using that tree wf by simp
  have "answers tag (cmd_capability tag)" "answers tag (cmd_noop tag)" "answers tag (cmd_namespace f tag c)"
    by (simp_all add: cmd_capability_def cmd_noop_def cmd_namespace_def Let_def)
  note basic = this [THEN pure]
  show ?thesis
    unfolding handle_def Let_def
    using reads uid writes rename select idle conn auth basic pure [OF answers_reply]
    by (simp only: if_distrib [of "served tag a t"]) (simp del: served_Some)
qed

lemma dispatch_parsed:
  assumes "parse_command_line ln = Some p"
  shows "\<exists>log. dispatch env ts inp ln w =
    map_option (\<lambda>(out, c, f). (out, \<lparr>wd_conn = c, wd_fixture = f, wd_log = log\<rparr>))
      (handle env ts inp (to_upper (pa_command p)) (pa_tag p) (pa_args p) (wd_conn w) (wd_fixture w))"
  using assms by (simp add: dispatch_def Let_def) (rule exI, rule refl)

text \<open>
  C24. Every command is answered. While the mailboxes form a forest, a command line of ASCII
  characters that parses, whatever its command and arguments are, is handled without a panic or
  an endless walk, and the last line written is the completion under the client's tag. The
  exceptions are IDLE, which ends when the client says so, and an AUTHENTICATE whose peer closes instead of
  sending its response.
\<close>

theorem every_command_answered:
  assumes "tree_ok (wd_fixture w)" and "wf_conn (wd_conn w)" and "ascii_only ln"
    and "wakes_trees (ci_idle inp)" and "parse_command_line ln = Some p"
    and "to_upper (pa_command p) \<noteq> ''IDLE''"
    and "to_upper (pa_command p) = ''AUTHENTICATE'' \<Longrightarrow> ci_cont inp \<noteq> None"
  shows "\<exists>out w' s. dispatch env ts inp ln w = Some (out, w') \<and> out \<noteq> [] \<and> last out = reply (pa_tag p) s"
proof -
  have "ascii_only (pa_args p)"
    using parse_command_line_sub [OF assms(5)] assms(3) by (rule ascii_only_sub)
  from handle_served [OF assms(1,2) this assms(4), of True "to_upper (pa_command p)" False "pa_tag p" env ts]
  obtain out c f where "handle env ts inp (to_upper (pa_command p)) (pa_tag p) (pa_args p)
      (wd_conn w) (wd_fixture w) = Some (out, c, f)" and ans: "answers (pa_tag p) out"
    using assms(6,7) by (auto simp: served_def)
  then have "\<exists>w'. dispatch env ts inp ln w = Some (out, w')"
    using dispatch_parsed [OF assms(5), of env ts inp w] by auto
  moreover have "\<exists>s. out \<noteq> [] \<and> last out = reply (pa_tag p) s"
    using ans by (auto simp: answers_def)
  ultimately show ?thesis by blast
qed

lemma dispatch_keeps:
  assumes "tree_ok (wd_fixture w)" and "wf_conn (wd_conn w)" and "ascii_only ln" and "wakes_trees (ci_idle inp)"
    and "\<And>p. parse_command_line ln = Some p \<Longrightarrow> to_upper (pa_command p) \<noteq> ''RENAME''"
  shows "\<exists>out w'. dispatch env ts inp ln w = Some (out, w') \<and> tree_ok (wd_fixture w') \<and> wf_conn (wd_conn w')"
proof (cases "parse_command_line ln")
  case None
  then show ?thesis using assms(1,2) by (simp add: dispatch_def)
next
  case (Some p)
  have "ascii_only (pa_args p)"
    using parse_command_line_sub [OF Some] assms(3) by (rule ascii_only_sub)
  from handle_served [OF assms(1,2) this assms(4), of False "to_upper (pa_command p)" True "pa_tag p" env ts]
  obtain out c f where "handle env ts inp (to_upper (pa_command p)) (pa_tag p) (pa_args p)
      (wd_conn w) (wd_fixture w) = Some (out, c, f)" "wf_conn c" "tree_ok f"
    using assms(5) [OF Some] by (auto simp: served_def)
  then show ?thesis
    using dispatch_parsed [OF Some, of env ts inp w] by auto
qed

text \<open>
  C25. A session runs to its end. From the connection \<open>serve_connection\<close> starts with, on mailboxes that
  form a forest, any sequence of ASCII lines without RENAME is served to its end or to a LOGOUT;
  the mailboxes stay a forest and the connection stays well-formed: it has a mailbox selected exactly
  where the handlers expect one.
\<close>

theorem session_runs:
  assumes "tree_ok (wd_fixture w)" and "wf_conn (wd_conn w)"
    and "\<And>inp ln. (inp, ln) \<in> set script \<Longrightarrow> ascii_only ln \<and> wakes_trees (ci_idle inp) \<and>
      (\<forall>p. parse_command_line ln = Some p \<longrightarrow> to_upper (pa_command p) \<noteq> ''RENAME'')"
  shows "\<exists>out w'. serve_lines env ts script w = Some (out, w') \<and> tree_ok (wd_fixture w') \<and> wf_conn (wd_conn w')"
  using assms
proof (induction script arbitrary: w)
  case (Cons x script)
  obtain inp ln where x: "x = (inp, ln)" by (cases x)
  have line: "ascii_only ln" "wakes_trees (ci_idle inp)"
    "\<And>p. parse_command_line ln = Some p \<Longrightarrow> to_upper (pa_command p) \<noteq> ''RENAME''"
    using Cons.prems(3) [of inp ln] x by auto
  obtain out w1 where "dispatch env ts inp ln w = Some (out, w1)"
    and ok: "tree_ok (wd_fixture w1)" "wf_conn (wd_conn w1)"
    using dispatch_keeps [OF Cons.prems(1,2) line] by blast
  then obtain out1 where step: "serve_line env ts inp ln w = Some (out1, w1)"
    by (simp add: serve_line_def)
  have "\<And>inp ln. (inp, ln) \<in> set script \<Longrightarrow> ascii_only ln \<and> wakes_trees (ci_idle inp) \<and>
      (\<forall>p. parse_command_line ln = Some p \<longrightarrow> to_upper (pa_command p) \<noteq> ''RENAME'')"
    by (rule Cons.prems(3)) simp
  from Cons.IH [OF ok this] obtain out' w' where
    "serve_lines env ts script w1 = Some (out', w')" "tree_ok (wd_fixture w')" "wf_conn (wd_conn w')"
    by blast
  then show ?case using step ok by (simp add: x)
qed simp

subsection \<open>Before authentication\<close>

lemma before_login:
  assumes "cn_state c = NotAuthenticated" and "cmd \<noteq> ''LOGIN''" and "cmd \<noteq> ''AUTHENTICATE''"
  shows "\<exists>out c'. handle env ts inp cmd tag args c f = Some (out, c', f) \<and>
    handle env ts inp cmd tag args c f' = Some (out, c', f') \<and>
    cn_state c' \<in> {NotAuthenticated, Logout} \<and> cn_account_id c' = cn_account_id c"
proof -
  have na: "\<not> is_authenticated c" using assms(1) by (simp add: is_authenticated_def)
  show ?thesis
    using assms na
    by (simp add: handle_def Let_def cmd_logout_def cmd_enable_def cmd_namespace_def cmd_myrights_def
        cmd_getacl_def cmd_list_def cmd_create_def cmd_rename_def cmd_delete_def cmd_status_def
        cmd_select_def cmd_uid_def cmd_idle_def cmd_close_def cmd_capability_def cmd_noop_def)
qed

lemma login_hides_fixture:
  assumes "cn_state c = NotAuthenticated" and "cmd = ''LOGIN'' \<or> cmd = ''AUTHENTICATE''"
  shows "\<exists>out c1 c2. handle env ts inp cmd tag args c f = Some (out, c1, f) \<and>
    handle env ts inp cmd tag args c f' = Some (out, c2, f') \<and> cn_state c1 = cn_state c2"
proof -
  have finish: "fst (authenticate_finish f ts tag mech b64 c) = fst (authenticate_finish f' ts tag mech b64 c) \<and>
      cn_state (snd (authenticate_finish f ts tag mech b64 c)) = cn_state (snd (authenticate_finish f' ts tag mech b64 c))"
    for mech b64
    by (simp add: authenticate_finish_def Let_def split: option.split)
  have login: "fst (cmd_login f tag args c) = fst (cmd_login f' tag args c) \<and>
      cn_state (snd (cmd_login f tag args c)) = cn_state (snd (cmd_login f' tag args c))"
    by (simp add: cmd_login_def Let_def split: option.split)
  have auth: "fst (cmd_authenticate f ts cont tag args c) = fst (cmd_authenticate f' ts cont tag args c) \<and>
      cn_state (snd (cmd_authenticate f ts cont tag args c)) = cn_state (snd (cmd_authenticate f' ts cont tag args c))"
    for cont
    using finish unfolding cmd_authenticate_def
    by (cases cont) (simp_all add: Let_def apfst_def map_prod_def case_prod_unfold split: option.split)
  have "handle env ts inp ''LOGIN'' tag args c g =
      Some (fst (cmd_login g tag args c), snd (cmd_login g tag args c), g)"
    "handle env ts inp ''AUTHENTICATE'' tag args c g =
      Some (fst (cmd_authenticate g ts (ci_cont inp) tag args c),
        snd (cmd_authenticate g ts (ci_cont inp) tag args c), g)" for g
    by (simp_all add: handle_def Let_def case_prod_unfold)
  then show ?thesis
    using assms(2) login auth [of "ci_cont inp"] by (elim disjE) simp_all
qed

text \<open>
  C28. Nothing is served before authentication. In the initial state, for any command with any
  arguments, what is written and the state that follows are the same whatever the fixture holds,
  and the fixture is not changed; only LOGIN and AUTHENTICATE leave the state (apart from LOGOUT)
  or bind another account.
\<close>

theorem pre_auth_reveals_nothing:
  assumes "cn_state c = NotAuthenticated"
  shows "\<exists>out c1 c2. handle env ts inp cmd tag args c f = Some (out, c1, f) \<and>
    handle env ts inp cmd tag args c f' = Some (out, c2, f') \<and> cn_state c1 = cn_state c2 \<and>
    (cmd \<notin> {''LOGIN'', ''AUTHENTICATE''} \<longrightarrow>
       cn_state c1 \<in> {NotAuthenticated, Logout} \<and> cn_account_id c1 = cn_account_id c)"
proof (cases "cmd = ''LOGIN'' \<or> cmd = ''AUTHENTICATE''")
  case True
  from login_hides_fixture [OF assms this] show ?thesis
    using True by (metis insert_iff)
next
  case False
  with before_login [OF assms, of cmd env ts inp tag args f f'] show ?thesis by auto
qed

text \<open>
  C29. Credentials are not logged. Two LOGIN lines with the same tag, or two AUTHENTICATE lines with the same
  tag and mechanism, append the same entry to the request log, whatever user names, passwords
  or SASL responses they carry and whatever continuation line follows.
\<close>

theorem credentials_never_logged:
  assumes "parse_command_line ln = Some p" and "parse_command_line ln' = Some p'" and "pa_tag p = pa_tag p'"
    and "to_upper (pa_command p) = cmd" and "to_upper (pa_command p') = cmd"
    and "cmd = ''LOGIN'' \<or> cmd = ''AUTHENTICATE'' \<and> word_at 0 (pa_args p) = word_at 0 (pa_args p')"
    and "wd_log w = wd_log w'" and "cn_connection_id (wd_conn w) = cn_connection_id (wd_conn w')"
    and "dispatch env ts inp ln w = Some (out, w1)" and "dispatch env ts' inp' ln' w' = Some (out', w1')"
  shows "wd_log w1 = wd_log w1'"
proof -
  have "recorded_command cmd (pa_args p) = cmd" "recorded_command cmd (pa_args p') = cmd"
    "logged_args cmd (pa_args p) = logged_args cmd (pa_args p')" "cmd \<noteq> ''UID FETCH''"
    using assms(6) by (auto simp: recorded_command_def logged_args_def)
  then show ?thesis
    using assms by (auto simp: dispatch_def Let_def log_detail_def)
qed

subsection \<open>A sample session\<close>

definition sample_session :: session_env where
  "sample_session = \<lparr>se_now = 0, se_strptime = (\<lambda>s. None), se_render = sample_env,
     se_override = (\<lambda>u a m. None), se_latency = []\<rparr>"

definition no_input :: command_input where "no_input = \<lparr>ci_cont = None, ci_idle = []\<rparr>"

definition sample_world :: world where
  "sample_world = \<lparr>wd_conn = conn_new sample_inbox 1, wd_fixture = sample_inbox, wd_log = []\<rparr>"

lemma sample_tree: "tree_ok sample_inbox"
  by (simp add: tree_ok_def sample_inbox_def)

lemma sample_world_ok: "tree_ok (wd_fixture sample_world)" "wf_conn (wd_conn sample_world)" "wakes_trees (ci_idle no_input)"
  by (simp_all add: sample_world_def sample_tree wf_conn_new no_input_def)

lemma sample_lines:
  "parse_command_line ''a LOGIN alice pw'' = Some \<lparr>pa_tag = ''a'', pa_command = ''LOGIN'', pa_args = ''alice pw''\<rparr>"
  "parse_command_line ''a LOGIN bob other'' = Some \<lparr>pa_tag = ''a'', pa_command = ''LOGIN'', pa_args = ''bob other''\<rparr>"
  "parse_command_line ''b SELECT INBOX'' = Some \<lparr>pa_tag = ''b'', pa_command = ''SELECT'', pa_args = ''INBOX''\<rparr>"
  "parse_command_line ''c UID EXPUNGE 1'' = Some \<lparr>pa_tag = ''c'', pa_command = ''UID'', pa_args = ''EXPUNGE 1''\<rparr>"
  "to_upper ''LOGIN'' = ''LOGIN''" "to_upper ''SELECT'' = ''SELECT''" "to_upper ''UID'' = ''UID''"
  "ascii_only ''a LOGIN alice pw''" "ascii_only ''b SELECT INBOX''" "ascii_only ''c UID EXPUNGE 1''"
  by code_simp+

theorem every_command_answered_witness:
  "\<exists>out w' s. dispatch sample_session token_store_new no_input ''c UID EXPUNGE 1'' sample_world = Some (out, w') \<and>
     out \<noteq> [] \<and> last out = reply ''c'' s"
  using every_command_answered [OF sample_world_ok(1,2) sample_lines(10) sample_world_ok(3) sample_lines(4),
      of sample_session token_store_new]
  by (simp add: sample_lines)

theorem session_runs_witness:
  "\<exists>out w'. serve_lines sample_session token_store_new
      [(no_input, ''a LOGIN alice pw''), (no_input, ''b SELECT INBOX''), (no_input, ''c UID EXPUNGE 1'')]
      sample_world = Some (out, w') \<and> tree_ok (wd_fixture w') \<and> wf_conn (wd_conn w')"
  by (rule session_runs) (use sample_world_ok in \<open>auto simp: sample_lines\<close>)

theorem pre_auth_reveals_nothing_witness:
  "\<exists>out c1 c2. handle sample_session token_store_new no_input ''UID'' ''c'' ''EXPUNGE 1''
      (conn_new sample_inbox 1) sample_inbox = Some (out, c1, sample_inbox) \<and>
    handle sample_session token_store_new no_input ''UID'' ''c'' ''EXPUNGE 1''
      (conn_new sample_inbox 1) empty_fixture = Some (out, c2, empty_fixture)"
  using pre_auth_reveals_nothing [of "conn_new sample_inbox 1" sample_session token_store_new no_input "''UID''"
      "''c''" "''EXPUNGE 1''" sample_inbox empty_fixture]
  by (auto simp: conn_new_def)

theorem credentials_never_logged_witness:
  "\<exists>out w1 out' w1'. dispatch sample_session token_store_new no_input ''a LOGIN alice pw'' sample_world = Some (out, w1) \<and>
    dispatch sample_session token_store_new no_input ''a LOGIN bob other'' sample_world = Some (out', w1') \<and>
    wd_log w1 = wd_log w1'"
proof -
  have "\<exists>out w1. dispatch sample_session token_store_new no_input ln sample_world = Some (out, w1)"
    if "parse_command_line ln = Some \<lparr>pa_tag = ''a'', pa_command = ''LOGIN'', pa_args = args\<rparr>" for ln args
    using that by (simp add: dispatch_def handle_def sample_lines Let_def case_prod_unfold)
  from this [OF sample_lines(1)] this [OF sample_lines(2)] obtain out w1 out' w1' where
    run: "dispatch sample_session token_store_new no_input ''a LOGIN alice pw'' sample_world = Some (out, w1)"
      "dispatch sample_session token_store_new no_input ''a LOGIN bob other'' sample_world = Some (out', w1')"
    by blast
  have "wd_log w1 = wd_log w1'"
    by (rule credentials_never_logged [OF sample_lines(1,2) _ _ _ _ refl refl run, of "''LOGIN''"])
      (simp_all add: sample_lines)
  with run show ?thesis by blast
qed

end
