(* ===== verification/Imap_Tree.thy ===== *)
theory Imap_Tree
  imports Imap_Safety
begin

text \<open>
  What \<open>CREATE\<close> and \<open>RENAME\<close> of \<open>src/imap.rs\<close> do to the paths that \<open>LIST\<close> shows.
\<close>

lemma eq_ci_append: "eq_ci a c \<Longrightarrow> eq_ci b d \<Longrightarrow> eq_ci (a @ b) (c @ d)"
  by (simp add: eq_ci_def to_lower_def)

lemma join_snoc: "xs \<noteq> [] \<Longrightarrow> join sep (xs @ [x]) = join sep xs @ sep @ x"
  by (induction sep xs rule: join.induct) auto

lemma collect_map_snoc: "collect_map k v (xs @ [x]) = (collect_map k v xs)(k x \<mapsto> v x)"
  by (simp add: collect_map_def)

lemma those_snoc: "those (xs @ [x]) = Option.bind (those xs) (\<lambda>ys. map_option (\<lambda>y. ys @ [y]) x)"
  by (induction xs) (auto simp: option.map_comp o_def split: option.splits bind_splits)

lemma ancestors_extend:
  fixes r :: "string \<Rightarrow> nat"
  assumes "\<forall>m \<in> set (mailboxes f). \<forall>p. mb_parent_id m = Some p \<longrightarrow> p \<noteq> i \<and> r p < r (mb_id m)"
    and "x \<in> set (mailboxes f)"
  shows "ancestors ((mailboxes_by_id f a)(i \<mapsto> m)) x = ancestors (mailboxes_by_id f a) x"
  using assms(2)
proof (induction "r (mb_id x)" arbitrary: x rule: less_induct)
  case less
  show ?case
  proof (cases "mb_parent_id x")
    case None
    then show ?thesis by simp
  next
    case (Some p)
    then have p: "p \<noteq> i" "r p < r (mb_id x)" using assms(1) less.prems by auto
    show ?thesis
    proof (cases "mailboxes_by_id f a p")
      case None
      then show ?thesis using Some p by (subst (1 2) ancestors.simps) simp
    next
      case parent: (Some y)
      from mailboxes_by_id_mem [OF this] have y: "y \<in> set (mailboxes f)" "mb_id y = p" by simp_all
      then have "ancestors ((mailboxes_by_id f a)(i \<mapsto> m)) y = ancestors (mailboxes_by_id f a) y"
        using p by (intro less.hyps) simp_all
      then show ?thesis using Some p parent by (subst (1 2) ancestors.simps) simp
    qed
  qed
qed

lemma create_mailbox_Inr:
  assumes "create_mailbox a name f = Some (Inr f')" and "list_mailboxes f a = Some es"
  obtains m pp where "mailboxes f' = mailboxes f @ [m]"
    and "split_parent_leaf name = (pp, mb_name m)"
    and "resolve_parent ''CREATE'' name es pp = Inr (mb_parent_id m)"
    and "mb_id m = fresh_mailbox_id f" and "mb_account_id m = a" and "mb_role m = None"
    and "find_path name es = None"
proof -
  obtain pp leaf where split: "split_parent_leaf name = (pp, leaf)"
    by (cases "split_parent_leaf name")
  obtain parent where resolved: "resolve_parent ''CREATE'' name es pp = Inr parent"
    and f': "f' = snd (mutate (push_mailbox
      \<lparr>mb_id = fresh_mailbox_id f, mb_account_id = a, mb_name = leaf, mb_role = None,
        mb_parent_id = parent, sort_order = None, is_subscribed = True\<rparr>) f)"
    and none: "find_path name es = None"
    using assms split by (auto simp: create_mailbox_def split: if_splits sum.splits)
  show thesis
    by (rule that [of "\<lparr>mb_id = fresh_mailbox_id f, mb_account_id = a, mb_name = leaf, mb_role = None,
        mb_parent_id = parent, sort_order = None, is_subscribed = True\<rparr>" pp])
      (simp_all add: f' split resolved none push_mailbox_def)
qed

lemma listed_path:
  assumes "list_mailboxes f a = Some es" and "e \<in> set es" and "distinct (map mb_id (mailboxes_for f a))"
  obtains m where "mailboxes_by_id f a (le_fixture_id e) = Some m" and "m \<in> set (mailboxes_for f a)"
    and "mailbox_path m (mailboxes_by_id f a) = Some (le_path e)"
proof -
  have all: "list_all2 (\<lambda>m e. mailbox_entry f a m = Some e) (mailboxes_for f a) es"
    using assms(1) by (simp add: list_mailboxes_def those_map_Some)
  obtain k where "k < length es" "es ! k = e"
    using assms(2) by (metis in_set_conv_nth)
  with list_all2_nthD2 [OF all, of k] list_all2_lengthD [OF all]
  have m: "mailbox_entry f a (mailboxes_for f a ! k) = Some e" "mailboxes_for f a ! k \<in> set (mailboxes_for f a)"
    by simp_all
  show thesis
  proof (rule that [OF _ m(2)])
    show "mailbox_path (mailboxes_for f a ! k) (mailboxes_by_id f a) = Some (le_path e)"
      using m(1) by (auto simp: mailbox_entry_def)
    have "le_fixture_id e = mb_id (mailboxes_for f a ! k)"
      using m(1) by (auto simp: mailbox_entry_def)
    then show "mailboxes_by_id f a (le_fixture_id e) = Some (mailboxes_for f a ! k)"
      unfolding mailboxes_by_id_def by (simp add: collect_map_mem [OF assms(3) m(2)])
  qed
qed

text \<open>
  CREATE shows in LIST. When it succeeds, no mailbox was listed under the name, and the listing
  of the account afterwards is the old one, unchanged and in the same order, with one more entry.
  The path of this entry is the name the client gave, up to case, where the mailbox with the Inbox role
  is a top-level mailbox named INBOX.
\<close>

theorem create_then_listed:
  assumes "tree_ok f" and "create_mailbox a name f = Some (Inr f')"
  shows "\<exists>es p. list_mailboxes f a = Some es \<and> (\<forall>e \<in> set es. \<not> eq_ci (le_path e) name) \<and>
    list_mailboxes f' a = Some (es @ [\<lparr>le_fixture_id = fresh_mailbox_id f, le_path = p, le_attributes = []\<rparr>]) \<and>
    ((\<forall>m \<in> set (mailboxes_for f a). mb_role m = Some Inbox \<longrightarrow>
        eq_ci (mb_name m) ''INBOX'' \<and> mb_parent_id m = None) \<longrightarrow> eq_ci p name)"
proof -
  obtain es where es: "list_mailboxes f a = Some es"
    using tree_ok_lists [OF assms(1)] by blast
  from create_mailbox_Inr [OF assms(2) es] obtain m pp where
    f': "mailboxes f' = mailboxes f @ [m]" and split: "split_parent_leaf name = (pp, mb_name m)"
    and resolved: "resolve_parent ''CREATE'' name es pp = Inr (mb_parent_id m)"
    and m: "mb_id m = fresh_mailbox_id f" "mb_account_id m = a" "mb_role m = None"
    and none: "find_path name es = None" .
  have fresh: "fresh_mailbox_id f \<notin> mb_id ` set (mailboxes f)"
    using probe_fresh [of "map mb_id (mailboxes f)"] by (simp add: fresh_mailbox_id_def)
  obtain r :: "string \<Rightarrow> nat" where r: "\<forall>x \<in> set (mailboxes f). \<forall>p. mb_parent_id x = Some p \<longrightarrow>
      p \<in> mb_id ` set (mailboxes f) \<and> r p < r (mb_id x)"
    and ids: "distinct (map mb_id (mailboxes f))"
    using assms(1) by (auto simp: tree_ok_def)
  have ids_a: "distinct (map mb_id (mailboxes_for f a))"
    using ids by (simp add: mailboxes_for_def distinct_map_filter)
  let ?by = "mailboxes_by_id f a"
  have by': "mailboxes_by_id f' a = ?by(fresh_mailbox_id f \<mapsto> m)"
    by (simp add: mailboxes_by_id_def mailboxes_for_def f' m collect_map_snoc)
  have ranked: "\<forall>x \<in> set (mailboxes f). \<forall>p. mb_parent_id x = Some p \<longrightarrow>
      p \<noteq> fresh_mailbox_id f \<and> r p < r (mb_id x)"
    using r fresh by metis
  have anc: "ancestors (mailboxes_by_id f' a) x = ancestors ?by x" if "x \<in> set (mailboxes f)" for x
    unfolding by' by (rule ancestors_extend [OF ranked that])
  then have "mailbox_entry f' a x = mailbox_entry f a x" if "x \<in> set (mailboxes_for f a)" for x
    using that by (simp add: mailbox_entry_def mailbox_path_def mailboxes_for_def)
  then have old: "map (mailbox_entry f' a) (mailboxes_for f a) = map (mailbox_entry f a) (mailboxes_for f a)"
    by simp
  obtain p where p: "mailbox_path m (mailboxes_by_id f' a) = Some p \<and>
    ((\<forall>m \<in> set (mailboxes_for f a). mb_role m = Some Inbox \<longrightarrow>
        eq_ci (mb_name m) ''INBOX'' \<and> mb_parent_id m = None) \<longrightarrow> eq_ci p name)"
  proof (cases pp)
    case None
    then have "mb_parent_id m = None" "name = mb_name m"
      using resolved split by (auto simp: resolve_parent_def split_parent_leaf_def split: option.splits prod.splits)
    then show thesis using m by (intro that [of name]) (simp add: mailbox_path_def)
  next
    case (Some parent_path)
    then obtain e where e: "find_path parent_path es = Some e" "mb_parent_id m = Some (le_fixture_id e)"
      using resolved by (auto simp: resolve_parent_def split: option.splits)
    then have mem: "e \<in> set es" and path: "eq_ci (le_path e) parent_path"
      by (auto simp: find_path_def find_Some_iff)
    obtain x where x: "?by (le_fixture_id e) = Some x" "x \<in> set (mailboxes_for f a)"
      "mailbox_path x ?by = Some (le_path e)"
      using listed_path [OF es mem ids_a] .
    have xf: "x \<in> set (mailboxes f)" "le_fixture_id e \<noteq> fresh_mailbox_id f"
      using mailboxes_by_id_mem [OF x(1)] fresh by (simp, metis imageI)
    obtain ns where ns: "ancestors ?by x = Some ns"
      using ancestors_total [of r ?by "le_fixture_id e" x] ranked_by_id [OF r, of a] x(1) by blast
    have name: "name = parent_path @ ''/'' @ mb_name m"
      using split Some by (auto simp: split_parent_leaf_def rsplit_once_Some split: option.splits)
    have "ancestors (mailboxes_by_id f' a) m = Some (mb_name x # ns)"
      using e(2) x(1) xf ns anc [OF xf(1)] by (subst ancestors.simps) (simp add: by')
    then have pm: "mailbox_path m (mailboxes_by_id f' a) =
        Some (join ''/'' (rev (mb_name x # ns)) @ ''/'' @ mb_name m)"
      using m join_snoc [of "rev (mb_name x # ns)" "''/''" "mb_name m"] by (simp add: mailbox_path_def)
    have "eq_ci (join ''/'' (rev (mb_name x # ns))) (le_path e)"
      if "\<forall>m \<in> set (mailboxes_for f a). mb_role m = Some Inbox \<longrightarrow>
        eq_ci (mb_name m) ''INBOX'' \<and> mb_parent_id m = None"
      using that x ns by (auto simp: mailbox_path_def split: if_splits)
    then show thesis
      using eq_ci_append [OF eq_ci_trans [OF _ path] eq_ci_refl] by (intro that [OF conjI [OF pm]]) (auto simp: name)
  qed
  then have "mailbox_entry f' a m = Some \<lparr>le_fixture_id = fresh_mailbox_id f, le_path = p, le_attributes = []\<rparr>"
    using m by (simp add: mailbox_entry_def)
  moreover have "mailboxes_for f' a = mailboxes_for f a @ [m]"
    by (simp add: mailboxes_for_def f' m)
  ultimately have "list_mailboxes f' a =
      Some (es @ [\<lparr>le_fixture_id = fresh_mailbox_id f, le_path = p, le_attributes = []\<rparr>])"
    using es by (simp add: list_mailboxes_def those_snoc old)
  moreover have "\<forall>e \<in> set es. \<not> eq_ci (le_path e) name"
    using none by (simp add: find_path_def find_None_iff)
  ultimately show ?thesis using es p by blast
qed

text \<open>
  RENAME below itself never returns from a listing. Renaming a mailbox that is not the Inbox to a path
  below its own succeeds, and makes it its own parent: every later listing of the account, and
  with it LIST, STATUS, SELECT, CREATE and the rest, follows the parents forever.
\<close>

theorem rename_below_itself:
  assumes "tree_ok f" and "list_mailboxes f a = Some es" and "find_path old es = Some e"
    and "\<forall>m \<in> set (mailboxes f). mb_id m = le_fixture_id e \<longrightarrow> mb_role m \<noteq> Some Inbox"
    and "find_path (old @ ''/'' @ leaf) es = None" and "CHR ''/'' \<notin> set leaf"
  shows "\<exists>f'. rename_mailbox a old (old @ ''/'' @ leaf) f = Some (Inr f') \<and> list_mailboxes f' a = None"
proof -
  let ?i = "le_fixture_id e"
  have split: "split_parent_leaf (old @ ''/'' @ leaf) = (Some old, leaf)"
    using rsplit_once_append [OF assms(6), of old] by (simp add: split_parent_leaf_def)
  define f' where "f' = snd (mutate (move_mailbox ?i leaf (Some ?i)) f)"
  have run: "rename_mailbox a old (old @ ''/'' @ leaf) f = Some (Inr f')"
    using assms(2,3,5) split by (simp add: rename_mailbox_def resolve_parent_def f'_def)
  have ids: "distinct (map mb_id (mailboxes f))"
    using assms(1) by (auto simp: tree_ok_def)
  have "distinct (map mb_id (mailboxes_for f a))"
    using ids by (simp add: mailboxes_for_def distinct_map_filter)
  moreover have "e \<in> set es"
    using assms(3) by (auto simp: find_path_def find_Some_iff)
  ultimately obtain m where m: "m \<in> set (mailboxes_for f a)" "mb_id m = ?i"
    using listed_path [OF assms(2)] mailboxes_by_id_mem by metis
  then have mf: "m \<in> set (mailboxes f)" "mb_account_id m = a"
    by (simp_all add: mailboxes_for_def)
  let ?g = "\<lambda>x. if mb_id x = ?i then x\<lparr>mb_name := leaf, mb_parent_id := Some ?i\<rparr> else x"
  have "mailboxes f' = map ?g (mailboxes f)"
    using m mf ids by (auto simp: f'_def move_mailbox_def update_first_distinct)
  then have listed: "mailboxes_for f' a = map ?g (mailboxes_for f a)"
    by (auto simp: mailboxes_for_def filter_map o_def intro!: arg_cong [of _ _ "map _"] filter_cong)
  have "map mb_id (map ?g xs) = map mb_id xs" for xs
    by simp
  with listed have "map mb_id (mailboxes_for f' a) = map mb_id (mailboxes_for f a)"
    by (simp only:)
  moreover have "distinct (map mb_id (mailboxes_for f a))"
    using ids by (simp add: mailboxes_for_def distinct_map_filter)
  ultimately have "distinct (map mb_id (mailboxes_for f' a))"
    by (simp only:)
  moreover have "?g m \<in> set (mailboxes_for f' a)"
    unfolding listed set_map using m(1) by (rule imageI)
  moreover have "mb_role (?g m) \<noteq> Some Inbox" "mb_parent_id (?g m) = Some (mb_id (?g m))"
    using assms(4) m(2) mf(1) by simp_all
  ultimately have "list_mailboxes f' a = None"
    by (intro list_mailboxes_self_parent [of "?g m"])
  with run show ?thesis by blast
qed

lemma sample_listing:
  "list_mailboxes sample_inbox ''a'' = Some [\<lparr>le_fixture_id = ''mb'', le_path = ''INBOX'',
     le_attributes = [backslash # ''Inbox'']\<rparr>, \<lparr>le_fixture_id = ''arch'', le_path = ''Archive'', le_attributes = []\<rparr>]"
  by code_simp simp

theorem rename_below_itself_witness:
  "\<exists>f'. rename_mailbox ''a'' ''Archive'' ''Archive/x'' sample_inbox = Some (Inr f') \<and> list_mailboxes f' ''a'' = None"
proof -
  let ?es = "[\<lparr>le_fixture_id = ''mb'', le_path = ''INBOX'', le_attributes = [backslash # ''Inbox'']\<rparr>,
     \<lparr>le_fixture_id = ''arch'', le_path = ''Archive'', le_attributes = []\<rparr>]"
  have find: "find_path ''Archive'' ?es = Some \<lparr>le_fixture_id = ''arch'', le_path = ''Archive'', le_attributes = []\<rparr>"
    "find_path (''Archive'' @ ''/'' @ ''x'') ?es = None"
    by code_simp+
  show ?thesis
    using rename_below_itself [OF sample_tree sample_listing find(1) _ find(2)]
    by (simp add: sample_inbox_def)
qed

theorem create_then_listed_witness:
  "\<exists>f' es p. create_mailbox ''a'' ''Archive/x'' sample_inbox = Some (Inr f') \<and>
     list_mailboxes f' ''a'' = Some (es @ [\<lparr>le_fixture_id = fresh_mailbox_id sample_inbox, le_path = p, le_attributes = []\<rparr>])"
proof -
  let ?es = "[\<lparr>le_fixture_id = ''mb'', le_path = ''INBOX'', le_attributes = [backslash # ''Inbox'']\<rparr>,
     \<lparr>le_fixture_id = ''arch'', le_path = ''Archive'', le_attributes = []\<rparr>]"
  have find: "find_path ''Archive'' ?es = Some \<lparr>le_fixture_id = ''arch'', le_path = ''Archive'', le_attributes = []\<rparr>"
    "find_path ''Archive/x'' ?es = None" "split_parent_leaf ''Archive/x'' = (Some ''Archive'', ''x'')"
    by code_simp+
  then obtain f' where "create_mailbox ''a'' ''Archive/x'' sample_inbox = Some (Inr f')"
    by (simp add: create_mailbox_def sample_listing resolve_parent_def)
  with create_then_listed [OF sample_tree this] show ?thesis by blast
qed

end
