(* ===== verification/Smtp_Session.thy ===== *)
theory Smtp_Session
  imports Imap_Session
begin

text \<open>
  The SMTP submission server of \<open>src/smtp.rs\<close>. The input of a connection is the byte stream the
  client sends, and after STARTTLS the decrypted stream of the TLS connection; lines are read from
  it as \<open>read_line\<close> does, and reading a line that is not UTF-8 is the I/O error it is in the code.
  \<open>Smtp_Delivery\<close> holds what a client may rely on. The shutdown signal is left out, a write to
  the socket succeeds, and the sink of MIME parsing (\<open>parse_mime\<close>, the mail-parser crate) is not
  modelled.
\<close>

subsection \<open>Submissions\<close>

record submission =
  su_from :: string
  su_recipients :: "string list"
  su_from_params :: "(string, string) btmap"
  su_rcpt_params :: "(string, string) btmap list"
  su_auth_mechanism :: "string option"
  su_account_id :: string
  su_data :: string
  su_received_at :: timestamp

type_synonym submission_log = "submission list"

definition submission_push :: "submission \<Rightarrow> submission_log \<Rightarrow> submission_log" where
  "submission_push s log = log @ [s]"

definition submission_snapshot :: "submission_log \<Rightarrow> submission list" where
  "submission_snapshot log = log"

definition submission_clear :: "submission_log \<Rightarrow> submission_log" where
  "submission_clear log = []"

subsection \<open>The connection\<close>

record smtp_state =
  ss_ehlo :: "string option"
  ss_auth :: "string option"
  ss_from :: "string option"
  ss_from_params :: "(string, string) btmap"
  ss_rcpts :: "string list"
  ss_rcpt_params :: "(string, string) btmap list"

definition smtp_state_default :: smtp_state where
  "smtp_state_default = \<lparr>ss_ehlo = None, ss_auth = None, ss_from = None, ss_from_params = [],
     ss_rcpts = [], ss_rcpt_params = []\<rparr>"

text \<open>
  \<open>sc_input\<close> is what is left of the stream, \<open>sc_tls_input\<close> the decrypted stream that follows a TLS
  handshake (\<open>None\<close>: the handshake fails).
\<close>

record smtp_conn =
  sc_input :: string
  sc_tls_input :: "string option"
  sc_state :: smtp_state
  sc_log :: submission_log
  sc_tls_acceptor :: bool
  sc_tls_active :: bool
  sc_account_id :: string
  sc_connection_id :: nat
  sc_request_log :: "request_entry list"

text \<open>What the handlers read: the clock, the fixture, the tokens, the callback, the latency.\<close>

record smtp_env =
  sv_now :: timestamp
  sv_fixture :: fixture
  sv_tokens :: token_store
  sv_override :: "string \<Rightarrow> string \<Rightarrow> (string \<times> string) option"
  sv_latency :: latency_knob

text \<open>How a handler ends: the loop goes on, QUIT, an I/O error, or a panic.\<close>

datatype outcome = Go | Quit | IoError | Panic

type_synonym handler = "smtp_conn \<Rightarrow> action list \<times> outcome \<times> smtp_conn"

definition smtp_greeting :: string where "smtp_greeting = ''220 saehrimnir ESMTP ready'' @ crlf"

subsection \<open>Reading and writing\<close>

fun split_line :: "string \<Rightarrow> string \<times> string" where
  "split_line [] = ([], [])"
| "split_line (c # cs) = (if c = CHR 0x0A then ([c], cs) else apfst (Cons c) (split_line cs))"

text \<open>\<open>None\<close> is the error of a line that is not UTF-8; the empty line is the end of the stream.\<close>

definition read_line :: "string \<Rightarrow> (string \<times> string) option" where
  "read_line s = (let (l, r) = split_line s in if utf8_valid l then Some (l, r) else None)"

lemma split_line_append: "split_line s = (l, r) \<Longrightarrow> s = l @ r"
  by (induction s arbitrary: l r) (auto split: if_splits simp: apfst_def map_prod_def split: prod.splits)

lemma read_line_shorter: "read_line s = Some (l, r) \<Longrightarrow> l \<noteq> [] \<Longrightarrow> length r < length s"
  by (auto simp: read_line_def Let_def split: prod.splits if_splits dest!: split_line_append)

definition write_reply :: "nat \<Rightarrow> string \<Rightarrow> action" where
  "write_reply code text = Send (show_nat code @ '' '' @ text @ crlf)"

text \<open>A one-line answer after which the loop goes on.\<close>

definition answer :: "nat \<Rightarrow> string \<Rightarrow> handler" where
  "answer code text c = ([write_reply code text], Go, c)"

definition maybe_override :: "smtp_env \<Rightarrow> string \<Rightarrow> string \<Rightarrow> (nat \<times> string) option" where
  "maybe_override env command payload =
     map_option (\<lambda>(status, message). (case parse_u16 status of Some n \<Rightarrow> n | None \<Rightarrow> 550, message))
       (sv_override env command payload)"

subsection \<open>Arguments\<close>

definition split_verb :: "string \<Rightarrow> string \<times> string" where
  "split_verb ln = (case split_once CHR '' '' ln of Some (v, r) \<Rightarrow> (v, r) | None \<Rightarrow> (ln, []))"

definition is_ascii_ws :: "char \<Rightarrow> bool" where
  "is_ascii_ws c \<longleftrightarrow> c \<in> {CHR 0x20, CHR 0x09, CHR 0x0A, CHR 0x0C, CHR 0x0D}"

text \<open>\<open>split_ascii_whitespace\<close>\<close>

fun ascii_words :: "string \<Rightarrow> string list" where
  "ascii_words [] = []"
| "ascii_words (c # cs) =
     (if is_ascii_ws c then ascii_words cs
      else case cs of
        [] \<Rightarrow> [[c]]
      | d # _ \<Rightarrow> if is_ascii_ws d then [c] # ascii_words cs
                 else case ascii_words cs of w # ws \<Rightarrow> (c # w) # ws | [] \<Rightarrow> [[c]])"

text \<open>One \<open>KEY[=VALUE]\<close> token; \<open>None\<close> where the key is empty.\<close>

definition envelope_param :: "string \<Rightarrow> (string \<times> string) option" where
  "envelope_param tok =
     (case split_once CHR ''='' tok of
        Some (k, v) \<Rightarrow> if trim k = [] then None else Some (to_upper (trim k), v)
      | None \<Rightarrow> Some (to_upper tok, []))"

fun envelope_params :: "string list \<Rightarrow> (string, string) btmap \<Rightarrow> (string, string) btmap option" where
  "envelope_params [] m = Some m"
| "envelope_params (tok # toks) m =
     (case envelope_param tok of None \<Rightarrow> None | Some (k, v) \<Rightarrow> envelope_params toks (bt_insert k v m))"

definition split_envelope_payload :: "string \<Rightarrow> (string \<times> (string, string) btmap) option" where
  "split_envelope_payload payload =
     (let trimmed = trim payload;
          addr = takeWhile (\<lambda>c. \<not> is_ascii_ws c) trimmed;
          rest = trim_start (dropWhile (\<lambda>c. \<not> is_ascii_ws c) trimmed)
      in map_option (Pair addr) (envelope_params (ascii_words rest) []))"

subsection \<open>Commands\<close>

definition reset_envelope :: "smtp_state \<Rightarrow> smtp_state" where
  "reset_envelope s = s\<lparr>ss_from := None, ss_from_params := [], ss_rcpts := [], ss_rcpt_params := []\<rparr>"

definition smtp_ehlo :: "string \<Rightarrow> handler" where
  "smtp_ehlo rest c =
     ([Send (''250-saehrimnir greets you'' @ crlf), Send (''250-SIZE 268435456'' @ crlf),
       Send (''250-8BITMIME'' @ crlf)] @
      (if sc_tls_acceptor c \<and> \<not> sc_tls_active c then [Send (''250-STARTTLS'' @ crlf)] else []) @
      [Send (''250 AUTH PLAIN LOGIN XOAUTH2'' @ crlf)],
      Go, c\<lparr>sc_state := reset_envelope (sc_state c\<lparr>ss_ehlo := Some (trim rest)\<rparr>)\<rparr>)"

definition smtp_starttls :: handler where
  "smtp_starttls c =
     (if sc_tls_active c then answer 503 ''TLS already active'' c
      else if \<not> sc_tls_acceptor c then answer 502 ''STARTTLS not supported'' c
      else
        let ready = write_reply 220 ''Ready to start TLS''
        in case sc_tls_input c of
             None \<Rightarrow> ([ready], IoError, c)
           | Some s \<Rightarrow>
               ([ready], Go, c\<lparr>sc_input := s, sc_tls_active := True, sc_state := smtp_state_default\<rparr>))"

text \<open>From the SASL response on.\<close>

definition smtp_auth_finish :: "smtp_env \<Rightarrow> string \<Rightarrow> string \<Rightarrow> handler" where
  "smtp_auth_finish env mech b64 c =
     (case maybe_override env ''AUTH'' mech of
        Some (code, msg) \<Rightarrow> answer code msg c
      | None \<Rightarrow>
          let account = (case sasl_decode_b64 b64 of
                None \<Rightarrow> None
              | Some decoded \<Rightarrow>
                  (case Option.bind (sasl_extract_bearer decoded) (account_for_token (sv_tokens env)) of
                     Some a \<Rightarrow> Some a
                   | None \<Rightarrow> Option.bind (sasl_extract_username mech decoded)
                              (account_id_for_username (sv_fixture env))));
              c' = (case account of Some a \<Rightarrow> c\<lparr>sc_account_id := a\<rparr> | None \<Rightarrow> c)
          in answer 235 ''authentication accepted'' (c'\<lparr>sc_state := sc_state c'\<lparr>ss_auth := Some mech\<rparr>\<rparr>))"

definition smtp_auth :: "smtp_env \<Rightarrow> string \<Rightarrow> handler" where
  "smtp_auth env rest c =
     (let (mech0, tail) = splitn2 rest;
          mech = to_upper mech0
      in if mech \<in> {''PLAIN'', ''LOGIN'', ''XOAUTH2'', ''OAUTHBEARER''} then
           (case map_option trim tail of
              Some b64 \<Rightarrow> smtp_auth_finish env mech b64 c
            | None \<Rightarrow>
                let prompt = Send (''334 '' @ crlf)
                in case read_line (sc_input c) of
                     None \<Rightarrow> ([prompt], IoError, c)
                   | Some (l, r) \<Rightarrow>
                       let c' = c\<lparr>sc_input := r\<rparr>; stripped = strip_crlf l
                       in if l = [] then ([prompt], Go, c')
                          else apfst (Cons prompt)
                            (if stripped = ''*'' then answer 501 ''AUTH cancelled'' c'
                             else smtp_auth_finish env mech stripped c'))
         else if mech = [] then answer 501 ''AUTH missing mechanism'' c
         else answer 504 ''unsupported SASL mechanism'' c)"

text \<open>
  MAIL and RCPT: the payload after the keyword (a panic where the keyword's length falls inside a
  character), the override, the address and its parameters.
\<close>

definition smtp_envelope ::
    "smtp_env \<Rightarrow> string \<Rightarrow> string \<Rightarrow> string \<Rightarrow> string \<Rightarrow> string \<Rightarrow>
     (string \<Rightarrow> (string, string) btmap \<Rightarrow> smtp_state \<Rightarrow> smtp_state) \<Rightarrow> handler" where
  "smtp_envelope env verb keyword missing malformed rest accept c =
     (case strip_prefix_ci (trim rest) keyword of
        None \<Rightarrow> ([], Panic, c)
      | Some None \<Rightarrow> answer 501 missing c
      | Some (Some p) \<Rightarrow>
          let payload = trim p
          in case maybe_override env verb payload of
               Some (code, msg) \<Rightarrow> answer code msg c
             | None \<Rightarrow>
                 (case split_envelope_payload payload of
                    None \<Rightarrow> answer 501 malformed c
                  | Some (addr, params) \<Rightarrow>
                      answer 250 ''OK'' (c\<lparr>sc_state := accept addr params (sc_state c)\<rparr>)))"

definition smtp_mail :: "smtp_env \<Rightarrow> string \<Rightarrow> handler" where
  "smtp_mail env rest c =
     (if ss_ehlo (sc_state c) = None then answer 503 ''send EHLO first'' c
      else smtp_envelope env ''MAIL'' ''FROM:'' ''expected MAIL FROM:<addr>''
        ''malformed MAIL FROM extension parameter'' rest
        (\<lambda>addr params s. s\<lparr>ss_from := Some addr, ss_from_params := params,
                           ss_rcpts := [], ss_rcpt_params := []\<rparr>) c)"

definition smtp_rcpt :: "smtp_env \<Rightarrow> string \<Rightarrow> handler" where
  "smtp_rcpt env rest c =
     (if ss_from (sc_state c) = None then answer 503 ''send MAIL FROM first'' c
      else smtp_envelope env ''RCPT'' ''TO:'' ''expected RCPT TO:<addr>''
        ''malformed RCPT TO extension parameter'' rest
        (\<lambda>addr params s. s\<lparr>ss_rcpts := ss_rcpts s @ [addr],
                           ss_rcpt_params := ss_rcpt_params s @ [params]\<rparr>) c)"

text \<open>\<open>None\<close> is the I/O error; the end of the stream ends the body as well.\<close>

function read_data_body :: "string \<Rightarrow> string \<Rightarrow> (string \<times> string) option" where
  "read_data_body out s =
     (case read_line s of
        None \<Rightarrow> None
      | Some (l, r) \<Rightarrow>
          if l = [] then Some (out, r)
          else
            let stripped = strip_crlf l
            in if stripped = ''.'' then Some (out, r)
               else read_data_body (out @ (case strip_prefix ''.'' stripped of
                      Some b \<Rightarrow> b | None \<Rightarrow> stripped) @ crlf) r)"
  by pat_completeness auto
termination
  by (relation "measure (\<lambda>(out, s). length s)") (auto dest: read_line_shorter)

declare read_data_body.simps [simp del]

definition smtp_data :: "smtp_env \<Rightarrow> handler" where
  "smtp_data env c =
     (let s = sc_state c in
      if ss_from s = None \<or> ss_rcpts s = []
      then answer 503 ''DATA requires MAIL FROM + at least one RCPT TO'' c
      else case maybe_override env ''DATA'' [] of
        Some (code, msg) \<Rightarrow> answer code msg c
      | None \<Rightarrow>
          let go = write_reply 354 ''send data, terminate with <CRLF>.<CRLF>''
          in case read_data_body [] (sc_input c) of
               None \<Rightarrow> ([go], IoError, c)
             | Some (data, rest) \<Rightarrow>
                 apfst (Cons go) (answer 250 ''OK queued''
                   (c\<lparr>sc_input := rest, sc_state := reset_envelope s,
                      sc_log := submission_push
                        \<lparr>su_from = (case ss_from s of Some a \<Rightarrow> a | None \<Rightarrow> []), su_recipients = ss_rcpts s,
                         su_from_params = ss_from_params s, su_rcpt_params = ss_rcpt_params s,
                         su_auth_mechanism = ss_auth s, su_account_id = sc_account_id c,
                         su_data = data, su_received_at = sv_now env\<rparr> (sc_log c)\<rparr>)))"

definition smtp_rset :: handler where
  "smtp_rset c = answer 250 ''OK'' (c\<lparr>sc_state := reset_envelope (sc_state c)\<rparr>)"

definition smtp_quit :: handler where
  "smtp_quit c = ([write_reply 221 ''saehrimnir bye''], Quit, c)"

subsection \<open>The dispatcher and the loop\<close>

definition smtp_logged_args :: "string \<Rightarrow> string \<Rightarrow> string" where
  "smtp_logged_args upper rest =
     (if upper = ''AUTH'' then (case split_ws rest of w # _ \<Rightarrow> w | [] \<Rightarrow> []) else rest)"

definition smtp_handle :: "smtp_env \<Rightarrow> string \<Rightarrow> string \<Rightarrow> handler" where
  "smtp_handle env upper rest =
     (if upper = ''EHLO'' \<or> upper = ''HELO'' then smtp_ehlo rest
      else if upper = ''STARTTLS'' then smtp_starttls
      else if upper = ''AUTH'' then smtp_auth env rest
      else if upper = ''MAIL'' then smtp_mail env rest
      else if upper = ''RCPT'' then smtp_rcpt env rest
      else if upper = ''DATA'' then smtp_data env
      else if upper = ''RSET'' then smtp_rset
      else if upper = ''NOOP'' then answer 250 ''OK''
      else if upper \<in> {''VRFY'', ''EXPN'', ''HELP''} then answer 502 ''command not implemented''
      else if upper = ''QUIT'' then smtp_quit
      else if upper = [] then answer 500 ''empty command''
      else answer 500 (''unknown command '' @ upper))"

definition smtp_dispatch :: "smtp_env \<Rightarrow> string \<Rightarrow> handler" where
  "smtp_dispatch env ln c =
     (let (verb, rest) = split_verb ln;
          upper = to_upper verb;
          log = record_with_conn (sv_now env) ''smtp'' upper
            (JObject [(''args'', JString (smtp_logged_args upper rest))])
            (Some (sc_connection_id c)) (sc_request_log c)
      in smtp_handle env upper rest (c\<lparr>sc_request_log := log\<rparr>))"

definition smtp_conn_new :: "smtp_env \<Rightarrow> bool \<Rightarrow> nat \<Rightarrow> submission_log \<Rightarrow> request_entry list \<Rightarrow>
     string \<Rightarrow> string option \<Rightarrow> smtp_conn" where
  "smtp_conn_new env acceptor n log rlog input tls_input =
     \<lparr>sc_input = input, sc_tls_input = tls_input, sc_state = smtp_state_default, sc_log = log,
      sc_tls_acceptor = acceptor, sc_tls_active = False,
      sc_account_id = primary_id (sv_fixture env), sc_connection_id = n, sc_request_log = rlog\<rparr>"

text \<open>What a connection still has to read: STARTTLS drops the plain stream and is accepted once.\<close>

definition unread :: "smtp_conn \<Rightarrow> nat" where
  "unread c = length (sc_input c) +
     (if sc_tls_active c then 0 else case sc_tls_input c of Some s \<Rightarrow> length s | None \<Rightarrow> 0)"

lemma read_data_body_shorter: "read_data_body out s = Some (d, r) \<Longrightarrow> length r \<le> length s"
proof (induction out s rule: read_data_body.induct)
  case (1 out s)
  show ?case
  proof (cases "read_line s")
    case None
    with "1.prems" show ?thesis by (simp add: read_data_body.simps [of out s])
  next
    case (Some x)
    obtain l t where x: "x = (l, t)" by (cases x)
    show ?thesis
    proof (cases "l = []")
      case True
      with "1.prems" Some x show ?thesis
        by (auto simp: read_data_body.simps [of out s] read_line_def Let_def
            split: prod.splits if_splits dest!: split_line_append)
    next
      case False
      with "1.prems" "1.IH" [OF Some x [symmetric] False refl] read_line_shorter [of s l t] Some x
      show ?thesis
        by (auto simp: read_data_body.simps [of out s] Let_def split: if_splits)
    qed
  qed
qed

lemma unread_answer [simp]: "unread (snd (snd (answer code text c))) = unread c"
  by (simp add: answer_def)

lemma unread_state [simp]:
  "unread (c\<lparr>sc_state := s\<rparr>) = unread c" "unread (c\<lparr>sc_account_id := a\<rparr>) = unread c"
  "unread (c\<lparr>sc_request_log := l\<rparr>) = unread c" "unread (c\<lparr>sc_log := g\<rparr>) = unread c"
  by (simp_all add: unread_def)

lemma unread_auth_finish [simp]: "unread (snd (snd (smtp_auth_finish env mech b64 c))) = unread c"
  by (simp add: smtp_auth_finish_def Let_def split: option.split)

lemma unread_input: "length r \<le> length (sc_input c) \<Longrightarrow> unread (c\<lparr>sc_input := r\<rparr>) \<le> unread c"
  by (simp add: unread_def)

lemma read_line_le: "read_line s = Some (l, r) \<Longrightarrow> length r \<le> length s"
  by (auto simp: read_line_def Let_def split: prod.splits if_splits dest!: split_line_append)

lemma unread_auth: "unread (snd (snd (smtp_auth env rest c))) \<le> unread c"
  by (auto simp: smtp_auth_def Let_def apfst_def map_prod_def case_prod_unfold split: option.split prod.split
      intro!: unread_input read_line_le)

lemma unread_envelope: "unread (snd (snd (smtp_envelope env verb kw m1 m2 rest acc c))) = unread c"
  by (simp add: smtp_envelope_def Let_def split: option.split prod.split)

lemma unread_data: "unread (snd (snd (smtp_data env c))) \<le> unread c"
  by (auto simp: smtp_data_def Let_def apfst_def map_prod_def case_prod_unfold unread_def answer_def
      split: option.split dest!: read_data_body_shorter)

lemma unread_starttls: "unread (snd (snd (smtp_starttls c))) \<le> unread c"
  by (auto simp: smtp_starttls_def Let_def unread_def answer_def split: option.split)

lemma unread_handle: "unread (snd (snd (smtp_handle env upper rest c))) \<le> unread c"
  using unread_auth unread_data unread_starttls
  by (auto simp: smtp_handle_def smtp_ehlo_def smtp_rset_def smtp_quit_def smtp_mail_def smtp_rcpt_def
      unread_envelope)

lemma unread_dispatch: "unread (snd (snd (smtp_dispatch env ln c))) \<le> unread c"
  using unread_handle [of env "to_upper (fst (split_verb ln))" "snd (split_verb ln)"]
  by (simp add: smtp_dispatch_def Let_def case_prod_unfold) (metis unread_state(3))

text \<open>
  The loop of \<open>serve_connection\<close>. It ends with the stream (\<open>Go\<close>), with QUIT, or with an error: each turn
  reads at least one byte.
\<close>

function smtp_loop :: "smtp_env \<Rightarrow> handler" where
  "smtp_loop env c =
     (case read_line (sc_input c) of
        None \<Rightarrow> ([], IoError, c)
      | Some (l, r) \<Rightarrow>
          if l = [] then ([], Go, c\<lparr>sc_input := r\<rparr>)
          else
            let d = smtp_dispatch env (strip_crlf l) (c\<lparr>sc_input := r\<rparr>);
                slept = sleep (sleep_for (sv_latency env) ''smtp'') @ fst d
            in if fst (snd d) \<noteq> Go then (slept, snd d)
               else apfst (append slept) (smtp_loop env (snd (snd d))))"
  by pat_completeness auto
termination
proof (relation "measure (\<lambda>(env, c). unread c)")
  fix env c x l r d slept
  assume "read_line (sc_input c) = Some x" "(l, r) = x" "l \<noteq> []"
    and d: "d = smtp_dispatch env (strip_crlf l) (c\<lparr>sc_input := r\<rparr>)"
  then have "unread (c\<lparr>sc_input := r\<rparr>) < unread c"
    by (auto simp: unread_def dest: read_line_shorter)
  with unread_dispatch [of env "strip_crlf l" "c\<lparr>sc_input := r\<rparr>"]
  show "((env, snd (snd d)), (env, c)) \<in> measure (\<lambda>(env, c). unread c)"
    unfolding d by simp
qed simp

declare smtp_loop.simps [simp del]

definition smtp_serve_connection :: "smtp_env \<Rightarrow> handler" where
  "smtp_serve_connection env c = apfst (Cons (Send smtp_greeting)) (smtp_loop env c)"

end
