(* ===== verification/Json_Value.thy ===== *)
theory Json_Value
  imports Fixture_Types
begin

text \<open>
  What the protocol listeners use of \<open>serde_json::Value\<close>: building objects (a \<open>Map\<close> is a sorted map,
  so a later insertion of a key replaces the earlier one) and reading them.
\<close>

definition jfields :: "(string \<times> json) list \<Rightarrow> (string, json) btmap" where
  "jfields kvs = fold (\<lambda>(k, v). bt_insert k v) kvs []"

definition jobj :: "(string \<times> json) list \<Rightarrow> json" where
  "jobj kvs = JObject (jfields kvs)"

definition jnat :: "nat \<Rightarrow> json" where "jnat n = JNumber (PosInt n)"

definition jint :: "int \<Rightarrow> json" where
  "jint n = JNumber (if n < 0 then NegInt n else PosInt (nat n))"

fun as_str :: "json \<Rightarrow> string option" where
  "as_str (JString s) = Some s"
| "as_str _ = None"

fun as_bool :: "json \<Rightarrow> bool option" where
  "as_bool (JBool b) = Some b"
| "as_bool _ = None"

fun as_array :: "json \<Rightarrow> json list option" where
  "as_array (JArray xs) = Some xs"
| "as_array _ = None"

fun as_object :: "json \<Rightarrow> (string \<times> json) list option" where
  "as_object (JObject kvs) = Some kvs"
| "as_object _ = None"

fun as_u64 :: "json \<Rightarrow> nat option" where
  "as_u64 (JNumber (PosInt n)) = Some n"
| "as_u64 _ = None"

fun as_i64 :: "json \<Rightarrow> int option" where
  "as_i64 (JNumber (PosInt n)) = (if n < 2 ^ 63 then Some (int n) else None)"
| "as_i64 (JNumber (NegInt n)) = Some n"
| "as_i64 _ = None"

text \<open>\<open>v.get(key)\<close>, which is \<open>None\<close> on anything but an object.\<close>

definition jget :: "string \<Rightarrow> json \<Rightarrow> json option" where
  "jget k v = Option.bind (as_object v) (\<lambda>kvs. map_of kvs k)"

text \<open>\<open>T::try_from(n).ok()\<close>\<close>

definition fit_nat :: "nat \<Rightarrow> nat \<Rightarrow> nat option" where
  "fit_nat hi n = (if n \<le> hi then Some n else None)"

definition fit_int :: "int \<Rightarrow> int \<Rightarrow> int \<Rightarrow> int option" where
  "fit_int lo hi n = (if lo \<le> n \<and> n \<le> hi then Some n else None)"

lemma map_of_fold_insert: "map_of (fold (\<lambda>(k, v). bt_insert k v) kvs m) = map_of m ++ map_of (rev kvs)"
  by (induction kvs arbitrary: m) (auto simp: fun_upd_def map_add_def fun_eq_iff split: option.splits)

lemma map_of_jfields: "map_of (jfields kvs) = map_of (rev kvs)"
  by (simp add: jfields_def map_of_fold_insert)

lemma bt_ok_jfields [simp]: "bt_ok (jfields kvs)"
proof -
  have "bt_ok m \<Longrightarrow> bt_ok (fold (\<lambda>(k, v). bt_insert k v) kvs m)" for m :: "(string, json) btmap"
    by (induction kvs arbitrary: m) auto
  then show ?thesis by (simp add: jfields_def)
qed

lemma as_object_jobj [simp]: "as_object (jobj kvs) = Some (jfields kvs)"
  by (simp add: jobj_def)

lemma as_u64_jnat [simp]: "as_u64 (jnat n) = Some n"
  by (simp add: jnat_def)

lemma as_i64_jint [simp]: "- (2 ^ 63) \<le> n \<Longrightarrow> n < 2 ^ 63 \<Longrightarrow> as_i64 (jint n) = Some n"
  by (auto simp: jint_def)

lemma as_i64_jnat [simp]: "n < 2 ^ 63 \<Longrightarrow> as_i64 (jnat n) = Some (int n)"
  by (simp add: jnat_def)

lemma fit_nat_le [simp]: "n \<le> hi \<Longrightarrow> fit_nat hi n = Some n"
  by (simp add: fit_nat_def)

lemma fit_int_le [simp]: "lo \<le> n \<Longrightarrow> n \<le> hi \<Longrightarrow> fit_int lo hi n = Some n"
  by (simp add: fit_int_def)

text \<open>Optional fields of an object.\<close>

lemma map_of_optional [simp]:
  "map_of (rev (case x of None \<Rightarrow> [] | Some a \<Rightarrow> [(k, f a)])) k' = (if k = k' then map_option f x else None)"
  "map_of (rev (case x of None \<Rightarrow> [] | Some a \<Rightarrow> if P a then [(k, f a)] else [])) k' =
     (if k = k' then Option.bind x (\<lambda>a. if P a then Some (f a) else None) else None)"
  "map_of (rev (if b then [(k, v)] else [])) k' = (if k = k' \<and> b then Some v else None)"
  by (auto split: option.split)

lemma jget_jobj: "jget k (jobj kvs) = map_of (rev kvs) k"
  by (simp add: jget_def map_of_jfields)

end
