(* ===== verification/Odata_Query.thy ===== *)
theory Odata_Query
  imports Json_Value
begin

text \<open>
  The OData query plumbing of the Graph listener (\<open>src/graph/odata.rs\<close>): query strings, skip and delta
  tokens, the links that carry them and the collection envelope. The lemmas show that a link the
  server hands out reads back as the request it stands for.
\<close>

subsection \<open>Decoding\<close>

definition hex :: "char \<Rightarrow> nat option" where
  "hex b =
     (let n = of_char b :: nat in
      if 48 \<le> n \<and> n \<le> 57 then Some (n - 48)
      else if 97 \<le> n \<and> n \<le> 102 then Some (n - 97 + 10)
      else if 65 \<le> n \<and> n \<le> 70 then Some (n - 65 + 10)
      else None)"

fun decode_bytes :: "string \<Rightarrow> string" where
  "decode_bytes [] = []"
| "decode_bytes (b # bs) =
     (if b = CHR ''+'' then CHR '' '' # decode_bytes bs
      else if b = CHR ''%'' then
        (case bs of
           x # y # rest \<Rightarrow>
             (case (hex x, hex y) of
                (Some h, Some l) \<Rightarrow> char_of (16 * h + l) # decode_bytes rest
              | _ \<Rightarrow> b # decode_bytes bs)
         | _ \<Rightarrow> b # decode_bytes bs)
      else b # decode_bytes bs)"

definition decode :: "string \<Rightarrow> string" where
  "decode s = utf8_lossy (decode_bytes s)"

fun decode_path_bytes :: "string \<Rightarrow> string" where
  "decode_path_bytes [] = []"
| "decode_path_bytes (b # bs) =
     (if b = CHR ''%'' then
        (case bs of
           x # y # rest \<Rightarrow>
             (case (hex x, hex y) of
                (Some h, Some l) \<Rightarrow> char_of (16 * h + l) # decode_path_bytes rest
              | _ \<Rightarrow> b # decode_path_bytes bs)
         | _ \<Rightarrow> b # decode_path_bytes bs)
      else b # decode_path_bytes bs)"

definition decode_path_segment :: "string \<Rightarrow> string" where
  "decode_path_segment s = utf8_lossy (decode_path_bytes s)"

definition parse_query_pairs :: "string \<Rightarrow> (string \<times> string) list" where
  "parse_query_pairs s =
     map (\<lambda>p. case split_once CHR ''='' p of Some (k, v) \<Rightarrow> (decode k, decode v) | None \<Rightarrow> (decode p, []))
       (filter (\<lambda>p. p \<noteq> []) (split_on CHR ''&'' s))"

definition query_param :: "string option \<Rightarrow> string \<Rightarrow> string option" where
  "query_param raw key = Option.bind raw (\<lambda>s. map_of (parse_query_pairs s) key)"

subsection \<open>Queries\<close>

record odata_query =
  oq_top :: "nat option"
  oq_skip :: "nat option"
  oq_filter :: "string option"
  oq_select :: "string option"
  oq_expand :: "string option"
  oq_orderby :: "string option"
  oq_count :: "bool option"
  oq_skiptoken :: "string option"
  oq_deltatoken :: "string option"

definition odata_default :: odata_query where
  "odata_default = \<lparr>oq_top = None, oq_skip = None, oq_filter = None, oq_select = None, oq_expand = None,
     oq_orderby = None, oq_count = None, oq_skiptoken = None, oq_deltatoken = None\<rparr>"

definition query_field :: "string \<times> string \<Rightarrow> odata_query \<Rightarrow> odata_query" where
  "query_field kv q =
     (let (k, v) = kv in
      if k = ''$top'' then q\<lparr>oq_top := parse_u32 v\<rparr>
      else if k = ''$skip'' then q\<lparr>oq_skip := parse_u32 v\<rparr>
      else if k = ''$filter'' then q\<lparr>oq_filter := Some v\<rparr>
      else if k = ''$select'' then q\<lparr>oq_select := Some v\<rparr>
      else if k = ''$expand'' then q\<lparr>oq_expand := Some v\<rparr>
      else if k = ''$orderby'' then q\<lparr>oq_orderby := Some v\<rparr>
      else if k = ''$count'' then q\<lparr>oq_count := Some (v = ''true'')\<rparr>
      else if k = ''$skiptoken'' then q\<lparr>oq_skiptoken := Some v\<rparr>
      else if k = ''$deltatoken'' then q\<lparr>oq_deltatoken := Some v\<rparr>
      else q)"

definition odata_parse :: "string option \<Rightarrow> odata_query" where
  "odata_parse raw = (case raw of
      None \<Rightarrow> odata_default
    | Some s \<Rightarrow> fold query_field (parse_query_pairs s) odata_default)"

definition encode_skiptoken :: "nat \<Rightarrow> string" where
  "encode_skiptoken offset = ''s.'' @ show_nat offset"

definition decode_skiptoken :: "string \<Rightarrow> nat option" where
  "decode_skiptoken token = Option.bind (strip_prefix ''s.'' token) parse_u32"

definition encode_deltatoken :: "string \<Rightarrow> string" where
  "encode_deltatoken state = ''d.'' @ state"

definition decode_deltatoken :: "string \<Rightarrow> string option" where
  "decode_deltatoken token = strip_prefix ''d.'' token"

definition query_offset :: "odata_query \<Rightarrow> nat option" where
  "query_offset q = (case oq_skiptoken q of
      Some t \<Rightarrow> decode_skiptoken t
    | None \<Rightarrow> Some (case oq_skip q of Some n \<Rightarrow> n | None \<Rightarrow> 0))"

definition page_size :: "odata_query \<Rightarrow> nat \<Rightarrow> nat \<Rightarrow> nat" where
  "page_size q dflt mx = max (min (case oq_top q of Some n \<Rightarrow> n | None \<Rightarrow> dflt) mx) 1"

subsection \<open>Links\<close>

definition unreserved :: "char \<Rightarrow> bool" where
  "unreserved c \<longleftrightarrow>
     (let n = of_char c :: nat in
      (65 \<le> n \<and> n \<le> 90) \<or> (97 \<le> n \<and> n \<le> 122) \<or> (48 \<le> n \<and> n \<le> 57) \<or>
      c \<in> {CHR ''-'', CHR ''_'', CHR ''.'', CHR ''~'', CHR ''$''})"

definition encode_byte :: "char \<Rightarrow> string" where
  "encode_byte c = (if unreserved c then [c] else if c = CHR '' '' then ''+'' else CHR ''%'' # show_byte_upper c)"

definition encode_form :: "string \<Rightarrow> string" where
  "encode_form s = concat (map encode_byte s)"

definition query_string :: "(string \<times> string) list \<Rightarrow> string" where
  "query_string pairs = join ''&'' (map (\<lambda>(k, v). encode_form k @ ''='' @ encode_form v) pairs)"

definition raw_pairs :: "string option \<Rightarrow> (string \<times> string) list" where
  "raw_pairs raw = (case raw of Some s \<Rightarrow> parse_query_pairs s | None \<Rightarrow> [])"

definition build_next_link :: "string \<Rightarrow> string \<Rightarrow> string option \<Rightarrow> nat \<Rightarrow> string" where
  "build_next_link host path raw offset =
     ''http://'' @ host @ path @ ''?'' @ query_string
       (filter (\<lambda>(k, _). k \<noteq> ''$skip'' \<and> k \<noteq> ''$skiptoken'') (raw_pairs raw) @
        [(''$skiptoken'', encode_skiptoken offset)])"

definition build_delta_link :: "string \<Rightarrow> string \<Rightarrow> string option \<Rightarrow> string \<Rightarrow> string" where
  "build_delta_link host path raw state =
     ''http://'' @ host @ path @ ''?'' @ query_string
       (filter (\<lambda>(k, _). k \<noteq> ''$skip'' \<and> k \<noteq> ''$skiptoken'' \<and> k \<noteq> ''$deltatoken'') (raw_pairs raw) @
        [(''$deltatoken'', encode_deltatoken state)])"

definition collection_envelope ::
    "string \<Rightarrow> json list \<Rightarrow> string option \<Rightarrow> string option \<Rightarrow> nat option \<Rightarrow> json" where
  "collection_envelope ctx vals next_link delta_link total_count = jobj (
     [(''@odata.context'', JString ctx)] @
     (case total_count of Some c \<Rightarrow> [(''@odata.count'', jnat c)] | None \<Rightarrow> []) @
     [(''value'', JArray vals)] @
     (case next_link of Some n \<Rightarrow> [(''@odata.nextLink'', JString n)] | None \<Rightarrow> []) @
     (case delta_link of Some d \<Rightarrow> [(''@odata.deltaLink'', JString d)] | None \<Rightarrow> []))"

subsection \<open>What is encoded decodes\<close>

lemma hex_digit_upper: "n < 16 \<Longrightarrow> hex (hex_digit_upper n) = Some n"
  by (auto simp: hex_def hex_digit_upper_def Let_def of_char_of)

lemma byte_high_nibble [simp]: "(of_char c :: nat) div 16 < 16"
proof -
  have "(of_char c :: nat) < 256"
    by (metis of_char_mod_256 mod_less_divisor zero_less_numeral)
  then show ?thesis by (metis less_mult_imp_div_less mult_numeral_1 numeral_times_numeral semiring_norm(10,11,12,13,14,15))
qed

lemma decode_encode_byte: "decode_bytes (encode_byte c @ s) = c # decode_bytes s"
proof (cases "unreserved c")
  case True
  then have "c \<noteq> CHR ''+''" "c \<noteq> CHR ''%''" by (auto simp: unreserved_def)
  with True show ?thesis by (simp add: encode_byte_def)
next
  case False
  have "char_of (16 * (of_char c div 16) + (of_char c :: nat) mod 16) = c" by simp
  with False show ?thesis
    by (simp add: encode_byte_def show_byte_upper_def hex_digit_upper)
qed

lemma decode_encode_form: "decode_bytes (encode_form s) = s"
  by (induction s) (simp_all add: encode_form_def decode_encode_byte)

lemma utf8_conts_take:
  "utf8_conts rs s = (k, True) \<Longrightarrow> k \<le> length s \<and> utf8_conts rs (take k s @ t) = (k, True)"
proof (induction rs s arbitrary: k rule: utf8_conts.induct)
  case (3 lo hi rs c s)
  then show ?case
    by (cases "utf8_conts rs s") (auto split: if_splits)
qed auto

lemma utf8_head_take:
  assumes "utf8_head c s = (n, True)"
  shows "0 < n \<and> n \<le> Suc (length s) \<and> utf8_head c (take (n - 1) s @ t) = (n, True)"
proof -
  from assms obtain rs k where "utf8_follow (of_char c) = Some rs" "utf8_conts rs s = (k, True)" "n = Suc k"
    by (auto simp: utf8_head_def split: option.splits prod.splits)
  with utf8_conts_take [of rs s k t] show ?thesis by (simp add: utf8_head_def)
qed

lemma utf8_valid_append_head:
  assumes "utf8_head c cs = (n, True)" and "utf8_valid t"
  shows "utf8_valid (take n (c # cs) @ t)"
proof -
  from utf8_head_take [OF assms(1), of t] obtain m where m: "n = Suc m" "m \<le> length cs"
    "utf8_head c (take m cs @ t) = (n, True)" by (cases n) auto
  then have "drop n (c # take m cs @ t) = t" by simp
  with m assms(2) show ?thesis by (simp add: utf8_valid.simps [of "c # take m cs @ t"])
qed

lemma utf8_valid_replacement:
  assumes "utf8_valid t"
  shows "utf8_valid ([CHR 0xEF, CHR 0xBF, CHR 0xBD] @ t)"
proof -
  have "utf8_head CHR 0xEF [CHR 0xBF, CHR 0xBD] = (3, True)"
    by (simp add: utf8_head_def utf8_follow_def)
  from utf8_valid_append_head [OF this assms] show ?thesis by simp
qed

lemma utf8_valid_lossy: "utf8_valid (utf8_lossy s)"
proof (induction s rule: utf8_lossy.induct)
  case (1 s)
  show ?case
  proof (cases s)
    case Nil
    then show ?thesis by (simp add: utf8_lossy.simps utf8_valid.simps)
  next
    case (Cons c cs)
    obtain n ok where h: "utf8_head c cs = (n, ok)" by fastforce
    have ih: "utf8_valid (utf8_lossy (drop n s))"
      using "1.IH" [OF Cons refl] h by metis
    with Cons h show ?thesis
      using utf8_valid_append_head [of c cs n] utf8_valid_replacement
      by (cases ok) (simp_all add: utf8_lossy.simps [of "c # cs"])
  qed
qed

lemma decode_encode: "utf8_valid s \<Longrightarrow> decode (encode_form s) = s"
  by (simp add: decode_def decode_encode_form utf8_lossy_valid)

lemma utf8_valid_Nil [simp]: "utf8_valid []"
  by (simp add: utf8_valid.simps)

lemma pairs_valid: "(k, v) \<in> set (parse_query_pairs s) \<Longrightarrow> utf8_valid k \<and> utf8_valid v"
  by (auto simp: parse_query_pairs_def decode_def utf8_valid_lossy split: option.splits)

lemma unreserved_plain: "unreserved c \<Longrightarrow> c \<noteq> CHR ''&'' \<and> c \<noteq> CHR ''=''"
  by (auto simp: unreserved_def)

lemma hex_upper_plain: "n < 16 \<Longrightarrow> hex_digit_upper n \<noteq> CHR ''&'' \<and> hex_digit_upper n \<noteq> CHR ''=''"
  using hex_digit_upper [of n] by (auto simp: hex_def)

lemma encode_form_plain: "CHR ''&'' \<notin> set (encode_form s)" "CHR ''='' \<notin> set (encode_form s)"
proof -
  have "CHR ''&'' \<notin> set (encode_byte c) \<and> CHR ''='' \<notin> set (encode_byte c)" for c
    using unreserved_plain [of c] hex_upper_plain [of "of_char c div 16"] hex_upper_plain [of "of_char c mod 16"]
    by (auto simp: encode_byte_def show_byte_upper_def)
  then show "CHR ''&'' \<notin> set (encode_form s)" "CHR ''='' \<notin> set (encode_form s)"
    by (auto simp: encode_form_def)
qed

text \<open>Reading back the query of a link.\<close>

lemma parse_query_string:
  assumes "ps \<noteq> []" and "\<forall>(k, v) \<in> set ps. utf8_valid k \<and> utf8_valid v"
  shows "parse_query_pairs (query_string ps) = ps"
proof -
  let ?e = "\<lambda>(k, v). encode_form k @ ''='' @ encode_form v"
  have "split_on CHR ''&'' (query_string ps) = map ?e ps"
    unfolding query_string_def by (rule split_on_join) (use assms(1) in \<open>auto simp: encode_form_plain\<close>)
  moreover have "filter (\<lambda>p. p \<noteq> []) (map ?e ps) = map ?e ps"
    by (rule filter_True) auto
  ultimately have "parse_query_pairs (query_string ps) =
      map ((\<lambda>p. case split_once CHR ''='' p of Some (k, v) \<Rightarrow> (decode k, decode v) | None \<Rightarrow> (decode p, [])) \<circ> ?e) ps"
    by (simp add: parse_query_pairs_def)
  also have "\<dots> = map (\<lambda>p. p) ps"
    by (rule map_cong [OF refl]) (use assms(2) in \<open>auto simp: encode_form_plain decode_encode\<close>)
  finally show ?thesis by simp
qed

lemma ascii_valid_show_nat: "utf8_valid (show_nat n)"
  by (rule utf8_valid_ascii) (auto dest!: show_nat_digits simp: is_digit_def)

subsection \<open>Links stand for the request they continue\<close>

lemma raw_pairs_valid: "(k, v) \<in> set (raw_pairs raw) \<Longrightarrow> utf8_valid k \<and> utf8_valid v"
  by (auto simp: raw_pairs_def split: option.splits dest: pairs_valid)

lemma odata_parse_pairs: "odata_parse raw = fold query_field (raw_pairs raw) odata_default"
  by (simp add: odata_parse_def raw_pairs_def split: option.split)

lemma query_param_pairs: "query_param raw key = map_of (raw_pairs raw) key"
  by (cases raw) (simp_all add: query_param_def raw_pairs_def)

text \<open>Fields other than the ones dropped are read from the pairs kept.\<close>

definition drop_keys :: "string set \<Rightarrow> (string \<times> string) list \<Rightarrow> (string \<times> string) list" where
  "drop_keys K ps = filter (\<lambda>(k, _). k \<notin> K) ps"

definition forget :: "odata_query \<Rightarrow> odata_query" where
  "forget q = q\<lparr>oq_skip := None, oq_skiptoken := None\<rparr>"

definition forget_delta :: "odata_query \<Rightarrow> odata_query" where
  "forget_delta q = q\<lparr>oq_skip := None, oq_skiptoken := None, oq_deltatoken := None\<rparr>"

lemma query_field_forget:
  "k \<noteq> ''$skip'' \<Longrightarrow> k \<noteq> ''$skiptoken'' \<Longrightarrow> query_field (k, v) (forget q) = forget (query_field (k, v) q)"
  "k = ''$skip'' \<or> k = ''$skiptoken'' \<Longrightarrow> forget (query_field (k, v) q) = forget q"
proof -
  show "k \<noteq> ''$skip'' \<Longrightarrow> k \<noteq> ''$skiptoken'' \<Longrightarrow> query_field (k, v) (forget q) = forget (query_field (k, v) q)"
    by (simp only: query_field_def Let_def prod.case if_False if_distrib [of forget] cong: if_cong)
      (simp add: forget_def)
  show "k = ''$skip'' \<or> k = ''$skiptoken'' \<Longrightarrow> forget (query_field (k, v) q) = forget q"
    by (elim disjE) (simp_all add: query_field_def forget_def)
qed

lemma query_field_forget_delta:
  "k \<noteq> ''$skip'' \<Longrightarrow> k \<noteq> ''$skiptoken'' \<Longrightarrow> k \<noteq> ''$deltatoken'' \<Longrightarrow>
     query_field (k, v) (forget_delta q) = forget_delta (query_field (k, v) q)"
  "k = ''$skip'' \<or> k = ''$skiptoken'' \<or> k = ''$deltatoken'' \<Longrightarrow>
     forget_delta (query_field (k, v) q) = forget_delta q"
proof -
  show "k \<noteq> ''$skip'' \<Longrightarrow> k \<noteq> ''$skiptoken'' \<Longrightarrow> k \<noteq> ''$deltatoken'' \<Longrightarrow>
     query_field (k, v) (forget_delta q) = forget_delta (query_field (k, v) q)"
    by (simp only: query_field_def Let_def prod.case if_False if_distrib [of forget_delta] cong: if_cong)
      (simp add: forget_delta_def)
  show "k = ''$skip'' \<or> k = ''$skiptoken'' \<or> k = ''$deltatoken'' \<Longrightarrow>
     forget_delta (query_field (k, v) q) = forget_delta q"
    by (elim disjE) (simp_all add: query_field_def forget_delta_def)
qed

lemma fold_drop_keys:
  "fold query_field (drop_keys {''$skip'', ''$skiptoken''} ps) (forget q) = forget (fold query_field ps q)"
proof (induction ps arbitrary: q)
  case (Cons p ps)
  obtain k v where p: "p = (k, v)" by (cases p)
  show ?case
  proof (cases "k = ''$skip'' \<or> k = ''$skiptoken''")
    case True
    then have "drop_keys {''$skip'', ''$skiptoken''} (p # ps) = drop_keys {''$skip'', ''$skiptoken''} ps"
      by (auto simp: drop_keys_def p)
    with Cons.IH [of "query_field (k, v) q"] query_field_forget(2) [OF True] show ?thesis by (simp add: p)
  next
    case False
    then have "drop_keys {''$skip'', ''$skiptoken''} (p # ps) = p # drop_keys {''$skip'', ''$skiptoken''} ps"
      by (auto simp: drop_keys_def p)
    with Cons.IH [of "query_field (k, v) q"] query_field_forget(1) [of k v q] False show ?thesis by (simp add: p)
  qed
qed (simp add: drop_keys_def)

lemma fold_drop_keys_delta:
  "fold query_field (drop_keys {''$skip'', ''$skiptoken'', ''$deltatoken''} ps) (forget_delta q) =
     forget_delta (fold query_field ps q)"
proof (induction ps arbitrary: q)
  case (Cons p ps)
  obtain k v where p: "p = (k, v)" by (cases p)
  let ?K = "{''$skip'', ''$skiptoken'', ''$deltatoken''}"
  show ?case
  proof (cases "k = ''$skip'' \<or> k = ''$skiptoken'' \<or> k = ''$deltatoken''")
    case True
    then have "drop_keys ?K (p # ps) = drop_keys ?K ps" by (auto simp: drop_keys_def p)
    with Cons.IH [of "query_field (k, v) q"] query_field_forget_delta(2) [OF True] show ?thesis by (simp add: p)
  next
    case False
    then have "drop_keys ?K (p # ps) = p # drop_keys ?K ps" by (auto simp: drop_keys_def p)
    with Cons.IH [of "query_field (k, v) q"] query_field_forget_delta(1) [of k v q] False show ?thesis by (simp add: p)
  qed
qed (simp add: drop_keys_def)

lemma next_link_pairs:
  obtains qs where "build_next_link host path raw offset = ''http://'' @ host @ path @ ''?'' @ qs"
    "raw_pairs (Some qs) = drop_keys {''$skip'', ''$skiptoken''} (raw_pairs raw) @ [(''$skiptoken'', encode_skiptoken offset)]"
proof -
  let ?ps = "drop_keys {''$skip'', ''$skiptoken''} (raw_pairs raw) @ [(''$skiptoken'', encode_skiptoken offset)]"
  have "utf8_valid ''$skiptoken''" by (rule utf8_valid_ascii) simp
  moreover have "utf8_valid (encode_skiptoken offset)"
    unfolding encode_skiptoken_def
    by (rule utf8_valid_ascii) (auto dest!: show_nat_digits simp: is_digit_def)
  ultimately have "\<forall>(k, v) \<in> set ?ps. utf8_valid k \<and> utf8_valid v"
    using raw_pairs_valid by (fastforce simp: drop_keys_def)
  then have "parse_query_pairs (query_string ?ps) = ?ps" by (intro parse_query_string) simp_all
  moreover have "build_next_link host path raw offset = ''http://'' @ host @ path @ ''?'' @ query_string ?ps"
    by (simp add: build_next_link_def drop_keys_def)
  ultimately show ?thesis by (intro that) (simp_all add: raw_pairs_def)
qed

lemma delta_link_pairs:
  assumes "utf8_valid state"
  obtains qs where "build_delta_link host path raw state = ''http://'' @ host @ path @ ''?'' @ qs"
    "raw_pairs (Some qs) =
       drop_keys {''$skip'', ''$skiptoken'', ''$deltatoken''} (raw_pairs raw) @ [(''$deltatoken'', encode_deltatoken state)]"
proof -
  let ?ps = "drop_keys {''$skip'', ''$skiptoken'', ''$deltatoken''} (raw_pairs raw) @
    [(''$deltatoken'', encode_deltatoken state)]"
  have "utf8_valid ''$deltatoken''" by (rule utf8_valid_ascii) simp
  moreover have "utf8_valid (encode_deltatoken state)"
    using assms by (simp add: encode_deltatoken_def utf8_valid.simps [of "CHR ''d'' # s" for s]
        utf8_valid.simps [of "CHR ''.'' # s" for s] utf8_head_ascii)
  ultimately have "\<forall>(k, v) \<in> set ?ps. utf8_valid k \<and> utf8_valid v"
    using raw_pairs_valid by (fastforce simp: drop_keys_def)
  then have "parse_query_pairs (query_string ?ps) = ?ps" by (intro parse_query_string) simp_all
  moreover have "build_delta_link host path raw state = ''http://'' @ host @ path @ ''?'' @ query_string ?ps"
    by (simp add: build_delta_link_def drop_keys_def)
  ultimately show ?thesis by (intro that) (simp_all add: raw_pairs_def)
qed

lemma map_of_drop_keys: "key \<notin> K \<Longrightarrow> map_of (drop_keys K ps) key = map_of ps key"
  by (induction ps) (auto simp: drop_keys_def)

lemma next_link_query:
  obtains qs where "build_next_link host path raw offset = ''http://'' @ host @ path @ ''?'' @ qs"
    "odata_parse (Some qs) = (odata_parse raw)\<lparr>oq_skip := None, oq_skiptoken := Some (encode_skiptoken offset)\<rparr>"
    "\<And>key. key \<noteq> ''$skip'' \<Longrightarrow> key \<noteq> ''$skiptoken'' \<Longrightarrow> query_param (Some qs) key = query_param raw key"
proof -
  from next_link_pairs [of host path raw offset] obtain qs
    where qs: "build_next_link host path raw offset = ''http://'' @ host @ path @ ''?'' @ qs"
      "raw_pairs (Some qs) = drop_keys {''$skip'', ''$skiptoken''} (raw_pairs raw) @ [(''$skiptoken'', encode_skiptoken offset)]" .
  have "fold query_field (drop_keys {''$skip'', ''$skiptoken''} (raw_pairs raw)) odata_default = forget (odata_parse raw)"
    using fold_drop_keys [of "raw_pairs raw" odata_default] by (simp add: odata_parse_pairs forget_def odata_default_def)
  then have "odata_parse (Some qs) = (odata_parse raw)\<lparr>oq_skip := None, oq_skiptoken := Some (encode_skiptoken offset)\<rparr>"
    by (simp add: odata_parse_pairs [of "Some qs"] qs(2) query_field_def forget_def)
  moreover have "query_param (Some qs) key = query_param raw key" if "key \<noteq> ''$skip''" "key \<noteq> ''$skiptoken''" for key
    using that by (auto simp: query_param_pairs qs(2) map_of_drop_keys map_add_def split: option.split)
  ultimately show ?thesis by (rule that [OF qs(1)])
qed

lemma delta_link_query:
  assumes "utf8_valid state"
  obtains qs where "build_delta_link host path raw state = ''http://'' @ host @ path @ ''?'' @ qs"
    "odata_parse (Some qs) = (odata_parse raw)\<lparr>oq_skip := None, oq_skiptoken := None,
       oq_deltatoken := Some (encode_deltatoken state)\<rparr>"
proof -
  let ?K = "{''$skip'', ''$skiptoken'', ''$deltatoken''}"
  from delta_link_pairs [OF assms, of host path raw] obtain qs
    where qs: "build_delta_link host path raw state = ''http://'' @ host @ path @ ''?'' @ qs"
      "raw_pairs (Some qs) = drop_keys ?K (raw_pairs raw) @ [(''$deltatoken'', encode_deltatoken state)]" .
  have "fold query_field (drop_keys ?K (raw_pairs raw)) odata_default = forget_delta (odata_parse raw)"
    using fold_drop_keys_delta [of "raw_pairs raw" odata_default]
    by (simp add: odata_parse_pairs forget_delta_def odata_default_def)
  then have "odata_parse (Some qs) = (odata_parse raw)\<lparr>oq_skip := None, oq_skiptoken := None,
       oq_deltatoken := Some (encode_deltatoken state)\<rparr>"
    by (simp add: odata_parse_pairs [of "Some qs"] qs(2) query_field_def forget_delta_def)
  then show ?thesis by (rule that [OF qs(1)])
qed

lemma decode_skiptoken_encode [simp]: "n \<le> u32_max \<Longrightarrow> decode_skiptoken (encode_skiptoken n) = Some n"
  by (simp add: decode_skiptoken_def encode_skiptoken_def)

lemma decode_deltatoken_encode [simp]: "decode_deltatoken (encode_deltatoken s) = Some s"
  by (simp add: decode_deltatoken_def encode_deltatoken_def)

end
