(* ===== verification/Smtp_Delivery.thy ===== *)
theory Smtp_Delivery
  imports Smtp_Session Imap_Safety Odata_Query
begin

text \<open>
  What a client of the submission server of \<open>src/smtp.rs\<close> may rely on: dot-stuffing is undone, a
  submission that is sent is the submission that is captured, and nothing malformed is captured,
  whatever bytes the client sends.
\<close>

subsection \<open>Lines\<close>

text \<open>A line of a message: UTF-8 without a line feed. A command line is ASCII.\<close>

definition body_line :: "string \<Rightarrow> bool" where
  "body_line l \<longleftrightarrow> utf8_valid l \<and> CHR 0x0A \<notin> set l"

definition plain_line :: "string \<Rightarrow> bool" where
  "plain_line l \<longleftrightarrow> ascii_only l \<and> CHR 0x0A \<notin> set l"

lemma plain_body_line: "plain_line l \<Longrightarrow> body_line l"
  by (auto simp: plain_line_def body_line_def ascii_only_def intro!: utf8_valid_ascii)

lemma utf8_valid_append: "utf8_valid s \<Longrightarrow> utf8_valid t \<Longrightarrow> utf8_valid (s @ t)"
proof (induction s rule: utf8_valid.induct)
  case (1 s)
  show ?case
  proof (cases s)
    case (Cons c cs)
    obtain n ok where h: "utf8_head c cs = (n, ok)" by fastforce
    from "1.prems"(1) Cons h have ok and v: "utf8_valid (drop n s)" by (auto simp: utf8_valid.simps [of "c # cs"])
    with "1.IH" [OF Cons _ refl] h "1.prems"(2) have "utf8_valid (drop n s @ t)" by auto
    from utf8_valid_append_head [OF _ this, of c cs] h \<open>ok\<close> show ?thesis
      by (simp add: Cons flip: append_assoc)
  qed (use "1.prems" in simp)
qed

lemma split_line_crlf: "CHR 0x0A \<notin> set l \<Longrightarrow> split_line (l @ crlf @ r) = (l @ crlf, r)"
  by (induction l) auto

lemma read_line_body: "body_line l \<Longrightarrow> read_line (l @ crlf @ r) = Some (l @ crlf, r)"
proof -
  assume l: "body_line l"
  then have "split_line (l @ crlf @ r) = (l @ crlf, r)"
    unfolding body_line_def by (intro split_line_crlf) simp
  moreover have "utf8_valid (l @ crlf)"
    using l by (intro utf8_valid_append) (simp_all add: body_line_def utf8_valid_ascii)
  ultimately show ?thesis by (simp only: read_line_def Let_def prod.case if_True)
qed

lemmas read_line_plain = read_line_body [OF plain_body_line]

lemma strip_crlf_line [simp]: "strip_crlf (l @ crlf) = l"
  by (simp add: strip_crlf_def)

subsection \<open>Dot-stuffing\<close>

text \<open>What a client sends for a body line: a leading dot is doubled.\<close>

definition stuff :: "string \<Rightarrow> string" where
  "stuff l = (if prefix ''.'' l then CHR ''.'' # l else l)"

definition stuffed_body :: "string list \<Rightarrow> string" where
  "stuffed_body ls = concat (map (\<lambda>l. stuff l @ crlf) ls) @ ''.'' @ crlf"

lemma body_stuff: "body_line l \<Longrightarrow> body_line (stuff l)"
  by (auto simp: stuff_def body_line_def utf8_valid.simps [of "CHR ''.'' # l"] utf8_head_ascii)

lemma unstuff: "(case strip_prefix ''.'' (stuff l) of Some b \<Rightarrow> b | None \<Rightarrow> stuff l) = l"
proof (cases l)
  case (Cons c cs)
  then show ?thesis by (simp add: stuff_def)
qed (simp add: stuff_def)

lemma stuff_not_end: "stuff l \<noteq> ''.''"
  by (cases l) (auto simp: stuff_def)

lemma read_stuffed_body:
  assumes "\<forall>l \<in> set ls. body_line l"
  shows "read_data_body out (stuffed_body ls @ rest) = Some (out @ concat (map (\<lambda>l. l @ crlf) ls), rest)"
  using assms
proof (induction ls arbitrary: out)
  case Nil
  have "plain_line ''.''" by (simp add: plain_line_def ascii_only_def)
  from read_line_plain [OF this, of rest] strip_crlf_line [of "''.''"] show ?case
    by (simp add: stuffed_body_def read_data_body.simps [of out] Let_def)
next
  case (Cons l ls)
  have tail: "stuffed_body (l # ls) @ rest = stuff l @ crlf @ (stuffed_body ls @ rest)"
    by (simp add: stuffed_body_def)
  have "read_data_body out (stuffed_body (l # ls) @ rest) = read_data_body (out @ l @ crlf) (stuffed_body ls @ rest)"
    unfolding tail using read_line_body [OF body_stuff, of l "stuffed_body ls @ rest"] Cons.prems
      strip_crlf_line [of "stuff l"] stuff_not_end [of l] unstuff [of l]
    by (subst read_data_body.simps) (simp add: Let_def del: strip_crlf_line split: option.splits)
  also have "\<dots> = Some ((out @ l @ crlf) @ concat (map (\<lambda>l. l @ crlf) ls), rest)"
    using Cons by simp
  finally show ?case by simp
qed

text \<open>
  Dot-stuffing is undone. Whatever UTF-8 lines a message has, a body sent with every leading dot
  doubled and closed by a lone dot is read back as exactly the lines of the message, up to the end marker
  and no further.
\<close>

theorem dot_stuffing_roundtrip:
  assumes "\<forall>l \<in> set ls. body_line l"
  shows "read_data_body [] (stuffed_body ls @ rest) = Some (concat (map (\<lambda>l. l @ crlf) ls), rest)"
  using read_stuffed_body [OF assms, of "[]"] by simp

theorem dot_stuffing_roundtrip_witness:
  "read_data_body [] (stuffed_body [''Subject: x'', [], ''.hidden'', ''.''] @ ''QUIT'') =
     Some (''Subject: x'' @ crlf @ crlf @ ''.hidden'' @ crlf @ ''.'' @ crlf, ''QUIT'')"
  using dot_stuffing_roundtrip [of "[''Subject: x'', [], ''.hidden'', ''.'']" "''QUIT''"]
  by (simp add: body_line_def utf8_valid_ascii)

subsection \<open>Whatever the client sends\<close>

text \<open>A captured submission: at least one recipient, and parameters for each.\<close>

definition sub_ok :: "submission \<Rightarrow> bool" where
  "sub_ok s \<longleftrightarrow> su_recipients s \<noteq> [] \<and> length (su_rcpt_params s) = length (su_recipients s)"

text \<open>The envelope: recipients only after a sender, and parameters for each recipient.\<close>

definition state_ok :: "smtp_state \<Rightarrow> bool" where
  "state_ok s \<longleftrightarrow> length (ss_rcpt_params s) = length (ss_rcpts s) \<and>
     (ss_from s = None \<longrightarrow> ss_rcpts s = [] \<and> ss_from_params s = []) \<and> (ss_from s \<noteq> None \<longrightarrow> ss_ehlo s \<noteq> None)"

definition grows :: "smtp_conn \<Rightarrow> smtp_conn \<Rightarrow> bool" where
  "grows c c' \<longleftrightarrow> (state_ok (sc_state c) \<longrightarrow> state_ok (sc_state c') \<and>
     (\<exists>new. sc_log c' = sc_log c @ new \<and> (\<forall>s \<in> set new. sub_ok s)))"

lemma grows_refl [simp]: "grows c c"
  by (simp add: grows_def)

lemma grows_trans: "grows c c1 \<Longrightarrow> grows c1 c2 \<Longrightarrow> grows c c2"
  unfolding grows_def by fastforce

lemma grows_answer [simp]: "grows c (snd (snd (answer code text c'))) \<longleftrightarrow> grows c c'"
  by (simp add: answer_def)

lemma grows_same: "sc_log c' = sc_log c \<Longrightarrow> (state_ok (sc_state c) \<Longrightarrow> state_ok (sc_state c')) \<Longrightarrow> grows c c'"
  by (simp add: grows_def)

lemma grows_auth_finish: "grows c (snd (snd (smtp_auth_finish env mech b64 c)))"
  by (auto simp: smtp_auth_finish_def Let_def state_ok_def intro!: grows_same split: option.split)

lemma grows_auth: "grows c (snd (snd (smtp_auth env rest c)))"
proof -
  have "grows c (snd (snd (smtp_auth_finish env mech b64 (c\<lparr>sc_input := r\<rparr>))))" for mech b64 r
    using grows_auth_finish [of "c\<lparr>sc_input := r\<rparr>"] by (simp add: grows_def)
  then show ?thesis
    by (auto simp: smtp_auth_def Let_def apfst_def map_prod_def case_prod_unfold grows_auth_finish
        intro!: grows_same split: option.split)
qed

lemma grows_envelope:
  "(\<And>addr params s. state_ok s \<Longrightarrow> s = sc_state c \<Longrightarrow> state_ok (acc addr params s)) \<Longrightarrow>
     grows c (snd (snd (smtp_envelope env verb kw m1 m2 rest acc c)))"
  by (auto simp: smtp_envelope_def Let_def intro!: grows_same split: option.split prod.split)

lemma grows_data: "grows c (snd (snd (smtp_data env c)))"
  by (auto simp: smtp_data_def Let_def apfst_def map_prod_def case_prod_unfold answer_def grows_def
      submission_push_def sub_ok_def state_ok_def reset_envelope_def split: option.split)

lemma grows_handle: "grows c (snd (snd (smtp_handle env upper rest c)))"
proof -
  have "grows c (snd (snd (smtp_mail env rest c)))" "grows c (snd (snd (smtp_rcpt env rest c)))"
    unfolding smtp_mail_def smtp_rcpt_def
    by (auto intro!: grows_envelope simp: state_ok_def)
  moreover have "grows c (snd (snd (smtp_starttls c)))" "grows c (snd (snd (smtp_ehlo rest c)))"
    "grows c (snd (snd (smtp_rset c)))" "grows c (snd (snd (smtp_quit c)))"
    by (auto simp: smtp_starttls_def smtp_ehlo_def smtp_rset_def smtp_quit_def Let_def state_ok_def
        smtp_state_default_def reset_envelope_def intro!: grows_same split: option.split)
  ultimately show ?thesis
    by (simp add: smtp_handle_def grows_auth grows_data)
qed

lemma grows_dispatch: "grows c (snd (snd (smtp_dispatch env ln c)))"
proof -
  have "grows c (c\<lparr>sc_request_log := l\<rparr>)" for l by (simp add: grows_def)
  then show ?thesis
    unfolding smtp_dispatch_def Let_def case_prod_unfold by (rule grows_trans) (rule grows_handle)
qed

lemma grows_loop: "grows c (snd (snd (smtp_loop env c)))"
proof (induction env c rule: smtp_loop.induct)
  case (1 env c)
  show ?case
  proof (cases "read_line (sc_input c)")
    case None
    then show ?thesis by (simp add: smtp_loop.simps [of env c])
  next
    case (Some x)
    obtain l r where x: "x = (l, r)" by (cases x)
    let ?d = "smtp_dispatch env (strip_crlf l) (c\<lparr>sc_input := r\<rparr>)"
    have input: "grows c (c\<lparr>sc_input := r\<rparr>)" by (simp add: grows_def)
    then have d: "grows c (snd (snd ?d))" using grows_dispatch grows_trans by blast
    show ?thesis
    proof (cases "l = [] \<or> fst (snd ?d) \<noteq> Go")
      case True
      then show ?thesis
        using Some x input d by (auto simp: smtp_loop.simps [of env c] Let_def)
    next
      case False
      have "grows (snd (snd ?d)) (snd (snd (smtp_loop env (snd (snd ?d)))))"
        using False by (intro "1.IH" [OF Some x [symmetric] _ refl refl]) simp_all
      then show ?thesis
        using False Some x d grows_trans by (simp add: smtp_loop.simps [of env c] Let_def)
    qed
  qed
qed

text \<open>
  C27. Nothing malformed is captured. Whatever bytes a client sends, on the plain stream and after STARTTLS,
  and whatever the callbacks override, the connection only adds to the submission log, and every submission it
  adds has at least one recipient and one set of parameters per recipient; the envelope that is left
  has recipients only after a sender, and a sender only after EHLO.
\<close>

theorem smtp_captures_wellformed:
  "\<exists>new. sc_log (snd (snd (smtp_serve_connection env (smtp_conn_new env acceptor n log rlog input tls)))) = log @ new \<and>
     (\<forall>s \<in> set new. su_recipients s \<noteq> [] \<and> length (su_rcpt_params s) = length (su_recipients s)) \<and>
     state_ok (sc_state (snd (snd (smtp_serve_connection env (smtp_conn_new env acceptor n log rlog input tls)))))"
proof -
  let ?c = "smtp_conn_new env acceptor n log rlog input tls"
  have "grows ?c (snd (snd (smtp_loop env ?c)))" by (rule grows_loop)
  moreover have "state_ok (sc_state ?c)" "sc_log ?c = log"
    by (simp_all add: smtp_conn_new_def state_ok_def smtp_state_default_def)
  ultimately show ?thesis
    by (simp add: grows_def smtp_serve_connection_def sub_ok_def apfst_def map_prod_def case_prod_unfold)
qed

subsection \<open>A submission from end to end\<close>

definition graphic_text :: "string \<Rightarrow> bool" where
  "graphic_text s \<longleftrightarrow> (\<forall>c \<in> set s. graphic c)"

lemma plain_graphic: "graphic_text s \<Longrightarrow> plain_line s"
  by (auto simp: graphic_text_def plain_line_def ascii_only_def graphic_def)

lemma plain_append: "plain_line a \<Longrightarrow> plain_line b \<Longrightarrow> plain_line (a @ b)"
  by (auto simp: plain_line_def ascii_only_def)

lemma strip_keyword: "graphic_text s \<Longrightarrow> strip_prefix_ci (kw @ s) kw = Some (Some s)"
proof -
  assume s: "graphic_text s"
  have "char_boundary (kw @ s) (length kw)"
    using s by (cases s) (auto simp: char_boundary_def graphic_text_def graphic_def)
  then show ?thesis by (simp add: strip_prefix_ci_def)
qed

lemma graphic_not_ws: "graphic c \<Longrightarrow> \<not> is_ascii_ws c"
  by (auto simp: graphic_def is_ascii_ws_def)

lemma split_plain_payload: "graphic_text s \<Longrightarrow> split_envelope_payload s = Some (s, [])"
proof -
  assume s: "graphic_text s"
  then have ws: "takeWhile (\<lambda>c. \<not> is_ascii_ws c) s = s" "dropWhile (\<lambda>c. \<not> is_ascii_ws c) s = []"
    by (simp_all add: graphic_text_def graphic_not_ws)
  have "trim s = s"
    using s by (intro trim_graphic) (simp add: graphic_text_def)
  moreover have "trim_start [] = []"
    by (simp add: trim_start_graphic)
  ultimately show ?thesis by (simp add: split_envelope_payload_def Let_def ws)
qed

text \<open>One turn of the loop: the latency sleep, then what the command writes.\<close>

definition turn :: "smtp_env \<Rightarrow> action list \<Rightarrow> action list" where
  "turn env out = sleep (sleep_for (sv_latency env) ''smtp'') @ out"

lemma loop_line:
  assumes "plain_line ln" and "ln @ crlf @ rest = sc_input c"
    and "smtp_dispatch env ln (c\<lparr>sc_input := rest\<rparr>) = (out, Go, c')"
  shows "smtp_loop env c = apfst (append (turn env out)) (smtp_loop env c')"
  using read_line_plain [OF assms(1), of rest] assms(3)
  by (simp add: smtp_loop.simps [of env c] assms(2) [symmetric] Let_def turn_def)

lemma loop_quit:
  assumes "''QUIT'' @ crlf @ rest = sc_input c"
  shows "\<exists>c'. smtp_loop env c = (turn env [write_reply 221 ''saehrimnir bye''], Quit, c') \<and> sc_log c' = sc_log c"
proof -
  have "plain_line ''QUIT''" by (simp add: plain_line_def ascii_only_def)
  moreover have "to_upper ''QUIT'' = ''QUIT''" by code_simp
  ultimately show ?thesis
    using read_line_plain [of "''QUIT''" rest] strip_crlf_line [of "''QUIT''"] assms
    by (simp add: smtp_loop.simps [of env c] assms [symmetric] Let_def turn_def smtp_dispatch_def
        split_verb_def smtp_handle_def smtp_quit_def)
qed

lemma dispatch_verb:
  assumes "split_verb ln = (verb, rest)" and "to_upper verb = V"
  shows "\<exists>rl. smtp_dispatch env ln c = smtp_handle env V rest (c\<lparr>sc_request_log := rl\<rparr>)"
  using assms by (auto simp: smtp_dispatch_def Let_def)

text \<open>
  A connection with this input and this envelope, and otherwise as at the start up to the request log.
\<close>

definition at_point :: "smtp_conn \<Rightarrow> string \<Rightarrow> smtp_state \<Rightarrow> smtp_conn \<Rightarrow> bool" where
  "at_point c0 input st c \<longleftrightarrow>
     sc_input c = input \<and> sc_state c = st \<and> sc_log c = sc_log c0 \<and> sc_account_id c = sc_account_id c0 \<and>
     sc_tls_acceptor c = sc_tls_acceptor c0 \<and> sc_tls_active c = sc_tls_active c0"

lemma run_line:
  assumes "plain_line ln" and "split_verb ln = (verb, arg)" and "to_upper verb = V"
    and "at_point c0 (ln @ crlf @ rest) st c"
    and "\<And>c. at_point c0 rest st c \<Longrightarrow>
      \<exists>c'. smtp_handle env V arg c = (out, Go, c') \<and> at_point c0 rest st' c'"
  shows "\<exists>c'. smtp_loop env c = apfst (append (turn env out)) (smtp_loop env c') \<and> at_point c0 rest st' c'"
proof -
  obtain rl where d: "smtp_dispatch env ln (c\<lparr>sc_input := rest\<rparr>) =
      smtp_handle env V arg (c\<lparr>sc_input := rest, sc_request_log := rl\<rparr>)"
    using dispatch_verb [OF assms(2,3), of env "c\<lparr>sc_input := rest\<rparr>"] by auto
  have "at_point c0 rest st (c\<lparr>sc_input := rest, sc_request_log := rl\<rparr>)"
    using assms(4) by (simp add: at_point_def)
  from assms(5) [OF this] obtain c' where
    "smtp_handle env V arg (c\<lparr>sc_input := rest, sc_request_log := rl\<rparr>) = (out, Go, c')"
    and c': "at_point c0 rest st' c'"
    by blast
  with d have "smtp_loop env c = apfst (append (turn env out)) (smtp_loop env c')"
    using assms(4) by (intro loop_line [OF assms(1)]) (simp_all add: at_point_def)
  with c' show ?thesis by blast
qed

lemma plain_word: "\<forall>c \<in> set s. 32 \<le> (of_char c :: nat) \<and> (of_char c :: nat) < 127 \<Longrightarrow> plain_line s"
  by (auto simp: plain_line_def ascii_only_def)

lemma ehlo_line:
  assumes "graphic_text h" and "at_point c0 (''EHLO '' @ h @ crlf @ rest) st c"
  shows "\<exists>c'. smtp_loop env c = apfst (append (turn env (fst (smtp_ehlo h c0)))) (smtp_loop env c') \<and>
    at_point c0 rest (reset_envelope (st\<lparr>ss_ehlo := Some h\<rparr>)) c'"
proof (rule run_line)
  show "plain_line (''EHLO '' @ h)"
    using assms(1) by (intro plain_word) (auto simp: graphic_text_def graphic_def)
  show "split_verb (''EHLO '' @ h) = (''EHLO'', h)" by (simp add: split_verb_def)
  show "to_upper ''EHLO'' = ''EHLO''" by code_simp
  show "at_point c0 ((''EHLO '' @ h) @ crlf @ rest) st c" using assms(2) by simp
  have "trim h = h" using assms(1) by (intro trim_graphic) (simp add: graphic_text_def)
  then show "\<exists>c'. smtp_handle env ''EHLO'' h c = (fst (smtp_ehlo h c0), Go, c') \<and>
      at_point c0 rest (reset_envelope (st\<lparr>ss_ehlo := Some h\<rparr>)) c'" if "at_point c0 rest st c" for c
    using that by (simp add: smtp_handle_def smtp_ehlo_def at_point_def)
qed

lemma envelope_line:
  assumes "graphic_text a" and "graphic_text kw" and "sv_override env = (\<lambda>c p. None)"
  shows "smtp_envelope env verb kw m1 m2 (kw @ a) acc c =
    ([write_reply 250 ''OK''], Go, c\<lparr>sc_state := acc a [] (sc_state c)\<rparr>)"
proof -
  have "trim (kw @ a) = kw @ a" "trim a = a"
    using assms(1,2) by (auto intro!: trim_graphic simp: graphic_text_def)
  then show ?thesis
    using strip_keyword [OF assms(1)] split_plain_payload [OF assms(1)] assms(3)
    by (simp add: smtp_envelope_def maybe_override_def answer_def)
qed

lemma mail_line:
  assumes "graphic_text a" and "sv_override env = (\<lambda>c p. None)" and "ss_ehlo st \<noteq> None"
    and "at_point c0 (''MAIL FROM:'' @ a @ crlf @ rest) st c"
  shows "\<exists>c'. smtp_loop env c = apfst (append (turn env [write_reply 250 ''OK''])) (smtp_loop env c') \<and>
    at_point c0 rest (st\<lparr>ss_from := Some a, ss_from_params := [], ss_rcpts := [], ss_rcpt_params := []\<rparr>) c'"
proof (rule run_line)
  show "plain_line (''MAIL FROM:'' @ a)"
    using assms(1) by (intro plain_word) (auto simp: graphic_text_def graphic_def)
  show "split_verb (''MAIL FROM:'' @ a) = (''MAIL'', ''FROM:'' @ a)" by (simp add: split_verb_def)
  show "to_upper ''MAIL'' = ''MAIL''" by code_simp
  show "at_point c0 ((''MAIL FROM:'' @ a) @ crlf @ rest) st c" using assms(4) by simp
  have kw: "graphic_text ''FROM:''" by (simp add: graphic_text_def graphic_def)
  show "\<exists>c'. smtp_handle env ''MAIL'' (''FROM:'' @ a) c = ([write_reply 250 ''OK''], Go, c') \<and>
      at_point c0 rest (st\<lparr>ss_from := Some a, ss_from_params := [], ss_rcpts := [], ss_rcpt_params := []\<rparr>) c'"
    if "at_point c0 rest st c" for c
  proof -
    have "ss_ehlo (sc_state c) \<noteq> None" using that assms(3) by (simp add: at_point_def)
    then have "smtp_handle env ''MAIL'' (''FROM:'' @ a) c = ([write_reply 250 ''OK''], Go,
        c\<lparr>sc_state := sc_state c\<lparr>ss_from := Some a, ss_from_params := [], ss_rcpts := [], ss_rcpt_params := []\<rparr>\<rparr>)"
      by (simp add: smtp_handle_def smtp_mail_def envelope_line [OF assms(1) kw assms(2)] del: append_Cons not_None_eq)
    with that show ?thesis by (simp add: at_point_def)
  qed
qed

lemma rcpt_line:
  assumes "graphic_text a" and "sv_override env = (\<lambda>c p. None)" and "ss_from st \<noteq> None"
    and "at_point c0 (''RCPT TO:'' @ a @ crlf @ rest) st c"
  shows "\<exists>c'. smtp_loop env c = apfst (append (turn env [write_reply 250 ''OK''])) (smtp_loop env c') \<and>
    at_point c0 rest (st\<lparr>ss_rcpts := ss_rcpts st @ [a], ss_rcpt_params := ss_rcpt_params st @ [[]]\<rparr>) c'"
proof (rule run_line)
  show "plain_line (''RCPT TO:'' @ a)"
    using assms(1) by (intro plain_word) (auto simp: graphic_text_def graphic_def)
  show "split_verb (''RCPT TO:'' @ a) = (''RCPT'', ''TO:'' @ a)" by (simp add: split_verb_def)
  show "to_upper ''RCPT'' = ''RCPT''" by code_simp
  show "at_point c0 ((''RCPT TO:'' @ a) @ crlf @ rest) st c" using assms(4) by simp
  have kw: "graphic_text ''TO:''" by (simp add: graphic_text_def graphic_def)
  show "\<exists>c'. smtp_handle env ''RCPT'' (''TO:'' @ a) c = ([write_reply 250 ''OK''], Go, c') \<and>
      at_point c0 rest (st\<lparr>ss_rcpts := ss_rcpts st @ [a], ss_rcpt_params := ss_rcpt_params st @ [[]]\<rparr>) c'"
    if "at_point c0 rest st c" for c
  proof -
    have "ss_from (sc_state c) \<noteq> None" using that assms(3) by (simp add: at_point_def)
    then have "smtp_handle env ''RCPT'' (''TO:'' @ a) c = ([write_reply 250 ''OK''], Go,
        c\<lparr>sc_state := sc_state c\<lparr>ss_rcpts := ss_rcpts (sc_state c) @ [a],
          ss_rcpt_params := ss_rcpt_params (sc_state c) @ [[]]\<rparr>\<rparr>)"
      by (simp add: smtp_handle_def smtp_rcpt_def envelope_line [OF assms(1) kw assms(2)] del: append_Cons not_None_eq)
    with that show ?thesis by (simp add: at_point_def)
  qed
qed

definition rcpt_lines :: "string list \<Rightarrow> string" where
  "rcpt_lines rs = concat (map (\<lambda>r. ''RCPT TO:'' @ r @ crlf) rs)"

lemma rcpts_run:
  assumes "\<forall>r \<in> set rs. graphic_text r" and "sv_override env = (\<lambda>c p. None)" and "ss_from st \<noteq> None"
    and "at_point c0 (rcpt_lines rs @ rest) st c"
  shows "\<exists>c'. smtp_loop env c =
      apfst (append (concat (map (\<lambda>r. turn env [write_reply 250 ''OK'']) rs))) (smtp_loop env c') \<and>
    at_point c0 rest (st\<lparr>ss_rcpts := ss_rcpts st @ rs,
      ss_rcpt_params := ss_rcpt_params st @ map (\<lambda>r. []) rs\<rparr>) c'"
  using assms
proof (induction rs arbitrary: st c)
  case Nil
  then show ?case by (intro exI [of _ c]) (simp add: rcpt_lines_def apfst_def map_prod_def case_prod_unfold)
next
  case (Cons r rs)
  have "at_point c0 (''RCPT TO:'' @ r @ crlf @ (rcpt_lines rs @ rest)) st c"
    using Cons.prems(4) by (simp add: rcpt_lines_def)
  from rcpt_line [OF _ Cons.prems(2,3) this] Cons.prems(1) obtain c1 where
    one: "smtp_loop env c = apfst (append (turn env [write_reply 250 ''OK''])) (smtp_loop env c1)"
    and c1: "at_point c0 (rcpt_lines rs @ rest)
      (st\<lparr>ss_rcpts := ss_rcpts st @ [r], ss_rcpt_params := ss_rcpt_params st @ [[]]\<rparr>) c1"
    by auto
  from Cons.IH [OF _ Cons.prems(2) _ c1] Cons.prems(1,3) obtain c2 where
    "smtp_loop env c1 = apfst (append (concat (map (\<lambda>r. turn env [write_reply 250 ''OK'']) rs))) (smtp_loop env c2)"
    and "at_point c0 rest (st\<lparr>ss_rcpts := ss_rcpts st @ r # rs,
      ss_rcpt_params := ss_rcpt_params st @ [] # map (\<lambda>r. []) rs\<rparr>) c2"
    by auto
  with one show ?case
    by (intro exI [of _ c2]) (simp add: apfst_def map_prod_def case_prod_unfold)
qed

lemma data_line:
  assumes "\<forall>l \<in> set ls. body_line l" and "sv_override env = (\<lambda>c p. None)" and "ss_from st = Some a"
    and "ss_rcpts st \<noteq> []" and "at_point c0 (''DATA'' @ crlf @ stuffed_body ls @ rest) st c"
  shows "\<exists>c'. smtp_loop env c = apfst (append (turn env
      [write_reply 354 ''send data, terminate with <CRLF>.<CRLF>'', write_reply 250 ''OK queued'']))
        (smtp_loop env c') \<and> sc_input c' = rest \<and>
    sc_log c' = sc_log c0 @ [\<lparr>su_from = a, su_recipients = ss_rcpts st, su_from_params = ss_from_params st,
      su_rcpt_params = ss_rcpt_params st, su_auth_mechanism = ss_auth st, su_account_id = sc_account_id c0,
      su_data = concat (map (\<lambda>l. l @ crlf) ls), su_received_at = sv_now env\<rparr>]"
proof -
  let ?ln = "''DATA'' :: string" and ?in = "stuffed_body ls @ rest"
  have "plain_line ?ln" by (rule plain_word) simp
  have "to_upper ?ln = ''DATA''" by code_simp
  then obtain rl where d: "smtp_dispatch env ?ln (c\<lparr>sc_input := ?in\<rparr>) =
      smtp_data env (c\<lparr>sc_input := ?in, sc_request_log := rl\<rparr>)"
    using dispatch_verb [of ?ln ?ln "[]" ?ln env "c\<lparr>sc_input := ?in\<rparr>"]
    by (auto simp: split_verb_def smtp_handle_def)
  have body: "read_data_body [] ?in = Some (concat (map (\<lambda>l. l @ crlf) ls), rest)"
    using read_stuffed_body [OF assms(1), of "[]" rest] by simp
  let ?sub = "\<lparr>su_from = a, su_recipients = ss_rcpts st, su_from_params = ss_from_params st,
      su_rcpt_params = ss_rcpt_params st, su_auth_mechanism = ss_auth st, su_account_id = sc_account_id c0,
      su_data = concat (map (\<lambda>l. l @ crlf) ls), su_received_at = sv_now env\<rparr>"
  let ?c' = "c\<lparr>sc_input := rest, sc_request_log := rl, sc_state := reset_envelope st, sc_log := sc_log c0 @ [?sub]\<rparr>"
  have point: "sc_state c = st" "sc_log c = sc_log c0" "sc_account_id c = sc_account_id c0"
    "sc_input c = ?ln @ crlf @ ?in"
    using assms(5) by (simp_all add: at_point_def)
  have "smtp_data env (c\<lparr>sc_input := ?in, sc_request_log := rl\<rparr>) =
      ([write_reply 354 ''send data, terminate with <CRLF>.<CRLF>'', write_reply 250 ''OK queued''], Go, ?c')"
    using assms(2-4) point body
    by (simp add: smtp_data_def Let_def maybe_override_def answer_def submission_push_def)
  then have "smtp_dispatch env ?ln (c\<lparr>sc_input := ?in\<rparr>) =
      ([write_reply 354 ''send data, terminate with <CRLF>.<CRLF>'', write_reply 250 ''OK queued''], Go, ?c')"
    using d by simp
  from loop_line [OF \<open>plain_line ?ln\<close> point(4) [symmetric] this] show ?thesis
    by (intro exI [of _ ?c']) simp
qed

text \<open>
  C6. What is submitted is what is captured. A client that greets, names a sender and at least one
  recipient by graphic ASCII addresses without parameters, and sends the lines of its message with the dots
  stuffed, gets a positive answer to each command, when no reactive override is in place; and the log gains
  exactly one submission: with that sender, those recipients in order, the account and mechanism of the
  connection, and the lines of the message as they were before stuffing. The message may be any lines of UTF-8,
  lone dots and lines with leading dots included; a line that is not UTF-8 ends the connection, as shown below.
\<close>

theorem smtp_delivers:
  assumes "graphic_text h" and "graphic_text a" and "\<forall>r \<in> set rs. graphic_text r" and "rs \<noteq> []"
    and "\<forall>l \<in> set ls. body_line l" and "sv_override env = (\<lambda>c p. None)"
    and "sc_input c = ''EHLO '' @ h @ crlf @ ''MAIL FROM:'' @ a @ crlf @ rcpt_lines rs @
      ''DATA'' @ crlf @ stuffed_body ls @ ''QUIT'' @ crlf @ rest"
  shows "\<exists>c'. smtp_loop env c =
     (turn env (fst (smtp_ehlo h c)) @ turn env [write_reply 250 ''OK''] @
      concat (map (\<lambda>r. turn env [write_reply 250 ''OK'']) rs) @
      turn env [write_reply 354 ''send data, terminate with <CRLF>.<CRLF>'', write_reply 250 ''OK queued''] @
      turn env [write_reply 221 ''saehrimnir bye''], Quit, c') \<and>
    sc_log c' = sc_log c @ [\<lparr>su_from = a, su_recipients = rs, su_from_params = [],
      su_rcpt_params = map (\<lambda>r. []) rs, su_auth_mechanism = ss_auth (sc_state c),
      su_account_id = sc_account_id c, su_data = concat (map (\<lambda>l. l @ crlf) ls),
      su_received_at = sv_now env\<rparr>]"
proof -
  have "at_point c (''EHLO '' @ h @ crlf @ ''MAIL FROM:'' @ a @ crlf @ rcpt_lines rs @
      ''DATA'' @ crlf @ stuffed_body ls @ ''QUIT'' @ crlf @ rest) (sc_state c) c"
    using assms(7) by (simp add: at_point_def)
  from ehlo_line [OF assms(1) this] obtain c1 where
    l1: "smtp_loop env c = apfst (append (turn env (fst (smtp_ehlo h c)))) (smtp_loop env c1)"
    and c1: "at_point c (''MAIL FROM:'' @ a @ crlf @ rcpt_lines rs @ ''DATA'' @ crlf @
      stuffed_body ls @ ''QUIT'' @ crlf @ rest) (reset_envelope (sc_state c\<lparr>ss_ehlo := Some h\<rparr>)) c1"
    by blast
  have greeted: "ss_ehlo (reset_envelope (sc_state c\<lparr>ss_ehlo := Some h\<rparr>)) \<noteq> None"
    by (simp add: reset_envelope_def)
  from mail_line [OF assms(2,6) greeted c1] obtain c2 where
    l2: "smtp_loop env c1 = apfst (append (turn env [write_reply 250 ''OK''])) (smtp_loop env c2)"
    and c2: "at_point c (rcpt_lines rs @ ''DATA'' @ crlf @ stuffed_body ls @ ''QUIT'' @ crlf @ rest)
      (reset_envelope (sc_state c\<lparr>ss_ehlo := Some h\<rparr>)\<lparr>ss_from := Some a, ss_from_params := [],
        ss_rcpts := [], ss_rcpt_params := []\<rparr>) c2"
    by blast
  from rcpts_run [OF assms(3,6) _ c2] obtain c3 where
    l3: "smtp_loop env c2 = apfst (append (concat (map (\<lambda>r. turn env [write_reply 250 ''OK'']) rs))) (smtp_loop env c3)"
    and c3: "at_point c (''DATA'' @ crlf @ stuffed_body ls @ ''QUIT'' @ crlf @ rest)
      (reset_envelope (sc_state c\<lparr>ss_ehlo := Some h\<rparr>)\<lparr>ss_from := Some a, ss_from_params := [],
        ss_rcpts := rs, ss_rcpt_params := map (\<lambda>r. []) rs\<rparr>) c3"
    by auto
  from data_line [OF assms(5,6) _ _ c3, of a] assms(4) obtain c4 where
    l4: "smtp_loop env c3 = apfst (append (turn env
      [write_reply 354 ''send data, terminate with <CRLF>.<CRLF>'', write_reply 250 ''OK queued''])) (smtp_loop env c4)"
    and c4: "sc_input c4 = ''QUIT'' @ crlf @ rest"
    and log: "sc_log c4 = sc_log c @ [\<lparr>su_from = a, su_recipients = rs, su_from_params = [],
      su_rcpt_params = map (\<lambda>r. []) rs, su_auth_mechanism = ss_auth (sc_state c),
      su_account_id = sc_account_id c, su_data = concat (map (\<lambda>l. l @ crlf) ls),
      su_received_at = sv_now env\<rparr>]"
    by (auto simp: reset_envelope_def)
  from loop_quit [OF c4 [symmetric], of env] obtain c5 where
    "smtp_loop env c4 = (turn env [write_reply 221 ''saehrimnir bye''], Quit, c5)" "sc_log c5 = sc_log c4"
    by blast
  with l1 l2 l3 l4 log show ?thesis by (intro exI [of _ c5]) simp
qed

definition sample_smtp :: smtp_env where
  "sample_smtp = \<lparr>sv_now = 0, sv_fixture = sample_inbox, sv_tokens = token_store_new,
     sv_override = (\<lambda>c p. None), sv_latency = []\<rparr>"

theorem smtp_captures_wellformed_witness:
  "list_all (\<lambda>s. su_recipients s \<noteq> []) (sc_log (snd (snd (smtp_serve_connection sample_smtp
      (smtp_conn_new sample_smtp True 1 [] [] (''EHLO me'' @ crlf @ ''STARTTLS'' @ crlf) (Some (''DATA'' @ crlf)))))))"
  using smtp_captures_wellformed [of sample_smtp True 1 "[]" "[]" "''EHLO me'' @ crlf @ ''STARTTLS'' @ crlf"
      "Some (''DATA'' @ crlf)"]
  by (auto simp: list_all_iff)

theorem smtp_delivers_witness:
  "\<exists>c' out. smtp_loop sample_smtp (smtp_conn_new sample_smtp False 1 [] []
      (''EHLO me'' @ crlf @ ''MAIL FROM:<a@x>'' @ crlf @ ''RCPT TO:<b@y>'' @ crlf @ ''DATA'' @ crlf @
       [CHR 0xC3, CHR 0xA9] @ crlf @ ''..'' @ crlf @ ''.'' @ crlf @ ''QUIT'' @ crlf) None) = (out, Quit, c') \<and>
    map su_data (sc_log c') = [[CHR 0xC3, CHR 0xA9] @ crlf @ ''.'' @ crlf] \<and> map su_recipients (sc_log c') = [[''<b@y>'']]"
proof -
  let ?input = "''EHLO '' @ ''me'' @ crlf @ ''MAIL FROM:'' @ ''<a@x>'' @ crlf @ rcpt_lines [''<b@y>''] @
      ''DATA'' @ crlf @ stuffed_body [[CHR 0xC3, CHR 0xA9], ''.''] @ ''QUIT'' @ crlf @ []"
  let ?c = "smtp_conn_new sample_smtp False 1 [] [] ?input None"
  have "graphic_text ''me''" "graphic_text ''<a@x>''" "\<forall>r \<in> set [''<b@y>'']. graphic_text r"
    "[''<b@y>''] \<noteq> []" "\<forall>l \<in> set [[CHR 0xC3, CHR 0xA9], ''.'']. body_line l" "sv_override sample_smtp = (\<lambda>c p. None)"
    "sc_input ?c = ?input" "sc_log ?c = []"
    by (simp_all add: graphic_text_def graphic_def body_line_def utf8_valid.simps utf8_head_def utf8_follow_def
        sample_smtp_def smtp_conn_new_def)
  then obtain c' out where run: "smtp_loop sample_smtp ?c = (out, Quit, c')"
    "map su_data (sc_log c') = [[CHR 0xC3, CHR 0xA9] @ crlf @ ''.'' @ crlf]" "map su_recipients (sc_log c') = [[''<b@y>'']]"
    using smtp_delivers [of "''me''" "''<a@x>''" "[''<b@y>'']" "[[CHR 0xC3, CHR 0xA9], ''.'']" sample_smtp ?c "[]"]
    by (auto simp del: append.simps)
  have input: "?input = ''EHLO me'' @ crlf @ ''MAIL FROM:<a@x>'' @ crlf @ ''RCPT TO:<b@y>'' @ crlf @ ''DATA'' @ crlf @
       [CHR 0xC3, CHR 0xA9] @ crlf @ ''..'' @ crlf @ ''.'' @ crlf @ ''QUIT'' @ crlf"
    by (simp add: rcpt_lines_def stuffed_body_def stuff_def)
  show ?thesis
    using run unfolding input by (intro exI conjI)
qed

subsection \<open>Bodies that are not UTF-8\<close>

lemma read_broken_body:
  assumes "\<forall>l \<in> set ls. body_line l" and "CHR 0x0A \<notin> set l" and "\<not> utf8_valid (l @ crlf)"
  shows "read_data_body out (concat (map (\<lambda>l. stuff l @ crlf) ls) @ l @ crlf @ rest) = None"
  using assms(1)
proof (induction ls arbitrary: out)
  case Nil
  show ?case
    using split_line_crlf [OF assms(2), of rest] assms(3)
    by (simp add: read_data_body.simps [of out] read_line_def Let_def)
next
  case (Cons k ls)
  let ?tail = "concat (map (\<lambda>l. stuff l @ crlf) ls) @ l @ crlf @ rest"
  have tail: "concat (map (\<lambda>l. stuff l @ crlf) (k # ls)) @ l @ crlf @ rest = stuff k @ crlf @ ?tail"
    by simp
  have "read_data_body out (stuff k @ crlf @ ?tail) = read_data_body (out @ k @ crlf) ?tail"
    using read_line_body [OF body_stuff, of k ?tail] Cons.prems strip_crlf_line [of "stuff k"]
      stuff_not_end [of k] unstuff [of k]
    by (subst read_data_body.simps) (simp add: Let_def del: strip_crlf_line split: option.splits)
  then show ?case
    using Cons unfolding tail by simp
qed

text \<open>
  A body that is not UTF-8 is lost. EHLO advertises 8BITMIME, but the lines of a body are read as
  UTF-8 text: when a line of the message is not, the connection ends after the 354 with an I/O
  error, the client gets no answer to its message, and nothing is captured.
\<close>

theorem eight_bit_body_lost:
  assumes "ss_from (sc_state c) \<noteq> None" and "ss_rcpts (sc_state c) \<noteq> []" and "maybe_override env ''DATA'' [] = None"
    and "\<forall>l \<in> set ls. body_line l" and "CHR 0x0A \<notin> set l" and "\<not> utf8_valid (l @ crlf)"
    and "sc_input c = concat (map (\<lambda>l. stuff l @ crlf) ls) @ l @ crlf @ rest"
  shows "smtp_data env c = ([write_reply 354 ''send data, terminate with <CRLF>.<CRLF>''], IoError, c)"
proof -
  have "read_data_body [] (sc_input c) = None"
    unfolding assms(7) by (rule read_broken_body [OF assms(4-6)])
  then show ?thesis using assms(1-3) by (auto simp: smtp_data_def Let_def)
qed

theorem eight_bit_body_lost_witness:
  "snd (smtp_data sample_smtp ((smtp_conn_new sample_smtp False 1 [] [] (''Hi'' @ crlf @ [CHR 0xE9] @ crlf @ ''.'' @ crlf) None)
     \<lparr>sc_state := smtp_state_default\<lparr>ss_from := Some ''a'', ss_rcpts := [''b'']\<rparr>\<rparr>)) =
   (IoError, (smtp_conn_new sample_smtp False 1 [] [] (''Hi'' @ crlf @ [CHR 0xE9] @ crlf @ ''.'' @ crlf) None)
     \<lparr>sc_state := smtp_state_default\<lparr>ss_from := Some ''a'', ss_rcpts := [''b'']\<rparr>\<rparr>)"
proof -
  have "\<not> utf8_valid ([CHR 0xE9] @ crlf)"
    by (simp add: utf8_valid.simps utf8_head_def utf8_follow_def)
  then show ?thesis
    using eight_bit_body_lost [of "(smtp_conn_new sample_smtp False 1 [] [] (''Hi'' @ crlf @ [CHR 0xE9] @ crlf @ ''.'' @ crlf) None)
     \<lparr>sc_state := smtp_state_default\<lparr>ss_from := Some ''a'', ss_rcpts := [''b'']\<rparr>\<rparr>" sample_smtp "[''Hi'']" "[CHR 0xE9]" "''.'' @ crlf"]
    by (simp add: sample_smtp_def smtp_conn_new_def maybe_override_def stuff_def body_line_def utf8_valid_ascii)
qed

end
