(* ===== verification/Recurrence_Rule.thy ===== *)
theory Recurrence_Rule
  imports Fixture_Types
begin

text \<open>
  Recurrence rules (\<open>src/recurrence.rs\<close>): the parser of an RRULE value, its printer, and the
  range test the calendar reads share. Date formatting and parsing is jiff's; what the code asks
  of it is the record \<open>civil\<close>. The lemmas show that a rule prints to a value that parses back to it.
\<close>

subsection \<open>Calendar time\<close>

text \<open>
  A civil date-time is the number of nanoseconds of its clock reading, a civil date that of its
  midnight. The formats are those of \<open>strftime\<close>; \<open>cl_to_timestamp\<close> is \<open>Offset::UTC.to_timestamp\<close>,
  which fails outside the range of \<open>Timestamp\<close>.
\<close>

datatype weekday = Mo | Tu | We | Th | Fr | Sa | Su

record civil =
  cl_strftime :: "string \<Rightarrow> timestamp \<Rightarrow> string"
  cl_strptime_datetime :: "string \<Rightarrow> string \<Rightarrow> int option"
  cl_strptime_date :: "string \<Rightarrow> string \<Rightarrow> int option"
  cl_to_timestamp :: "int \<Rightarrow> timestamp option"
  cl_weekday :: "timestamp \<Rightarrow> weekday"
  cl_day :: "timestamp \<Rightarrow> nat"
  cl_month :: "timestamp \<Rightarrow> nat"

definition utc :: "civil \<Rightarrow> int \<Rightarrow> timestamp option" where
  "utc cl dt = cl_to_timestamp cl dt"

definition utc_midnight :: "civil \<Rightarrow> int \<Rightarrow> timestamp option" where
  "utc_midnight cl d = utc cl d"

subsection \<open>Tokens\<close>

datatype frequency = Daily | Weekly | Monthly | Yearly

definition frequency_parse :: "string \<Rightarrow> frequency option" where
  "frequency_parse s =
     (let u = to_upper s in
      if u = ''DAILY'' then Some Daily else if u = ''WEEKLY'' then Some Weekly
      else if u = ''MONTHLY'' then Some Monthly else if u = ''YEARLY'' then Some Yearly else None)"

fun frequency_jscalendar :: "frequency \<Rightarrow> string" where
  "frequency_jscalendar Daily = ''daily''"
| "frequency_jscalendar Weekly = ''weekly''"
| "frequency_jscalendar Monthly = ''monthly''"
| "frequency_jscalendar Yearly = ''yearly''"

fun frequency_token :: "frequency \<Rightarrow> string" where
  "frequency_token Daily = ''DAILY''"
| "frequency_token Weekly = ''WEEKLY''"
| "frequency_token Monthly = ''MONTHLY''"
| "frequency_token Yearly = ''YEARLY''"

fun weekday_graph :: "weekday \<Rightarrow> string" where
  "weekday_graph Mo = ''monday''"
| "weekday_graph Tu = ''tuesday''"
| "weekday_graph We = ''wednesday''"
| "weekday_graph Th = ''thursday''"
| "weekday_graph Fr = ''friday''"
| "weekday_graph Sa = ''saturday''"
| "weekday_graph Su = ''sunday''"

fun weekday_jscalendar :: "weekday \<Rightarrow> string" where
  "weekday_jscalendar Mo = ''mo''"
| "weekday_jscalendar Tu = ''tu''"
| "weekday_jscalendar We = ''we''"
| "weekday_jscalendar Th = ''th''"
| "weekday_jscalendar Fr = ''fr''"
| "weekday_jscalendar Sa = ''sa''"
| "weekday_jscalendar Su = ''su''"

fun weekday_token :: "weekday \<Rightarrow> string" where
  "weekday_token Mo = ''MO''"
| "weekday_token Tu = ''TU''"
| "weekday_token We = ''WE''"
| "weekday_token Th = ''TH''"
| "weekday_token Fr = ''FR''"
| "weekday_token Sa = ''SA''"
| "weekday_token Su = ''SU''"

definition weekday_parse :: "string \<Rightarrow> weekday option" where
  "weekday_parse s =
     (let u = to_upper s in
      if u = ''MO'' then Some Mo else if u = ''TU'' then Some Tu else if u = ''WE'' then Some We
      else if u = ''TH'' then Some Th else if u = ''FR'' then Some Fr else if u = ''SA'' then Some Sa
      else if u = ''SU'' then Some Su else None)"

definition weekday_parse_short :: "string \<Rightarrow> weekday option" where
  "weekday_parse_short s =
     (let u = to_upper s in
      if u = ''MO'' then Some Mo else if u = ''TU'' then Some Tu else if u = ''WE'' then Some We
      else if u = ''TH'' then Some Th else if u = ''FR'' then Some Fr else if u = ''SA'' then Some Sa
      else if u = ''SU'' then Some Su else None)"

definition weekday_parse_long :: "string \<Rightarrow> weekday option" where
  "weekday_parse_long s =
     (let l = to_lower s in
      if l = ''monday'' then Some Mo else if l = ''tuesday'' then Some Tu
      else if l = ''wednesday'' then Some We else if l = ''thursday'' then Some Th
      else if l = ''friday'' then Some Fr else if l = ''saturday'' then Some Sa
      else if l = ''sunday'' then Some Su else None)"

subsection \<open>Rules\<close>

record by_day =
  bd_ordinal :: "int option"
  bd_weekday :: weekday

record parsed_rule =
  pr_freq :: "frequency option"
  pr_interval :: "nat option"
  pr_count :: "nat option"
  pr_until :: "timestamp option"
  pr_by_day :: "by_day list"
  pr_by_month_day :: "int list"
  pr_by_month :: "nat list"

definition rule_default :: parsed_rule where
  "rule_default = \<lparr>pr_freq = None, pr_interval = None, pr_count = None, pr_until = None,
     pr_by_day = [], pr_by_month_day = [], pr_by_month = []\<rparr>"

text \<open>\<open>s.trim_end_matches(c)\<close>\<close>

definition trim_end_matches :: "char \<Rightarrow> string \<Rightarrow> string" where
  "trim_end_matches c s = rev (dropWhile ((=) c) (rev s))"

definition is_ordinal_char :: "char \<Rightarrow> bool" where
  "is_ordinal_char c \<longleftrightarrow> c = CHR ''+'' \<or> c = CHR ''-'' \<or> is_digit c"

definition parse_by_day :: "string \<Rightarrow> by_day option" where
  "parse_by_day s =
     (let ord = takeWhile is_ordinal_char s; day = dropWhile is_ordinal_char s
      in map_option (\<lambda>w. \<lparr>bd_ordinal = (if ord = [] then None else parse_i32 ord), bd_weekday = w\<rparr>)
           (weekday_parse day))"

definition parse_until :: "civil \<Rightarrow> string \<Rightarrow> timestamp option" where
  "parse_until cl s =
     (case cl_strptime_datetime cl ''%Y%m%dT%H%M%S'' (trim_end_matches CHR ''Z'' s) of
        Some dt \<Rightarrow> utc cl dt
      | None \<Rightarrow> Option.bind (cl_strptime_date cl ''%Y%m%d'' s) (utc_midnight cl))"

definition rule_field :: "civil \<Rightarrow> string \<Rightarrow> string \<Rightarrow> parsed_rule \<Rightarrow> parsed_rule" where
  "rule_field cl key val r =
     (if key = ''FREQ'' then r\<lparr>pr_freq := frequency_parse (trim val)\<rparr>
      else if key = ''INTERVAL'' then r\<lparr>pr_interval := parse_u32 (trim val)\<rparr>
      else if key = ''COUNT'' then r\<lparr>pr_count := parse_u32 (trim val)\<rparr>
      else if key = ''UNTIL'' then r\<lparr>pr_until := parse_until cl (trim val)\<rparr>
      else if key = ''BYDAY''
      then r\<lparr>pr_by_day := List.map_filter (\<lambda>d. parse_by_day (trim d)) (split_on CHR '','' val)\<rparr>
      else if key = ''BYMONTHDAY''
      then r\<lparr>pr_by_month_day := filter (\<lambda>n. -31 \<le> n \<and> n \<le> 31 \<and> n \<noteq> 0)
               (List.map_filter (\<lambda>d. parse_i8 (trim d)) (split_on CHR '','' val))\<rparr>
      else if key = ''BYMONTH''
      then r\<lparr>pr_by_month := filter (\<lambda>n. 1 \<le> n \<and> n \<le> 12)
               (List.map_filter (\<lambda>d. parse_u8 (trim d)) (split_on CHR '','' val))\<rparr>
      else r)"

definition rule_part :: "civil \<Rightarrow> string \<Rightarrow> parsed_rule \<Rightarrow> parsed_rule" where
  "rule_part cl part0 r =
     (let part = trim part0
      in if part = [] then r
         else case split_once CHR ''='' part of
           None \<Rightarrow> r
         | Some (key, val) \<Rightarrow> rule_field cl (to_upper (trim key)) val r)"

definition rule_parse :: "civil \<Rightarrow> string \<Rightarrow> parsed_rule" where
  "rule_parse cl value = fold (rule_part cl) (split_on CHR '';'' value) rule_default"

definition by_day_token :: "by_day \<Rightarrow> string" where
  "by_day_token d = (case bd_ordinal d of
      Some n \<Rightarrow> show_int n @ weekday_token (bd_weekday d)
    | None \<Rightarrow> weekday_token (bd_weekday d))"

definition format_rrule :: "civil \<Rightarrow> parsed_rule \<Rightarrow> string option" where
  "format_rrule cl r =
     map_option (\<lambda>freq. join '';''
       ([''FREQ='' @ frequency_token freq] @
        (case pr_interval r of Some n \<Rightarrow> if n > 1 then [''INTERVAL='' @ show_nat n] else [] | None \<Rightarrow> []) @
        (if pr_by_day r \<noteq> [] then [''BYDAY='' @ join '','' (map by_day_token (pr_by_day r))] else []) @
        (if pr_by_month_day r \<noteq> []
         then [''BYMONTHDAY='' @ join '','' (map show_int (pr_by_month_day r))] else []) @
        (if pr_by_month r \<noteq> []
         then [''BYMONTH='' @ join '','' (map show_nat (pr_by_month r))] else []) @
        (case pr_count r of Some c \<Rightarrow> [''COUNT='' @ show_nat c] | None \<Rightarrow> []) @
        (case pr_until r of Some u \<Rightarrow> [''UNTIL='' @ cl_strftime cl ''%Y%m%dT%H%M%SZ'' u] | None \<Rightarrow> [])))
     (pr_freq r)"

text \<open>\<open>range_start\<close> and \<open>range_end\<close> may be open.\<close>

definition event_matches_range ::
    "civil \<Rightarrow> timestamp \<Rightarrow> timestamp \<Rightarrow> string option \<Rightarrow> timestamp option \<Rightarrow> timestamp option \<Rightarrow> bool" where
  "event_matches_range cl start stop rule range_start range_end =
     (if (case range_end of Some re \<Rightarrow> start \<ge> re | None \<Rightarrow> False) then False
      else case rule of
        None \<Rightarrow> \<not> (case range_start of Some rs \<Rightarrow> stop \<le> rs | None \<Rightarrow> False)
      | Some rr \<Rightarrow> \<not> (case range_start of
            Some rs \<Rightarrow> (case pr_until (rule_parse cl rr) of Some u \<Rightarrow> u < rs | None \<Rightarrow> False)
          | None \<Rightarrow> False))"

subsection \<open>Tokens parse back\<close>

lemma frequency_parse_token [simp]: "frequency_parse (frequency_token f) = Some f"
  by (cases f) (simp_all add: frequency_parse_def str_simps)

lemma weekday_parse_token [simp]:
  "weekday_parse (weekday_token w) = Some w" "weekday_parse_short (weekday_jscalendar w) = Some w"
  "weekday_parse_long (weekday_graph w) = Some w"
  by (cases w; simp add: weekday_parse_def weekday_parse_short_def weekday_parse_long_def str_simps)+

lemma weekday_token_graphic: "c \<in> set (weekday_token w) \<Longrightarrow> graphic c \<and> \<not> is_ordinal_char c \<and> c \<noteq> CHR '','' \<and> c \<noteq> CHR '';''"
  by (cases w) (auto simp: graphic_def is_ordinal_char_def is_digit_def)

lemma frequency_token_graphic: "c \<in> set (frequency_token f) \<Longrightarrow> graphic c \<and> c \<noteq> CHR '';''"
  by (cases f) (auto simp: graphic_def)

lemma show_nat_plain: "c \<in> set (show_nat n) \<Longrightarrow> graphic c \<and> is_ordinal_char c \<and> c \<noteq> CHR '','' \<and> c \<noteq> CHR '';''"
  using show_nat_digits [of c n] by (auto simp: graphic_def is_ordinal_char_def is_digit_def)

lemma show_int_plain: "c \<in> set (show_int n) \<Longrightarrow> graphic c \<and> is_ordinal_char c \<and> c \<noteq> CHR '','' \<and> c \<noteq> CHR '';''"
  by (auto simp: show_int_def dest: show_nat_plain split: if_splits)
     (auto simp: graphic_def is_ordinal_char_def)

lemma show_int_not_Nil [simp]: "show_int n \<noteq> []"
  by (simp add: show_int_def)

lemma trim_show_int [simp]: "trim (show_int n) = show_int n"
  by (rule trim_graphic) (auto dest: show_int_plain)

definition day_ok :: "by_day \<Rightarrow> bool" where
  "day_ok d \<longleftrightarrow> (case bd_ordinal d of Some n \<Rightarrow> -2147483648 \<le> n \<and> n \<le> 2147483647 | None \<Rightarrow> True)"

lemma by_day_token_plain: "c \<in> set (by_day_token d) \<Longrightarrow> graphic c \<and> c \<noteq> CHR '','' \<and> c \<noteq> CHR '';''"
  by (auto simp: by_day_token_def split: option.splits dest: weekday_token_graphic show_int_plain)

lemma parse_by_day_token:
  assumes "day_ok d"
  shows "parse_by_day (by_day_token d) = Some d"
proof (cases "bd_ordinal d")
  case None
  have "takeWhile is_ordinal_char (weekday_token (bd_weekday d)) = []"
    "dropWhile is_ordinal_char (weekday_token (bd_weekday d)) = weekday_token (bd_weekday d)"
    using weekday_token_graphic [of _ "bd_weekday d"]
    by (cases "weekday_token (bd_weekday d)"; auto)+
  with None show ?thesis by (simp add: parse_by_day_def by_day_token_def)
next
  case (Some n)
  have o: "\<forall>c \<in> set (show_int n). is_ordinal_char c" using show_int_plain by blast
  have "takeWhile is_ordinal_char (weekday_token (bd_weekday d)) = []"
    "dropWhile is_ordinal_char (weekday_token (bd_weekday d)) = weekday_token (bd_weekday d)"
    using weekday_token_graphic [of _ "bd_weekday d"]
    by (cases "weekday_token (bd_weekday d)"; auto)+
  with o have "takeWhile is_ordinal_char (by_day_token d) = show_int n"
    "dropWhile is_ordinal_char (by_day_token d) = weekday_token (bd_weekday d)"
    using Some by (simp_all add: by_day_token_def takeWhile_append2 dropWhile_append2)
  with Some assms show ?thesis by (simp add: parse_by_day_def day_ok_def)
qed

subsection \<open>Lists and parts\<close>

lemma map_filter_tokens:
  assumes "\<forall>x \<in> set xs. p (trim (tok x)) = Some x"
  shows "List.map_filter (\<lambda>t. p (trim t)) (map tok xs) = xs"
  using assms by (induction xs) (auto simp: List.map_filter_simps)

text \<open>A list printed with commas is split into its tokens.\<close>

lemma comma_tokens:
  assumes "xs \<noteq> []" and "\<forall>x \<in> set xs. CHR '','' \<notin> set (tok x)" and "\<forall>x \<in> set xs. p (trim (tok x)) = Some x"
  shows "List.map_filter (\<lambda>t. p (trim t)) (split_on CHR '','' (join '','' (map tok xs))) = xs"
proof -
  have "split_on CHR '','' (join '','' (map tok xs)) = map tok xs"
    by (rule split_on_join) (use assms(1,2) in auto)
  then show ?thesis by (simp only: map_filter_tokens [OF assms(3)])
qed

lemma rule_part_kv:
  assumes "\<forall>c \<in> set key. graphic c \<and> c \<noteq> CHR ''=''" and "\<forall>c \<in> set val. graphic c"
  shows "rule_part cl (key @ CHR ''='' # val) r = rule_field cl (to_upper key) val r"
proof -
  have "graphic CHR ''=''" by (simp add: graphic_def)
  with assms have g: "\<forall>c \<in> set (key @ CHR ''='' # val). graphic c" "\<forall>c \<in> set key. graphic c" by auto
  have "split_once CHR ''='' (key @ CHR ''='' # val) = Some (key, val)"
    by (rule split_once_append) (use assms(1) in blast)
  then have "rule_part cl (key @ CHR ''='' # val) r = rule_field cl (to_upper (trim key)) val r"
    unfolding rule_part_def Let_def trim_graphic [OF g(1)] by (simp only: append_is_Nil_conv list.distinct option.case prod.case simp_thms if_False)
  then show ?thesis unfolding trim_graphic [OF g(2)] .
qed

lemma join_plain:
  assumes "\<forall>x \<in> set xs. \<forall>c \<in> set (tok x). graphic c \<and> c \<noteq> CHR '';''"
  shows "\<forall>c \<in> set (join '','' (map tok xs)). graphic c \<and> c \<noteq> CHR '';''"
proof
  fix c
  assume "c \<in> set (join '','' (map tok xs))"
  then have "c \<in> set '','' \<union> (\<Union>p \<in> set (map tok xs). set p)" by (rule subsetD [OF set_join])
  then have "c = CHR '','' \<or> (\<exists>x \<in> set xs. c \<in> set (tok x))" by simp
  moreover have "graphic CHR '',''" by (simp add: graphic_def)
  ultimately show "graphic c \<and> c \<noteq> CHR '';''" using assms by fastforce
qed

subsection \<open>A printed rule parses back\<close>

text \<open>
  A whole-second instant: its stamp is digits and \<open>T\<close> before the final \<open>Z\<close>, and reads back as the
  instant (jiff's documented formats).
\<close>

definition stamp_ok :: "civil \<Rightarrow> timestamp \<Rightarrow> bool" where
  "stamp_ok cl u \<longleftrightarrow>
     (let s = cl_strftime cl ''%Y%m%dT%H%M%SZ'' u
      in s \<noteq> [] \<and> last s = CHR ''Z'' \<and> list_all (\<lambda>c. is_digit c \<or> c = CHR ''T'') (butlast s) \<and>
         Option.bind (cl_strptime_datetime cl ''%Y%m%dT%H%M%S'' (butlast s)) (utc cl) = Some u)"

definition rule_ok :: "civil \<Rightarrow> parsed_rule \<Rightarrow> bool" where
  "rule_ok cl r \<longleftrightarrow>
     pr_freq r \<noteq> None \<and>
     (case pr_interval r of Some n \<Rightarrow> 1 < n \<and> n \<le> u32_max | None \<Rightarrow> True) \<and>
     (case pr_count r of Some n \<Rightarrow> n \<le> u32_max | None \<Rightarrow> True) \<and>
     (case pr_until r of Some u \<Rightarrow> stamp_ok cl u | None \<Rightarrow> True) \<and>
     list_all day_ok (pr_by_day r) \<and>
     list_all (\<lambda>n. -31 \<le> n \<and> n \<le> 31 \<and> n \<noteq> 0) (pr_by_month_day r) \<and>
     list_all (\<lambda>n. 1 \<le> n \<and> n \<le> 12) (pr_by_month r)"

lemma stamp_shape:
  assumes "stamp_ok cl u"
  obtains d where "cl_strftime cl ''%Y%m%dT%H%M%SZ'' u = d @ ''Z''"
    "\<forall>c \<in> set d. is_digit c \<or> c = CHR ''T''"
    "Option.bind (cl_strptime_datetime cl ''%Y%m%dT%H%M%S'' d) (utc cl) = Some u"
proof -
  let ?s = "cl_strftime cl ''%Y%m%dT%H%M%SZ'' u"
  from assms have "last ?s = CHR ''Z''" "?s \<noteq> []" by (simp_all add: stamp_ok_def Let_def)
  then have "?s = butlast ?s @ ''Z''" by (metis append_butlast_last_id)
  moreover have "\<forall>c \<in> set (butlast ?s). is_digit c \<or> c = CHR ''T''"
    using assms by (simp add: stamp_ok_def Let_def list_all_iff)
  moreover have "Option.bind (cl_strptime_datetime cl ''%Y%m%dT%H%M%S'' (butlast ?s)) (utc cl) = Some u"
    using assms by (simp add: stamp_ok_def Let_def)
  ultimately show ?thesis by (rule that)
qed

lemma trim_end_matches_digits:
  assumes "\<forall>c \<in> set d. is_digit c \<or> c = CHR ''T''"
  shows "trim_end_matches CHR ''Z'' (d @ ''Z'') = d"
proof -
  have "CHR ''Z'' \<notin> set (rev d)" using assms by (auto simp: is_digit_def)
  then have "dropWhile ((=) CHR ''Z'') (rev d) = rev d" by (cases "rev d") auto
  then show ?thesis by (simp add: trim_end_matches_def)
qed

lemma parse_until_stamp:
  assumes "stamp_ok cl u"
  shows "parse_until cl (cl_strftime cl ''%Y%m%dT%H%M%SZ'' u) = Some u"
    and "\<forall>c \<in> set (cl_strftime cl ''%Y%m%dT%H%M%SZ'' u). graphic c \<and> c \<noteq> CHR '';''"
proof -
  from assms obtain d where d: "cl_strftime cl ''%Y%m%dT%H%M%SZ'' u = d @ ''Z''"
    "\<forall>c \<in> set d. is_digit c \<or> c = CHR ''T''"
    "Option.bind (cl_strptime_datetime cl ''%Y%m%dT%H%M%S'' d) (utc cl) = Some u" by (rule stamp_shape)
  then obtain dt where dt: "cl_strptime_datetime cl ''%Y%m%dT%H%M%S'' d = Some dt" "utc cl dt = Some u"
    unfolding bind_eq_Some_conv by blast
  show "parse_until cl (cl_strftime cl ''%Y%m%dT%H%M%SZ'' u) = Some u"
    unfolding d(1) parse_until_def trim_end_matches_digits [OF d(2)] dt(1) option.case by (rule dt(2))
  show "\<forall>c \<in> set (cl_strftime cl ''%Y%m%dT%H%M%SZ'' u). graphic c \<and> c \<noteq> CHR '';''"
  proof
    fix c
    assume "c \<in> set (cl_strftime cl ''%Y%m%dT%H%M%SZ'' u)"
    with d(1,2) have "is_digit c \<or> c = CHR ''T'' \<or> c = CHR ''Z''" by auto
    then show "graphic c \<and> c \<noteq> CHR '';''" by (auto simp: graphic_def is_digit_def)
  qed
qed

text \<open>The parts of the printed rule, each of which sets its field back.\<close>

definition part :: "string \<Rightarrow> string \<Rightarrow> string" where
  "part key val = key @ CHR ''='' # val"

definition rule_parts :: "civil \<Rightarrow> parsed_rule \<Rightarrow> frequency \<Rightarrow> string list" where
  "rule_parts cl r f =
     [part ''FREQ'' (frequency_token f)] @
     (case pr_interval r of Some n \<Rightarrow> if n > 1 then [part ''INTERVAL'' (show_nat n)] else [] | None \<Rightarrow> []) @
     (if pr_by_day r \<noteq> [] then [part ''BYDAY'' (join '','' (map by_day_token (pr_by_day r)))] else []) @
     (if pr_by_month_day r \<noteq> []
      then [part ''BYMONTHDAY'' (join '','' (map show_int (pr_by_month_day r)))] else []) @
     (if pr_by_month r \<noteq> [] then [part ''BYMONTH'' (join '','' (map show_nat (pr_by_month r)))] else []) @
     (case pr_count r of Some c \<Rightarrow> [part ''COUNT'' (show_nat c)] | None \<Rightarrow> []) @
     (case pr_until r of Some u \<Rightarrow> [part ''UNTIL'' (cl_strftime cl ''%Y%m%dT%H%M%SZ'' u)] | None \<Rightarrow> [])"

lemma part_literals:
  "''FREQ='' @ v = part ''FREQ'' v" "''INTERVAL='' @ v = part ''INTERVAL'' v" "''BYDAY='' @ v = part ''BYDAY'' v"
  "''BYMONTHDAY='' @ v = part ''BYMONTHDAY'' v" "''BYMONTH='' @ v = part ''BYMONTH'' v"
  "''COUNT='' @ v = part ''COUNT'' v" "''UNTIL='' @ v = part ''UNTIL'' v"
  by (simp_all add: part_def)

lemma format_rrule_parts: "format_rrule cl r = map_option (\<lambda>f. join '';'' (rule_parts cl r f)) (pr_freq r)"
  unfolding format_rrule_def rule_parts_def part_literals by (rule refl)

definition plain_val :: "string \<Rightarrow> bool" where
  "plain_val v \<longleftrightarrow> (\<forall>c \<in> set v. graphic c \<and> c \<noteq> CHR '';'')"

lemma plain_vals:
  "plain_val (frequency_token f)" "plain_val (show_nat n)"
  "plain_val (join '','' (map by_day_token ds))" "plain_val (join '','' (map show_int is))"
  "plain_val (join '','' (map show_nat ns))"
proof -
  show "plain_val (frequency_token f)" by (auto simp: plain_val_def dest: frequency_token_graphic)
  show "plain_val (show_nat n)" by (auto simp: plain_val_def dest: show_nat_plain)
  show "plain_val (join '','' (map by_day_token ds))"
    unfolding plain_val_def by (rule join_plain) (auto dest: by_day_token_plain)
  show "plain_val (join '','' (map show_int is))"
    unfolding plain_val_def by (rule join_plain) (auto dest: show_int_plain)
  show "plain_val (join '','' (map show_nat ns))"
    unfolding plain_val_def by (rule join_plain) (auto dest: show_nat_plain)
qed

definition rule_keys :: "string list" where
  "rule_keys = [''FREQ'', ''INTERVAL'', ''BYDAY'', ''BYMONTHDAY'', ''BYMONTH'', ''COUNT'', ''UNTIL'']"

lemma rule_keys_upper: "k \<in> set rule_keys \<Longrightarrow> to_upper k = k"
  by (auto simp: rule_keys_def str_simps)

lemma rule_keys_plain: "k \<in> set rule_keys \<Longrightarrow> list_all (\<lambda>c. graphic c \<and> c \<noteq> CHR ''='' \<and> c \<noteq> CHR '';'') k"
  by (auto simp: rule_keys_def graphic_def)

lemma rule_part_part:
  assumes "plain_val val" and "key \<in> set rule_keys"
  shows "rule_part cl (part key val) r = rule_field cl key val r"
proof -
  from rule_keys_plain [OF assms(2)] have "\<forall>c \<in> set key. graphic c \<and> c \<noteq> CHR ''=''"
    unfolding list_all_iff by blast
  moreover from assms(1) have "\<forall>c \<in> set val. graphic c" unfolding plain_val_def by blast
  ultimately have "rule_part cl (part key val) r = rule_field cl (to_upper key) val r"
    unfolding part_def by (rule rule_part_kv)
  then show ?thesis unfolding rule_keys_upper [OF assms(2)] .
qed

lemma part_no_semicolon:
  assumes "plain_val val" and "key \<in> set rule_keys"
  shows "CHR '';'' \<notin> set (part key val)"
proof -
  from rule_keys_plain [OF assms(2)] have "CHR '';'' \<notin> set key"
    unfolding list_all_iff by blast
  moreover from assms(1) have "CHR '';'' \<notin> set val" unfolding plain_val_def by blast
  ultimately show ?thesis by (simp add: part_def)
qed

lemma field_simps:
  "rule_field cl ''FREQ'' (frequency_token f) r = r\<lparr>pr_freq := Some f\<rparr>"
  "n \<le> u32_max \<Longrightarrow> rule_field cl ''INTERVAL'' (show_nat n) r = r\<lparr>pr_interval := Some n\<rparr>"
  "n \<le> u32_max \<Longrightarrow> rule_field cl ''COUNT'' (show_nat n) r = r\<lparr>pr_count := Some n\<rparr>"
  "ds \<noteq> [] \<Longrightarrow> list_all day_ok ds \<Longrightarrow>
     rule_field cl ''BYDAY'' (join '','' (map by_day_token ds)) r = r\<lparr>pr_by_day := ds\<rparr>"
  "is \<noteq> [] \<Longrightarrow> list_all (\<lambda>n. -31 \<le> n \<and> n \<le> 31 \<and> n \<noteq> 0) is \<Longrightarrow>
     rule_field cl ''BYMONTHDAY'' (join '','' (map show_int is)) r = r\<lparr>pr_by_month_day := is\<rparr>"
  "ms \<noteq> [] \<Longrightarrow> list_all (\<lambda>n. 1 \<le> n \<and> n \<le> 12) ms \<Longrightarrow>
     rule_field cl ''BYMONTH'' (join '','' (map show_nat ms)) r = r\<lparr>pr_by_month := ms\<rparr>"
  "stamp_ok cl u \<Longrightarrow>
     rule_field cl ''UNTIL'' (cl_strftime cl ''%Y%m%dT%H%M%SZ'' u) r = r\<lparr>pr_until := Some u\<rparr>"
proof -
  have "trim (frequency_token f) = frequency_token f"
    by (rule trim_graphic) (auto dest: frequency_token_graphic)
  then show "rule_field cl ''FREQ'' (frequency_token f) r = r\<lparr>pr_freq := Some f\<rparr>"
    by (simp add: rule_field_def)
  show "n \<le> u32_max \<Longrightarrow> rule_field cl ''INTERVAL'' (show_nat n) r = r\<lparr>pr_interval := Some n\<rparr>"
    "n \<le> u32_max \<Longrightarrow> rule_field cl ''COUNT'' (show_nat n) r = r\<lparr>pr_count := Some n\<rparr>"
    by (simp_all add: rule_field_def)
next
  assume ne: "ds \<noteq> []" and ok: "list_all day_ok ds"
  have "\<forall>d \<in> set ds. CHR '','' \<notin> set (by_day_token d)" by (auto dest: by_day_token_plain)
  moreover have "\<forall>d \<in> set ds. parse_by_day (trim (by_day_token d)) = Some d"
  proof
    fix d
    assume "d \<in> set ds"
    with ok have "day_ok d" by (simp add: list_all_iff)
    moreover have "trim (by_day_token d) = by_day_token d"
      by (rule trim_graphic) (auto dest: by_day_token_plain)
    ultimately show "parse_by_day (trim (by_day_token d)) = Some d" by (simp add: parse_by_day_token)
  qed
  ultimately have "List.map_filter (\<lambda>t. parse_by_day (trim t)) (split_on CHR '','' (join '','' (map by_day_token ds))) = ds"
    by (rule comma_tokens [OF ne])
  then show "rule_field cl ''BYDAY'' (join '','' (map by_day_token ds)) r = r\<lparr>pr_by_day := ds\<rparr>"
    by (simp add: rule_field_def)
next
  assume ne: "is \<noteq> []" and ok: "list_all (\<lambda>n. -31 \<le> n \<and> n \<le> 31 \<and> n \<noteq> 0) is"
  have "List.map_filter (\<lambda>t. parse_i8 (trim t)) (split_on CHR '','' (join '','' (map show_int is))) = is"
    by (rule comma_tokens) (use ne ok in \<open>auto simp: list_all_iff dest: show_int_plain\<close>)
  moreover have "filter (\<lambda>n. -31 \<le> n \<and> n \<le> 31 \<and> n \<noteq> 0) is = is"
    using ok by (auto simp: list_all_iff)
  ultimately show "rule_field cl ''BYMONTHDAY'' (join '','' (map show_int is)) r = r\<lparr>pr_by_month_day := is\<rparr>"
    by (simp add: rule_field_def)
next
  assume ne: "ms \<noteq> []" and ok: "list_all (\<lambda>n. 1 \<le> n \<and> n \<le> 12) ms"
  have "List.map_filter (\<lambda>t. parse_u8 (trim t)) (split_on CHR '','' (join '','' (map show_nat ms))) = ms"
    by (rule comma_tokens) (use ne ok in \<open>auto simp: list_all_iff dest: show_nat_plain\<close>)
  moreover have "filter (\<lambda>n. 1 \<le> n \<and> n \<le> 12) ms = ms"
    using ok by (auto simp: list_all_iff)
  ultimately show "rule_field cl ''BYMONTH'' (join '','' (map show_nat ms)) r = r\<lparr>pr_by_month := ms\<rparr>"
    by (simp add: rule_field_def)
next
  assume u: "stamp_ok cl u"
  have "trim (cl_strftime cl ''%Y%m%dT%H%M%SZ'' u) = cl_strftime cl ''%Y%m%dT%H%M%SZ'' u"
    by (rule trim_graphic) (use parse_until_stamp(2) [OF u] in blast)
  with parse_until_stamp(1) [OF u]
  show "rule_field cl ''UNTIL'' (cl_strftime cl ''%Y%m%dT%H%M%SZ'' u) r = r\<lparr>pr_until := Some u\<rparr>"
    by (simp add: rule_field_def)
qed

lemma parts_no_semicolon:
  assumes "rule_ok cl r"
  shows "\<forall>p \<in> set (rule_parts cl r f). CHR '';'' \<notin> set p"
proof -
  have "plain_val (cl_strftime cl ''%Y%m%dT%H%M%SZ'' u)" if "pr_until r = Some u" for u
    using assms that parse_until_stamp(2) [of cl u] by (simp add: rule_ok_def plain_val_def)
  then show ?thesis
    by (auto simp: rule_parts_def rule_keys_def part_no_semicolon plain_vals split: option.splits if_splits)
qed

lemma fold_parts:
  assumes "rule_ok cl r" and "pr_freq r = Some f"
  shows "fold (rule_part cl) (rule_parts cl r f) rule_default = r"
proof -
  have key: "rule_part cl (part k v) = rule_field cl k v" if "plain_val v" "k \<in> set rule_keys" for k v
    using rule_part_part [OF that] by blast
  have until: "plain_val (cl_strftime cl ''%Y%m%dT%H%M%SZ'' u)" if "pr_until r = Some u" for u
    using assms that parse_until_stamp(2) [of cl u] by (simp add: rule_ok_def plain_val_def)
  show ?thesis
    using assms until
    by (cases r)
      (auto simp: rule_parts_def rule_ok_def key plain_vals field_simps rule_default_def rule_keys_def
        split: option.splits if_splits)
qed

lemma format_rrule_no_freq [simp]: "pr_freq r = None \<Longrightarrow> format_rrule cl r = None"
  by (simp add: format_rrule_def)

lemma rule_parse_format:
  assumes "rule_ok cl r" and "format_rrule cl r = Some s"
  shows "rule_parse cl s = r"
proof -
  from assms(2) obtain f where f: "pr_freq r = Some f" and s: "s = join '';'' (rule_parts cl r f)"
    by (auto simp: format_rrule_parts)
  have "split_on CHR '';'' s = rule_parts cl r f"
    unfolding s by (rule split_on_join) (use parts_no_semicolon [OF assms(1)] in \<open>auto simp: rule_parts_def\<close>)
  then show ?thesis by (simp only: rule_parse_def fold_parts [OF assms(1) f])
qed

text \<open>
  Printing a recurrence rule with \<open>format_rrule\<close> and parsing the text with \<open>ParsedRule::parse\<close> gives
  back the rule, field by field: every frequency, interval above one, BYDAY with or without ordinal,
  BYMONTHDAY, BYMONTH, COUNT and whole-second UNTIL. Without a frequency nothing is printed.
\<close>

theorem rrule_roundtrip:
  assumes "rule_ok cl r"
  shows "map_option (rule_parse cl) (format_rrule cl r) = Some r \<and> format_rrule cl (r\<lparr>pr_freq := None\<rparr>) = None"
proof -
  from assms obtain s where "format_rrule cl r = Some s" by (auto simp: rule_ok_def format_rrule_parts)
  with rule_parse_format [OF assms this] show ?thesis by simp
qed

text \<open>A calendar of digits for the witnesses: an instant is printed as its number.\<close>

definition digit_civil :: civil where
  "digit_civil = \<lparr>cl_strftime = (\<lambda>fmt t. show_nat (nat t) @ (if last fmt = CHR ''Z'' then ''Z'' else [])),
     cl_strptime_datetime = (\<lambda>_ s. map_option int (parse_digits 0 s)),
     cl_strptime_date = (\<lambda>_ s. map_option int (parse_digits 0 s)),
     cl_to_timestamp = Some, cl_weekday = (\<lambda>_. Th), cl_day = (\<lambda>_. 1), cl_month = (\<lambda>_. 1)\<rparr>"

lemma digit_civil_stamp: "0 \<le> u \<Longrightarrow> stamp_ok digit_civil u"
  by (auto simp: stamp_ok_def digit_civil_def butlast_append parse_digits_show_nat utc_def list_all_iff
      dest: show_nat_digits)

definition sample_rule :: parsed_rule where
  "sample_rule = \<lparr>pr_freq = Some Monthly, pr_interval = Some 2, pr_count = None, pr_until = Some 1780,
     pr_by_day = [\<lparr>bd_ordinal = Some 2, bd_weekday = Mo\<rparr>, \<lparr>bd_ordinal = Some (-1), bd_weekday = Fr\<rparr>],
     pr_by_month_day = [15, -1], pr_by_month = [3, 9]\<rparr>"

lemma sample_rule_ok: "rule_ok digit_civil sample_rule"
  by (simp add: rule_ok_def sample_rule_def day_ok_def digit_civil_stamp)

theorem rrule_roundtrip_witness:
  "map_option (rule_parse digit_civil) (format_rrule digit_civil sample_rule) = Some sample_rule"
  using rrule_roundtrip [OF sample_rule_ok] by blast

end
