(* ===== verification/Recurrence_Translate.thy ===== *)
theory Recurrence_Translate
  imports Recurrence_Rule Json_Value
begin

text \<open>
  The translations of a recurrence rule between the RRULE text the fixture stores and the structured
  forms of JMAP (\<open>src/jmap_calendar.rs\<close>) and Microsoft Graph (\<open>src/graph/calendar.rs\<close>), in both
  directions. The lemmas say what a client that writes back what it read leaves in the fixture.
\<close>

subsection \<open>JSCalendar\<close>

definition n_day :: "by_day \<Rightarrow> json" where
  "n_day d = jobj ([(''@type'', JString ''NDay''), (''day'', JString (weekday_jscalendar (bd_weekday d)))] @
     (case bd_ordinal d of Some n \<Rightarrow> [(''nthOfPeriod'', jint n)] | None \<Rightarrow> []))"

definition jscalendar_recurrence_rule :: "civil \<Rightarrow> parsed_rule \<Rightarrow> json option" where
  "jscalendar_recurrence_rule cl r =
     map_option (\<lambda>freq. jobj
       ([(''@type'', JString ''RecurrenceRule''), (''frequency'', JString (frequency_jscalendar freq))] @
        (case pr_interval r of Some n \<Rightarrow> if n > 1 then [(''interval'', jnat n)] else [] | None \<Rightarrow> []) @
        (if pr_by_day r \<noteq> [] then [(''byDay'', JArray (map n_day (pr_by_day r)))] else []) @
        (if pr_by_month_day r \<noteq> [] then [(''byMonthDay'', JArray (map jint (pr_by_month_day r)))] else []) @
        (if pr_by_month r \<noteq> []
         then [(''byMonth'', JArray (map (\<lambda>m. JString (show_nat m)) (pr_by_month r)))] else []) @
        (case pr_count r of Some c \<Rightarrow> [(''count'', jnat c)] | None \<Rightarrow> []) @
        (case pr_until r of
           Some u \<Rightarrow> [(''until'', JString (cl_strftime cl ''%Y-%m-%dT%H:%M:%S'' u))] | None \<Rightarrow> [])))
     (pr_freq r)"

definition frequency_of_jscalendar :: "string \<Rightarrow> frequency option" where
  "frequency_of_jscalendar s =
     (if s = ''daily'' then Some Daily else if s = ''weekly'' then Some Weekly
      else if s = ''monthly'' then Some Monthly else if s = ''yearly'' then Some Yearly else None)"

definition parse_n_day :: "json \<Rightarrow> by_day option" where
  "parse_n_day v =
     map_option
       (\<lambda>w. \<lparr>bd_ordinal = Option.bind (Option.bind (jget ''nthOfPeriod'' v) as_i64)
                            (fit_int (-2147483648) 2147483647), bd_weekday = w\<rparr>)
       (Option.bind (Option.bind (jget ''day'' v) as_str) weekday_parse_short)"

definition elements :: "json option \<Rightarrow> json list" where
  "elements v = (case Option.bind v as_array of Some xs \<Rightarrow> xs | None \<Rightarrow> [])"

definition parse_jscalendar_recurrence_rules :: "civil \<Rightarrow> json \<Rightarrow> string option" where
  "parse_jscalendar_recurrence_rules cl v =
     (case as_array v of
        Some (first # _) \<Rightarrow>
          (case Option.bind (Option.bind (jget ''frequency'' first) as_str) frequency_of_jscalendar of
             None \<Rightarrow> None
           | Some freq \<Rightarrow> format_rrule cl
               \<lparr>pr_freq = Some freq,
                pr_interval = Option.bind (Option.bind (jget ''interval'' first) as_u64) (fit_nat u32_max),
                pr_count = Option.bind (Option.bind (jget ''count'' first) as_u64) (fit_nat u32_max),
                pr_until = Option.bind (Option.bind (Option.bind (jget ''until'' first) as_str)
                             (cl_strptime_datetime cl ''%Y-%m-%dT%H:%M:%S'')) (utc cl),
                pr_by_day = List.map_filter parse_n_day (elements (jget ''byDay'' first)),
                pr_by_month_day = List.map_filter (\<lambda>d. Option.bind (as_i64 d) (fit_int (-128) 127))
                  (elements (jget ''byMonthDay'' first)),
                pr_by_month = List.map_filter
                  (\<lambda>m. Option.bind (map_option (trim_end_matches CHR ''L'') (as_str m)) parse_u8)
                  (elements (jget ''byMonth'' first))\<rparr>)
      | _ \<Rightarrow> None)"

lemma frequency_of_jscalendar [simp]: "frequency_of_jscalendar (frequency_jscalendar f) = Some f"
  by (cases f) (simp_all add: frequency_of_jscalendar_def)

lemma parse_n_day [simp]: "day_ok d \<Longrightarrow> parse_n_day (n_day d) = Some d"
  by (cases d; cases "bd_ordinal d")
    (simp_all add: parse_n_day_def n_day_def jget_jobj day_ok_def)

lemma map_filter_map:
  assumes "list_all (\<lambda>x. g (f x) = Some x) xs"
  shows "List.map_filter g (map f xs) = xs"
  using assms by (induction xs) (auto simp: List.map_filter_simps)

lemma trim_end_show_nat: "trim_end_matches CHR ''L'' (show_nat n) = show_nat n"
proof -
  have "CHR ''L'' \<notin> set (rev (show_nat n))" using show_nat_digits [of "CHR ''L''" n] by (auto simp: is_digit_def)
  then have "dropWhile ((=) CHR ''L'') (rev (show_nat n)) = rev (show_nat n)" by (cases "rev (show_nat n)") auto
  then show ?thesis by (simp add: trim_end_matches_def)
qed

text \<open>A whole-second instant survives JSCalendar's local date-time.\<close>

definition local_ok :: "civil \<Rightarrow> timestamp \<Rightarrow> bool" where
  "local_ok cl u \<longleftrightarrow> Option.bind (cl_strptime_datetime cl ''%Y-%m-%dT%H:%M:%S''
     (cl_strftime cl ''%Y-%m-%dT%H:%M:%S'' u)) (utc cl) = Some u"

lemma format_rrule_interval:
  assumes "i = pr_interval r \<or> i = None \<and> (case pr_interval r of Some n \<Rightarrow> n \<le> 1 | None \<Rightarrow> True)"
  shows "format_rrule cl (r\<lparr>pr_interval := i\<rparr>) = format_rrule cl r"
  using assms by (cases "pr_interval r") (auto simp: format_rrule_parts rule_parts_def fun_eq_iff intro!: option.map_cong)

lemma jscalendar_fields:
  assumes "jscalendar_recurrence_rule cl r = Some v"
  shows "jget ''frequency'' v = map_option (\<lambda>f. JString (frequency_jscalendar f)) (pr_freq r)"
    and "jget ''interval'' v =
      (case pr_interval r of Some n \<Rightarrow> if n > 1 then Some (jnat n) else None | None \<Rightarrow> None)"
    and "elements (jget ''byDay'' v) = map n_day (pr_by_day r)"
    and "elements (jget ''byMonthDay'' v) = map jint (pr_by_month_day r)"
    and "elements (jget ''byMonth'' v) = map (\<lambda>m. JString (show_nat m)) (pr_by_month r)"
    and "jget ''count'' v = map_option jnat (pr_count r)"
    and "jget ''until'' v = map_option (\<lambda>u. JString (cl_strftime cl ''%Y-%m-%dT%H:%M:%S'' u)) (pr_until r)"
proof -
  from assms obtain f where f: "pr_freq r = Some f"
    by (auto simp: jscalendar_recurrence_rule_def)
  note rule = assms [unfolded jscalendar_recurrence_rule_def f option.map option.inject, symmetric]
  show "jget ''frequency'' v = map_option (\<lambda>f. JString (frequency_jscalendar f)) (pr_freq r)"
    unfolding rule f by (simp add: jget_jobj map_add_def)
  show "jget ''interval'' v =
      (case pr_interval r of Some n \<Rightarrow> if n > 1 then Some (jnat n) else None | None \<Rightarrow> None)"
    unfolding rule by (cases "pr_interval r") (simp_all add: jget_jobj map_add_def)
  show "elements (jget ''byDay'' v) = map n_day (pr_by_day r)"
    unfolding rule by (simp add: jget_jobj map_add_def elements_def)
  show "elements (jget ''byMonthDay'' v) = map jint (pr_by_month_day r)"
    unfolding rule by (simp add: jget_jobj map_add_def elements_def)
  show "elements (jget ''byMonth'' v) = map (\<lambda>m. JString (show_nat m)) (pr_by_month r)"
    unfolding rule by (simp add: jget_jobj map_add_def elements_def)
  show "jget ''count'' v = map_option jnat (pr_count r)"
    unfolding rule by (cases "pr_count r") (simp_all add: jget_jobj map_add_def)
  show "jget ''until'' v = map_option (\<lambda>u. JString (cl_strftime cl ''%Y-%m-%dT%H:%M:%S'' u)) (pr_until r)"
    unfolding rule by (cases "pr_until r") (simp_all add: jget_jobj map_add_def)
qed

lemma parse_jscalendar_rule:
  assumes "jscalendar_recurrence_rule cl r = Some v" and "rule_ok cl r"
    and "\<forall>u. pr_until r = Some u \<longrightarrow> local_ok cl u"
  shows "parse_jscalendar_recurrence_rules cl (JArray [v]) = format_rrule cl r"
proof -
  note fields = jscalendar_fields [OF assms(1)]
  from assms(2) obtain f where f: "pr_freq r = Some f" by (auto simp: rule_ok_def)
  have "Option.bind (Option.bind (jget ''interval'' v) as_u64) (fit_nat u32_max) = pr_interval r"
    using assms(2) by (auto simp: fields rule_ok_def split: option.splits)
  moreover have "Option.bind (Option.bind (jget ''count'' v) as_u64) (fit_nat u32_max) = pr_count r"
    using assms(2) by (auto simp: fields rule_ok_def split: option.splits)
  moreover have "Option.bind (Option.bind (Option.bind (jget ''until'' v) as_str)
       (cl_strptime_datetime cl ''%Y-%m-%dT%H:%M:%S'')) (utc cl) = pr_until r"
    using assms(3) by (cases "pr_until r") (auto simp: fields local_ok_def)
  moreover have "List.map_filter parse_n_day (elements (jget ''byDay'' v)) = pr_by_day r"
    unfolding fields by (rule map_filter_map) (use assms(2) in \<open>auto simp: rule_ok_def list_all_iff\<close>)
  moreover have "List.map_filter (\<lambda>d. Option.bind (as_i64 d) (fit_int (-128) 127)) (elements (jget ''byMonthDay'' v))
      = pr_by_month_day r"
    unfolding fields by (rule map_filter_map) (use assms(2) in \<open>auto simp: rule_ok_def list_all_iff\<close>)
  moreover have "List.map_filter (\<lambda>m. Option.bind (map_option (trim_end_matches CHR ''L'') (as_str m)) parse_u8)
      (elements (jget ''byMonth'' v)) = pr_by_month r"
    unfolding fields
    by (rule map_filter_map) (use assms(2) in \<open>auto simp: rule_ok_def list_all_iff trim_end_show_nat\<close>)
  ultimately show ?thesis
    using f by (cases r) (simp add: parse_jscalendar_recurrence_rules_def fields)
qed

text \<open>
  C33. A JMAP client that reads the recurrence rule of an event and writes it back leaves the rule it
  had: the JSCalendar object of a rule is read back to an RRULE text that parses to that rule. The rule is in
  normal form, as the printer writes it: with a frequency, without the default \<open>INTERVAL=1\<close>, its numbers in
  the ranges of RFC 5545 and its end a time that the civil calendar prints and reads.
\<close>

theorem jscalendar_roundtrip:
  assumes "rule_ok cl r" and "\<forall>u. pr_until r = Some u \<longrightarrow> local_ok cl u"
  shows "\<exists>v s. jscalendar_recurrence_rule cl r = Some v \<and>
    parse_jscalendar_recurrence_rules cl (JArray [v]) = Some s \<and> rule_parse cl s = r"
proof -
  from assms(1) obtain f v s where "jscalendar_recurrence_rule cl r = Some v" "format_rrule cl r = Some s"
    by (auto simp: rule_ok_def jscalendar_recurrence_rule_def format_rrule_parts)
  with parse_jscalendar_rule [OF this(1) assms] rule_parse_format [OF assms(1)] show ?thesis by auto
qed

theorem jscalendar_roundtrip_witness:
  "\<exists>v s. jscalendar_recurrence_rule digit_civil sample_rule = Some v \<and>
    parse_jscalendar_recurrence_rules digit_civil (JArray [v]) = Some s \<and>
    rule_parse digit_civil s = sample_rule"
proof -
  have "local_ok digit_civil 1780"
    by (simp add: local_ok_def digit_civil_def parse_digits_show_nat utc_def)
  then have "\<forall>u. pr_until sample_rule = Some u \<longrightarrow> local_ok digit_civil u"
    by (simp add: sample_rule_def)
  with jscalendar_roundtrip [OF sample_rule_ok] show ?thesis by blast
qed

subsection \<open>Microsoft Graph\<close>

definition graph_week_index :: "int \<Rightarrow> string" where
  "graph_week_index n = (if n = 1 then ''first'' else if n = 2 then ''second'' else if n = 3 then ''third''
     else if n = 4 then ''fourth'' else if n = -1 then ''last'' else ''first'')"

definition graph_index_to_ordinal :: "string \<Rightarrow> int" where
  "graph_index_to_ordinal s =
     (let l = to_lower s in
      if l = ''first'' then 1 else if l = ''second'' then 2 else if l = ''third'' then 3
      else if l = ''fourth'' then 4 else if l = ''last'' then -1 else 1)"

definition weekday_of :: "civil \<Rightarrow> timestamp \<Rightarrow> weekday" where
  "weekday_of cl t = cl_weekday cl t"

text \<open>The positive first day of the month, and the first BYDAY that has an ordinal.\<close>

definition first_month_day :: "parsed_rule \<Rightarrow> int option" where
  "first_month_day r = (case pr_by_month_day r of d # _ \<Rightarrow> if d > 0 then Some d else None | [] \<Rightarrow> None)"

definition first_ordinal_day :: "parsed_rule \<Rightarrow> (int \<times> weekday) option" where
  "first_ordinal_day r = (case pr_by_day r of
      d # _ \<Rightarrow> map_option (\<lambda>n. (n, bd_weekday d)) (bd_ordinal d) | [] \<Rightarrow> None)"

definition graph_pattern :: "civil \<Rightarrow> parsed_rule \<Rightarrow> timestamp \<Rightarrow> frequency \<Rightarrow> (string \<times> json) list" where
  "graph_pattern cl r start freq =
     (let interval = (case pr_interval r of Some n \<Rightarrow> n | None \<Rightarrow> 1);
          month_day = (case first_month_day r of Some d \<Rightarrow> jint d | None \<Rightarrow> jnat (cl_day cl start))
      in case freq of
        Daily \<Rightarrow> [(''type'', JString ''daily''), (''interval'', jnat interval)]
      | Weekly \<Rightarrow> [(''type'', JString ''weekly''), (''interval'', jnat interval),
          (''daysOfWeek'', JArray (map JString
             (if pr_by_day r = [] then [weekday_graph (weekday_of cl start)]
              else map (\<lambda>d. weekday_graph (bd_weekday d)) (pr_by_day r)))),
          (''firstDayOfWeek'', JString ''sunday'')]
      | Monthly \<Rightarrow>
          (case (first_month_day r, first_ordinal_day r) of
             (None, Some (n, w)) \<Rightarrow>
               [(''type'', JString ''relativeMonthly''), (''interval'', jnat interval),
                (''daysOfWeek'', JArray [JString (weekday_graph w)]),
                (''index'', JString (graph_week_index n))]
           | _ \<Rightarrow> [(''type'', JString ''absoluteMonthly''), (''interval'', jnat interval),
                   (''dayOfMonth'', month_day)])
      | Yearly \<Rightarrow>
          [(''type'', JString ''absoluteYearly''), (''interval'', jnat interval),
           (''dayOfMonth'', month_day),
           (''month'', jnat (case pr_by_month r of m # _ \<Rightarrow> m | [] \<Rightarrow> cl_month cl start))])"

definition graph_range :: "civil \<Rightarrow> parsed_rule \<Rightarrow> timestamp \<Rightarrow> (string \<times> json) list" where
  "graph_range cl r start =
     (let start_date = JString (cl_strftime cl ''%Y-%m-%d'' start) in
      case pr_count r of
        Some n \<Rightarrow> [(''type'', JString ''numbered''), (''startDate'', start_date),
                    (''numberOfOccurrences'', jnat n)]
      | None \<Rightarrow>
          (case pr_until r of
             Some u \<Rightarrow> [(''type'', JString ''endDate''), (''startDate'', start_date),
                         (''endDate'', JString (cl_strftime cl ''%Y-%m-%d'' u))]
           | None \<Rightarrow> [(''type'', JString ''noEnd''), (''startDate'', start_date)]))"

definition graph_recurrence :: "civil \<Rightarrow> parsed_rule \<Rightarrow> timestamp \<Rightarrow> json option" where
  "graph_recurrence cl r start =
     map_option (\<lambda>freq. jobj [(''pattern'', jobj (graph_pattern cl r start freq)),
                               (''range'', jobj (graph_range cl r start))])
       (pr_freq r)"

definition pattern_rule :: "json \<Rightarrow> parsed_rule option" where
  "pattern_rule pattern =
     Option.bind (Option.bind (jget ''type'' pattern) as_str) (\<lambda>ptype.
       let t = to_lower ptype;
           rule = rule_default\<lparr>pr_interval :=
             Option.bind (Option.bind (jget ''interval'' pattern) as_u64) (fit_nat u32_max)\<rparr>;
           days = List.map_filter (\<lambda>d. Option.bind (as_str d) weekday_parse_long)
                    (elements (jget ''daysOfWeek'' pattern));
           month_days = (case Option.bind (Option.bind (jget ''dayOfMonth'' pattern) as_i64) (fit_int (-128) 127) of
                           Some d \<Rightarrow> [d] | None \<Rightarrow> [])
       in if t = ''daily'' then Some (rule\<lparr>pr_freq := Some Daily\<rparr>)
          else if t = ''weekly''
          then Some (rule\<lparr>pr_freq := Some Weekly,
                 pr_by_day := map (\<lambda>w. \<lparr>bd_ordinal = None, bd_weekday = w\<rparr>) days\<rparr>)
          else if t = ''absolutemonthly''
          then Some (rule\<lparr>pr_freq := Some Monthly, pr_by_month_day := month_days\<rparr>)
          else if t = ''relativemonthly''
          then Some (rule\<lparr>pr_freq := Some Monthly, pr_by_day :=
                 (case days of
                    w # _ \<Rightarrow> [\<lparr>bd_ordinal = Some (graph_index_to_ordinal
                                 (case Option.bind (jget ''index'' pattern) as_str of
                                    Some i \<Rightarrow> i | None \<Rightarrow> ''first'')), bd_weekday = w\<rparr>]
                  | [] \<Rightarrow> [])\<rparr>)
          else if t = ''absoluteyearly''
          then Some (rule\<lparr>pr_freq := Some Yearly, pr_by_month_day := month_days,
                 pr_by_month := (case Option.bind (Option.bind (jget ''month'' pattern) as_u64) (fit_nat u8_max) of
                                   Some m \<Rightarrow> [m] | None \<Rightarrow> [])\<rparr>)
          else None)"

definition range_rule :: "civil \<Rightarrow> json \<Rightarrow> parsed_rule \<Rightarrow> parsed_rule" where
  "range_rule cl rng rule =
     (let t = to_lower (case Option.bind (jget ''type'' rng) as_str of Some s \<Rightarrow> s | None \<Rightarrow> ''noEnd'')
      in if t = ''enddate'' then
           (case Option.bind (Option.bind (jget ''endDate'' rng) as_str) (cl_strptime_date cl ''%Y-%m-%d'') of
              Some d \<Rightarrow> rule\<lparr>pr_until := utc cl (d + 86399 * 1000000000)\<rparr>
            | None \<Rightarrow> rule)
         else if t = ''numbered'' then
           (case Option.bind (Option.bind (jget ''numberOfOccurrences'' rng) as_u64) (fit_nat u32_max) of
              Some n \<Rightarrow> rule\<lparr>pr_count := Some n\<rparr>
            | None \<Rightarrow> rule)
         else rule)"

definition parse_graph_recurrence :: "civil \<Rightarrow> json \<Rightarrow> string option" where
  "parse_graph_recurrence cl v =
     (case (Option.bind (jget ''pattern'' v) as_object, Option.bind (jget ''range'' v) as_object) of
        (Some p, Some g) \<Rightarrow>
          Option.bind (pattern_rule (JObject p)) (\<lambda>rule. format_rrule cl (range_rule cl (JObject g) rule))
      | _ \<Rightarrow> None)"

text \<open>What of a rule Graph can show.\<close>

definition graph_view :: "civil \<Rightarrow> parsed_rule \<Rightarrow> timestamp \<Rightarrow> frequency \<Rightarrow> parsed_rule" where
  "graph_view cl r start freq =
     (let rule = rule_default\<lparr>pr_freq := Some freq, pr_interval := pr_interval r\<rparr>;
          month_day = (case first_month_day r of Some d \<Rightarrow> d | None \<Rightarrow> int (cl_day cl start))
      in case freq of
        Daily \<Rightarrow> rule
      | Weekly \<Rightarrow> rule\<lparr>pr_by_day := map (\<lambda>w. \<lparr>bd_ordinal = None, bd_weekday = w\<rparr>)
          (if pr_by_day r = [] then [weekday_of cl start] else map bd_weekday (pr_by_day r))\<rparr>
      | Monthly \<Rightarrow>
          (case (first_month_day r, first_ordinal_day r) of
             (None, Some (n, w)) \<Rightarrow> rule\<lparr>pr_by_day :=
               [\<lparr>bd_ordinal = Some (graph_index_to_ordinal (graph_week_index n)), bd_weekday = w\<rparr>]\<rparr>
           | _ \<Rightarrow> rule\<lparr>pr_by_month_day := [month_day]\<rparr>)
      | Yearly \<Rightarrow> rule\<lparr>pr_by_month_day := [month_day],
          pr_by_month := [case pr_by_month r of m # _ \<Rightarrow> m | [] \<Rightarrow> cl_month cl start]\<rparr>)"

definition end_of_day :: "civil \<Rightarrow> timestamp \<Rightarrow> timestamp option" where
  "end_of_day cl u = Option.bind (cl_strptime_date cl ''%Y-%m-%d'' (cl_strftime cl ''%Y-%m-%d'' u))
     (\<lambda>d. utc cl (d + 86399 * 1000000000))"

definition with_range :: "civil \<Rightarrow> parsed_rule \<Rightarrow> parsed_rule \<Rightarrow> parsed_rule" where
  "with_range cl r q = q\<lparr>pr_count := pr_count r,
     pr_until := (if pr_count r = None then Option.bind (pr_until r) (end_of_day cl) else None)\<rparr>"

text \<open>The calendar of a start, and a date Graph can show: its last second prints the same date.\<close>

definition start_ok :: "civil \<Rightarrow> timestamp \<Rightarrow> bool" where
  "start_ok cl t \<longleftrightarrow> 1 \<le> cl_day cl t \<and> cl_day cl t \<le> 31 \<and> 1 \<le> cl_month cl t \<and> cl_month cl t \<le> 12"

definition date_ok :: "civil \<Rightarrow> timestamp \<Rightarrow> bool" where
  "date_ok cl u \<longleftrightarrow> (case end_of_day cl u of
      Some e \<Rightarrow> stamp_ok cl e \<and> cl_strftime cl ''%Y-%m-%d'' e = cl_strftime cl ''%Y-%m-%d'' u
    | None \<Rightarrow> False)"

lemma to_lower_literals [simp]:
  "to_lower ''daily'' = ''daily''" "to_lower ''weekly'' = ''weekly''"
  "to_lower ''absoluteMonthly'' = ''absolutemonthly''" "to_lower ''relativeMonthly'' = ''relativemonthly''"
  "to_lower ''absoluteYearly'' = ''absoluteyearly''" "to_lower ''numbered'' = ''numbered''"
  "to_lower ''endDate'' = ''enddate''" "to_lower ''noEnd'' = ''noend''"
  by (simp_all add: str_simps)

lemma map_filter_weekdays [simp]:
  "List.map_filter (\<lambda>d. Option.bind (as_str d) weekday_parse_long) (map (\<lambda>w. JString (weekday_graph w)) ws) = ws"
  by (rule map_filter_map) (simp add: list_all_iff)

lemma map_filter_weekdays' [simp]:
  "List.map_filter (\<lambda>d. Option.bind (as_str d) weekday_parse_long)
     (map (JString \<circ> (\<lambda>d. weekday_graph (bd_weekday d))) ds) = map bd_weekday ds"
  using map_filter_weekdays [of "map bd_weekday ds"] by (simp add: comp_def)

lemma graph_index [simp]: "graph_week_index (graph_index_to_ordinal (graph_week_index n)) = graph_week_index n"
  by (simp add: graph_week_index_def graph_index_to_ordinal_def str_simps)

lemma graph_ordinal_range: "-2147483648 \<le> graph_index_to_ordinal s" "graph_index_to_ordinal s \<le> 2147483647"
  by (simp_all add: graph_index_to_ordinal_def Let_def)

lemma first_month_day_range: "rule_ok cl r \<Longrightarrow> first_month_day r = Some d \<Longrightarrow> 1 \<le> d \<and> d \<le> 31"
  by (auto simp: rule_ok_def first_month_day_def list_all_iff split: list.splits if_splits)

lemma month_range:
  "rule_ok cl r \<Longrightarrow> start_ok cl t \<Longrightarrow>
     1 \<le> (case pr_by_month r of m # _ \<Rightarrow> m | [] \<Rightarrow> cl_month cl t) \<and>
     (case pr_by_month r of m # _ \<Rightarrow> m | [] \<Rightarrow> cl_month cl t) \<le> 12"
  by (auto simp: rule_ok_def start_ok_def list_all_iff split: list.split)

lemma interval_range: "rule_ok cl r \<Longrightarrow> (case pr_interval r of Some n \<Rightarrow> n | None \<Rightarrow> 1) \<le> u32_max"
  by (auto simp: rule_ok_def split: option.splits)

lemma pattern_rule_graph:
  assumes "rule_ok cl r" and "start_ok cl t"
  shows "pattern_rule (jobj (graph_pattern cl r t f)) =
    Some ((graph_view cl r t f)\<lparr>pr_interval := Some (case pr_interval r of Some n \<Rightarrow> n | None \<Rightarrow> 1)\<rparr>)"
proof -
  let ?i = "case pr_interval r of Some n \<Rightarrow> n | None \<Rightarrow> 1"
  let ?d = "case first_month_day r of Some d \<Rightarrow> jint d | None \<Rightarrow> jnat (cl_day cl t)"
  let ?e = "case first_month_day r of Some d \<Rightarrow> d | None \<Rightarrow> int (cl_day cl t)"
  have i: "?i \<le> u32_max" using assms(1) by (rule interval_range)
  have d: "Option.bind (as_i64 ?d) (fit_int (-128) 127) = Some ?e"
    using first_month_day_range [OF assms(1)] assms(2)
    by (auto simp: start_ok_def split: option.split)
  show ?thesis
  proof (cases f)
    case Daily
    with i show ?thesis
      by (simp add: graph_pattern_def graph_view_def pattern_rule_def jget_jobj Let_def rule_default_def)
  next
    case Weekly
    with i show ?thesis
      by (simp add: graph_pattern_def graph_view_def pattern_rule_def jget_jobj Let_def rule_default_def
          elements_def map_filter_map list_all_iff List.map_filter_simps)
  next
    case Monthly
    with i d show ?thesis
      by (cases "first_month_day r"; cases "first_ordinal_day r")
        (auto simp: graph_pattern_def graph_view_def pattern_rule_def jget_jobj Let_def rule_default_def
          elements_def List.map_filter_simps)
  next
    case Yearly
    have "(case pr_by_month r of m # _ \<Rightarrow> m | [] \<Rightarrow> cl_month cl t) \<le> u8_max"
      using month_range [OF assms] by simp
    with i d Yearly show ?thesis
      by (simp add: graph_pattern_def graph_view_def pattern_rule_def jget_jobj Let_def rule_default_def)
  qed
qed

lemma range_rule_graph:
  assumes "rule_ok cl r" and "\<forall>u. pr_until r = Some u \<longrightarrow> date_ok cl u"
    and "pr_count q = None" and "pr_until q = None"
  shows "range_rule cl (jobj (graph_range cl r t)) q = with_range cl r q"
proof (cases "pr_count r")
  case (Some n)
  with assms show ?thesis
    by (cases q) (auto simp: range_rule_def graph_range_def with_range_def jget_jobj Let_def rule_ok_def)
next
  case None
  then show ?thesis
  proof (cases "pr_until r")
    case None
    with \<open>pr_count r = None\<close> assms(3,4) show ?thesis
      by (cases q) (simp add: range_rule_def graph_range_def with_range_def jget_jobj Let_def)
  next
    case (Some u)
    with assms(2) obtain d where "cl_strptime_date cl ''%Y-%m-%d'' (cl_strftime cl ''%Y-%m-%d'' u) = Some d"
      by (fastforce simp: date_ok_def end_of_day_def bind_eq_Some_conv split: option.splits)
    with Some \<open>pr_count r = None\<close> assms(3,4) show ?thesis
      by (cases q) (simp add: range_rule_def graph_range_def with_range_def end_of_day_def jget_jobj Let_def)
  qed
qed

lemma graph_view_ok:
  assumes "rule_ok cl r" and "start_ok cl t" and "\<forall>u. pr_until r = Some u \<longrightarrow> date_ok cl u"
  shows "rule_ok cl (with_range cl r (graph_view cl r t f))"
proof -
  let ?q = "with_range cl r (graph_view cl r t f)"
  have freq: "pr_freq ?q = Some f" "pr_interval ?q = pr_interval r" "pr_count ?q = pr_count r"
    by (cases f; auto simp: with_range_def graph_view_def rule_default_def Let_def split: option.split prod.split)+
  have until: "stamp_ok cl e" if "pr_until ?q = Some e" for e
    using that assms(3)
    by (auto simp: with_range_def date_ok_def bind_eq_Some_conv split: if_splits option.splits)
  have days: "list_all day_ok (pr_by_day ?q)"
    by (cases f) (auto simp: with_range_def graph_view_def rule_default_def Let_def day_ok_def list_all_iff
        graph_ordinal_range split: option.split prod.split)
  have month_days: "list_all (\<lambda>n. -31 \<le> n \<and> n \<le> 31 \<and> n \<noteq> 0) (pr_by_month_day ?q)"
    using first_month_day_range [OF assms(1)] assms(2)
    by (cases f) (auto simp: with_range_def graph_view_def rule_default_def Let_def start_ok_def
        split: option.split prod.split)
  have months: "list_all (\<lambda>n. 1 \<le> n \<and> n \<le> 12) (pr_by_month ?q)"
    using month_range [OF assms(1,2)]
    by (cases f) (auto simp: with_range_def graph_view_def rule_default_def Let_def split: option.split prod.split)
  show ?thesis
    using assms(1) until days month_days months unfolding rule_ok_def freq by (auto split: option.split)
qed

lemma graph_view_again:
  assumes "rule_ok cl r" and "start_ok cl t" and "\<forall>u. pr_until r = Some u \<longrightarrow> date_ok cl u"
  shows "graph_recurrence cl (with_range cl r (graph_view cl r t f)) t =
    Some (jobj [(''pattern'', jobj (graph_pattern cl r t f)), (''range'', jobj (graph_range cl r t))])"
proof -
  let ?q = "with_range cl r (graph_view cl r t f)"
  have "graph_range cl ?q t = graph_range cl r t"
  proof (cases "pr_count r = None \<and> pr_until r \<noteq> None")
    case True
    with assms(3) obtain u e where "pr_until r = Some u" "end_of_day cl u = Some e"
      "cl_strftime cl ''%Y-%m-%d'' e = cl_strftime cl ''%Y-%m-%d'' u"
      by (fastforce simp: date_ok_def split: option.splits)
    with True show ?thesis by (simp add: graph_range_def with_range_def)
  qed (auto simp: graph_range_def with_range_def)
  moreover have "graph_pattern cl ?q t f = graph_pattern cl r t f"
  proof (cases f)
    case Monthly
    have "first_month_day r = Some d \<Longrightarrow> 0 < d" for d using first_month_day_range [OF assms(1)] by fastforce
    with Monthly assms(2) show ?thesis
      by (cases "first_month_day r"; cases "first_ordinal_day r")
        (auto simp: graph_pattern_def with_range_def graph_view_def rule_default_def Let_def first_month_day_def
          first_ordinal_day_def start_ok_def jint_def jnat_def)
  next
    case Yearly
    have "first_month_day r = Some d \<Longrightarrow> 0 < d" for d using first_month_day_range [OF assms(1)] by fastforce
    with Yearly assms(2) show ?thesis
      by (cases "first_month_day r")
        (auto simp: graph_pattern_def with_range_def graph_view_def rule_default_def Let_def first_month_day_def
          start_ok_def jint_def jnat_def)
  qed (auto simp: graph_pattern_def with_range_def graph_view_def rule_default_def Let_def comp_def)
  moreover have "pr_freq ?q = Some f"
    by (cases f) (auto simp: with_range_def graph_view_def rule_default_def Let_def split: option.split prod.split)
  ultimately show ?thesis by (simp add: graph_recurrence_def)
qed

lemma parse_graph_view:
  assumes "rule_ok cl r" and "start_ok cl t" and "\<forall>u. pr_until r = Some u \<longrightarrow> date_ok cl u"
    and "pr_freq r = Some f" and "graph_recurrence cl r t = Some v"
  shows "parse_graph_recurrence cl v = format_rrule cl (with_range cl r (graph_view cl r t f))"
proof -
  let ?i = "case pr_interval r of Some n \<Rightarrow> n | None \<Rightarrow> 1"
  let ?g = "(graph_view cl r t f)\<lparr>pr_interval := Some ?i\<rparr>"
  from assms(4,5) have v: "v = jobj [(''pattern'', jobj (graph_pattern cl r t f)), (''range'', jobj (graph_range cl r t))]"
    by (simp add: graph_recurrence_def)
  have "pr_count ?g = None" "pr_until ?g = None"
    by (cases f; auto simp: graph_view_def rule_default_def Let_def split: option.split prod.split)+
  then have "range_rule cl (jobj (graph_range cl r t)) ?g = with_range cl r ?g"
    by (rule range_rule_graph [OF assms(1,3)])
  with pattern_rule_graph [OF assms(1,2), of f]
  have "parse_graph_recurrence cl v = format_rrule cl (with_range cl r ?g)"
    unfolding v parse_graph_recurrence_def by (simp add: jget_jobj) (simp add: jobj_def)
  also have "with_range cl r ?g = (with_range cl r (graph_view cl r t f))\<lparr>pr_interval := Some ?i\<rparr>"
    by (simp add: with_range_def)
  also have "format_rrule cl \<dots> = format_rrule cl (with_range cl r (graph_view cl r t f))"
  proof -
    have "pr_interval (with_range cl r (graph_view cl r t f)) = pr_interval r"
      by (cases f) (auto simp: with_range_def graph_view_def rule_default_def Let_def split: option.split prod.split)
    then show ?thesis
      by (cases "pr_interval r") (auto simp: format_rrule_parts rule_parts_def intro!: option.map_cong)
  qed
  finally show ?thesis .
qed

text \<open>
  C34. A Graph client that reads the recurrence of an event and writes it back changes nothing any
  Graph client reads: the text stored for the written pattern and range parses to a rule that Graph
  shows as the very same pattern and range, although Graph cannot show every rule.
\<close>

theorem graph_recurrence_stable:
  assumes "rule_ok cl r" and "start_ok cl t" and "\<forall>u. pr_until r = Some u \<longrightarrow> date_ok cl u"
  shows "\<exists>v s. graph_recurrence cl r t = Some v \<and> parse_graph_recurrence cl v = Some s \<and>
    graph_recurrence cl (rule_parse cl s) t = Some v"
proof -
  from assms(1) obtain f where f: "pr_freq r = Some f" by (auto simp: rule_ok_def)
  let ?q = "with_range cl r (graph_view cl r t f)"
  let ?v = "jobj [(''pattern'', jobj (graph_pattern cl r t f)), (''range'', jobj (graph_range cl r t))]"
  from f have v: "graph_recurrence cl r t = Some ?v" by (simp add: graph_recurrence_def)
  have ok: "rule_ok cl ?q" by (rule graph_view_ok [OF assms])
  then obtain s where s: "format_rrule cl ?q = Some s" by (auto simp: rule_ok_def format_rrule_parts)
  with parse_graph_view [OF assms f v] have "parse_graph_recurrence cl ?v = Some s" by simp
  with v rule_parse_format [OF ok s] graph_view_again [OF assms] show ?thesis by auto
qed

text \<open>The calendar of the witness: dates are printed as numbers, the last second of day \<open>d\<close> as \<open>d\<close>.\<close>

definition day_civil :: civil where
  "day_civil = digit_civil\<lparr>
     cl_strftime := (\<lambda>fmt t. if last fmt = CHR ''d'' then show_nat (nat (t div 86400000000000))
                              else cl_strftime digit_civil fmt t),
     cl_strptime_date := (\<lambda>_ s. map_option (\<lambda>n. int n * 86400000000000) (parse_digits 0 s))\<rparr>"

lemma day_civil_stamp: "0 \<le> u \<Longrightarrow> stamp_ok day_civil u"
  using digit_civil_stamp [of u]
  by (simp add: stamp_ok_def day_civil_def digit_civil_def utc_def parse_digits_show_nat)

theorem graph_recurrence_stable_witness:
  "\<exists>v s. graph_recurrence day_civil sample_rule 5 = Some v \<and> parse_graph_recurrence day_civil v = Some s \<and>
    graph_recurrence day_civil (rule_parse day_civil s) 5 = Some v"
proof -
  have "rule_ok day_civil sample_rule"
    by (simp add: rule_ok_def sample_rule_def day_ok_def day_civil_stamp)
  moreover have "start_ok day_civil 5" by (simp add: start_ok_def day_civil_def digit_civil_def)
  moreover have "date_ok day_civil 1780"
  proof -
    have "end_of_day day_civil 1780 = Some 86399000000000"
      by (simp add: end_of_day_def day_civil_def digit_civil_def utc_def parse_digits_show_nat)
    then show ?thesis using day_civil_stamp [of 86399000000000] by (simp add: date_ok_def day_civil_def)
  qed
  then have "\<forall>u. pr_until sample_rule = Some u \<longrightarrow> date_ok day_civil u" by (simp add: sample_rule_def)
  ultimately show ?thesis by (rule graph_recurrence_stable)
qed

end
