(* ===== verification/Graph_Values.thy ===== *)
theory Graph_Values
  imports Odata_Query Fixture_Delta Imap_Render "HOL-Library.Product_Lexorder"
begin

text \<open>
  How the Graph listener shows mail (\<open>src/graph/mail.rs\<close>): folder and message resources, the \<open>$expand\<close>
  and \<open>$filter\<close> options, reactions as extended properties, attachments and their base64.
\<close>

subsection \<open>What is given\<close>

text \<open>
  jiff's printing (\<open>{:.0}\<close>) and parsing of an instant, the message parser crate, serde's parser,
  whether a string may be a header value, the Lua override of a command, the rendering environment
  of the IMAP module, the instant the code hardcodes for an empty fixture, and the clock.
\<close>

record parsed_mail =
  pm_subject :: "string option"
  pm_from :: "address option"
  pm_to :: "address option"
  pm_message_id :: "string option"
  pm_body_text :: "string option"

record graph_env =
  ge_show_ts :: "timestamp \<Rightarrow> string"
  ge_parse_ts :: "string \<Rightarrow> timestamp option"
  ge_mail_parser :: "string \<Rightarrow> parsed_mail option"
  ge_parse_json :: "string \<Rightarrow> json option"
  ge_header_ok :: "string \<Rightarrow> bool"
  ge_override :: "string \<Rightarrow> (string \<times> string) list \<Rightarrow> (string \<times> string) option"
  ge_render :: render_env
  ge_epoch :: timestamp
  ge_now :: timestamp

subsection \<open>Base64\<close>

definition base64_standard :: "string \<Rightarrow> string" where
  "base64_standard input = b64_encode input"

definition base64url_val :: "char \<Rightarrow> nat option" where
  "base64url_val c =
     (let n = of_char c :: nat in
      if 65 \<le> n \<and> n \<le> 90 then Some (n - 65)
      else if 97 \<le> n \<and> n \<le> 122 then Some (n - 97 + 26)
      else if 48 \<le> n \<and> n \<le> 57 then Some (n - 48 + 52)
      else if c = CHR ''-'' \<or> c = CHR ''+'' then Some 62
      else if c = CHR ''_'' \<or> c = CHR ''/'' then Some 63
      else None)"

fun base64url_loop :: "nat \<Rightarrow> nat \<Rightarrow> string \<Rightarrow> string option" where
  "base64url_loop acc bits [] = Some []"
| "base64url_loop acc bits (c # cs) =
     (if c = CHR ''='' then Some []
      else if c = CHR 0x0D \<or> c = CHR 0x0A then base64url_loop acc bits cs
      else case base64url_val c of
             None \<Rightarrow> None
           | Some v \<Rightarrow>
               let acc' = acc * 64 mod 2 ^ 32 + v; bits' = bits + 6 in
               if bits' \<ge> 8
               then map_option ((#) (char_of (acc' div 2 ^ (bits' - 8) mod 256)))
                      (base64url_loop acc' (bits' - 8) cs)
               else base64url_loop acc' bits' cs)"

definition decode_base64url_no_pad :: "string \<Rightarrow> string option" where
  "decode_base64url_no_pad input = base64url_loop 0 0 input"

subsection \<open>Folders\<close>

definition role_from_alias :: "string \<Rightarrow> role option" where
  "role_from_alias alias =
     (let l = to_lower alias in
      if l = ''inbox'' then Some Inbox else if l = ''drafts'' then Some Drafts
      else if l = ''sentitems'' then Some Sent else if l = ''deleteditems'' then Some Trash
      else if l = ''junkemail'' then Some Junk else if l = ''archive'' then Some Archive else None)"

fun well_known_name_for :: "role option \<Rightarrow> string option" where
  "well_known_name_for None = None"
| "well_known_name_for (Some Inbox) = Some ''inbox''"
| "well_known_name_for (Some Drafts) = Some ''drafts''"
| "well_known_name_for (Some Sent) = Some ''sentItems''"
| "well_known_name_for (Some Trash) = Some ''deletedItems''"
| "well_known_name_for (Some Junk) = Some ''junkEmail''"
| "well_known_name_for (Some Archive) = Some ''archive''"
| "well_known_name_for (Some Important) = None"

definition graph_folder :: "fixture \<Rightarrow> string \<Rightarrow> string \<Rightarrow> mailbox option" where
  "graph_folder f folder a =
     (case find (\<lambda>m. mb_id m = folder) (mailboxes_for f a) of
        Some m \<Rightarrow> Some m
      | None \<Rightarrow> Option.bind (role_from_alias folder)
                  (\<lambda>r. find (\<lambda>m. mb_role m = Some r) (mailboxes_for f a)))"

definition jstring_or_null :: "string option \<Rightarrow> json" where
  "jstring_or_null v = (case v of Some s \<Rightarrow> JString s | None \<Rightarrow> JNull)"

definition emails_in :: "fixture \<Rightarrow> string \<Rightarrow> string \<Rightarrow> email list" where
  "emails_in f a mb = filter (\<lambda>e. mb \<in> set (mailbox_ids e)) (emails_for f a)"

definition folder_value :: "fixture \<Rightarrow> mailbox \<Rightarrow> json" where
  "folder_value f m =
     (let messages_in = emails_in f (mb_account_id m) (mb_id m) in
      jobj [(''id'', JString (mb_id m)), (''displayName'', JString (mb_name m)),
        (''parentFolderId'', jstring_or_null (mb_parent_id m)),
        (''childFolderCount'', jnat (length (filter (\<lambda>c. mb_parent_id c = Some (mb_id m))
           (mailboxes_for f (mb_account_id m))))),
        (''unreadItemCount'', jnat (length (filter (\<lambda>e. ''$seen'' \<notin> set (em_keywords e)) messages_in))),
        (''totalItemCount'', jnat (length messages_in)),
        (''wellKnownName'', jstring_or_null (well_known_name_for (mb_role m)))])"

definition newest_first :: "email list \<Rightarrow> email list" where
  "newest_first es = sort_key (\<lambda>e. (- received_at e, em_id e)) es"

definition sorted_messages_in :: "fixture \<Rightarrow> string \<Rightarrow> string \<Rightarrow> email list" where
  "sorted_messages_in f a mb = newest_first (emails_in f a mb)"

subsection \<open>Expand clauses\<close>

record expand =
  ex_attachments :: bool
  ex_owner_reaction_type :: bool
  ex_reactions_count :: bool

definition expand_default :: expand where
  "expand_default = \<lparr>ex_attachments = False, ex_owner_reaction_type = False, ex_reactions_count = False\<rparr>"

definition svep :: string where "svep = ''singleValueExtendedProperties''"
definition reactions_guid :: string where "reactions_guid = ''{41F28F13-83F4-4114-A584-EEDB5A6B0BFF}''"
definition owner_reaction_type_name_lc :: string where "owner_reaction_type_name_lc = ''ownerreactiontype''"
definition reactions_count_name_lc :: string where "reactions_count_name_lc = ''reactionscount''"

definition svep_selection :: "string option \<Rightarrow> expand" where
  "svep_selection flt =
     (case flt of
        None \<Rightarrow> \<lparr>ex_attachments = False, ex_owner_reaction_type = True, ex_reactions_count = True\<rparr>
      | Some s \<Rightarrow>
          let l = to_lower s in
          \<lparr>ex_attachments = False,
           ex_owner_reaction_type = contains_sub owner_reaction_type_name_lc l,
           ex_reactions_count = contains_sub reactions_count_name_lc l\<rparr>)"

fun split_expand_clauses :: "nat \<Rightarrow> string \<Rightarrow> string \<Rightarrow> string list" where
  "split_expand_clauses depth acc [] = [rev acc]"
| "split_expand_clauses depth acc (c # cs) =
     (if c = CHR ''('' then split_expand_clauses (depth + 1) (c # acc) cs
      else if c = CHR '')'' then split_expand_clauses (depth - 1) (c # acc) cs
      else if c = CHR '','' \<and> depth = 0 then rev acc # split_expand_clauses depth [] cs
      else split_expand_clauses depth (c # acc) cs)"

definition clause_options :: "string \<Rightarrow> string option" where
  "clause_options clause =
     (case (find_sub ''('' clause, find_sub '')'' (rev clause)) of
        (Some opn, Some k) \<Rightarrow>
          let close = length clause - 1 - k in
          if close \<le> opn + 1 then None else Some (take (close - (opn + 1)) (drop (opn + 1) clause))
      | _ \<Rightarrow> None)"

definition expand_clause :: "string \<Rightarrow> expand \<Rightarrow> expand" where
  "expand_clause clause0 out =
     (let clause = trim clause0 in
      if prefix ''attachments'' clause then out\<lparr>ex_attachments := True\<rparr>
      else if prefix svep clause then
        let sel = svep_selection (clause_options clause) in
        out\<lparr>ex_owner_reaction_type := ex_owner_reaction_type out \<or> ex_owner_reaction_type sel,
            ex_reactions_count := ex_reactions_count out \<or> ex_reactions_count sel\<rparr>
      else out)"

definition expand_parse :: "string option \<Rightarrow> expand" where
  "expand_parse ex = (case ex of
      None \<Rightarrow> expand_default
    | Some s \<Rightarrow> fold expand_clause (split_expand_clauses 0 [] s) expand_default)"

subsection \<open>Messages\<close>

definition email_etag :: "string \<Rightarrow> string" where
  "email_etag i = ''W/'' @ dquote @ ''etag-'' @ i @ dquote"

fun body_value :: "body \<Rightarrow> json" where
  "body_value (Text t) = jobj [(''contentType'', JString ''text''), (''content'', JString t)]"

definition recipient_value :: "address \<Rightarrow> json" where
  "recipient_value a = jobj [(''emailAddress'', jobj
     [(''address'', JString (ad_email a)), (''name'', jstring_or_null (ad_name a))])]"

definition recipient_array :: "address list \<Rightarrow> json" where
  "recipient_array xs = JArray (map recipient_value xs)"

definition categories_value :: "string list \<Rightarrow> json" where
  "categories_value ks = JArray (map JString (filter (\<lambda>k. \<not> prefix ''$'' k) ks))"

definition flag_value :: "string list \<Rightarrow> json" where
  "flag_value ks = jobj [(''flagStatus'', JString (if ''$flagged'' \<in> set ks then ''flagged'' else ''notFlagged''))]"

definition header_value :: "string \<Rightarrow> string \<Rightarrow> json" where
  "header_value n v = jobj [(''name'', JString n), (''value'', JString v)]"

definition internet_message_headers :: "email \<Rightarrow> json" where
  "internet_message_headers e = JArray (
     map (header_value ''Message-ID'') (message_id e) @
     (if in_reply_to e \<noteq> [] then [header_value ''In-Reply-To'' (join '' '' (in_reply_to e))] else []) @
     (if em_references e \<noteq> [] then [header_value ''References'' (join '' '' (em_references e))] else []))"

definition owner_reaction_type_id :: string where
  "owner_reaction_type_id = ''String '' @ reactions_guid @ '' Name OwnerReactionType''"

definition reactions_count_id :: string where
  "reactions_count_id = ''Integer '' @ reactions_guid @ '' Name ReactionsCount''"

definition reaction_properties :: "email \<Rightarrow> expand \<Rightarrow> json list" where
  "reaction_properties e x =
     (case reaction_type e of
        Some t \<Rightarrow> if ex_owner_reaction_type x
                   then [jobj [(''id'', JString owner_reaction_type_id), (''value'', JString t)]] else []
      | None \<Rightarrow> []) @
     (case reaction_count e of
        Some c \<Rightarrow> if ex_reactions_count x
                   then [jobj [(''id'', JString reactions_count_id), (''value'', JString (show_int c))]] else []
      | None \<Rightarrow> [])"

definition graph_attachment_value :: "string \<Rightarrow> attachment \<Rightarrow> bool \<Rightarrow> json" where
  "graph_attachment_value mid a include_bytes = jobj (
     [(''@odata.type'', JString ''#microsoft.graph.fileAttachment''),
      (''@odata.mediaContentType'', JString (at_content_type a)),
      (''id'', JString (at_blob_id a)), (''name'', JString (at_name a)),
      (''contentType'', JString (at_content_type a)), (''size'', jint (at_size a)),
      (''isInline'', JBool (at_disposition a = Inline))] @
     (case at_cid a of Some c \<Rightarrow> [(''contentId'', JString c)] | None \<Rightarrow> []) @
     [(''lastModifiedDateTime'', JString ''1970-01-01T00:00:00Z''),
      (''@odata.id'', JString (''/v1.0/me/messages/'' @ mid @ ''/attachments/'' @ at_blob_id a))] @
     (if include_bytes then [(''contentBytes'', JString (base64_standard (at_data a)))] else []))"

definition message_value :: "graph_env \<Rightarrow> email \<Rightarrow> string \<Rightarrow> expand \<Rightarrow> string \<Rightarrow> json" where
  "message_value env e parent x etag = jobj
     [(''id'', JString (em_id e)), (''@odata.etag'', JString etag),
      (''conversationId'', JString (em_thread_id e)),
      (''subject'', jstring_or_null (em_subject e)), (''bodyPreview'', jstring_or_null (em_preview e)),
      (''body'', body_value (em_body e)),
      (''from'', case em_from e of Some a \<Rightarrow> recipient_value a | None \<Rightarrow> JNull),
      (''toRecipients'', recipient_array (em_to e)), (''ccRecipients'', recipient_array (em_cc e)),
      (''bccRecipients'', recipient_array (em_bcc e)), (''replyTo'', recipient_array (reply_to e)),
      (''receivedDateTime'', JString (ge_show_ts env (received_at e))),
      (''sentDateTime'', JString (ge_show_ts env (sent_at e))),
      (''isRead'', JBool (''$seen'' \<in> set (em_keywords e))),
      (''isDraft'', JBool (''$draft'' \<in> set (em_keywords e))),
      (''hasAttachments'', JBool (has_attachment e)), (''importance'', JString ''normal''),
      (''parentFolderId'', JString parent), (''categories'', categories_value (em_keywords e)),
      (''flag'', flag_value (em_keywords e)), (''inferenceClassification'', JString ''focused''),
      (''isReadReceiptRequested'', JBool False),
      (''internetMessageHeaders'', internet_message_headers e),
      (''internetMessageId'', jstring_or_null (case message_id e of i # _ \<Rightarrow> Some i | [] \<Rightarrow> None)),
      (''attachments'', JArray (if ex_attachments x
         then map (\<lambda>a. graph_attachment_value (em_id e) a True) (attachments e) else [])),
      (svep, JArray (reaction_properties e x))]"

definition message_value_for :: "graph_env \<Rightarrow> email \<Rightarrow> string \<Rightarrow> expand \<Rightarrow> json" where
  "message_value_for env e parent x = message_value env e parent x (email_etag (em_id e))"

definition first_mailbox :: "email \<Rightarrow> string" where
  "first_mailbox e = (case mailbox_ids e of m # _ \<Rightarrow> m | [] \<Rightarrow> [])"

definition graph_message_tombstone :: "string \<Rightarrow> json" where
  "graph_message_tombstone i = jobj [(''id'', JString i), (''@removed'', jobj [(''reason'', JString ''deleted'')])]"

definition find_email :: "fixture \<Rightarrow> string \<Rightarrow> string \<Rightarrow> email option" where
  "find_email f a i = find (\<lambda>e. em_id e = i) (emails_for f a)"

definition find_email_with_attachment :: "fixture \<Rightarrow> string \<Rightarrow> string \<Rightarrow> string \<Rightarrow> (email \<times> attachment) option" where
  "find_email_with_attachment f a mid att =
     Option.bind (find_email f a mid) (\<lambda>e.
       map_option (Pair e) (find (\<lambda>t. at_blob_id t = att) (attachments e)))"

definition message_get_value :: "graph_env \<Rightarrow> fixture \<Rightarrow> string \<Rightarrow> string \<Rightarrow> expand \<Rightarrow> json option" where
  "message_get_value env f a mid x =
     map_option (\<lambda>e. message_value_for env e (first_mailbox e) x) (find_email f a mid)"

definition message_extended_properties_value ::
    "fixture \<Rightarrow> string \<Rightarrow> string \<Rightarrow> string option \<Rightarrow> json option" where
  "message_extended_properties_value f a mid flt =
     map_option (\<lambda>e. jobj [(''@odata.context'', JString (''https://graph.microsoft.com/v1.0/$metadata#users('' @
         [CHR 0x27] @ a @ [CHR 0x27] @ '')/messages('' @ [CHR 0x27] @ mid @ [CHR 0x27] @ '')/singleValueExtendedProperties'')),
       (''value'', JArray (reaction_properties e (svep_selection flt)))])
     (find_email f a mid)"

definition parse_conversation_id_filter :: "string \<Rightarrow> string option" where
  "parse_conversation_id_filter flt =
     Option.bind (strip_prefix ''conversationId eq '' (trim flt)) (\<lambda>rest.
       Option.bind (strip_prefix [CHR 0x27] (trim rest)) (strip_suffix [CHR 0x27]))"

definition parse_received_ge_filter :: "graph_env \<Rightarrow> string \<Rightarrow> timestamp option" where
  "parse_received_ge_filter env flt =
     Option.bind (strip_prefix ''receivedDateTime'' (trim flt)) (\<lambda>rest.
       Option.bind (strip_prefix ''ge'' (trim_start rest)) (\<lambda>r. ge_parse_ts env (trim (trim_start r))))"

definition next_offset :: "nat \<Rightarrow> nat \<Rightarrow> nat \<Rightarrow> nat option" where
  "next_offset offset per n = (if offset + per < n then fit_nat u32_max (offset + per) else None)"

end
