(* ===== verification/Graph_Mail.thy ===== *)
theory Graph_Mail
  imports Graph_Values Oauth_Store
begin

text \<open>
  The mail handlers of the Graph listener (\<open>src/graph/mail.rs\<close>): folders, message lists, the delta
  feed, single messages, their writes, drafts and \<open>$batch\<close>. A read handler returns its response; a
  write handler returns the response and the fixture it leaves. The \<open>/me\<close> and \<open>/users/{user}\<close>
  routes share the handlers through \<open>with_account\<close>.
\<close>

subsection \<open>Responses\<close>

datatype graph_body = Empty | Json json | Raw string string

record graph_response =
  gs_status :: nat
  gs_etag :: "string option"
  gs_body :: graph_body

definition respond :: "nat \<Rightarrow> graph_body \<Rightarrow> graph_response" where
  "respond st b = \<lparr>gs_status = st, gs_etag = None, gs_body = b\<rparr>"

definition ok_json :: "json \<Rightarrow> graph_response" where
  "ok_json v = respond 200 (Json v)"

definition graph_error_value :: "string \<Rightarrow> string \<Rightarrow> json" where
  "graph_error_value code message =
     jobj [(''error'', jobj [(''code'', JString code), (''message'', JString message)])]"

definition graph_error :: "nat \<Rightarrow> string \<Rightarrow> string \<Rightarrow> graph_response" where
  "graph_error st code message = respond st (Json (graph_error_value code message))"

definition with_override ::
    "graph_env \<Rightarrow> string \<Rightarrow> (string \<times> string) list \<Rightarrow> (graph_response \<Rightarrow> 'r) \<Rightarrow> 'r \<Rightarrow> 'r" where
  "with_override env command req answered k =
     (case ge_override env command req of
        Some (st, message) \<Rightarrow> answered (graph_error 400 st message)
      | None \<Rightarrow> k)"

subsection \<open>Accounts\<close>

datatype owner = Me | User string

definition resolve_user_account :: "fixture \<Rightarrow> string \<Rightarrow> graph_response + string" where
  "resolve_user_account f user =
     (if user = ''me'' then Inr (primary_id f)
      else case find_account f user of
        Some a \<Rightarrow> Inr (ac_id a)
      | None \<Rightarrow> Inl (graph_error 404 ''ResourceNotFound'' (''user '' @ debug_str user @ '' not found'')))"

definition with_account ::
    "fixture \<Rightarrow> owner \<Rightarrow> (graph_response \<Rightarrow> 'r) \<Rightarrow> (bool \<Rightarrow> string \<Rightarrow> 'r) \<Rightarrow> 'r" where
  "with_account f who answered k =
     (case who of
        Me \<Rightarrow> k True (primary_id f)
      | User u \<Rightarrow> (case resolve_user_account f u of Inl r \<Rightarrow> answered r | Inr a \<Rightarrow> k False a))"

definition base_path :: "bool \<Rightarrow> string \<Rightarrow> string" where
  "base_path me_path a = (if me_path then ''/v1.0/me'' else ''/v1.0/users/'' @ a)"

definition host_or_default :: "headers \<Rightarrow> string" where
  "host_or_default hs = (case header_str hs ''host'' of Some h \<Rightarrow> h | None \<Rightarrow> ''127.0.0.1'')"

subsection \<open>Lists\<close>

definition folders_default_top :: nat where "folders_default_top = 250"
definition folders_max_top :: nat where "folders_max_top = 250"
definition messages_default_top :: nat where "messages_default_top = 50"
definition messages_max_top :: nat where "messages_max_top = 256"

definition bad_skiptoken :: graph_response where
  "bad_skiptoken = graph_error 400 ''InvalidQueryParameter''
     ''$skiptoken did not decode - reset pagination by retrying without it''"

definition page_of :: "nat \<Rightarrow> nat \<Rightarrow> 'a list \<Rightarrow> 'a list" where
  "page_of offset per xs = take per (drop offset xs)"

text \<open>The part the paged listings share.\<close>

definition paged ::
    "headers \<Rightarrow> string \<Rightarrow> string option \<Rightarrow> string \<Rightarrow> nat \<Rightarrow> nat \<Rightarrow> ('a \<Rightarrow> json) \<Rightarrow> 'a list \<Rightarrow> graph_response" where
  "paged hs path raw ctx dflt mx project xs =
     (let q = odata_parse raw;
          n = length xs;
          per = page_size q dflt mx
      in case query_offset q of
        None \<Rightarrow> bad_skiptoken
      | Some offset \<Rightarrow> ok_json (collection_envelope ctx (map project (page_of offset per xs))
          (map_option (build_next_link (host_or_default hs) path raw) (next_offset offset per n))
          None (if oq_count q = Some True then Some n else None)))"

definition folder_not_found :: "string \<Rightarrow> graph_response" where
  "folder_not_found folder = graph_error 404 ''ErrorItemNotFound'' (''mailFolder '' @ debug_str folder @ '' not found'')"

definition list_folders :: "graph_env \<Rightarrow> fixture \<Rightarrow> bool \<Rightarrow> string \<Rightarrow> headers \<Rightarrow> string option \<Rightarrow> graph_response" where
  "list_folders env f me_path a hs raw =
     with_override env ''list_folders'' [] id
       (paged hs (base_path me_path a @ ''/mailFolders'') raw
         ''https://graph.microsoft.com/v1.0/$metadata#me/mailFolders'' folders_default_top folders_max_top
         (folder_value f) (filter (\<lambda>m. mb_parent_id m = None) (mailboxes_for f a)))"

definition with_field :: "string \<Rightarrow> json \<Rightarrow> json \<Rightarrow> json" where
  "with_field k x v = (case v of JObject kvs \<Rightarrow> JObject (bt_insert k x kvs) | _ \<Rightarrow> v)"

definition get_folder :: "graph_env \<Rightarrow> fixture \<Rightarrow> string \<Rightarrow> string \<Rightarrow> graph_response" where
  "get_folder env f a folder =
     with_override env ''get_folder'' [(''folder'', folder)] id
       (case graph_folder f folder a of
          None \<Rightarrow> folder_not_found folder
        | Some m \<Rightarrow> ok_json (with_field ''@odata.context''
            (JString ''https://graph.microsoft.com/v1.0/$metadata#me/mailFolders/$entity'') (folder_value f m)))"

definition list_child_folders ::
    "graph_env \<Rightarrow> fixture \<Rightarrow> bool \<Rightarrow> string \<Rightarrow> string \<Rightarrow> headers \<Rightarrow> string option \<Rightarrow> graph_response" where
  "list_child_folders env f me_path a folder hs raw =
     with_override env ''list_child_folders'' [(''folder'', folder)] id
       (case graph_folder f folder a of
          None \<Rightarrow> folder_not_found folder
        | Some p \<Rightarrow> paged hs (base_path me_path a @ ''/mailFolders/'' @ mb_id p @ ''/childFolders'') raw
            (''https://graph.microsoft.com/v1.0/$metadata#me/mailFolders('' @ [CHR 0x27] @ ''...'' @ [CHR 0x27] @ '')/childFolders'')
            folders_default_top folders_max_top (folder_value f)
            (filter (\<lambda>m. mb_parent_id m = Some (mb_id p)) (mailboxes_for f a)))"

definition messages_metadata :: string where
  "messages_metadata = ''https://graph.microsoft.com/v1.0/$metadata#message''"

definition listed_messages :: "graph_env \<Rightarrow> fixture \<Rightarrow> string \<Rightarrow> string \<Rightarrow> odata_query \<Rightarrow> email list" where
  "listed_messages env f a mb q =
     (let messages = sorted_messages_in f a mb in
      case Option.bind (oq_filter q) (parse_received_ge_filter env) of
        Some after \<Rightarrow> filter (\<lambda>e. received_at e \<ge> after) messages
      | None \<Rightarrow> messages)"

definition list_messages ::
    "graph_env \<Rightarrow> fixture \<Rightarrow> bool \<Rightarrow> string \<Rightarrow> string \<Rightarrow> headers \<Rightarrow> string option \<Rightarrow> graph_response" where
  "list_messages env f me_path a folder hs raw =
     with_override env ''list_messages'' [(''folder'', folder)] id
       (case graph_folder f folder a of
          None \<Rightarrow> folder_not_found folder
        | Some m \<Rightarrow>
            let q = odata_parse raw; x = expand_parse (oq_expand q) in
            paged hs (base_path me_path a @ ''/mailFolders/'' @ mb_id m @ ''/messages'') raw messages_metadata
              messages_default_top messages_max_top (\<lambda>e. message_value_for env e (mb_id m) x)
              (listed_messages env f a (mb_id m) q))"

definition list_messages_collection ::
    "graph_env \<Rightarrow> fixture \<Rightarrow> bool \<Rightarrow> string \<Rightarrow> headers \<Rightarrow> string option \<Rightarrow> graph_response" where
  "list_messages_collection env f me_path a hs raw =
     with_override env ''list_messages'' [] id
       (let q = odata_parse raw; x = expand_parse (oq_expand q);
            messages = (case Option.bind (oq_filter q) parse_conversation_id_filter of
                Some conv \<Rightarrow> filter (\<lambda>e. em_thread_id e = conv) (emails_for f a)
              | None \<Rightarrow> emails_for f a)
        in paged hs (base_path me_path a @ ''/messages'') raw messages_metadata
             messages_default_top messages_max_top (\<lambda>e. message_value_for env e (first_mailbox e) x)
             (newest_first messages))"

text \<open>The delta feed: \<open>latest\<close>, a change log walk, or a paged bootstrap.\<close>

definition delta_values :: "graph_env \<Rightarrow> fixture \<Rightarrow> string \<Rightarrow> string \<Rightarrow> expand \<Rightarrow> delta_set \<Rightarrow> json list" where
  "delta_values env f a mb x d =
     List.map_filter (\<lambda>i. map_option (\<lambda>e. message_value_for env e mb x)
         (map_of (rev (map (\<lambda>e. (em_id e, e)) (emails_in f a mb))) i))
       (ds_created d @ ds_updated d) @
     map graph_message_tombstone (ds_destroyed d)"

definition delta_messages ::
    "graph_env \<Rightarrow> fixture \<Rightarrow> bool \<Rightarrow> string \<Rightarrow> string \<Rightarrow> headers \<Rightarrow> string option \<Rightarrow> graph_response" where
  "delta_messages env f me_path a folder hs raw =
     with_override env ''delta_messages'' [(''folder'', folder)] id
       (case graph_folder f folder a of
          None \<Rightarrow> folder_not_found folder
        | Some m \<Rightarrow>
            let q = odata_parse raw;
                host = host_or_default hs;
                x = expand_parse (oq_expand q);
                path = base_path me_path a @ ''/mailFolders/'' @ mb_id m @ ''/messages/delta'';
                delta_link = build_delta_link host path raw (state_for f a);
                walk = Option.bind (oq_deltatoken q) (\<lambda>t.
                  email_delta_since_account f (case decode_deltatoken t of Some s \<Rightarrow> s | None \<Rightarrow> []) a)
            in if oq_deltatoken q = Some ''latest''
               then ok_json (collection_envelope messages_metadata [] None (Some delta_link) None)
               else case walk of
                 Some d \<Rightarrow> ok_json (collection_envelope messages_metadata
                   (delta_values env f a (mb_id m) x d) None (Some delta_link) None)
               | None \<Rightarrow>
                   let messages = sorted_messages_in f a (mb_id m);
                       per = page_size q messages_default_top messages_max_top
                   in case query_offset q of
                     None \<Rightarrow> bad_skiptoken
                   | Some offset \<Rightarrow>
                       let nxt = next_offset offset per (length messages) in
                       ok_json (collection_envelope messages_metadata
                         (map (\<lambda>e. message_value_for env e (mb_id m) x) (page_of offset per messages))
                         (map_option (build_next_link host path raw) nxt)
                         (if nxt = None then Some delta_link else None) None))"

end
