(* ===== verification/Graph_Paging.thy ===== *)
theory Graph_Paging
  imports Graph_Mail Imap_Views "HOL-Library.Multiset"
begin

text \<open>
  What a Graph client gets by following links. \<open>follow\<close> is the client: it collects the \<open>value\<close> of a
  response and requests its \<open>@odata.nextLink\<close>, address and query, until there is none. The lemmas show that
  it ends with the whole listing in order, and that a delta link continues from the state it was
  issued in.
\<close>

subsection \<open>The client\<close>

text \<open>The address and the query of a link, and the values and next link of a response.\<close>

definition link_parts :: "string \<Rightarrow> string \<times> string option" where
  "link_parts link = (case split_once CHR ''?'' link of Some (url, q) \<Rightarrow> (url, Some q) | None \<Rightarrow> (link, None))"

definition page_result :: "graph_response \<Rightarrow> (json list \<times> string option) option" where
  "page_result r = (case gs_body r of
      Json v \<Rightarrow> if gs_status r \<noteq> 200 then None
                else map_option (\<lambda>xs. (xs, Option.bind (jget ''@odata.nextLink'' v) as_str))
                  (Option.bind (jget ''value'' v) as_array)
    | _ \<Rightarrow> None)"

fun follow :: "nat \<Rightarrow> (string \<times> string option \<Rightarrow> graph_response) \<Rightarrow> string \<times> string option \<Rightarrow> json list option" where
  "follow 0 serve target = None"
| "follow (Suc n) serve target =
     (case page_result (serve target) of
        None \<Rightarrow> None
      | Some (xs, None) \<Rightarrow> Some xs
      | Some (xs, Some link) \<Rightarrow> map_option (append xs) (follow n serve (link_parts link)))"

text \<open>
  The message listings of an account by their address: the server answers the listing of the folder that the
  address names, and 404 under any other address. Ids are taken as they stand in the address, as the links have them.
\<close>

definition listings_root :: "headers \<Rightarrow> bool \<Rightarrow> string \<Rightarrow> string" where
  "listings_root hs me_path a = ''http://'' @ host_or_default hs @ base_path me_path a @ ''/mailFolders/''"

definition serve_listing ::
    "graph_env \<Rightarrow> fixture \<Rightarrow> bool \<Rightarrow> string \<Rightarrow> headers \<Rightarrow> string \<times> string option \<Rightarrow> graph_response" where
  "serve_listing env f me_path a hs = (\<lambda>(url, raw).
     case Option.bind (strip_prefix (listings_root hs me_path a) url) (\<lambda>s. strip_prefix (rev ''/messages'') (rev s)) of
       Some folder \<Rightarrow> list_messages env f me_path a (rev folder) hs raw
     | None \<Rightarrow> graph_error 404 ''ErrorItemNotFound'' url)"

lemma serve_listing_folder:
  "serve_listing env f me_path a hs (listings_root hs me_path a @ folder @ ''/messages'', raw) =
     list_messages env f me_path a folder hs raw"
  by (simp add: serve_listing_def strip_prefix_append del: strip_prefix.simps append.simps rev.simps)

subsection \<open>One page\<close>

lemma envelope_fields:
  "jget ''value'' (collection_envelope ctx xs nl dl n) = Some (JArray xs)"
  "jget ''@odata.nextLink'' (collection_envelope ctx xs nl dl n) = map_option JString nl"
  "jget ''@odata.deltaLink'' (collection_envelope ctx xs nl dl n) = map_option JString dl"
  by (auto simp: collection_envelope_def jget_jobj map_add_def split: option.split)

lemma page_result_ok_json:
  "page_result (ok_json (collection_envelope ctx xs nl dl n)) = Some (xs, nl)"
  by (cases nl) (simp_all add: page_result_def ok_json_def respond_def envelope_fields)

lemma page_size_pos: "0 < page_size q d m"
  by (simp add: page_size_def)

lemma link_parts_link: "CHR ''?'' \<notin> set url \<Longrightarrow> link_parts (url @ ''?'' @ qs) = (url, Some qs)"
  by (simp add: link_parts_def)

text \<open>Two queries that differ in the page only.\<close>

lemma forget_fields:
  "oq_top (forget q) = oq_top q" "oq_filter (forget q) = oq_filter q" "oq_expand (forget q) = oq_expand q"
  "oq_count (forget q) = oq_count q"
  by (simp_all add: forget_def)

lemma forget_eq:
  assumes "forget q = forget q'"
  shows "oq_top q = oq_top q'" "oq_filter q = oq_filter q'" "oq_expand q = oq_expand q'"
    "oq_count q = oq_count q'"
proof -
  show "oq_top q = oq_top q'" by (metis assms forget_fields(1))
  show "oq_filter q = oq_filter q'" by (metis assms forget_fields(2))
  show "oq_expand q = oq_expand q'" by (metis assms forget_fields(3))
  show "oq_count q = oq_count q'" by (metis assms forget_fields(4))
qed

text \<open>
  A listing that is paged, and that reads its query only through the fields a next link keeps, is
  collected in full from the page the client starts at.
\<close>

lemma follow_paged:
  fixes path hs
  defines "url \<equiv> ''http://'' @ host_or_default hs @ path"
  assumes serve: "\<And>raw'. forget (odata_parse raw') = forget q \<Longrightarrow> serve (url0, raw') = paged hs path raw' ctx d m project xs"
      "\<And>raw'. forget (odata_parse raw') = forget q \<Longrightarrow> serve (url, raw') = paged hs path raw' ctx d m project xs"
    and plain: "CHR ''?'' \<notin> set (host_or_default hs)" "CHR ''?'' \<notin> set path"
    and small: "length xs \<le> u32_max"
    and start: "forget (odata_parse raw0) = forget q"
    and offset: "query_offset (odata_parse raw0) = Some k"
  shows "length xs - k < n \<Longrightarrow> follow n serve (url0, raw0) = Some (map project (drop k xs))"
  using start offset serve(1)
proof (induction n arbitrary: k raw0 url0)
  case (Suc n)
  let ?q = "odata_parse raw0"
  let ?per = "page_size ?q d m"
  have page: "serve (url0, raw0) = ok_json (collection_envelope ctx (map project (page_of k ?per xs))
      (map_option (build_next_link (host_or_default hs) path raw0) (next_offset k ?per (length xs)))
      None (if oq_count ?q = Some True then Some (length xs) else None))"
    using Suc.prems(4) [OF Suc.prems(2)] Suc.prems(3) by (simp add: paged_def Let_def)
  show ?case
  proof (cases "k + ?per < length xs")
    case False
    then have "next_offset k ?per (length xs) = None" by (simp add: next_offset_def)
    moreover have "page_of k ?per xs = drop k xs" using False by (simp add: page_of_def)
    ultimately show ?thesis by (simp add: page page_result_ok_json)
  next
    case True
    then have nxt: "next_offset k ?per (length xs) = Some (k + ?per)"
      using small by (simp add: next_offset_def)
    from next_link_query [of "host_or_default hs" path raw0 "k + ?per"] obtain qs
      where qs: "build_next_link (host_or_default hs) path raw0 (k + ?per) = ''http://'' @ host_or_default hs @ path @ ''?'' @ qs"
        "odata_parse (Some qs) = ?q\<lparr>oq_skip := None, oq_skiptoken := Some (encode_skiptoken (k + ?per))\<rparr>"
      by metis
    have "forget (odata_parse (Some qs)) = forget q"
      using Suc.prems(2) unfolding qs(2) by (simp add: forget_def)
    moreover have "query_offset (odata_parse (Some qs)) = Some (k + ?per)"
      using True small unfolding qs(2) by (simp add: query_offset_def)
    moreover have "length xs - (k + ?per) < n"
      using Suc.prems(1) True page_size_pos [of ?q d m] by linarith
    ultimately have "follow n serve (url, Some qs) = Some (map project (drop (k + ?per) xs))"
      using serve(2) by (intro Suc.IH)
    moreover have "link_parts (''http://'' @ host_or_default hs @ path @ ''?'' @ qs) = (url, Some qs)"
      using link_parts_link [of url qs] plain by (simp add: url_def)
    moreover have "page_of k ?per xs @ drop (k + ?per) xs = drop k xs"
      by (simp add: page_of_def add.commute [of k] flip: drop_drop)
    ultimately show ?thesis
      by (simp add: page nxt qs(1) page_result_ok_json flip: map_append)
  qed
qed simp

subsection \<open>Listings\<close>

lemma newest_first_mset: "mset (newest_first es) = mset es"
  by (simp add: newest_first_def)

lemma newest_first_sorted: "sorted (map (\<lambda>e. (- received_at e, em_id e)) (newest_first es))"
  by (simp add: newest_first_def)

text \<open>The messages a query asks for.\<close>

definition wanted :: "graph_env \<Rightarrow> odata_query \<Rightarrow> email \<Rightarrow> bool" where
  "wanted env q e = (case Option.bind (oq_filter q) (parse_received_ge_filter env) of
      Some t \<Rightarrow> received_at e \<ge> t | None \<Rightarrow> True)"

lemma listed_messages_wanted: "listed_messages env f a mb q = filter (wanted env q) (sorted_messages_in f a mb)"
  by (cases "Option.bind (oq_filter q) (parse_received_ge_filter env)")
    (simp_all add: listed_messages_def wanted_def [abs_def])

lemma listed_messages_mset:
  "mset (listed_messages env f a mb q) = mset (filter (wanted env q) (emails_in f a mb))"
  by (simp add: listed_messages_wanted sorted_messages_in_def newest_first_mset)

lemma listed_messages_sorted:
  "sorted (map (\<lambda>e. (- received_at e, em_id e)) (listed_messages env f a mb q))"
  unfolding listed_messages_wanted sorted_messages_in_def
  by (rule sorted_filter) (rule newest_first_sorted)

lemma listed_messages_query:
  "forget q = forget q' \<Longrightarrow> listed_messages env f a mb q = listed_messages env f a mb q'"
  using forget_eq(2) [of q q'] by (simp add: listed_messages_def)

text \<open>The id in a link names the folder the listing was asked for.\<close>

lemma graph_folder_id:
  assumes "graph_folder f folder a = Some m"
  shows "map_option mb_id (graph_folder f (mb_id m) a) = Some (mb_id m)"
proof -
  have "m \<in> set (mailboxes_for f a)"
    using assms by (auto simp: graph_folder_def bind_eq_Some_conv dest!: find_SomeD split: option.splits)
  then have "find (\<lambda>x. mb_id x = mb_id m) (mailboxes_for f a) \<noteq> None" by (auto simp: find_None_iff)
  then show ?thesis by (auto simp: graph_folder_def dest: find_SomeD)
qed

text \<open>
  C7. Paging through a Graph folder is complete: a client that asks for the messages of a folder, by its id or a
  well-known name, without a page token and requests each \<open>@odata.nextLink\<close> it is given, stops after at most one request more than there are
  messages, and has then received every message of the folder that passes its filter, each exactly
  once, newest first, whatever page size and expansion it asked for.
\<close>

theorem graph_listing_complete:
  assumes "ge_override env ''list_messages'' [(''folder'', folder)] = None"
    and "graph_folder f folder a = Some m"
    and "CHR ''?'' \<notin> set (host_or_default hs) \<union> set a \<union> set (mb_id m)"
    and "length (emails_in f a (mb_id m)) \<le> u32_max"
    and "oq_skip (odata_parse raw) = None" and "oq_skiptoken (odata_parse raw) = None"
    and "ge_override env ''list_messages'' [(''folder'', mb_id m)] = None"
  shows "\<exists>es. follow (Suc (length es)) (serve_listing env f me_path a hs) (listings_root hs me_path a @ folder @ ''/messages'', raw) =
      Some (map (\<lambda>e. message_value_for env e (mb_id m) (expand_parse (oq_expand (odata_parse raw)))) es) \<and>
    mset es = mset (filter (wanted env (odata_parse raw)) (emails_in f a (mb_id m))) \<and>
    sorted (map (\<lambda>e. (- received_at e, em_id e)) es)"
proof -
  let ?q = "odata_parse raw"
  let ?es = "listed_messages env f a (mb_id m) ?q"
  let ?url = "\<lambda>x. listings_root hs me_path a @ x @ ''/messages''"
  let ?path = "base_path me_path a @ ''/mailFolders/'' @ mb_id m @ ''/messages''"
  have "length ?es = length (filter (wanted env ?q) (emails_in f a (mb_id m)))"
    using listed_messages_mset [of env f a "mb_id m" ?q] by (rule mset_eq_length)
  then have small: "length ?es \<le> u32_max"
    using assms(4) length_filter_le [of "wanted env ?q" "emails_in f a (mb_id m)"] by linarith
  have "follow (Suc (length ?es)) (serve_listing env f me_path a hs) (?url folder, raw) =
      Some (map (\<lambda>e. message_value_for env e (mb_id m) (expand_parse (oq_expand ?q))) (drop 0 ?es))"
  proof (rule follow_paged)
    have listing: "list_messages env f me_path a x hs raw' =
        paged hs ?path raw' messages_metadata messages_default_top messages_max_top
          (\<lambda>e. message_value_for env e (mb_id m) (expand_parse (oq_expand ?q))) ?es"
      if "forget (odata_parse raw') = forget ?q" and "map_option mb_id (graph_folder f x a) = Some (mb_id m)"
        and "x = folder \<or> x = mb_id m" for raw' x
      using assms(1,7) that(2,3) listed_messages_query [OF that(1)] forget_eq(3) [OF that(1)]
      by (auto simp: list_messages_def with_override_def Let_def)
    fix raw'
    assume q: "forget (odata_parse raw') = forget ?q"
    show "serve_listing env f me_path a hs (?url folder, raw') =
        paged hs ?path raw' messages_metadata messages_default_top messages_max_top
          (\<lambda>e. message_value_for env e (mb_id m) (expand_parse (oq_expand ?q))) ?es"
      using listing [OF q, of folder] assms(2) by (simp add: serve_listing_folder)
    have "serve_listing env f me_path a hs (?url (mb_id m), raw') =
        paged hs ?path raw' messages_metadata messages_default_top messages_max_top
          (\<lambda>e. message_value_for env e (mb_id m) (expand_parse (oq_expand ?q))) ?es"
      using listing [OF q, of "mb_id m"] graph_folder_id [OF assms(2)] by (simp add: serve_listing_folder)
    then show "serve_listing env f me_path a hs (''http://'' @ host_or_default hs @ ?path, raw') =
        paged hs ?path raw' messages_metadata messages_default_top messages_max_top
          (\<lambda>e. message_value_for env e (mb_id m) (expand_parse (oq_expand ?q))) ?es"
      by (simp add: listings_root_def)
  next
    show "CHR ''?'' \<notin> set ?path" "CHR ''?'' \<notin> set (host_or_default hs)"
      using assms(3) by (auto simp: base_path_def)
    show "query_offset ?q = Some 0" using assms(5,6) by (simp add: query_offset_def)
  qed (use small in simp_all)
  with listed_messages_mset listed_messages_sorted show ?thesis by (intro exI [of _ ?es]) simp
qed

definition sample_graph :: graph_env where
  "sample_graph = \<lparr>ge_show_ts = (\<lambda>t. ''ts''), ge_parse_ts = (\<lambda>s. None), ge_mail_parser = (\<lambda>s. None),
     ge_parse_json = (\<lambda>s. None), ge_header_ok = (\<lambda>s. True), ge_override = (\<lambda>c r. None),
     ge_render = sample_env, ge_epoch = 0, ge_now = 7\<rparr>"

lemma sample_emails_in: "map em_id (emails_in sample_inbox ''a'' ''mb'') = [''e1'', ''e2'']"
  by (simp add: emails_in_def emails_for_def sample_inbox_def sample_email_def)

lemma top_one:
  "odata_parse (Some (query_string [(''$top'', show_nat 1)])) = odata_default\<lparr>oq_top := Some 1\<rparr>"
proof -
  have "utf8_valid ''$top''" by (rule utf8_valid_ascii) simp
  then have "parse_query_pairs (query_string [(''$top'', show_nat 1)]) = [(''$top'', show_nat 1)]"
    by (intro parse_query_string) (simp_all add: ascii_valid_show_nat)
  then show ?thesis by (simp add: odata_parse_def query_field_def)
qed

theorem graph_listing_complete_witness:
  "\<exists>es. follow (Suc (length es)) (serve_listing sample_graph sample_inbox True ''a'' [])
        (listings_root [] True ''a'' @ ''mb/messages'', Some (query_string [(''$top'', show_nat 1)])) =
      Some (map (\<lambda>e. message_value_for sample_graph e ''mb'' (expand_parse None)) es) \<and>
    mset es = mset (emails_in sample_inbox ''a'' ''mb'')"
proof -
  let ?raw = "Some (query_string [(''$top'', show_nat 1)])"
  define m where "m = hd (mailboxes sample_inbox)"
  have m: "mb_id m = ''mb''" by (simp add: m_def sample_inbox_def)
  have "graph_folder sample_inbox ''mb'' ''a'' = Some m"
    by (simp add: graph_folder_def mailboxes_for_def m_def sample_inbox_def)
  moreover have "length (emails_in sample_inbox ''a'' ''mb'') \<le> u32_max"
    using arg_cong [OF sample_emails_in, of length] by simp
  moreover have "wanted sample_graph (odata_default\<lparr>oq_top := Some 1\<rparr>) e" for e
    by (simp add: wanted_def odata_default_def)
  ultimately show ?thesis
    using graph_listing_complete [of sample_graph "''mb''" sample_inbox "''a''" m "[]" ?raw True]
    unfolding top_one m by (auto simp: sample_graph_def host_or_default_def header_str_def odata_default_def)
qed

end
