(* ===== verification/Graph_Writes.thy ===== *)
theory Graph_Writes
  imports Graph_Mail Test_Knobs
begin

text \<open>
  The writes of the Graph mail surface and the single-message reads (\<open>src/graph/mail.rs\<close>): folders,
  flags, moves, deletions, extended properties, drafts and sending, and \<open>$batch\<close>, which runs the
  same cores on a list of sub-requests.
\<close>

subsection \<open>Folders\<close>

definition create_folder_core :: "string \<Rightarrow> string option \<Rightarrow> string \<Rightarrow> fixture \<Rightarrow> json \<times> fixture" where
  "create_folder_core a parent name f =
     (let m = \<lparr>mb_id = fresh_mailbox_id f, mb_account_id = a, mb_name = name, mb_role = None,
               mb_parent_id = parent, sort_order = None, is_subscribed = True\<rparr>;
          f1 = f\<lparr>mailboxes := mailboxes f @ [m]\<rparr>
      in (folder_value f1 m, snd (mutate (\<lambda>_. (diff_default\<lparr>mailbox_created := [mb_id m]\<rparr>, f1)) f)))"

definition is_folder :: "string \<Rightarrow> string \<Rightarrow> mailbox \<Rightarrow> bool" where
  "is_folder a i m \<longleftrightarrow> mb_account_id m = a \<and> mb_id m = i"

text \<open>The first mailbox with the account and id is changed; the projection is taken before the recording.\<close>

definition change_folder_core ::
    "string \<Rightarrow> string \<Rightarrow> (mailbox \<Rightarrow> mailbox) \<Rightarrow> fixture \<Rightarrow> json option \<times> fixture" where
  "change_folder_core a i change f =
     (case find (is_folder a i) (mailboxes f) of
        None \<Rightarrow> (None, snd (mutate (\<lambda>f. (diff_default, f)) f))
      | Some m \<Rightarrow>
          let f1 = f\<lparr>mailboxes := update_first (is_folder a i) change (mailboxes f)\<rparr>
          in (Some (folder_value f1 (change m)),
              snd (mutate (\<lambda>_. (diff_default\<lparr>mailbox_updated := [i]\<rparr>, f1)) f)))"

definition rename_folder_core :: "string \<Rightarrow> string \<Rightarrow> string \<Rightarrow> fixture \<Rightarrow> json option \<times> fixture" where
  "rename_folder_core a i name f = change_folder_core a i (\<lambda>m. m\<lparr>mb_name := name\<rparr>) f"

definition move_folder_core :: "string \<Rightarrow> string \<Rightarrow> string option \<Rightarrow> fixture \<Rightarrow> json option \<times> fixture" where
  "move_folder_core a i new_parent f = change_folder_core a i (\<lambda>m. m\<lparr>mb_parent_id := new_parent\<rparr>) f"

definition delete_folder_core :: "string \<Rightarrow> string \<Rightarrow> fixture \<Rightarrow> bool \<times> fixture" where
  "delete_folder_core a i f =
     (if \<not> list_ex (is_folder a i) (mailboxes f) then (False, f)
      else (True, snd (mutate (\<lambda>f.
        (diff_default\<lparr>mailbox_destroyed := [i], mailbox_destroyed_accounts := [a]\<rparr>,
         f\<lparr>mailboxes := filter (\<lambda>m. \<not> is_folder a i m) (mailboxes f)\<rparr>)) f)))"

definition body_str :: "string \<Rightarrow> json \<Rightarrow> string option" where
  "body_str k v = Option.bind (jget k v) as_str"

definition non_blank :: "string option \<Rightarrow> string option" where
  "non_blank v = (case v of Some s \<Rightarrow> if s = [] then None else Some s | None \<Rightarrow> None)"

definition create_folder ::
    "graph_env \<Rightarrow> string \<Rightarrow> string option \<Rightarrow> json \<Rightarrow> fixture \<Rightarrow> graph_response \<times> fixture" where
  "create_folder env a parent b f =
     with_override env ''create_folder'' [] (\<lambda>r. (r, f))
       (case non_blank (body_str ''displayName'' b) of
          None \<Rightarrow> (graph_error 400 ''ErrorInvalidRequest'' ''mailFolder create requires a non-empty displayName'', f)
        | Some name \<Rightarrow>
            (case parent of
               None \<Rightarrow> apfst (\<lambda>v. respond 201 (Json v)) (create_folder_core a None name f)
             | Some p \<Rightarrow>
                 (case graph_folder f p a of
                    None \<Rightarrow> (graph_error 404 ''ErrorItemNotFound'' (''parent mailFolder '' @ debug_str p @ '' not found''), f)
                  | Some m \<Rightarrow> apfst (\<lambda>v. respond 201 (Json v)) (create_folder_core a (Some (mb_id m)) name f))))"

definition projected_reply :: "json option \<times> fixture \<Rightarrow> graph_response \<times> fixture" where
  "projected_reply = apfst (\<lambda>v. case v of Some j \<Rightarrow> ok_json j
     | None \<Rightarrow> graph_error 404 ''ErrorItemNotFound'' ''mailFolder vanished'')"

definition rename_folder :: "graph_env \<Rightarrow> string \<Rightarrow> string \<Rightarrow> json \<Rightarrow> fixture \<Rightarrow> graph_response \<times> fixture" where
  "rename_folder env a folder b f =
     with_override env ''rename_folder'' [] (\<lambda>r. (r, f))
       (case body_str ''displayName'' b of
          None \<Rightarrow> (graph_error 400 ''ErrorInvalidRequest'' ''mailFolder rename requires a displayName'', f)
        | Some name \<Rightarrow>
            (case graph_folder f folder a of
               None \<Rightarrow> (folder_not_found folder, f)
             | Some m \<Rightarrow> projected_reply (rename_folder_core a (mb_id m) name f)))"

definition move_folder :: "graph_env \<Rightarrow> string \<Rightarrow> string \<Rightarrow> json \<Rightarrow> fixture \<Rightarrow> graph_response \<times> fixture" where
  "move_folder env a folder b f =
     with_override env ''move_folder'' [] (\<lambda>r. (r, f))
       (case non_blank (body_str ''destinationId'' b) of
          None \<Rightarrow> (graph_error 400 ''ErrorInvalidRequest'' ''move requires a non-empty destinationId'', f)
        | Some dest \<Rightarrow>
            let new_parent = (if eq_ci dest ''msgfolderroot'' then None else Some dest) in
            (case graph_folder f folder a of
               None \<Rightarrow> (folder_not_found folder, f)
             | Some m \<Rightarrow> projected_reply (move_folder_core a (mb_id m) new_parent f)))"

definition delete_folder :: "graph_env \<Rightarrow> string \<Rightarrow> string \<Rightarrow> fixture \<Rightarrow> graph_response \<times> fixture" where
  "delete_folder env a folder f =
     with_override env ''delete_folder'' [] (\<lambda>r. (r, f))
       (case graph_folder f folder a of
          None \<Rightarrow> (folder_not_found folder, f)
        | Some m \<Rightarrow> (respond 204 Empty, snd (delete_folder_core a (mb_id m) f)))"

subsection \<open>Reading one message\<close>

definition message_not_found :: "string \<Rightarrow> graph_response" where
  "message_not_found mid = graph_error 404 ''ErrorItemNotFound'' (''message '' @ debug_str mid @ '' not found'')"

definition get_message :: "graph_env \<Rightarrow> fixture \<Rightarrow> string \<Rightarrow> string \<Rightarrow> string option \<Rightarrow> graph_response" where
  "get_message env f a mid raw =
     with_override env ''get_message'' [(''message_id'', mid)] id
       (case message_get_value env f a mid (expand_parse (oq_expand (odata_parse raw))) of
          None \<Rightarrow> message_not_found mid
        | Some v \<Rightarrow>
            let etag = (case Option.bind (jget ''@odata.etag'' v) as_str of
                Some t \<Rightarrow> if ge_header_ok env t then Some t else None | None \<Rightarrow> None) in
            (ok_json (with_field ''@odata.context''
               (JString ''https://graph.microsoft.com/v1.0/$metadata#message/$entity'') v))\<lparr>gs_etag := etag\<rparr>)"

definition get_message_extended_properties ::
    "fixture \<Rightarrow> string \<Rightarrow> string \<Rightarrow> string option \<Rightarrow> graph_response" where
  "get_message_extended_properties f a mid raw =
     (case message_extended_properties_value f a mid (oq_filter (odata_parse raw)) of
        Some v \<Rightarrow> ok_json v
      | None \<Rightarrow> message_not_found mid)"

definition get_message_value :: "graph_env \<Rightarrow> fixture \<Rightarrow> string \<Rightarrow> string \<Rightarrow> graph_response" where
  "get_message_value env f a mid =
     with_override env ''get_message_value'' [(''message_id'', mid)] id
       (case find_email f a mid of
          None \<Rightarrow> message_not_found mid
        | Some e \<Rightarrow> respond 200 (Raw ''text/plain'' (assembled_rfc822 (ge_render env) e)))"

definition list_message_attachments :: "fixture \<Rightarrow> string \<Rightarrow> string \<Rightarrow> graph_response" where
  "list_message_attachments f a mid =
     (case find_email f a mid of
        None \<Rightarrow> graph_error 404 ''ResourceNotFound'' (''message '' @ debug_str mid @ '' not found'')
      | Some e \<Rightarrow> ok_json (collection_envelope
          (''$metadata#users('' @ [CHR 0x27] @ ''me'' @ [CHR 0x27] @ '')/messages('' @ [CHR 0x27] @ mid @ [CHR 0x27] @ '')/attachments'')
          (map (\<lambda>t. graph_attachment_value (em_id e) t True) (attachments e)) None None None))"

definition attachment_not_found :: "string \<Rightarrow> string \<Rightarrow> graph_response" where
  "attachment_not_found mid att = graph_error 404 ''ResourceNotFound''
     (''attachment '' @ debug_str att @ '' on message '' @ debug_str mid @ '' not found'')"

definition get_message_attachment :: "fixture \<Rightarrow> string \<Rightarrow> string \<Rightarrow> string \<Rightarrow> graph_response" where
  "get_message_attachment f a mid att =
     (case find_email_with_attachment f a mid att of
        None \<Rightarrow> attachment_not_found mid att
      | Some (e, t) \<Rightarrow> ok_json (graph_attachment_value (em_id e) t True))"

definition get_message_attachment_value :: "fixture \<Rightarrow> string \<Rightarrow> string \<Rightarrow> string \<Rightarrow> graph_response" where
  "get_message_attachment_value f a mid att =
     (case find_email_with_attachment f a mid att of
        None \<Rightarrow> attachment_not_found mid att
      | Some (e, t) \<Rightarrow> respond 200 (Raw (at_content_type t) (at_data t)))"

subsection \<open>Message writes\<close>

datatype write_outcome = Applied "json option" | NotFound | PreconditionFailed

definition write_outcome_response :: "write_outcome \<Rightarrow> string \<Rightarrow> nat \<Rightarrow> graph_response" where
  "write_outcome_response out mid success_status =
     (case out of
        Applied (Some v) \<Rightarrow> respond success_status (Json v)
      | Applied None \<Rightarrow> respond 204 Empty
      | NotFound \<Rightarrow> message_not_found mid
      | PreconditionFailed \<Rightarrow> graph_error 412 ''ErrorPreconditionFailed''
          (''If-Match precondition failed for message '' @ debug_str mid))"

definition if_match_header :: "headers \<Rightarrow> string option" where
  "if_match_header hs = header_str hs ''if-match''"

definition if_match_json :: "json option \<Rightarrow> string option" where
  "if_match_json hs = Option.bind (Option.bind hs as_object) (\<lambda>kvs.
     Option.bind (find (\<lambda>kv. eq_ci (fst kv) ''if-match'') kvs) (\<lambda>kv. as_str (snd kv)))"

text \<open>\<open>Some\<close> an outcome stops the caller, \<open>None\<close> lets it proceed.\<close>

definition check_if_match :: "fixture \<Rightarrow> string \<Rightarrow> string \<Rightarrow> string option \<Rightarrow> write_outcome option" where
  "check_if_match f a mid if_match =
     (if find_email f a mid = None then Some NotFound
      else case if_match of
        Some r \<Rightarrow> if trim r \<noteq> ''*'' \<and> trim r \<noteq> email_etag mid then Some PreconditionFailed else None
      | None \<Rightarrow> None)"

definition set_keyword :: "string \<Rightarrow> bool \<Rightarrow> string list \<Rightarrow> string list" where
  "set_keyword kw present ks =
     (if present \<and> kw \<notin> set ks then ks @ [kw]
      else if \<not> present \<and> kw \<in> set ks then filter (\<lambda>k. k \<noteq> kw) ks else ks)"

definition set_categories :: "json list \<Rightarrow> string list \<Rightarrow> string list" where
  "set_categories cats ks =
     fold (\<lambda>c ks. case as_str c of Some s \<Rightarrow> if s \<in> set ks then ks else ks @ [s] | None \<Rightarrow> ks)
       cats (filter (prefix ''$'') ks)"

definition patched_keywords :: "json \<Rightarrow> string list \<Rightarrow> string list" where
  "patched_keywords b ks =
     (let ks1 = (case Option.bind (jget ''isRead'' b) as_bool of
                   Some r \<Rightarrow> set_keyword ''$seen'' r ks | None \<Rightarrow> ks);
          ks2 = (case Option.bind (Option.bind (jget ''flag'' b) (jget ''flagStatus'')) as_str of
                   Some st \<Rightarrow> set_keyword ''$flagged'' (eq_ci st ''flagged'') ks1 | None \<Rightarrow> ks1)
      in (case Option.bind (jget ''categories'' b) as_array of
            Some cats \<Rightarrow> set_categories cats ks2 | None \<Rightarrow> ks2))"

definition apply_graph_message_patch :: "json \<Rightarrow> email \<Rightarrow> email" where
  "apply_graph_message_patch b e = e\<lparr>em_keywords := patched_keywords b (em_keywords e)\<rparr>"

definition is_message :: "string \<Rightarrow> string \<Rightarrow> email \<Rightarrow> bool" where
  "is_message a i e \<longleftrightarrow> em_account_id e = a \<and> em_id e = i"

definition patch_message_core ::
    "graph_env \<Rightarrow> string \<Rightarrow> string \<Rightarrow> json \<Rightarrow> string option \<Rightarrow> fixture \<Rightarrow> write_outcome \<times> fixture" where
  "patch_message_core env a mid b if_match f =
     (case check_if_match f a mid if_match of
        Some out \<Rightarrow> (out, f)
      | None \<Rightarrow>
          (case find (is_message a mid) (emails f) of
             None \<Rightarrow> (Applied None, snd (mutate (\<lambda>f. (diff_default, f)) f))
           | Some e0 \<Rightarrow>
               let e = apply_graph_message_patch b e0 in
               (Applied (Some (message_value env e (first_mailbox e) expand_default (email_etag mid))),
                snd (mutate (\<lambda>f. (diff_default\<lparr>email_updated := [mid]\<rparr>,
                  f\<lparr>emails := update_first (is_message a mid) (\<lambda>_. e) (emails f)\<rparr>)) f))))"

definition delete_message_core ::
    "string \<Rightarrow> string \<Rightarrow> string option \<Rightarrow> fixture \<Rightarrow> write_outcome \<times> fixture" where
  "delete_message_core a mid if_match f =
     (case check_if_match f a mid if_match of
        Some out \<Rightarrow> (out, f)
      | None \<Rightarrow>
          (case find (is_message a mid) (emails f) of
             None \<Rightarrow> (NotFound, f)
           | Some e \<Rightarrow>
               (Applied None, snd (mutate (\<lambda>f.
                 (diff_default\<lparr>email_destroyed := [mid], email_destroyed_accounts := [em_account_id e]\<rparr>,
                  fold (\<lambda>mb. retire_uid mb mid) (mailbox_ids e)
                    (f\<lparr>emails := filter (\<lambda>e. \<not> is_message a mid e) (emails f)\<rparr>))) f))))"

definition delete_extended_property_core ::
    "string \<Rightarrow> string \<Rightarrow> string \<Rightarrow> fixture \<Rightarrow> write_outcome \<times> fixture" where
  "delete_extended_property_core a mid property_id f =
     (let target = svep_selection (Some property_id) in
      case find_email f a mid of
        None \<Rightarrow> (NotFound, f)
      | Some e \<Rightarrow>
          let clear_owner = (ex_owner_reaction_type target \<and> reaction_type e \<noteq> None);
              clear_count = (ex_reactions_count target \<and> reaction_count e \<noteq> None)
          in if \<not> clear_owner \<and> \<not> clear_count then (NotFound, f)
             else (Applied None, snd (mutate (\<lambda>f.
               (if list_ex (is_message a mid) (emails f)
                then (diff_default\<lparr>email_updated := [mid]\<rparr>,
                  f\<lparr>emails := update_first (is_message a mid)
                      (\<lambda>e. e\<lparr>reaction_type := (if clear_owner then None else reaction_type e),
                             reaction_count := (if clear_count then None else reaction_count e)\<rparr>)
                      (emails f)\<rparr>)
                else (diff_default, f))) f)))"

definition move_message_core ::
    "graph_env \<Rightarrow> string \<Rightarrow> string \<Rightarrow> string \<Rightarrow> string option \<Rightarrow> fixture \<Rightarrow> write_outcome \<times> fixture" where
  "move_message_core env a mid dest if_match f =
     (case check_if_match f a mid if_match of
        Some out \<Rightarrow> (out, f)
      | None \<Rightarrow>
          (case find (is_message a mid) (emails f) of
             None \<Rightarrow> (Applied None, snd (mutate (\<lambda>f. (diff_default, f)) f))
           | Some e0 \<Rightarrow>
               let e = e0\<lparr>mailbox_ids := [dest]\<rparr> in
               (Applied (Some (message_value env e dest expand_default (email_etag mid))),
                snd (mutate (\<lambda>f. (diff_default\<lparr>email_updated := [mid]\<rparr>,
                  sync_mailbox_uids mid (mailbox_ids e0) [dest]
                    (f\<lparr>emails := update_first (is_message a mid) (\<lambda>_. e) (emails f)\<rparr>))) f))))"

fun deferred_send_prop :: "json list \<Rightarrow> string option" where
  "deferred_send_prop [] = None"
| "deferred_send_prop (p # ps) =
     (if contains_sub ''0x3fef'' (to_lower (case body_str ''id'' p of Some i \<Rightarrow> i | None \<Rightarrow> []))
      then body_str ''value'' p else deferred_send_prop ps)"

definition deferred_send_time :: "json \<Rightarrow> string option" where
  "deferred_send_time b =
     Option.bind (Option.bind (jget ''singleValueExtendedProperties'' b) as_array) deferred_send_prop"

definition patch_message ::
    "graph_env \<Rightarrow> string \<Rightarrow> string \<Rightarrow> string option \<Rightarrow> json \<Rightarrow> fixture \<times> request_entry list \<Rightarrow>
     graph_response \<times> fixture \<times> request_entry list" where
  "patch_message env a mid if_match b w =
     (let (f, log) = w in
      with_override env ''patch_message'' [(''message_id'', mid)] (\<lambda>r. (r, f, log))
        (let log' = (case deferred_send_time b of
               Some hold \<Rightarrow> record_with_conn (ge_now env) ''graph'' ''deferred-send''
                 (jobj [(''message_id'', JString mid), (''hold_until'', JString hold)]) None log
             | None \<Rightarrow> log);
             (out, f') = patch_message_core env a mid b if_match f
         in (write_outcome_response out mid 200, f', log')))"

definition delete_message ::
    "graph_env \<Rightarrow> string \<Rightarrow> string \<Rightarrow> string option \<Rightarrow> fixture \<Rightarrow> graph_response \<times> fixture" where
  "delete_message env a mid if_match f =
     with_override env ''delete_message'' [(''message_id'', mid)] (\<lambda>r. (r, f))
       (apfst (\<lambda>out. write_outcome_response out mid 204) (delete_message_core a mid if_match f))"

definition delete_message_extended_property ::
    "string \<Rightarrow> string \<Rightarrow> string \<Rightarrow> fixture \<Rightarrow> graph_response \<times> fixture" where
  "delete_message_extended_property a mid property_id f =
     apfst (\<lambda>out. write_outcome_response out mid 204) (delete_extended_property_core a mid property_id f)"

definition move_message ::
    "graph_env \<Rightarrow> string \<Rightarrow> string \<Rightarrow> string option \<Rightarrow> json \<Rightarrow> fixture \<Rightarrow> graph_response \<times> fixture" where
  "move_message env a mid if_match b f =
     with_override env ''move_message'' [(''message_id'', mid)] (\<lambda>r. (r, f))
       (case non_blank (body_str ''destinationId'' b) of
          None \<Rightarrow> (graph_error 400 ''ErrorInvalidRequest'' ''move requires a non-empty destinationId'', f)
        | Some dest \<Rightarrow>
            apfst (\<lambda>out. write_outcome_response out mid 201) (move_message_core env a mid dest if_match f))"

subsection \<open>Drafts and sending\<close>

definition parse_graph_recipient :: "json option \<Rightarrow> address option" where
  "parse_graph_recipient v = Option.bind (Option.bind v (jget ''emailAddress'')) (\<lambda>ea.
     map_option (\<lambda>addr. \<lparr>ad_name = body_str ''name'' ea, ad_email = addr\<rparr>) (body_str ''address'' ea))"

definition parse_graph_recipients :: "json option \<Rightarrow> address list" where
  "parse_graph_recipients v = (case Option.bind v as_array of
      Some xs \<Rightarrow> List.map_filter (\<lambda>r. parse_graph_recipient (Some r)) xs | None \<Rightarrow> [])"

text \<open>The newest instant in the fixture, or the fixed one.\<close>

definition newest_received :: "graph_env \<Rightarrow> fixture \<Rightarrow> timestamp" where
  "newest_received env f = (case map received_at (emails f) of
      [] \<Rightarrow> ge_epoch env | t # ts \<Rightarrow> fold max ts t)"

definition file_draft :: "graph_env \<Rightarrow> string \<Rightarrow> (string \<Rightarrow> timestamp \<Rightarrow> email) \<Rightarrow> fixture \<Rightarrow> json \<times> fixture" where
  "file_draft env folder draft f =
     (let (i, f1) = mint_email_id f;
          e = draft i (newest_received env f1);
          f2 = snd (assign_uid folder i (f1\<lparr>emails := emails f1 @ [e]\<rparr>))
      in (message_value env e folder expand_default (email_etag i),
          snd (mutate (\<lambda>_. (diff_default\<lparr>email_created := [i]\<rparr>, f2)) f)))"

definition create_draft_core :: "graph_env \<Rightarrow> string \<Rightarrow> string \<Rightarrow> json \<Rightarrow> fixture \<Rightarrow> json \<times> fixture" where
  "create_draft_core env a folder b f =
     (let content = (case Option.bind (jget ''body'' b) (body_str ''content'') of Some t \<Rightarrow> t | None \<Rightarrow> [])
      in file_draft env folder (\<lambda>i received.
        \<lparr>em_id = i, em_account_id = a, em_thread_id = i, mailbox_ids = [folder], em_keywords = [''$draft''],
         em_size = int (length content), received_at = received, sent_at = received,
         em_from = parse_graph_recipient (jget ''from'' b),
         em_to = parse_graph_recipients (jget ''toRecipients'' b),
         em_cc = parse_graph_recipients (jget ''ccRecipients'' b),
         em_bcc = parse_graph_recipients (jget ''bccRecipients'' b), reply_to = [],
         em_subject = body_str ''subject'' b, em_preview = None, message_id = [], in_reply_to = [],
         em_references = [], has_attachment = False, em_body = Text content, attachments = [],
         raw_bytes = None, reaction_type = None, reaction_count = None\<rparr>) f)"

definition create_draft_mime_core :: "graph_env \<Rightarrow> string \<Rightarrow> string \<Rightarrow> string \<Rightarrow> fixture \<Rightarrow> json \<times> fixture" where
  "create_draft_mime_core env a folder raw f =
     (let parsed = ge_mail_parser env raw
      in file_draft env folder (\<lambda>i received.
        \<lparr>em_id = i, em_account_id = a, em_thread_id = i, mailbox_ids = [folder], em_keywords = [''$draft''],
         em_size = int (length raw), received_at = received, sent_at = received,
         em_from = Option.bind parsed pm_from,
         em_to = (case Option.bind parsed pm_to of Some t \<Rightarrow> [t] | None \<Rightarrow> []),
         em_cc = [], em_bcc = [], reply_to = [],
         em_subject = Option.bind parsed pm_subject, em_preview = None,
         message_id = (case Option.bind parsed pm_message_id of Some t \<Rightarrow> [t] | None \<Rightarrow> []),
         in_reply_to = [], em_references = [], has_attachment = False,
         em_body = Text (case Option.bind parsed pm_body_text of Some t \<Rightarrow> t | None \<Rightarrow> []),
         attachments = [], raw_bytes = Some (utf8_lossy raw), reaction_type = None,
         reaction_count = None\<rparr>) f)"

definition drafts_folder :: "fixture \<Rightarrow> string \<Rightarrow> mailbox option" where
  "drafts_folder f a = (case find (\<lambda>m. mb_role m = Some Drafts) (mailboxes_for f a) of
      Some m \<Rightarrow> Some m
    | None \<Rightarrow> (case mailboxes_for f a of m # _ \<Rightarrow> Some m | [] \<Rightarrow> None))"

definition create_draft ::
    "graph_env \<Rightarrow> string \<Rightarrow> headers \<Rightarrow> string \<Rightarrow> fixture \<Rightarrow> graph_response \<times> fixture" where
  "create_draft env a hs b f =
     with_override env ''create_draft'' [] (\<lambda>r. (r, f))
       (case drafts_folder f a of
          None \<Rightarrow> (graph_error 404 ''ErrorItemNotFound'' ''account has no mailbox to hold the draft'', f)
        | Some m \<Rightarrow>
            if (case header_str hs ''content-type'' of
                  Some ct \<Rightarrow> prefix ''text/plain'' (to_lower (trim ct)) | None \<Rightarrow> False)
            then
              (if \<not> utf8_valid b then (graph_error 400 ''InvalidRequest'' ''raw MIME draft body is not UTF-8'', f)
               else case decode_base64url_no_pad b of
                 None \<Rightarrow> (graph_error 400 ''InvalidRequest'' ''raw MIME draft body is not valid base64'', f)
               | Some raw \<Rightarrow>
                   apfst (\<lambda>v. respond 201 (Json v)) (create_draft_mime_core env a (mb_id m) raw f))
            else case ge_parse_json env b of
              None \<Rightarrow> (graph_error 400 ''InvalidRequest'' ''draft body is not valid JSON'', f)
            | Some v \<Rightarrow> apfst (\<lambda>v. respond 201 (Json v)) (create_draft_core env a (mb_id m) v f))"

text \<open>Sending moves the draft to the Sent mailbox, where there is one, and drops \<open>$draft\<close> after the recording.\<close>

definition send_message :: "graph_env \<Rightarrow> string \<Rightarrow> string \<Rightarrow> fixture \<Rightarrow> graph_response \<times> fixture" where
  "send_message env a mid f =
     with_override env ''send_message'' [(''message_id'', mid)] (\<lambda>r. (r, f))
       (if find_email f a mid = None then (message_not_found mid, f)
        else (respond 202 Empty,
          case find (\<lambda>m. mb_role m = Some Sent) (mailboxes_for f a) of
            None \<Rightarrow> f
          | Some m \<Rightarrow>
              let f1 = snd (move_message_core env a mid (mb_id m) None f) in
              f1\<lparr>emails := update_first (is_message a mid)
                   (\<lambda>e. e\<lparr>em_keywords := filter (\<lambda>k. k \<noteq> ''$draft'') (em_keywords e)\<rparr>) (emails f1)\<rparr>))"

subsection \<open>Batches\<close>

definition batch_write_outcome :: "write_outcome \<Rightarrow> string \<Rightarrow> nat \<Rightarrow> nat \<times> json" where
  "batch_write_outcome out mid success_status =
     (case out of
        Applied (Some v) \<Rightarrow> (success_status, v)
      | Applied None \<Rightarrow> (204, JNull)
      | NotFound \<Rightarrow> (404, graph_error_value ''ErrorItemNotFound'' (''message '' @ debug_str mid @ '' not found''))
      | PreconditionFailed \<Rightarrow> (412, graph_error_value ''ErrorPreconditionFailed''
          (''If-Match precondition failed for message '' @ debug_str mid)))"

definition batch_segments :: "string \<Rightarrow> string list" where
  "batch_segments url =
     (let path = (case split_once CHR ''?'' url of Some (p, _) \<Rightarrow> p | None \<Rightarrow> url);
          path = (case strip_prefix ''/v1.0'' path of Some p \<Rightarrow> p | None \<Rightarrow> path)
      in map decode_path_segment (split_on CHR ''/'' (dropWhile ((=) CHR ''/'') path)))"

text \<open>The account, the message id and the rest of the path; \<open>Inl\<close> the error answered instead.\<close>

definition batch_target ::
    "fixture \<Rightarrow> nat \<times> json \<Rightarrow> string list \<Rightarrow> (nat \<times> json) + (string \<times> string \<times> string list)" where
  "batch_target f not_implemented segs =
     (case segs of
        x # y # z # rest \<Rightarrow>
          if x = ''me'' \<and> y = ''messages'' then Inr (primary_id f, z, rest)
          else if x = ''users'' \<and> z = ''messages'' then
            (case rest of
               [] \<Rightarrow> Inl not_implemented
             | mid # sfx \<Rightarrow>
                 if y = ''me'' then Inr (primary_id f, mid, sfx)
                 else case find_account f y of
                   Some a \<Rightarrow> Inr (ac_id a, mid, sfx)
                 | None \<Rightarrow> Inl (404, graph_error_value ''ResourceNotFound'' (''user '' @ debug_str y @ '' not found'')))
          else Inl not_implemented
      | _ \<Rightarrow> Inl not_implemented)"

definition svep_property :: "string option \<Rightarrow> string option" where
  "svep_property sfx = non_blank (Option.bind (Option.bind sfx (strip_prefix svep)) (strip_prefix ''/''))"

definition batch_message_request ::
    "graph_env \<Rightarrow> string \<Rightarrow> string \<Rightarrow> string \<Rightarrow> string \<Rightarrow> string option \<Rightarrow> json option \<Rightarrow> string option \<Rightarrow>
     string option \<Rightarrow> fixture \<Rightarrow> (nat \<times> json) \<times> fixture" where
  "batch_message_request env verb url a mid query b if_match sfx f =
     (let missing = (404, graph_error_value ''ErrorItemNotFound'' (''message '' @ debug_str mid @ '' not found''));
          q = odata_parse query
      in case (if verb = ''DELETE'' then svep_property sfx else None) of
        Some pid \<Rightarrow> apfst (\<lambda>out. batch_write_outcome out mid 204) (delete_extended_property_core a mid pid f)
      | None \<Rightarrow>
          if verb = ''GET'' \<and> sfx = None then
            (case message_get_value env f a mid (expand_parse (oq_expand q)) of
               Some v \<Rightarrow> (200, v) | None \<Rightarrow> missing, f)
          else if verb = ''GET'' \<and> sfx = Some svep then
            (case message_extended_properties_value f a mid (oq_filter q) of
               Some v \<Rightarrow> (200, v) | None \<Rightarrow> missing, f)
          else if verb = ''PATCH'' \<and> sfx = None then
            apfst (\<lambda>out. batch_write_outcome out mid 200)
              (patch_message_core env a mid (case b of Some v \<Rightarrow> v | None \<Rightarrow> JNull) if_match f)
          else if verb = ''DELETE'' \<and> sfx = None then
            apfst (\<lambda>out. batch_write_outcome out mid 204) (delete_message_core a mid if_match f)
          else if verb = ''POST'' \<and> sfx = Some ''move'' then
            (case non_blank (Option.bind b (body_str ''destinationId'')) of
               None \<Rightarrow> ((400, graph_error_value ''ErrorInvalidRequest'' ''move requires a non-empty destinationId''), f)
             | Some dest \<Rightarrow>
                 apfst (\<lambda>out. batch_write_outcome out mid 201) (move_message_core env a mid dest if_match f))
          else ((501, graph_error_value ''ResourceNotImplemented''
                  (''v0 $batch does not implement '' @ verb @ '' '' @ url)), f))"

definition dispatch_batch_request ::
    "graph_env \<Rightarrow> string \<Rightarrow> string \<Rightarrow> json option \<Rightarrow> json option \<Rightarrow> fixture \<Rightarrow> (nat \<times> json) \<times> fixture" where
  "dispatch_batch_request env verb url b hs f =
     (let not_implemented = (404, graph_error_value ''ResourceNotImplemented''
            (''v0 $batch does not implement '' @ verb @ '' '' @ url));
          query = map_option snd (split_once CHR ''?'' url)
      in case batch_target f not_implemented (batch_segments url) of
        Inl e \<Rightarrow> (e, f)
      | Inr (a, mid, rest) \<Rightarrow>
          if mid = [] then (not_implemented, f)
          else batch_message_request env verb url a mid query b (if_match_json hs)
                 (if rest = [] then None else Some (join ''/'' rest)) f)"

definition batch_sub_response :: "graph_env \<Rightarrow> json \<Rightarrow> fixture \<Rightarrow> json \<times> fixture" where
  "batch_sub_response env req f =
     (let i = (case body_str ''id'' req of Some s \<Rightarrow> s | None \<Rightarrow> []);
          verb = to_upper (case body_str ''method'' req of Some s \<Rightarrow> s | None \<Rightarrow> ''GET'');
          url = (case body_str ''url'' req of Some s \<Rightarrow> s | None \<Rightarrow> []);
          ((st, b), f') = dispatch_batch_request env verb url (jget ''body'' req) (jget ''headers'' req) f
      in (jobj [(''id'', JString i), (''status'', jnat st),
                (''headers'', jobj [(''Content-Type'', JString ''application/json'')]), (''body'', b)], f'))"

fun batch_loop :: "graph_env \<Rightarrow> json list \<Rightarrow> fixture \<Rightarrow> json list \<times> fixture" where
  "batch_loop env [] f = ([], f)"
| "batch_loop env (r # rs) f =
     (let (v, f1) = batch_sub_response env r f; (vs, f2) = batch_loop env rs f1 in (v # vs, f2))"

definition batch :: "graph_env \<Rightarrow> json \<Rightarrow> fixture \<Rightarrow> graph_response \<times> fixture" where
  "batch env b f =
     apfst (\<lambda>vs. ok_json (jobj [(''responses'', JArray vs)]))
       (batch_loop env (case Option.bind (jget ''requests'' b) as_array of Some rs \<Rightarrow> rs | None \<Rightarrow> []) f)"

end
