(* ===== verification/Graph_Props.thy ===== *)
theory Graph_Props
  imports Graph_Paging Graph_Writes Imap_Tree
begin

text \<open>
  What the writes of the Graph mail surface do to the fixture the other protocols read: a move and the
  folders that list the message afterwards, a folder filed below itself and the IMAP listings, and a
  write inside \<open>$batch\<close> against the same write sent directly.
\<close>

subsection \<open>Moves\<close>

lemma sync_history:
  assumes "distinct olds"
  shows "uid_history (sync_mailbox_uids i olds [d] f) mb =
    (if mb = d \<and> d \<notin> set olds then uid_history f d @ [Some i]
     else if mb \<in> set olds \<and> mb \<noteq> d then retire_slot i (uid_history f mb) else uid_history f mb)"
proof -
  let ?f1 = "fold (\<lambda>m f. if m \<notin> set [d] then retire_uid m i f else f) olds f"
  have retired: "uid_history ?f1 mb =
      (if mb \<in> set olds \<and> mb \<notin> set [d] then retire_slot i (uid_history f mb) else uid_history f mb)"
    by (rule fold_retire_history [OF assms])
  have "uid_history (sync_mailbox_uids i olds [d] f) mb =
      (if mb \<in> set [d] \<and> mb \<notin> set olds then uid_history ?f1 mb @ [Some i] else uid_history ?f1 mb)"
    unfolding sync_mailbox_uids_def Let_def by (rule fold_assign_history) simp
  then show ?thesis unfolding retired by (cases "mb = d") (auto split: if_split)
qed

text \<open>A message the ids single out, and the first one a handler finds.\<close>

lemma find_is_message:
  assumes "distinct (map em_id (emails f))" and "e \<in> set (emails f)" and "is_message a i e"
  shows "find (is_message a i) (emails f) = Some e"
    and "update_first (is_message a i) g (emails f) = map (\<lambda>x. if em_id x = i then g x else x) (emails f)"
    and "find_email f a i = Some e"
proof -
  have only: "is_message a i x \<longleftrightarrow> em_id x = i" if "x \<in> set (emails f)" for x
    using assms that by (auto simp: is_message_def distinct_map inj_on_def)
  have one: "find P xs = Some e" if "distinct (map em_id xs)" "e \<in> set xs" "\<forall>x \<in> set xs. P x \<longleftrightarrow> em_id x = i" for P xs
    using that assms(3) by (induction xs) (auto simp: is_message_def)
  show "find (is_message a i) (emails f) = Some e"
    using assms only by (intro one) simp_all
  have "find (\<lambda>e. em_id e = i) (emails_for f a) = Some e"
    using assms by (intro one) (auto simp: emails_for_def is_message_def distinct_map_filter)
  then show "find_email f a i = Some e" by (simp add: find_email_def)
  have "update_first (is_message a i) g xs = map (\<lambda>x. if em_id x = i then g x else x) xs"
    if "distinct (map em_id xs)" "\<forall>x \<in> set xs. is_message a i x \<longleftrightarrow> em_id x = i" for xs
    using that
  proof (induction xs)
    case (Cons x xs)
    have "em_id y \<noteq> i" if "em_id x = i" "y \<in> set xs" for y
      using Cons.prems(1) imageI [OF that(2), of em_id] that(1) by auto
    then have "(if em_id y = i then g y else y) = y" if "em_id x = i" "y \<in> set xs" for y
      using that by simp
    then show ?case using Cons by (auto intro!: map_idI [symmetric])
  qed simp
  then show "update_first (is_message a i) g (emails f) = map (\<lambda>x. if em_id x = i then g x else x) (emails f)"
    using assms(1) only by simp
qed

definition moved_to :: "string \<Rightarrow> string \<Rightarrow> email \<Rightarrow> email" where
  "moved_to i d e = (if em_id e = i then e\<lparr>mailbox_ids := [d]\<rparr> else e)"

lemma move_message_effect:
  assumes "distinct (map em_id (emails f))" and "e \<in> set (emails f)" and "is_message a mid e"
    and "ge_override env ''move_message'' [(''message_id'', mid)] = None"
    and "body_str ''destinationId'' b = Some dest" and "dest \<noteq> []"
    and "if_match = None \<or> if_match = Some ''*''" and "distinct (mailbox_ids e)"
  shows "gs_status (fst (move_message env a mid if_match b f)) = 201"
    and "emails (snd (move_message env a mid if_match b f)) = map (moved_to mid dest) (emails f)"
    and "mailboxes (snd (move_message env a mid if_match b f)) = mailboxes f"
    and "uid_history (snd (move_message env a mid if_match b f)) mb =
      (if mb = dest \<and> dest \<notin> set (mailbox_ids e) then uid_history f dest @ [Some mid]
       else if mb \<in> set (mailbox_ids e) \<and> mb \<noteq> dest then retire_slot mid (uid_history f mb)
       else uid_history f mb)"
proof -
  have plain: "trim ''*'' = ''*''" by (rule trim_graphic) (simp add: graphic_def)
  have pass: "check_if_match f a mid if_match = None"
    using assms(7) find_is_message(3) [OF assms(1-3)] by (auto simp: check_if_match_def plain)
  have sent: "non_blank (body_str ''destinationId'' b) = Some dest"
    using assms(5,6) by (simp add: non_blank_def)
  note run = move_message_def move_message_core_def with_override_def assms(4) sent pass
    find_is_message(1) [OF assms(1-3)] Let_def
  show "gs_status (fst (move_message env a mid if_match b f)) = 201"
    by (simp add: run write_outcome_response_def respond_def)
  have "map (\<lambda>x. if em_id x = mid then e\<lparr>mailbox_ids := [dest]\<rparr> else x) (emails f) = map (moved_to mid dest) (emails f)"
    using assms(1-3) by (auto simp: moved_to_def is_message_def distinct_map inj_on_def)
  then show "emails (snd (move_message env a mid if_match b f)) = map (moved_to mid dest) (emails f)"
    by (simp add: run find_is_message(2) [OF assms(1-3)])
  show "mailboxes (snd (move_message env a mid if_match b f)) = mailboxes f"
    by (simp add: run)
  show "uid_history (snd (move_message env a mid if_match b f)) mb =
      (if mb = dest \<and> dest \<notin> set (mailbox_ids e) then uid_history f dest @ [Some mid]
       else if mb \<in> set (mailbox_ids e) \<and> mb \<noteq> dest then retire_slot mid (uid_history f mb)
       else uid_history f mb)"
  proof -
    have "uid_history (snd (move_message env a mid if_match b f)) mb =
        uid_history (sync_mailbox_uids mid (mailbox_ids e) [dest] (f\<lparr>emails :=
          update_first (is_message a mid) (\<lambda>_. e\<lparr>mailbox_ids := [dest]\<rparr>) (emails f)\<rparr>)) mb"
      by (simp add: run)
    then show ?thesis unfolding sync_history [OF assms(8)] uid_history_emails .
  qed
qed

lemma emails_in_moved:
  assumes "emails f' = map (moved_to mid dest) (emails f)"
  shows "mid \<in> em_id ` set (emails_in f' a mb) \<longleftrightarrow>
      mb = dest \<and> (\<exists>e \<in> set (emails f). is_message a mid e)"
    and "j \<noteq> mid \<Longrightarrow> filter (\<lambda>e. em_id e = j) (emails_in f' a mb) = filter (\<lambda>e. em_id e = j) (emails_in f a mb)"
proof -
  show "mid \<in> em_id ` set (emails_in f' a mb) \<longleftrightarrow> mb = dest \<and> (\<exists>e \<in> set (emails f). is_message a mid e)"
  proof -
    have moved: "em_id (moved_to mid dest e) = em_id e" "em_account_id (moved_to mid dest e) = em_account_id e"
      "em_id e = mid \<Longrightarrow> mailbox_ids (moved_to mid dest e) = [dest]" for e
      by (simp_all add: moved_to_def)
    have "mid \<in> em_id ` set (emails_in f' a mb) \<longleftrightarrow> (\<exists>e \<in> set (emails f).
        em_id e = mid \<and> em_account_id e = a \<and> mb \<in> set (mailbox_ids (moved_to mid dest e)))"
      unfolding emails_in_def emails_for_def assms by (simp add: image_iff) (metis moved(1,2))
    also have "\<dots> \<longleftrightarrow> mb = dest \<and> (\<exists>e \<in> set (emails f). is_message a mid e)"
      unfolding is_message_def using moved(3) by auto
    finally show ?thesis .
  qed
  show "filter (\<lambda>e. em_id e = j) (emails_in f' a mb) = filter (\<lambda>e. em_id e = j) (emails_in f a mb)" if "j \<noteq> mid"
  proof -
    have "filter (\<lambda>e. em_id e = j) (filter P (filter Q (map (moved_to mid dest) xs))) =
        filter (\<lambda>e. em_id e = j) (filter P (filter Q xs))" for P Q xs
      using that by (induction xs) (auto simp: moved_to_def)
    then show ?thesis by (simp add: emails_in_def emails_for_def assms)
  qed
qed

text \<open>
  C23. A Graph move is exact. Moving a message to an existing folder it is not yet in answers 201 and leaves the message
  in that folder and in no other; every other message is listed where it was; and the UID of the
  message is the next one of the destination, its slots elsewhere are retired and no other slot of
  any folder changes.
\<close>

theorem graph_move_message_exact:
  assumes "distinct (map em_id (emails f))" and "e \<in> set (emails f)" and "is_message a mid e"
    and "ge_override env ''move_message'' [(''message_id'', mid)] = None"
    and "body_str ''destinationId'' b = Some (mb_id m)" and "mb_id m \<noteq> []" and "m \<in> set (mailboxes_for f a)"
    and "if_match = None \<or> if_match = Some ''*''" and "distinct (mailbox_ids e)" and "mb_id m \<notin> set (mailbox_ids e)"
    and "move_message env a mid if_match b f = (r, f')"
  shows "gs_status r = 201 \<and>
    (\<forall>x \<in> set (mailboxes_for f' a). mid \<in> em_id ` set (emails_in f' a (mb_id x)) \<longleftrightarrow> mb_id x = mb_id m) \<and>
    (\<forall>j mb. j \<noteq> mid \<longrightarrow>
      filter (\<lambda>e. em_id e = j) (emails_in f' a mb) = filter (\<lambda>e. em_id e = j) (emails_in f a mb)) \<and>
    uid_history f' (mb_id m) = uid_history f (mb_id m) @ [Some mid] \<and>
    (\<forall>mb. mb \<noteq> mb_id m \<longrightarrow> uid_history f' mb =
      (if mb \<in> set (mailbox_ids e) then retire_slot mid (uid_history f mb) else uid_history f mb))"
proof -
  note moved = move_message_effect [OF assms(1-4) assms(5,6,8,9), unfolded assms(11), simplified]
  show ?thesis
    using emails_in_moved [OF moved(2)] moved(1,4) assms(2,3,10) by auto
qed

text \<open>
  A well-known name is no destination. The folders of a URL may be named by \<open>inbox\<close>, \<open>archive\<close> and the
  other well-known names, but the body of a move is taken literally: a move to such a name answers
  201, and afterwards no folder of the account lists the message, the named one included.
\<close>

theorem graph_move_strands:
  assumes "distinct (map em_id (emails f))" and "e \<in> set (emails f)" and "is_message a mid e"
    and "ge_override env ''move_message'' [(''message_id'', mid)] = None"
    and "body_str ''destinationId'' b = Some dest" and "dest \<noteq> []"
    and "graph_folder f dest a = Some m" and "mb_id m \<noteq> dest"
    and "if_match = None \<or> if_match = Some ''*''" and "distinct (mailbox_ids e)"
    and "move_message env a mid if_match b f = (r, f')"
  shows "gs_status r = 201 \<and> graph_folder f' dest a = Some m \<and>
    (\<forall>x \<in> set (mailboxes_for f' a). mid \<notin> em_id ` set (emails_in f' a (mb_id x)))"
proof -
  note moved = move_message_effect [OF assms(1-6) assms(9,10), unfolded assms(11), simplified]
  have same: "mailboxes_for f' a = mailboxes_for f a"
    by (simp add: mailboxes_for_def moved(3))
  have "find (\<lambda>m. mb_id m = dest) (mailboxes_for f a) = None"
    using assms(7,8) by (auto simp: graph_folder_def find_Some_iff split: option.splits)
  then have "\<forall>x \<in> set (mailboxes_for f a). mb_id x \<noteq> dest"
    by (simp add: find_None_iff)
  then show ?thesis
    using emails_in_moved(1) [OF moved(2)] moved(1) assms(7)
    by (simp add: same graph_folder_def cong: option.case_cong)
qed

subsection \<open>Folders\<close>

text \<open>
  A Graph folder can be filed below itself, and IMAP then never lists. Moving a folder that is not
  the Inbox to its own id answers 200; every later IMAP listing of the account follows the parents
  forever.
\<close>

theorem graph_folder_cycle_hangs_imap:
  assumes "m \<in> set (mailboxes_for f a)" and "mb_role m \<noteq> Some Inbox" and "mb_id m \<noteq> []"
    and "distinct (map mb_id (mailboxes f))" and "\<not> eq_ci (mb_id m) ''msgfolderroot''"
    and "ge_override env ''move_folder'' [] = None" and "body_str ''destinationId'' b = Some (mb_id m)"
    and "move_folder env a (mb_id m) b f = (r, f')"
  shows "gs_status r = 200 \<and> list_mailboxes f' a = None"
proof -
  let ?i = "mb_id m" and ?g = "\<lambda>x. if mb_id x = mb_id m then x\<lparr>mb_parent_id := Some (mb_id m)\<rparr> else x"
  have mf: "m \<in> set (mailboxes f)" "mb_account_id m = a"
    using assms(1) by (simp_all add: mailboxes_for_def)
  have only: "x = m" if "x \<in> set (mailboxes f)" "mb_id x = ?i" for x
    using assms(4) mf(1) that by (auto simp: distinct_map inj_on_def)
  have folder: "graph_folder f ?i a = Some m"
  proof -
    have "\<forall>x \<in> set (mailboxes_for f a). mb_id x = ?i \<longrightarrow> x = m"
      by (intro ballI impI only) (simp_all add: mailboxes_for_def)
    with assms(1) have "find (\<lambda>x. mb_id x = ?i) (mailboxes_for f a) = Some m"
      by (intro find_only) simp_all
    then show ?thesis by (simp add: graph_folder_def)
  qed
  have found: "find (is_folder a ?i) (mailboxes f) = Some m"
  proof (rule find_only [OF mf(1)])
    show "\<forall>x \<in> set (mailboxes f). is_folder a ?i x \<longrightarrow> x = m"
      by (intro ballI impI only) (simp_all add: is_folder_def)
  qed (simp add: is_folder_def mf(2))
  have "update_first (is_folder a ?i) (\<lambda>m. m\<lparr>mb_parent_id := Some ?i\<rparr>) (mailboxes f) =
      update_first (\<lambda>x. mb_id x = ?i) (\<lambda>m. m\<lparr>mb_parent_id := Some ?i\<rparr>) (mailboxes f)"
    by (rule update_first_cong) (metis only mf(2) is_folder_def)
  also have "\<dots> = map ?g (mailboxes f)"
    by (rule update_first_distinct [OF assms(4)])
  finally have boxes: "update_first (is_folder a ?i) (\<lambda>m. m\<lparr>mb_parent_id := Some ?i\<rparr>) (mailboxes f) = map ?g (mailboxes f)" .
  have status: "gs_status r = 200" and after: "mailboxes f' = map ?g (mailboxes f)"
    using assms(3,5-8) folder found boxes
    by (auto simp: move_folder_def with_override_def non_blank_def move_folder_core_def
        change_folder_core_def projected_reply_def ok_json_def respond_def Let_def)
  have ids: "map mb_id (map ?g xs) = map mb_id xs" for xs
    by simp
  have listed: "mailboxes_for f' a = map ?g (mailboxes_for f a)"
    by (simp add: mailboxes_for_def after filter_map o_def if_distrib [of mb_account_id] cong: if_cong)
  have "list_mailboxes f' a = None"
  proof (rule list_mailboxes_self_parent [of "?g m"])
    show "?g m \<in> set (mailboxes_for f' a)" unfolding listed set_map using assms(1) by (rule imageI)
    show "distinct (map mb_id (mailboxes_for f' a))"
      unfolding listed ids using assms(4) by (simp add: mailboxes_for_def distinct_map_filter)
  qed (use assms(2) in simp_all)
  with status show ?thesis by simp
qed

subsection \<open>Witnesses\<close>

definition move_body :: "string \<Rightarrow> json" where
  "move_body dest = jobj [(''destinationId'', JString dest)]"

lemma move_body_str: "body_str ''destinationId'' (move_body dest) = Some dest"
  by (simp add: body_str_def move_body_def jget_jobj)

lemma sample_messages:
  "distinct (map em_id (emails sample_inbox))"
  "sample_email\<lparr>em_id := ''e2''\<rparr> \<in> set (emails sample_inbox)"
  "is_message ''a'' ''e2'' (sample_email\<lparr>em_id := ''e2''\<rparr>)"
  "distinct (mailbox_ids (sample_email\<lparr>em_id := ''e2''\<rparr>))"
  "mailbox_ids (sample_email\<lparr>em_id := ''e2''\<rparr>) = [''mb'']"
  by (simp_all add: sample_inbox_def sample_email_def is_message_def)

lemma sample_no_override: "ge_override sample_graph c r = None"
  by (simp add: sample_graph_def)

theorem graph_move_message_exact_witness:
  "gs_status (fst (move_message sample_graph ''a'' ''e2'' None (move_body ''arch'') sample_inbox)) = 201 \<and>
   uid_history (snd (move_message sample_graph ''a'' ''e2'' None (move_body ''arch'') sample_inbox)) ''arch'' = [Some ''e2'']"
proof -
  obtain r f' where run: "move_message sample_graph ''a'' ''e2'' None (move_body ''arch'') sample_inbox = (r, f')"
    by (cases "move_message sample_graph ''a'' ''e2'' None (move_body ''arch'') sample_inbox")
  define m where "m = mailboxes sample_inbox ! 1"
  have m: "m \<in> set (mailboxes_for sample_inbox ''a'')" "mb_id m = ''arch''"
    by (simp_all add: m_def sample_inbox_def mailboxes_for_def)
  show ?thesis
    using graph_move_message_exact [OF sample_messages(1-3) sample_no_override, of "move_body ''arch''" m None r f']
      move_body_str [of "''arch''"] m sample_messages(4,5) run
    by (simp add: sample_history)
qed

theorem graph_move_strands_witness:
  "gs_status (fst (move_message sample_graph ''a'' ''e2'' None (move_body ''inbox'') sample_inbox)) = 201 \<and>
   \<not> (\<exists>x \<in> set (mailboxes_for (snd (move_message sample_graph ''a'' ''e2'' None (move_body ''inbox'') sample_inbox)) ''a'').
       ''e2'' \<in> em_id ` set (emails_in (snd (move_message sample_graph ''a'' ''e2'' None (move_body ''inbox'') sample_inbox)) ''a'' (mb_id x)))"
proof -
  obtain r f' where run: "move_message sample_graph ''a'' ''e2'' None (move_body ''inbox'') sample_inbox = (r, f')"
    by (cases "move_message sample_graph ''a'' ''e2'' None (move_body ''inbox'') sample_inbox")
  define m where "m = hd (mailboxes sample_inbox)"
  have "role_from_alias ''inbox'' = Some Inbox" by code_simp
  then have m: "graph_folder sample_inbox ''inbox'' ''a'' = Some m" "mb_id m \<noteq> ''inbox''"
    by (simp_all add: m_def sample_inbox_def mailboxes_for_def graph_folder_def)
  show ?thesis
    using graph_move_strands [OF sample_messages(1-3) sample_no_override move_body_str _ m, of None r f']
      sample_messages(4) run by simp
qed

theorem graph_folder_cycle_hangs_imap_witness:
  "list_mailboxes (snd (move_folder sample_graph ''a'' ''arch'' (move_body ''arch'') sample_inbox)) ''a'' = None"
proof -
  obtain r f' where run: "move_folder sample_graph ''a'' ''arch'' (move_body ''arch'') sample_inbox = (r, f')"
    by (cases "move_folder sample_graph ''a'' ''arch'' (move_body ''arch'') sample_inbox")
  define m where "m = mailboxes sample_inbox ! 1"
  have m: "m \<in> set (mailboxes_for sample_inbox ''a'')" "mb_id m = ''arch''" "mb_role m = None"
    by (simp_all add: m_def sample_inbox_def mailboxes_for_def)
  have "distinct (map mb_id (mailboxes sample_inbox))" by (simp add: sample_inbox_def)
  moreover have "\<not> eq_ci ''arch'' ''msgfolderroot''" by code_simp
  ultimately show ?thesis
    using graph_folder_cycle_hangs_imap [OF m(1), of sample_graph "move_body ''arch''" r f']
      m(2,3) sample_no_override move_body_str run by simp
qed

end
