(* ===== verification/Rust_Results.thy ===== *)
theory Rust_Results
  imports Rust_Prelude
begin

text \<open>
  Rust's \<open>Result\<close> as a sum, \<open>Inl\<close> the error: the operator \<open>?\<close>, \<open>map_err\<close>, and loops whose body may return early.
\<close>

text \<open>The operator \<open>?\<close>.\<close>

definition and_then :: "'e + 'a \<Rightarrow> ('a \<Rightarrow> 'e + 'b) \<Rightarrow> 'e + 'b" where
  "and_then r k = (case r of Inl e \<Rightarrow> Inl e | Inr x \<Rightarrow> k x)"

lemma and_then_simps [simp]: "and_then (Inl e) k = Inl e" "and_then (Inr x) k = k x"
  by (simp_all add: and_then_def)

definition map_err :: "('e \<Rightarrow> 'f) \<Rightarrow> 'e + 'a \<Rightarrow> 'f + 'a" where
  "map_err g r = (case r of Inl e \<Rightarrow> Inl (g e) | Inr v \<Rightarrow> Inr v)"

text \<open>A loop whose body may return early with an error.\<close>

fun fold_result :: "('a \<Rightarrow> 'b \<Rightarrow> 'e + 'b) \<Rightarrow> 'a list \<Rightarrow> 'b \<Rightarrow> 'e + 'b" where
  "fold_result step [] acc = Inr acc"
| "fold_result step (x # xs) acc = and_then (step x acc) (fold_result step xs)"

text \<open>A loop that pushes the outcome of its body.\<close>

fun map_result :: "('a \<Rightarrow> 'e + 'b) \<Rightarrow> 'a list \<Rightarrow> 'e + 'b list" where
  "map_result g [] = Inr []"
| "map_result g (x # xs) = and_then (g x) (\<lambda>y. and_then (map_result g xs) (\<lambda>ys. Inr (y # ys)))"

definition or_else :: "'a option \<Rightarrow> 'a \<Rightarrow> 'a" where
  "or_else x d = (case x of Some v \<Rightarrow> v | None \<Rightarrow> d)"

lemma and_then_Inr: "and_then r k = Inr y \<longleftrightarrow> (\<exists>x. r = Inr x \<and> k x = Inr y)"
  by (cases r) simp_all

lemma map_err_Inr [simp]: "map_err g r = Inr v \<longleftrightarrow> r = Inr v"
  by (cases r) (simp_all add: map_err_def)

lemma map_result_Inr: "map_result g xs = Inr ys \<longleftrightarrow> list_all2 (\<lambda>x y. g x = Inr y) xs ys"
proof (induction xs arbitrary: ys)
  case (Cons x xs)
  then show ?case by (auto simp: and_then_Inr list_all2_Cons1)
qed auto

text \<open>What holds before a loop and is kept by each successful round holds after it.\<close>

lemma fold_result_keeps:
  assumes "fold_result step xs acc = Inr out" and "P acc"
    and "\<And>x acc acc'. x \<in> set xs \<Longrightarrow> P acc \<Longrightarrow> step x acc = Inr acc' \<Longrightarrow> P acc'"
  shows "P out"
  using assms
proof (induction xs arbitrary: acc)
  case (Cons x xs)
  then obtain acc' where "step x acc = Inr acc'" "fold_result step xs acc' = Inr out"
    by (auto simp: and_then_Inr)
  then show ?case using Cons.IH [of acc'] Cons.prems by auto
qed simp

end
