(* ===== verification/Jmap_Core.thy ===== *)
theory Jmap_Core
  imports Graph_Values Recurrence_Translate Rust_Results
begin

text \<open>
  The JMAP reads (\<open>src/jmap.rs\<close>): mailboxes, emails, threads, the query with its position and anchor,
  and the \<open>changes\<close> methods. A method returns \<open>Inl\<close> the error object or \<open>Inr\<close> the response.
\<close>

text \<open>
  What is given: jiff's printing (\<open>{:.0}\<close>) and parsing of an instant, the message parser crate, the Lua
  override of a method, the instant the code hardcodes for an empty fixture, the civil calendar, Unicode
  lower-casing, and whether the binary was built with overflow checks (\<open>cargo build\<close>, the default of
  \<open>cargo test\<close>) or without (\<open>cargo build --release\<close>, as \<open>reference/orchestration.md\<close> has it).
\<close>

record jmap_env =
  je_show_ts :: "timestamp \<Rightarrow> string"
  je_parse_ts :: "string \<Rightarrow> timestamp option"
  je_mail_parser :: "string \<Rightarrow> parsed_mail option"
  je_override :: "string \<Rightarrow> string option \<Rightarrow> string list option \<Rightarrow> (string \<times> string) option"
  je_epoch :: timestamp
  je_civil :: civil
  je_lower :: "string \<Rightarrow> string"
  je_overflow_checks :: bool

text \<open>
  The result of \<open>i64\<close> arithmetic: a value that fits is itself; one that does not is a panic (\<open>None\<close>) in a
  build with overflow checks, and wraps around in one without.
\<close>

definition i64_max :: int where "i64_max = 9223372036854775807"
definition i64_min :: int where "i64_min = - 9223372036854775808"

definition i64_wrap :: "int \<Rightarrow> int" where
  "i64_wrap n = (n + 2 ^ 63) mod 2 ^ 64 - 2 ^ 63"

definition i64_result :: "bool \<Rightarrow> int \<Rightarrow> int option" where
  "i64_result checks n =
     (if i64_min \<le> n \<and> n \<le> i64_max then Some n else if checks then None else Some (i64_wrap n))"

lemma i64_wrap_fits: "i64_min \<le> i64_wrap n \<and> i64_wrap n \<le> i64_max"
  using pos_mod_bound [of "2 ^ 64" "n + 2 ^ 63"] pos_mod_sign [of "2 ^ 64" "n + 2 ^ 63"]
  by (simp add: i64_wrap_def i64_min_def i64_max_def)

lemma i64_result_unchecked: "i64_result False n \<noteq> None"
  by (simp add: i64_result_def)

lemma i64_result_fits: "i64_min \<le> n \<Longrightarrow> n \<le> i64_max \<Longrightarrow> i64_result checks n = Some n"
  by (simp add: i64_result_def)

text \<open>\<open>Timestamp::as_second\<close>: the nanoseconds of an instant cut to seconds towards zero.\<close>

definition as_second :: "timestamp \<Rightarrow> int" where
  "as_second t = (if t < 0 then - (- t div 1000000000) else t div 1000000000)"

subsection \<open>Arguments and responses\<close>

definition set_error :: "string \<Rightarrow> string \<Rightarrow> json" where
  "set_error kind description = jobj [(''type'', JString kind), (''description'', JString description)]"

definition str_arg :: "string \<Rightarrow> json \<Rightarrow> string option" where
  "str_arg k args = Option.bind (jget k args) as_str"

definition bool_arg :: "string \<Rightarrow> json \<Rightarrow> bool" where
  "bool_arg k args = (case Option.bind (jget k args) as_bool of Some b \<Rightarrow> b | None \<Rightarrow> False)"

definition require_account :: "fixture \<Rightarrow> json \<Rightarrow> json + string" where
  "require_account f args =
     (case str_arg ''accountId'' args of
        None \<Rightarrow> Inl (set_error ''invalidArguments'' ''missing accountId'')
      | Some a \<Rightarrow> if find_account f a = None
                  then Inl (set_error ''accountNotFound'' (''account '' @ debug_str a @ '' not found''))
                  else Inr a)"

definition require_since_state :: "json \<Rightarrow> json + string" where
  "require_since_state args =
     (case str_arg ''sinceState'' args of
        None \<Rightarrow> Inl (set_error ''invalidArguments'' ''missing sinceState'') | Some s \<Rightarrow> Inr s)"

fun requested_ids :: "json list \<Rightarrow> json + string list" where
  "requested_ids [] = Inr []"
| "requested_ids (v # vs) =
     (case as_str v of
        None \<Rightarrow> Inl (set_error ''invalidArguments'' ''ids must be an array of strings'')
      | Some i \<Rightarrow> and_then (requested_ids vs) (\<lambda>is. Inr (i # is)))"

text \<open>The objects a \<open>get\<close> lists and the ids it reports as not found.\<close>

definition get_objects ::
    "(string \<Rightarrow> json option) \<Rightarrow> json list \<Rightarrow> json option \<Rightarrow> json + (json list \<times> json list)" where
  "get_objects look everything ids =
     (case ids of
        None \<Rightarrow> Inr (everything, [])
      | Some JNull \<Rightarrow> Inr (everything, [])
      | Some (JArray xs) \<Rightarrow> and_then (requested_ids xs) (\<lambda>is.
          Inr (List.map_filter look is, map JString (filter (\<lambda>i. look i = None) is)))
      | Some _ \<Rightarrow> Inl (set_error ''invalidArguments'' ''ids must be an array or null''))"

definition get_response :: "fixture \<Rightarrow> string \<Rightarrow> json list \<times> json list \<Rightarrow> json" where
  "get_response f a r =
     jobj [(''accountId'', JString a), (''state'', JString (state_for f a)),
           (''list'', JArray (fst r)), (''notFound'', JArray (snd r))]"

subsection \<open>Mailboxes\<close>

definition is_unread :: "email \<Rightarrow> bool" where
  "is_unread e \<longleftrightarrow> ''$seen'' \<notin> set (em_keywords e)"

definition jmap_mailbox_counts :: "fixture \<Rightarrow> mailbox \<Rightarrow> nat \<times> nat \<times> nat \<times> nat" where
  "jmap_mailbox_counts f m =
     (let in_box = filter (\<lambda>e. mb_id m \<in> set (mailbox_ids e)) (emails f)
      in (length in_box, length (filter is_unread in_box), length (sort_dedup (map em_thread_id in_box)),
          length (sort_dedup (map em_thread_id (filter is_unread in_box)))))"

definition right_names :: "string list" where
  "right_names = [''mayReadItems'', ''mayAddItems'', ''mayRemoveItems'', ''maySetSeen'', ''maySetKeywords'',
     ''mayCreateChild'', ''mayRename'', ''mayDelete'', ''maySubmit'']"

definition my_rights_all_true :: json where
  "my_rights_all_true = jobj (map (\<lambda>k. (k, JBool True)) right_names)"

definition serialize_mailbox :: "fixture \<Rightarrow> mailbox \<Rightarrow> json" where
  "serialize_mailbox f m =
     (let (n, u, t, ut) = jmap_mailbox_counts f m in
      jobj [(''id'', JString (mb_id m)), (''name'', JString (mb_name m)),
            (''parentId'', jstring_or_null (mb_parent_id m)),
            (''role'', jstring_or_null (map_option role_as_str (mb_role m))),
            (''sortOrder'', jint (case sort_order m of Some k \<Rightarrow> k | None \<Rightarrow> 0)),
            (''totalEmails'', jnat n), (''unreadEmails'', jnat u), (''totalThreads'', jnat t),
            (''unreadThreads'', jnat ut), (''myRights'', my_rights_all_true),
            (''isSubscribed'', JBool (is_subscribed m))])"

definition mailbox_get :: "fixture \<Rightarrow> json \<Rightarrow> json + json" where
  "mailbox_get f args =
     and_then (require_account f args) (\<lambda>a.
     and_then (get_objects (\<lambda>i. map_option (serialize_mailbox f) (find (\<lambda>m. mb_id m = i) (mailboxes_for f a)))
                 (map (serialize_mailbox f) (mailboxes_for f a)) (jget ''ids'' args)) (\<lambda>r.
     Inr (get_response f a r)))"

subsection \<open>Changes\<close>

definition string_array :: "string list \<Rightarrow> json" where
  "string_array xs = JArray (map JString xs)"

definition changes_response :: "string \<Rightarrow> string \<Rightarrow> string \<Rightarrow> delta_set \<Rightarrow> bool \<Rightarrow> json" where
  "changes_response a old_state new_state d is_email =
     jobj ([(''accountId'', JString a), (''oldState'', JString old_state), (''newState'', JString new_state),
            (''hasMoreChanges'', JBool False), (''created'', string_array (ds_created d)),
            (''updated'', string_array (ds_updated d)), (''destroyed'', string_array (ds_destroyed d))] @
           (if is_email then [(''updatedProperties'', JNull)] else []))"

definition cannot_calculate :: "string \<Rightarrow> json" where
  "cannot_calculate since = set_error ''cannotCalculateChanges''
     (''sinceState '' @ debug_str since @
      '' is not a known fixture state (older than the seed or evicted from the bounded change log)'')"

definition changes_method ::
    "(fixture \<Rightarrow> string \<Rightarrow> string \<Rightarrow> delta_set option) \<Rightarrow> (string \<Rightarrow> string \<Rightarrow> delta_set \<Rightarrow> json) \<Rightarrow>
     fixture \<Rightarrow> json \<Rightarrow> json + json" where
  "changes_method delta respond f args =
     and_then (require_account f args) (\<lambda>a.
     and_then (require_since_state args) (\<lambda>since.
       case delta f since a of
         None \<Rightarrow> Inl (cannot_calculate since)
       | Some d \<Rightarrow> Inr (respond a since d)))"

definition mailbox_changes :: "fixture \<Rightarrow> json \<Rightarrow> json + json" where
  "mailbox_changes f args = changes_method mailbox_delta_since_account
     (\<lambda>a since d. changes_response a since (state_for f a) d False) f args"

definition email_changes :: "fixture \<Rightarrow> json \<Rightarrow> json + json" where
  "email_changes f args = changes_method email_delta_since_account
     (\<lambda>a since d. changes_response a since (state_for f a) d True) f args"

definition thread_of :: "fixture \<Rightarrow> string \<Rightarrow> string option" where
  "thread_of f i = map_option em_thread_id (find (\<lambda>e. em_id e = i) (emails f))"

text \<open>The threads of the ids that are in neither list yet.\<close>

definition add_threads :: "fixture \<Rightarrow> string list \<Rightarrow> string list \<Rightarrow> string list" where
  "add_threads f created is =
     fold (\<lambda>i ts. case thread_of f i of
         Some t \<Rightarrow> if t \<in> set created \<or> t \<in> set ts then ts else ts @ [t] | None \<Rightarrow> ts) is []"

definition thread_changes :: "fixture \<Rightarrow> json \<Rightarrow> json + json" where
  "thread_changes f args = changes_method email_delta_since_account
     (\<lambda>a since d.
        let created = add_threads f [] (ds_created d); updated = add_threads f created (ds_updated d) in
        jobj [(''accountId'', JString a), (''oldState'', JString since), (''newState'', JString (state_for f a)),
              (''hasMoreChanges'', JBool False), (''created'', string_array created),
              (''updated'', string_array updated), (''destroyed'', JArray [])]) f args"

end
