(* ===== verification/Jmap_Email.thy ===== *)
theory Jmap_Email
  imports Jmap_Core
begin

text \<open>
  \<open>Email/query\<close>, \<open>Email/get\<close> and \<open>Thread/get\<close> (\<open>src/jmap.rs\<close>). A query returns one more \<open>option\<close>: its
  \<open>None\<close> is the panic of the checked addition of the anchor's index and \<open>anchorOffset\<close>.
\<close>

subsection \<open>Filters\<close>

record email_filter =
  fl_after :: "int option"
  fl_before :: "int option"
  fl_in_mailbox :: "string option"

definition filter_default :: email_filter where
  "filter_default = \<lparr>fl_after = None, fl_before = None, fl_in_mailbox = None\<rparr>"

definition filter_matches :: "email_filter \<Rightarrow> email \<Rightarrow> bool" where
  "filter_matches q e \<longleftrightarrow>
     (case fl_after q of Some t \<Rightarrow> \<not> as_second (received_at e) < t | None \<Rightarrow> True) \<and>
     (case fl_before q of Some t \<Rightarrow> \<not> as_second (received_at e) \<ge> t | None \<Rightarrow> True) \<and>
     (case fl_in_mailbox q of Some mb \<Rightarrow> mb \<in> set (mailbox_ids e) | None \<Rightarrow> True)"

definition parse_utc_date :: "jmap_env \<Rightarrow> string \<Rightarrow> json \<Rightarrow> json + int" where
  "parse_utc_date env field v =
     (let bad = Inl (set_error ''invalidArguments''
            (''filter.'' @ field @ '' must be an RFC3339 UTCDate string or unix-seconds integer''))
      in case as_i64 v of
        Some i \<Rightarrow> Inr i
      | None \<Rightarrow> (case as_str v of
          None \<Rightarrow> bad
        | Some s \<Rightarrow> (case je_parse_ts env s of None \<Rightarrow> bad | Some t \<Rightarrow> Inr (as_second t))))"

definition filter_field :: "jmap_env \<Rightarrow> string \<Rightarrow> json \<Rightarrow> email_filter \<Rightarrow> json + email_filter" where
  "filter_field env k v q =
     (if k = ''after'' then and_then (parse_utc_date env ''after'' v) (\<lambda>t. Inr (q\<lparr>fl_after := Some t\<rparr>))
      else if k = ''before'' then and_then (parse_utc_date env ''before'' v) (\<lambda>t. Inr (q\<lparr>fl_before := Some t\<rparr>))
      else if k = ''inMailbox'' then
        (case as_str v of
           None \<Rightarrow> Inl (set_error ''invalidArguments'' ''filter.inMailbox must be a string'')
         | Some s \<Rightarrow> Inr (q\<lparr>fl_in_mailbox := Some s\<rparr>))
      else Inl (set_error ''unsupportedFilter'' (''v0 does not support filter.'' @ debug_str k)))"

fun filter_fields :: "jmap_env \<Rightarrow> (string \<times> json) list \<Rightarrow> email_filter \<Rightarrow> json + email_filter" where
  "filter_fields env [] q = Inr q"
| "filter_fields env ((k, v) # kvs) q = and_then (filter_field env k v q) (filter_fields env kvs)"

definition parse_filter :: "jmap_env \<Rightarrow> json option \<Rightarrow> json + email_filter" where
  "parse_filter env raw =
     (case raw of
        None \<Rightarrow> Inr filter_default
      | Some JNull \<Rightarrow> Inr filter_default
      | Some v \<Rightarrow> (case as_object v of
          None \<Rightarrow> Inl (set_error ''invalidArguments'' ''filter must be an object'')
        | Some kvs \<Rightarrow> filter_fields env kvs filter_default))"

subsection \<open>The query\<close>

definition query_limit_cap :: nat where "query_limit_cap = 256"
definition query_limit_default :: nat where "query_limit_default = 50"

text \<open>An argument that may be absent or null.\<close>

definition opt_arg :: "string \<Rightarrow> json \<Rightarrow> json option" where
  "opt_arg k args = (case jget k args of Some JNull \<Rightarrow> None | v \<Rightarrow> v)"

definition int_arg :: "string \<Rightarrow> json \<Rightarrow> json + int option" where
  "int_arg k args = (case opt_arg k args of
      None \<Rightarrow> Inr None
    | Some v \<Rightarrow> (case as_i64 v of
        None \<Rightarrow> Inl (set_error ''invalidArguments'' (k @ '' must be an integer'')) | Some i \<Rightarrow> Inr (Some i)))"

definition query_position :: "json \<Rightarrow> json + nat" where
  "query_position args = and_then (int_arg ''position'' args) (\<lambda>p.
     let p = (case p of Some i \<Rightarrow> i | None \<Rightarrow> 0) in
     if p < 0 then Inl (set_error ''invalidArguments'' ''negative position not supported in v0'')
     else Inr (nat p))"

definition query_limit :: "json \<Rightarrow> json + nat" where
  "query_limit args = and_then (int_arg ''limit'' args) (\<lambda>l. case l of
      None \<Rightarrow> Inr query_limit_default
    | Some n \<Rightarrow> if n < 0 then Inl (set_error ''invalidArguments'' ''limit must be non-negative'')
                else Inr (min (nat n) query_limit_cap))"

definition query_anchor :: "json \<Rightarrow> json + string option" where
  "query_anchor args = (case opt_arg ''anchor'' args of
      None \<Rightarrow> Inr None
    | Some v \<Rightarrow> (case as_str v of
        None \<Rightarrow> Inl (set_error ''invalidArguments'' ''anchor must be a string'') | Some s \<Rightarrow> Inr (Some s)))"

definition index_of :: "string \<Rightarrow> email list \<Rightarrow> nat option" where
  "index_of i es = (if \<exists>e \<in> set es. em_id e = i then Some (length (takeWhile (\<lambda>e. em_id e \<noteq> i) es)) else None)"

text \<open>
  The start of the window; \<open>None\<close> where \<open>idx + anchor_offset\<close> overflows in a build with overflow checks.
\<close>

definition anchor_position :: "bool \<Rightarrow> string \<Rightarrow> int \<Rightarrow> email list \<Rightarrow> (json + nat) option" where
  "anchor_position checks anchor off es =
     (case index_of anchor es of
        None \<Rightarrow> Some (Inl (set_error ''anchorNotFound'' (''anchor '' @ debug_str anchor @ '' is not in the query results'')))
      | Some idx \<Rightarrow> map_option (\<lambda>p. Inr (nat (max p 0))) (i64_result checks (int idx + off)))"

definition matching :: "fixture \<Rightarrow> string \<Rightarrow> email_filter \<Rightarrow> email list" where
  "matching f a q = newest_first (filter (filter_matches q) (emails_for f a))"

definition window :: "nat \<Rightarrow> nat \<Rightarrow> 'a list \<Rightarrow> 'a list" where
  "window position limit xs = take limit (drop position xs)"

definition query_response :: "fixture \<Rightarrow> string \<Rightarrow> nat \<Rightarrow> nat \<Rightarrow> bool \<Rightarrow> email list \<Rightarrow> json" where
  "query_response f a position limit counted es =
     jobj ([(''accountId'', JString a), (''queryState'', JString (state_for f a)),
            (''canCalculateChanges'', JBool False), (''position'', jnat position),
            (''ids'', string_array (map em_id (window position limit es)))] @
           (if counted then [(''total'', jnat (length es))] else []))"

definition email_query :: "jmap_env \<Rightarrow> fixture \<Rightarrow> json \<Rightarrow> (json + json) option" where
  "email_query env f args =
     (case and_then (require_account f args) (\<lambda>a.
           and_then (parse_filter env (jget ''filter'' args)) (\<lambda>q.
           and_then (query_position args) (\<lambda>position.
           and_then (query_limit args) (\<lambda>limit.
           and_then (query_anchor args) (\<lambda>anchor.
           and_then (int_arg ''anchorOffset'' args) (\<lambda>off.
           Inr (a, q, position, limit, anchor, (case off of Some i \<Rightarrow> i | None \<Rightarrow> 0)))))))) of
        Inl e \<Rightarrow> Some (Inl e)
      | Inr (a, q, position, limit, anchor, off) \<Rightarrow>
          let es = matching f a q in
          map_option (\<lambda>p. and_then p (\<lambda>p. Inr (query_response f a p limit (bool_arg ''calculateTotal'' args) es)))
            (case anchor of None \<Rightarrow> Some (Inr position) | Some i \<Rightarrow> anchor_position (je_overflow_checks env) i off es))"

subsection \<open>Emails\<close>

definition bool_map :: "string list \<Rightarrow> json" where
  "bool_map is = jobj (map (\<lambda>i. (i, JBool True)) is)"

definition string_array_or_null :: "string list \<Rightarrow> json" where
  "string_array_or_null xs = (if xs = [] then JNull else string_array xs)"

definition serialize_address :: "address \<Rightarrow> json" where
  "serialize_address a = jobj [(''name'', jstring_or_null (ad_name a)), (''email'', JString (ad_email a))]"

definition serialize_address_list :: "address list \<Rightarrow> json" where
  "serialize_address_list xs = (if xs = [] then JNull else JArray (map serialize_address xs))"

definition serialize_attachment :: "email \<Rightarrow> nat \<Rightarrow> attachment \<Rightarrow> json" where
  "serialize_attachment e i t =
     jobj [(''partId'', JString (em_id e @ '':att-'' @ show_nat (i + 1))), (''blobId'', JString (at_blob_id t)),
           (''size'', jint (at_size t)), (''name'', JString (at_name t)), (''type'', JString (at_content_type t)),
           (''disposition'', JString (disposition_as_str (at_disposition t))),
           (''isInline'', JBool (at_disposition t = Inline)), (''cid'', jstring_or_null (at_cid t))]"

definition serialize_attachments :: "email \<Rightarrow> json list" where
  "serialize_attachments e = map (\<lambda>(i, t). serialize_attachment e i t) (enumerate 0 (attachments e))"

definition body_part_text :: "string \<Rightarrow> string \<Rightarrow> int \<Rightarrow> json" where
  "body_part_text part_id blob_id n =
     jobj [(''partId'', JString part_id), (''blobId'', JString blob_id), (''type'', JString ''text/plain''),
           (''size'', jint n), (''charset'', JString ''utf-8''), (''disposition'', JNull), (''language'', JNull),
           (''location'', JNull), (''subParts'', JNull), (''headers'', JArray []), (''name'', JNull), (''cid'', JNull)]"

definition body_str_of :: "email \<Rightarrow> string" where
  "body_str_of e = (case raw_bytes e of Some r \<Rightarrow> r | None \<Rightarrow> (case em_body e of Text t \<Rightarrow> t))"

text \<open>The text body, the HTML body and the body values that were asked for.\<close>

definition body_parts_and_values :: "email \<Rightarrow> bool \<Rightarrow> bool \<Rightarrow> bool \<Rightarrow> json \<times> json \<times> json option" where
  "body_parts_and_values e fetch_text fetch_html fetch_all =
     (let s = body_str_of e; part_id = em_id e @ '':text'' in
      (JArray [body_part_text part_id (''blob-'' @ em_id e @ ''-text'') (int (length s))], JArray [],
       if fetch_text \<or> fetch_all
       then Some (jobj [(part_id, jobj [(''value'', JString s), (''isEncodingProblem'', JBool False),
                                         (''isTruncated'', JBool False)])])
       else if fetch_html then Some (jobj []) else None))"

definition serialize_email :: "jmap_env \<Rightarrow> email \<Rightarrow> bool \<Rightarrow> bool \<Rightarrow> bool \<Rightarrow> json" where
  "serialize_email env e fetch_text fetch_html fetch_all =
     (let (text_body, html_body, values) = body_parts_and_values e fetch_text fetch_html fetch_all in
      jobj ([(''id'', JString (em_id e)), (''blobId'', JString (''blob-'' @ em_id e)),
        (''threadId'', JString (em_thread_id e)), (''size'', jint (em_size e)),
        (''receivedAt'', JString (je_show_ts env (received_at e))), (''sentAt'', JString (je_show_ts env (sent_at e))),
        (''mailboxIds'', bool_map (mailbox_ids e)), (''keywords'', bool_map (em_keywords e)),
        (''messageId'', string_array_or_null (message_id e)), (''inReplyTo'', string_array_or_null (in_reply_to e)),
        (''references'', string_array_or_null (em_references e)),
        (''from'', case em_from e of Some a \<Rightarrow> JArray [serialize_address a] | None \<Rightarrow> JNull),
        (''to'', serialize_address_list (em_to e)), (''cc'', serialize_address_list (em_cc e)),
        (''bcc'', serialize_address_list (em_bcc e)), (''replyTo'', serialize_address_list (reply_to e)),
        (''subject'', jstring_or_null (em_subject e)), (''preview'', jstring_or_null (em_preview e)),
        (''hasAttachment'', JBool (has_attachment e)), (''textBody'', text_body), (''htmlBody'', html_body)] @
        (case values of Some v \<Rightarrow> [(''bodyValues'', v)] | None \<Rightarrow> []) @
        [(''attachments'', JArray (serialize_attachments e)), (''header:List-Unsubscribe:asText'', JNull),
         (''header:List-Unsubscribe-Post:asText'', JNull), (''header:Disposition-Notification-To:asText'', JNull)]))"

definition email_get :: "jmap_env \<Rightarrow> fixture \<Rightarrow> json \<Rightarrow> json + json" where
  "email_get env f args =
     and_then (require_account f args) (\<lambda>a.
       let show = (\<lambda>e. serialize_email env e (bool_arg ''fetchTextBodyValues'' args)
             (bool_arg ''fetchHtmlBodyValues'' args) (bool_arg ''fetchAllBodyValues'' args))
       in and_then (get_objects (\<lambda>i. map_option show (find (\<lambda>e. em_id e = i) (emails_for f a)))
            (map show (emails_for f a)) (jget ''ids'' args)) (\<lambda>r. Inr (get_response f a r)))"

subsection \<open>Threads\<close>

definition oldest_first :: "email list \<Rightarrow> email list" where
  "oldest_first es = sort_key (\<lambda>e. (received_at e, em_id e)) es"

definition thread_emails :: "fixture \<Rightarrow> string \<Rightarrow> string \<Rightarrow> email list" where
  "thread_emails f a t = filter (\<lambda>e. em_thread_id e = t) (emails_for f a)"

definition serialize_thread :: "fixture \<Rightarrow> string \<Rightarrow> string \<Rightarrow> json" where
  "serialize_thread f a t =
     jobj [(''id'', JString t), (''emailIds'', string_array (map em_id (oldest_first (thread_emails f a t))))]"

definition thread_get :: "fixture \<Rightarrow> json \<Rightarrow> json + json" where
  "thread_get f args =
     and_then (require_account f args) (\<lambda>a.
     and_then (get_objects
         (\<lambda>t. if thread_emails f a t = [] then None else Some (serialize_thread f a t))
         (map (serialize_thread f a) (sort_dedup (map em_thread_id (emails_for f a))))
         (jget ''ids'' args)) (\<lambda>r.
     Inr (get_response f a r)))"

end
