(* ===== verification/Jmap_Set.thy ===== *)
theory Jmap_Set
  imports Jmap_Email
begin

text \<open>
  The JMAP writes of mail (\<open>src/jmap.rs\<close>): \<open>Email/set\<close>, \<open>Email/import\<close>, \<open>EmailSubmission/set\<close> and
  \<open>Mailbox/set\<close>. Each runs its creates, updates and destroys in one mutation, collecting per id what
  was done and what was refused.
\<close>

subsection \<open>What a set method collects\<close>

record set_outcome =
  so_created :: "(string, json) btmap"
  so_not_created :: "(string, json) btmap"
  so_updated :: "(string, json) btmap"
  so_not_updated :: "(string, json) btmap"
  so_destroyed :: "string list"
  so_not_destroyed :: "(string, json) btmap"

definition set_outcome_empty :: set_outcome where
  "set_outcome_empty = \<lparr>so_created = [], so_not_created = [], so_updated = [], so_not_updated = [],
     so_destroyed = [], so_not_destroyed = []\<rparr>"

definition object_or_null :: "(string, json) btmap \<Rightarrow> json" where
  "object_or_null m = (if m = [] then JNull else JObject m)"

definition set_response :: "string \<Rightarrow> string \<Rightarrow> string \<Rightarrow> set_outcome \<Rightarrow> json" where
  "set_response a old_state new_state out =
     jobj [(''accountId'', JString a), (''oldState'', JString old_state), (''newState'', JString new_state),
           (''created'', object_or_null (so_created out)), (''notCreated'', object_or_null (so_not_created out)),
           (''updated'', object_or_null (so_updated out)), (''notUpdated'', object_or_null (so_not_updated out)),
           (''destroyed'', if so_destroyed out = [] then JNull else string_array (so_destroyed out)),
           (''notDestroyed'', object_or_null (so_not_destroyed out))]"

definition object_arg :: "string \<Rightarrow> json \<Rightarrow> (string \<times> json) list" where
  "object_arg k args = (case Option.bind (jget k args) as_object of Some kvs \<Rightarrow> kvs | None \<Rightarrow> [])"

definition strings_arg :: "string \<Rightarrow> json \<Rightarrow> string list" where
  "strings_arg k args = (case Option.bind (jget k args) as_array of
      Some xs \<Rightarrow> List.map_filter as_str xs | None \<Rightarrow> [])"

text \<open>The mutation of a set method: the fixture, the diff and the outcome so far.\<close>

type_synonym set_state = "fixture \<times> mutation_diff \<times> set_outcome"

definition refuse_create :: "string \<Rightarrow> json \<Rightarrow> set_outcome \<Rightarrow> set_outcome" where
  "refuse_create i e out = out\<lparr>so_not_created := bt_insert i e (so_not_created out)\<rparr>"

definition refuse_update :: "string \<Rightarrow> json \<Rightarrow> set_outcome \<Rightarrow> set_outcome" where
  "refuse_update i e out = out\<lparr>so_not_updated := bt_insert i e (so_not_updated out)\<rparr>"

definition refuse_destroy :: "string \<Rightarrow> json \<Rightarrow> set_outcome \<Rightarrow> set_outcome" where
  "refuse_destroy i e out = out\<lparr>so_not_destroyed := bt_insert i e (so_not_destroyed out)\<rparr>"

definition note_created :: "string \<Rightarrow> json \<Rightarrow> set_outcome \<Rightarrow> set_outcome" where
  "note_created i v out = out\<lparr>so_created := bt_insert i v (so_created out)\<rparr>"

definition note_updated :: "string \<Rightarrow> set_outcome \<Rightarrow> set_outcome" where
  "note_updated i out = out\<lparr>so_updated := bt_insert i JNull (so_updated out)\<rparr>"

definition note_destroyed :: "string \<Rightarrow> set_outcome \<Rightarrow> set_outcome" where
  "note_destroyed i out = out\<lparr>so_destroyed := so_destroyed out @ [i]\<rparr>"

text \<open>Running the mutation and answering with the tokens around it.\<close>

definition run_set :: "string \<Rightarrow> (set_state \<Rightarrow> set_state) \<Rightarrow> fixture \<Rightarrow> json \<times> fixture" where
  "run_set a body f =
     (let (f1, d, out) = body (f, diff_default, set_outcome_empty);
          f2 = snd (mutate (\<lambda>_. (d, f1)) f)
      in (set_response a (state_for f a) (state_for f2 a) out, f2))"

definition with_writer ::
    "fixture \<Rightarrow> json \<Rightarrow> (string \<Rightarrow> json \<times> fixture) \<Rightarrow> (json + json) \<times> fixture" where
  "with_writer f args k =
     (case require_account f args of
        Inl e \<Rightarrow> (Inl e, f)
      | Inr a \<Rightarrow> apfst Inr (k a))"

text \<open>\<open>ifInState\<close> refuses the whole call when the account has moved on.\<close>

definition state_mismatch :: "fixture \<Rightarrow> string \<Rightarrow> json \<Rightarrow> json option" where
  "state_mismatch f a args =
     (case str_arg ''ifInState'' args of
        Some s \<Rightarrow> if s \<noteq> state_for f a
          then Some (set_error ''stateMismatch'' (''ifInState '' @ debug_str s @ '' does not match current state '' @
                 debug_str (state_for f a)))
          else None
      | None \<Rightarrow> None)"

definition guarded_set ::
    "fixture \<Rightarrow> json \<Rightarrow> (string \<Rightarrow> set_state \<Rightarrow> set_state) \<Rightarrow> (json + json) \<times> fixture" where
  "guarded_set f args body =
     (case require_account f args of
        Inl e \<Rightarrow> (Inl e, f)
      | Inr a \<Rightarrow> (case state_mismatch f a args of
          Some e \<Rightarrow> (Inl e, f)
        | None \<Rightarrow> apfst Inr (run_set a (body a) f)))"

subsection \<open>Patches\<close>

definition patch_set_member :: "json \<Rightarrow> bool option" where
  "patch_set_member v = (if v = JNull then Some False else as_bool v)"

definition jmap_bool_set :: "(string \<times> json) list \<Rightarrow> string list" where
  "jmap_bool_set kvs = map fst (filter (\<lambda>kv. as_bool (snd kv) = Some True) kvs)"

definition empty_mailbox_ids_error :: json where
  "empty_mailbox_ids_error = set_error ''invalidProperties''
     (''mailboxIds must name at least one mailbox: RFC 8621 has no All Mail, '' @
      ''so an email in no mailbox is not a representable state'')"

text \<open>Adding or removing one member of a property's set.\<close>

definition patch_member :: "string \<Rightarrow> string \<Rightarrow> json \<Rightarrow> string list \<Rightarrow> json + string list" where
  "patch_member path i v xs =
     (case patch_set_member v of
        Some True \<Rightarrow> Inr (if i \<in> set xs then xs else xs @ [i])
      | Some False \<Rightarrow> Inr (filter (\<lambda>x. x \<noteq> i) xs)
      | None \<Rightarrow> Inl (set_error ''invalidProperties'' (path @ '' expects true, false, or null'')))"

text \<open>One path of a patch; the flag records that membership was touched.\<close>

definition patch_field :: "string \<Rightarrow> json \<Rightarrow> bool \<times> email \<Rightarrow> json + bool \<times> email" where
  "patch_field path v = (\<lambda>(touched, e).
     if path = ''keywords'' then
       (case as_object v of
          None \<Rightarrow> Inl (set_error ''invalidProperties'' ''keywords must be an object'')
        | Some kvs \<Rightarrow> Inr (touched, e\<lparr>em_keywords := jmap_bool_set kvs\<rparr>))
     else if path = ''mailboxIds'' then
       (case as_object v of
          None \<Rightarrow> Inl (set_error ''invalidProperties'' ''mailboxIds must be an object'')
        | Some kvs \<Rightarrow> Inr (True, e\<lparr>mailbox_ids := jmap_bool_set kvs\<rparr>))
     else case strip_prefix ''keywords/'' path of
       Some name \<Rightarrow> and_then (patch_member path name v (em_keywords e)) (\<lambda>ks. Inr (touched, e\<lparr>em_keywords := ks\<rparr>))
     | None \<Rightarrow>
         (case strip_prefix ''mailboxIds/'' path of
            Some i \<Rightarrow> and_then (patch_member path i v (mailbox_ids e)) (\<lambda>ms. Inr (True, e\<lparr>mailbox_ids := ms\<rparr>))
          | None \<Rightarrow> Inl (set_error ''invalidProperties''
              (''v0 mock does not implement patch path '' @ debug_str path))))"

fun patch_fields :: "(string \<times> json) list \<Rightarrow> bool \<times> email \<Rightarrow> json + bool \<times> email" where
  "patch_fields [] x = Inr x"
| "patch_fields ((k, v) # kvs) x = and_then (patch_field k v x) (patch_fields kvs)"

definition apply_email_patch :: "json \<Rightarrow> email \<Rightarrow> json + email" where
  "apply_email_patch patch e =
     (case as_object patch of
        None \<Rightarrow> Inl (set_error ''invalidProperties'' ''patch must be an object'')
      | Some kvs \<Rightarrow> and_then (patch_fields kvs (False, e)) (\<lambda>(touched, e').
          if touched \<and> mailbox_ids e' = [] then Inl empty_mailbox_ids_error else Inr e'))"

subsection \<open>Building an email\<close>

definition jmap_address :: "json \<Rightarrow> address option" where
  "jmap_address v = map_option (\<lambda>m. \<lparr>ad_name = str_arg ''name'' v, ad_email = m\<rparr>) (str_arg ''email'' v)"

definition jmap_address_list :: "json \<Rightarrow> string \<Rightarrow> address list" where
  "jmap_address_list body k = (case Option.bind (jget k body) as_array of
      Some xs \<Rightarrow> List.map_filter jmap_address xs | None \<Rightarrow> [])"

definition jmap_text_body :: "json \<Rightarrow> string" where
  "jmap_text_body body =
     (case Option.bind (jget ''bodyValues'' body) as_object of
        None \<Rightarrow> []
      | Some values \<Rightarrow>
          let part_id = Option.bind (Option.bind (Option.bind (Option.bind (jget ''textBody'' body) as_array)
                (\<lambda>ps. case ps of p # _ \<Rightarrow> Some p | [] \<Rightarrow> None)) (jget ''partId'')) as_str;
              chosen = (case Option.bind part_id (map_of values) of
                Some v \<Rightarrow> Some v | None \<Rightarrow> (case values of (_, v) # _ \<Rightarrow> Some v | [] \<Rightarrow> None))
          in (case Option.bind chosen (str_arg ''value'') of Some s \<Rightarrow> s | None \<Rightarrow> []))"

text \<open>The mailboxes a new email is put in: at least one, all of them known.\<close>

definition new_mailbox_ids :: "json \<Rightarrow> fixture \<Rightarrow> json + string list" where
  "new_mailbox_ids body f =
     (case Option.bind (jget ''mailboxIds'' body) as_object of
        None \<Rightarrow> Inl (set_error ''invalidProperties'' ''missing mailboxIds'')
      | Some kvs \<Rightarrow>
          let is = jmap_bool_set kvs in
          if is = [] then Inl empty_mailbox_ids_error
          else case find (\<lambda>i. \<not> list_ex (\<lambda>m. mb_id m = i) (mailboxes f)) is of
            Some i \<Rightarrow> Inl (set_error ''invalidProperties'' (''unknown mailboxId '' @ debug_str i))
          | None \<Rightarrow> Inr is)"

definition new_keywords :: "json \<Rightarrow> string list" where
  "new_keywords body = (case Option.bind (jget ''keywords'' body) as_object of
      Some kvs \<Rightarrow> jmap_bool_set kvs | None \<Rightarrow> [])"

definition account_of_mailboxes :: "string list \<Rightarrow> fixture \<Rightarrow> string" where
  "account_of_mailboxes is f = (case find (\<lambda>m. mb_id m \<in> set is) (mailboxes f) of
      Some m \<Rightarrow> mb_account_id m | None \<Rightarrow> primary_id f)"

definition newest_instant :: "jmap_env \<Rightarrow> fixture \<Rightarrow> timestamp" where
  "newest_instant env f = (case map received_at (emails f) of [] \<Rightarrow> je_epoch env | t # ts \<Rightarrow> fold max ts t)"

definition build_email_from_create :: "jmap_env \<Rightarrow> json \<Rightarrow> fixture \<Rightarrow> json + (string \<times> email \<times> fixture)" where
  "build_email_from_create env body f =
     (case as_object body of
        None \<Rightarrow> Inl (set_error ''invalidProperties'' ''create body must be an object'')
      | Some _ \<Rightarrow> and_then (new_mailbox_ids body f) (\<lambda>is.
          let (i, f1) = mint_email_id f;
              received = newest_instant env f1;
              content = jmap_text_body body
          in Inr (i,
            \<lparr>em_id = i, em_account_id = account_of_mailboxes is f1, em_thread_id = i, mailbox_ids = is,
             em_keywords = new_keywords body, em_size = int (length content), received_at = received,
             sent_at = received,
             em_from = (case jmap_address_list body ''from'' of x # _ \<Rightarrow> Some x | [] \<Rightarrow> None),
             em_to = jmap_address_list body ''to'', em_cc = jmap_address_list body ''cc'',
             em_bcc = jmap_address_list body ''bcc'', reply_to = jmap_address_list body ''replyTo'',
             em_subject = str_arg ''subject'' body, em_preview = None,
             message_id = strings_arg ''messageId'' body, in_reply_to = [], em_references = [],
             has_attachment = False, em_body = Text content, attachments = [], raw_bytes = None,
             reaction_type = None, reaction_count = None\<rparr>, f1)))"

definition build_email_from_import :: "jmap_env \<Rightarrow> json \<Rightarrow> fixture \<Rightarrow> json + (string \<times> email \<times> fixture)" where
  "build_email_from_import env body f =
     (case as_object body of
        None \<Rightarrow> Inl (set_error ''invalidProperties'' ''import entry must be an object'')
      | Some _ \<Rightarrow>
         (case str_arg ''blobId'' body of
            None \<Rightarrow> Inl (set_error ''invalidProperties'' ''missing blobId'')
          | Some b \<Rightarrow>
             (case map_of (uploaded_blobs f) b of
                None \<Rightarrow> Inl (set_error ''blobNotFound'' (''unknown blobId '' @ debug_str b))
              | Some blob \<Rightarrow> and_then (new_mailbox_ids body f) (\<lambda>is.
                  let received = newest_instant env f;
                      (i, f1) = mint_email_id f;
                      raw = ub_data blob;
                      parsed = je_mail_parser env raw
                  in Inr (i,
                    \<lparr>em_id = i, em_account_id = account_of_mailboxes is f, em_thread_id = i, mailbox_ids = is,
                     em_keywords = new_keywords body, em_size = int (length raw), received_at = received,
                     sent_at = received, em_from = Option.bind parsed pm_from,
                     em_to = (case Option.bind parsed pm_to of Some t \<Rightarrow> [t] | None \<Rightarrow> []),
                     em_cc = [], em_bcc = [], reply_to = [], em_subject = Option.bind parsed pm_subject,
                     em_preview = None,
                     message_id = (case Option.bind parsed pm_message_id of Some t \<Rightarrow> [t] | None \<Rightarrow> []),
                     in_reply_to = [], em_references = [], has_attachment = False,
                     em_body = Text (case Option.bind parsed pm_body_text of Some t \<Rightarrow> t | None \<Rightarrow> []),
                     attachments = [], raw_bytes = Some (utf8_lossy raw), reaction_type = None,
                     reaction_count = None\<rparr>, f1)))))"

subsection \<open>Email/set\<close>

text \<open>Filing a new email and its UIDs.\<close>

definition file_email :: "string \<Rightarrow> email \<Rightarrow> fixture \<Rightarrow> fixture" where
  "file_email i e f = fold (\<lambda>mb f. snd (assign_uid mb i f)) (mailbox_ids e) (f\<lparr>emails := emails f @ [e]\<rparr>)"

definition created_value :: "string \<Rightarrow> int \<Rightarrow> json" where
  "created_value i n = jobj [(''id'', JString i), (''blobId'', JString (''blob-'' @ i)),
     (''threadId'', JString i), (''size'', jint n)]"

definition create_email_step ::
    "(json \<Rightarrow> fixture \<Rightarrow> json + (string \<times> email \<times> fixture)) \<Rightarrow> (email \<Rightarrow> int) \<Rightarrow> string \<times> json \<Rightarrow> set_state \<Rightarrow> set_state" where
  "create_email_step build sz = (\<lambda>(client_id, body) (f, d, out).
     case build body f of
       Inl e \<Rightarrow> (f, d, refuse_create client_id e out)
     | Inr (i, e, f1) \<Rightarrow>
         (file_email i e f1, d\<lparr>email_created := email_created d @ [i]\<rparr>,
          note_created client_id (created_value i (sz e)) out))"

text \<open>The index of an id; a repeated id has the index of its last email.\<close>

definition email_index :: "fixture \<Rightarrow> string \<Rightarrow> nat option" where
  "email_index f = collect_map (\<lambda>(_, e). em_id e) fst (enumerate 0 (emails f))"

definition patch_email_at :: "string \<Rightarrow> nat \<Rightarrow> email \<Rightarrow> fixture \<Rightarrow> fixture" where
  "patch_email_at i n e' f =
     sync_mailbox_uids i (mailbox_ids (emails f ! n)) (mailbox_ids e') (f\<lparr>emails := (emails f)[n := e']\<rparr>)"

definition update_email_step :: "(string \<Rightarrow> nat option) \<Rightarrow> string \<times> json \<Rightarrow> set_state \<Rightarrow> set_state" where
  "update_email_step index = (\<lambda>(i, patch) (f, d, out).
     case index i of
       None \<Rightarrow> (f, d, refuse_update i (set_error ''notFound'' ''no such email'') out)
     | Some n \<Rightarrow>
         (case apply_email_patch patch (emails f ! n) of
            Inl e \<Rightarrow> (f, d, refuse_update i e out)
          | Inr e' \<Rightarrow> (patch_email_at i n e' f, d\<lparr>email_updated := email_updated d @ [i]\<rparr>, note_updated i out)))"

definition destroy_email_step ::
    "(string \<Rightarrow> (string list \<times> string) option) \<Rightarrow> string \<Rightarrow> set_state \<Rightarrow> set_state" where
  "destroy_email_step held_in i = (\<lambda>(f, d, out).
     case held_in i of
       None \<Rightarrow> (f, d, refuse_destroy i (set_error ''notFound'' ''no such email'') out)
     | Some (mbs, a) \<Rightarrow>
         (fold (\<lambda>mb. retire_uid mb i) mbs f,
          d\<lparr>email_destroyed := email_destroyed d @ [i],
            email_destroyed_accounts := email_destroyed_accounts d @ [a]\<rparr>, note_destroyed i out))"

definition destroy_emails :: "string list \<Rightarrow> set_state \<Rightarrow> set_state" where
  "destroy_emails is = (\<lambda>(f, d, out).
     fold (destroy_email_step (collect_map em_id (\<lambda>e. (mailbox_ids e, em_account_id e))
         (filter (\<lambda>e. em_id e \<in> set is) (emails f))))
       is (f\<lparr>emails := filter (\<lambda>e. em_id e \<notin> set is) (emails f)\<rparr>, d, out))"

definition update_emails :: "(string \<times> json) list \<Rightarrow> set_state \<Rightarrow> set_state" where
  "update_emails updates s = fold (update_email_step (email_index (fst s))) updates s"

definition email_set :: "jmap_env \<Rightarrow> json \<Rightarrow> fixture \<Rightarrow> (json + json) \<times> fixture" where
  "email_set env args f = guarded_set f args (\<lambda>_ s.
     destroy_emails (strings_arg ''destroy'' args)
       (update_emails (object_arg ''update'' args)
         (fold (create_email_step (build_email_from_create env) (\<lambda>_. 0)) (object_arg ''create'' args) s)))"

subsection \<open>Email/import\<close>

definition import_response :: "string \<Rightarrow> string \<Rightarrow> string \<Rightarrow> set_outcome \<Rightarrow> json" where
  "import_response a old_state new_state out =
     jobj [(''accountId'', JString a), (''oldState'', JString old_state), (''newState'', JString new_state),
           (''created'', object_or_null (so_created out)), (''notCreated'', object_or_null (so_not_created out))]"

definition email_import :: "jmap_env \<Rightarrow> json \<Rightarrow> fixture \<Rightarrow> (json + json) \<times> fixture" where
  "email_import env args f = with_writer f args (\<lambda>a.
     let (f1, d, out) = fold (create_email_step (build_email_from_import env) em_size) (object_arg ''emails'' args)
           (f, diff_default, set_outcome_empty);
         f2 = snd (mutate (\<lambda>_. (d, f1)) f)
     in (import_response a (state_for f a) (state_for f2 a) out, f2))"

subsection \<open>EmailSubmission/set\<close>

text \<open>\<open>Value::pointer\<close> (RFC 6901): tokens after the leading slash, \<open>~1\<close> and \<open>~0\<close> unescaped.\<close>

fun replace_sub :: "string \<Rightarrow> string \<Rightarrow> string \<Rightarrow> string" where
  "replace_sub pat rep [] = []"
| "replace_sub pat rep (c # cs) =
     (if pat \<noteq> [] \<and> prefix pat (c # cs) then rep @ replace_sub pat rep (drop (length pat - 1) cs)
      else c # replace_sub pat rep cs)"

definition pointer_index :: "string \<Rightarrow> nat option" where
  "pointer_index t =
     (if prefix ''+'' t \<or> (prefix ''0'' t \<and> length t \<noteq> 1) then None else parse_uint 18446744073709551615 t)"

fun pointer_step :: "string \<Rightarrow> json \<Rightarrow> json option" where
  "pointer_step t (JObject kvs) = map_of kvs t"
| "pointer_step t (JArray xs) = Option.bind (pointer_index t) (\<lambda>n. if n < length xs then Some (xs ! n) else None)"
| "pointer_step t _ = None"

definition json_pointer :: "string \<Rightarrow> json \<Rightarrow> json option" where
  "json_pointer path v =
     (if path = [] then Some v
      else if \<not> prefix ''/'' path then None
      else fold (\<lambda>t r. Option.bind r (pointer_step (replace_sub ''~0'' ''~'' (replace_sub ''~1'' ''/'' t))))
             (tl (split_on CHR ''/'' path)) (Some v))"

definition resolve_submission_email_id :: "json \<Rightarrow> (string \<times> json) list \<Rightarrow> string option" where
  "resolve_submission_email_id sub prior =
     (case str_arg ''emailId'' sub of
        Some i \<Rightarrow> Some i
      | None \<Rightarrow>
          Option.bind (jget ''#emailId'' sub) (\<lambda>r.
          Option.bind (str_arg ''resultOf'' r) (\<lambda>call.
          Option.bind (str_arg ''path'' r) (\<lambda>path.
          Option.bind (map_of prior call) (\<lambda>v. Option.bind (json_pointer path v) as_str)))))"

definition email_position :: "fixture \<Rightarrow> string \<Rightarrow> nat option" where
  "email_position f i = (let n = length (takeWhile (\<lambda>e. em_id e \<noteq> i) (emails f))
     in if n < length (emails f) then Some n else None)"

text \<open>What happens to the email once it is submitted.\<close>

definition on_success ::
    "(string \<times> json) list \<Rightarrow> string list \<Rightarrow> string \<Rightarrow> string \<Rightarrow> nat \<Rightarrow> fixture \<times> mutation_diff \<Rightarrow> fixture \<times> mutation_diff" where
  "on_success on_update on_destroy key i n = (\<lambda>(f, d).
     case map_of on_update key of
       Some patch \<Rightarrow>
         (case apply_email_patch patch (emails f ! n) of
            Inr e' \<Rightarrow> (patch_email_at i n e' f, d\<lparr>email_updated := email_updated d @ [i]\<rparr>)
          | Inl _ \<Rightarrow> (f, d))
     | None \<Rightarrow>
         if key \<in> set on_destroy
         then (let e = emails f ! n in
               (fold (\<lambda>mb. retire_uid mb i) (mailbox_ids e)
                  (f\<lparr>emails := take n (emails f) @ drop (Suc n) (emails f)\<rparr>),
                d\<lparr>email_destroyed := email_destroyed d @ [i],
                  email_destroyed_accounts := email_destroyed_accounts d @ [em_account_id e]\<rparr>))
         else (f, d))"

definition submission_step ::
    "(string \<times> json) list \<Rightarrow> (string \<times> json) list \<Rightarrow> string list \<Rightarrow> string \<times> json \<Rightarrow> set_state \<Rightarrow> set_state" where
  "submission_step prior on_update on_destroy = (\<lambda>(create_id, sub) (f, d, out).
     case resolve_submission_email_id sub prior of
       None \<Rightarrow> (f, d, refuse_create create_id (set_error ''invalidProperties'' ''missing or unresolvable emailId'') out)
     | Some i \<Rightarrow>
         (case email_position f i of
            None \<Rightarrow> (f, d, refuse_create create_id
              (set_error ''invalidProperties'' (''emailId '' @ debug_str i @ '' not found'')) out)
          | Some n \<Rightarrow>
              let (f1, d1) = on_success on_update on_destroy (''#'' @ create_id) i n (f, d)
              in (f1, d1, note_created create_id
                   (jobj [(''id'', JString (''submission-'' @ i)), (''emailId'', JString i),
                          (''undoStatus'', JString (case str_arg ''undoStatus'' sub of Some u \<Rightarrow> u | None \<Rightarrow> ''final''))]) out)))"

definition email_submission_set :: "json \<Rightarrow> (string \<times> json) list \<Rightarrow> fixture \<Rightarrow> (json + json) \<times> fixture" where
  "email_submission_set args prior f = with_writer f args (\<lambda>a. run_set a (\<lambda>s.
     let (f1, d, out) = fold (submission_step prior (object_arg ''onSuccessUpdateEmail'' args)
           (strings_arg ''onSuccessDestroyEmail'' args)) (object_arg ''create'' args) s
     in (f1, d, fold note_updated (map fst (object_arg ''update'' args)) out)) f)"

subsection \<open>Mailbox/set\<close>

definition build_mailbox_from_create :: "fixture \<Rightarrow> string \<Rightarrow> json \<Rightarrow> json + mailbox" where
  "build_mailbox_from_create f a body =
     (case as_object body of
        None \<Rightarrow> Inl (set_error ''invalidProperties'' ''create body must be an object'')
      | Some _ \<Rightarrow>
         (case str_arg ''name'' body of
            None \<Rightarrow> Inl (set_error ''invalidProperties'' ''missing name'')
          | Some name \<Rightarrow>
              let parent = str_arg ''parentId'' body in
              and_then (case parent of
                  None \<Rightarrow> Inr ()
                | Some p \<Rightarrow> (case find (\<lambda>m. mb_id m = p) (mailboxes f) of
                    None \<Rightarrow> Inl (set_error ''invalidProperties'' (''unknown parentId '' @ debug_str p))
                  | Some m \<Rightarrow> if mb_account_id m \<noteq> a
                      then Inl (set_error ''invalidProperties'' (''parentId '' @ debug_str p @ '' belongs to account '' @
                             debug_str (mb_account_id m) @ '' but request accountId is '' @ debug_str a))
                      else Inr ())) (\<lambda>_.
              and_then (case str_arg ''role'' body of
                  None \<Rightarrow> Inr None
                | Some r \<Rightarrow> (case role_parse r of
                    Inl e \<Rightarrow> Inl (set_error ''invalidProperties'' e) | Inr x \<Rightarrow> Inr (Some x))) (\<lambda>r.
              Inr \<lparr>mb_id = fresh_mailbox_id f, mb_account_id = a, mb_name = name, mb_role = r,
                   mb_parent_id = parent, sort_order = Option.bind (jget ''sortOrder'' body) as_i64,
                   is_subscribed = (case Option.bind (jget ''isSubscribed'' body) as_bool of
                      Some b \<Rightarrow> b | None \<Rightarrow> True)\<rparr>))))"

definition mailbox_field :: "string \<Rightarrow> json \<Rightarrow> mailbox \<Rightarrow> json + mailbox" where
  "mailbox_field k v m =
     (if k = ''name'' then
        (case as_str v of
           None \<Rightarrow> Inl (set_error ''invalidProperties'' ''name must be a string'')
         | Some s \<Rightarrow> Inr (m\<lparr>mb_name := s\<rparr>))
      else if k = ''parentId'' then
        (if v = JNull then Inr (m\<lparr>mb_parent_id := None\<rparr>)
         else case as_str v of
           Some s \<Rightarrow> Inr (m\<lparr>mb_parent_id := Some s\<rparr>)
         | None \<Rightarrow> Inl (set_error ''invalidProperties'' ''parentId must be a string or null''))
      else if k = ''sortOrder'' then
        (if v = JNull then Inr (m\<lparr>sort_order := None\<rparr>)
         else case as_i64 v of
           Some n \<Rightarrow> Inr (m\<lparr>sort_order := Some n\<rparr>)
         | None \<Rightarrow> Inl (set_error ''invalidProperties'' ''sortOrder must be an integer or null''))
      else if k = ''isSubscribed'' then
        (case as_bool v of
           None \<Rightarrow> Inl (set_error ''invalidProperties'' ''isSubscribed must be a boolean'')
         | Some b \<Rightarrow> Inr (m\<lparr>is_subscribed := b\<rparr>))
      else if k = ''role'' then
        (if v = JNull then Inr (m\<lparr>mb_role := None\<rparr>)
         else case as_str v of
           Some s \<Rightarrow> (case role_parse s of
               Inl e \<Rightarrow> Inl (set_error ''invalidProperties'' e) | Inr r \<Rightarrow> Inr (m\<lparr>mb_role := Some r\<rparr>))
         | None \<Rightarrow> Inl (set_error ''invalidProperties'' ''role must be a string or null''))
      else Inr m)"

fun mailbox_fields :: "(string \<times> json) list \<Rightarrow> mailbox \<Rightarrow> json + mailbox" where
  "mailbox_fields [] m = Inr m"
| "mailbox_fields ((k, v) # kvs) m = and_then (mailbox_field k v m) (mailbox_fields kvs)"

definition apply_mailbox_patch :: "json \<Rightarrow> mailbox \<Rightarrow> json + mailbox" where
  "apply_mailbox_patch patch m =
     (case as_object patch of
        None \<Rightarrow> Inl (set_error ''invalidProperties'' ''patch must be an object'')
      | Some kvs \<Rightarrow> mailbox_fields kvs m)"

definition created_mailbox_value :: "string \<Rightarrow> json" where
  "created_mailbox_value i = jobj [(''id'', JString i), (''totalEmails'', jnat 0), (''unreadEmails'', jnat 0),
     (''totalThreads'', jnat 0), (''unreadThreads'', jnat 0), (''myRights'', my_rights_all_true)]"

definition create_mailbox_step :: "string \<Rightarrow> string \<times> json \<Rightarrow> set_state \<Rightarrow> set_state" where
  "create_mailbox_step a = (\<lambda>(client_id, body) (f, d, out).
     case build_mailbox_from_create f a body of
       Inl e \<Rightarrow> (f, d, refuse_create client_id e out)
     | Inr m \<Rightarrow> (f\<lparr>mailboxes := mailboxes f @ [m]\<rparr>, d\<lparr>mailbox_created := mailbox_created d @ [mb_id m]\<rparr>,
         note_created client_id (created_mailbox_value (mb_id m)) out))"

definition update_mailbox_step :: "string \<times> json \<Rightarrow> set_state \<Rightarrow> set_state" where
  "update_mailbox_step = (\<lambda>(i, patch) (f, d, out).
     case find (\<lambda>m. mb_id m = i) (mailboxes f) of
       None \<Rightarrow> (f, d, refuse_update i (set_error ''notFound'' ''no such mailbox'') out)
     | Some m \<Rightarrow>
         (case apply_mailbox_patch patch m of
            Inl e \<Rightarrow> (f, d, refuse_update i e out)
          | Inr m' \<Rightarrow> (f\<lparr>mailboxes := update_first (\<lambda>m. mb_id m = i) (\<lambda>_. m') (mailboxes f)\<rparr>,
              d\<lparr>mailbox_updated := mailbox_updated d @ [i]\<rparr>, note_updated i out)))"

definition destroy_mailbox_step :: "string \<Rightarrow> set_state \<Rightarrow> set_state" where
  "destroy_mailbox_step i = (\<lambda>(f, d, out).
     if list_ex (\<lambda>e. i \<in> set (mailbox_ids e)) (emails f)
     then (f, d, refuse_destroy i (set_error ''mailboxHasEmail'' ''mailbox still contains emails; destroy them first'') out)
     else case find (\<lambda>m. mb_id m = i) (mailboxes f) of
       None \<Rightarrow> (f, d, refuse_destroy i (set_error ''notFound'' ''no such mailbox'') out)
     | Some m \<Rightarrow> (f\<lparr>mailboxes := filter (\<lambda>m. mb_id m \<noteq> i) (mailboxes f)\<rparr>,
         d\<lparr>mailbox_destroyed := mailbox_destroyed d @ [i],
           mailbox_destroyed_accounts := mailbox_destroyed_accounts d @ [mb_account_id m]\<rparr>, note_destroyed i out))"

definition mailbox_set :: "json \<Rightarrow> fixture \<Rightarrow> (json + json) \<times> fixture" where
  "mailbox_set args f = guarded_set f args (\<lambda>a s.
     fold destroy_mailbox_step (strings_arg ''destroy'' args)
       (fold update_mailbox_step (object_arg ''update'' args)
         (fold (create_mailbox_step a) (object_arg ''create'' args) s)))"

end
