(* ===== verification/Jmap_Contacts.thy ===== *)
theory Jmap_Contacts
  imports Jmap_Set
begin

text \<open>
  JMAP contacts (\<open>src/jmap_contacts.rs\<close>) and principals (\<open>src/jmap_principals.rs\<close>): address books and
  cards, the card query, the union of the folder deltas, and \<open>ContactCard/set\<close>.
\<close>

subsection \<open>Principals\<close>

definition principal_id_prefix :: string where "principal_id_prefix = ''principal-''"

definition principal_id_for :: "string \<Rightarrow> string" where
  "principal_id_for a = principal_id_prefix @ a"

definition account_id_for_principal :: "string \<Rightarrow> string option" where
  "account_id_for_principal p = strip_prefix principal_id_prefix p"

definition serialize_principal :: "account \<Rightarrow> json" where
  "serialize_principal a =
     jobj [(''id'', JString (principal_id_for (ac_id a))), (''type'', JString ''individual''),
           (''name'', JString (ac_name a)), (''email'', JString (ac_name a))]"

definition principal_get :: "fixture \<Rightarrow> json \<Rightarrow> json + json" where
  "principal_get f args =
     and_then (require_account f args) (\<lambda>a.
     and_then (get_objects
         (\<lambda>i. map_option serialize_principal (Option.bind (account_id_for_principal i) (find_account f)))
         (map serialize_principal (accounts f)) (jget ''ids'' args)) (\<lambda>r.
     Inr (jobj [(''accountId'', JString a), (''state'', JString (primary_state f)),
                (''list'', JArray (fst r)), (''notFound'', JArray (snd r))])))"

subsection \<open>Address books\<close>

definition book_rights :: "string list" where
  "book_rights = [''mayRead'', ''mayWrite'', ''mayShare'', ''mayDelete'']"

definition serialize_address_book :: "contact_folder \<Rightarrow> json" where
  "serialize_address_book c =
     jobj [(''id'', JString (cf_id c)), (''name'', JString (cf_display_name c)), (''description'', JNull),
           (''sortOrder'', jnat 0), (''isDefault'', JBool (cf_is_default c)), (''isSubscribed'', JBool True),
           (''myRights'', bool_map book_rights)]"

definition address_book_get :: "fixture \<Rightarrow> json \<Rightarrow> json + json" where
  "address_book_get f args =
     and_then (require_account f args) (\<lambda>a.
     and_then (get_objects
         (\<lambda>i. map_option serialize_address_book (find (\<lambda>c. cf_id c = i) (contact_folders_for f a)))
         (map serialize_address_book (contact_folders_for f a)) (jget ''ids'' args)) (\<lambda>r.
     Inr (get_response f a r)))"

subsection \<open>Cards\<close>

definition phone_kind_fields :: "string option \<Rightarrow> json \<times> json" where
  "phone_kind_fields kind = (case kind of
      Some k \<Rightarrow> if k = ''home'' \<or> k = ''work'' then (bool_map [k], JNull) else (JNull, bool_map [k])
    | None \<Rightarrow> (JNull, JNull))"

text \<open>Entries keyed by a letter and their 1-based position.\<close>

definition numbered :: "string \<Rightarrow> ('a \<Rightarrow> json) \<Rightarrow> 'a list \<Rightarrow> json" where
  "numbered p show xs = jobj (map (\<lambda>(i, x). (p @ show_nat (i + 1), show x)) (enumerate 0 xs))"

definition serialize_phone :: "contact_phone \<Rightarrow> json" where
  "serialize_phone p = (let (contexts, features) = phone_kind_fields (cp_kind p) in
     jobj [(''@type'', JString ''Phone''), (''number'', JString (cp_number p)), (''contexts'', contexts),
           (''features'', features)])"

definition card_fields :: "contact \<Rightarrow> (string \<times> json) list" where
  "card_fields c = ([(''@type'', JString ''Card''), (''version'', JString ''1.0''), (''id'', JString (ct_id c)),
            (''uid'', JString (ct_id c)), (''addressBookIds'', bool_map [ct_folder_id c]),
            (''kind'', JString ''individual'')] @
       (case ct_display_name c of
          Some n \<Rightarrow> [(''name'', jobj [(''@type'', JString ''Name''), (''full'', JString n)])] | None \<Rightarrow> []) @
       (if ct_emails c \<noteq> [] then [(''emails'', numbered ''e''
          (\<lambda>e. jobj [(''@type'', JString ''EmailAddress''), (''address'', JString (ce_address e))]) (ct_emails c))] else []) @
       (if ct_phones c \<noteq> [] then [(''phones'', numbered ''p'' serialize_phone (ct_phones c))] else []) @
       (if ct_company c \<noteq> None \<or> ct_job_title c \<noteq> None
        then [(''organizations'', jobj [(''o1'', jobj ([(''@type'', JString ''Organization'')] @
           (case ct_company c of Some n \<Rightarrow> [(''name'', JString n)] | None \<Rightarrow> []) @
           (case ct_job_title c of Some n \<Rightarrow> [(''title'', JString n)] | None \<Rightarrow> [])))])] else []) @
       (case ct_notes c of
          Some n \<Rightarrow> [(''notes'', jobj [(''n1'', jobj [(''@type'', JString ''Note''), (''note'', JString n)])])] | None \<Rightarrow> []))"

definition serialize_contact_card :: "contact \<Rightarrow> json" where
  "serialize_contact_card c = jobj (card_fields c)"

definition contact_card_get :: "fixture \<Rightarrow> json \<Rightarrow> json + json" where
  "contact_card_get f args =
     and_then (require_account f args) (\<lambda>a.
     and_then (get_objects
         (\<lambda>i. map_option serialize_contact_card (find (\<lambda>c. ct_id c = i) (contacts_for f a)))
         (map serialize_contact_card (contacts_for f a)) (jget ''ids'' args)) (\<lambda>r.
     Inr (get_response f a r)))"

subsection \<open>The card query\<close>

record card_filter =
  in_address_book :: "string option"
  card_text :: "string option"

definition card_filter_default :: card_filter where
  "card_filter_default = \<lparr>in_address_book = None, card_text = None\<rparr>"

definition card_matches :: "jmap_env \<Rightarrow> card_filter \<Rightarrow> contact \<Rightarrow> bool" where
  "card_matches env q c \<longleftrightarrow>
     (case in_address_book q of Some b \<Rightarrow> ct_folder_id c = b | None \<Rightarrow> True) \<and>
     (case card_text q of
        Some t \<Rightarrow>
          let found = (\<lambda>s. contains_sub (je_lower env t) (je_lower env s)) in
          (case ct_display_name c of Some n \<Rightarrow> found n | None \<Rightarrow> False) \<or>
          list_ex (\<lambda>e. found (ce_address e)) (ct_emails c)
      | None \<Rightarrow> True)"

definition card_filter_field :: "string \<Rightarrow> json \<Rightarrow> card_filter \<Rightarrow> json + card_filter" where
  "card_filter_field k v q =
     (if k = ''inAddressBook'' then
        (case as_str v of
           None \<Rightarrow> Inl (set_error ''invalidArguments'' ''filter.inAddressBook must be a string'')
         | Some s \<Rightarrow> Inr (q\<lparr>in_address_book := Some s\<rparr>))
      else if k = ''text'' then
        (case as_str v of
           None \<Rightarrow> Inl (set_error ''invalidArguments'' ''filter.text must be a string'')
         | Some s \<Rightarrow> Inr (q\<lparr>card_text := Some s\<rparr>))
      else Inl (set_error ''unsupportedFilter'' (''v0 does not support filter.'' @ debug_str k)))"

fun card_filter_fields :: "(string \<times> json) list \<Rightarrow> card_filter \<Rightarrow> json + card_filter" where
  "card_filter_fields [] q = Inr q"
| "card_filter_fields ((k, v) # kvs) q = and_then (card_filter_field k v q) (card_filter_fields kvs)"

definition parse_card_filter :: "json option \<Rightarrow> json + card_filter" where
  "parse_card_filter raw =
     (case raw of
        None \<Rightarrow> Inr card_filter_default
      | Some JNull \<Rightarrow> Inr card_filter_default
      | Some v \<Rightarrow> (case as_object v of
          None \<Rightarrow> Inl (set_error ''invalidArguments'' ''filter must be an object'')
        | Some kvs \<Rightarrow> card_filter_fields kvs card_filter_default))"

text \<open>The page of ids the contact and event queries answer.\<close>

definition ids_response :: "fixture \<Rightarrow> string \<Rightarrow> nat \<Rightarrow> nat \<Rightarrow> bool \<Rightarrow> string list \<Rightarrow> json" where
  "ids_response f a position limit counted is =
     jobj ([(''accountId'', JString a), (''queryState'', JString (state_for f a)),
            (''canCalculateChanges'', JBool False), (''position'', jnat position),
            (''ids'', string_array (window position limit is))] @
           (if counted then [(''total'', jnat (length is))] else []))"

definition matching_cards :: "jmap_env \<Rightarrow> fixture \<Rightarrow> string \<Rightarrow> card_filter \<Rightarrow> contact list" where
  "matching_cards env f a q = sort_key ct_id (filter (card_matches env q) (contacts_for f a))"

definition contact_card_query :: "jmap_env \<Rightarrow> fixture \<Rightarrow> json \<Rightarrow> json + json" where
  "contact_card_query env f args =
     and_then (require_account f args) (\<lambda>a.
     and_then (parse_card_filter (jget ''filter'' args)) (\<lambda>q.
     and_then (query_position args) (\<lambda>position.
     and_then (query_limit args) (\<lambda>limit.
     Inr (ids_response f a position limit (bool_arg ''calculateTotal'' args)
            (map ct_id (matching_cards env f a q)))))))"

subsection \<open>Changes\<close>

text \<open>The union of the deltas of the account's folders; \<open>None\<close> as soon as one of them has none.\<close>

fun union_deltas :: "(string \<Rightarrow> delta_set option) \<Rightarrow> string list \<Rightarrow> delta_set option" where
  "union_deltas delta [] = Some \<lparr>ds_created = [], ds_updated = [], ds_destroyed = []\<rparr>"
| "union_deltas delta (i # is) = Option.bind (delta i) (\<lambda>d. map_option (\<lambda>r.
     \<lparr>ds_created = ds_created d @ ds_created r, ds_updated = ds_updated d @ ds_updated r,
      ds_destroyed = ds_destroyed d @ ds_destroyed r\<rparr>) (union_deltas delta is))"

definition account_contact_delta :: "fixture \<Rightarrow> string \<Rightarrow> string \<Rightarrow> delta_set option" where
  "account_contact_delta f since a =
     (let folders = map cf_id (contact_folders_for f a) in
      if folders = [] then contact_delta_since_any f since a
      else map_option (\<lambda>d. \<lparr>ds_created = dedup_preserving_order (ds_created d),
             ds_updated = dedup_preserving_order (ds_updated d),
             ds_destroyed = dedup_preserving_order (ds_destroyed d)\<rparr>)
           (union_deltas (contact_delta_since f since) folders))"

definition contact_card_changes :: "fixture \<Rightarrow> json \<Rightarrow> json + json" where
  "contact_card_changes f args = changes_method account_contact_delta
     (\<lambda>a since d. changes_response a since (state_for f a) d False) f args"

subsection \<open>ContactCard/set\<close>

text \<open>The first key mapped to \<open>true\<close>.\<close>

definition first_true_key :: "json option \<Rightarrow> string option" where
  "first_true_key v = Option.bind (Option.bind v as_object)
     (\<lambda>kvs. map_option fst (find (\<lambda>kv. as_bool (snd kv) = Some True) kvs))"

definition first_address_book :: "json option \<Rightarrow> string option" where
  "first_address_book v = first_true_key v"

definition name_full :: "json option \<Rightarrow> string option" where
  "name_full v = Option.bind (Option.bind v as_object) (\<lambda>kvs. Option.bind (map_of kvs ''full'') as_str)"

definition map_values :: "json option \<Rightarrow> json list" where
  "map_values v = (case Option.bind v as_object of Some kvs \<Rightarrow> map snd kvs | None \<Rightarrow> [])"

definition parse_emails :: "json option \<Rightarrow> contact_email list" where
  "parse_emails v = List.map_filter
     (\<lambda>e. map_option (\<lambda>a. \<lparr>ce_address = a, ce_name = None\<rparr>) (str_arg ''address'' e)) (map_values v)"

definition parse_phones :: "json option \<Rightarrow> contact_phone list" where
  "parse_phones v = List.map_filter
     (\<lambda>p. map_option (\<lambda>n. \<lparr>cp_number = n, cp_kind = (case first_true_key (jget ''features'' p) of
            Some k \<Rightarrow> Some k | None \<Rightarrow> first_true_key (jget ''contexts'' p))\<rparr>) (str_arg ''number'' p)) (map_values v)"

definition parse_organization :: "json option \<Rightarrow> string option \<times> string option" where
  "parse_organization v = (case map_values v of
      [] \<Rightarrow> (None, None)
    | org # _ \<Rightarrow> (str_arg ''name'' org, str_arg ''title'' org))"

definition parse_notes :: "json option \<Rightarrow> string option" where
  "parse_notes v = (case List.map_filter (str_arg ''note'') (map_values v) of n # _ \<Rightarrow> Some n | [] \<Rightarrow> None)"

definition build_contact_from_create :: "string \<Rightarrow> json \<Rightarrow> fixture \<Rightarrow> json + (string \<times> contact \<times> fixture)" where
  "build_contact_from_create request_account body f =
     (case as_object body of
        None \<Rightarrow> Inl (set_error ''invalidProperties'' ''create body must be an object'')
      | Some _ \<Rightarrow>
         (case first_address_book (jget ''addressBookIds'' body) of
            None \<Rightarrow> Inl (set_error ''invalidProperties'' ''missing addressBookIds'')
          | Some b \<Rightarrow>
             (case find (\<lambda>c. cf_id c = b) (contact_folders f) of
                None \<Rightarrow> Inl (set_error ''invalidProperties'' (''unknown addressBook '' @ debug_str b))
              | Some folder \<Rightarrow>
                  if cf_account_id folder \<noteq> request_account
                  then Inl (set_error ''invalidProperties'' (''addressBook '' @ debug_str b @ '' belongs to account '' @
                         debug_str (cf_account_id folder) @ '' but request accountId is '' @ debug_str request_account))
                  else
                    let (company, title) = parse_organization (jget ''organizations'' body);
                        (i, f1) = mint_contact_id f
                    in Inr (i,
                      \<lparr>ct_id = i, ct_account_id = cf_account_id folder, ct_folder_id = b,
                       ct_display_name = name_full (jget ''name'' body), ct_emails = parse_emails (jget ''emails'' body),
                       ct_phones = parse_phones (jget ''phones'' body), ct_company = company, ct_job_title = title,
                       ct_department = None, ct_notes = parse_notes (jget ''notes'' body), ct_groups = [],
                       malformed_vcard = False\<rparr>, f1))))"

text \<open>One property of a contact patch; a property without a fixture slot is ignored.\<close>

definition contact_field :: "fixture \<Rightarrow> string \<Rightarrow> json \<Rightarrow> contact \<Rightarrow> json + contact" where
  "contact_field f k v c =
     (if k = ''name'' then Inr (c\<lparr>ct_display_name := (if v = JNull then None else name_full (Some v))\<rparr>)
      else if k = ''emails'' then Inr (c\<lparr>ct_emails := parse_emails (Some v)\<rparr>)
      else if k = ''phones'' then Inr (c\<lparr>ct_phones := parse_phones (Some v)\<rparr>)
      else if k = ''organizations'' then
        (if v = JNull then Inr (c\<lparr>ct_company := None, ct_job_title := None\<rparr>)
         else let (company, title) = parse_organization (Some v)
              in Inr (c\<lparr>ct_company := company, ct_job_title := title\<rparr>))
      else if k = ''notes'' then Inr (c\<lparr>ct_notes := (if v = JNull then None else parse_notes (Some v))\<rparr>)
      else if k = ''addressBookIds'' then
        (case first_address_book (Some v) of
           None \<Rightarrow> Inr c
         | Some b \<Rightarrow> if list_ex (\<lambda>d. cf_id d = b) (contact_folders f) then Inr (c\<lparr>ct_folder_id := b\<rparr>)
                     else Inl (set_error ''invalidProperties'' (''unknown addressBook '' @ debug_str b)))
      else Inr c)"

fun contact_fields :: "fixture \<Rightarrow> (string \<times> json) list \<Rightarrow> contact \<Rightarrow> json + contact" where
  "contact_fields f [] c = Inr c"
| "contact_fields f ((k, v) # kvs) c = and_then (contact_field f k v c) (contact_fields f kvs)"

definition apply_contact_patch :: "fixture \<Rightarrow> json \<Rightarrow> contact \<Rightarrow> json + contact" where
  "apply_contact_patch f patch c =
     (case as_object patch of
        None \<Rightarrow> Inl (set_error ''invalidProperties'' ''patch must be an object'')
      | Some kvs \<Rightarrow> contact_fields f kvs c)"

definition id_and_uid :: "string \<Rightarrow> json" where
  "id_and_uid i = jobj [(''id'', JString i), (''uid'', JString i)]"

definition create_contact_step :: "string \<Rightarrow> string \<times> json \<Rightarrow> set_state \<Rightarrow> set_state" where
  "create_contact_step a = (\<lambda>(client_id, body) (f, d, out).
     case build_contact_from_create a body f of
       Inl e \<Rightarrow> (f, d, refuse_create client_id e out)
     | Inr (i, c, f1) \<Rightarrow> (f1\<lparr>contacts := contacts f1 @ [c]\<rparr>, d\<lparr>contact_created := contact_created d @ [i]\<rparr>,
         note_created client_id (id_and_uid i) out))"

definition update_contact_step :: "string \<times> json \<Rightarrow> set_state \<Rightarrow> set_state" where
  "update_contact_step = (\<lambda>(i, patch) (f, d, out).
     case find (\<lambda>c. ct_id c = i) (contacts f) of
       None \<Rightarrow> (f, d, refuse_update i (set_error ''notFound'' ''no such contact'') out)
     | Some c \<Rightarrow>
         (case apply_contact_patch f patch c of
            Inl e \<Rightarrow> (f, d, refuse_update i e out)
          | Inr c' \<Rightarrow> (f\<lparr>contacts := update_first (\<lambda>c. ct_id c = i) (\<lambda>_. c') (contacts f)\<rparr>,
              d\<lparr>contact_updated := contact_updated d @ [i]\<rparr>, note_updated i out)))"

definition destroy_contact_step :: "string \<Rightarrow> set_state \<Rightarrow> set_state" where
  "destroy_contact_step i = (\<lambda>(f, d, out).
     case find (\<lambda>c. ct_id c = i) (contacts f) of
       None \<Rightarrow> (f, d, refuse_destroy i (set_error ''notFound'' ''no such contact'') out)
     | Some c \<Rightarrow> (f\<lparr>contacts := remove_first (\<lambda>c. ct_id c = i) (contacts f)\<rparr>,
         d\<lparr>contact_destroyed := contact_destroyed d @ [i],
           contact_destroyed_parents := contact_destroyed_parents d @ [ct_folder_id c]\<rparr>, note_destroyed i out))"

definition contact_card_set :: "json \<Rightarrow> fixture \<Rightarrow> (json + json) \<times> fixture" where
  "contact_card_set args f = guarded_set f args (\<lambda>a s.
     fold destroy_contact_step (strings_arg ''destroy'' args)
       (fold update_contact_step (object_arg ''update'' args)
         (fold (create_contact_step a) (object_arg ''create'' args) s)))"

end
