(* ===== verification/Jmap_Calendar.thy ===== *)
theory Jmap_Calendar
  imports Jmap_Contacts
begin

text \<open>
  JMAP calendars (\<open>src/jmap_calendar.rs\<close>): calendars and events as JSCalendar objects, the event query,
  the changes methods, the durations, and \<open>CalendarEvent/set\<close>. The set method is \<open>None\<close> where an
  arithmetic overflow panics inside the mutation.
\<close>

subsection \<open>Calendars\<close>

definition calendar_right_names :: "string list" where
  "calendar_right_names = [''mayReadFreeBusy'', ''mayReadItems'', ''mayWriteAll'', ''mayWriteOwn'',
     ''mayUpdatePrivate'', ''mayRSVP'', ''mayShare'', ''mayDelete'']"

definition calendar_rights :: json where
  "calendar_rights = jobj (map (\<lambda>k. (k, JBool True)) calendar_right_names)"

definition serialize_calendar :: "calendar \<Rightarrow> json" where
  "serialize_calendar c =
     jobj [(''id'', JString (cal_id c)), (''name'', JString (cal_name c)),
           (''color'', jstring_or_null (cal_color c)), (''isDefault'', JBool (cal_is_default c)),
           (''isVisible'', JBool True), (''isSubscribed'', JBool True), (''sortOrder'', jnat 0),
           (''timeZone'', JString ''UTC''), (''myRights'', calendar_rights)]"

definition calendar_get :: "fixture \<Rightarrow> json \<Rightarrow> json + json" where
  "calendar_get f args =
     and_then (require_account f args) (\<lambda>a.
     and_then (get_objects
         (\<lambda>i. map_option serialize_calendar (find (\<lambda>c. cal_id c = i) (calendars_for f a)))
         (map serialize_calendar (calendars_for f a)) (jget ''ids'' args)) (\<lambda>r.
     Inr (get_response f a r)))"

definition calendar_changes :: "fixture \<Rightarrow> json \<Rightarrow> json + json" where
  "calendar_changes f args = changes_method calendar_delta_since_account
     (\<lambda>a since d. changes_response a since (state_for f a) d False) f args"

definition calendar_event_changes :: "fixture \<Rightarrow> json \<Rightarrow> json + json" where
  "calendar_event_changes f args = changes_method event_delta_since_any
     (\<lambda>a since d. changes_response a since (state_for f a) d False) f args"

subsection \<open>Durations\<close>

text \<open>One unit of a printed duration; absent when there is nothing of it.\<close>

definition unit_text :: "int \<Rightarrow> string \<Rightarrow> string" where
  "unit_text n u = (if n > 0 then show_int n @ u else [])"

definition format_duration_iso8601 :: "int \<Rightarrow> string" where
  "format_duration_iso8601 secs =
     (if secs \<le> 0 then ''PT0S''
      else ''P'' @ unit_text (secs div 86400) ''D'' @
        (let s = secs mod 86400 in
         if s > 0 then ''T'' @ unit_text (s div 3600) ''H'' @ unit_text (s mod 3600 div 60) ''M'' @
           unit_text (s mod 60) ''S''
         else []))"

text \<open>
  The scanner's state: the seconds so far, whether a \<open>T\<close> was seen, the digits collected. Where the product or
  the sum leaves \<open>i64\<close>, adding a unit is \<open>None\<close> in a build with overflow checks and wraps in one without.
\<close>

definition add_unit :: "bool \<Rightarrow> int \<Rightarrow> int \<Rightarrow> string \<Rightarrow> int option" where
  "add_unit checks per secs buf =
     (case parse_uint (nat i64_max) buf of
        Some n \<Rightarrow> Option.bind (i64_result checks (int n * per)) (\<lambda>x. i64_result checks (secs + x))
      | None \<Rightarrow> Some secs)"

definition duration_step :: "bool \<Rightarrow> char \<Rightarrow> int \<times> bool \<times> string \<Rightarrow> (int \<times> bool \<times> string) option" where
  "duration_step checks c = (\<lambda>(secs, in_time, buf).
     if c = CHR ''P'' then Some (secs, in_time, buf)
     else if c = CHR ''T'' then Some (secs, True, buf)
     else if c = CHR ''W'' then map_option (\<lambda>s. (s, in_time, [])) (add_unit checks (7 * 86400) secs buf)
     else if c = CHR ''D'' then map_option (\<lambda>s. (s, in_time, [])) (add_unit checks 86400 secs buf)
     else if c = CHR ''H'' \<and> in_time then map_option (\<lambda>s. (s, in_time, [])) (add_unit checks 3600 secs buf)
     else if c = CHR ''M'' \<and> in_time then map_option (\<lambda>s. (s, in_time, [])) (add_unit checks 60 secs buf)
     else if c = CHR ''S'' \<and> in_time then map_option (\<lambda>s. (s, in_time, [])) (add_unit checks 1 secs buf)
     else if is_digit c then Some (secs, in_time, buf @ [c])
     else Some (secs, in_time, buf))"

fun duration_scan :: "bool \<Rightarrow> string \<Rightarrow> int \<times> bool \<times> string \<Rightarrow> int option" where
  "duration_scan checks [] st = Some (fst st)"
| "duration_scan checks (c # cs) st = Option.bind (duration_step checks c st) (duration_scan checks cs)"

definition parse_iso8601_duration :: "bool \<Rightarrow> string \<Rightarrow> int option" where
  "parse_iso8601_duration checks s = duration_scan checks s (0, False, [])"

subsection \<open>Times\<close>

definition ns :: int where "ns = 1000000000"

text \<open>\<open>a.duration_since(b).as_secs()\<close> and the range of \<open>Timestamp\<close>.\<close>

definition seconds_between :: "timestamp \<Rightarrow> timestamp \<Rightarrow> int" where
  "seconds_between b a = as_second (a - b)"

definition ts_min :: timestamp where "ts_min = - 377705023201 * ns"
definition ts_max :: timestamp where "ts_max = 253402207200 * ns + 999999999"

definition ts_fit :: "timestamp \<Rightarrow> timestamp option" where
  "ts_fit t = fit_int ts_min ts_max t"

definition from_second :: "int \<Rightarrow> timestamp option" where
  "from_second s = map_option (\<lambda>s. s * ns) (fit_int (- 377705023201) 253402207200 s)"

definition date_format :: string where "date_format = ''%Y-%m-%d''"
definition datetime_format :: string where "datetime_format = ''%Y-%m-%dT%H:%M:%S''"

text \<open>The day count is at least one, so rounding a negative quotient down or towards zero is the same.\<close>

definition format_jscalendar_times :: "jmap_env \<Rightarrow> timestamp \<Rightarrow> timestamp \<Rightarrow> bool \<Rightarrow> string \<times> string" where
  "format_jscalendar_times env start stop all_day =
     (if all_day
      then (cl_strftime (je_civil env) date_format start,
            ''P'' @ show_int (max (seconds_between start stop div 86400) 1) @ ''D'')
      else (cl_strftime (je_civil env) datetime_format start,
            format_duration_iso8601 (max (seconds_between start stop) 0)))"

text \<open>
  Reading a start and a duration: \<open>None\<close> where the duration overflows in a build with overflow checks,
  \<open>Some None\<close> where they do not parse.
\<close>

definition parse_jscalendar_start :: "jmap_env \<Rightarrow> string \<Rightarrow> bool \<Rightarrow> timestamp option" where
  "parse_jscalendar_start env start all_day =
     (if all_day then Option.bind (cl_strptime_date (je_civil env) date_format start) (utc_midnight (je_civil env))
      else case cl_strptime_datetime (je_civil env) datetime_format start of
        Some dt \<Rightarrow> utc (je_civil env) dt
      | None \<Rightarrow> je_parse_ts env start)"

definition parse_jscalendar_times ::
    "jmap_env \<Rightarrow> string \<Rightarrow> string \<Rightarrow> bool \<Rightarrow> (timestamp \<times> timestamp) option option" where
  "parse_jscalendar_times env start duration all_day =
     (case parse_jscalendar_start env start all_day of
        None \<Rightarrow> Some None
      | Some st \<Rightarrow> map_option (\<lambda>secs. map_option (Pair st) (ts_fit (st + secs * ns)))
          (parse_iso8601_duration (je_overflow_checks env) duration))"

subsection \<open>Events\<close>

definition jscalendar_alert_action :: "string option \<Rightarrow> string option" where
  "jscalendar_alert_action action =
     (case action of
        None \<Rightarrow> Some ''display''
      | Some a \<Rightarrow> if eq_ci a ''display'' then Some ''display'' else if eq_ci a ''email'' then Some ''email'' else None)"

definition ical_utc_to_rfc3339 :: "jmap_env \<Rightarrow> string \<Rightarrow> string" where
  "ical_utc_to_rfc3339 env v =
     (case cl_strptime_datetime (je_civil env) ''%Y%m%dT%H%M%S'' (trim_end_matches CHR ''Z'' v) of
        Some dt \<Rightarrow> cl_strftime (je_civil env) ''%Y-%m-%dT%H:%M:%SZ'' dt
      | None \<Rightarrow> v)"

definition alert_trigger :: "jmap_env \<Rightarrow> reminder \<Rightarrow> json" where
  "alert_trigger env r =
     (if rm_absolute r
      then jobj [(''@type'', JString ''AbsoluteTrigger''), (''when'', JString (ical_utc_to_rfc3339 env (rm_trigger r)))]
      else jobj [(''@type'', JString ''OffsetTrigger''), (''offset'', JString (rm_trigger r)),
                 (''relativeTo'', JString (if related_end r then ''end'' else ''start''))])"

definition serialize_alert :: "jmap_env \<Rightarrow> reminder \<Rightarrow> json" where
  "serialize_alert env r =
     jobj ([(''@type'', JString ''Alert''), (''trigger'', alert_trigger env r)] @
       (case jscalendar_alert_action (rm_action r) of Some a \<Rightarrow> [(''action'', JString a)] | None \<Rightarrow> []))"

definition serialize_participant :: "address \<Rightarrow> bool \<Rightarrow> participation_status \<Rightarrow> json" where
  "serialize_participant a owner status =
     jobj ([(''@type'', JString ''Participant'')] @
       (case ad_name a of Some n \<Rightarrow> [(''name'', JString n)] | None \<Rightarrow> []) @
       [(''email'', JString (ad_email a)), (''sendTo'', jobj [(''imip'', JString (''mailto:'' @ ad_email a))]),
        (''roles'', bool_map (if owner then [''owner'', ''attendee''] else [''attendee''])),
        (''participationStatus'', JString (as_jscalendar status))])"

definition participant_values :: "event \<Rightarrow> (string \<times> json) list" where
  "participant_values e =
     (case organizer e of Some a \<Rightarrow> [(''org'', serialize_participant a True Accepted)] | None \<Rightarrow> []) @
     map (\<lambda>(i, t). (''att'' @ show_nat (i + 1), serialize_participant (ea_address t) False (ea_status t)))
       (enumerate 0 (attendees e))"

definition serialize_event :: "jmap_env \<Rightarrow> event \<Rightarrow> json" where
  "serialize_event env e =
     (let (start, duration) = format_jscalendar_times env (ev_start e) (ev_end e) (is_all_day e) in
      jobj ([(''@type'', JString ''Event''), (''id'', JString (ev_id e)), (''uid'', JString (ev_id e)),
             (''calendarIds'', bool_map [ev_calendar_id e]), (''title'', JString (ev_subject e))] @
        (case event.body_text e of Some d \<Rightarrow> [(''description'', JString d)] | None \<Rightarrow> []) @
        [(''start'', JString start), (''duration'', JString duration),
         (''timeZone'', JString (case time_zone e of Some z \<Rightarrow> z | None \<Rightarrow> ''UTC''))] @
        (if is_all_day e then [(''showWithoutTime'', JBool True)] else []) @
        [(''status'', JString ''confirmed'')] @
        (case ev_location e of
           Some l \<Rightarrow> [(''locations'', jobj [(''loc1'', jobj [(''@type'', JString ''Location''), (''name'', JString l)])])]
         | None \<Rightarrow> []) @
        (if participant_values e \<noteq> [] then [(''participants'', jobj (participant_values e))] else []) @
        (case Option.bind (recurrence_rule e)
                (\<lambda>r. jscalendar_recurrence_rule (je_civil env) (rule_parse (je_civil env) r)) of
           Some r \<Rightarrow> [(''recurrenceRules'', JArray [r])] | None \<Rightarrow> []) @
        (if reminders e \<noteq> [] then [(''alerts'', numbered ''alert'' (serialize_alert env) (reminders e))] else [])))"

definition calendar_event_get :: "jmap_env \<Rightarrow> fixture \<Rightarrow> json \<Rightarrow> json + json" where
  "calendar_event_get env f args =
     and_then (require_account f args) (\<lambda>a.
     and_then (get_objects
         (\<lambda>i. map_option (serialize_event env) (find (\<lambda>e. ev_id e = i) (events_for f a)))
         (map (serialize_event env) (events_for f a)) (jget ''ids'' args)) (\<lambda>r.
     Inr (get_response f a r)))"

subsection \<open>The event query\<close>

record event_filter =
  in_calendar :: "string option"
  starts_after :: "int option"
  ends_before :: "int option"
  event_text :: "string option"

definition event_filter_default :: event_filter where
  "event_filter_default = \<lparr>in_calendar = None, starts_after = None, ends_before = None, event_text = None\<rparr>"

definition event_matches :: "jmap_env \<Rightarrow> event_filter \<Rightarrow> event \<Rightarrow> bool" where
  "event_matches env q e \<longleftrightarrow>
     (case in_calendar q of Some c \<Rightarrow> ev_calendar_id e = c | None \<Rightarrow> True) \<and>
     event_matches_range (je_civil env) (ev_start e) (ev_end e) (recurrence_rule e)
       (Option.bind (starts_after q) from_second) (Option.bind (ends_before q) from_second) \<and>
     (case event_text q of
        Some t \<Rightarrow>
          let found = (\<lambda>s. contains_sub (je_lower env t) (je_lower env s)) in
          found (ev_subject e) \<or> (case event.body_text e of Some d \<Rightarrow> found d | None \<Rightarrow> False)
      | None \<Rightarrow> True)"

definition parse_event_utc :: "jmap_env \<Rightarrow> json \<Rightarrow> json + int" where
  "parse_event_utc env v =
     (case as_i64 v of
        Some i \<Rightarrow> Inr i
      | None \<Rightarrow> (case as_str v of
          None \<Rightarrow> Inl (set_error ''invalidArguments'' ''after/before must be a date-time or unix seconds'')
        | Some s \<Rightarrow> (case je_parse_ts env s of
            Some t \<Rightarrow> Inr (as_second t)
          | None \<Rightarrow> (case Option.bind (cl_strptime_datetime (je_civil env) datetime_format s) (utc (je_civil env)) of
              Some t \<Rightarrow> Inr (as_second t)
            | None \<Rightarrow> Inl (set_error ''invalidArguments''
                ''after/before must be an RFC3339 UTCDate, bare JSCalendar date-time, or unix seconds'')))))"

definition event_filter_field :: "jmap_env \<Rightarrow> string \<Rightarrow> json \<Rightarrow> event_filter \<Rightarrow> json + event_filter" where
  "event_filter_field env k v q =
     (if k = ''inCalendar'' then
        (case as_str v of
           None \<Rightarrow> Inl (set_error ''invalidArguments'' ''filter.inCalendar must be a string'')
         | Some s \<Rightarrow> Inr (q\<lparr>in_calendar := Some s\<rparr>))
      else if k = ''after'' then and_then (parse_event_utc env v) (\<lambda>n. Inr (q\<lparr>starts_after := Some n\<rparr>))
      else if k = ''before'' then and_then (parse_event_utc env v) (\<lambda>n. Inr (q\<lparr>ends_before := Some n\<rparr>))
      else if k = ''text'' then
        (case as_str v of
           None \<Rightarrow> Inl (set_error ''invalidArguments'' ''filter.text must be a string'')
         | Some s \<Rightarrow> Inr (q\<lparr>event_text := Some s\<rparr>))
      else Inl (set_error ''unsupportedFilter'' (''v0 does not support CalendarEvent filter.'' @ debug_str k)))"

fun event_filter_fields :: "jmap_env \<Rightarrow> (string \<times> json) list \<Rightarrow> event_filter \<Rightarrow> json + event_filter" where
  "event_filter_fields env [] q = Inr q"
| "event_filter_fields env ((k, v) # kvs) q = and_then (event_filter_field env k v q) (event_filter_fields env kvs)"

definition apply_event_condition :: "jmap_env \<Rightarrow> json \<Rightarrow> event_filter \<Rightarrow> json + event_filter" where
  "apply_event_condition env c q =
     (case as_object c of
        None \<Rightarrow> Inl (set_error ''invalidArguments'' ''filter condition must be an object'')
      | Some kvs \<Rightarrow> event_filter_fields env kvs q)"

fun apply_event_conditions :: "jmap_env \<Rightarrow> json list \<Rightarrow> event_filter \<Rightarrow> json + event_filter" where
  "apply_event_conditions env [] q = Inr q"
| "apply_event_conditions env (c # cs) q = and_then (apply_event_condition env c q) (apply_event_conditions env cs)"

definition parse_event_filter :: "jmap_env \<Rightarrow> json option \<Rightarrow> json + event_filter" where
  "parse_event_filter env raw =
     (case raw of
        None \<Rightarrow> Inr event_filter_default
      | Some JNull \<Rightarrow> Inr event_filter_default
      | Some v \<Rightarrow> (case as_object v of
          None \<Rightarrow> Inl (set_error ''invalidArguments'' ''filter must be an object'')
        | Some kvs \<Rightarrow>
            if map_of kvs ''operator'' \<noteq> None
            then (case Option.bind (map_of kvs ''conditions'') as_array of
                None \<Rightarrow> Inl (set_error ''invalidArguments'' ''filter.conditions must be an array'')
              | Some cs \<Rightarrow> apply_event_conditions env cs event_filter_default)
            else apply_event_condition env v event_filter_default))"

definition matching_events :: "jmap_env \<Rightarrow> fixture \<Rightarrow> string \<Rightarrow> event_filter \<Rightarrow> event list" where
  "matching_events env f a q = sort_key (\<lambda>e. (ev_start e, ev_id e)) (filter (event_matches env q) (events_for f a))"

definition calendar_event_query :: "jmap_env \<Rightarrow> fixture \<Rightarrow> json \<Rightarrow> json + json" where
  "calendar_event_query env f args =
     and_then (require_account f args) (\<lambda>a.
     and_then (parse_event_filter env (jget ''filter'' args)) (\<lambda>q.
     and_then (query_position args) (\<lambda>position.
     and_then (query_limit args) (\<lambda>limit.
     Inr (ids_response f a position limit (bool_arg ''calculateTotal'' args)
            (map ev_id (matching_events env f a q)))))))"

subsection \<open>CalendarEvent/set\<close>

definition first_location :: "json option \<Rightarrow> string option" where
  "first_location v = (case map_values v of l # _ \<Rightarrow> str_arg ''name'' l | [] \<Rightarrow> None)"

text \<open>The address a participant is reached at.\<close>

definition participant_email :: "json \<Rightarrow> string option" where
  "participant_email p =
     (case Option.bind (jget ''sendTo'' p) (str_arg ''imip'') of
        Some e \<Rightarrow> Some (case strip_prefix ''mailto:'' e of Some r \<Rightarrow> r | None \<Rightarrow> e)
      | None \<Rightarrow> str_arg ''email'' p)"

definition is_owner :: "json \<Rightarrow> bool" where
  "is_owner p = (case Option.bind (jget ''roles'' p) as_object of
      Some kvs \<Rightarrow> map_of kvs ''owner'' \<noteq> None | None \<Rightarrow> False)"

definition participant_step :: "json \<Rightarrow> address option \<times> event_attendee list \<Rightarrow> address option \<times> event_attendee list" where
  "participant_step p = (\<lambda>(org, atts).
     case participant_email p of
       None \<Rightarrow> (org, atts)
     | Some m \<Rightarrow>
         let addr = \<lparr>ad_name = str_arg ''name'' p, ad_email = m\<rparr> in
         if is_owner p \<and> org = None then (Some addr, atts)
         else (org, atts @ [\<lparr>ea_address = addr, ea_status =
             (case Option.bind (str_arg ''participationStatus'' p) participation_parse of
                Some st \<Rightarrow> st | None \<Rightarrow> NeedsAction)\<rparr>]))"

definition parse_participants :: "json option \<Rightarrow> address option \<times> event_attendee list" where
  "parse_participants v = fold participant_step (map_values v) (None, [])"

text \<open>The event of a create, its times parsed and its calendar known.\<close>

definition new_event :: "jmap_env \<Rightarrow> json \<Rightarrow> string \<Rightarrow> fixture \<Rightarrow> timestamp \<times> timestamp \<Rightarrow> string \<times> event \<times> fixture" where
  "new_event env body c f = (\<lambda>(st, en).
     let (org, atts) = parse_participants (jget ''participants'' body);
         (i, f1) = mint_event_id f
     in (i,
       \<lparr>ev_id = i,
        ev_account_id = (case find (\<lambda>x. cal_id x = c) (calendars f1) of
          Some x \<Rightarrow> cal_account_id x | None \<Rightarrow> primary_id f1),
        ev_calendar_id = c, ev_subject = (case str_arg ''title'' body of Some t \<Rightarrow> t | None \<Rightarrow> []),
        body_preview = None, event.body_text = str_arg ''description'' body, ev_start = st, ev_end = en,
        ev_location = first_location (jget ''locations'' body), organizer = org, attendees = atts,
        is_all_day = bool_arg ''showWithoutTime'' body,
        recurrence_rule = Option.bind (jget ''recurrenceRules'' body) (parse_jscalendar_recurrence_rules (je_civil env)),
        recurrence_exdates = [], time_zone = None, reminders = [], raw_ical = None\<rparr>, f1))"

definition could_not_parse :: json where
  "could_not_parse = set_error ''invalidProperties'' ''could not parse start/duration''"

definition build_event_from_create ::
    "jmap_env \<Rightarrow> json \<Rightarrow> fixture \<Rightarrow> (json + (string \<times> event \<times> fixture)) option" where
  "build_event_from_create env body f =
     (case as_object body of
        None \<Rightarrow> Some (Inl (set_error ''invalidProperties'' ''create body must be an object''))
      | Some _ \<Rightarrow>
         (case first_true_key (jget ''calendarIds'' body) of
            None \<Rightarrow> Some (Inl (set_error ''invalidProperties'' ''missing calendarIds''))
          | Some c \<Rightarrow>
              if \<not> list_ex (\<lambda>x. cal_id x = c) (calendars f)
              then Some (Inl (set_error ''invalidProperties'' (''unknown calendar '' @ debug_str c)))
              else
                let all_day = bool_arg ''showWithoutTime'' body in
                (case str_arg ''start'' body of
                   None \<Rightarrow> Some (Inl (set_error ''invalidProperties'' ''missing start''))
                 | Some start \<Rightarrow>
                     map_option (\<lambda>times. case times of None \<Rightarrow> Inl could_not_parse | Some t \<Rightarrow> Inr (new_event env body c f t))
                       (parse_jscalendar_times env start
                          (case str_arg ''duration'' body of
                             Some d \<Rightarrow> d | None \<Rightarrow> if all_day then ''P1D'' else ''PT1H'') all_day))))"

text \<open>An \<open>att{N}\<close> id names the N-th attendee, counting from one.\<close>

definition participant_index :: "string \<Rightarrow> nat option" where
  "participant_index pid =
     Option.bind (Option.bind (strip_prefix ''att'' pid) parse_u64) (\<lambda>n. if n = 0 then None else Some (n - 1))"

definition apply_participant_path_patch :: "string \<Rightarrow> json \<Rightarrow> event \<Rightarrow> event" where
  "apply_participant_path_patch key v e =
     (case split_on CHR ''/'' key of
        [_, pid, field] \<Rightarrow>
          if field \<noteq> ''participationStatus'' then e
          else (case Option.bind (as_str v) participation_parse of
              None \<Rightarrow> e
            | Some st \<Rightarrow> (case participant_index pid of
                None \<Rightarrow> e
              | Some n \<Rightarrow> if n < length (attendees e)
                  then e\<lparr>attendees := (attendees e)[n := (attendees e ! n)\<lparr>ea_status := st\<rparr>]\<rparr> else e))
      | _ \<Rightarrow> e)"

text \<open>One property of an event patch; start and duration wait until all are read.\<close>

definition event_field :: "jmap_env \<Rightarrow> string \<times> json \<Rightarrow> event \<Rightarrow> event" where
  "event_field env = (\<lambda>(k, v) e.
     if k = ''title'' then e\<lparr>ev_subject := (case as_str v of Some s \<Rightarrow> s | None \<Rightarrow> [])\<rparr>
     else if k = ''description'' then e\<lparr>event.body_text := as_str v\<rparr>
     else if k = ''showWithoutTime'' then e\<lparr>is_all_day := (as_bool v = Some True)\<rparr>
     else if k = ''start'' \<or> k = ''duration'' then e
     else if k = ''locations'' then e\<lparr>ev_location := first_location (Some v)\<rparr>
     else if k = ''participants'' then
       (let (org, atts) = parse_participants (Some v) in e\<lparr>organizer := org, attendees := atts\<rparr>)
     else if prefix ''participants/'' k then apply_participant_path_patch k v e
     else if k = ''calendarIds'' then
       (case first_true_key (Some v) of Some c \<Rightarrow> e\<lparr>ev_calendar_id := c\<rparr> | None \<Rightarrow> e)
     else if k = ''recurrenceRules'' then
       e\<lparr>recurrence_rule := (if v = JNull then None else parse_jscalendar_recurrence_rules (je_civil env) v),
         recurrence_exdates := []\<rparr>
     else e)"

definition event_times ::
    "jmap_env \<Rightarrow> json \<Rightarrow> event \<Rightarrow> (timestamp \<times> timestamp) option option" where
  "event_times env patch e =
     (let secs = max (seconds_between (ev_start e) (ev_end e)) 0;
          start = (case str_arg ''start'' patch of
            Some s \<Rightarrow> s
          | None \<Rightarrow> cl_strftime (je_civil env) (if is_all_day e then date_format else datetime_format) (ev_start e));
          duration = (case str_arg ''duration'' patch of
            Some d \<Rightarrow> d
          | None \<Rightarrow> if is_all_day e then ''P'' @ show_int (max (secs div 86400) 1) @ ''D''
                    else format_duration_iso8601 secs)
      in parse_jscalendar_times env start duration (is_all_day e))"

definition apply_event_patch :: "jmap_env \<Rightarrow> json \<Rightarrow> event \<Rightarrow> (json + event) option" where
  "apply_event_patch env patch e =
     (case as_object patch of
        None \<Rightarrow> Some (Inl (set_error ''invalidProperties'' ''patch must be an object''))
      | Some kvs \<Rightarrow>
          let e' = fold (event_field env) kvs e in
          if list_ex (\<lambda>k. map_of kvs k \<noteq> None) [''start'', ''duration'', ''showWithoutTime'']
          then map_option (\<lambda>times. case times of
                 None \<Rightarrow> Inl could_not_parse
               | Some (st, en) \<Rightarrow> Inr (e'\<lparr>ev_start := st, ev_end := en\<rparr>)) (event_times env patch e')
          else Some (Inr e'))"

definition create_event_step :: "jmap_env \<Rightarrow> string \<times> json \<Rightarrow> set_state \<Rightarrow> set_state option" where
  "create_event_step env = (\<lambda>(client_id, body) (f, d, out).
     map_option (\<lambda>r. case r of
         Inl e \<Rightarrow> (f, d, refuse_create client_id e out)
       | Inr (i, e, f1) \<Rightarrow> (f1\<lparr>events := events f1 @ [e]\<rparr>, d\<lparr>event_created := event_created d @ [i]\<rparr>,
           note_created client_id (id_and_uid i) out))
       (build_event_from_create env body f))"

definition update_event_step :: "jmap_env \<Rightarrow> string \<times> json \<Rightarrow> set_state \<Rightarrow> set_state option" where
  "update_event_step env = (\<lambda>(i, patch) (f, d, out).
     case find (\<lambda>e. ev_id e = i) (events f) of
       None \<Rightarrow> Some (f, d, refuse_update i (set_error ''notFound'' ''no such event'') out)
     | Some e \<Rightarrow> map_option (\<lambda>r. case r of
           Inl err \<Rightarrow> (f, d, refuse_update i err out)
         | Inr e' \<Rightarrow> (f\<lparr>events := update_first (\<lambda>e. ev_id e = i) (\<lambda>_. e') (events f)\<rparr>,
             d\<lparr>event_updated := event_updated d @ [i]\<rparr>, note_updated i out))
         (apply_event_patch env patch e))"

definition destroy_event_step :: "string \<Rightarrow> set_state \<Rightarrow> set_state" where
  "destroy_event_step i = (\<lambda>(f, d, out).
     case find (\<lambda>e. ev_id e = i) (events f) of
       None \<Rightarrow> (f, d, refuse_destroy i (set_error ''notFound'' ''no such event'') out)
     | Some e \<Rightarrow> (f\<lparr>events := remove_first (\<lambda>e. ev_id e = i) (events f)\<rparr>,
         d\<lparr>event_destroyed := event_destroyed d @ [i],
           event_destroyed_parents := event_destroyed_parents d @ [ev_calendar_id e]\<rparr>, note_destroyed i out))"

fun try_fold :: "('a \<Rightarrow> 's \<Rightarrow> 's option) \<Rightarrow> 'a list \<Rightarrow> 's \<Rightarrow> 's option" where
  "try_fold step [] s = Some s"
| "try_fold step (x # xs) s = Option.bind (step x s) (try_fold step xs)"

definition event_mutation :: "jmap_env \<Rightarrow> json \<Rightarrow> set_state \<Rightarrow> set_state option" where
  "event_mutation env args s =
     map_option (fold destroy_event_step (strings_arg ''destroy'' args))
       (Option.bind (try_fold (create_event_step env) (object_arg ''create'' args) s)
          (try_fold (update_event_step env) (object_arg ''update'' args)))"

definition calendar_event_set :: "jmap_env \<Rightarrow> json \<Rightarrow> fixture \<Rightarrow> ((json + json) \<times> fixture) option" where
  "calendar_event_set env args f =
     map_option (\<lambda>s. guarded_set f args (\<lambda>_ _. s))
       (case and_then (require_account f args) (\<lambda>a.
               case state_mismatch f a args of Some e \<Rightarrow> Inl e | None \<Rightarrow> Inr a) of
          Inl _ \<Rightarrow> Some (f, diff_default, set_outcome_empty)
        | Inr _ \<Rightarrow> event_mutation env args (f, diff_default, set_outcome_empty))"

end
