(* ===== verification/Jmap_Dispatch.thy ===== *)
theory Jmap_Dispatch
  imports Jmap_Calendar
begin

text \<open>
  The JMAP request envelope (\<open>src/jmap.rs\<close>): the method calls are run in order, each seeing the fixture
  and the results of the ones before it. A call is \<open>None\<close> where its handler panics, which poisons the
  lock the session state is then read through.
\<close>

record jmap_request =
  jr_using :: "string list"
  method_calls :: "(string \<times> json \<times> string) list"
  jr_created_ids :: "json option"

record jmap_response =
  method_responses :: "(string \<times> json \<times> string) list"
  session_state :: string
  js_created_ids :: "json option"

definition write_methods :: "string list" where
  "write_methods = [''Email/set'', ''Mailbox/set'', ''CalendarEvent/set'', ''ContactCard/set'', ''Email/import'',
     ''EmailSubmission/set'']"

definition run_write ::
    "jmap_env \<Rightarrow> string \<Rightarrow> json \<Rightarrow> (string \<times> json) list \<Rightarrow> fixture \<Rightarrow> ((json + json) \<times> fixture) option" where
  "run_write env name args prior f =
     (if name = ''Email/set'' then Some (email_set env args f)
      else if name = ''Mailbox/set'' then Some (mailbox_set args f)
      else if name = ''CalendarEvent/set'' then calendar_event_set env args f
      else if name = ''ContactCard/set'' then Some (contact_card_set args f)
      else if name = ''Email/import'' then Some (email_import env args f)
      else Some (email_submission_set args prior f))"

definition unknown_method :: "string \<Rightarrow> json" where
  "unknown_method name = set_error ''unknownMethod'' (''method '' @ debug_str name @ '' is not implemented in v0'')"

definition run_read :: "jmap_env \<Rightarrow> string \<Rightarrow> json \<Rightarrow> fixture \<Rightarrow> (json + json) option" where
  "run_read env name args f =
     (if name = ''Mailbox/get'' then Some (mailbox_get f args)
      else if name = ''Email/query'' then email_query env f args
      else if name = ''Email/get'' then Some (email_get env f args)
      else if name = ''Thread/get'' then Some (thread_get f args)
      else if name = ''Thread/changes'' then Some (thread_changes f args)
      else if name = ''AddressBook/get'' then Some (address_book_get f args)
      else if name = ''ContactCard/get'' then Some (contact_card_get f args)
      else if name = ''ContactCard/query'' then Some (contact_card_query env f args)
      else if name = ''ContactCard/changes'' then Some (contact_card_changes f args)
      else if name = ''Principal/get'' then Some (principal_get f args)
      else if name = ''Mailbox/changes'' then Some (mailbox_changes f args)
      else if name = ''Email/changes'' then Some (email_changes f args)
      else if name = ''Calendar/get'' then Some (calendar_get f args)
      else if name = ''Calendar/changes'' then Some (calendar_changes f args)
      else if name = ''CalendarEvent/get'' then Some (calendar_event_get env f args)
      else if name = ''CalendarEvent/query'' then Some (calendar_event_query env f args)
      else if name = ''CalendarEvent/changes'' then Some (calendar_event_changes f args)
      else Some (Inl (unknown_method name)))"

definition tag_result :: "string \<Rightarrow> json + json \<Rightarrow> string \<times> json" where
  "tag_result name r = (case r of Inr v \<Rightarrow> (name, v) | Inl e \<Rightarrow> (''error'', e))"

definition jmap_dispatch ::
    "jmap_env \<Rightarrow> string \<Rightarrow> json \<Rightarrow> (string \<times> json) list \<Rightarrow> fixture \<Rightarrow> ((string \<times> json) \<times> fixture) option" where
  "jmap_dispatch env name args prior f =
     (case je_override env name (str_arg ''accountId'' args)
            (map_option (List.map_filter as_str) (Option.bind (jget ''ids'' args) as_array)) of
        Some (status, message) \<Rightarrow> Some ((''error'', set_error status message), f)
      | None \<Rightarrow>
          if name \<in> set write_methods
          then map_option (apfst (tag_result name)) (run_write env name args prior f)
          else map_option (\<lambda>r. (tag_result name r, f)) (run_read env name args f))"

fun run_calls ::
    "jmap_env \<Rightarrow> (string \<times> json \<times> string) list \<Rightarrow> (string \<times> json) list \<Rightarrow> fixture \<Rightarrow>
     ((string \<times> json \<times> string) list \<times> fixture) option" where
  "run_calls env [] prior f = Some ([], f)"
| "run_calls env ((name, args, call_id) # calls) prior f =
     Option.bind (jmap_dispatch env name args prior f) (\<lambda>((out_name, out_args), f1).
       map_option (apfst (Cons (out_name, out_args, call_id)))
         (run_calls env calls (prior @ [(call_id, out_args)]) f1))"

definition jmap_handle :: "jmap_env \<Rightarrow> jmap_request \<Rightarrow> fixture \<Rightarrow> (jmap_response \<times> fixture) option" where
  "jmap_handle env req f =
     map_option (\<lambda>(responses, f1).
         (\<lparr>method_responses = responses, session_state = primary_state f1, js_created_ids = jr_created_ids req\<rparr>, f1))
       (run_calls env (method_calls req) [] f)"

end
