(* ===== verification/Mail_Sync.thy ===== *)
theory Mail_Sync
  imports Fixture_Delta
begin

text \<open>
  The contract of a mail write, whatever protocol it comes from: \<open>mail_ok\<close> is what the emails and the UID
  histories keep, \<open>tracked\<close> says that the diff a mutation collects accounts for every difference of the
  emails. A recorded mutation that is tracked can be followed from any account's old token.
\<close>

lemma collect_map_member:
  assumes "distinct (map k xs)" and "x \<in> set xs"
  shows "collect_map k v xs (k x) = Some (v x)"
proof -
  have "distinct (map fst (rev (map (\<lambda>x. (k x, v x)) xs)))"
    using assms(1) by (simp add: rev_map [symmetric] o_def)
  then show ?thesis
    using assms(2) unfolding collect_map_def by (intro map_of_is_SomeI) auto
qed

lemma collect_map_Some: "collect_map k v xs i = Some y \<Longrightarrow> \<exists>x \<in> set xs. k x = i \<and> v x = y"
  unfolding collect_map_def by (drule map_of_SomeD) auto

lemma collect_map_None: "collect_map k v xs i = None \<longleftrightarrow> i \<notin> k ` set xs"
  by (simp add: collect_map_def map_of_eq_None_iff image_image)

subsection \<open>The invariant of the mail state\<close>

definition mock_email_id :: "nat \<Rightarrow> string" where
  "mock_email_id n = ''mock-email-'' @ show_nat n"

definition email_ids :: "fixture \<Rightarrow> string set" where
  "email_ids f = em_id ` set (emails f)"

definition lies_in :: "fixture \<Rightarrow> string \<Rightarrow> string \<Rightarrow> bool" where
  "lies_in f mb i \<longleftrightarrow> list_ex (\<lambda>e. em_id e = i \<and> mb \<in> set (mailbox_ids e)) (emails f)"

text \<open>
  Ids are unique and not yet to be minted, an email is in at least one mailbox and listed there once, and
  it has one live UID in each of its mailboxes and none elsewhere.
\<close>

definition filed :: "email \<Rightarrow> bool" where
  "filed e \<longleftrightarrow> mailbox_ids e \<noteq> [] \<and> distinct (mailbox_ids e)"

definition mail_ok :: "fixture \<Rightarrow> bool" where
  "mail_ok f \<longleftrightarrow> distinct (map em_id (emails f)) \<and> list_all filed (emails f) \<and>
     (\<forall>mb i. held f mb i = (if lies_in f mb i then 1 else 0)) \<and>
     (\<forall>n > synthetic_email_seq f. mock_email_id n \<notin> email_ids f)"

lemma mail_okD:
  assumes "mail_ok f"
  shows "distinct (map em_id (emails f))" "e \<in> set (emails f) \<Longrightarrow> filed e"
    "held f mb i = (if lies_in f mb i then 1 else 0)"
    "synthetic_email_seq f < n \<Longrightarrow> mock_email_id n \<notin> email_ids f"
  using assms by (auto simp: mail_ok_def list_all_iff)

lemma lies_in_iff: "lies_in f mb i \<longleftrightarrow> (\<exists>e \<in> set (emails f). em_id e = i \<and> mb \<in> set (mailbox_ids e))"
  by (simp add: lies_in_def list_ex_iff)

lemma same_id:
  assumes "distinct (map em_id (emails f))" and "e \<in> set (emails f)" and "e' \<in> set (emails f)"
    and "em_id e = em_id e'"
  shows "e = e'"
  using assms by (auto simp: distinct_map inj_on_def)

lemma lies_in_member:
  assumes "distinct (map em_id (emails f))" and "e \<in> set (emails f)"
  shows "lies_in f mb (em_id e) \<longleftrightarrow> mb \<in> set (mailbox_ids e)"
  using same_id [OF assms(1)] assms(2) by (auto simp: lies_in_iff)

text \<open>The state the mail contract is about.\<close>

definition mail_state :: "fixture \<Rightarrow> email list \<times> (string, string option list) btmap \<times> nat \<times> (string, change_log) btmap \<times>
    string \<times> account list \<times> change_step list \<times> announce_trigger list" where
  "mail_state f = (emails f, mailbox_uid_history f, synthetic_email_seq f, account_logs f, state_seed f, accounts f,
     change_script f, announce f)"

lemma held_history: "mailbox_uid_history f = mailbox_uid_history f' \<Longrightarrow> held f = held f'"
  by (simp add: held_def uid_history_def fun_eq_iff)

lemma mail_ok_cong: "mail_state f = mail_state f' \<Longrightarrow> mail_ok f = mail_ok f'"
  using held_history [of f f'] by (simp add: mail_state_def mail_ok_def lies_in_def email_ids_def)

subsection \<open>Mutations that account for what they do\<close>

definition to_be_minted :: "fixture \<Rightarrow> string \<Rightarrow> bool" where
  "to_be_minted f i \<longleftrightarrow> (\<exists>n > synthetic_email_seq f. i = mock_email_id n)"

definition tracked :: "fixture \<Rightarrow> mutation_diff \<Rightarrow> fixture \<Rightarrow> bool" where
  "tracked f0 d f \<longleftrightarrow> mail_ok f \<and>
     account_logs f = account_logs f0 \<and> state_seed f = state_seed f0 \<and> accounts f = accounts f0 \<and>
     synthetic_email_seq f0 \<le> synthetic_email_seq f \<and>
     set (email_created d) \<inter> email_ids f0 = {} \<and> (\<forall>i \<in> set (email_created d). to_be_minted f0 i) \<and>
     email_ids f = (email_ids f0 \<union> set (email_created d)) - set (email_destroyed d) \<and>
     (\<forall>e \<in> set (emails f). e \<in> set (emails f0) \<or> em_id e \<in> set (email_created d) \<union> set (email_updated d)) \<and>
     (\<forall>e \<in> set (emails f). \<forall>e0 \<in> set (emails f0). em_id e = em_id e0 \<longrightarrow> em_account_id e = em_account_id e0) \<and>
     length (email_destroyed d) = length (email_destroyed_accounts d) \<and>
     (\<forall>(i, a) \<in> set (zip (email_destroyed d) (email_destroyed_accounts d)).
        \<exists>e0 \<in> set (emails f0). em_id e0 = i \<and> em_account_id e0 = a)"

text \<open>A mutation without mail changes, and one whose other changes do not matter.\<close>

definition mail_diff :: "mutation_diff \<Rightarrow> string list \<times> string list \<times> string list \<times> string list" where
  "mail_diff d = (email_created d, email_updated d, email_destroyed d, email_destroyed_accounts d)"

lemma tracked_refl:
  assumes "mail_ok f" and "mail_diff d = ([], [], [], [])"
  shows "tracked f d f"
  using assms same_id [OF mail_okD(1) [OF assms(1)]] by (auto simp: tracked_def mail_diff_def)

lemma tracked_cong:
  assumes "tracked f0 d f" and "mail_state f = mail_state f'" and "mail_diff d = mail_diff d'"
  shows "tracked f0 d' f'"
  using assms mail_ok_cong [OF assms(2)]
  by (simp add: tracked_def mail_state_def mail_diff_def email_ids_def)

subsection \<open>The steps of a mail write\<close>

lemma held_emails [simp]: "held (f\<lparr>emails := es\<rparr>) = held f"
  by (simp add: held_def uid_history_def fun_eq_iff)

lemma held_assign: "held (snd (assign_uid mb j f)) mb' i = held f mb' i + (if mb = mb' \<and> i = j then 1 else 0)"
  by (auto simp: held_def uid_history_assign)

lemma held_retire:
  "held (retire_uid mb j f) mb' i = held f mb' i - (if mb = mb' \<and> i = j then 1 else 0)"
  by (simp add: held_def uid_history_retire count_retire_slot)

lemma held_assign_all:
  "distinct mbs \<Longrightarrow> held (fold (\<lambda>mb f. snd (assign_uid mb j f)) mbs f) mb' i =
     held f mb' i + (if i = j \<and> mb' \<in> set mbs then 1 else 0)"
  by (induction mbs arbitrary: f) (auto simp: held_assign)

lemma held_retire_all:
  "distinct mbs \<Longrightarrow> held (fold (\<lambda>mb. retire_uid mb j) mbs f) mb' i =
     held f mb' i - (if i = j \<and> mb' \<in> set mbs then 1 else 0)"
  by (induction mbs arbitrary: f) (auto simp: held_retire)

lemma fold_mail_fields [simp]:
  "emails (fold (\<lambda>mb f. snd (assign_uid mb j f)) mbs f) = emails f"
  "account_logs (fold (\<lambda>mb f. snd (assign_uid mb j f)) mbs f) = account_logs f"
  "state_seed (fold (\<lambda>mb f. snd (assign_uid mb j f)) mbs f) = state_seed f"
  "accounts (fold (\<lambda>mb f. snd (assign_uid mb j f)) mbs f) = accounts f"
  "synthetic_email_seq (fold (\<lambda>mb f. snd (assign_uid mb j f)) mbs f) = synthetic_email_seq f"
  "emails (fold (\<lambda>mb. retire_uid mb j) mbs f) = emails f"
  "account_logs (fold (\<lambda>mb. retire_uid mb j) mbs f) = account_logs f"
  "state_seed (fold (\<lambda>mb. retire_uid mb j) mbs f) = state_seed f"
  "accounts (fold (\<lambda>mb. retire_uid mb j) mbs f) = accounts f"
  "synthetic_email_seq (fold (\<lambda>mb. retire_uid mb j) mbs f) = synthetic_email_seq f"
  by (simp_all add: fold_same)

lemma script_fields [simp]:
  "change_script (snd (assign_uid mb i f)) = change_script f" "announce (snd (assign_uid mb i f)) = announce f"
  "change_script (retire_uid mb i f) = change_script f" "announce (retire_uid mb i f) = announce f"
  by (simp_all add: assign_uid_def retire_uid_def Let_def split: option.split)

lemma fold_script_fields [simp]:
  "change_script (fold (\<lambda>mb f. snd (assign_uid mb j f)) mbs f) = change_script f"
  "announce (fold (\<lambda>mb f. snd (assign_uid mb j f)) mbs f) = announce f"
  "change_script (fold (\<lambda>mb. retire_uid mb j) mbs f) = change_script f"
  "announce (fold (\<lambda>mb. retire_uid mb j) mbs f) = announce f"
  "change_script (sync_mailbox_uids j olds news f) = change_script f"
  "announce (sync_mailbox_uids j olds news f) = announce f"
  by (simp_all add: sync_mailbox_uids_def Let_def fold_same)

text \<open>
  What the three mail steps of a mutation do: a new email under the next id, an email changed in place, and
  emails removed together (an id may be named twice).
\<close>

definition same_rest :: "fixture \<Rightarrow> fixture \<Rightarrow> bool" where
  "same_rest f f1 \<longleftrightarrow> account_logs f1 = account_logs f \<and> state_seed f1 = state_seed f \<and> accounts f1 = accounts f \<and>
     change_script f1 = change_script f \<and> announce f1 = announce f"

definition adds :: "email \<Rightarrow> fixture \<Rightarrow> fixture \<Rightarrow> bool" where
  "adds e f f1 \<longleftrightarrow> same_rest f f1 \<and> filed e \<and> em_id e = mock_email_id (Suc (synthetic_email_seq f)) \<and>
     emails f1 = emails f @ [e] \<and> synthetic_email_seq f1 = Suc (synthetic_email_seq f) \<and>
     (\<forall>mb i. held f1 mb i = held f mb i + (if i = em_id e \<and> mb \<in> set (mailbox_ids e) then 1 else 0))"

definition edits :: "nat \<Rightarrow> email \<Rightarrow> fixture \<Rightarrow> fixture \<Rightarrow> bool" where
  "edits n e' f f1 \<longleftrightarrow> same_rest f f1 \<and> n < length (emails f) \<and> em_id e' = em_id (emails f ! n) \<and>
     em_account_id e' = em_account_id (emails f ! n) \<and> filed e' \<and>
     emails f1 = (emails f)[n := e'] \<and> synthetic_email_seq f1 = synthetic_email_seq f \<and>
     (\<forall>mb i. held f1 mb i = (if i = em_id e' then (if mb \<in> set (mailbox_ids e') then 1 else 0) else held f mb i))"

definition removes :: "(string \<times> string) list \<Rightarrow> fixture \<Rightarrow> fixture \<Rightarrow> bool" where
  "removes gone f f1 \<longleftrightarrow> same_rest f f1 \<and>
     (\<forall>(i, a) \<in> set gone. \<exists>e \<in> set (emails f). em_id e = i \<and> em_account_id e = a) \<and>
     emails f1 = filter (\<lambda>e. em_id e \<notin> fst ` set gone) (emails f) \<and>
     synthetic_email_seq f1 = synthetic_email_seq f \<and>
     (\<forall>mb i. held f1 mb i = (if i \<in> fst ` set gone then 0 else held f mb i))"

text \<open>The writes of the protocols are such steps.\<close>

lemma assign_adds:
  assumes "filed e" and "em_id e = mock_email_id (Suc (synthetic_email_seq f))"
  shows "adds e f (fold (\<lambda>mb f. snd (assign_uid mb (em_id e) f)) (mailbox_ids e)
    (f\<lparr>synthetic_email_seq := Suc (synthetic_email_seq f), emails := emails f @ [e]\<rparr>))"
proof -
  have "held (f\<lparr>synthetic_email_seq := n, emails := es\<rparr>) = held f" for n es
    by (simp add: held_def uid_history_def fun_eq_iff)
  then show ?thesis
    using assms by (auto simp: adds_def same_rest_def held_assign_all filed_def)
qed

lemma sync_edits:
  assumes "mail_ok f" and "n < length (emails f)" and "filed e'"
    and "em_id e' = em_id (emails f ! n)" and "em_account_id e' = em_account_id (emails f ! n)"
  shows "edits n e' f (sync_mailbox_uids (em_id e') (mailbox_ids (emails f ! n)) (mailbox_ids e') (f\<lparr>emails := (emails f)[n := e']\<rparr>))"
proof -
  have mem: "emails f ! n \<in> set (emails f)" using assms(2) by simp
  note filed = mail_okD(2) [OF assms(1) mem]
  have "held f mb (em_id e') = (if mb \<in> set (mailbox_ids (emails f ! n)) then 1 else 0)" for mb
    using mail_okD(3) [OF assms(1), of mb "em_id e'"] lies_in_member [OF mail_okD(1) [OF assms(1)] mem, of mb] assms(4)
    by simp
  then show ?thesis
    using sync_held [of "mailbox_ids (emails f ! n)" "mailbox_ids e'" "f\<lparr>emails := (emails f)[n := e']\<rparr>" "em_id e'"]
      filed assms(2-5)
    by (simp add: edits_def same_rest_def filed_def)
qed

lemma retire_removes_one:
  assumes "mail_ok f" and "e \<in> set (emails f)"
  shows "removes [(em_id e, em_account_id e)] f
    (fold (\<lambda>mb. retire_uid mb (em_id e)) (mailbox_ids e) (f\<lparr>emails := filter (\<lambda>x. em_id x \<noteq> em_id e) (emails f)\<rparr>))"
proof -
  have "held f mb (em_id e) = (if mb \<in> set (mailbox_ids e) then 1 else 0)" for mb
    using mail_okD(3) [OF assms(1), of mb "em_id e"] lies_in_member [OF mail_okD(1) [OF assms(1)] assms(2), of mb] by simp
  then show ?thesis
    using mail_okD(2) [OF assms] assms(2)
    by (auto simp: removes_def same_rest_def held_retire_all filed_def)
qed

lemma edited_members:
  assumes "distinct (map em_id es)" and "n < length es" and "em_id e' = em_id (es ! n)"
  shows "set (es[n := e']) = insert e' {x \<in> set es. em_id x \<noteq> em_id e'}"
    and "map em_id (es[n := e']) = map em_id es"
proof -
  have "{x \<in> set es. em_id x \<noteq> em_id (es ! n)} = set es - {es ! n}"
    using assms(1,2) by (auto simp: distinct_map inj_on_def)
  then show "set (es[n := e']) = insert e' {x \<in> set es. em_id x \<noteq> em_id e'}"
    unfolding assms(3) using assms(1,2) by (simp add: set_update_distinct distinct_map)
  have "(map em_id es)[n := em_id (es ! n)] = map em_id es"
    using assms(2) by (metis list_update_id nth_map)
  then show "map em_id (es[n := e']) = map em_id es" by (simp add: map_update assms(3))
qed

lemma mail_ok_adds:
  assumes "mail_ok f" and "adds e f f1"
  shows "mail_ok f1"
  unfolding mail_ok_def
proof (intro conjI allI impI)
  have fresh: "em_id x \<noteq> em_id e" if "x \<in> set (emails f)" for x
    using mail_okD(4) [OF assms(1), of "Suc (synthetic_email_seq f)"] assms(2) imageI [OF that, of em_id]
    by (auto simp: email_ids_def adds_def)
  then have "em_id e \<notin> em_id ` set (emails f)" by force
  then show "distinct (map em_id (emails f1))"
    using mail_okD(1) [OF assms(1)] assms(2) by (simp add: adds_def)
  show "list_all filed (emails f1)"
    using mail_okD(2) [OF assms(1)] assms(2) by (simp add: adds_def list_all_iff)
  show "held f1 mb i = (if lies_in f1 mb i then 1 else 0)" for mb i
    using mail_okD(3) [OF assms(1), of mb i] assms(2) fresh by (auto simp: adds_def lies_in_iff)
  show "mock_email_id n \<notin> email_ids f1" if "n > synthetic_email_seq f1" for n
    using mail_okD(4) [OF assms(1), of n] assms(2) that by (simp add: adds_def email_ids_def mock_email_id_def)
qed

lemma edits_members:
  assumes "mail_ok f" and "edits n e' f f1"
  shows "set (emails f1) = insert e' {x \<in> set (emails f). em_id x \<noteq> em_id e'}"
    and "map em_id (emails f1) = map em_id (emails f)"
  using edited_members [OF mail_okD(1) [OF assms(1)]] assms(2) by (simp_all add: edits_def)

lemma mail_ok_edits:
  assumes "mail_ok f" and "edits n e' f f1"
  shows "mail_ok f1"
  unfolding mail_ok_def
proof (intro conjI allI impI)
  note members = edits_members [OF assms]
  have e': "filed e'" "synthetic_email_seq f1 = synthetic_email_seq f"
    and held: "held f1 mb i = (if i = em_id e' then (if mb \<in> set (mailbox_ids e') then 1 else 0) else held f mb i)" for mb i
    using assms(2) by (simp_all add: edits_def)
  show "distinct (map em_id (emails f1))" by (simp add: members(2) mail_okD(1) [OF assms(1)])
  show "list_all filed (emails f1)"
    using mail_okD(2) [OF assms(1)] e'(1) by (simp add: list_all_iff members(1))
  show "held f1 mb i = (if lies_in f1 mb i then 1 else 0)" for mb i
    using mail_okD(3) [OF assms(1), of mb i] by (auto simp: held lies_in_iff members(1))
  show "mock_email_id m \<notin> email_ids f1" if "m > synthetic_email_seq f1" for m
    using mail_okD(4) [OF assms(1), of m] that arg_cong [OF members(2), of set]
    by (simp add: e'(2) email_ids_def)
qed

lemma mail_ok_removes:
  assumes "mail_ok f" and "removes gone f f1"
  shows "mail_ok f1"
  unfolding mail_ok_def
proof (intro conjI allI impI)
  show "distinct (map em_id (emails f1))"
    using mail_okD(1) [OF assms(1)] assms(2) by (simp add: removes_def distinct_map_filter)
  show "list_all filed (emails f1)"
    using mail_okD(2) [OF assms(1)] assms(2) by (simp add: removes_def list_all_iff)
  show "held f1 mb i = (if lies_in f1 mb i then 1 else 0)" for mb i
    using mail_okD(3) [OF assms(1), of mb i] assms(2) by (auto simp: removes_def lies_in_iff)
  show "mock_email_id n \<notin> email_ids f1" if "n > synthetic_email_seq f1" for n
    using mail_okD(4) [OF assms(1), of n] assms(2) that by (auto simp: removes_def email_ids_def)
qed

text \<open>The diff follows the steps.\<close>

definition diff_add :: "email \<Rightarrow> mutation_diff \<Rightarrow> mutation_diff" where
  "diff_add e d = d\<lparr>email_created := email_created d @ [em_id e]\<rparr>"

definition diff_edit :: "email \<Rightarrow> mutation_diff \<Rightarrow> mutation_diff" where
  "diff_edit e d = d\<lparr>email_updated := email_updated d @ [em_id e]\<rparr>"

definition diff_remove :: "(string \<times> string) list \<Rightarrow> mutation_diff \<Rightarrow> mutation_diff" where
  "diff_remove gone d = d\<lparr>email_destroyed := email_destroyed d @ map fst gone,
     email_destroyed_accounts := email_destroyed_accounts d @ map snd gone\<rparr>"

lemma tracked_ids_destroyed:
  assumes "tracked f0 d f"
  shows "set (email_destroyed d) \<subseteq> email_ids f0"
proof
  fix i assume "i \<in> set (email_destroyed d)"
  moreover have "length (email_destroyed d) = length (email_destroyed_accounts d)"
    using assms by (simp add: tracked_def)
  ultimately obtain a where "(i, a) \<in> set (zip (email_destroyed d) (email_destroyed_accounts d))"
    by (metis in_set_impl_in_set_zip1)
  with assms show "i \<in> email_ids f0" by (fastforce simp: tracked_def email_ids_def)
qed

lemma tracked_adds:
  assumes "tracked f0 d f" and "mail_ok f0" and "adds e f f1"
  shows "tracked f0 (diff_add e d) f1"
proof -
  have seq: "synthetic_email_seq f0 \<le> synthetic_email_seq f" and ok: "mail_ok f"
    using assms(1) by (simp_all add: tracked_def)
  have new: "em_id e \<notin> email_ids f0"
    using mail_okD(4) [OF assms(2)] seq assms(3) by (simp add: adds_def)
  with tracked_ids_destroyed [OF assms(1)] have "em_id e \<notin> set (email_destroyed d)" by blast
  moreover have "to_be_minted f0 (em_id e)"
    using seq assms(3) by (auto simp: to_be_minted_def adds_def intro: exI [of _ "Suc (synthetic_email_seq f)"])
  ultimately show ?thesis
    using assms(1,3) new mail_ok_adds [OF ok assms(3)] unfolding tracked_def
    by (auto simp: adds_def same_rest_def diff_add_def email_ids_def)
qed

lemma tracked_edits:
  assumes "tracked f0 d f" and "edits n e' f f1"
  shows "tracked f0 (diff_edit e' d) f1"
proof -
  have ok: "mail_ok f" using assms(1) by (simp add: tracked_def)
  note members = edits_members [OF ok assms(2)]
  have "email_ids f1 = email_ids f"
    using arg_cong [OF members(2), of set] by (simp add: email_ids_def)
  moreover have "em_account_id e' = em_account_id e0" if "e0 \<in> set (emails f0)" "em_id e' = em_id e0" for e0
  proof -
    have n: "emails f ! n \<in> set (emails f)" "em_id (emails f ! n) = em_id e0"
      "em_account_id e' = em_account_id (emails f ! n)"
      using assms(2) that(2) by (simp_all add: edits_def)
    with assms(1) that(1) show ?thesis unfolding tracked_def by metis
  qed
  moreover have "same_rest f f1" "synthetic_email_seq f1 = synthetic_email_seq f"
    using assms(2) by (simp_all add: edits_def)
  ultimately show ?thesis
    using assms(1) mail_ok_edits [OF ok assms(2)] unfolding tracked_def
    by (auto simp: same_rest_def diff_edit_def members(1))
qed

lemma tracked_removes:
  assumes "tracked f0 d f" and "removes gone f f1" and "fst ` set gone \<inter> set (email_created d) = {}"
  shows "tracked f0 (diff_remove gone d) f1"
proof -
  have ok: "mail_ok f" using assms(1) by (simp add: tracked_def)
  have "\<exists>e0 \<in> set (emails f0). em_id e0 = i \<and> em_account_id e0 = a" if "(i, a) \<in> set gone" for i a
  proof -
    from assms(2) that obtain e where e: "e \<in> set (emails f)" "em_id e = i" "em_account_id e = a"
      by (auto simp: removes_def)
    then have "i \<in> email_ids f" by (auto simp: email_ids_def)
    moreover have "i \<notin> set (email_created d)" using assms(3) that by force
    ultimately have "i \<in> email_ids f0" using assms(1) by (auto simp: tracked_def)
    then obtain e0 where e0: "e0 \<in> set (emails f0)" "em_id e0 = i" by (auto simp: email_ids_def)
    then have "em_account_id e0 = a" using assms(1) e unfolding tracked_def by metis
    with e0 show ?thesis by blast
  qed
  moreover have "email_ids f1 = email_ids f - fst ` set gone"
    using assms(2) by (auto simp: email_ids_def removes_def)
  moreover have "set (emails f1) \<subseteq> set (emails f)" using assms(2) by (auto simp: removes_def)
  ultimately show ?thesis
    using assms(1,2) mail_ok_removes [OF ok assms(2)] unfolding tracked_def
    by (auto 4 3 simp: removes_def same_rest_def diff_remove_def zip_map_fst_snd)
qed

subsection \<open>The contract as an interface\<close>

text \<open>
  What a protocol's mail write needs to know of a property of the diff and the fixture to keep it. Ids that
  \<open>may\<close> not be removed are those the same mutation could have created.
\<close>

locale mail_contract =
  fixes P :: "mutation_diff \<Rightarrow> fixture \<Rightarrow> bool" and may :: "string \<Rightarrow> bool"
  assumes ok: "P d f \<Longrightarrow> mail_ok f"
    and rest: "P d f \<Longrightarrow> mail_state f = mail_state f' \<Longrightarrow> mail_diff d = mail_diff d' \<Longrightarrow> P d' f'"
    and add: "P d f \<Longrightarrow> adds e f f1 \<Longrightarrow> P (diff_add e d) f1"
    and edit: "P d f \<Longrightarrow> edits n e' f f1 \<Longrightarrow> P (diff_edit e' d) f1"
    and remove: "P d f \<Longrightarrow> removes gone f f1 \<Longrightarrow> list_all may (map fst gone) \<or> email_created d = [] \<Longrightarrow>
      P (diff_remove gone d) f1"

lemma wf_store_rest: "same_rest f f1 \<Longrightarrow> wf_store f1 = wf_store f"
  by (simp add: same_rest_def wf_store_def)

definition store_ok :: "fixture \<Rightarrow> bool" where
  "store_ok f \<longleftrightarrow> mail_ok f \<and> wf_store f"

lemma mail_ok_record [simp]: "mail_ok (snd (record_transition d f)) = mail_ok f"
proof -
  have "mail_ok (f\<lparr>account_logs := l\<rparr>) = mail_ok f" for l
    by (simp add: mail_ok_def lies_in_def email_ids_def held_def uid_history_def)
  then show ?thesis by (subst record_transition_frame)
qed

lemma store_ok_record: "store_ok f \<Longrightarrow> store_ok (snd (record_transition d f))"
  by (simp add: store_ok_def wf_store_record)

text \<open>A property of the fixture alone, which recording keeps: an invariant of every write.\<close>

locale mail_invariant = mail_contract "\<lambda>d f. inv f" "\<lambda>_. True" for inv :: "fixture \<Rightarrow> bool" +
  assumes recorded: "inv f \<Longrightarrow> inv (snd (record_transition d f))"

interpretation kept_ok: mail_invariant store_ok
proof unfold_locales
  show "store_ok (snd (record_transition d f))" if "store_ok f" for d f using that by (rule store_ok_record)
  show "store_ok f'" if "store_ok f" "mail_state f = mail_state f'" for f f' :: fixture
    using that mail_ok_cong [OF that(2)] by (simp add: store_ok_def mail_state_def wf_store_def)
  fix f f1 e n gone
  assume f: "store_ok f"
  then show "mail_ok f" by (simp add: store_ok_def)
  show "store_ok f1" if "adds e f f1"
    using f that mail_ok_adds [OF _ that] wf_store_rest [of f f1] by (simp add: store_ok_def adds_def)
  show "store_ok f1" if "edits n e f f1"
    using f that mail_ok_edits [OF _ that] wf_store_rest [of f f1] by (simp add: store_ok_def edits_def)
  show "store_ok f1" if "removes gone f f1"
    using f that mail_ok_removes [OF _ that] wf_store_rest [of f f1] by (simp add: store_ok_def removes_def)
qed

text \<open>The script and the triggers stay as they were, and the counter of ids does not fall.\<close>

definition script_kept :: "fixture \<Rightarrow> fixture \<Rightarrow> bool" where
  "script_kept f0 f \<longleftrightarrow> change_script f = change_script f0 \<and> announce f = announce f0 \<and>
     synthetic_email_seq f0 \<le> synthetic_email_seq f"

interpretation kept_script: mail_invariant "\<lambda>f. store_ok f \<and> script_kept f0 f" for f0
proof unfold_locales
  fix d f f' f1 e n gone
  assume f: "store_ok f \<and> script_kept f0 f"
  then show "mail_ok f" by (simp add: store_ok_def)
  have logs: "script_kept f0 (f\<lparr>account_logs := l\<rparr>) = script_kept f0 f" for l by (simp add: script_kept_def)
  have "script_kept f0 (snd (record_transition d f)) = script_kept f0 f"
    by (subst record_transition_frame) (rule logs)
  then show "store_ok (snd (record_transition d f)) \<and> script_kept f0 (snd (record_transition d f))"
    using f kept_ok.recorded by simp
  show "store_ok f' \<and> script_kept f0 f'" if "mail_state f = mail_state f'"
    using f that kept_ok.rest [of f f' diff_default diff_default] by (simp add: script_kept_def mail_state_def)
  show "store_ok f1 \<and> script_kept f0 f1" if "adds e f f1"
    using f that kept_ok.add [of f e f1] by (simp add: script_kept_def adds_def same_rest_def)
  show "store_ok f1 \<and> script_kept f0 f1" if "edits n e f f1"
    using f that kept_ok.edit [of f n e f1] by (simp add: script_kept_def edits_def same_rest_def)
  show "store_ok f1 \<and> script_kept f0 f1" if "removes gone f f1"
    using f that kept_ok.remove [of f gone f1] by (simp add: script_kept_def removes_def same_rest_def list_all_iff)
qed

lemma tracked_ok: "tracked f0 d f \<Longrightarrow> mail_ok f"
  by (simp add: tracked_def)

interpretation kept_diff: mail_contract "\<lambda>d f. mail_ok f0 \<and> tracked f0 d f" "\<lambda>i. \<not> to_be_minted f0 i" for f0
proof unfold_locales
  fix d d' f f' f1 e n gone
  assume P: "mail_ok f0 \<and> tracked f0 d f"
  show "mail_ok f" using P tracked_ok by blast
  show "mail_ok f0 \<and> tracked f0 d' f'" if "mail_state f = mail_state f'" "mail_diff d = mail_diff d'"
    using P tracked_cong [OF _ that] by simp
  show "mail_ok f0 \<and> tracked f0 (diff_add e d) f1" if "adds e f f1"
    using P tracked_adds [OF _ _ that] by simp
  show "mail_ok f0 \<and> tracked f0 (diff_edit e d) f1" if "edits n e f f1"
    using P tracked_edits [OF _ that] by simp
  show "mail_ok f0 \<and> tracked f0 (diff_remove gone d) f1"
    if "removes gone f f1" "list_all (\<lambda>i. \<not> to_be_minted f0 i) (map fst gone) \<or> email_created d = []"
  proof -
    have "\<forall>i \<in> set (email_created d). to_be_minted f0 i" using P by (simp add: tracked_def)
    with that(2) have "fst ` set gone \<inter> set (email_created d) = {}" by (auto simp: list_all_iff)
    then show ?thesis using P tracked_removes [OF _ that(1)] by simp
  qed
qed

subsection \<open>Following a tracked mutation\<close>

definition account_ids :: "fixture \<Rightarrow> string \<Rightarrow> string set" where
  "account_ids f a = em_id ` set (emails_for f a)"

text \<open>
  A client that held the emails of an account and applies a delta has the emails of the account now;
  and an email it is not told about is the one it holds.
\<close>

definition delta_exact :: "fixture \<Rightarrow> fixture \<Rightarrow> string \<Rightarrow> delta_set \<Rightarrow> bool" where
  "delta_exact f0 f a d \<longleftrightarrow>
     account_ids f a = (account_ids f0 a - set (ds_destroyed d)) \<union> set (ds_created d) \<and>
     list_all (\<lambda>e. e \<in> set (emails_for f0 a) \<or> em_id e \<in> set (ds_created d) \<union> set (ds_updated d)) (emails_for f a)"

lemma resolve_email_member:
  assumes "distinct (map em_id (emails f))" and "e \<in> set (emails f)"
  shows "resolve_email f (em_id e) = em_account_id e"
  by (simp add: resolve_email_def or_primary_def collect_map_member [OF assms])

text \<open>The mail part of the diff of one account.\<close>

definition mail_part :: "fixture \<Rightarrow> string \<Rightarrow> mutation_diff \<Rightarrow> string list \<times> string list \<times> string list" where
  "mail_part f a d = (filter (\<lambda>i. resolve_email f i = a) (email_created d),
     filter (\<lambda>i. resolve_email f i = a) (email_updated d),
     map fst (kept (\<lambda>x. x = a) (email_destroyed d) (email_destroyed_accounts d)))"

lemma mail_part_account_part:
  "(email_created (account_part f a d), email_updated (account_part f a d), email_destroyed (account_part f a d)) =
   mail_part f a d"
  by (simp add: account_part_def mail_part_def Let_def)

lemma mail_part_unnamed:
  assumes "a \<notin> named_accounts f d \<or> diff_is_empty d"
  shows "mail_part f a d = ([], [], [])"
proof (cases "diff_is_empty d")
  case True
  then show ?thesis by (simp add: mail_part_def diff_is_empty_def kept_def)
next
  case False
  have "resolve_email f ` (set (email_created d) \<union> set (email_updated d)) \<subseteq> named_accounts f d"
    "snd ` set (zip (email_destroyed d) (email_destroyed_accounts d)) \<subseteq> named_accounts f d"
    unfolding named_accounts_def by (simp_all only: image_Un) blast+
  with False assms have "resolve_email f i \<noteq> a" if "i \<in> set (email_created d) \<union> set (email_updated d)" for i
    using that by blast
  moreover have "snd x \<noteq> a" if "x \<in> set (zip (email_destroyed d) (email_destroyed_accounts d))" for x
    using that False assms \<open>snd ` set (zip (email_destroyed d) (email_destroyed_accounts d)) \<subseteq> named_accounts f d\<close> by blast
  ultimately show ?thesis by (simp add: mail_part_def kept_def filter_empty_conv)
qed

lemma delta_part:
  assumes "wf_store f1"
  shows "email_delta_since_account (snd (record_transition d f1)) (state_for f1 a) a =
    Some (apply_dominance_and_dedup (mail_part f1 a d))"
proof -
  have wf: "wf_log (log_for f1 a)" using wf_store_log [OF assms] by simp
  note walk = email_delta_since_account_def walk_account_log state_for_log
  show ?thesis
  proof (cases "a \<in> named_accounts f1 d \<and> \<not> diff_is_empty d")
    case True
    then have "log_for (snd (record_transition d f1)) a = log_record (account_part f1 a d) (log_for f1 a)"
      using log_for_record [of d f1 a] by simp
    then show ?thesis
      using delta_since_new_transition [OF wf, of "account_part f1 a d" project_emails]
      by (simp add: walk project_emails_def mail_part_account_part)
  next
    case False
    then have "log_for (snd (record_transition d f1)) a = log_for f1 a"
      using log_for_record [of d f1 a] record_transition_empty [of d f1] by (cases "diff_is_empty d") simp_all
    moreover have "mail_part f1 a d = ([], [], [])" using mail_part_unnamed False by blast
    moreover have "apply_dominance_and_dedup ([], [], []) = delta_set_default"
      by (simp add: apply_dominance_and_dedup_def delta_set_default_def dedup_preserving_order_def)
    ultimately show ?thesis by (simp add: walk delta_since_current)
  qed
qed

lemma tracked_delta:
  assumes "wf_store f0" and "mail_ok f0" and "tracked f0 d f1"
  shows "\<exists>delta. email_delta_since_account (snd (record_transition d f1)) (state_for f0 a) a = Some delta \<and>
    delta_exact f0 (snd (record_transition d f1)) a delta"
proof -
  let ?f = "snd (record_transition d f1)"
  let ?C = "filter (\<lambda>i. resolve_email f1 i = a) (email_created d)"
  let ?U = "filter (\<lambda>i. resolve_email f1 i = a) (email_updated d)"
  let ?D = "map fst (kept (\<lambda>x. x = a) (email_destroyed d) (email_destroyed_accounts d))"
  let ?delta = "apply_dominance_and_dedup (?C, ?U, ?D)"
  have ok: "mail_ok f1" and logs: "account_logs f1 = account_logs f0" "state_seed f1 = state_seed f0"
    and new: "set (email_created d) \<inter> email_ids f0 = {}"
    and ids: "email_ids f1 = (email_ids f0 \<union> set (email_created d)) - set (email_destroyed d)"
    and told: "\<forall>e \<in> set (emails f1). e \<in> set (emails f0) \<or> em_id e \<in> set (email_created d) \<union> set (email_updated d)"
    and owner: "\<And>e e0. e \<in> set (emails f1) \<Longrightarrow> e0 \<in> set (emails f0) \<Longrightarrow> em_id e = em_id e0 \<Longrightarrow> em_account_id e = em_account_id e0"
    and gone: "\<And>i b. (i, b) \<in> set (zip (email_destroyed d) (email_destroyed_accounts d)) \<Longrightarrow>
        \<exists>e0 \<in> set (emails f0). em_id e0 = i \<and> em_account_id e0 = b"
    and len: "length (email_destroyed d) = length (email_destroyed_accounts d)"
    using assms(3) by (auto simp: tracked_def)
  have state: "state_for f1 a = state_for f0 a" and wf: "wf_store f1"
    using assms(1) logs by (simp_all add: state_for_def wf_store_def cong: option.case_cong)
  have emails: "emails ?f = emails f1"
    by (subst record_transition_frame) simp
  note part = delta_part [OF wf, of d a, unfolded state]
  have delta: "email_delta_since_account ?f (state_for f0 a) a = Some ?delta"
    by (simp add: part mail_part_def)
  have held: "i \<in> account_ids f1 a \<longleftrightarrow> i \<in> email_ids f1 \<and> resolve_email f1 i = a" for i
    using resolve_email_member [OF mail_okD(1) [OF ok]]
    by (auto simp: account_ids_def emails_for_def email_ids_def)
  have before: "i \<in> account_ids f0 a \<longleftrightarrow> resolve_email f1 i = a" if "i \<in> email_ids f0" "i \<in> email_ids f1" for i
  proof -
    from that(2) obtain e where e: "e \<in> set (emails f1)" "em_id e = i" by (auto simp: email_ids_def)
    have "resolve_email f1 i = em_account_id e"
      using resolve_email_member [OF mail_okD(1) [OF ok] e(1)] e(2) by simp
    moreover have "em_account_id e0 = em_account_id e" if "e0 \<in> set (emails f0)" "em_id e0 = i" for e0
      using owner [OF e(1) that(1)] e(2) that(2) by simp
    ultimately show ?thesis using that(1) by (fastforce simp: account_ids_def emails_for_def email_ids_def)
  qed
  have dead: "i \<in> set ?D \<longleftrightarrow> i \<in> set (email_destroyed d) \<and> i \<in> account_ids f0 a" for i
  proof
    assume "i \<in> set ?D"
    then have "(i, a) \<in> set (zip (email_destroyed d) (email_destroyed_accounts d))" by (auto simp: kept_def)
    then show "i \<in> set (email_destroyed d) \<and> i \<in> account_ids f0 a"
      using gone by (auto simp: account_ids_def emails_for_def dest: set_zip_leftD)
  next
    assume i: "i \<in> set (email_destroyed d) \<and> i \<in> account_ids f0 a"
    then obtain b where b: "(i, b) \<in> set (zip (email_destroyed d) (email_destroyed_accounts d))"
      using len by (metis in_set_impl_in_set_zip1)
    from i obtain e where e: "e \<in> set (emails f0)" "em_id e = i" "em_account_id e = a"
      by (auto simp: account_ids_def emails_for_def)
    with gone [OF b] have "b = a" using same_id [OF mail_okD(1) [OF assms(2)]] by metis
    with b show "i \<in> set ?D" by (force simp: kept_def)
  qed
  have sub: "account_ids f0 a \<subseteq> email_ids f0"
    by (auto simp: account_ids_def emails_for_def email_ids_def)
  have disjoint: "set ?C \<inter> set ?D = {}"
  proof -
    have "set ?C \<inter> email_ids f0 = {}" using new by auto
    moreover have "set ?D \<subseteq> email_ids f0" using dead sub by blast
    ultimately show ?thesis by blast
  qed
  note dest = tracked_ids_destroyed [OF assms(3)]
  have "account_ids f1 a = (account_ids f0 a - set ?D) \<union> set ?C"
  proof (intro set_eqI iffI)
    fix i assume "i \<in> account_ids f1 a"
    then have i: "i \<in> email_ids f1" "resolve_email f1 i = a" by (simp_all add: held)
    show "i \<in> (account_ids f0 a - set ?D) \<union> set ?C"
    proof (cases "i \<in> email_ids f0")
      case True
      then have "i \<in> account_ids f0 a" using before i by blast
      moreover have "i \<notin> set ?D" using dead ids i(1) by blast
      ultimately show ?thesis by blast
    next
      case False
      then have "i \<in> set (email_created d)" using i(1) ids by blast
      then show ?thesis using i(2) by simp
    qed
  next
    fix i assume i: "i \<in> (account_ids f0 a - set ?D) \<union> set ?C"
    then consider "i \<in> account_ids f0 a" "i \<notin> set ?D" | "i \<in> set (email_created d)" "resolve_email f1 i = a" by auto
    then show "i \<in> account_ids f1 a"
    proof cases
      case 1
      then have old: "i \<in> email_ids f0" using sub by blast
      have "i \<in> email_ids f1" using dead 1 old ids by blast
      then show ?thesis using before [OF old] 1 held by blast
    next
      case 2
      have "i \<notin> set (email_destroyed d)" using dest new 2(1) by blast
      then have "i \<in> email_ids f1" using 2(1) ids by blast
      with 2 show ?thesis by (simp add: held)
    qed
  qed
  moreover have "e \<in> set (emails_for f0 a) \<or> em_id e \<in> set ?C \<union> set ?U" if "e \<in> set (emails_for f1 a)" for e
  proof -
    have e: "e \<in> set (emails f1)" "em_account_id e = a" using that by (simp_all add: emails_for_def)
    have "resolve_email f1 (em_id e) = a"
      using resolve_email_member [OF mail_okD(1) [OF ok] e(1)] e(2) by simp
    with told e show ?thesis by (auto simp: emails_for_def)
  qed
  moreover have "em_id e \<notin> set ?D" if "e \<in> set (emails_for f1 a)" for e
    using that dead ids by (auto simp: emails_for_def email_ids_def)
  ultimately have "delta_exact f0 ?f a ?delta"
    using disjoint by (auto simp: delta_exact_def dominance_sets list_all_iff account_ids_def emails_for_def emails)
  with delta show ?thesis by blast
qed

end
