(* ===== verification/Jmap_Sync.thy ===== *)
theory Jmap_Sync
  imports Jmap_Dispatch Mail_Sync Imap_Expunge
begin

text \<open>
  The JMAP writes keep the mail contract: the creates, updates and destroys of \<open>Email/set\<close>, the imports and
  the submissions are mail steps, the other set methods touch no mail. So a request of any methods keeps
  the mail invariant, and \<open>Email/changes\<close> from before a call is exact.
\<close>

subsection \<open>Parsed values\<close>

text \<open>What the parser delivers: an object's keys are sorted, without repetition, at every depth.\<close>

fun json_ok :: "json \<Rightarrow> bool" where
  "json_ok (JArray xs) \<longleftrightarrow> list_all json_ok xs"
| "json_ok (JObject kvs) \<longleftrightarrow> bt_ok kvs \<and> list_all json_ok (map snd kvs)"
| "json_ok _ \<longleftrightarrow> True"

lemma json_ok_object:
  assumes "json_ok v" and "as_object v = Some kvs"
  shows "bt_ok kvs" "(k, w) \<in> set kvs \<Longrightarrow> json_ok w"
  using assms by (cases v; force simp: list_all_iff)+

lemma json_ok_get: "json_ok v \<Longrightarrow> jget k v = Some w \<Longrightarrow> json_ok w"
  unfolding jget_def bind_eq_Some_conv by (metis json_ok_object(2) map_of_SomeD)

lemma json_ok_object_arg:
  assumes "json_ok v" and "(k, w) \<in> set (object_arg x v)"
  shows "json_ok w"
proof -
  from assms(2) obtain kvs where kvs: "Option.bind (jget x v) as_object = Some kvs" "(k, w) \<in> set kvs"
    by (cases "Option.bind (jget x v) as_object") (simp_all add: object_arg_def)
  then obtain u where "jget x v = Some u" "as_object u = Some kvs" by (auto simp: bind_eq_Some_conv)
  with kvs(2) show ?thesis using json_ok_object(2) json_ok_get [OF assms(1)] by blast
qed

lemma distinct_jmap_bool_set: "bt_ok kvs \<Longrightarrow> distinct (jmap_bool_set kvs)"
  using bt_ok_distinct [of kvs] by (simp add: jmap_bool_set_def distinct_map_filter)

subsection \<open>The mail steps of JMAP\<close>

text \<open>A builder takes the next id and a non-empty set of mailboxes.\<close>

definition builds :: "(json \<Rightarrow> fixture \<Rightarrow> json + (string \<times> email \<times> fixture)) \<Rightarrow> bool" where
  "builds build \<longleftrightarrow> (\<forall>body f i e f1. json_ok body \<longrightarrow> build body f = Inr (i, e, f1) \<longrightarrow>
     i = em_id e \<and> filed e \<and> em_id e = mock_email_id (Suc (synthetic_email_seq f)) \<and> f1 = snd (mint_email_id f))"

lemma new_mailbox_ids_filed:
  assumes "json_ok body" and "new_mailbox_ids body f = Inr is"
  shows "is \<noteq> []" "distinct is"
proof -
  from assms(2) obtain kvs v where v: "jget ''mailboxIds'' body = Some v" "as_object v = Some kvs"
    and "is": "is = jmap_bool_set kvs" "is \<noteq> []"
    by (auto simp: new_mailbox_ids_def bind_eq_Some_conv Let_def split: option.splits if_splits)
  then show "is \<noteq> []" "distinct is"
    using json_ok_object(1) [OF json_ok_get [OF assms(1) v(1)] v(2)] by (simp_all add: distinct_jmap_bool_set)
qed

lemma minted: "mint_email_id f = (mock_email_id (Suc (synthetic_email_seq f)), f\<lparr>synthetic_email_seq := Suc (synthetic_email_seq f)\<rparr>)"
  by (simp add: mint_email_id_def mock_email_id_def)

lemma builds_create: "builds (build_email_from_create env)"
  unfolding builds_def
  by (auto simp: build_email_from_create_def and_then_Inr minted filed_def Let_def
      dest: new_mailbox_ids_filed split: option.splits)

lemma builds_import: "builds (build_email_from_import env)"
  unfolding builds_def
  by (auto simp: build_email_from_import_def and_then_Inr minted filed_def Let_def
      dest: new_mailbox_ids_filed split: option.splits)

lemma file_adds:
  assumes "filed e" and "em_id e = mock_email_id (Suc (synthetic_email_seq f))"
  shows "adds e f (file_email (em_id e) e (snd (mint_email_id f)))"
  using assign_adds [OF assms] by (simp add: file_email_def minted)

lemma patch_member_distinct:
  "patch_member p i v xs = Inr ys \<Longrightarrow> distinct xs \<Longrightarrow> distinct ys"
  by (auto simp: patch_member_def split: option.splits bool.splits if_splits)

lemma patch_field_keeps:
  assumes "patch_field k v (t, e) = Inr (t', e')" and "json_ok v" and "distinct (mailbox_ids e)"
  shows "em_id e' = em_id e" "em_account_id e' = em_account_id e" "distinct (mailbox_ids e')"
    "\<not> t' \<Longrightarrow> \<not> t \<and> mailbox_ids e' = mailbox_ids e"
  using assms json_ok_object(1) [OF assms(2)]
  by (auto simp: patch_field_def and_then_Inr distinct_jmap_bool_set dest: patch_member_distinct
      split: if_splits option.splits)

lemma patch_fields_keep:
  assumes "patch_fields kvs (t, e) = Inr (t', e')" and "\<And>k v. (k, v) \<in> set kvs \<Longrightarrow> json_ok v"
    and "distinct (mailbox_ids e)"
  shows "em_id e' = em_id e \<and> em_account_id e' = em_account_id e \<and> distinct (mailbox_ids e') \<and>
    (\<not> t' \<longrightarrow> \<not> t \<and> mailbox_ids e' = mailbox_ids e)"
  using assms
proof (induction kvs arbitrary: t e)
  case (Cons kv kvs)
  obtain k v where kv: "kv = (k, v)" by (cases kv)
  with Cons.prems(1) obtain t1 e1 where first: "patch_field k v (t, e) = Inr (t1, e1)"
    and others: "patch_fields kvs (t1, e1) = Inr (t', e')"
    by (auto simp: and_then_Inr)
  have "json_ok v" using Cons.prems(2) [of k v] by (simp add: kv)
  note keep = patch_field_keeps [OF first this Cons.prems(3)]
  have "em_id e' = em_id e1 \<and> em_account_id e' = em_account_id e1 \<and> distinct (mailbox_ids e') \<and>
      (\<not> t' \<longrightarrow> \<not> t1 \<and> mailbox_ids e' = mailbox_ids e1)"
    by (rule Cons.IH [OF others]) (auto intro: Cons.prems(2) simp: keep(3))
  then show ?case using keep by auto
qed simp

lemma apply_email_patch_keeps:
  assumes "apply_email_patch patch e = Inr e'" and "json_ok patch" and "filed e"
  shows "filed e' \<and> em_id e' = em_id e \<and> em_account_id e' = em_account_id e"
proof -
  from assms(1) obtain kvs t where kvs: "as_object patch = Some kvs"
    and run: "patch_fields kvs (False, e) = Inr (t, e')" and "\<not> (t \<and> mailbox_ids e' = [])"
    by (auto simp: apply_email_patch_def and_then_Inr split: option.splits if_splits)
  then show ?thesis
    using patch_fields_keep [OF run] json_ok_object(2) [OF assms(2) kvs] assms(3) by (auto simp: filed_def)
qed

lemma patch_edits:
  assumes "mail_ok f" and "n < length (emails f)" and "em_id (emails f ! n) = i" and "json_ok patch"
    and "apply_email_patch patch (emails f ! n) = Inr e'"
  shows "edits n e' f (patch_email_at i n e' f)"
proof -
  have "emails f ! n \<in> set (emails f)" using assms(2) by simp
  note keep = apply_email_patch_keeps [OF assms(5,4) mail_okD(2) [OF assms(1) this]]
  then show ?thesis using sync_edits [OF assms(1,2), of e'] assms(3) by (simp add: patch_email_at_def)
qed

lemma file_position:
  assumes "n = length (takeWhile (\<lambda>e. em_id e \<noteq> i) es)" and "n < length es"
  shows "em_id (es ! n) = i"
  using nth_length_takeWhile [of "\<lambda>e. em_id e \<noteq> i" es] assms by simp

lemma retire_removes:
  assumes "mail_ok f" and "n < length (emails f)" and "em_id (emails f ! n) = i"
  defines "e \<equiv> emails f ! n"
  shows "removes [(i, em_account_id e)] f
    (fold (\<lambda>mb. retire_uid mb i) (mailbox_ids e) (f\<lparr>emails := take n (emails f) @ drop (Suc n) (emails f)\<rparr>))"
proof -
  have mem: "e \<in> set (emails f)" using assms(2) by (simp add: e_def)
  note dist = mail_okD(1) [OF assms(1)]
  have split: "emails f = take n (emails f) @ e # drop (Suc n) (emails f)"
    using assms(2) by (simp add: e_def id_take_nth_drop)
  have "i \<notin> em_id ` (set (take n (emails f)) \<union> set (drop (Suc n) (emails f)))"
    using dist assms(3) by (subst (asm) split) (simp add: e_def [symmetric] image_Un)
  then have others: "em_id x \<noteq> i" if "x \<in> set (take n (emails f)) \<union> set (drop (Suc n) (emails f))" for x
    using that imageI by blast
  have "filter (\<lambda>x. em_id x \<noteq> i) (emails f) = take n (emails f) @ drop (Suc n) (emails f)"
    using assms(3) others by (subst split) (simp add: e_def [symmetric] filter_id_conv)
  then show ?thesis using retire_removes_one [OF assms(1) mem] assms(3) by (simp add: e_def [symmetric])
qed

text \<open>Retiring the emails of a list of ids, a repeated id changing nothing more.\<close>

definition retire_all :: "(string \<Rightarrow> string list) \<Rightarrow> string list \<Rightarrow> fixture \<Rightarrow> fixture" where
  "retire_all mbs is f = fold (\<lambda>i. fold (\<lambda>mb. retire_uid mb i) (mbs i)) is f"

lemma held_retire_many:
  assumes "\<And>i. i \<in> set is \<Longrightarrow> distinct (mbs i)"
    and "\<And>mb i. i \<in> set is \<Longrightarrow> held f mb i \<le> (if mb \<in> set (mbs i) then 1 else 0)"
  shows "held (retire_all mbs is f) mb j = (if j \<in> set is then 0 else held f mb j)"
  using assms
proof (induction "is" arbitrary: f)
  case (Cons i "is")
  let ?f1 = "fold (\<lambda>mb. retire_uid mb i) (mbs i) f"
  have dist: "distinct (mbs i)" by (rule Cons.prems(1)) simp
  have one: "held ?f1 mb j = (if j = i then 0 else held f mb j)" for mb j
    using Cons.prems(2) [of i mb] by (auto simp: held_retire_all [OF dist] split: if_splits)
  have "held (retire_all mbs is ?f1) mb j = (if j \<in> set is then 0 else held ?f1 mb j)"
  proof (rule Cons.IH)
    show "held ?f1 mb i' \<le> (if mb \<in> set (mbs i') then 1 else 0)" if "i' \<in> set is" for mb i'
      using Cons.prems(2) [of i' mb] that by (auto simp: one split: if_splits)
    show "distinct (mbs i')" if "i' \<in> set is" for i'
      by (rule Cons.prems(1)) (simp add: that)
  qed
  then show ?case by (simp add: retire_all_def one)
qed (simp add: retire_all_def)

lemma retire_all_fields [simp]:
  "emails (retire_all mbs is f) = emails f" "account_logs (retire_all mbs is f) = account_logs f"
  "state_seed (retire_all mbs is f) = state_seed f" "accounts (retire_all mbs is f) = accounts f"
  "synthetic_email_seq (retire_all mbs is f) = synthetic_email_seq f"
  "change_script (retire_all mbs is f) = change_script f" "announce (retire_all mbs is f) = announce f"
  by (simp_all add: retire_all_def fold_same)

lemma email_index_at:
  assumes "email_index f i = Some n"
  shows "n < length (map em_id (emails f)) \<and> map em_id (emails f) ! n = i"
  using collect_map_Some [OF assms [unfolded email_index_def]] by (auto simp: in_set_enumerate_eq)

lemma destroy_email_steps:
  fixes known :: "string \<Rightarrow> (string list \<times> string) option"
  defines "hit is \<equiv> filter (\<lambda>i. known i \<noteq> None) is"
  shows "\<exists>out'. fold (destroy_email_step known) is (f, d, out) =
    (retire_all (\<lambda>i. fst (the (known i))) (hit is) f,
     diff_remove (map (\<lambda>i. (i, snd (the (known i)))) (hit is)) d, out')"
proof (induction "is" arbitrary: f d out)
  case (Cons i "is")
  show ?case
  proof (cases "known i")
    case None
    then show ?thesis using Cons.IH by (simp add: destroy_email_step_def hit_def)
  next
    case (Some r)
    obtain mbs a where r: "r = (mbs, a)" by (cases r)
    let ?f1 = "fold (\<lambda>mb. retire_uid mb i) mbs f" and ?d1 = "diff_remove [(i, a)] d"
    have "destroy_email_step known i (f, d, out) = (?f1, ?d1, note_destroyed i out)"
      using Some r by (simp add: destroy_email_step_def diff_remove_def)
    moreover from Cons.IH [of ?f1 ?d1 "note_destroyed i out"] obtain out' where
      "fold (destroy_email_step known) is (?f1, ?d1, note_destroyed i out) =
        (retire_all (\<lambda>i. fst (the (known i))) (hit is) ?f1,
         diff_remove (map (\<lambda>i. (i, snd (the (known i)))) (hit is)) ?d1, out')" by blast
    ultimately show ?thesis
      using Some r by (simp add: hit_def retire_all_def diff_remove_def)
  qed
qed (simp add: hit_def retire_all_def diff_remove_def)

lemma destroy_emails_removes:
  assumes "mail_ok f"
  shows "\<exists>gone f1 out'. destroy_emails is (f, d, out) = (f1, diff_remove gone d, out') \<and>
    removes gone f f1 \<and> set (map fst gone) \<subseteq> set is"
proof -
  let ?known = "collect_map em_id (\<lambda>e. (mailbox_ids e, em_account_id e)) (filter (\<lambda>e. em_id e \<in> set is) (emails f))"
  let ?hit = "filter (\<lambda>i. ?known i \<noteq> None) is"
  let ?gone = "map (\<lambda>i. (i, snd (the (?known i)))) ?hit"
  let ?f = "f\<lparr>emails := filter (\<lambda>e. em_id e \<notin> set is) (emails f)\<rparr>"
  let ?f1 = "retire_all (\<lambda>i. fst (the (?known i))) ?hit ?f"
  note dist = mail_okD(1) [OF assms]
  have found: "\<exists>e \<in> set (emails f). em_id e = i \<and> ?known i = Some (mailbox_ids e, em_account_id e)"
    if "i \<in> set ?hit" for i
  proof -
    from that obtain r where r: "?known i = Some r" by auto
    from collect_map_Some [OF this] obtain e where "e \<in> set (emails f)" "em_id e = i" "(mailbox_ids e, em_account_id e) = r"
      by auto
    with r show ?thesis by auto
  qed
  have hit: "em_id e \<in> set ?hit \<longleftrightarrow> em_id e \<in> set is" if "e \<in> set (emails f)" for e
    using that by (auto simp: collect_map_None)
  have "held ?f1 mb i = (if i \<in> set ?hit then 0 else held ?f mb i)" for mb i
  proof (rule held_retire_many)
    fix j mb
    assume "j \<in> set ?hit"
    then obtain e where e: "e \<in> set (emails f)" "em_id e = j" "?known j = Some (mailbox_ids e, em_account_id e)"
      using found by blast
    then show "distinct (fst (the (?known j)))"
      using mail_okD(2) [OF assms e(1)] by (simp add: filed_def)
    show "held ?f mb j \<le> (if mb \<in> set (fst (the (?known j))) then 1 else 0)"
      using mail_okD(3) [OF assms, of mb j] lies_in_member [OF dist e(1), of mb] e(2,3) by simp
  qed
  moreover have "fst ` set ?gone = set ?hit" by (simp add: image_image)
  moreover have "emails ?f1 = filter (\<lambda>e. em_id e \<notin> set ?hit) (emails f)"
    using hit by (simp del: set_filter cong: filter_cong)
  moreover have "\<exists>e \<in> set (emails f). em_id e = i \<and> em_account_id e = a" if "(i, a) \<in> set ?gone" for i a
  proof -
    from that have "i \<in> set ?hit" "a = snd (the (?known i))" by auto
    with found show ?thesis by fastforce
  qed
  ultimately have "removes ?gone f ?f1"
    unfolding removes_def by (auto simp: same_rest_def simp del: set_filter set_map)
  moreover obtain out' where "destroy_emails is (f, d, out) = (?f1, diff_remove ?gone d, out')"
    using destroy_email_steps [of ?known "is" ?f d out] by (auto simp: destroy_emails_def)
  ultimately show ?thesis by (intro exI conjI) auto
qed

subsection \<open>The clients of the contract\<close>

text \<open>A mutation of JMAP from a fixture where the contract holds with nothing recorded yet.\<close>

definition after_mutation :: "(mutation_diff \<Rightarrow> fixture \<Rightarrow> bool) \<Rightarrow> fixture \<Rightarrow> fixture \<Rightarrow> bool" where
  "after_mutation P f f' \<longleftrightarrow> f' = f \<or> (\<exists>d f1. P d f1 \<and> f' = snd (record_transition d f1))"

definition mail_of :: "set_state \<Rightarrow> _" where
  "mail_of = (\<lambda>(f, d, out). (mail_state f, mail_diff d))"

lemma run_set_result:
  "snd (run_set a body f) = (let (f1, d, out) = body (f, diff_default, set_outcome_empty) in snd (record_transition d f1))"
  by (simp add: run_set_def mutate_def case_prod_beta Let_def)

lemma mail_diff_default [simp]: "mail_diff diff_default = ([], [], [], [])"
  by (simp add: mail_diff_def diff_default_def)

text \<open>The methods that leave mail alone.\<close>

lemma mail_of_fold: "(\<And>x s. mail_of (g x s) = mail_of s) \<Longrightarrow> mail_of (fold g xs s) = mail_of s"
  by (rule fold_same)

lemma mail_of_refusals [simp]:
  "mail_of (f, d, refuse_create i e out) = mail_of (f, d, out)"
  "mail_of (f, d, refuse_update i e out) = mail_of (f, d, out)"
  "mail_of (f, d, refuse_destroy i e out) = mail_of (f, d, out)"
  by (simp_all add: mail_of_def)

lemma mailbox_set_mail:
  "mail_of (fold destroy_mailbox_step ds (fold update_mailbox_step us (fold (create_mailbox_step a) cs s))) = mail_of s"
proof -
  have "mail_of (create_mailbox_step a x s) = mail_of s" for x s
    by (auto simp: create_mailbox_step_def mail_of_def mail_state_def mail_diff_def split: prod.splits sum.splits)
  moreover have "mail_of (update_mailbox_step x s) = mail_of s" for x s
    by (auto simp: update_mailbox_step_def mail_of_def mail_state_def mail_diff_def split: prod.splits sum.splits option.splits)
  moreover have "mail_of (destroy_mailbox_step x s) = mail_of s" for x s
    by (auto simp: destroy_mailbox_step_def mail_of_def mail_state_def mail_diff_def split: prod.splits option.splits)
  ultimately show ?thesis by (simp add: mail_of_fold)
qed

lemma minted_contact:
  assumes "build_contact_from_create a body f = Inr (i, c, f1)"
  shows "mail_state f1 = mail_state f"
  using assms by (auto simp: build_contact_from_create_def mint_contact_id_def mail_state_def Let_def
      split: option.splits if_splits prod.splits)

lemma contact_set_mail:
  "mail_of (fold destroy_contact_step ds (fold update_contact_step us (fold (create_contact_step a) cs s))) = mail_of s"
proof -
  have "mail_state (f\<lparr>contacts := c\<rparr>) = mail_state f" for f c by (simp add: mail_state_def)
  then have "mail_of (create_contact_step a x s) = mail_of s" for x s
    by (auto simp: create_contact_step_def mail_of_def mail_diff_def dest: minted_contact split: prod.splits sum.splits)
  moreover have "mail_of (update_contact_step x s) = mail_of s" for x s
    by (auto simp: update_contact_step_def mail_of_def mail_state_def mail_diff_def split: prod.splits sum.splits option.splits)
  moreover have "mail_of (destroy_contact_step x s) = mail_of s" for x s
    by (auto simp: destroy_contact_step_def mail_of_def mail_state_def mail_diff_def split: prod.splits option.splits)
  ultimately show ?thesis by (simp add: mail_of_fold)
qed

lemma try_fold_same:
  assumes "try_fold g xs s = Some s'" and "\<And>x s t. g x s = Some t \<Longrightarrow> k t = k s"
  shows "k s' = k s"
  using assms(1) by (induction xs arbitrary: s) (auto simp: bind_eq_Some_conv dest: assms(2))

lemma minted_event:
  assumes "build_event_from_create env body f = Some (Inr (i, e, f1))"
  shows "mail_state f1 = mail_state f"
proof -
  have "mail_state (snd (snd (new_event env body c f t))) = mail_state f" for c t
    by (simp add: new_event_def mint_event_id_def mail_state_def case_prod_beta Let_def)
  moreover have "\<exists>c t. (i, e, f1) = new_event env body c f t"
  proof (rule ccontr)
    assume none: "\<nexists>c t. (i, e, f1) = new_event env body c f t"
    have "map_option (\<lambda>times. case times of None \<Rightarrow> Inl could_not_parse | Some t \<Rightarrow> Inr (new_event env body c f t)) z
        \<noteq> Some (Inr (i, e, f1))" for c z
      using none by (cases z; cases "the z") (auto dest: sym)
    with assms show False by (simp add: build_event_from_create_def Let_def split: option.splits if_splits)
  qed
  ultimately show ?thesis by (metis snd_conv)
qed

lemma create_event_mail:
  assumes "create_event_step env x s = Some t"
  shows "mail_of t = mail_of s"
proof -
  obtain k body f d out where x: "x = (k, body)" "s = (f, d, out)" by (cases x; cases s)
  show ?thesis
  proof (cases "build_event_from_create env body f")
    case (Some r)
    show ?thesis
    proof (cases r)
      case (Inr q)
      obtain i e f1 where q: "q = (i, e, f1)" by (cases q)
      have "mail_state (f1\<lparr>events := es\<rparr>) = mail_state f" for es
        using minted_event [of env body f i e f1] Some Inr q by (simp add: mail_state_def)
      then show ?thesis
        using assms Some Inr q by (auto simp: create_event_step_def x mail_of_def mail_diff_def)
    qed (use assms Some in \<open>auto simp: create_event_step_def x\<close>)
  qed (use assms in \<open>simp add: create_event_step_def x\<close>)
qed

lemma update_event_mail:
  assumes "update_event_step env x s = Some t"
  shows "mail_of t = mail_of s"
proof -
  obtain i patch f d out where x: "x = (i, patch)" "s = (f, d, out)" by (cases x; cases s)
  show ?thesis
  proof (cases "find (\<lambda>e. ev_id e = i) (events f)")
    case (Some e)
    then obtain r where "apply_event_patch env patch e = Some r" using assms by (auto simp: update_event_step_def x)
    then show ?thesis
      using assms Some by (cases r) (auto simp: update_event_step_def x mail_of_def mail_diff_def mail_state_def)
  qed (use assms in \<open>auto simp: update_event_step_def x\<close>)
qed

lemma event_mutation_mail:
  assumes "event_mutation env args s = Some s'"
  shows "mail_of s' = mail_of s"
proof -
  have "mail_of (destroy_event_step x s) = mail_of s" for x s
    by (cases s) (auto simp: destroy_event_step_def mail_of_def mail_diff_def mail_state_def split: option.split)
  then have destroy: "mail_of (fold destroy_event_step ds s) = mail_of s" for ds s by (rule mail_of_fold)
  from assms obtain s1 s2 where "try_fold (create_event_step env) (object_arg ''create'' args) s = Some s1"
    "try_fold (update_event_step env) (object_arg ''update'' args) s1 = Some s2"
    "s' = fold destroy_event_step (strings_arg ''destroy'' args) s2"
    by (auto simp: event_mutation_def bind_eq_Some_conv)
  then show ?thesis
    using try_fold_same [of "create_event_step env" _ s s1 mail_of] try_fold_same [of "update_event_step env" _ s1 s2 mail_of]
    by (simp add: destroy create_event_mail update_event_mail)
qed

context mail_contract
begin

definition good :: "set_state \<Rightarrow> bool" where
  "good s \<longleftrightarrow> (case s of (f, d, out) \<Rightarrow> P d f)"

lemma good_same_mail: "good s \<Longrightarrow> mail_of s = mail_of s' \<Longrightarrow> good s'"
  by (auto simp: good_def mail_of_def intro: rest split: prod.splits)

lemma good_fold: "good s \<Longrightarrow> (\<And>x s. x \<in> set xs \<Longrightarrow> good s \<Longrightarrow> good (g x s)) \<Longrightarrow> good (fold g xs s)"
  by (induction xs arbitrary: s) simp_all

lemma create_email:
  assumes "good s" and "builds build" and "json_ok body"
  shows "good (create_email_step build sz (k, body) s)"
proof (cases s)
  case (fields f d out)
  show ?thesis
  proof (cases "build body f")
    case (Inr r)
    obtain i e f1 where r: "r = (i, e, f1)" by (cases r)
    with assms(2,3) Inr have b: "i = em_id e" "filed e" "em_id e = mock_email_id (Suc (synthetic_email_seq f))"
      "f1 = snd (mint_email_id f)"
      unfolding builds_def by blast+
    have "P (diff_add e d) (file_email (em_id e) e f1)"
      using add [OF _ file_adds [OF b(2,3)]] assms(1) fields b(4) by (simp add: good_def)
    then show ?thesis
      using Inr r b(1) fields by (simp add: create_email_step_def good_def diff_add_def)
  qed (use assms(1) fields in \<open>simp add: create_email_step_def good_def\<close>)
qed

lemma create_emails:
  assumes "good s" and "builds build" and "\<And>k body. (k, body) \<in> set creates \<Longrightarrow> json_ok body"
  shows "good (fold (create_email_step build sz) creates s)"
  using assms(1) by (rule good_fold) (auto intro: create_email assms)

text \<open>The ids keep their positions while emails are edited.\<close>

lemma patch_email:
  assumes "P d f" and "n < length (emails f)" and "em_id (emails f ! n) = i" and "json_ok patch"
    and "apply_email_patch patch (emails f ! n) = Inr e'"
  shows "P (d\<lparr>email_updated := email_updated d @ [i]\<rparr>) (patch_email_at i n e' f)"
    "map em_id (emails (patch_email_at i n e' f)) = map em_id (emails f)"
proof -
  note step = patch_edits [OF ok [OF assms(1)] assms(2-5)]
  have "em_id e' = i" using step assms(3) by (simp add: edits_def)
  then show "P (d\<lparr>email_updated := email_updated d @ [i]\<rparr>) (patch_email_at i n e' f)"
    using edit [OF assms(1) step] by (simp add: diff_edit_def)
  show "map em_id (emails (patch_email_at i n e' f)) = map em_id (emails f)"
    by (rule edits_members(2) [OF ok [OF assms(1)] step])
qed

lemma update_emails:
  assumes "good s" and "\<And>i patch. (i, patch) \<in> set updates \<Longrightarrow> json_ok patch"
    and index: "\<And>i n. index i = Some n \<Longrightarrow> n < length ids \<and> ids ! n = i" and "map em_id (emails (fst s)) = ids"
  shows "good (fold (update_email_step index) updates s)"
  using assms(1,2,4)
proof (induction updates arbitrary: s)
  case (Cons u us)
  obtain i patch where u: "u = (i, patch)" by (cases u)
  obtain f d out where s: "s = (f, d, out)" by (cases s)
  have "good (update_email_step index u s) \<and> map em_id (emails (fst (update_email_step index u s))) = ids"
  proof (cases "index i")
    case (Some n)
    then have n: "n < length (emails f)" "em_id (emails f ! n) = i"
      using index [OF Some] Cons.prems(3) s by auto
    have patch: "json_ok patch" using Cons.prems(2) [of i patch] u by simp
    have P: "P d f" using Cons.prems(1) s by (simp add: good_def)
    show ?thesis
      using Some Cons.prems(1,3) patch_email [OF P n patch]
      by (auto simp: update_email_step_def u s good_def split: sum.splits)
  qed (use Cons.prems(1,3) in \<open>simp add: update_email_step_def u s good_def\<close>)
  moreover have "json_ok patch" if "(i, patch) \<in> set us" for i patch
    using Cons.prems(2) [of i patch] that by simp
  ultimately show ?case using Cons.IH [of "update_email_step index u s"] by simp
qed simp

lemma destroy_emails:
  assumes "good s" and "list_all may is"
  shows "good (destroy_emails is s)"
proof (cases s)
  case (fields f d out)
  with assms(1) have P: "P d f" by (simp add: good_def)
  obtain gone f1 out' where run: "destroy_emails is (f, d, out) = (f1, diff_remove gone d, out')"
    and gone: "removes gone f f1" "set (map fst gone) \<subseteq> set is"
    using destroy_emails_removes [OF ok [OF P], of "is" d out] by blast
  from gone(2) assms(2) have "list_all may (map fst gone)" by (auto simp: list_all_iff)
  then show ?thesis using remove [OF P gone(1)] run fields by (simp add: good_def)
qed

text \<open>The three mail methods.\<close>

lemma email_set_body:
  assumes "P diff_default f" and "json_ok args" and "list_all may (strings_arg ''destroy'' args)"
  shows "good (destroy_emails (strings_arg ''destroy'' args) (Jmap_Set.update_emails (object_arg ''update'' args)
    (fold (create_email_step (build_email_from_create env) sz) (object_arg ''create'' args) (f, diff_default, set_outcome_empty))))"
proof -
  let ?s = "fold (create_email_step (build_email_from_create env) sz) (object_arg ''create'' args) (f, diff_default, set_outcome_empty)"
  have "good ?s"
    using assms(1) by (intro create_emails [OF _ builds_create] json_ok_object_arg [OF assms(2)]) (simp_all add: good_def)
  then have "good (Jmap_Set.update_emails (object_arg ''update'' args) ?s)"
    unfolding Jmap_Set.update_emails_def
    by (rule update_emails [OF _ json_ok_object_arg [OF assms(2)] email_index_at refl])
  then show ?thesis by (rule destroy_emails) (rule assms(3))
qed

lemma submission:
  assumes "good s \<and> email_created (fst (snd s)) = []" and "\<And>k patch. (k, patch) \<in> set on_update \<Longrightarrow> json_ok patch"
  shows "good (submission_step prior on_update on_destroy c s) \<and>
    email_created (fst (snd (submission_step prior on_update on_destroy c s))) = []"
proof -
  obtain f d out where s: "s = (f, d, out)" by (cases s)
  obtain k sub where c: "c = (k, sub)" by (cases c)
  have P: "P d f" and none: "email_created d = []" using assms(1) s by (simp_all add: good_def)
  show ?thesis
  proof (cases "Option.bind (resolve_submission_email_id sub prior) (\<lambda>i. map_option (Pair i) (email_position f i))")
    case None
    then show ?thesis using assms(1) s c by (auto simp: submission_step_def good_def split: option.splits)
  next
    case (Some r)
    obtain i n where r: "r = (i, n)" by (cases r)
    with Some have i: "resolve_submission_email_id sub prior = Some i" and n: "email_position f i = Some n"
      by (auto simp: bind_eq_Some_conv)
    have pos: "n < length (emails f)" "em_id (emails f ! n) = i"
      using n file_position [of n i "emails f"] by (auto simp: email_position_def Let_def split: if_splits)
    have "P (snd (on_success on_update on_destroy key i n (f, d))) (fst (on_success on_update on_destroy key i n (f, d))) \<and>
        email_created (snd (on_success on_update on_destroy key i n (f, d))) = []" for key
    proof (cases "map_of on_update key")
      case (Some patch)
      then have "json_ok patch" by (auto intro: assms(2) dest: map_of_SomeD)
      then show ?thesis
        using P none Some patch_email(1) [OF P pos] by (auto simp: on_success_def split: sum.split)
    next
      case None
      then show ?thesis
        using P none remove [OF P retire_removes [OF ok [OF P] pos]]
        by (auto simp: on_success_def diff_remove_def Let_def)
    qed
    then show ?thesis
      using i n s c by (auto simp: submission_step_def good_def Let_def case_prod_beta)
  qed
qed

lemma submissions:
  assumes "P diff_default f" and "\<And>k patch. (k, patch) \<in> set on_update \<Longrightarrow> json_ok patch"
  shows "good (fold (submission_step prior on_update on_destroy) creates (f, diff_default, out))"
proof -
  have "good s \<and> email_created (fst (snd s)) = [] \<Longrightarrow>
      good (fold (submission_step prior on_update on_destroy) creates s)" for s
  proof (induction creates arbitrary: s)
    case (Cons c cs)
    from submission [OF Cons.prems assms(2)] show ?case by (simp add: Cons.IH)
  qed simp
  then show ?thesis using assms(1) by (simp add: good_def diff_default_def)
qed

text \<open>Every method of the dispatcher.\<close>

lemma guarded:
  assumes "P diff_default f" and "\<And>a. good (body a (f, diff_default, set_outcome_empty))"
  shows "after_mutation P f (snd (guarded_set f args body))"
  using assms(2)
  by (auto simp: after_mutation_def guarded_set_def run_set_result good_def case_prod_beta Let_def
      split: sum.split option.split)

lemma unmailed:
  assumes "P diff_default f" and "mail_of s = mail_of (f, diff_default, set_outcome_empty)"
  shows "good s"
  using assms good_same_mail [of "(f, diff_default, set_outcome_empty)" s] by (simp add: good_def)

lemma calendar_keeps:
  assumes "P diff_default f" and "calendar_event_set env args f = Some (r, f')"
  shows "after_mutation P f f'"
proof -
  from assms(2) obtain s where s: "guarded_set f args (\<lambda>_ _. s) = (r, f')"
    and "event_mutation env args (f, diff_default, set_outcome_empty) = Some s \<or> s = (f, diff_default, set_outcome_empty)"
    by (auto simp: calendar_event_set_def split: sum.splits)
  then have "mail_of s = mail_of (f, diff_default, set_outcome_empty)" using event_mutation_mail by blast
  then have "good s" by (rule unmailed [OF assms(1)])
  with guarded [OF assms(1), of "\<lambda>_ _. s" args] s show ?thesis by simp
qed

lemma run_write_keeps:
  assumes "P diff_default f" and "json_ok args" and "list_all may (strings_arg ''destroy'' args)"
    and "name \<in> set write_methods" and "run_write env name args prior f = Some (r, f')"
  shows "after_mutation P f f'"
proof -
  have "after_mutation P f (snd (email_set env args f))"
    unfolding email_set_def by (rule guarded [OF assms(1)]) (rule email_set_body [OF assms(1-3)])
  moreover have "after_mutation P f (snd (mailbox_set args f))"
    unfolding mailbox_set_def by (rule guarded [OF assms(1)]) (rule unmailed [OF assms(1)], simp add: mailbox_set_mail)
  moreover have "after_mutation P f (snd (contact_card_set args f))"
    unfolding contact_card_set_def by (rule guarded [OF assms(1)]) (rule unmailed [OF assms(1)], simp add: contact_set_mail)
  moreover have "after_mutation P f f1" if "calendar_event_set env args f = Some (q, f1)" for q f1
    using that by (rule calendar_keeps [OF assms(1)])
  moreover have "after_mutation P f (snd (email_import env args f))"
    using create_emails [of "(f, diff_default, set_outcome_empty)" "build_email_from_import env" "object_arg ''emails'' args" em_size]
      json_ok_object_arg [OF assms(2)] builds_import [of env] assms(1)
    by (auto simp: after_mutation_def email_import_def with_writer_def good_def mutate_def case_prod_beta Let_def split: sum.split)
  moreover have "after_mutation P f (snd (email_submission_set args prior f))"
  proof -
    let ?s = "fold (submission_step prior (object_arg ''onSuccessUpdateEmail'' args) (strings_arg ''onSuccessDestroyEmail'' args))
        (object_arg ''create'' args) (f, diff_default, set_outcome_empty)"
    have "good ?s" by (rule submissions [OF assms(1) json_ok_object_arg [OF assms(2)]])
    then have "P (fst (snd ?s)) (fst ?s)" by (simp add: good_def case_prod_beta)
    then show ?thesis
      by (auto simp: after_mutation_def email_submission_set_def with_writer_def run_set_result case_prod_beta Let_def
          simp del: fold_simps split: sum.split)
  qed
  ultimately show ?thesis
    using assms(5) by (auto simp: run_write_def split: if_splits)
qed

lemma method_keeps:
  assumes "P diff_default f" and "json_ok args" and "list_all may (strings_arg ''destroy'' args)"
    and "jmap_dispatch env name args prior f = Some (r, f')"
  shows "after_mutation P f f'"
proof (cases "je_override env name (str_arg ''accountId'' args)
    (map_option (List.map_filter as_str) (Option.bind (jget ''ids'' args) as_array)) = None \<and> name \<in> set write_methods")
  case True
  then obtain q where "run_write env name args prior f = Some (q, f')"
    using assms(4) by (auto simp: jmap_dispatch_def)
  with True show ?thesis by (intro run_write_keeps [OF assms(1-3)]) blast+
next
  case False
  then have "f' = f" using assms(4) by (auto simp: jmap_dispatch_def split: option.splits prod.splits)
  then show ?thesis by (simp add: after_mutation_def)
qed

end

text \<open>An invariant of the writes is one of every request.\<close>

context mail_invariant
begin

lemma method_call_keeps:
  assumes "inv f" and "json_ok args" and "jmap_dispatch env name args prior f = Some (r, f')"
  shows "inv f'"
proof -
  have "list_all (\<lambda>_. True) xs" for xs :: "string list" by (simp add: list_all_iff)
  from method_keeps [OF assms(1,2) this assms(3)]
  show ?thesis using assms(1) recorded by (auto simp: after_mutation_def)
qed

lemma calls_keep:
  assumes "inv f" and "list_all (\<lambda>(_, args, _). json_ok args) calls" and "run_calls env calls prior f = Some (rs, f')"
  shows "inv f'"
  using assms
proof (induction calls arbitrary: prior f rs)
  case (Cons c cs)
  obtain name args i where c: "c = (name, args, i)" by (cases c)
  from Cons.prems(3) c obtain n v g1 rs1 where step: "jmap_dispatch env name args prior f = Some ((n, v), g1)"
    and others: "run_calls env cs (prior @ [(i, v)]) g1 = Some (rs1, f')"
    by (auto simp: bind_eq_Some_conv)
  show ?case
    using Cons.prems(2) c by (intro Cons.IH [OF method_call_keeps [OF Cons.prems(1) _ step] _ others]) simp_all
qed simp

lemma request_keeps:
  assumes "inv f" and "list_all (\<lambda>(_, args, _). json_ok args) (method_calls req)"
    and "jmap_handle env req f = Some (resp, f')"
  shows "inv f'"
  using assms calls_keep by (auto simp: jmap_handle_def)

end

subsection \<open>What a client of JMAP sees\<close>

lemma delta_exact_refl: "delta_exact f f a delta_set_default"
  by (simp add: delta_exact_def delta_set_default_def list_all_iff)

lemma dispatch_delta:
  assumes "wf_store f" and "mail_ok f" and "json_ok args"
    and "list_all (\<lambda>i. \<not> to_be_minted f i) (strings_arg ''destroy'' args)"
    and "jmap_dispatch env name args prior f = Some (r, f')"
  shows "accounts f' = accounts f \<and>
    (\<exists>d. email_delta_since_account f' (state_for f a) a = Some d \<and> delta_exact f f' a d)"
proof -
  have "mail_ok f \<and> tracked f diff_default f" using assms(2) by (simp add: tracked_refl)
  from kept_diff.method_keeps [OF this assms(3-5)]
  consider "f' = f" | d f1 where "tracked f d f1" "f' = snd (record_transition d f1)"
    by (auto simp: after_mutation_def)
  then show ?thesis
  proof cases
    case 1
    then show ?thesis
      by (auto simp: email_delta_since_account_def walk_account_log state_for_log delta_since_current delta_exact_refl)
  next
    case 2
    then have "accounts f' = accounts f"
      by (subst 2(2), subst record_transition_frame) (simp add: tracked_def)
    then show ?thesis using tracked_delta [OF assms(1,2) 2(1), of a] 2(2) by blast
  qed
qed

text \<open>
  C16. Every JMAP request keeps the mail invariant. Whatever methods a request calls with whatever arguments,
  afterwards email ids are unique and never to be minted again, every email is in at least one mailbox
  and listed there once and has exactly one live IMAP UID in each of its mailboxes and none elsewhere, and
  the change logs are well-formed.
\<close>

theorem jmap_request_keeps_mail:
  assumes "store_ok f" and "list_all (\<lambda>(_, args, _). json_ok args) (method_calls req)"
    and "jmap_handle env req f = Some (resp, f')"
  shows "store_ok f' \<and> list_all (\<lambda>e. mailbox_ids e \<noteq> []) (emails f') \<and> mailbox_ok f' mb"
proof -
  have ok: "store_ok f'" by (rule kept_ok.request_keeps [OF assms])
  then have "mail_ok f'" by (simp add: store_ok_def)
  from mail_okD [OF this] ok show ?thesis
    by (auto simp: list_all_iff filed_def mailbox_ok_def lies_in_iff)
qed

definition sample_jmap :: jmap_env where
  "sample_jmap = \<lparr>je_show_ts = (\<lambda>_. []), je_parse_ts = (\<lambda>_. None), je_mail_parser = (\<lambda>_. None),
     je_override = (\<lambda>_ _ _. None), je_epoch = 0, je_civil = digit_civil, je_lower = to_lower,
     je_overflow_checks = True\<rparr>"

definition sample_set_args :: json where
  "sample_set_args = jobj [(''accountId'', JString ''a''), (''destroy'', JArray [JString ''e1'']),
     (''update'', jobj [(''e2'', jobj [(''mailboxIds/arch'', JBool True)])])]"

lemma sample_store_ok: "store_ok sample_inbox" "wf_store sample_inbox" "mail_ok sample_inbox"
proof -
  show w: "wf_store sample_inbox" by (simp add: wf_store_def sample_inbox_def empty_fixture_def)
  have "held sample_inbox mb i = (if lies_in sample_inbox mb i then 1 else 0)" for mb i
  proof -
    have "lies_in sample_inbox mb i \<longleftrightarrow> mb = ''mb'' \<and> (i = ''e1'' \<or> i = ''e2'')"
      by (auto simp: lies_in_def sample_inbox_def sample_email_def)
    then show ?thesis by (auto simp: held_def sample_history)
  qed
  then show m: "mail_ok sample_inbox"
    by (simp add: mail_ok_def filed_def email_ids_def mock_email_id_def sample_inbox_def sample_email_def)
  show "store_ok sample_inbox" using w m by (simp add: store_ok_def)
qed

lemma sample_set_args_ok: "json_ok sample_set_args" "strings_arg ''destroy'' sample_set_args = [''e1'']"
  by (simp_all add: sample_set_args_def jobj_def jfields_def strings_arg_def jget_def bt_ok_def map_filter_simps)

theorem jmap_request_keeps_mail_witness:
  "store_ok (snd (the (jmap_handle sample_jmap \<lparr>jr_using = [],
     method_calls = [(''Email/set'', sample_set_args, ''c0'')], jr_created_ids = None\<rparr> sample_inbox)))"
proof -
  let ?req = "\<lparr>jr_using = [], method_calls = [(''Email/set'', sample_set_args, ''c0'')], jr_created_ids = None\<rparr>"
  obtain resp f' where run: "jmap_handle sample_jmap ?req sample_inbox = Some (resp, f')"
    by (auto simp: jmap_handle_def jmap_dispatch_def sample_jmap_def write_methods_def run_write_def apfst_def map_prod_def
        case_prod_beta)
  show ?thesis
    using jmap_request_keeps_mail [OF sample_store_ok(1) _ run] sample_set_args_ok(1) by (simp add: run)
qed

text \<open>
  C8. \<open>Email/changes\<close> after a JMAP call is exact. A client that holds an account's emails at the state
  before the call and asks for the changes since then is told exactly: the created and destroyed ids turn
  the ids it holds into those of the account, and every email it is not told about is the one it holds. The
  call may be any method call whose destroy list names no id that the server has yet to mint: ids are predictable,
  and a call that destroys the very email it creates is not accounted for
  (\<open>phantom_created\<close> below).
\<close>

theorem jmap_changes_after_call:
  assumes "wf_store f" and "mail_ok f" and "json_ok args"
    and "list_all (\<lambda>i. \<not> to_be_minted f i) (strings_arg ''destroy'' args)"
    and "jmap_dispatch env name args prior f = Some (r, f')" and "find_account f a \<noteq> None"
  shows "\<exists>d. email_changes f' (jobj [(''accountId'', JString a), (''sinceState'', JString (state_for f a))]) =
      Inr (changes_response a (state_for f a) (state_for f' a) d True) \<and> delta_exact f f' a d"
proof -
  from dispatch_delta [OF assms(1-5)] obtain d where d: "accounts f' = accounts f"
    "email_delta_since_account f' (state_for f a) a = Some d" "delta_exact f f' a d" by blast
  have "find_account f' a \<noteq> None" using assms(6) d(1) by (simp add: find_account_def)
  then show ?thesis
    using d(2,3) by (auto simp: email_changes_def changes_method_def require_account_def require_since_state_def
        str_arg_def jget_jobj)
qed

theorem jmap_changes_after_call_witness:
  "\<exists>d. email_changes (snd (the (jmap_dispatch sample_jmap ''Email/set'' sample_set_args [] sample_inbox)))
       (jobj [(''accountId'', JString ''a''), (''sinceState'', JString (state_for sample_inbox ''a''))]) =
     Inr (changes_response ''a'' (state_for sample_inbox ''a'')
       (state_for (snd (the (jmap_dispatch sample_jmap ''Email/set'' sample_set_args [] sample_inbox))) ''a'') d True)"
proof -
  obtain r f' where run: "jmap_dispatch sample_jmap ''Email/set'' sample_set_args [] sample_inbox = Some (r, f')"
    by (cases "email_set sample_jmap sample_set_args sample_inbox")
      (simp add: jmap_dispatch_def sample_jmap_def write_methods_def run_write_def)
  have "find_account sample_inbox ''a'' \<noteq> None" by (simp add: find_account_def sample_inbox_def)
  moreover have "list_all (\<lambda>i. \<not> to_be_minted sample_inbox i) (strings_arg ''destroy'' sample_set_args)"
    by (simp add: sample_set_args_ok to_be_minted_def mock_email_id_def)
  ultimately show ?thesis
    using jmap_changes_after_call [OF sample_store_ok(2,3) sample_set_args_ok(1) _ run, of "''a''"] by (auto simp: run)
qed

text \<open>
  What the condition on the destroy list excludes: the call creates an email in the inbox of \<open>b\<close> and destroys
  it again under the id that the server was about to mint. The split of the diff no longer finds the
  email and files its creation under the primary account \<open>a\<close>, whose clients are told of an email that
  does not exist.
\<close>

definition shared_inbox :: fixture where
  "shared_inbox = empty_fixture\<lparr>
     accounts := [\<lparr>ac_id = ''a'', ac_name = ''alice'', is_personal = True, primary = True\<rparr>,
       \<lparr>ac_id = ''b'', ac_name = ''bob'', is_personal = True, primary = False\<rparr>],
     mailboxes := [\<lparr>mb_id = ''inb'', mb_account_id = ''b'', mb_name = ''Inbox'', mb_role = Some Inbox,
         mb_parent_id = None, sort_order = None, is_subscribed = True\<rparr>]\<rparr>"

definition create_and_destroy :: json where
  "create_and_destroy = jobj [(''accountId'', JString ''b''),
     (''create'', jobj [(''k'', jobj [(''mailboxIds'', jobj [(''inb'', JBool True)])])]),
     (''destroy'', JArray [JString ''mock-email-1''])]"

lemma phantom_created:
  "let f = snd (email_set sample_jmap create_and_destroy shared_inbox) in emails f = [] \<and>
     email_delta_since_account f (state_for shared_inbox ''a'') ''a'' =
       Some \<lparr>ds_created = [''mock-email-1''], ds_updated = [], ds_destroyed = []\<rparr>"
  by code_simp

end
