(* ===== verification/Jmap_Props.thy ===== *)
theory Jmap_Props
  imports Jmap_Sync Graph_Paging
begin

text \<open>
  What a JMAP client sees across calls: the anchored walk through a query, durations written and read
  back, the life of a draft through its submission, and two calls that reach further than they should.
\<close>

subsection \<open>The anchored walk\<close>

text \<open>
  The inventory walk of a client: each page after the first is anchored just behind the last id of the page
  before it, and a page that is not full ends the walk. The fuel is the number of calls it may make.
\<close>

definition walk_args :: "string \<Rightarrow> json \<Rightarrow> nat \<Rightarrow> string option \<Rightarrow> json" where
  "walk_args a flt limit anchor = jobj ([(''accountId'', JString a), (''filter'', flt), (''limit'', jnat limit)] @
     (case anchor of None \<Rightarrow> [] | Some i \<Rightarrow> [(''anchor'', JString i), (''anchorOffset'', jnat 1)]))"

definition ids_of :: "json \<Rightarrow> string list" where
  "ids_of resp = (case Option.bind (jget ''ids'' resp) as_array of
     Some xs \<Rightarrow> List.map_filter as_str xs | None \<Rightarrow> [])"

fun anchor_walk ::
    "nat \<Rightarrow> jmap_env \<Rightarrow> fixture \<Rightarrow> string \<Rightarrow> json \<Rightarrow> nat \<Rightarrow> string option \<Rightarrow> string list option" where
  "anchor_walk 0 env f a flt limit anchor = None"
| "anchor_walk (Suc n) env f a flt limit anchor =
     (case email_query env f (walk_args a flt limit anchor) of
        Some (Inr resp) \<Rightarrow>
          let page = ids_of resp in
          if length page < limit then Some page
          else map_option (append page) (anchor_walk n env f a flt limit (Some (last page)))
      | _ \<Rightarrow> None)"

lemma index_of_nth:
  assumes "distinct (map em_id es)" and "k < length es"
  shows "index_of (em_id (es ! k)) es = Some k"
proof -
  have "length (takeWhile (\<lambda>e. em_id e \<noteq> em_id (es ! k)) es) = k"
    using assms
  proof (induction es arbitrary: k)
    case (Cons e es)
    then show ?case by (cases k) (auto simp: image_iff)
  qed simp
  then show ?thesis using assms(2) by (auto simp: index_of_def)
qed

lemma ids_of_response: "ids_of (query_response f a p limit t es) = map em_id (window p limit es)"
  by (simp add: ids_of_def query_response_def string_array_def jget_jobj map_filter_simps map_filter_def comp_def)

lemma walk_arguments:
  "jget ''accountId'' (walk_args a flt limit anchor) = Some (JString a)"
  "jget ''filter'' (walk_args a flt limit anchor) = Some flt"
  "jget ''calculateTotal'' (walk_args a flt limit anchor) = None"
  "int_arg ''position'' (walk_args a flt limit anchor) = Inr None"
  "int_arg ''anchorOffset'' (walk_args a flt limit anchor) = Inr (map_option (\<lambda>_. 1) anchor)"
  "query_anchor (walk_args a flt limit anchor) = Inr anchor"
  by (cases anchor; simp add: walk_args_def jget_jobj int_arg_def opt_arg_def query_anchor_def jnat_def)+

lemma walk_limit:
  "limit \<le> query_limit_cap \<Longrightarrow> query_limit (walk_args a flt limit anchor) = Inr limit"
  by (cases anchor) (simp_all add: walk_args_def query_limit_def int_arg_def opt_arg_def jget_jobj jnat_def query_limit_cap_def)

lemma walk_page:
  assumes "find_account f a \<noteq> None" and "parse_filter env (Some flt) = Inr q"
    and "limit \<le> query_limit_cap"
    and "case anchor of None \<Rightarrow> p = 0 | Some i \<Rightarrow> anchor_position (je_overflow_checks env) i 1 (matching f a q) = Some (Inr p)"
  shows "email_query env f (walk_args a flt limit anchor) =
    Some (Inr (query_response f a p limit False (matching f a q)))"
  using assms by (cases anchor) (simp_all add: email_query_def require_account_def str_arg_def walk_arguments
    walk_limit query_position_def bool_arg_def)

lemma matching_mset: "mset (matching f a q) = mset (filter (filter_matches q) (emails_for f a))"
  by (simp add: matching_def newest_first_mset)

lemma distinct_matching: "distinct (map em_id (emails f)) \<Longrightarrow> distinct (map em_id (matching f a q))"
proof -
  assume "distinct (map em_id (emails f))"
  then have "distinct (map em_id (filter (filter_matches q) (emails_for f a)))"
    by (simp add: emails_for_def distinct_map_filter)
  then show ?thesis by (metis matching_mset mset_map mset_eq_imp_distinct_iff)
qed

text \<open>From the anchor at position \<open>k - 1\<close>, the walk returns what stands from position \<open>k\<close> on.\<close>

lemma walk_from:
  fixes f a q
  defines "es \<equiv> matching f a q"
  assumes "find_account f a \<noteq> None" and "parse_filter env (Some flt) = Inr q"
    and "0 < limit" "limit \<le> query_limit_cap" and "distinct (map em_id (emails f))" and "int (length es) \<le> i64_max"
    and "k \<le> length es" and "anchor = (if k = 0 then None else Some (em_id (es ! (k - 1))))"
    and "length es - k < n"
  shows "anchor_walk n env f a flt limit anchor = Some (map em_id (drop k es))"
  using assms(8-10)
proof (induction n arbitrary: k anchor)
  case (Suc n)
  have dist: "distinct (map em_id es)" using assms(6) distinct_matching by (simp add: es_def)
  have "case anchor of None \<Rightarrow> k = 0 | Some i \<Rightarrow> anchor_position (je_overflow_checks env) i 1 (matching f a q) = Some (Inr k)"
  proof (cases k)
    case (Suc j)
    then have "index_of (em_id (es ! j)) es = Some j" using Suc.prems(1) by (intro index_of_nth [OF dist]) simp
    then show ?thesis
      using Suc Suc.prems(1,2) assms(7) by (simp add: anchor_position_def i64_result_def i64_min_def es_def [symmetric])
  qed (use Suc.prems(2) in simp)
  note page = walk_page [OF assms(2,3,5) this]
  show ?case
  proof (cases "length es - k < limit")
    case True
    then show ?thesis by (simp add: page ids_of_response window_def es_def [symmetric])
  next
    case False
    have last: "last (map em_id (take limit (drop k es))) = em_id (es ! (k + limit - 1))"
      using False assms(4) by (simp add: last_conv_nth)
    have "anchor_walk n env f a flt limit (Some (em_id (es ! (k + limit - 1)))) = Some (map em_id (drop (k + limit) es))"
      using False Suc.prems(1,3) assms(4) by (intro Suc.IH) auto
    then show ?thesis
      using False append_take_drop_id [of limit "drop k es"]
      by (simp add: page ids_of_response window_def es_def [symmetric] last add.commute flip: map_append)
  qed
qed simp

text \<open>
  C18. The anchored walk through \<open>Email/query\<close> is complete. Whatever its page size up to the cap of 256, a client that
  anchors each page on the last id of the page before ends with every email of the account that passes
  its filter, each once, newest first with ties in the order of the ids. (A client that asks for more than 256 a page
  gets 256 and, taking the short page for the last one, stops there.)
\<close>

theorem jmap_walk_complete:
  assumes "find_account f a \<noteq> None" and "parse_filter env (Some flt) = Inr q"
    and "0 < limit" "limit \<le> query_limit_cap" and "distinct (map em_id (emails f))"
    and "int (length (emails f)) \<le> i64_max" and "length (emails f) < n"
  shows "\<exists>es. anchor_walk n env f a flt limit None = Some (map em_id es) \<and> distinct (map em_id es) \<and>
    mset es = mset (filter (filter_matches q) (emails_for f a)) \<and>
    sorted (map (\<lambda>e. (- received_at e, em_id e)) es)"
proof -
  have "length (matching f a q) = length (filter (filter_matches q) (emails_for f a))"
    by (metis matching_mset size_mset)
  also have "\<dots> \<le> length (emails f)" by (metis emails_for_def length_filter_le le_trans)
  finally have "length (matching f a q) \<le> length (emails f)" .
  then have "anchor_walk n env f a flt limit None = Some (map em_id (drop 0 (matching f a q)))"
    using assms by (intro walk_from) auto
  then show ?thesis
    using matching_mset distinct_matching [OF assms(5)] newest_first_sorted by (auto simp: matching_def)
qed

theorem jmap_walk_complete_witness:
  "\<exists>es. anchor_walk 3 sample_jmap sample_inbox ''a'' JNull 1 None = Some (map em_id es) \<and> mset es = mset (emails sample_inbox)"
proof -
  have "filter (filter_matches filter_default) (emails_for sample_inbox ''a'') = emails sample_inbox"
    by (simp add: sample_inbox_def emails_for_def sample_email_def filter_matches_def filter_default_def)
  moreover have "parse_filter sample_jmap (Some JNull) = Inr filter_default" by (simp add: parse_filter_def)
  ultimately show ?thesis
    using jmap_walk_complete [of sample_inbox "''a''" sample_jmap JNull filter_default 1 3] mail_okD(1) [OF sample_store_ok(3)]
    by (auto simp: query_limit_cap_def i64_max_def find_account_def sample_inbox_def)
qed

subsection \<open>Durations\<close>

lemma scan_digits:
  assumes "list_all is_digit ds"
  shows "duration_scan checks (ds @ rest) (secs, t, buf) = duration_scan checks rest (secs, t, buf @ ds)"
  using assms
proof (induction ds arbitrary: buf)
  case (Cons d ds)
  then have "is_digit d" by simp
  then have "duration_step checks d (secs, t, buf) = Some (secs, t, buf @ [d])"
    by (auto simp: duration_step_def is_digit_def)
  with Cons show ?case by simp
qed simp

lemma add_unit_number:
  assumes "0 \<le> n" and "n \<le> i64_max" and "0 \<le> n * per" and "n * per \<le> i64_max" and "0 \<le> secs" and "secs + n * per \<le> i64_max"
  shows "add_unit checks per secs (show_int n) = Some (secs + n * per)"
proof -
  have "parse_uint (nat i64_max) (show_nat (nat n)) = Some (nat n)" using assms(2) by simp
  then show ?thesis using assms by (simp add: add_unit_def show_int_nonneg i64_result_def i64_min_def)
qed

lemma scan_unit:
  assumes "\<And>buf. duration_step checks c (secs, t, buf) = map_option (\<lambda>s. (s, t, [])) (add_unit checks per secs buf)"
    and "0 \<le> n" and "0 \<le> secs" and "1 \<le> per" and "secs + n * per \<le> i64_max"
  shows "duration_scan checks (unit_text n [c] @ rest) (secs, t, []) = duration_scan checks rest (secs + n * per, t, [])"
proof (cases "n = 0")
  case False
  have "n \<le> n * per" using assms(2,4) by (simp add: mult_le_cancel_left1)
  then have "add_unit checks per secs (show_int n) = Some (secs + n * per)"
    using assms(2,3,5) by (intro add_unit_number) simp_all
  moreover have "list_all is_digit (show_int n)"
    using assms(2) by (simp add: show_int_nonneg list_all_iff show_nat_digits)
  ultimately show ?thesis
    using False assms(1,2) by (simp add: unit_text_def scan_digits)
qed (simp add: unit_text_def)

lemma scan_unit_last:
  assumes "\<And>buf. duration_step checks c (secs, t, buf) = map_option (\<lambda>s. (s, t, [])) (add_unit checks per secs buf)"
    and "0 \<le> n" and "0 \<le> secs" and "1 \<le> per" and "secs + n * per \<le> i64_max"
  shows "duration_scan checks (unit_text n [c]) (secs, t, []) = Some (secs + n * per)"
  using scan_unit [OF assms, of "[]"] by simp

text \<open>The steps of the unit letters.\<close>

lemma unit_steps:
  "duration_step checks (CHR ''D'') (secs, t, buf) = map_option (\<lambda>s. (s, t, [])) (add_unit checks 86400 secs buf)"
  "duration_step checks (CHR ''H'') (secs, True, buf) = map_option (\<lambda>s. (s, True, [])) (add_unit checks 3600 secs buf)"
  "duration_step checks (CHR ''M'') (secs, True, buf) = map_option (\<lambda>s. (s, True, [])) (add_unit checks 60 secs buf)"
  "duration_step checks (CHR ''S'') (secs, True, buf) = map_option (\<lambda>s. (s, True, [])) (add_unit checks 1 secs buf)"
  "duration_step checks (CHR ''T'') (secs, t, buf) = Some (secs, True, buf)"
  "duration_step checks (CHR ''P'') (secs, t, buf) = Some (secs, t, buf)"
  by (simp_all add: duration_step_def)

lemma scan_days:
  assumes "0 \<le> d" and "d * 86400 \<le> i64_max"
  shows "parse_iso8601_duration checks (CHR ''P'' # unit_text d ''D'' @ w) = duration_scan checks w (d * 86400, False, [])"
  using scan_unit [of checks "CHR ''D''" 0 False 86400 d w] assms
  by (simp add: parse_iso8601_duration_def unit_steps)

lemma scan_clock:
  assumes "0 \<le> secs" and "0 \<le> h" and "0 \<le> m" and "0 \<le> x" and "secs + h * 3600 + m * 60 + x \<le> i64_max"
  shows "duration_scan checks (CHR ''T'' # unit_text h ''H'' @ unit_text m ''M'' @ unit_text x ''S'') (secs, False, []) =
    Some (secs + h * 3600 + m * 60 + x)"
  using assms scan_unit [of checks "CHR ''H''" secs True 3600 h] scan_unit [of checks "CHR ''M''" "secs + h * 3600" True 60 m]
    scan_unit_last [of checks "CHR ''S''" "secs + h * 3600 + m * 60" True 1 x]
  by (simp add: unit_steps)

text \<open>
  C30. A duration is read back as it was written: for every number of seconds up to the bound of \<open>i64\<close>, parsing
  the printed ISO 8601 duration succeeds without overflow and gives the number, whether the build checks for
  overflow or wraps.
\<close>

theorem duration_roundtrip:
  assumes "0 \<le> n" and "n \<le> i64_max"
  shows "parse_iso8601_duration checks (format_duration_iso8601 n) = Some n"
proof (cases "n = 0")
  case False
  define d s where "d = n div 86400" and "s = n mod 86400"
  define h r where "h = s div 3600" and "r = s mod 3600"
  define m x where "m = r div 60" and "x = s mod 60"
  have nonneg: "0 \<le> d" "0 \<le> s" "0 \<le> h" "0 \<le> m" "0 \<le> x"
    using assms(1) by (simp_all add: d_def s_def h_def m_def r_def x_def pos_imp_zdiv_nonneg_iff)
  have "x = r mod 60" by (simp add: x_def r_def mod_mod_cancel)
  then have "r = m * 60 + x" by (simp add: m_def)
  then have s: "s = h * 3600 + m * 60 + x" using div_mult_mod_eq [of s 3600] by (simp add: h_def r_def)
  have n: "n = d * 86400 + s" by (simp add: d_def s_def)
  have le: "d * 86400 \<le> i64_max" and pos: "0 \<le> d * 86400" "0 < n"
    using n nonneg assms False by linarith+
  have printed: "format_duration_iso8601 n = CHR ''P'' # unit_text d ''D'' @
      (if 0 < s then CHR ''T'' # unit_text h ''H'' @ unit_text m ''M'' @ unit_text x ''S'' else [])"
    using pos(2) by (simp add: format_duration_iso8601_def Let_def flip: d_def s_def h_def r_def m_def x_def)
  show ?thesis
  proof (cases "0 < s")
    case True
    have "d * 86400 + h * 3600 + m * 60 + x = n" using n s by linarith
    with True scan_clock [OF pos(1) nonneg(3-5)] assms(2) show ?thesis
      by (simp add: printed scan_days [OF nonneg(1) le])
  next
    case none: False
    then have "s = 0" using nonneg(2) by simp
    with n scan_days [OF nonneg(1) le, of checks "[]"] show ?thesis unfolding printed by simp
  qed
qed (simp add: format_duration_iso8601_def parse_iso8601_duration_def unit_steps add_unit_def is_digit_def
    duration_step_def digit_val_def parse_uint_def i64_max_def i64_min_def i64_result_def)

theorem duration_roundtrip_witness:
  "parse_iso8601_duration True (format_duration_iso8601 93784) = Some 93784"
  by (rule duration_roundtrip) (simp_all add: i64_max_def)

text \<open>A duration in weeks that leaves \<open>i64\<close>.\<close>

lemma scan_weeks_overflow:
  assumes "n \<le> nat i64_max" and "i64_max < int n * 604800"
  shows "parse_iso8601_duration checks (CHR ''P'' # show_nat n @ ''W'') =
    (if checks then None else Some (i64_wrap (int n * 604800)))"
proof -
  have "list_all is_digit (show_nat n)" by (simp add: list_all_iff show_nat_digits)
  moreover have "add_unit checks 604800 0 (show_nat n) = (if checks then None else Some (i64_wrap (int n * 604800)))"
    using assms i64_wrap_fits [of "int n * 604800"] by (simp add: add_unit_def i64_result_def)
  ultimately show ?thesis
    by (cases checks; simp add: parse_iso8601_duration_def unit_steps scan_digits; simp add: duration_step_def)
qed

text \<open>A build without overflow checks answers every request: nothing else in a method call panics.\<close>

lemma duration_total: "parse_iso8601_duration False s \<noteq> None"
proof -
  have add: "add_unit False per secs buf \<noteq> None" for per secs buf
    using i64_result_unchecked by (simp add: add_unit_def bind_eq_None_conv del: not_None_eq split: option.split)
  have step: "duration_step False c st \<noteq> None" for c st
    using add by (cases st) (simp add: duration_step_def del: not_None_eq)
  have "duration_scan False s st \<noteq> None" for st
    by (induction s arbitrary: st) (use step in \<open>simp_all add: bind_eq_None_conv del: not_None_eq\<close>)
  then show ?thesis by (simp add: parse_iso8601_duration_def)
qed

lemma try_fold_total: "(\<And>x s. step x s \<noteq> None) \<Longrightarrow> try_fold step xs s \<noteq> None"
  by (induction xs arbitrary: s) (auto simp: bind_eq_None_conv simp del: not_None_eq)

lemma event_set_total:
  assumes "\<not> je_overflow_checks env"
  shows "calendar_event_set env args f \<noteq> None"
proof -
  have times: "parse_jscalendar_times env start duration all_day \<noteq> None" for start duration all_day
    using assms duration_total by (simp add: parse_jscalendar_times_def del: not_None_eq split: option.split)
  have "create_event_step env x s \<noteq> None" for x s
    using times by (simp add: create_event_step_def build_event_from_create_def Let_def case_prod_beta
        del: not_None_eq split: option.split)
  moreover have "update_event_step env x s \<noteq> None" for x s
    using times by (simp add: update_event_step_def apply_event_patch_def event_times_def Let_def case_prod_beta
        del: not_None_eq split: option.split)
  ultimately have "event_mutation env args s \<noteq> None" for s
    using try_fold_total [of "create_event_step env"] try_fold_total [of "update_event_step env"]
    by (simp add: event_mutation_def bind_eq_None_conv del: not_None_eq)
  then show ?thesis by (simp add: calendar_event_set_def del: not_None_eq split: sum.split)
qed

lemma jmap_total:
  assumes "\<not> je_overflow_checks env"
  shows "jmap_handle env req f \<noteq> None"
proof -
  have query: "email_query env g args \<noteq> None" for g args
    using assms i64_result_unchecked
    by (auto simp: email_query_def anchor_position_def Let_def simp del: not_None_eq split: sum.split prod.split option.split)
  have "run_read env name args g \<noteq> None" for name args g
    using query by (simp add: run_read_def del: not_None_eq)
  moreover have "run_write env name args prior g \<noteq> None" for name args prior g
    using event_set_total [OF assms] by (simp add: run_write_def del: not_None_eq)
  ultimately have one: "jmap_dispatch env name args prior g \<noteq> None" for name args prior g
    by (simp add: jmap_dispatch_def case_prod_beta del: not_None_eq split: option.split)
  have "run_calls env calls prior g \<noteq> None" for calls prior g
  proof (induction calls arbitrary: prior g)
    case (Cons c calls)
    with one show ?case by (cases c) (simp add: bind_eq_None_conv case_prod_beta del: not_None_eq)
  qed simp
  then show ?thesis by (simp add: jmap_handle_def)
qed

lemma jfields_one: "jfields [(k, v)] = [(k, v)]" by (simp add: jfields_def)

definition event_create_args :: "string \<Rightarrow> string \<Rightarrow> string \<Rightarrow> string \<Rightarrow> json" where
  "event_create_args a c start duration = jobj [(''accountId'', JString a),
     (''create'', jobj [(''k'', jobj [(''calendarIds'', jobj [(c, JBool True)]), (''start'', JString start),
        (''duration'', JString duration)])])]"

text \<open>
  C32. What one duration does depends on the build. \<open>CalendarEvent/set\<close> that creates an event in a known
  calendar with a start that parses and a duration of so many weeks that the seconds leave \<open>i64\<close>
  panics in a build with overflow checks (\<open>cargo build\<close>, \<open>cargo test\<close>) while the write lock is held, and
  with it the request, whatever calls stand around it and follow. In the release build the harness uses, the
  request is answered, as every request is, and the duration is read as the product wrapped around, which may
  be negative.
\<close>

theorem jmap_duration_overflow:
  fixes u :: "string list" and calls :: "(string \<times> json \<times> string) list" and i :: string and ids :: "json option"
  assumes "find_account f a \<noteq> None" and "list_ex (\<lambda>x. cal_id x = c) (calendars f)"
    and "parse_jscalendar_start env start False \<noteq> None" and "je_override env = (\<lambda>_ _ _. None)"
    and "n \<le> nat i64_max" and "i64_max < int n * 604800"
  defines "weeks \<equiv> CHR ''P'' # show_nat n @ ''W''"
  defines "req \<equiv> \<lparr>jr_using = u, method_calls = (''CalendarEvent/set'', event_create_args a c start weeks, i) # calls,
      jr_created_ids = ids\<rparr>"
  shows "if je_overflow_checks env then jmap_handle env req f = None
    else jmap_handle env req f \<noteq> None \<and>
      parse_iso8601_duration (je_overflow_checks env) weeks = Some (i64_wrap (int n * 604800))"
proof (cases "je_overflow_checks env")
  case True
  let ?body = "jobj [(''calendarIds'', jobj [(c, JBool True)]), (''start'', JString start),
    (''duration'', JString weeks)]" and ?args = "event_create_args a c start weeks"
  have "build_event_from_create env ?body f = None"
    using assms(2,3) True by (auto simp: build_event_from_create_def first_true_key_def jget_jobj str_arg_def
        bool_arg_def parse_jscalendar_times_def scan_weeks_overflow [OF assms(5,6), folded weeks_def] jfields_one)
  moreover have "object_arg ''create'' ?args = [(''k'', ?body)]"
    by (simp add: event_create_args_def object_arg_def jget_jobj jfields_one)
  ultimately have "calendar_event_set env ?args f = None"
    using assms(1) by (auto simp: calendar_event_set_def event_mutation_def create_event_step_def require_account_def
        state_mismatch_def str_arg_def event_create_args_def jget_jobj)
  then show ?thesis
    using assms(4) True by (simp add: req_def jmap_handle_def jmap_dispatch_def write_methods_def run_write_def)
next
  case False
  then show ?thesis
    using jmap_total [of env req f] scan_weeks_overflow [OF assms(5,6), of False] by (simp add: weeks_def)
qed

definition sample_calendar :: calendar where
  "sample_calendar = \<lparr>cal_id = ''c'', cal_name = ''Calendar'', cal_color = None, cal_is_default = True,
     cal_account_id = ''a'', caldav_empty_report = False\<rparr>"

lemma sample_weeks: "i64_wrap 5578295407889768408073600 = - 604800"
  by (simp add: i64_wrap_def)

theorem jmap_duration_overflow_witness:
  "let req = \<lparr>jr_using = [], method_calls = [(''CalendarEvent/set'',
       event_create_args ''a'' ''c'' ''7'' (CHR ''P'' # show_nat 9223372036854775807 @ ''W''), ''c0'')], jr_created_ids = None\<rparr>;
     f = sample_inbox\<lparr>calendars := [sample_calendar]\<rparr>
   in jmap_handle sample_jmap req f = None \<and> jmap_handle (sample_jmap\<lparr>je_overflow_checks := False\<rparr>) req f \<noteq> None \<and>
     parse_iso8601_duration False (CHR ''P'' # show_nat 9223372036854775807 @ ''W'') = Some (- 604800)"
proof -
  let ?f = "sample_inbox\<lparr>calendars := [sample_calendar]\<rparr>"
  have "find_account ?f ''a'' \<noteq> None" "list_ex (\<lambda>x. cal_id x = ''c'') (calendars ?f)"
    by (simp_all add: sample_inbox_def find_account_def sample_calendar_def)
  moreover have "parse_jscalendar_start env ''7'' False \<noteq> None"
    if "env = sample_jmap \<or> env = sample_jmap\<lparr>je_overflow_checks := False\<rparr>" for env
    using that by (auto simp: sample_jmap_def parse_jscalendar_start_def digit_civil_def utc_def is_digit_def)
  moreover have "(9223372036854775807 :: nat) \<le> nat i64_max" "i64_max < int 9223372036854775807 * 604800"
    by (simp_all add: i64_max_def)
  moreover have "je_override sample_jmap = (\<lambda>_ _ _. None)" "je_overflow_checks sample_jmap"
    by (simp_all add: sample_jmap_def)
  ultimately show ?thesis
    using jmap_duration_overflow [of ?f "''a''" "''c''" sample_jmap "''7''" 9223372036854775807 "[]" "''c0''" "[]" None]
      jmap_duration_overflow [of ?f "''a''" "''c''" "sample_jmap\<lparr>je_overflow_checks := False\<rparr>" "''7''"
        9223372036854775807 "[]" "''c0''" "[]" None]
    by (simp add: Let_def sample_weeks)
qed

subsection \<open>A card written back\<close>

lemma bt_insert_last: "list_all (\<lambda>kv. fst kv < k) m \<Longrightarrow> bt_insert k v m = m @ [(k, v)]"
  by (induction m) auto

lemma jfields_ascending: "sorted_wrt (<) (map fst kvs) \<Longrightarrow> jfields kvs = kvs"
proof (induction kvs rule: rev_induct)
  case (snoc kv kvs)
  then have "list_all (\<lambda>x. fst x < fst kv) kvs" by (auto simp: sorted_wrt_append list_all_iff)
  with snoc show ?case by (cases kv) (simp add: jfields_def sorted_wrt_append bt_insert_last)
qed (simp add: jfields_def)

lemma digit_keys: "i < j \<Longrightarrow> j < 10 \<Longrightarrow> show_nat i < show_nat j"
  by (simp add: show_nat.simps digit_char_def less_char_def of_char_digit)

lemma map_values_numbered:
  assumes "length xs \<le> 9"
  shows "map_values (Some (numbered [c] g xs)) = map g xs"
proof -
  let ?kvs = "map (\<lambda>(i, x). ([c] @ show_nat (i + 1), g x)) (enumerate 0 xs)"
  have "map fst ?kvs = map (\<lambda>i. c # show_nat (Suc i)) (map fst (enumerate 0 xs))"
    by (simp add: comp_def case_prod_beta del: map_fst_enumerate)
  moreover have "sorted_wrt (\<lambda>i j. c # show_nat (Suc i) < c # show_nat (Suc j)) [0..<length xs]"
    by (rule sorted_wrt_mono_rel [of _ "(<)"]) (use assms in \<open>auto intro: digit_keys\<close>)
  ultimately have "sorted_wrt (<) (map fst ?kvs)" by (simp add: sorted_wrt_map)
  then have "jfields ?kvs = ?kvs" by (rule jfields_ascending)
  moreover have "map snd ?kvs = map g (map snd (enumerate 0 xs))"
    by (simp add: comp_def case_prod_beta del: map_snd_enumerate)
  ultimately show ?thesis by (simp add: map_values_def numbered_def)
qed

lemma bool_map_one: "bool_map [i] = JObject [(i, JBool True)]"
  by (simp add: bool_map_def jobj_def jfields_one)

lemma parse_serialized_phone:
  "map_option (\<lambda>n. \<lparr>cp_number = n, cp_kind = (case first_true_key (jget ''features'' (serialize_phone p)) of
      Some k \<Rightarrow> Some k | None \<Rightarrow> first_true_key (jget ''contexts'' (serialize_phone p)))\<rparr>)
    (str_arg ''number'' (serialize_phone p)) = Some p"
  by (cases p; cases "cp_kind p")
    (simp_all add: serialize_phone_def phone_kind_fields_def jget_jobj str_arg_def first_true_key_def bool_map_one)

lemma map_filter_total: "(\<And>x. x \<in> set xs \<Longrightarrow> h (g x) = Some (k x)) \<Longrightarrow> List.map_filter h (map g xs) = map k xs"
  by (induction xs) (simp_all add: map_filter_simps)

lemma parse_serialized_phones:
  "length xs \<le> 9 \<Longrightarrow> parse_phones (Some (numbered [c] serialize_phone xs)) = xs"
  using map_filter_total [of xs _ serialize_phone "\<lambda>p. p"]
  by (simp add: parse_phones_def map_values_numbered parse_serialized_phone)

lemma parse_serialized_emails:
  "length xs \<le> 9 \<Longrightarrow> parse_emails (Some (numbered [c]
     (\<lambda>e. jobj [(''@type'', JString ''EmailAddress''), (''address'', JString (ce_address e))]) xs)) =
   map (\<lambda>e. e\<lparr>ce_name := None\<rparr>) xs"
  by (subst parse_emails_def, subst map_values_numbered, assumption, rule map_filter_total)
    (simp add: str_arg_def jget_jobj)

text \<open>A patch whose fields lead from one of two cards to the second, the last step included.\<close>

lemma contact_fields_settle:
  assumes "\<And>k v. (k, v) \<in> set kvs \<Longrightarrow> contact_field f k v c' = Inr c' \<and>
      (contact_field f k v c = Inr c \<or> contact_field f k v c = Inr c')"
    and "c = c' \<or> (\<exists>k v. (k, v) \<in> set kvs \<and> contact_field f k v c = Inr c')"
  shows "contact_fields f kvs c = Inr c'"
  using assms
proof (induction kvs arbitrary: c)
  case (Cons kv kvs)
  obtain k v where kv: "kv = (k, v)" by (cases kv)
  have settled: "contact_fields f xs c' = Inr c'" if "set xs \<subseteq> set (kv # kvs)" for xs
    using that Cons.prems(1) by (induction xs) auto
  show ?case
  proof (cases "contact_field f k v c = Inr c'")
    case True
    then show ?thesis using settled [of kvs] kv by auto
  next
    case False
    then have "contact_field f k v c = Inr c" using Cons.prems(1) [of k v] kv by auto
    moreover have "contact_fields f kvs c = Inr c'"
      using Cons.prems False kv calculation by (intro Cons.IH) auto
    ultimately show ?thesis using kv by simp
  qed
qed simp

lemma set_jfields: "set (jfields kvs) \<subseteq> set kvs"
proof -
  have insert: "set (bt_insert k v m) \<subseteq> insert (k, v) (set m)" for k :: string and v :: json and m
    by (induction m) auto
  have "set (fold (\<lambda>(k, v). bt_insert k v) kvs m) \<subseteq> set kvs \<union> set m" for m
  proof (induction kvs arbitrary: m)
    case (Cons kv kvs)
    then show ?case using insert [of "fst kv" "snd kv" m] by (force simp: case_prod_beta)
  qed simp
  then show ?thesis using jfields_def by fastforce
qed

lemma parse_serialized_organization:
  "parse_organization (Some (jobj [(''o1'', jobj ([(''@type'', JString t)] @
     (case n of Some x \<Rightarrow> [(''name'', JString x)] | None \<Rightarrow> []) @ (case m of Some x \<Rightarrow> [(''title'', JString x)] | None \<Rightarrow> [])))])) = (n, m)"
  by (cases n; cases m) (simp_all add: parse_organization_def map_values_def jfields_one str_arg_def jget_jobj)

lemma parse_serialized_note:
  "parse_notes (Some (jobj [(''n1'', jobj [(''@type'', JString t), (''note'', JString n)])])) = Some n"
  by (simp add: parse_notes_def map_values_def jfields_one str_arg_def jget_jobj map_filter_simps)

lemma name_full_serialized: "name_full (Some (jobj [(''@type'', JString t), (''full'', JString n)])) = Some n"
  using jget_jobj [of "''full''" "[(''@type'', JString t), (''full'', JString n)]"]
  by (simp add: name_full_def jget_def)

text \<open>What each field of a served card does to a contact.\<close>

lemma field_others: "k \<in> {''@type'', ''version'', ''id'', ''uid'', ''kind''} \<Longrightarrow> contact_field f k v c = Inr c"
  by (elim insertE emptyE; simp add: contact_field_def)

lemma field_book:
  "list_ex (\<lambda>d. cf_id d = b) (contact_folders f) \<Longrightarrow>
    contact_field f ''addressBookIds'' (bool_map [b]) c = Inr (c\<lparr>ct_folder_id := b\<rparr>)"
  by (simp add: contact_field_def bool_map_one first_address_book_def first_true_key_def)

lemma field_name:
  "contact_field f ''name'' (jobj [(''@type'', JString t), (''full'', JString n)]) c = Inr (c\<lparr>ct_display_name := Some n\<rparr>)"
  using name_full_serialized [of t n] by (simp add: contact_field_def jobj_def)

lemma field_emails:
  "length xs \<le> 9 \<Longrightarrow> contact_field f ''emails''
     (numbered ''e'' (\<lambda>e. jobj [(''@type'', JString ''EmailAddress''), (''address'', JString (ce_address e))]) xs) c =
   Inr (c\<lparr>ct_emails := map (\<lambda>e. e\<lparr>ce_name := None\<rparr>) xs\<rparr>)"
proof -
  have "contact_field f ''emails'' v c = Inr (c\<lparr>ct_emails := parse_emails (Some v)\<rparr>)" for v
    by (simp add: contact_field_def)
  moreover assume "length xs \<le> 9"
  ultimately show ?thesis by (simp only: parse_serialized_emails)
qed

lemma field_phones:
  "length xs \<le> 9 \<Longrightarrow> contact_field f ''phones'' (numbered ''p'' serialize_phone xs) c = Inr (c\<lparr>ct_phones := xs\<rparr>)"
  using parse_serialized_phones [of xs "CHR ''p''"] by (simp add: contact_field_def)

lemma field_organization:
  "contact_field f ''organizations'' (jobj [(''o1'', jobj ([(''@type'', JString t)] @
     (case n of Some x \<Rightarrow> [(''name'', JString x)] | None \<Rightarrow> []) @ (case m of Some x \<Rightarrow> [(''title'', JString x)] | None \<Rightarrow> [])))]) c =
   Inr (c\<lparr>ct_company := n, ct_job_title := m\<rparr>)"
  using parse_serialized_organization [of t n m] by (simp add: contact_field_def jobj_def)

lemma field_notes:
  "contact_field f ''notes'' (jobj [(''n1'', jobj [(''@type'', JString t), (''note'', JString n)])]) c =
   Inr (c\<lparr>ct_notes := Some n\<rparr>)"
  using parse_serialized_note [of t n] by (simp add: contact_field_def jobj_def)

lemma card_fields_cases:
  assumes "(k, v) \<in> set (card_fields c)"
  obtains "k \<in> {''@type'', ''version'', ''id'', ''uid'', ''kind''}"
  | "k = ''addressBookIds''" "v = bool_map [ct_folder_id c]"
  | n where "k = ''name''" "v = jobj [(''@type'', JString ''Name''), (''full'', JString n)]" "ct_display_name c = Some n"
  | "k = ''emails''" "v = numbered ''e'' (\<lambda>e. jobj [(''@type'', JString ''EmailAddress''), (''address'', JString (ce_address e))]) (ct_emails c)"
  | "k = ''phones''" "v = numbered ''p'' serialize_phone (ct_phones c)"
  | "k = ''organizations''" "v = jobj [(''o1'', jobj ([(''@type'', JString ''Organization'')] @
      (case ct_company c of Some n \<Rightarrow> [(''name'', JString n)] | None \<Rightarrow> []) @
      (case ct_job_title c of Some n \<Rightarrow> [(''title'', JString n)] | None \<Rightarrow> [])))]"
  | n where "k = ''notes''" "v = jobj [(''n1'', jobj [(''@type'', JString ''Note''), (''note'', JString n)])]" "ct_notes c = Some n"
proof -
  have one: "P" if "(k, v) \<in> set (case x of Some n \<Rightarrow> [(a, h n)] | None \<Rightarrow> [])"
    "\<And>n. k = a \<Longrightarrow> v = h n \<Longrightarrow> x = Some n \<Longrightarrow> P" for P a h and x :: "string option"
    using that by (cases x) simp_all
  have given: "P" if "(k, v) \<in> set (if b then [(a, w)] else [])" "k = a \<Longrightarrow> v = w \<Longrightarrow> P" for P a w b
    using that by (cases b) simp_all
  from assms have "(k, v) \<in> set (card_fields c)" .
  then show ?thesis
    unfolding card_fields_def set_append Un_iff by (elim disjE; (elim one given)?) (auto intro: that)
qed

text \<open>
  C31. A card is written back as it was read: an update of a contact with the very object that \<open>ContactCard/get\<close>
  serves for it, with up to nine emails and nine phones, leaves the contact as it is but for the names of
  its email addresses, which the card does not carry. The display name stays as it stands, even an empty or a
  padded one: \<open>name_full\<close> takes it verbatim, although its comment in \<open>jmap_contacts.rs\<close> says that it is
  trimmed and dropped when empty.
\<close>

theorem contact_write_back:
  assumes "list_ex (\<lambda>d. cf_id d = ct_folder_id c) (contact_folders f)"
    and "length (ct_emails c) \<le> 9" and "length (ct_phones c) \<le> 9"
  shows "apply_contact_patch f (serialize_contact_card c) c =
    Inr (c\<lparr>ct_emails := map (\<lambda>e. e\<lparr>ce_name := None\<rparr>) (ct_emails c)\<rparr>)"
proof -
  let ?c = "c\<lparr>ct_emails := map (\<lambda>e. e\<lparr>ce_name := None\<rparr>) (ct_emails c)\<rparr>"
  have field: "contact_field f k v ?c = Inr ?c \<and>
      contact_field f k v c = Inr (if k = ''emails'' then ?c else c)" if "(k, v) \<in> set (card_fields c)" for k v
    using that
  proof (cases rule: card_fields_cases)
    case 1
    then show ?thesis using field_others [OF 1] by auto
  next
    case 2
    then show ?thesis using field_book [OF assms(1)] by simp
  next
    case (3 n)
    then show ?thesis using field_name by (cases c) simp
  next
    case 4
    then show ?thesis using field_emails [OF assms(2)] by simp
  next
    case 5
    then show ?thesis using field_phones [OF assms(3)] by simp
  next
    case 6
    then show ?thesis using field_organization by simp
  next
    case (7 n)
    then show ?thesis using field_notes by (cases c) simp
  qed
  have "?c = c \<or> (\<exists>v. (''emails'', v) \<in> set (jfields (card_fields c)))"
  proof (cases "ct_emails c")
    case (Cons e es)
    then have "map_of (jfields (card_fields c)) ''emails'' \<noteq> None"
      by (auto simp: map_of_jfields card_fields_def split: option.split)
    then show ?thesis by (auto dest: map_of_SomeD)
  qed simp
  then have "c = ?c \<or> (\<exists>k v. (k, v) \<in> set (jfields (card_fields c)) \<and> contact_field f k v c = Inr ?c)"
    using field set_jfields by fastforce
  moreover have "contact_field f k v ?c = Inr ?c \<and> (contact_field f k v c = Inr c \<or> contact_field f k v c = Inr ?c)"
    if "(k, v) \<in> set (jfields (card_fields c))" for k v
    using field [of k v] set_jfields [of "card_fields c"] that by (cases "k = ''emails''") auto
  ultimately have "contact_fields f (jfields (card_fields c)) c = Inr ?c" by (intro contact_fields_settle)
  then show ?thesis by (simp add: apply_contact_patch_def serialize_contact_card_def)
qed

definition sample_card :: contact where
  "sample_card = \<lparr>ct_id = ''k1'', ct_account_id = ''a'', ct_folder_id = ''book'', ct_display_name = Some ''Ann'',
     ct_emails = [\<lparr>ce_address = ''ann@x'', ce_name = Some ''Ann''\<rparr>], ct_phones = [\<lparr>cp_number = ''7'', cp_kind = Some ''work''\<rparr>],
     ct_company = Some ''X'', ct_job_title = None, ct_department = None, ct_notes = None, ct_groups = [],
     malformed_vcard = False\<rparr>"

theorem contact_write_back_witness:
  "apply_contact_patch (sample_inbox\<lparr>contact_folders := [\<lparr>cf_id = ''book'', cf_account_id = ''a'', cf_display_name = ''Book'',
     cf_parent_folder_id = None, cf_is_default = True\<rparr>]\<rparr>)
     (serialize_contact_card sample_card) sample_card =
   Inr (sample_card\<lparr>ct_emails := [\<lparr>ce_address = ''ann@x'', ce_name = None\<rparr>]\<rparr>)"
  using contact_write_back [of sample_card] by (simp add: sample_card_def)

subsection \<open>The account of a set call\<close>

text \<open>
  \<open>Email/set\<close> does not look at its account: the creates, updates and destroys of a call without
  \<open>ifInState\<close> have the same effect on the fixture and on every change log whichever known account the call names, so a
  call for one account changes and destroys the emails of another.
\<close>

theorem jmap_set_ignores_account:
  assumes "find_account f a \<noteq> None" and "find_account f b \<noteq> None"
    and "map_of kvs ''accountId'' = None" and "map_of kvs ''ifInState'' = None"
  shows "snd (email_set env (jobj ((''accountId'', JString a) # kvs)) f) =
    snd (email_set env (jobj ((''accountId'', JString b) # kvs)) f)"
proof -
  have "map_of (rev kvs) k = None" if "map_of kvs k = None" for k
    using that by (simp add: map_of_eq_None_iff)
  note absent = this [OF assms(3)] this [OF assms(4)]
  have other: "jget k (jobj ((''accountId'', JString x) # kvs)) = map_of (rev kvs) k" if "k \<noteq> ''accountId''" for k x
    using that by (simp add: jget_jobj map_add_def split: option.split)
  have "require_account f (jobj ((''accountId'', JString x) # kvs)) = Inr x" if "find_account f x \<noteq> None" for x
    using that absent by (auto simp: require_account_def str_arg_def jget_jobj map_add_def)
  then show ?thesis
    using assms(1,2) absent by (simp add: email_set_def guarded_set_def state_mismatch_def str_arg_def other
        object_arg_def strings_arg_def run_set_result)
qed

theorem jmap_set_ignores_account_witness:
  "snd (email_set sample_jmap (jobj [(''accountId'', JString ''a''), (''destroy'', JArray [JString ''e1''])])
     (sample_inbox\<lparr>accounts := accounts sample_inbox @ [\<lparr>ac_id = ''b'', ac_name = ''bob'', is_personal = True, primary = False\<rparr>]\<rparr>)) =
   snd (email_set sample_jmap (jobj [(''accountId'', JString ''b''), (''destroy'', JArray [JString ''e1''])])
     (sample_inbox\<lparr>accounts := accounts sample_inbox @ [\<lparr>ac_id = ''b'', ac_name = ''bob'', is_personal = True, primary = False\<rparr>]\<rparr>))"
  by (rule jmap_set_ignores_account) (simp_all add: find_account_def sample_inbox_def)

subsection \<open>Sending a draft\<close>

text \<open>The submission a client makes of a draft, moving it to the folder of sent messages.\<close>

definition sent_patch :: "string \<Rightarrow> string \<Rightarrow> json" where
  "sent_patch drafts sent = jobj [(''keywords/$draft'', JNull), (''mailboxIds/'' @ drafts, JNull),
     (''mailboxIds/'' @ sent, JBool True)]"

definition submit_args :: "string \<Rightarrow> string \<Rightarrow> string \<Rightarrow> string \<Rightarrow> string \<Rightarrow> json" where
  "submit_args a k i drafts sent = jobj [(''accountId'', JString a), (''create'', jobj [(k, jobj [(''emailId'', JString i)])]),
     (''onSuccessUpdateEmail'', jobj [(''#'' @ k, sent_patch drafts sent)])]"

definition as_sent :: "string \<Rightarrow> email \<Rightarrow> email" where
  "as_sent sent e = e\<lparr>em_keywords := filter (\<lambda>k. k \<noteq> ''$draft'') (em_keywords e), mailbox_ids := [sent]\<rparr>"

lemma apply_sent_patch:
  assumes "mailbox_ids e = [drafts]" and "drafts \<noteq> sent"
  shows "apply_email_patch (sent_patch drafts sent) e = Inr (as_sent sent e)"
proof -
  have keyword: "patch_field ''keywords/$draft'' JNull (t, e) =
      Inr (t, e\<lparr>em_keywords := filter (\<lambda>k. k \<noteq> ''$draft'') (em_keywords e)\<rparr>)" for t and e :: email
    by (simp add: patch_field_def patch_member_def patch_set_member_def)
  have leave: "patch_field (''mailboxIds/'' @ d) JNull (t, e) =
      Inr (True, e\<lparr>mailbox_ids := filter (\<lambda>x. x \<noteq> d) (mailbox_ids e)\<rparr>)" for d t and e :: email
    by (simp add: patch_field_def patch_member_def patch_set_member_def)
  have enter: "patch_field (''mailboxIds/'' @ d) (JBool True) (t, e) =
      Inr (True, e\<lparr>mailbox_ids := (if d \<in> set (mailbox_ids e) then mailbox_ids e else mailbox_ids e @ [d])\<rparr>)"
    for d t and e :: email
    by (simp add: patch_field_def patch_member_def patch_set_member_def)
  have "jfields [(''keywords/$draft'', JNull), (''mailboxIds/'' @ drafts, JNull), (''mailboxIds/'' @ sent, JBool True)] =
      (''keywords/$draft'', JNull) # (if drafts < sent
        then [(''mailboxIds/'' @ drafts, JNull), (''mailboxIds/'' @ sent, JBool True)]
        else [(''mailboxIds/'' @ sent, JBool True), (''mailboxIds/'' @ drafts, JNull)])"
    using assms(2) by (auto simp: jfields_def)
  then show ?thesis
    using assms keyword leave [simplified] enter [simplified]
    by (auto simp: apply_email_patch_def sent_patch_def as_sent_def)
qed

text \<open>
  C17. Submitting a draft files it as sent. \<open>EmailSubmission/set\<close> of an email that lies in the drafts mailbox
  only, with the update of a client that moves it on success, leaves every other email as it is; the email
  itself is in the sent mailbox only and no longer a draft, it has the next UID there, its UID in the drafts
  is retired, and no other UID history changes.
\<close>

theorem jmap_submission_files_sent:
  fixes prior k
  assumes "find_account f a \<noteq> None" and "mail_ok f" and "e \<in> set (emails f)"
    and "mailbox_ids e = [drafts]" and "drafts \<noteq> sent"
  defines "f' \<equiv> snd (email_submission_set (submit_args a k (em_id e) drafts sent) prior f)"
  shows "emails f' = map (\<lambda>x. if em_id x = em_id e then as_sent sent x else x) (emails f) \<and>
    uid_history f' mb = (if mb = sent then uid_history f sent @ [Some (em_id e)]
      else if mb = drafts then retire_slot (em_id e) (uid_history f drafts) else uid_history f mb)"
proof -
  let ?i = "em_id e"
  obtain n where n: "n < length (emails f)" "emails f ! n = e" using assms(3) by (auto simp: in_set_conv_nth)
  note dist = mail_okD(1) [OF assms(2)]
  have pos: "length (takeWhile (\<lambda>x. em_id x \<noteq> ?i) (emails f)) = n"
    using index_of_nth [OF dist n(1)] n(2) by (simp add: index_of_def split: if_splits)
  then have position: "email_position f ?i = Some n" using n(1) by (simp add: email_position_def)
  let ?e = "as_sent sent e"
  let ?f1 = "patch_email_at ?i n ?e f"
  obtain d out where step: "submission_step prior [(''#'' @ k, sent_patch drafts sent)] [] (k, jobj [(''emailId'', JString ?i)])
      (f, diff_default, set_outcome_empty) = (?f1, d, out)"
    using position n(2) apply_sent_patch [OF assms(4,5)]
    by (simp add: submission_step_def resolve_submission_email_id_def str_arg_def jget_jobj on_success_def)
  have args: "require_account f (submit_args a k ?i drafts sent) = Inr a"
    "object_arg ''create'' (submit_args a k ?i drafts sent) = [(k, jobj [(''emailId'', JString ?i)])]"
    "object_arg ''onSuccessUpdateEmail'' (submit_args a k ?i drafts sent) = [(''#'' @ k, sent_patch drafts sent)]"
    "object_arg ''update'' (submit_args a k ?i drafts sent) = []"
    "strings_arg ''onSuccessDestroyEmail'' (submit_args a k ?i drafts sent) = []"
    using assms(1) by (simp_all add: require_account_def str_arg_def submit_args_def jget_jobj object_arg_def
        strings_arg_def jfields_one split: option.split)
  have f': "f' = snd (record_transition d ?f1)"
    using step by (simp add: f'_def email_submission_set_def with_writer_def args run_set_result)
  have "emails ?f1 = (emails f)[n := ?e]" by (simp add: patch_email_at_def)
  also have "\<dots> = map (\<lambda>x. if em_id x = ?i then as_sent sent x else x) (emails f)"
  proof (rule nth_equalityI)
    fix j
    assume "j < length ((emails f)[n := ?e])"
    then show "(emails f)[n := ?e] ! j = map (\<lambda>x. if em_id x = ?i then as_sent sent x else x) (emails f) ! j"
      using n nth_eq_iff_index_eq [OF dist, of j n] by (simp add: nth_list_update)
  qed simp
  finally have "emails f' = map (\<lambda>x. if em_id x = ?i then as_sent sent x else x) (emails f)"
    by (subst f', subst record_transition_frame) simp
  moreover have "uid_history f' mb = uid_history ?f1 mb"
    by (subst f', subst record_transition_frame) (simp add: uid_history_def)
  moreover have "uid_history (f\<lparr>emails := es\<rparr>) mb = uid_history f mb" for es mb by (simp add: uid_history_def)
  ultimately show ?thesis
    using assms(4,5) n(2) by (simp add: patch_email_at_def as_sent_def sync_uid_history)
qed

theorem jmap_submission_files_sent_witness:
  "uid_history (snd (email_submission_set (submit_args ''a'' ''k'' ''e1'' ''mb'' ''arch'') [] sample_inbox)) ''arch'' = [Some ''e1'']"
proof -
  have "sample_email\<lparr>em_keywords := [''$deleted'']\<rparr> \<in> set (emails sample_inbox)" by (simp add: sample_inbox_def)
  from jmap_submission_files_sent [OF _ sample_store_ok(3) this, of "''a''" "''mb''" "''arch''" "''k''" "[]" "''arch''"]
  show ?thesis by (simp add: find_account_def sample_inbox_def sample_email_def uid_history_def slots_of_def)
qed

end
