(* ===== verification/Gmail_Mail.thy ===== *)
theory Gmail_Mail
  imports Graph_Values Recurrence_Rule
begin

text \<open>
  The reads of the Gmail listener (\<open>src/gmail/mail.rs\<close>): profile, labels with their counts, threads,
  messages with their MIME payload, \<open>history.list\<close>, attachments and the sendAs settings. A handler is
  a function of the account the bearer resolved to.
\<close>

subsection \<open>What is given\<close>

text \<open>
  The rendering environment of the IMAP module, the message parser crate, the Lua override of a command,
  serde's parser (\<open>Inl\<close> is the text of its error), the civil calendar and the instant the code
  hardcodes for an empty fixture.
\<close>

record gmail_env =
  gm_render :: render_env
  gm_mail_parser :: "string \<Rightarrow> parsed_mail option"
  gm_override :: "string \<Rightarrow> (string \<times> string) list \<Rightarrow> (string \<times> string) option"
  gm_parse_json :: "string \<Rightarrow> string + json"
  gm_civil :: civil
  gm_epoch :: timestamp

subsection \<open>Replies\<close>

record google_reply =
  go_status :: nat
  go_body :: "json option"

definition google_json :: "json \<Rightarrow> google_reply" where
  "google_json v = \<lparr>go_status = 200, go_body = Some v\<rparr>"

definition no_content :: google_reply where
  "no_content = \<lparr>go_status = 204, go_body = None\<rparr>"

definition gmail_error :: "nat \<Rightarrow> string \<Rightarrow> string \<Rightarrow> google_reply" where
  "gmail_error status message reason = \<lparr>go_status = status, go_body = Some (jobj [(''error'', jobj
     [(''code'', jnat status), (''message'', JString message),
      (''errors'', JArray [jobj [(''domain'', JString ''global''), (''reason'', JString reason),
         (''message'', JString message)]])])])\<rparr>"

definition gmail_overridden ::
    "gmail_env \<Rightarrow> string \<Rightarrow> (string \<times> string) list \<Rightarrow> (google_reply \<Rightarrow> 'r) \<Rightarrow> 'r \<Rightarrow> 'r" where
  "gmail_overridden env command req answered k =
     (case gm_override env command req of
        Some (status, message) \<Rightarrow> answered (gmail_error 400 message status)
      | None \<Rightarrow> k)"

definition not_found :: "string \<Rightarrow> string \<Rightarrow> google_reply" where
  "not_found kind i = gmail_error 404 (kind @ '' '' @ debug_str i @ '' not found'') ''notFound''"

subsection \<open>Queries\<close>

record gmail_query =
  gq_q :: "string option"
  max_results :: "nat option"
  page_token :: "string option"
  gq_format :: "string option"
  start_history_id :: "nat option"

definition gmail_query_default :: gmail_query where
  "gmail_query_default = \<lparr>gq_q = None, max_results = None, page_token = None, gq_format = None,
     start_history_id = None\<rparr>"

text \<open>The decoder is the one of \<open>odata.rs\<close>, written out a second time in the source.\<close>

definition url_decode :: "string \<Rightarrow> string" where
  "url_decode s = utf8_lossy (decode_bytes s)"

definition gmail_query_field :: "string \<Rightarrow> gmail_query \<Rightarrow> gmail_query" where
  "gmail_query_field pair out =
     (let (k, v0) = (case split_once CHR ''='' pair of Some kv \<Rightarrow> kv | None \<Rightarrow> (pair, []));
          v = url_decode v0
      in if k = ''q'' then out\<lparr>gq_q := Some v\<rparr>
         else if k = ''maxResults'' then out\<lparr>max_results := parse_uint u32_max v\<rparr>
         else if k = ''pageToken'' then out\<lparr>page_token := Some v\<rparr>
         else if k = ''format'' then out\<lparr>gq_format := Some v\<rparr>
         else if k = ''startHistoryId'' then out\<lparr>start_history_id := parse_u64 v\<rparr>
         else out)"

definition parse_gmail_query :: "string option \<Rightarrow> gmail_query" where
  "parse_gmail_query raw = (case raw of
      None \<Rightarrow> gmail_query_default
    | Some s \<Rightarrow> fold gmail_query_field (filter (\<lambda>p. p \<noteq> []) (split_on CHR ''&'' s)) gmail_query_default)"

definition encode_token :: "nat \<Rightarrow> string" where
  "encode_token offset = ''t.'' @ show_nat offset"

definition decode_token :: "string \<Rightarrow> nat option" where
  "decode_token t = Option.bind (strip_prefix ''t.'' t) (parse_uint u32_max)"

definition gmail_offset :: "gmail_query \<Rightarrow> nat" where
  "gmail_offset q = (case Option.bind (page_token q) decode_token of Some n \<Rightarrow> n | None \<Rightarrow> 0)"

definition threads_default_max :: nat where "threads_default_max = 100"
definition threads_hard_max :: nat where "threads_hard_max = 500"

definition gmail_page_size :: "gmail_query \<Rightarrow> nat" where
  "gmail_page_size q = min (max (case max_results q of Some n \<Rightarrow> n | None \<Rightarrow> threads_default_max) 1) threads_hard_max"

text \<open>\<open>q=after:YYYY/M/D\<close>, and the instant it cuts at.\<close>

definition parse_after_query :: "gmail_env \<Rightarrow> string \<Rightarrow> int option" where
  "parse_after_query env q = Option.bind (strip_prefix ''after:'' (trim q))
     (\<lambda>rest. cl_strptime_date (gm_civil env) ''%Y/%m/%d'' (trim rest))"

definition after_cutoff :: "gmail_env \<Rightarrow> int \<Rightarrow> timestamp" where
  "after_cutoff env d = (case utc_midnight (gm_civil env) d of Some t \<Rightarrow> t | None \<Rightarrow> 0)"

definition with_after :: "gmail_env \<Rightarrow> gmail_query \<Rightarrow> ((timestamp \<Rightarrow> bool) \<Rightarrow> google_reply) \<Rightarrow> google_reply" where
  "with_after env q k =
     (case gq_q q of
        None \<Rightarrow> k (\<lambda>_. True)
      | Some s \<Rightarrow> (case parse_after_query env s of
          None \<Rightarrow> gmail_error 400 (''v0 mock only supports q=after:YYYY/M/D (got '' @ debug_str s @ '')'') ''invalidQuery''
        | Some d \<Rightarrow> k (\<lambda>t. after_cutoff env d \<le> t)))"

text \<open>One page of a listing and the token of the next.\<close>

definition listing_page :: "string \<Rightarrow> gmail_query \<Rightarrow> ('a \<Rightarrow> json) \<Rightarrow> 'a list \<Rightarrow> google_reply" where
  "listing_page key q show xs =
     (let page = take (gmail_page_size q) (drop (gmail_offset q) xs);
          next = gmail_offset q + length page
      in google_json (jobj ([(key, JArray (map show page))] @
           (if next < length xs then [(''nextPageToken'', JString (encode_token next))] else []) @
           [(''resultSizeEstimate'', jnat (length xs))])))"

subsection \<open>Base64url\<close>

definition url_alphabet :: string where
  "url_alphabet = ''ABCDEFGHIJKLMNOPQRSTUVWXYZabcdefghijklmnopqrstuvwxyz0123456789-_''"

fun base64url_no_pad :: "string \<Rightarrow> string" where
  "base64url_no_pad (a # b # c # rest) =
     (let b0 = of_char a :: nat; b1 = of_char b; b2 = of_char c in
      url_alphabet ! (b0 div 4) # url_alphabet ! (b0 mod 4 * 16 + b1 div 16) #
      url_alphabet ! (b1 mod 16 * 4 + b2 div 64) # url_alphabet ! (b2 mod 64) # base64url_no_pad rest)"
| "base64url_no_pad [a, b] =
     (let b0 = of_char a :: nat; b1 = of_char b in
      [url_alphabet ! (b0 div 4), url_alphabet ! (b0 mod 4 * 16 + b1 div 16), url_alphabet ! (b1 mod 16 * 4)])"
| "base64url_no_pad [a] =
     (let b0 = of_char a :: nat in [url_alphabet ! (b0 div 4), url_alphabet ! (b0 mod 4 * 16)])"
| "base64url_no_pad [] = []"

subsection \<open>Messages\<close>

text \<open>The first characters of a text: a byte that continues a character belongs to the one before it.\<close>

definition continues :: "char \<Rightarrow> bool" where
  "continues c \<longleftrightarrow> 128 \<le> (of_char c :: nat) \<and> (of_char c :: nat) < 192"

fun take_chars :: "nat \<Rightarrow> string \<Rightarrow> string" where
  "take_chars n [] = []"
| "take_chars n (c # cs) =
     (if continues c then c # take_chars n cs
      else if n = 0 then [] else c # take_chars (n - 1) cs)"

definition text_of :: "email \<Rightarrow> string" where
  "text_of e = (case em_body e of Text t \<Rightarrow> t)"

definition gmail_body_str :: "email \<Rightarrow> string" where
  "gmail_body_str e = (case raw_bytes e of Some raw \<Rightarrow> raw | None \<Rightarrow> text_of e)"

definition gmail_address :: "address \<Rightarrow> string" where
  "gmail_address a = (case ad_name a of
      Some n \<Rightarrow> n @ '' <'' @ ad_email a @ ''>'' | None \<Rightarrow> ''<'' @ ad_email a @ ''>'')"

definition gmail_address_list :: "address list \<Rightarrow> string" where
  "gmail_address_list xs = join '', '' (map gmail_address xs)"

definition gmail_header :: "string \<Rightarrow> string \<Rightarrow> json" where
  "gmail_header n v = jobj [(''name'', JString n), (''value'', JString v)]"

definition text_leaf :: "string \<Rightarrow> json list \<Rightarrow> string \<Rightarrow> json" where
  "text_leaf part_id hs s = jobj
     [(''partId'', JString part_id), (''mimeType'', JString ''text/plain''), (''filename'', JString []),
      (''headers'', JArray hs),
      (''body'', jobj [(''size'', jnat (length s)), (''data'', JString (base64url_no_pad s))])]"

definition attachment_leaf :: "string \<Rightarrow> attachment \<Rightarrow> json" where
  "attachment_leaf part_id a = jobj
     [(''partId'', JString part_id), (''mimeType'', JString (at_content_type a)), (''filename'', JString (at_name a)),
      (''headers'', JArray (
         [gmail_header ''Content-Type'' (at_content_type a @ ''; name='' @ dquote @ at_name a @ dquote),
          gmail_header ''Content-Disposition''
            (disposition_as_str (at_disposition a) @ ''; filename='' @ dquote @ at_name a @ dquote),
          gmail_header ''Content-Transfer-Encoding'' ''base64''] @
         (case at_cid a of Some c \<Rightarrow> [gmail_header ''Content-ID'' (''<'' @ c @ ''>'')] | None \<Rightarrow> []))),
      (''body'', jobj [(''attachmentId'', JString (at_blob_id a)), (''size'', jint (at_size a))])]"

definition payload_headers :: "gmail_env \<Rightarrow> email \<Rightarrow> json list" where
  "payload_headers env e =
     (case em_from e of Some a \<Rightarrow> [gmail_header ''From'' (gmail_address a)] | None \<Rightarrow> []) @
     (if em_to e \<noteq> [] then [gmail_header ''To'' (gmail_address_list (em_to e))] else []) @
     (if em_cc e \<noteq> [] then [gmail_header ''Cc'' (gmail_address_list (em_cc e))] else []) @
     (if em_bcc e \<noteq> [] then [gmail_header ''Bcc'' (gmail_address_list (em_bcc e))] else []) @
     (if reply_to e \<noteq> [] then [gmail_header ''Reply-To'' (gmail_address_list (reply_to e))] else []) @
     (case em_subject e of Some s \<Rightarrow> [gmail_header ''Subject'' s] | None \<Rightarrow> []) @
     [gmail_header ''Date'' (rfc2822 (gm_render env) (sent_at e))] @
     (if message_id e \<noteq> [] then [gmail_header ''Message-ID'' (join '' '' (message_id e))] else []) @
     (if in_reply_to e \<noteq> [] then [gmail_header ''In-Reply-To'' (join '' '' (in_reply_to e))] else []) @
     (if em_references e \<noteq> [] then [gmail_header ''References'' (join '' '' (em_references e))] else []) @
     [gmail_header ''MIME-Version'' ''1.0'']"

definition text_headers :: "json list" where
  "text_headers = [gmail_header ''Content-Type'' ''text/plain; charset=utf-8'',
     gmail_header ''Content-Transfer-Encoding'' ''8bit'']"

definition build_payload :: "gmail_env \<Rightarrow> email \<Rightarrow> json" where
  "build_payload env e =
     (if raw_bytes e \<noteq> None \<or> attachments e = []
      then text_leaf [] (payload_headers env e @ text_headers) (gmail_body_str e)
      else
        let boundary = ''=_saehrimnir_'' @ em_id e @ ''_='' in
        jobj [(''partId'', JString []), (''mimeType'', JString ''multipart/mixed''), (''filename'', JString []),
          (''headers'', JArray (payload_headers env e @
             [gmail_header ''Content-Type'' (''multipart/mixed; boundary='' @ dquote @ boundary @ dquote)])),
          (''body'', jobj [(''size'', jnat 0)]),
          (''parts'', JArray (text_leaf ''0'' text_headers (gmail_body_str e) #
             map (\<lambda>(i, a). attachment_leaf (show_nat (i + 1)) a) (enumerate 0 (attachments e))))])"

text \<open>\<open>Timestamp::as_millisecond\<close>: the nanoseconds cut to milliseconds towards zero.\<close>

definition as_millisecond :: "timestamp \<Rightarrow> int" where
  "as_millisecond t = (if t < 0 then - (- t div 1000000) else t div 1000000)"

definition gmail_message_fields :: "gmail_env \<Rightarrow> fixture \<Rightarrow> email \<Rightarrow> (string \<times> json) list" where
  "gmail_message_fields env f e =
     [(''id'', JString (em_id e)), (''threadId'', JString (em_thread_id e)),
      (''labelIds'', JArray (map JString (gmail_label_ids f e))),
      (''snippet'', JString (take_chars 100 (gmail_body_str e))),
      (''historyId'', JString (show_nat (gmail_history_id f (em_account_id e)))),
      (''internalDate'', JString (show_int (as_millisecond (received_at e)))),
      (''sizeEstimate'', jnat (length (gmail_body_str e)))]"

definition gmail_message_value :: "gmail_env \<Rightarrow> fixture \<Rightarrow> email \<Rightarrow> json" where
  "gmail_message_value env f e = jobj (gmail_message_fields env f e @ [(''payload'', build_payload env e)])"

definition email_of :: "fixture \<Rightarrow> string \<Rightarrow> string \<Rightarrow> email option" where
  "email_of f a i = find (\<lambda>e. em_id e = i) (emails_for f a)"

definition gmail_list_messages :: "gmail_env \<Rightarrow> fixture \<Rightarrow> string \<Rightarrow> string option \<Rightarrow> google_reply" where
  "gmail_list_messages env f a raw =
     gmail_overridden env ''list_messages'' [] id
       (let q = parse_gmail_query raw in
        with_after env q (\<lambda>keep.
          listing_page ''messages'' q (\<lambda>e. jobj [(''id'', JString (em_id e)), (''threadId'', JString (em_thread_id e))])
            (newest_first (filter (\<lambda>e. keep (received_at e)) (emails_for f a)))))"

definition gmail_get_message :: "gmail_env \<Rightarrow> fixture \<Rightarrow> string \<Rightarrow> string \<Rightarrow> string option \<Rightarrow> google_reply" where
  "gmail_get_message env f a mid raw =
     gmail_overridden env ''get_message'' [(''message_id'', mid)] id
       (let q = parse_gmail_query raw in
        case email_of f a mid of
          None \<Rightarrow> not_found ''message'' mid
        | Some e \<Rightarrow>
            if (case gq_format q of Some s \<Rightarrow> s | None \<Rightarrow> ''full'') = ''raw''
            then google_json (jobj (gmail_message_fields env f e @
                   [(''raw'', JString (base64url_no_pad (assembled_rfc822 (gm_render env) e)))]))
            else google_json (gmail_message_value env f e))"

definition get_attachment :: "gmail_env \<Rightarrow> fixture \<Rightarrow> string \<Rightarrow> string \<Rightarrow> string \<Rightarrow> google_reply" where
  "get_attachment env f a mid att =
     gmail_overridden env ''get_attachment'' [(''message_id'', mid), (''attachment_id'', att)] id
       (case email_of f a mid of
          None \<Rightarrow> not_found ''message'' mid
        | Some e \<Rightarrow>
            (case find (\<lambda>t. at_blob_id t = att) (attachments e) of
               None \<Rightarrow> gmail_error 404 (''attachment '' @ debug_str att @ '' on message '' @ debug_str mid @ '' not found'')
                         ''notFound''
             | Some t \<Rightarrow> google_json (jobj [(''size'', jint (at_size t)), (''data'', JString (base64url_no_pad (at_data t)))])))"

end
