(* ===== verification/Gmail_Labels.thy ===== *)
theory Gmail_Labels
  imports Gmail_Mail
begin

text \<open>
  Labels, threads, \<open>history.list\<close>, the profile and the sendAs settings of the Gmail listener
  (\<open>src/gmail/mail.rs\<close>). A user label is a mailbox without a role, or a keyword of an email.
\<close>

subsection \<open>Labels\<close>

definition system_labels :: "string list" where
  "system_labels = [''INBOX'', ''SENT'', ''DRAFT'', ''TRASH'', ''SPAM'', ''IMPORTANT'', ''STARRED'', ''UNREAD'']"

definition email_carries_label :: "fixture \<Rightarrow> string \<Rightarrow> email \<Rightarrow> bool" where
  "email_carries_label f label_id e \<longleftrightarrow> label_id \<in> set (gmail_label_ids f e)"

text \<open>Messages, unread messages, threads and threads with an unread message under a label.\<close>

definition label_counts :: "fixture \<Rightarrow> string \<Rightarrow> string \<Rightarrow> nat \<times> nat \<times> nat \<times> nat" where
  "label_counts f label_id a =
     (let in_label = filter (email_carries_label f label_id) (emails_for f a);
          unseen = filter (\<lambda>e. ''$seen'' \<notin> set (em_keywords e)) in_label
      in (length in_label, length unseen, length (sort_dedup (map em_thread_id in_label)),
          length (sort_dedup (map em_thread_id unseen))))"

definition label_value ::
    "fixture \<Rightarrow> string \<Rightarrow> string \<Rightarrow> string \<Rightarrow> string \<Rightarrow> gmail_label_color option \<Rightarrow> json" where
  "label_value f i name kind a color =
     (let (msg_total, msg_unread, thread_total, thread_unread) = label_counts f i a in
      jobj ([(''id'', JString i), (''name'', JString name), (''type'', JString kind),
        (''messageListVisibility'', JString ''show''), (''labelListVisibility'', JString ''labelShow''),
        (''messagesTotal'', jnat msg_total), (''messagesUnread'', jnat msg_unread),
        (''threadsTotal'', jnat thread_total), (''threadsUnread'', jnat thread_unread)] @
       (case color of
          Some c \<Rightarrow> [(''color'', jobj [(''textColor'', JString (text_color c)),
            (''backgroundColor'', JString (background_color c))])]
        | None \<Rightarrow> [])))"

definition label_of :: "string \<Rightarrow> string" where
  "label_of x = ''Label_'' @ x"

definition list_labels :: "gmail_env \<Rightarrow> fixture \<Rightarrow> string \<Rightarrow> google_reply" where
  "list_labels env f a =
     gmail_overridden env ''list_labels'' [] id
       (google_json (jobj [(''labels'', JArray (
          map (\<lambda>s. label_value f s s ''system'' a None) system_labels @
          map (\<lambda>m. label_value f (label_of (mb_id m)) (mb_name m) ''user'' a (map_of (gmail_label_colors f) (mb_id m)))
            (filter (\<lambda>m. mb_role m = None) (mailboxes_for f a)) @
          map (\<lambda>k. label_value f (label_of k) k ''user'' a None)
            (sort_dedup (concat (map (\<lambda>e. filter (\<lambda>k. \<not> prefix ''$'' k) (em_keywords e)) (emails_for f a))))))]))"

definition parse_label_color :: "json \<Rightarrow> gmail_label_color option" where
  "parse_label_color body =
     Option.bind (jget ''color'' body) (\<lambda>color.
       if color = JNull then None
       else Option.bind (Option.bind (jget ''textColor'' color) as_str) (\<lambda>text.
         map_option (\<lambda>bg. \<lparr>text_color = text, background_color = bg\<rparr>)
           (Option.bind (jget ''backgroundColor'' color) as_str)))"

definition set_label_color :: "string \<Rightarrow> gmail_label_color option \<Rightarrow> fixture \<Rightarrow> fixture" where
  "set_label_color i color f = (case color of
      Some c \<Rightarrow> f\<lparr>gmail_label_colors := bt_insert i c (gmail_label_colors f)\<rparr>
    | None \<Rightarrow> f\<lparr>gmail_label_colors := bt_remove i (gmail_label_colors f)\<rparr>)"

definition create_label :: "string \<Rightarrow> json \<Rightarrow> fixture \<Rightarrow> google_reply \<times> fixture" where
  "create_label a body f =
     (case Option.bind (jget ''name'' body) as_str of
        Some (c # cs) \<Rightarrow>
          let name = c # cs; color = parse_label_color body; i = fresh_mailbox_id f;
              f1 = (case color of Some x \<Rightarrow> set_label_color i (Some x) f | None \<Rightarrow> f);
              m = \<lparr>mb_id = i, mb_account_id = a, mb_name = name, mb_role = None, mb_parent_id = None,
                   sort_order = None, is_subscribed = True\<rparr>;
              f2 = snd (mutate (\<lambda>f. (diff_default\<lparr>mailbox_created := [i]\<rparr>, f\<lparr>mailboxes := mailboxes f @ [m]\<rparr>)) f1)
          in (google_json (label_value f2 (label_of i) name ''user'' a color), f2)
      | _ \<Rightarrow> (gmail_error 400 ''label create requires a non-empty name'' ''invalidArgument'', f))"

definition is_user_label :: "string \<Rightarrow> string \<Rightarrow> fixture \<Rightarrow> bool" where
  "is_user_label a i f \<longleftrightarrow> list_ex (\<lambda>m. mb_account_id m = a \<and> mb_id m = i \<and> mb_role m = None) (mailboxes f)"

text \<open>An absent color leaves the color, null clears it, an object sets it (an incomplete one clears it).\<close>

definition patched_color :: "json \<Rightarrow> string \<Rightarrow> fixture \<Rightarrow> fixture" where
  "patched_color body i f = (case jget ''color'' body of
      None \<Rightarrow> f
    | Some v \<Rightarrow> if v = JNull then set_label_color i None f else set_label_color i (parse_label_color body) f)"

definition patch_label :: "string \<Rightarrow> string \<Rightarrow> json \<Rightarrow> fixture \<Rightarrow> google_reply \<times> fixture" where
  "patch_label a label_id body f =
     (case strip_prefix ''Label_'' label_id of
        None \<Rightarrow> (not_found ''label'' label_id, f)
      | Some i \<Rightarrow>
          if is_user_label a i f then
            let f1 = patched_color body i f;
                f2 = snd (mutate (\<lambda>f. (diff_default\<lparr>mailbox_updated := [i]\<rparr>,
                       case Option.bind (jget ''name'' body) as_str of
                         Some n \<Rightarrow> f\<lparr>mailboxes := update_first (\<lambda>m. mb_id m = i) (\<lambda>m. m\<lparr>mb_name := n\<rparr>) (mailboxes f)\<rparr>
                       | None \<Rightarrow> f)) f1)
            in (case find (\<lambda>m. mb_id m = i) (mailboxes_for f2 a) of
                  Some m \<Rightarrow> (google_json (label_value f2 label_id (mb_name m) ''user'' a (map_of (gmail_label_colors f2) i)), f2)
                | None \<Rightarrow> (not_found ''label'' label_id, f2))
          else (not_found ''label'' label_id, f))"

definition delete_label :: "string \<Rightarrow> string \<Rightarrow> fixture \<Rightarrow> google_reply \<times> fixture" where
  "delete_label a label_id f =
     (case strip_prefix ''Label_'' label_id of
        None \<Rightarrow> (not_found ''label'' label_id, f)
      | Some i \<Rightarrow>
          if is_user_label a i f then
            (no_content, snd (mutate (\<lambda>f. (diff_default\<lparr>mailbox_destroyed := [i], mailbox_destroyed_accounts := [a]\<rparr>,
               f\<lparr>mailboxes := filter (\<lambda>m. mb_id m \<noteq> i) (mailboxes f)\<rparr>)) (set_label_color i None f)))
          else (not_found ''label'' label_id, f))"

subsection \<open>Profile and watches\<close>

definition unique_thread_count :: "fixture \<Rightarrow> string \<Rightarrow> nat" where
  "unique_thread_count f a = length (sort_dedup (map em_thread_id (emails_for f a)))"

definition gmail_profile :: "gmail_env \<Rightarrow> fixture \<Rightarrow> string \<Rightarrow> google_reply" where
  "gmail_profile env f a =
     gmail_overridden env ''profile'' [] id
       (google_json (jobj
          [(''emailAddress'', JString (case find_account f a of Some x \<Rightarrow> ac_name x | None \<Rightarrow> ac_name (primary_account f))),
           (''messagesTotal'', jnat (length (emails_for f a))), (''threadsTotal'', jnat (unique_thread_count f a)),
           (''historyId'', JString (show_nat (gmail_history_id f a)))]))"

text \<open>The watches of the push hub, one per account.\<close>

record gmail_watch =
  gw_account_id :: string
  topic_name :: string
  label_ids :: "string list"

definition watch_expiration_ms :: string where "watch_expiration_ms = ''4102444800000''"

definition gmail_watch_set :: "gmail_watch \<Rightarrow> (string, gmail_watch) btmap \<Rightarrow> (string, gmail_watch) btmap" where
  "gmail_watch_set w ws = bt_insert (gw_account_id w) w ws"

definition gmail_watch_clear :: "string \<Rightarrow> (string, gmail_watch) btmap \<Rightarrow> bool \<times> (string, gmail_watch) btmap" where
  "gmail_watch_clear a ws = (map_of ws a \<noteq> None, bt_remove a ws)"

definition json_strings :: "json \<Rightarrow> string \<Rightarrow> string list" where
  "json_strings body k = (case Option.bind (jget k body) as_array of
      Some xs \<Rightarrow> List.map_filter as_str xs | None \<Rightarrow> [])"

definition watch ::
    "string \<Rightarrow> json option \<Rightarrow> fixture \<Rightarrow> (string, gmail_watch) btmap \<Rightarrow> google_reply \<times> (string, gmail_watch) btmap" where
  "watch a body0 f ws =
     (let body = (case body0 of Some v \<Rightarrow> v | None \<Rightarrow> JNull);
          topic = (case Option.bind (jget ''topicName'' body) as_str of
            Some t \<Rightarrow> t | None \<Rightarrow> ''projects/saehrimnir/topics/mock'')
      in (google_json (jobj [(''historyId'', JString (show_nat (gmail_history_id f a))),
            (''expiration'', JString watch_expiration_ms)]),
          gmail_watch_set \<lparr>gw_account_id = a, topic_name = topic, label_ids = json_strings body ''labelIds''\<rparr> ws))"

definition stop_watch ::
    "string \<Rightarrow> (string, gmail_watch) btmap \<Rightarrow> google_reply \<times> (string, gmail_watch) btmap" where
  "stop_watch a ws = (no_content, snd (gmail_watch_clear a ws))"

subsection \<open>Threads\<close>

record thread_summary =
  th_id :: string
  snippet :: string
  th_received_at :: timestamp

definition by_received :: "email list \<Rightarrow> email list" where
  "by_received es = sort_key received_at es"

definition thread_messages :: "fixture \<Rightarrow> string \<Rightarrow> string \<Rightarrow> email list" where
  "thread_messages f a t = by_received (filter (\<lambda>e. em_thread_id e = t) (emails_for f a))"

definition last_snippet :: "email list \<Rightarrow> string" where
  "last_snippet es = (if es = [] then [] else take_chars 100 (text_of (last es)))"

text \<open>The emails grouped by thread: the map of the source, whose keys are the thread ids in order.\<close>

definition thread_summaries :: "fixture \<Rightarrow> string \<Rightarrow> thread_summary list" where
  "thread_summaries f a = sort_key (\<lambda>t. (- th_received_at t, th_id t))
     (map (\<lambda>t. let es = thread_messages f a t in
        \<lparr>th_id = t, snippet = last_snippet es,
         th_received_at = (case map received_at es of x # xs \<Rightarrow> fold max xs x | [] \<Rightarrow> 0)\<rparr>)
       (sort_dedup (map em_thread_id (emails_for f a))))"

definition list_threads :: "gmail_env \<Rightarrow> fixture \<Rightarrow> string \<Rightarrow> string option \<Rightarrow> google_reply" where
  "list_threads env f a raw =
     gmail_overridden env ''list_threads'' [] id
       (let q = parse_gmail_query raw in
        with_after env q (\<lambda>keep.
          listing_page ''threads'' q (\<lambda>t. jobj [(''id'', JString (th_id t)), (''snippet'', JString (snippet t)),
              (''historyId'', JString (show_nat (gmail_history_id f a)))])
            (filter (\<lambda>t. keep (th_received_at t)) (thread_summaries f a))))"

definition get_thread :: "gmail_env \<Rightarrow> fixture \<Rightarrow> string \<Rightarrow> string \<Rightarrow> google_reply" where
  "get_thread env f a t =
     gmail_overridden env ''get_thread'' [(''thread_id'', t)] id
       (let es = thread_messages f a t in
        if es = [] then not_found ''thread'' t
        else google_json (jobj [(''id'', JString t), (''historyId'', JString (show_nat (gmail_history_id f a))),
          (''snippet'', JString (last_snippet es)), (''messages'', JArray (map (gmail_message_value env f) es))]))"

subsection \<open>History\<close>

definition message_ref :: "string \<Rightarrow> string \<Rightarrow> json" where
  "message_ref i t = jobj [(''id'', JString i), (''threadId'', JString t)]"

definition label_wrappers :: "fixture \<Rightarrow> (string \<times> string list) list \<Rightarrow> json list" where
  "label_wrappers f items = map (\<lambda>(i, labels). jobj
     [(''message'', message_ref i (case find (\<lambda>e. em_id e = i) (emails f) of Some e \<Rightarrow> em_thread_id e | None \<Rightarrow> i)),
      (''labelIds'', JArray (map JString labels))]) items"

definition history_record_json :: "gmail_env \<Rightarrow> fixture \<Rightarrow> gmail_history_record \<Rightarrow> json" where
  "history_record_json env f r = jobj (
     [(''id'', JString (show_nat (gh_id r)))] @
     (if messages_added r \<noteq> [] then [(''messagesAdded'', JArray (
        map (\<lambda>e. jobj [(''message'', gmail_message_value env f e)])
          (List.map_filter (\<lambda>i. find (\<lambda>e. em_id e = i) (emails f)) (messages_added r))))] else []) @
     (if messages_deleted r \<noteq> [] then [(''messagesDeleted'', JArray (
        map (\<lambda>i. jobj [(''message'', message_ref i i)]) (messages_deleted r)))] else []) @
     (if labels_added r \<noteq> [] then [(''labelsAdded'', JArray (label_wrappers f (labels_added r)))] else []) @
     (if labels_removed r \<noteq> [] then [(''labelsRemoved'', JArray (label_wrappers f (labels_removed r)))] else []))"

definition gmail_history_response :: "gmail_env \<Rightarrow> fixture \<Rightarrow> string \<Rightarrow> string option \<Rightarrow> google_reply" where
  "gmail_history_response env f a raw =
     gmail_overridden env ''history'' [] id
       (let q = parse_gmail_query raw;
            start = (case start_history_id q of Some n \<Rightarrow> n | None \<Rightarrow> 0)
        in case gmail_history_since f a start of
             Unknown \<Rightarrow> gmail_error 404 (''startHistoryId '' @ show_nat start @
               '' is too old; a full sync is required (historyId)'') ''notFound''
           | Delta records history_id \<Rightarrow> google_json (jobj
               [(''history'', JArray (map (history_record_json env f) records)),
                (''historyId'', JString (show_nat history_id))]))"

subsection \<open>SendAs\<close>

definition serialize_send_as :: "send_as \<Rightarrow> json" where
  "serialize_send_as s = jobj (
     [(''sendAsEmail'', JString (send_as_email s))] @
     (case sa_display_name s of Some d \<Rightarrow> [(''displayName'', JString d)] | None \<Rightarrow> []) @
     (case reply_to_address s of Some d \<Rightarrow> [(''replyToAddress'', JString d)] | None \<Rightarrow> []) @
     (case signature s of Some d \<Rightarrow> [(''signature'', JString d)] | None \<Rightarrow> []) @
     [(''isPrimary'', JBool (sa_is_primary s)), (''isDefault'', JBool (sa_is_default s)),
      (''treatAsAlias'', JBool (treat_as_alias s))])"

definition list_send_as :: "gmail_env \<Rightarrow> fixture \<Rightarrow> string \<Rightarrow> google_reply" where
  "list_send_as env f a =
     gmail_overridden env ''send_as'' [] id
       (google_json (jobj [(''sendAs'', JArray (map serialize_send_as (send_as_for f a)))]))"

definition get_send_as :: "gmail_env \<Rightarrow> fixture \<Rightarrow> string \<Rightarrow> string \<Rightarrow> google_reply" where
  "get_send_as env f a mail =
     gmail_overridden env ''send_as'' [(''send_as_email'', mail)] id
       (case find (\<lambda>s. send_as_email s = mail) (send_as_for f a) of
          None \<Rightarrow> not_found ''sendAs'' mail
        | Some s \<Rightarrow> google_json (serialize_send_as s))"

text \<open>A sparse merge: a key that is present replaces the value, a key that is absent leaves it.\<close>

definition apply_send_as_patch :: "json \<Rightarrow> send_as \<Rightarrow> send_as" where
  "apply_send_as_patch patch s0 =
     (let s1 = (case jget ''displayName'' patch of Some v \<Rightarrow> s0\<lparr>sa_display_name := as_str v\<rparr> | None \<Rightarrow> s0);
          s2 = (case jget ''replyToAddress'' patch of Some v \<Rightarrow> s1\<lparr>reply_to_address := as_str v\<rparr> | None \<Rightarrow> s1);
          s3 = (case jget ''signature'' patch of Some v \<Rightarrow> s2\<lparr>signature := as_str v\<rparr> | None \<Rightarrow> s2);
          s4 = (case Option.bind (jget ''isDefault'' patch) as_bool of Some b \<Rightarrow> s3\<lparr>sa_is_default := b\<rparr> | None \<Rightarrow> s3)
      in (case Option.bind (jget ''treatAsAlias'' patch) as_bool of Some b \<Rightarrow> s4\<lparr>treat_as_alias := b\<rparr> | None \<Rightarrow> s4))"

definition is_send_as :: "string \<Rightarrow> string \<Rightarrow> send_as \<Rightarrow> bool" where
  "is_send_as a mail s \<longleftrightarrow> sa_account_id s = a \<and> send_as_email s = mail"

definition patch_send_as ::
    "gmail_env \<Rightarrow> string \<Rightarrow> string \<Rightarrow> string \<Rightarrow> fixture \<Rightarrow> google_reply \<times> fixture" where
  "patch_send_as env a mail body f =
     gmail_overridden env ''send_as'' [(''send_as_email'', mail)] (\<lambda>r. (r, f))
       (case gm_parse_json env body of
          Inl e \<Rightarrow> (gmail_error 400 (''invalid JSON body: '' @ e) ''invalidInput'', f)
        | Inr patch \<Rightarrow>
            (case find (is_send_as a mail) (send_as_list f) of
               None \<Rightarrow> (not_found ''sendAs'' mail, f)
             | Some s \<Rightarrow> (google_json (serialize_send_as (apply_send_as_patch patch s)),
                 f\<lparr>send_as_list := update_first (is_send_as a mail) (apply_send_as_patch patch) (send_as_list f)\<rparr>)))"

end
