(* ===== verification/Gmail_Writes.thy ===== *)
theory Gmail_Writes
  imports Gmail_Labels Oauth_Store
begin

text \<open>
  The mail writes of the Gmail listener (\<open>src/gmail/mail.rs\<close>): label patches on messages and threads,
  permanent deletes, \<open>messages.send\<close>, and the route table with the bearer check.
\<close>

subsection \<open>Label patches\<close>

datatype modify_outcome = Applied | NotFound | NoArchiveMailbox | UnknownContainer string

definition required_containers :: "string list" where
  "required_containers = [''INBOX'', ''TRASH'', ''SPAM'']"

definition role_mailbox :: "fixture \<Rightarrow> string \<Rightarrow> role \<Rightarrow> string option" where
  "role_mailbox f a r = map_option mb_id (find (\<lambda>m. mb_role m = Some r) (mailboxes_for f a))"

definition container_mailbox :: "fixture \<Rightarrow> string \<Rightarrow> string \<Rightarrow> string option" where
  "container_mailbox f a label =
     (if label = ''INBOX'' then role_mailbox f a Inbox
      else if label = ''TRASH'' then role_mailbox f a Trash
      else if label = ''SPAM'' then role_mailbox f a Junk
      else None)"

definition check_containers :: "fixture \<Rightarrow> string \<Rightarrow> string list \<Rightarrow> modify_outcome option" where
  "check_containers f a add = map_option UnknownContainer
     (find (\<lambda>l. l \<in> set required_containers \<and> container_mailbox f a l = None) add)"

definition toggle_keyword :: "string \<Rightarrow> bool \<Rightarrow> email \<Rightarrow> email" where
  "toggle_keyword kw present e =
     (let has = kw \<in> set (em_keywords e) in
      if present \<and> \<not> has then e\<lparr>em_keywords := em_keywords e @ [kw]\<rparr>
      else if \<not> present \<and> has then e\<lparr>em_keywords := filter (\<lambda>k. k \<noteq> kw) (em_keywords e)\<rparr>
      else e)"

definition toggle_membership :: "string \<Rightarrow> bool \<Rightarrow> email \<Rightarrow> email" where
  "toggle_membership mb add e =
     (let has = mb \<in> set (mailbox_ids e) in
      if add \<and> \<not> has then e\<lparr>mailbox_ids := mailbox_ids e @ [mb]\<rparr>
      else if \<not> add \<and> has then e\<lparr>mailbox_ids := filter (\<lambda>m. m \<noteq> mb) (mailbox_ids e)\<rparr>
      else e)"

definition toggle_role_membership :: "fixture \<Rightarrow> string \<Rightarrow> role \<Rightarrow> bool \<Rightarrow> email \<Rightarrow> email" where
  "toggle_role_membership f a r add e =
     (case role_mailbox f a r of Some mb \<Rightarrow> toggle_membership mb add e | None \<Rightarrow> e)"

text \<open>One label, switched on or off: the inverse of \<open>gmail_label_ids\<close>.\<close>

definition apply_gmail_label :: "fixture \<Rightarrow> string \<Rightarrow> bool \<Rightarrow> string \<Rightarrow> email \<Rightarrow> email" where
  "apply_gmail_label f a add label e =
     (if label = ''UNREAD'' then toggle_keyword ''$seen'' (\<not> add) e
      else if label = ''STARRED'' then toggle_keyword ''$flagged'' add e
      else if label = ''DRAFT'' then toggle_keyword ''$draft'' add e
      else if label = ''INBOX'' then toggle_role_membership f a Inbox add e
      else if label = ''SENT'' then toggle_role_membership f a Sent add e
      else if label = ''TRASH'' then toggle_role_membership f a Trash add e
      else if label = ''SPAM'' then toggle_role_membership f a Junk add e
      else if label = ''IMPORTANT'' then toggle_role_membership f a Important add e
      else case strip_prefix ''Label_'' label of
        None \<Rightarrow> e
      | Some name \<Rightarrow>
          (case find (\<lambda>m. mb_id m = name \<and> mb_role m = None) (mailboxes_for f a) of
             Some m \<Rightarrow> toggle_membership (mb_id m) add e
           | None \<Rightarrow> toggle_keyword name add e))"

text \<open>Adds before removes, then the archive for an email that is left in no mailbox.\<close>

definition apply_labels :: "fixture \<Rightarrow> string \<Rightarrow> string list \<Rightarrow> string list \<Rightarrow> email \<Rightarrow> email" where
  "apply_labels f a add remove e =
     fold (apply_gmail_label f a False) remove (fold (apply_gmail_label f a True) add e)"

definition archived :: "fixture \<Rightarrow> string \<Rightarrow> email \<Rightarrow> email option" where
  "archived f a e =
     (if mailbox_ids e \<noteq> [] then Some e
      else map_option (\<lambda>mb. e\<lparr>mailbox_ids := [mb]\<rparr>) (role_mailbox f a Archive))"

definition is_email :: "string \<Rightarrow> string \<Rightarrow> email \<Rightarrow> bool" where
  "is_email a i e \<longleftrightarrow> em_account_id e = a \<and> em_id e = i"

text \<open>The mutation: the diff, the fixture, and whether it was refused.\<close>

definition relabel ::
    "string \<Rightarrow> string \<Rightarrow> string list \<Rightarrow> string list \<Rightarrow> fixture \<Rightarrow> bool \<times> mutation_diff \<times> fixture" where
  "relabel a i add remove f =
     (case find (is_email a i) (emails f) of
        None \<Rightarrow> (False, diff_default, f)
      | Some e \<Rightarrow>
          (case archived f a (apply_labels f a add remove e) of
             None \<Rightarrow> (True, diff_default, f)
           | Some e' \<Rightarrow>
               let f1 = sync_mailbox_uids i (mailbox_ids e) (mailbox_ids e')
                          (f\<lparr>emails := update_first (is_email a i) (\<lambda>_. e') (emails f)\<rparr>)
               in (False, diff_default\<lparr>email_updated := [i], email_label_changes :=
                    (case gmail_label_change i (gmail_label_ids f e) (gmail_label_ids f1 e') of
                       Some c \<Rightarrow> [c] | None \<Rightarrow> [])\<rparr>, f1)))"

definition modify_one ::
    "string \<Rightarrow> string list \<Rightarrow> string list \<Rightarrow> string \<Rightarrow> fixture \<Rightarrow> modify_outcome \<times> fixture" where
  "modify_one a add remove i f =
     (if \<not> list_ex (\<lambda>e. em_id e = i) (emails_for f a) then (NotFound, f)
      else case check_containers f a add of
        Some gap \<Rightarrow> (gap, f)
      | None \<Rightarrow>
          let (refused, d, f1) = relabel a i add remove f
          in (if refused then NoArchiveMailbox else Applied, snd (mutate (\<lambda>_. (d, f1)) f)))"

definition modify_gap_error :: "modify_outcome \<Rightarrow> google_reply" where
  "modify_gap_error out = gmail_error 400 (case out of
       NoArchiveMailbox \<Rightarrow> ''label patch would leave the message in no mailbox, and the account declares no `role = '' @
         dquote @ ''archive'' @ dquote @ ''` mailbox to model Gmail All Mail; add one to the fixture''
     | UnknownContainer label \<Rightarrow> ''addLabelIds names the system container '' @ debug_str label @
         '', but the account declares no mailbox with the matching role; add one to the fixture''
     | _ \<Rightarrow> ''unexpected modify outcome'') ''invalidArgument''"

fun modify_each ::
    "string \<Rightarrow> string list \<Rightarrow> string list \<Rightarrow> string list \<Rightarrow> fixture \<Rightarrow> modify_outcome option \<times> fixture" where
  "modify_each a add remove [] f = (None, f)"
| "modify_each a add remove (i # is) f =
     (case modify_one a add remove i f of
        (Applied, f1) \<Rightarrow> modify_each a add remove is f1
      | (NotFound, f1) \<Rightarrow> modify_each a add remove is f1
      | (gap, f1) \<Rightarrow> (Some gap, f1))"

definition apply_patch_to_ids ::
    "string \<Rightarrow> string list \<Rightarrow> string list \<Rightarrow> string list \<Rightarrow> fixture \<Rightarrow> modify_outcome option \<times> fixture" where
  "apply_patch_to_ids a is add remove f =
     (case check_containers f a add of
        Some gap \<Rightarrow> (Some gap, f)
      | None \<Rightarrow> modify_each a add remove is f)"

definition modify_message :: "gmail_env \<Rightarrow> string \<Rightarrow> string \<Rightarrow> json \<Rightarrow> fixture \<Rightarrow> google_reply \<times> fixture" where
  "modify_message env a i body f =
     (case modify_one a (json_strings body ''addLabelIds'') (json_strings body ''removeLabelIds'') i f of
        (Applied, f1) \<Rightarrow>
          ((case email_of f1 a i of Some e \<Rightarrow> google_json (gmail_message_value env f1 e)
                                  | None \<Rightarrow> not_found ''message'' i), f1)
      | (NotFound, f1) \<Rightarrow> (not_found ''message'' i, f1)
      | (other, f1) \<Rightarrow> (modify_gap_error other, f1))"

definition thread_message_ids :: "fixture \<Rightarrow> string \<Rightarrow> string \<Rightarrow> string list" where
  "thread_message_ids f a t = map em_id (thread_messages f a t)"

definition modify_thread :: "gmail_env \<Rightarrow> string \<Rightarrow> string \<Rightarrow> json \<Rightarrow> fixture \<Rightarrow> google_reply \<times> fixture" where
  "modify_thread env a t body f =
     (let is = thread_message_ids f a t in
      if is = [] then (not_found ''thread'' t, f)
      else case apply_patch_to_ids a is (json_strings body ''addLabelIds'') (json_strings body ''removeLabelIds'') f of
        (Some gap, f1) \<Rightarrow> (modify_gap_error gap, f1)
      | (None, f1) \<Rightarrow>
          (google_json (jobj [(''id'', JString t), (''historyId'', JString (show_nat (gmail_history_id f1 a))),
             (''messages'', JArray (map (gmail_message_value env f1) (thread_messages f1 a t)))]), f1))"

definition batch_modify :: "string \<Rightarrow> json \<Rightarrow> fixture \<Rightarrow> google_reply \<times> fixture" where
  "batch_modify a body f =
     (case apply_patch_to_ids a (json_strings body ''ids'') (json_strings body ''addLabelIds'')
             (json_strings body ''removeLabelIds'') f of
        (Some gap, f1) \<Rightarrow> (modify_gap_error gap, f1)
      | (None, f1) \<Rightarrow> (no_content, f1))"

subsection \<open>Deletes\<close>

definition delete_one :: "string \<Rightarrow> string \<Rightarrow> fixture \<Rightarrow> fixture" where
  "delete_one a i f =
     (case find (is_email a i) (emails f) of
        None \<Rightarrow> f
      | Some e \<Rightarrow> snd (mutate (\<lambda>f.
          (diff_default\<lparr>email_destroyed := [i], email_destroyed_accounts := [em_account_id e]\<rparr>,
           fold (\<lambda>mb. retire_uid mb i) (mailbox_ids e)
             (f\<lparr>emails := filter (\<lambda>e. \<not> is_email a i e) (emails f)\<rparr>))) f))"

definition delete_thread :: "string \<Rightarrow> string \<Rightarrow> fixture \<Rightarrow> google_reply \<times> fixture" where
  "delete_thread a t f =
     (let is = thread_message_ids f a t in
      if is = [] then (not_found ''thread'' t, f) else (no_content, fold (delete_one a) is f))"

definition batch_delete :: "string \<Rightarrow> json \<Rightarrow> fixture \<Rightarrow> google_reply \<times> fixture" where
  "batch_delete a body f = (no_content, fold (delete_one a) (json_strings body ''ids'') f)"

subsection \<open>Sending\<close>

definition latest_received :: "gmail_env \<Rightarrow> fixture \<Rightarrow> timestamp" where
  "latest_received env f = (case map received_at (emails f) of [] \<Rightarrow> gm_epoch env | t # ts \<Rightarrow> fold max ts t)"

definition sent_email ::
    "gmail_env \<Rightarrow> string \<Rightarrow> string \<Rightarrow> string \<Rightarrow> string \<Rightarrow> string option \<Rightarrow> timestamp \<Rightarrow> email" where
  "sent_email env a mb raw i t received =
     (let parsed = gm_mail_parser env raw in
      \<lparr>em_id = i, em_account_id = a, em_thread_id = (case t of Some x \<Rightarrow> x | None \<Rightarrow> i), mailbox_ids = [mb],
       em_keywords = [''$seen''], em_size = int (length raw), received_at = received, sent_at = received,
       em_from = Option.bind parsed pm_from,
       em_to = (case Option.bind parsed pm_to of Some x \<Rightarrow> [x] | None \<Rightarrow> []),
       em_cc = [], em_bcc = [], reply_to = [], em_subject = Option.bind parsed pm_subject, em_preview = None,
       message_id = (case Option.bind parsed pm_message_id of Some x \<Rightarrow> [x] | None \<Rightarrow> []),
       in_reply_to = [], em_references = [], has_attachment = False,
       em_body = Text (case Option.bind parsed pm_body_text of Some x \<Rightarrow> x | None \<Rightarrow> []),
       attachments = [], raw_bytes = Some (utf8_lossy raw), reaction_type = None, reaction_count = None\<rparr>)"

definition deliver_sent_message ::
    "gmail_env \<Rightarrow> string \<Rightarrow> string \<Rightarrow> string \<Rightarrow> string option \<Rightarrow> fixture \<Rightarrow> string \<times> fixture" where
  "deliver_sent_message env a mb raw t f =
     (let received = latest_received env f;
          (i, f1) = mint_email_id f;
          e = sent_email env a mb raw i t received
      in (i, snd (mutate (\<lambda>f. (diff_default\<lparr>email_created := [i]\<rparr>,
            snd (assign_uid mb i (f\<lparr>emails := emails f @ [e]\<rparr>)))) f1)))"

definition gmail_send_message :: "gmail_env \<Rightarrow> string \<Rightarrow> json \<Rightarrow> fixture \<Rightarrow> google_reply \<times> fixture" where
  "gmail_send_message env a body f =
     (case Option.bind (jget ''raw'' body) as_str of
        None \<Rightarrow> (gmail_error 400 ''messages.send requires a base64url `raw` field'' ''invalidArgument'', f)
      | Some b64 \<Rightarrow>
         (case decode_base64url_no_pad b64 of
            None \<Rightarrow> (gmail_error 400 ''`raw` is not valid base64url'' ''invalidArgument'', f)
          | Some raw \<Rightarrow>
             (case role_mailbox f a Sent of
                None \<Rightarrow> (gmail_error 404 ''account has no Sent-role mailbox to file the sent message'' ''notFound'', f)
              | Some mb \<Rightarrow>
                  let (i, f1) = deliver_sent_message env a mb raw (Option.bind (jget ''threadId'' body) as_str) f
                  in ((case email_of f1 a i of
                         Some e \<Rightarrow> google_json (gmail_message_value env f1 e)
                       | None \<Rightarrow> gmail_error 500 ''delivered message vanished'' ''internalError''), f1))))"

subsection \<open>The route table\<close>

text \<open>
  A request below \<open>/gmail/v1/users/me/\<close> by its decoded path segments, with its body and, when it has a
  content type, whether that is JSON. The text of axum's own rejections and \<open>HEAD\<close> are left out.
\<close>

record gmail_request =
  gr_method :: string
  gr_path :: "string list"
  gr_query :: "string option"
  gr_headers :: headers
  gr_json :: "bool option"
  gr_body :: string

record gmail_state =
  gs_fixture :: fixture
  gs_tokens :: token_store
  gs_watches :: "(string, gmail_watch) btmap"

definition bad_body :: google_reply where
  "bad_body = \<lparr>go_status = 400, go_body = None\<rparr>"

definition unsupported_type :: google_reply where
  "unsupported_type = \<lparr>go_status = 415, go_body = None\<rparr>"

definition method_not_allowed :: google_reply where
  "method_not_allowed = \<lparr>go_status = 405, go_body = None\<rparr>"

definition with_json ::
    "gmail_env \<Rightarrow> gmail_request \<Rightarrow> fixture \<Rightarrow> (json \<Rightarrow> google_reply \<times> fixture) \<Rightarrow> google_reply \<times> fixture" where
  "with_json env r f k =
     (if gr_json r \<noteq> Some True then (unsupported_type, f)
      else case gm_parse_json env (gr_body r) of Inl _ \<Rightarrow> (bad_body, f) | Inr v \<Rightarrow> k v)"

definition bearer_account :: "gmail_state \<Rightarrow> headers \<Rightarrow> string" where
  "bearer_account s hs = account_from_bearer (gs_fixture s) (gs_tokens s) hs"

definition gmail_not_implemented :: "gmail_request \<Rightarrow> google_reply" where
  "gmail_not_implemented r = gmail_error 404 (''v0 mock does not implement '' @ gr_method r @ '' /gmail/v1/users/me/'' @
     join ''/'' (gr_path r)) ''notFound''"

text \<open>The handlers of a path by method; a static segment goes before a parameter at the same place.\<close>

definition gmail_methods ::
    "gmail_env \<Rightarrow> gmail_request \<Rightarrow> string \<Rightarrow> fixture \<Rightarrow> (string \<times> (google_reply \<times> fixture)) list option" where
  "gmail_methods env r a f =
     (let q = gr_query r; json = with_json env r f in
      case gr_path r of
        [s] \<Rightarrow>
          if s = ''profile'' then Some [(''GET'', (gmail_profile env f a, f))]
          else if s = ''labels'' then Some [(''GET'', (list_labels env f a, f)), (''POST'', json (\<lambda>v. create_label a v f))]
          else if s = ''threads'' then Some [(''GET'', (list_threads env f a q, f))]
          else if s = ''messages'' then Some [(''GET'', (gmail_list_messages env f a q, f))]
          else if s = ''history'' then Some [(''GET'', (gmail_history_response env f a q, f))]
          else if s = ''watch'' \<or> s = ''stop'' then Some []
          else None
      | [s, i] \<Rightarrow>
          if s = ''labels'' then Some [(''PATCH'', json (\<lambda>v. patch_label a i v f)), (''DELETE'', delete_label a i f)]
          else if s = ''threads'' then Some [(''GET'', (get_thread env f a i, f)), (''DELETE'', delete_thread a i f)]
          else if s = ''messages'' then
            if i = ''batchModify'' then Some [(''POST'', json (\<lambda>v. batch_modify a v f))]
            else if i = ''batchDelete'' then Some [(''POST'', json (\<lambda>v. batch_delete a v f))]
            else if i = ''send'' then Some [(''POST'', json (\<lambda>v. gmail_send_message env a v f))]
            else Some [(''GET'', (gmail_get_message env f a i q, f))]
          else if s = ''settings'' \<and> i = ''sendAs'' then Some [(''GET'', (list_send_as env f a, f))]
          else None
      | [s, i, t] \<Rightarrow>
          if s = ''threads'' \<and> t = ''modify'' then Some [(''POST'', json (\<lambda>v. modify_thread env a i v f))]
          else if s = ''messages'' \<and> t = ''modify'' then Some [(''POST'', json (\<lambda>v. modify_message env a i v f))]
          else if s = ''settings'' \<and> i = ''sendAs''
          then Some [(''GET'', (get_send_as env f a t, f)), (''PATCH'', patch_send_as env a t (gr_body r) f)]
          else None
      | [s, i, t, x] \<Rightarrow>
          if s = ''messages'' \<and> t = ''attachments'' then Some [(''GET'', (get_attachment env f a i x, f))] else None
      | _ \<Rightarrow> None)"

definition gmail_route :: "gmail_env \<Rightarrow> gmail_request \<Rightarrow> string \<Rightarrow> fixture \<Rightarrow> google_reply \<times> fixture" where
  "gmail_route env r a f =
     (case gmail_methods env r a f of
        None \<Rightarrow> (gmail_not_implemented r, f)
      | Some ms \<Rightarrow> (case map_of ms (gr_method r) of Some x \<Rightarrow> x | None \<Rightarrow> (method_not_allowed, f)))"

definition gmail_handle :: "gmail_env \<Rightarrow> gmail_request \<Rightarrow> gmail_state \<Rightarrow> google_reply \<times> gmail_state" where
  "gmail_handle env r s =
     (case check_bearer (gs_fixture s) (gs_tokens s) (gr_headers r) of
        Deny reason \<Rightarrow> (gmail_error 401 reason ''authError'', s)
      | Allow \<Rightarrow>
          let a = bearer_account s (gr_headers r); f = gs_fixture s;
              watched = apsnd (\<lambda>ws. s\<lparr>gs_watches := ws\<rparr>) in
          if gr_method r = ''POST'' \<and> gr_path r = [''watch''] then
            if gr_json r = None then watched (watch a None f (gs_watches s))
            else if gr_json r = Some False then (unsupported_type, s)
            else (case gm_parse_json env (gr_body r) of
                Inl _ \<Rightarrow> (bad_body, s)
              | Inr v \<Rightarrow> watched (watch a (Some v) f (gs_watches s)))
          else if gr_method r = ''POST'' \<and> gr_path r = [''stop''] then watched (stop_watch a (gs_watches s))
          else apsnd (\<lambda>f. s\<lparr>gs_fixture := f\<rparr>) (gmail_route env r a f))"

end
