(* ===== verification/Gmail_Sync.thy ===== *)
theory Gmail_Sync
  imports Gmail_Writes Mail_Sync
begin

text \<open>
  The Gmail writes keep the mail contract: a label patch is an edit, a permanent delete a removal and
  \<open>messages.send\<close> an addition. So every request keeps the mail invariant, and what a request leaves in the
  change logs can be followed from any protocol.
\<close>

subsection \<open>The mail steps of Gmail\<close>

definition same_email :: "email \<Rightarrow> email \<Rightarrow> bool" where
  "same_email e e' \<longleftrightarrow> em_id e' = em_id e \<and> em_account_id e' = em_account_id e \<and>
     (distinct (mailbox_ids e) \<longrightarrow> distinct (mailbox_ids e'))"

lemma toggles_keep:
  "same_email e (toggle_keyword kw b e)" "same_email e (toggle_membership mb b e)"
  "same_email e (toggle_role_membership f a r b e)"
proof -
  show "same_email e (toggle_keyword kw b e)" by (simp add: same_email_def toggle_keyword_def Let_def)
  show member: "same_email e (toggle_membership mb b e)" for mb
    by (auto simp: same_email_def toggle_membership_def Let_def)
  show "same_email e (toggle_role_membership f a r b e)"
    using member by (cases "role_mailbox f a r") (simp_all add: toggle_role_membership_def, simp add: same_email_def)
qed

lemma apply_gmail_label_keeps: "same_email e (apply_gmail_label f a b l e)"
proof -
  have "same_email e e" by (simp add: same_email_def)
  then show ?thesis
    unfolding apply_gmail_label_def
    by (cases "strip_prefix ''Label_'' l"; cases "find (\<lambda>m. mb_id m = the (strip_prefix ''Label_'' l) \<and> mb_role m = None) (mailboxes_for f a)")
      (simp_all only: if_split option.case option.sel toggles_keep simp_thms)
qed

lemma apply_labels_keep:
  "em_id (apply_labels f a add remove e) = em_id e"
  "em_account_id (apply_labels f a add remove e) = em_account_id e"
  "distinct (mailbox_ids e) \<Longrightarrow> distinct (mailbox_ids (apply_labels f a add remove e))"
proof -
  have keep: "same_email e (fold (apply_gmail_label f a b) ls e)" for b ls e
  proof (induction ls arbitrary: e)
    case (Cons l ls)
    then show ?case using apply_gmail_label_keeps [of e f a b l] by (auto simp: same_email_def)
  qed (simp add: same_email_def)
  then show "em_id (apply_labels f a add remove e) = em_id e"
    "em_account_id (apply_labels f a add remove e) = em_account_id e"
    "distinct (mailbox_ids e) \<Longrightarrow> distinct (mailbox_ids (apply_labels f a add remove e))"
    by (simp_all add: apply_labels_def same_email_def)
qed

lemma archived_keeps:
  assumes "archived f a e = Some e'"
  shows "em_id e' = em_id e" "em_account_id e' = em_account_id e" "em_keywords e' = em_keywords e"
    "distinct (mailbox_ids e) \<Longrightarrow> filed e'"
  using assms by (auto simp: archived_def filed_def split: if_splits)

lemma is_email_iff: "mail_ok f \<Longrightarrow> e \<in> set (emails f) \<Longrightarrow> x \<in> set (emails f) \<Longrightarrow>
  is_email (em_account_id e) (em_id e) x \<longleftrightarrow> em_id x = em_id e"
  using same_id [OF mail_okD(1)] by (auto simp: is_email_def)

lemma find_is_email:
  assumes "find (is_email a i) (emails f) = Some e"
  shows "e \<in> set (emails f)" "em_account_id e = a" "em_id e = i"
  using assms by (auto simp: find_Some_iff is_email_def)

lemma relabel_edits:
  assumes "mail_ok f" and "relabel a i add remove f = (False, d, f1)"
    and "find (is_email a i) (emails f) = Some e"
  shows "\<exists>n e'. edits n e' f f1 \<and> emails f ! n = e \<and> archived f a (apply_labels f a add remove e) = Some e' \<and>
    d = diff_default\<lparr>email_updated := [i], email_label_changes :=
      (case gmail_label_change i (gmail_label_ids f e) (gmail_label_ids f1 e') of Some c \<Rightarrow> [c] | None \<Rightarrow> [])\<rparr>"
proof -
  note e = find_is_email [OF assms(3)]
  from assms(2,3) obtain e' where e': "archived f a (apply_labels f a add remove e) = Some e'"
    by (auto simp: relabel_def split: option.splits)
  obtain n where n: "n < length (emails f)" "emails f ! n = e"
    "update_first (is_email a i) (\<lambda>_. e') (emails f) = (emails f)[n := e']"
    using update_first_at [OF assms(3), of "\<lambda>_. e'"] by blast
  note keep = archived_keeps [OF e', unfolded apply_labels_keep]
  have "filed e'" using keep(4) apply_labels_keep(3) mail_okD(2) [OF assms(1) e(1)] by (simp add: filed_def)
  from sync_edits [OF assms(1) n(1) this] keep(1,2) e n(2)
  have "edits n e' f (sync_mailbox_uids i (mailbox_ids e) (mailbox_ids e') (f\<lparr>emails := (emails f)[n := e']\<rparr>))"
    by simp
  moreover have "f1 = sync_mailbox_uids i (mailbox_ids e) (mailbox_ids e') (f\<lparr>emails := (emails f)[n := e']\<rparr>)"
    "d = diff_default\<lparr>email_updated := [i], email_label_changes :=
      (case gmail_label_change i (gmail_label_ids f e) (gmail_label_ids f1 e') of Some c \<Rightarrow> [c] | None \<Rightarrow> [])\<rparr>"
    using assms(2,3) e' n(3) by (auto simp: relabel_def Let_def)
  ultimately show ?thesis using n(2) e' by blast
qed

context mail_contract
begin

text \<open>What a recorded mutation of Gmail leaves, from a fixture with nothing recorded yet.\<close>

definition recorded_write :: "fixture \<Rightarrow> fixture \<Rightarrow> bool" where
  "recorded_write f f' \<longleftrightarrow> (\<exists>d f1. P d f1 \<and> f' = snd (record_transition d f1))"

lemma relabelled:
  assumes "P diff_default f" and "relabel a i add remove f = (r, d, f1)"
  shows "P d f1"
proof (cases "find (is_email a i) (emails f)")
  case None
  then show ?thesis using assms by (simp add: relabel_def)
next
  case (Some e)
  show ?thesis
  proof (cases r)
    case True
    then show ?thesis using assms Some by (auto simp: relabel_def Let_def split: option.splits)
  next
    case False
    with relabel_edits [OF ok [OF assms(1)] _ Some] assms(2) obtain n e' where
      step: "edits n e' f f1" and "emails f ! n = e"
      and d: "mail_diff d = ([], [i], [], [])" by (fastforce simp: mail_diff_def diff_default_def)
    then have "em_id e' = i" using find_is_email(3) [OF Some] by (simp add: edits_def)
    then have "mail_diff (diff_edit e' diff_default) = ([], [i], [], [])"
      by (simp add: diff_edit_def mail_diff_def diff_default_def)
    then have "mail_diff (diff_edit e' diff_default) = mail_diff d" by (simp only: d)
    then show ?thesis using rest [OF edit [OF assms(1) step]] by blast
  qed
qed

lemma modified:
  assumes "P diff_default f"
  shows "snd (modify_one a add remove i f) = f \<or> recorded_write f (snd (modify_one a add remove i f))"
proof -
  obtain r d f1 where run: "relabel a i add remove f = (r, d, f1)" by (cases "relabel a i add remove f")
  show ?thesis
    using relabelled [OF assms run] run
    by (auto simp: modify_one_def mutate_def recorded_write_def split: option.splits)
qed

lemma deleted:
  assumes "P diff_default f"
  shows "delete_one a i f = f \<or> recorded_write f (delete_one a i f)"
proof (cases "find (is_email a i) (emails f)")
  case (Some e)
  note e = find_is_email [OF Some]
  have "filter (\<lambda>x. \<not> is_email a i x) (emails f) = filter (\<lambda>x. em_id x \<noteq> i) (emails f)"
    using is_email_iff [OF ok [OF assms] e(1)] e(2,3) by (intro filter_cong) simp_all
  with remove [OF assms retire_removes_one [OF ok [OF assms] e(1)]] e
  have "P (diff_remove [(i, em_account_id e)] diff_default)
      (fold (\<lambda>mb. retire_uid mb i) (mailbox_ids e) (f\<lparr>emails := filter (\<lambda>e. \<not> is_email a i e) (emails f)\<rparr>))"
    by (simp add: diff_default_def)
  moreover have "diff_remove [(i, em_account_id e)] diff_default =
      diff_default\<lparr>email_destroyed := [i], email_destroyed_accounts := [em_account_id e]\<rparr>"
    by (simp add: diff_remove_def diff_default_def)
  ultimately show ?thesis using Some by (auto simp: delete_one_def mutate_def recorded_write_def)
qed (simp add: delete_one_def)

lemma delivered:
  assumes "P diff_default f"
  shows "recorded_write f (snd (deliver_sent_message env a mb raw t f))"
proof -
  let ?i = "mock_email_id (Suc (synthetic_email_seq f))"
  let ?e = "sent_email env a mb raw ?i t (latest_received env f)"
  have e: "em_id ?e = ?i" "mailbox_ids ?e = [mb]" "filed ?e" by (simp_all add: sent_email_def Let_def filed_def)
  have "P (diff_add ?e diff_default) (snd (assign_uid mb ?i
      (f\<lparr>synthetic_email_seq := Suc (synthetic_email_seq f), emails := emails f @ [?e]\<rparr>)))"
    using add [OF assms assign_adds [OF e(3,1)]] e by simp
  moreover have "diff_add ?e diff_default = diff_default\<lparr>email_created := [?i]\<rparr>"
    by (simp add: diff_add_def diff_default_def e)
  moreover have "mint_email_id f = (?i, f\<lparr>synthetic_email_seq := Suc (synthetic_email_seq f)\<rparr>)"
    by (simp add: mint_email_id_def mock_email_id_def)
  ultimately show ?thesis
    by (auto simp: deliver_sent_message_def mutate_def recorded_write_def Let_def)
qed

lemma unmailed_write:
  assumes "P diff_default f" and "mail_state f1 = mail_state f" and "mail_diff d = ([], [], [], [])"
  shows "recorded_write f (snd (record_transition d f1))"
  using rest [OF assms(1), of f1 d] assms(2,3)
  by (auto simp: recorded_write_def mail_diff_def diff_default_def)

lemma label_writes:
  assumes "P diff_default f"
  shows "snd (create_label a v f) = f \<or> recorded_write f (snd (create_label a v f))"
    "snd (patch_label a i v f) = f \<or> recorded_write f (snd (patch_label a i v f))"
    "snd (delete_label a i f) = f \<or> recorded_write f (snd (delete_label a i f))"
proof -
  have color [simp]: "mail_state (set_label_color i c f) = mail_state f" for i c f
    by (simp add: set_label_color_def mail_state_def split: option.split)
  have [simp]: "mail_state (f\<lparr>mailboxes := ms\<rparr>) = mail_state f" for f ms by (simp add: mail_state_def)
  have [simp]: "mail_state (patched_color v i f) = mail_state f" for v i f
    by (simp add: patched_color_def split: option.split)
  note [simp] = mail_diff_def diff_default_def mutate_def
  show "snd (create_label a v f) = f \<or> recorded_write f (snd (create_label a v f))"
    by (auto simp: create_label_def Let_def split: option.splits list.splits intro!: unmailed_write assms)
  show "snd (delete_label a i f) = f \<or> recorded_write f (snd (delete_label a i f))"
    by (auto simp: delete_label_def split: option.splits intro!: unmailed_write assms)
  show "snd (patch_label a i v f) = f \<or> recorded_write f (snd (patch_label a i v f))"
    by (auto simp: patch_label_def Let_def split: option.splits intro!: unmailed_write assms)
qed

end

subsection \<open>Requests\<close>

context mail_invariant
begin

lemma recorded_ok: "recorded_write f f' \<Longrightarrow> inv f'"
  using recorded by (auto simp: recorded_write_def)

lemma modify_one_ok: "inv f \<Longrightarrow> inv (snd (modify_one a add remove i f))"
  using modified recorded_ok by metis

lemma modify_each_ok: "inv f \<Longrightarrow> inv (snd (modify_each a add remove is f))"
proof (induction "is" arbitrary: f)
  case (Cons i "is")
  obtain out f1 where step: "modify_one a add remove i f = (out, f1)" by (cases "modify_one a add remove i f")
  then have "inv f1" using modify_one_ok [OF Cons.prems, of a add remove i] by simp
  then show ?case using step Cons.IH by (cases out) simp_all
qed simp

lemma apply_patch_ok: "inv f \<Longrightarrow> inv (snd (apply_patch_to_ids a is add remove f))"
  using modify_each_ok by (simp add: apply_patch_to_ids_def split: option.split)

lemma delete_all_ok: "inv f \<Longrightarrow> inv (fold (delete_one a) is f)"
proof (induction "is" arbitrary: f)
  case (Cons i "is")
  have "inv (delete_one a i f)" using deleted [OF Cons.prems] recorded_ok Cons.prems by metis
  then show ?case using Cons.IH by simp
qed simp

lemma send_as_ok: "inv f \<Longrightarrow> inv (f\<lparr>send_as_list := ss\<rparr>)"
  using rest [of f "f\<lparr>send_as_list := ss\<rparr>" diff_default diff_default] by (simp add: mail_state_def)

lemma writes_ok:
  assumes "inv f"
  shows "inv (snd (create_label a v f))" "inv (snd (patch_label a i v f))" "inv (snd (delete_label a i f))"
    "inv (snd (modify_message env a i v f))" "inv (snd (modify_thread env a i v f))"
    "inv (snd (batch_modify a v f))" "inv (snd (delete_thread a i f))" "inv (snd (batch_delete a v f))"
    "inv (snd (gmail_send_message env a v f))" "inv (snd (patch_send_as env a i b f))"
proof -
  show "inv (snd (create_label a v f))" using label_writes(1) [OF assms] recorded_ok assms by metis
  show "inv (snd (patch_label a i v f))" using label_writes(2) [OF assms] recorded_ok assms by metis
  show "inv (snd (delete_label a i f))" using label_writes(3) [OF assms] recorded_ok assms by metis
  show "inv (snd (modify_message env a i v f))"
    using modify_one_ok [OF assms, of a "json_strings v ''addLabelIds''" "json_strings v ''removeLabelIds''" i]
    by (auto simp: modify_message_def split: prod.splits modify_outcome.splits)
  show "inv (snd (modify_thread env a i v f))"
    using apply_patch_ok [OF assms, of a "thread_message_ids f a i" "json_strings v ''addLabelIds''" "json_strings v ''removeLabelIds''"] assms
    by (auto simp: modify_thread_def Let_def split: prod.splits option.splits)
  show "inv (snd (batch_modify a v f))"
    using apply_patch_ok [OF assms, of a "json_strings v ''ids''" "json_strings v ''addLabelIds''" "json_strings v ''removeLabelIds''"]
    by (auto simp: batch_modify_def split: prod.splits option.splits)
  show "inv (snd (delete_thread a i f))" "inv (snd (batch_delete a v f))"
    using delete_all_ok [OF assms] assms by (simp_all add: delete_thread_def batch_delete_def Let_def)
  have "inv (snd (deliver_sent_message env a mb raw t f))" for mb raw t
    using delivered [OF assms] by (rule recorded_ok)
  then show "inv (snd (gmail_send_message env a v f))"
    using assms by (auto simp: gmail_send_message_def Let_def case_prod_beta split: option.split)
  show "inv (snd (patch_send_as env a i b f))"
    using assms by (auto simp: patch_send_as_def gmail_overridden_def send_as_ok split: option.split sum.split)
qed

lemma with_json_ok: "inv f \<Longrightarrow> (\<And>v. inv (snd (k v))) \<Longrightarrow> inv (snd (with_json env r f k))"
  by (simp add: with_json_def split: sum.split)

lemma methods_ok:
  assumes "inv f" and "gmail_methods env r a f = Some ms" and "(m, x) \<in> set ms"
  shows "inv (snd x)"
  using assms(2,3) writes_ok [OF assms(1)] with_json_ok [OF assms(1)] assms(1)
  unfolding gmail_methods_def Let_def
  by (auto split: list.splits if_splits)

lemma gmail_keeps:
  assumes "inv (gs_fixture s)" and "gmail_handle env r s = (reply, s')"
  shows "inv (gs_fixture s')"
proof (cases "check_bearer (gs_fixture s) (gs_tokens s) (gr_headers r)")
  case Allow
  have route: "inv (snd (gmail_route env r a (gs_fixture s)))" for a
    using methods_ok [OF assms(1), of env r a] assms(1)
    by (auto simp: gmail_route_def split: option.split dest: map_of_SomeD)
  have "inv (gs_fixture (snd (gmail_handle env r s)))"
    using route [of "bearer_account s (gr_headers r)"] assms(1)
    by (auto simp: gmail_handle_def Allow Let_def watch_def stop_watch_def split: sum.split)
  then show ?thesis using assms(2) by simp
qed (use assms in \<open>auto simp: gmail_handle_def\<close>)

end

text \<open>
  C15. Every Gmail request keeps the mail invariant: after any request, whatever its bearer, path, method and
  body, the email ids are unique and never to be minted again, every email is in at least one mailbox and listed there once
  and has exactly one live IMAP UID in each of its mailboxes and none elsewhere, and the change logs are
  well-formed.
\<close>

theorem gmail_request_keeps_mail:
  assumes "store_ok (gs_fixture s)" and "gmail_handle env r s = (reply, s')"
  shows "store_ok (gs_fixture s') \<and> list_all (\<lambda>e. mailbox_ids e \<noteq> []) (emails (gs_fixture s'))"
proof -
  have "store_ok (gs_fixture s')" by (rule kept_ok.gmail_keeps [OF assms])
  then show ?thesis
    using mail_okD(2) by (auto simp: store_ok_def list_all_iff filed_def)
qed

definition sample_gmail :: fixture where
  "sample_gmail = empty_fixture\<lparr>
     accounts := [\<lparr>ac_id = ''a'', ac_name = ''alice'', is_personal = True, primary = True\<rparr>],
     mailboxes := [\<lparr>mb_id = ''in'', mb_account_id = ''a'', mb_name = ''Inbox'', mb_role = Some Inbox,
         mb_parent_id = None, sort_order = None, is_subscribed = True\<rparr>,
       \<lparr>mb_id = ''sent'', mb_account_id = ''a'', mb_name = ''Sent'', mb_role = Some Sent,
         mb_parent_id = None, sort_order = None, is_subscribed = True\<rparr>,
       \<lparr>mb_id = ''work'', mb_account_id = ''a'', mb_name = ''Work'', mb_role = None,
         mb_parent_id = None, sort_order = None, is_subscribed = True\<rparr>],
     emails := [sample_email\<lparr>mailbox_ids := [''in'']\<rparr>],
     mailbox_uid_history := [(''in'', [Some ''e1''])]\<rparr>"

lemma sample_gmail_ok: "store_ok sample_gmail"
proof -
  have "held sample_gmail mb i = (if lies_in sample_gmail mb i then 1 else 0)" for mb i
    by (simp add: held_def uid_history_def slots_of_def lies_in_def sample_gmail_def sample_email_def)
  then have "mail_ok sample_gmail"
    by (simp add: mail_ok_def filed_def email_ids_def mock_email_id_def sample_gmail_def sample_email_def)
  moreover have "wf_store sample_gmail" by (simp add: wf_store_def sample_gmail_def empty_fixture_def)
  ultimately show ?thesis by (simp add: store_ok_def)
qed

definition sample_gmail_env :: gmail_env where
  "sample_gmail_env = \<lparr>gm_render = sample_env, gm_mail_parser = (\<lambda>_. None), gm_override = (\<lambda>_ _. None),
     gm_parse_json = (\<lambda>_. Inr JNull), gm_civil = digit_civil, gm_epoch = 0\<rparr>"

definition sample_deletion :: gmail_request where
  "sample_deletion = \<lparr>gr_method = ''DELETE'', gr_path = [''threads'', ''t1''], gr_query = None, gr_headers = [],
     gr_json = None, gr_body = []\<rparr>"

definition sample_gmail_state :: gmail_state where
  "sample_gmail_state = \<lparr>gs_fixture = sample_gmail, gs_tokens = token_store_new, gs_watches = []\<rparr>"

theorem gmail_request_keeps_mail_witness:
  "let (reply, s') = gmail_handle sample_gmail_env sample_deletion sample_gmail_state
   in reply = no_content \<and> store_ok (gs_fixture s') \<and> emails (gs_fixture s') = []"
proof -
  obtain reply s' where run: "gmail_handle sample_gmail_env sample_deletion sample_gmail_state = (reply, s')"
    by fastforce
  have "check_bearer sample_gmail token_store_new [] = Allow"
    by (simp add: check_bearer_def sample_gmail_def empty_fixture_def oauth_config_default_def)
  moreover have "bearer_account sample_gmail_state [] = ''a''"
    by (simp add: bearer_account_def account_from_bearer_def bearer_token_def header_str_def
        primary_account_def sample_gmail_state_def sample_gmail_def)
  moreover have "thread_message_ids sample_gmail ''a'' ''t1'' = [''e1'']"
    by (simp add: thread_message_ids_def thread_messages_def by_received_def emails_for_def sample_gmail_def sample_email_def)
  moreover have "emails (delete_one ''a'' ''e1'' sample_gmail) = []"
    by (simp add: delete_one_def sample_gmail_def is_email_def sample_email_def mutate_def) (subst record_transition_frame, simp add: is_email_def)
  ultimately have "reply = no_content" "emails (gs_fixture s') = []"
    using run by (auto simp: gmail_handle_def sample_deletion_def sample_gmail_state_def Let_def gmail_route_def
        gmail_methods_def delete_thread_def)
  then show ?thesis
    using gmail_request_keeps_mail [OF _ run] sample_gmail_ok unfolding run by (simp add: sample_gmail_state_def)
qed

end
