(* ===== verification/Gmail_Props.thy ===== *)
theory Gmail_Props
  imports Gmail_Sync
begin

text \<open>
  What a Gmail client sees of its writes: the labels after a patch and the history record that reports them,
  the pages of a listing, and a message it sends and fetches again.
\<close>

subsection \<open>Labels as a set\<close>

definition role_of_label :: "string \<Rightarrow> role option" where
  "role_of_label l =
     (if l = ''INBOX'' then Some Inbox else if l = ''SENT'' then Some Sent else if l = ''TRASH'' then Some Trash
      else if l = ''SPAM'' then Some Junk else if l = ''IMPORTANT'' then Some Important else None)"

text \<open>
  The labels a patch can switch exactly: the flags, the roles the account has one mailbox for, and user
  labels. \<open>DRAFT\<close> is not among them where the account has a drafts mailbox.
\<close>

definition is_roleless :: "fixture \<Rightarrow> string \<Rightarrow> string \<Rightarrow> bool" where
  "is_roleless f a x \<longleftrightarrow> list_ex (\<lambda>m. mb_id m = x \<and> mb_role m = None) (mailboxes_for f a)"

definition settable :: "fixture \<Rightarrow> string \<Rightarrow> string \<Rightarrow> bool" where
  "settable f a l \<longleftrightarrow>
     (if l = ''UNREAD'' \<or> l = ''STARRED'' then True
      else if l = ''DRAFT'' then \<not> list_ex (\<lambda>m. mb_role m = Some Drafts) (mailboxes_for f a)
      else case role_of_label l of
        Some r \<Rightarrow> length (filter (\<lambda>m. mb_role m = Some r) (mailboxes_for f a)) = 1
      | None \<Rightarrow> (case strip_prefix ''Label_'' l of Some x \<Rightarrow> is_roleless f a x \<or> \<not> prefix ''$'' x | None \<Rightarrow> False))"

text \<open>
  An email whose mailboxes are its account's, and none of whose keywords is the id of a label mailbox, in an
  account where no mailbox id looks like a system keyword.
\<close>

definition at_home :: "fixture \<Rightarrow> string \<Rightarrow> email \<Rightarrow> bool" where
  "at_home f a e \<longleftrightarrow> list_all (\<lambda>i. list_ex (\<lambda>m. mb_id m = i) (mailboxes_for f a)) (mailbox_ids e) \<and>
     list_all (\<lambda>k. \<not> is_roleless f a k) (em_keywords e) \<and> list_all (\<lambda>m. \<not> prefix ''$'' (mb_id m)) (mailboxes_for f a)"

definition box_labels :: "fixture \<Rightarrow> string set \<Rightarrow> string set" where
  "box_labels f is = (\<Union>m \<in> {m \<in> set (mailboxes f). mb_id m \<in> is}. set (role_label m))"

definition user_labels :: "string set \<Rightarrow> string set" where
  "user_labels ks = (\<lambda>k. ''Label_'' @ k) ` {k \<in> ks. \<not> prefix ''$'' k}"

definition flag_labels :: "string set \<Rightarrow> string set" where
  "flag_labels ks = (if ''$seen'' \<in> ks then {} else {''UNREAD''}) \<union> (if ''$flagged'' \<in> ks then {''STARRED''} else {}) \<union>
     (if ''$draft'' \<in> ks then {''DRAFT''} else {}) \<union> user_labels ks"

declare role_label.simps [simp del]

lemma label_ids_sets:
  assumes "distinct (map mb_id (mailboxes f))"
  shows "set (gmail_label_ids f e) = box_labels f (set (mailbox_ids e)) \<union> flag_labels (set (em_keywords e))"
proof -
  have found: "set (case collect_map mb_id (\<lambda>m. m) (mailboxes f) i of None \<Rightarrow> [] | Some m \<Rightarrow> role_label m) =
      box_labels f {i}" for i
  proof (cases "collect_map mb_id (\<lambda>m. m) (mailboxes f) i")
    case None
    then have "{m \<in> set (mailboxes f). mb_id m \<in> {i}} = {}" by (auto simp: collect_map_None)
    then show ?thesis using None by (simp only: box_labels_def) simp
  next
    case (Some m)
    with collect_map_Some [OF Some] have m: "m \<in> set (mailboxes f)" "mb_id m = i" by auto
    then have "x = m" if "x \<in> set (mailboxes f)" "mb_id x = i" for x
      using assms that by (auto simp: distinct_map inj_on_def)
    with m have "{m \<in> set (mailboxes f). mb_id m \<in> {i}} = {m}" by blast
    then show ?thesis using Some by (simp only: box_labels_def) simp
  qed
  have "(\<Union>i \<in> is. box_labels f {i}) = box_labels f is" for "is" by (auto simp: box_labels_def)
  then show ?thesis
    unfolding gmail_label_ids_def Let_def set_sort_dedup set_append set_concat set_map image_image found
    by (auto simp: flag_labels_def user_labels_def)
qed

lemma toggled_sets:
  "set (em_keywords (toggle_keyword k b e)) = (if b then insert k (set (em_keywords e)) else set (em_keywords e) - {k})"
  "mailbox_ids (toggle_keyword k b e) = mailbox_ids e"
  "set (mailbox_ids (toggle_membership i b e)) = (if b then insert i (set (mailbox_ids e)) else set (mailbox_ids e) - {i})"
  "em_keywords (toggle_membership i b e) = em_keywords e"
  by (auto simp: toggle_keyword_def toggle_membership_def Let_def)

lemma user_labels_change:
  "prefix ''$'' k \<Longrightarrow> user_labels (insert k ks) = user_labels ks"
  "prefix ''$'' k \<Longrightarrow> user_labels (ks - {k}) = user_labels ks"
  "\<not> prefix ''$'' k \<Longrightarrow> user_labels (insert k ks) = insert (''Label_'' @ k) (user_labels ks)"
  "\<not> prefix ''$'' k \<Longrightarrow> user_labels (ks - {k}) = user_labels ks - {''Label_'' @ k}"
proof -
  have inj: "inj (\<lambda>k. ''Label_'' @ k)" by (rule injI) simp
  show "prefix ''$'' k \<Longrightarrow> user_labels (insert k ks) = user_labels ks"
    "prefix ''$'' k \<Longrightarrow> user_labels (ks - {k}) = user_labels ks"
    unfolding user_labels_def by (rule arg_cong [of _ _ "image _"], blast)+
  assume k: "\<not> prefix ''$'' k"
  then have "{x \<in> insert k ks. \<not> prefix ''$'' x} = insert k {x \<in> ks. \<not> prefix ''$'' x}"
    "{x \<in> ks - {k}. \<not> prefix ''$'' x} = {x \<in> ks. \<not> prefix ''$'' x} - {k}" by blast+
  then show "user_labels (insert k ks) = insert (''Label_'' @ k) (user_labels ks)"
    "user_labels (ks - {k}) = user_labels ks - {''Label_'' @ k}"
    unfolding user_labels_def by (simp_all only: image_insert image_set_diff [OF inj] image_empty)
qed

lemma not_user_label: "''UNREAD'' \<notin> user_labels ks" "''STARRED'' \<notin> user_labels ks" "''DRAFT'' \<notin> user_labels ks"
  by (auto simp: user_labels_def)

lemma flag_labels_change:
  "flag_labels (insert ''$seen'' ks) = flag_labels ks - {''UNREAD''}"
  "flag_labels (ks - {''$seen''}) = insert ''UNREAD'' (flag_labels ks)"
  "flag_labels (insert ''$flagged'' ks) = insert ''STARRED'' (flag_labels ks)"
  "flag_labels (ks - {''$flagged''}) = flag_labels ks - {''STARRED''}"
  "flag_labels (insert ''$draft'' ks) = insert ''DRAFT'' (flag_labels ks)"
  "flag_labels (ks - {''$draft''}) = flag_labels ks - {''DRAFT''}"
  using not_user_label by (simp_all add: flag_labels_def user_labels_change Un_Diff insert_commute)

lemma flag_labels_keyword:
  assumes "\<not> prefix ''$'' x"
  shows "flag_labels (insert x ks) = insert (''Label_'' @ x) (flag_labels ks)"
    "flag_labels (ks - {x}) = flag_labels ks - {''Label_'' @ x}"
proof -
  have "x \<noteq> ''$seen''" "x \<noteq> ''$flagged''" "x \<noteq> ''$draft''" using assms by auto
  then show "flag_labels (insert x ks) = insert (''Label_'' @ x) (flag_labels ks)"
    "flag_labels (ks - {x}) = flag_labels ks - {''Label_'' @ x}"
    using assms by (simp_all add: flag_labels_def user_labels_change Un_Diff insert_commute)
qed

lemma role_label_cases:
  assumes "l \<in> set (role_label m)"
  shows "mb_role m = None \<and> l = ''Label_'' @ mb_id m \<or> mb_role m = Some Drafts \<and> l = ''DRAFT'' \<or>
    role_of_label l \<noteq> None \<and> mb_role m = role_of_label l"
  using assms by (cases "mb_role m"; cases "the (mb_role m)") (simp_all add: role_label.simps role_of_label_def)

lemma role_label_of_role:
  "role_of_label l = Some r \<Longrightarrow> mb_role m = Some r \<Longrightarrow> role_label m = [l]"
  by (auto simp: role_of_label_def role_label.simps split: if_splits)

lemma role_of_label_none: "role_of_label (''Label_'' @ x) = None" "role_of_label ''UNREAD'' = None"
  "role_of_label ''STARRED'' = None" "role_of_label ''DRAFT'' = None"
  by (simp_all add: role_of_label_def)

lemma box_labels_change:
  assumes "distinct (map mb_id (mailboxes f))" and "m \<in> set (mailboxes f)" and "role_label m = [l]"
  shows "box_labels f (insert (mb_id m) is) = insert l (box_labels f is)"
    and "(\<And>x. x \<in> set (mailboxes f) \<Longrightarrow> mb_id x \<in> is \<Longrightarrow> l \<in> set (role_label x) \<Longrightarrow> x = m) \<Longrightarrow>
      box_labels f (is - {mb_id m}) = box_labels f is - {l}"
proof -
  have same: "x = m" if "x \<in> set (mailboxes f)" "mb_id x = mb_id m" for x
    using assms(1,2) that by (auto simp: distinct_map inj_on_def)
  then have "{x \<in> set (mailboxes f). mb_id x \<in> insert (mb_id m) is} = insert m {x \<in> set (mailboxes f). mb_id x \<in> is}"
    using assms(2) by blast
  then show "box_labels f (insert (mb_id m) is) = insert l (box_labels f is)"
    by (simp add: box_labels_def assms(3))
  assume "\<And>x. x \<in> set (mailboxes f) \<Longrightarrow> mb_id x \<in> is \<Longrightarrow> l \<in> set (role_label x) \<Longrightarrow> x = m"
  then have only: "x = m" if "x \<in> set (mailboxes f)" "mb_id x \<in> is" "l \<in> set (role_label x)" for x using that by blast
  have l: "set (role_label m) = {l}" by (simp add: assms(3))
  show "box_labels f (is - {mb_id m}) = box_labels f is - {l}"
    unfolding box_labels_def using same only l by blast
qed

lemma at_home_member:
  assumes "distinct (map mb_id (mailboxes f))" and "at_home f a e" and "x \<in> set (mailboxes f)"
    and "mb_id x \<in> set (mailbox_ids e)"
  shows "x \<in> set (mailboxes_for f a)"
proof -
  from assms(2,4) obtain y where y: "y \<in> set (mailboxes_for f a)" "mb_id y = mb_id x"
    by (auto simp: at_home_def list_all_iff list_ex_iff)
  then have "y = x" using assms(1,3) by (auto simp: mailboxes_for_def distinct_map inj_on_def)
  with y show ?thesis by simp
qed

lemma toggle_membership_labels:
  assumes "distinct (map mb_id (mailboxes f))" and "at_home f a e" and "m \<in> set (mailboxes_for f a)"
    and "role_label m = [l]" and "l \<notin> flag_labels (set (em_keywords e))"
    and "\<And>x. x \<in> set (mailboxes_for f a) \<Longrightarrow> l \<in> set (role_label x) \<Longrightarrow> x = m"
  shows "at_home f a (toggle_membership (mb_id m) b e) \<and>
    set (gmail_label_ids f (toggle_membership (mb_id m) b e)) =
      (if b then insert l (set (gmail_label_ids f e)) else set (gmail_label_ids f e) - {l})"
proof -
  have m: "m \<in> set (mailboxes f)" using assms(3) by (simp add: mailboxes_for_def)
  have "at_home f a (toggle_membership (mb_id m) b e)"
    using assms(2,3) by (auto simp: at_home_def list_all_iff list_ex_iff toggled_sets)
  moreover have "x = m" if "x \<in> set (mailboxes f)" "mb_id x \<in> set (mailbox_ids e)" "l \<in> set (role_label x)" for x
    using at_home_member [OF assms(1,2) that(1,2)] assms(6) that(3) by blast
  ultimately show ?thesis
    using box_labels_change [OF assms(1) m assms(4)] assms(5)
    by (simp add: label_ids_sets [OF assms(1)] toggled_sets) blast
qed

lemma toggle_keyword_labels:
  assumes "distinct (map mb_id (mailboxes f))" and "at_home f a e" and "\<not> is_roleless f a k"
    and "l \<notin> box_labels f (set (mailbox_ids e))"
    and "flag_labels (if p then insert k (set (em_keywords e)) else set (em_keywords e) - {k}) =
      (if b then insert l (flag_labels (set (em_keywords e))) else flag_labels (set (em_keywords e)) - {l})"
  shows "at_home f a (toggle_keyword k p e) \<and> set (gmail_label_ids f (toggle_keyword k p e)) =
      (if b then insert l (set (gmail_label_ids f e)) else set (gmail_label_ids f e) - {l})"
proof -
  have "at_home f a (toggle_keyword k p e)"
    using assms(2,3) by (auto simp: at_home_def list_all_iff toggled_sets)
  then show ?thesis
    using assms(4,5) by (simp add: label_ids_sets [OF assms(1)] toggled_sets Un_Diff)
qed

lemma not_box_label:
  assumes "distinct (map mb_id (mailboxes f))" and "at_home f a e" and "role_of_label l = None"
    and "\<And>m. m \<in> set (mailboxes_for f a) \<Longrightarrow> mb_role m = None \<Longrightarrow> l \<noteq> ''Label_'' @ mb_id m"
    and "\<And>m. m \<in> set (mailboxes_for f a) \<Longrightarrow> mb_role m = Some Drafts \<Longrightarrow> l \<noteq> ''DRAFT''"
  shows "l \<notin> box_labels f (set (mailbox_ids e))"
proof
  assume "l \<in> box_labels f (set (mailbox_ids e))"
  then obtain m where m: "m \<in> set (mailboxes f)" "mb_id m \<in> set (mailbox_ids e)" "l \<in> set (role_label m)"
    unfolding box_labels_def by blast
  note home = at_home_member [OF assms(1,2) m(1,2)]
  from role_label_cases [OF m(3)] show False
  proof (elim disjE conjE)
    assume "mb_role m = None" "l = ''Label_'' @ mb_id m"
    then show False using notE [OF assms(4) [OF home]] by iprover
  next
    assume "mb_role m = Some Drafts" "l = ''DRAFT''"
    then show False using notE [OF assms(5) [OF home]] by iprover
  next
    assume "role_of_label l \<noteq> None"
    with assms(3) show False by (simp only: simp_thms)
  qed
qed

lemma system_keyword_apart: "at_home f a e \<Longrightarrow> prefix ''$'' k \<Longrightarrow> \<not> is_roleless f a k"
  unfolding at_home_def is_roleless_def list_all_iff list_ex_iff by blast

lemma role_not_flag:
  assumes "role_of_label l = Some r"
  shows "l \<notin> flag_labels ks"
proof
  assume "l \<in> flag_labels ks"
  then have "l \<in> {''UNREAD'', ''STARRED'', ''DRAFT''} \<or> l \<in> user_labels ks"
    unfolding flag_labels_def by (simp only: Un_iff if_distrib [of "\<lambda>s. l \<in> s"] insert_iff empty_iff split: if_splits; iprover)
  moreover have "role_of_label l = None" if "l \<in> {''UNREAD'', ''STARRED'', ''DRAFT''}"
    using that by (elim insertE emptyE) (simp_all only: role_of_label_none)
  moreover have "role_of_label l = None" if "l \<in> user_labels ks"
    using that unfolding user_labels_def by (elim imageE) (simp only: role_of_label_none)
  ultimately have "role_of_label l = None" by iprover
  with assms show False by simp
qed

lemma role_label_only:
  assumes "role_of_label l = Some r" and "l \<in> set (role_label m)"
  shows "mb_role m = Some r"
  using role_label_cases [OF assms(2)]
proof (elim disjE conjE)
  assume "l = ''Label_'' @ mb_id m"
  then have "role_of_label l = None" by (simp only: role_of_label_none)
  with assms(1) show ?thesis by simp
next
  assume "l = ''DRAFT''"
  then have "role_of_label l = None" by (simp only: role_of_label_none)
  with assms(1) show ?thesis by simp
qed (simp add: assms(1))

lemma role_label_step:
  assumes "distinct (map mb_id (mailboxes f))" and "at_home f a e" and "role_of_label l = Some r"
    and "length (filter (\<lambda>m. mb_role m = Some r) (mailboxes_for f a)) = 1"
  shows "at_home f a (toggle_role_membership f a r b e) \<and>
    set (gmail_label_ids f (toggle_role_membership f a r b e)) =
      (if b then insert l (set (gmail_label_ids f e)) else set (gmail_label_ids f e) - {l})"
proof -
  from assms(4) obtain m where only: "filter (\<lambda>m. mb_role m = Some r) (mailboxes_for f a) = [m]"
    by (auto simp: length_Suc_conv)
  then have "m \<in> set (filter (\<lambda>m. mb_role m = Some r) (mailboxes_for f a))" by (simp only: list.set insertI1)
  then have m: "m \<in> set (mailboxes_for f a)" "mb_role m = Some r" by simp_all
  have unique: "x = m" if "x \<in> set (mailboxes_for f a)" "mb_role x = Some r" for x
  proof -
    have "x \<in> set (filter (\<lambda>m. mb_role m = Some r) (mailboxes_for f a))" using that by simp
    then show ?thesis unfolding only by simp
  qed
  have "find (\<lambda>m. mb_role m = Some r) (mailboxes_for f a) = Some m"
    by (rule find_only) (use m unique in blast)+
  then have toggle: "toggle_role_membership f a r b e = toggle_membership (mb_id m) b e"
    by (simp add: toggle_role_membership_def role_mailbox_def)
  have "l \<notin> flag_labels (set (em_keywords e))" using role_not_flag assms(3) by simp
  moreover have "x = m" if "x \<in> set (mailboxes_for f a)" "l \<in> set (role_label x)" for x
    using unique [OF that(1)] role_label_only [OF assms(3) that(2)] by simp
  ultimately show ?thesis
    unfolding toggle using toggle_membership_labels [OF assms(1,2) m(1) role_label_of_role [OF assms(3) m(2)]] by blast
qed

lemma settable_user:
  assumes "settable f a (''Label_'' @ x)"
  shows "is_roleless f a x \<or> \<not> prefix ''$'' x"
proof -
  have "strip_prefix ''Label_'' (''Label_'' @ x) = Some x" by (simp add: strip_prefix_Some)
  moreover have "''Label_'' @ x \<noteq> ''UNREAD''" "''Label_'' @ x \<noteq> ''STARRED''" "''Label_'' @ x \<noteq> ''DRAFT''" by simp_all
  ultimately show ?thesis
    using assms unfolding settable_def by (simp only: role_of_label_none if_False option.case simp_thms)
qed

lemma apply_label_step:
  assumes "distinct (map mb_id (mailboxes f))" and "at_home f a e" and "settable f a l"
  shows "at_home f a (apply_gmail_label f a b l e) \<and> set (gmail_label_ids f (apply_gmail_label f a b l e)) =
    (if b then insert l (set (gmail_label_ids f e)) else set (gmail_label_ids f e) - {l})"
proof -
  note keyword = toggle_keyword_labels [OF assms(1,2) system_keyword_apart [OF assms(2)]]
  note box = not_box_label [OF assms(1,2)]
  consider (unread) "l = ''UNREAD''" | (starred) "l = ''STARRED''" | (draft) "l = ''DRAFT''"
    | (role) r where "role_of_label l = Some r"
    | (user) x where "l = ''Label_'' @ x"
    using assms(3) by (auto simp: settable_def strip_prefix_Some split: if_splits option.splits)
  then show ?thesis
  proof cases
    case unread
    then show ?thesis
      using keyword [of "''$seen''" l "\<not> b" b] box [of l]
      by (simp add: apply_gmail_label_def flag_labels_change role_of_label_none)
  next
    case starred
    then show ?thesis
      using keyword [of "''$flagged''" l b b] box [of l]
      by (simp add: apply_gmail_label_def flag_labels_change role_of_label_none)
  next
    case draft
    then have "\<not> list_ex (\<lambda>m. mb_role m = Some Drafts) (mailboxes_for f a)" using assms(3) by (simp add: settable_def)
    with draft show ?thesis
      using keyword [of "''$draft''" l b b] box [of l]
      by (simp add: apply_gmail_label_def flag_labels_change role_of_label_none list_ex_iff)
  next
    case (role r)
    then have "apply_gmail_label f a b l e = toggle_role_membership f a r b e"
      by (auto simp: role_of_label_def apply_gmail_label_def split: if_splits)
    moreover have "length (filter (\<lambda>m. mb_role m = Some r) (mailboxes_for f a)) = 1"
      using assms(3) role role_of_label_none by (auto simp: settable_def split: if_splits)
    ultimately show ?thesis using role_label_step [OF assms(1,2) role] by simp
  next
    case (user x)
    have apply_user: "apply_gmail_label f a b l e =
        (case find (\<lambda>m. mb_id m = x \<and> mb_role m = None) (mailboxes_for f a) of
           Some m \<Rightarrow> toggle_membership (mb_id m) b e | None \<Rightarrow> toggle_keyword x b e)"
      using user by (simp add: apply_gmail_label_def)
    show ?thesis
    proof (cases "find (\<lambda>m. mb_id m = x \<and> mb_role m = None) (mailboxes_for f a)")
      case None
      then have none: "\<not> is_roleless f a x" by (auto simp: find_None_iff is_roleless_def list_ex_iff)
      have word: "\<not> prefix ''$'' x"
        using settable_user assms(3) none unfolding user by blast
      have fresh: "l \<notin> box_labels f (set (mailbox_ids e))"
      proof (rule box)
        show "role_of_label l = None" unfolding user by (rule role_of_label_none)
        show "l \<noteq> ''Label_'' @ mb_id m" if "m \<in> set (mailboxes_for f a)" "mb_role m = None" for m
          using none that user by (auto simp: is_roleless_def list_ex_iff)
        show "l \<noteq> ''DRAFT''" by (simp add: user)
      qed
      have "flag_labels (if b then insert x (set (em_keywords e)) else set (em_keywords e) - {x}) =
          (if b then insert l (flag_labels (set (em_keywords e))) else flag_labels (set (em_keywords e)) - {l})"
        using flag_labels_keyword [OF word] unfolding user by (cases b) (simp_all only: if_True if_False)
      from toggle_keyword_labels [OF assms(1,2) none fresh this] show ?thesis
        unfolding apply_user None option.case .
    next
      case (Some m)
      then have m: "m \<in> set (mailboxes_for f a)" "mb_id m = x" "mb_role m = None" by (auto simp: find_Some_iff)
      then have "is_roleless f a x" by (auto simp: is_roleless_def list_ex_iff)
      then have "x \<notin> set (em_keywords e)" using assms(2) by (auto simp: at_home_def list_all_iff)
      then have "l \<notin> flag_labels (set (em_keywords e))" by (auto simp: user flag_labels_def user_labels_def)
      moreover have "y = m" if "y \<in> set (mailboxes_for f a)" "l \<in> set (role_label y)" for y
      proof -
        have "mb_id y = mb_id m" using role_label_cases [OF that(2)] m(2) user role_of_label_none by auto
        then show ?thesis using assms(1) that(1) m(1) by (auto simp: mailboxes_for_def distinct_map inj_on_def)
      qed
      moreover have "role_label m = [l]" using m user by (simp add: role_label.simps)
      ultimately show ?thesis
        using toggle_membership_labels [OF assms(1,2) m(1), of l b] Some by (simp add: apply_user)
    qed
  qed
qed

lemma apply_labels_set:
  assumes "distinct (map mb_id (mailboxes f))" and "at_home f a e" and "list_all (settable f a) (add @ remove)"
  shows "set (gmail_label_ids f (apply_labels f a add remove e)) =
    (set (gmail_label_ids f e) \<union> set add) - set remove"
proof -
  have steps: "at_home f a (fold (apply_gmail_label f a b) ls e) \<and>
      set (gmail_label_ids f (fold (apply_gmail_label f a b) ls e)) =
        (if b then set (gmail_label_ids f e) \<union> set ls else set (gmail_label_ids f e) - set ls)"
    if "at_home f a e" "list_all (settable f a) ls" for b ls e
    using that
  proof (induction ls arbitrary: e)
    case (Cons l ls)
    then show ?case
      using apply_label_step [OF assms(1) Cons.prems(1), of l b] by (cases b) auto
  qed simp
  then show ?thesis using assms(2,3) by (simp add: apply_labels_def)
qed

subsection \<open>A patch and the record of it\<close>

text \<open>The label changes of a history record, as pairs of a message and a label.\<close>

definition reported :: "(string \<times> string list) list \<Rightarrow> (string \<times> string) set" where
  "reported xs = set (concat (map (\<lambda>(i, ls). map (Pair i) ls) xs))"

lemma reported_simps [simp]: "reported [] = {}" "reported ((i, ls) # xs) = Pair i ` set ls \<union> reported xs"
  by (simp_all add: reported_def)

lemma history_since_record:
  assumes "wf_store f1" and "\<not> diff_is_empty d" and "a \<in> named_accounts f1 d"
  shows "\<exists>x y. gmail_history_since (snd (record_transition d f1)) a (gmail_history_id f1 a) =
      Delta [history_record (gmail_history_id f1 a + 1) (transition_from_diff x y (account_part f1 a d))]
        (gmail_history_id (snd (record_transition d f1)) a)"
proof -
  let ?f = "snd (record_transition d f1)" and ?l = "log_for f1 a" and ?d = "account_part f1 a d"
  have log: "log_for ?f a = log_record ?d ?l" using log_for_record [OF assms(2)] assms(3) by simp
  have counter: "gmail_history_id g a = cl_counter (log_for g a) + 1" for g
    by (simp add: gmail_history_id_def log_for_def change_log_new_def split: option.split)
  have "wf_log ?l" using wf_store_log [OF assms(1)] by simp
  then have len: "length (transitions ?l) \<le> cl_counter ?l" by (simp add: wf_log_def Let_def)
  obtain t ts where step: "transitions (log_for ?f a) = ts @ [t]" "length ts < Suc (cl_counter ?l)"
    "\<exists>x y. t = transition_from_diff x y ?d"
  proof -
    let ?kept = "if max_transitions \<le> length (transitions ?l) then tl (transitions ?l) else transitions ?l"
    have "length ?kept < Suc (cl_counter ?l)" using len by (cases "transitions ?l") auto
    moreover have "transitions (log_for ?f a) = ?kept @ [transition_from_diff (cl_state ?l)
        (state_token (cl_seed ?l) (Suc (cl_counter ?l))) ?d]"
      by (simp only: log log_record_fields ring_push_def)
    ultimately show ?thesis using that by blast
  qed
  then obtain l where l: "map_of (account_logs ?f) a = Some l" "log_for ?f a = l"
    by (cases "map_of (account_logs ?f) a") (auto simp: log_for_def change_log_new_def)
  have cnt: "cl_counter l = Suc (cl_counter ?l)" using log unfolding l(2) by simp
  have "history_loop (cl_counter l - length (transitions l) + 1) (cl_counter ?l) (transitions l) =
      [history_record (cl_counter ?l + 2) t]"
    using step(1,2) l(2) by (simp add: history_loop_skip cnt nth_append upt_conv_Cons)
  moreover have "\<not> cl_counter ?l < cl_counter l - length (transitions l)" using step(1) l(2) cnt by simp
  ultimately have "gmail_history_since ?f a (gmail_history_id f1 a) =
      Delta [history_record (cl_counter ?l + 2) t] (cl_counter l + 1)"
    using l(1) cnt by (simp add: gmail_history_since_def counter Let_def)
  then show ?thesis using step(3) l(2) by (auto simp: counter)
qed

lemma label_ids_mailboxes: "mailboxes f = mailboxes f' \<Longrightarrow> gmail_label_ids f e = gmail_label_ids f' e"
  by (simp add: gmail_label_ids_def)

lemma find_in_filter: "find P (filter Q xs) = find (\<lambda>x. Q x \<and> P x) xs"
  by (induction xs) auto

lemma email_of_find: "email_of f a i = find (is_email a i) (emails f)"
  unfolding email_of_def emails_for_def find_in_filter is_email_def ..

lemma archived_labels:
  assumes "distinct (map mb_id (mailboxes f))" and "archived f a e = Some e'"
  shows "set (gmail_label_ids f e') = set (gmail_label_ids f e)"
proof (cases "mailbox_ids e = []")
  case True
  then obtain m where m: "m \<in> set (mailboxes f)" "mb_role m = Some Archive" "e' = e\<lparr>mailbox_ids := [mb_id m]\<rparr>"
    using assms(2) by (auto simp: archived_def role_mailbox_def mailboxes_for_def dest!: find_SomeD)
  moreover from m(1,2) have "box_labels f {mb_id m} = {}"
    using assms(1) by (auto simp: box_labels_def role_label.simps distinct_map inj_on_def)
  ultimately show ?thesis using True by (simp add: label_ids_sets [OF assms(1)] box_labels_def)
qed (use assms(2) in \<open>simp add: archived_def\<close>)

text \<open>
  C9. A Gmail patch of settable labels does exactly what it says, and \<open>history.list\<close> reports exactly that.
  Settable are \<open>UNREAD\<close> and \<open>STARRED\<close>; \<open>DRAFT\<close> in an account without a drafts mailbox (with
  one, the label also comes from the mailbox, and a patch cannot take it away); the label of a role that exactly
  one mailbox of the account has; and \<open>Label_x\<close> where \<open>x\<close> is a mailbox without a role or a keyword
  that does not start with a dollar sign. When a patch of such labels is applied to a message whose mailboxes are
  its account's and none of whose keywords is the id of a label mailbox, the labels of the message are then the
  old ones with the added ones and without the removed ones, whatever archive mailbox it had to be moved to; and the history since the id the client held is one record, which lists as added the labels the
  message did not have, as removed the ones it had, no other message and nothing created or deleted.
\<close>

theorem gmail_modify_exact:
  assumes "store_ok f" and "distinct (map mb_id (mailboxes f))" and "email_of f a i = Some e"
    and "at_home f a e" and "list_all (settable f a) (add @ remove)"
    and "modify_one a add remove i f = (Applied, f')"
  shows "\<exists>e' r. email_of f' a i = Some e' \<and>
    set (gmail_label_ids f' e') = (set (gmail_label_ids f e) \<union> set add) - set remove \<and>
    gmail_history_since f' a (gmail_history_id f a) = Delta [r] (gmail_history_id f' a) \<and>
    messages_added r = [] \<and> messages_deleted r = [] \<and>
    reported (labels_added r) = Pair i ` (set add - set remove - set (gmail_label_ids f e)) \<and>
    reported (labels_removed r) = Pair i ` (set remove \<inter> set (gmail_label_ids f e))"
proof -
  have mail: "mail_ok f" using assms(1) by (simp add: store_ok_def)
  have found: "find (is_email a i) (emails f) = Some e" using assms(3) by (simp add: email_of_find)
  note e = find_is_email [OF found]
  obtain d f1 where run: "relabel a i add remove f = (False, d, f1)" and f': "f' = snd (record_transition d f1)"
    using assms(6) by (auto simp: modify_one_def mutate_def split: if_splits option.splits prod.splits
        dest!: find_Some_iff [THEN iffD1] simp: check_containers_def)
  obtain n e' where step: "edits n e' f f1" "emails f ! n = e"
    "archived f a (apply_labels f a add remove e) = Some e'"
    and d: "d = diff_default\<lparr>email_updated := [i], email_label_changes :=
      (case gmail_label_change i (gmail_label_ids f e) (gmail_label_ids f1 e') of Some c \<Rightarrow> [c] | None \<Rightarrow> [])\<rparr>"
    using relabel_edits [OF mail run found] by blast
  have ok: "store_ok f1" using kept_ok.relabelled [OF assms(1) run] .
  then have mail1: "mail_ok f1" "wf_store f1" by (simp_all add: store_ok_def)
  have boxes: "mailboxes f1 = mailboxes f"
    using run found step(3) by (auto simp: relabel_def Let_def)
  have n: "n < length (emails f)" "emails f1 = (emails f)[n := e']" "em_id e' = i" "em_account_id e' = a"
    using step(1,2) e by (simp_all add: edits_def)
  then have e': "e' \<in> set (emails f1)" by (simp add: set_update_memI)
  have labels: "set (gmail_label_ids f1 e') = (set (gmail_label_ids f e) \<union> set add) - set remove"
    using archived_labels [OF assms(2) step(3)] apply_labels_set [OF assms(2,4,5)]
    by (simp add: label_ids_mailboxes [OF boxes])
  have frame: "emails f' = emails f1" "mailboxes f' = mailboxes f1"
    unfolding f' by (subst record_transition_frame, simp)+
  have "email_of f' a i = Some e'"
    unfolding email_of_find frame
    by (rule find_only) (use e' n same_id [OF mail_okD(1) [OF mail1(1)]] in \<open>auto simp: is_email_def\<close>)
  moreover have "set (gmail_label_ids f' e') = (set (gmail_label_ids f e) \<union> set add) - set remove"
    using labels by (simp add: label_ids_mailboxes [OF frame(2)])
  moreover have owner: "resolve_email f1 i = a"
    using resolve_email_member [OF mail_okD(1) [OF mail1(1)] e'] n by simp
  have "\<not> diff_is_empty d" by (simp add: d diff_is_empty_def)
  moreover have "a \<in> named_accounts f1 d" using owner by (auto simp: named_accounts_def d)
  ultimately obtain x y where hist: "gmail_history_since f' a (gmail_history_id f1 a) =
      Delta [history_record (gmail_history_id f1 a + 1) (transition_from_diff x y (account_part f1 a d))]
        (gmail_history_id f' a)"
    using history_since_record [OF mail1(2)] unfolding f' by blast
  have same: "gmail_history_id f1 a = gmail_history_id f a"
    using step(1) by (simp add: edits_def same_rest_def gmail_history_id_def)
  let ?r = "history_record (gmail_history_id f1 a + 1) (transition_from_diff x y (account_part f1 a d))"
  have change: "email_label_changes (account_part f1 a d) =
      (case gmail_label_change i (gmail_label_ids f e) (gmail_label_ids f1 e') of Some c \<Rightarrow> [c] | None \<Rightarrow> [])"
    using owner by (auto simp: account_part_def Let_def d gmail_label_change_def split: option.split)
  have "messages_added ?r = []" "messages_deleted ?r = []"
    by (simp_all add: history_record_def account_part_def Let_def d kept_def diff_default_def)
  moreover have "reported (labels_added ?r) = Pair i ` (set (gmail_label_ids f1 e') - set (gmail_label_ids f e))"
    "reported (labels_removed ?r) = Pair i ` (set (gmail_label_ids f e) - set (gmail_label_ids f1 e'))"
    by (auto simp: history_record_def change gmail_label_change_def Let_def filter_empty_conv)
  moreover have "set (gmail_label_ids f1 e') - set (gmail_label_ids f e) = set add - set remove - set (gmail_label_ids f e)"
    "set (gmail_label_ids f e) - set (gmail_label_ids f1 e') = set remove \<inter> set (gmail_label_ids f e)"
    unfolding labels by blast+
  ultimately show ?thesis using hist same \<open>email_of f' a i = Some e'\<close>
      \<open>set (gmail_label_ids f' e') = (set (gmail_label_ids f e) \<union> set add) - set remove\<close> by metis
qed

theorem gmail_modify_exact_witness:
  "let f' = snd (modify_one ''a'' [''STARRED'', ''Label_work''] [''INBOX'', ''UNREAD''] ''e1'' sample_gmail)
   in (\<exists>e' r. email_of f' ''a'' ''e1'' = Some e' \<and> set (gmail_label_ids f' e') = {''STARRED'', ''Label_work''} \<and>
     gmail_history_since f' ''a'' 1 = Delta [r] (gmail_history_id f' ''a'') \<and>
     reported (labels_removed r) = {(''e1'', ''INBOX''), (''e1'', ''UNREAD'')})"
proof -
  let ?e = "sample_email\<lparr>mailbox_ids := [''in'']\<rparr>"
  let ?add = "[''STARRED'', ''Label_work'']" and ?remove = "[''INBOX'', ''UNREAD'']"
  obtain out f' where run: "modify_one ''a'' ?add ?remove ''e1'' sample_gmail = (out, f')" by fastforce
  have boxes: "distinct (map mb_id (mailboxes sample_gmail))" by (simp add: sample_gmail_def)
  have mail: "emails sample_gmail = [?e]" "emails_for sample_gmail ''a'' = [?e]" "em_id ?e = ''e1''"
    by (simp_all add: sample_gmail_def emails_for_def sample_email_def)
  then have e: "email_of sample_gmail ''a'' ''e1'' = Some ?e" by (simp add: email_of_def)
  have home: "at_home sample_gmail ''a'' ?e" by (simp add: at_home_def sample_gmail_def mailboxes_for_def sample_email_def)
  have settable: "list_all (settable sample_gmail ''a'') (?add @ ?remove)"
    by (simp add: settable_def sample_gmail_def mailboxes_for_def role_of_label_def strip_prefix.simps is_roleless_def)
  have old: "set (gmail_label_ids sample_gmail ?e) = {''INBOX'', ''UNREAD''}"
  proof -
    have "{m \<in> set (mailboxes sample_gmail). mb_id m \<in> {''in''}} = {hd (mailboxes sample_gmail)}"
      by (auto simp: sample_gmail_def)
    then show ?thesis
      by (simp add: label_ids_sets [OF boxes] box_labels_def flag_labels_def user_labels_def sample_email_def)
        (simp add: sample_gmail_def role_label.simps insert_commute)
  qed
  have "mailbox_ids (apply_labels sample_gmail ''a'' ?add ?remove ?e) = [''work'']"
    by (simp add: apply_labels_def apply_gmail_label_def toggle_keyword_def toggle_membership_def mailboxes_for_def
        toggle_role_membership_def role_mailbox_def sample_gmail_def sample_email_def Let_def)
  then have "fst (relabel ''a'' ''e1'' ?add ?remove sample_gmail) = False"
    using mail by (simp add: relabel_def archived_def is_email_def sample_email_def Let_def)
  moreover have "check_containers sample_gmail ''a'' ?add = None"
    by (simp add: check_containers_def required_containers_def)
  ultimately have "out = Applied"
    using run mail by (simp add: modify_one_def case_prod_beta Let_def)
  moreover have "gmail_history_id sample_gmail ''a'' = 1"
    by (simp add: gmail_history_id_def sample_gmail_def empty_fixture_def)
  moreover have "{''INBOX'', ''UNREAD''} \<union> set ?add - set ?remove = {''STARRED'', ''Label_work''}" by auto
  moreover have "Pair ''e1'' ` (set ?remove \<inter> {''INBOX'', ''UNREAD''}) = {(''e1'', ''INBOX''), (''e1'', ''UNREAD'')}" by auto
  ultimately show ?thesis
    using gmail_modify_exact [OF sample_gmail_ok boxes e home settable, of f'] run
    unfolding old run Let_def snd_conv by metis
qed

subsection \<open>Base64url\<close>

lemma url_alphabet_vals: "map base64url_val url_alphabet = map Some [0..<64]"
  by (simp add: url_alphabet_def base64url_val_def upt_rec)

lemma url_alphabet_val:
  assumes "v < 64"
  shows "base64url_val (url_alphabet ! v) = Some v"
    "url_alphabet ! v \<noteq> CHR ''=''" "url_alphabet ! v \<noteq> CHR 0x0D" "url_alphabet ! v \<noteq> CHR 0x0A"
proof -
  have len: "length url_alphabet = 64" by (simp add: url_alphabet_def)
  have "map base64url_val url_alphabet ! v = map Some [0..<64] ! v" by (simp only: url_alphabet_vals)
  then show "base64url_val (url_alphabet ! v) = Some v" using assms len by simp
  have mem: "url_alphabet ! v \<in> set url_alphabet" using assms len by simp
  have "CHR ''='' \<notin> set url_alphabet" "CHR 0x0D \<notin> set url_alphabet" "CHR 0x0A \<notin> set url_alphabet"
    by (simp_all add: url_alphabet_def)
  with mem show "url_alphabet ! v \<noteq> CHR ''=''" "url_alphabet ! v \<noteq> CHR 0x0D" "url_alphabet ! v \<noteq> CHR 0x0A"
    by metis+
qed

definition shifted :: "nat \<Rightarrow> nat \<Rightarrow> nat" where
  "shifted acc v = acc * 64 mod 2 ^ 32 + v"

lemma loop_step:
  assumes "v < 64"
  shows "base64url_loop acc bits (url_alphabet ! v # cs) =
    (if 2 \<le> bits then map_option ((#) (char_of (shifted acc v div 2 ^ (bits - 2) mod 256)))
        (base64url_loop (shifted acc v) (bits - 2) cs)
     else base64url_loop (shifted acc v) (bits + 6) cs)"
  using url_alphabet_val [OF assms] by (simp add: shifted_def Let_def)

lemma shifted_mod:
  assumes "v < 64"
  shows "shifted acc v mod 64 = v" "shifted acc v mod 4096 = acc mod 64 * 64 + v"
    "shifted acc v mod 1024 = acc mod 16 * 64 + v" "shifted acc v mod 256 = acc mod 4 * 64 + v"
proof -
  have split: "shifted acc v mod (k * 64) = acc mod k * 64 + v" if dvd: "k * 64 dvd 2 ^ 32" and pos: "0 < k" for k
  proof -
    have "acc mod k + 1 \<le> k" using mod_less_divisor [OF pos, of acc] by simp
    then have "(acc mod k + 1) * 64 \<le> k * 64" by (rule mult_le_mono1)
    then have less: "acc mod k * 64 + v < k * 64" using assms by simp
    have "acc * 64 mod 2 ^ 32 mod (k * 64) = acc mod k * 64"
      unfolding mod_mod_cancel [OF dvd] by (rule mult_mod_left [symmetric])
    then have "(acc * 64 mod 2 ^ 32 + v) mod (k * 64) = (acc mod k * 64 + v) mod (k * 64)"
      using mod_add_left_eq [of "acc * 64 mod 2 ^ 32" "k * 64" v] by (simp only:)
    then show ?thesis unfolding shifted_def mod_less [OF less] .
  qed
  show "shifted acc v mod 64 = v" using split [of 1] by simp
  show "shifted acc v mod 4096 = acc mod 64 * 64 + v" using split [of 64] by simp
  show "shifted acc v mod 1024 = acc mod 16 * 64 + v" using split [of 16] by simp
  show "shifted acc v mod 256 = acc mod 4 * 64 + v" using split [of 4] by simp
qed

lemma loop_three:
  fixes b0 b1 b2 :: nat
  assumes "b0 < 256" and "b1 < 256" and "b2 < 256"
  shows "\<exists>acc'. base64url_loop acc 0 (url_alphabet ! (b0 div 4) # url_alphabet ! (b0 mod 4 * 16 + b1 div 16) #
      url_alphabet ! (b1 mod 16 * 4 + b2 div 64) # url_alphabet ! (b2 mod 64) # cs) =
    map_option (\<lambda>r. char_of b0 # char_of b1 # char_of b2 # r) (base64url_loop acc' 0 cs)"
    and "base64url_loop acc 0 [url_alphabet ! (b0 div 4), url_alphabet ! (b0 mod 4 * 16 + b1 div 16), url_alphabet ! (b1 mod 16 * 4)] =
      Some [char_of b0, char_of b1]"
    and "base64url_loop acc 0 [url_alphabet ! (b0 div 4), url_alphabet ! (b0 mod 4 * 16)] = Some [char_of b0]"
proof -
  have lt: "b0 div 4 < 64" "b0 mod 4 * 16 + b1 div 16 < 64" "b1 mod 16 * 4 + b2 div 64 < 64" "b2 mod 64 < 64"
    "b1 mod 16 * 4 < 64" "b0 mod 4 * 16 < 64" using assms by auto
  let ?x1 = "shifted acc (b0 div 4)"
  let ?x2 = "shifted ?x1 (b0 mod 4 * 16 + b1 div 16)"
  let ?x3 = "shifted ?x2 (b1 mod 16 * 4 + b2 div 64)"
  have cut: "x div 2 ^ j mod 256 = x mod (2 ^ j * 256) div 2 ^ j" for x j :: nat
    by (simp add: mod_mult2_eq)
  have first: "shifted ?x1 v div 16 mod 256 = b0" if "v < 64" "v div 16 = b0 mod 4" for v
  proof -
    have "shifted ?x1 v mod 4096 = b0 div 4 * 64 + v"
      unfolding shifted_mod(2) [OF that(1)] shifted_mod(1) [OF lt(1)] ..
    moreover have "(b0 div 4 * 64 + v) div 16 = b0 div 4 * 4 + v div 16" by linarith
    ultimately show ?thesis using cut [of _ 4] that(2) by simp
  qed
  have second: "shifted ?x2 v div 4 mod 256 = b1" if "v < 64" "v div 4 = b1 mod 16" for v
  proof -
    have "?x2 mod 16 = b1 div 16"
      using mod_mod_cancel [of 16 64 ?x2] shifted_mod(1) [OF lt(2), of ?x1] assms(2) by simp
    then have "shifted ?x2 v mod 1024 = b1 div 16 * 64 + v" unfolding shifted_mod(3) [OF that(1)] by simp
    moreover have "(b1 div 16 * 64 + v) div 4 = b1 div 16 * 16 + v div 4" by linarith
    ultimately show ?thesis using cut [of _ 2] that(2) by simp
  qed
  have third: "shifted ?x3 (b2 mod 64) mod 256 = b2"
  proof -
    have "?x3 mod 4 = b2 div 64"
      using mod_mod_cancel [of 4 64 ?x3] shifted_mod(1) [OF lt(3), of ?x2] assms(3) by simp
    then show ?thesis unfolding shifted_mod(4) [OF lt(4)] by simp
  qed
  have v: "(b0 mod 4 * 16 + b1 div 16) div 16 = b0 mod 4" "b0 mod 4 * 16 div 16 = b0 mod 4"
    "(b1 mod 16 * 4 + b2 div 64) div 4 = b1 mod 16" "b1 mod 16 * 4 div 4 = b1 mod 16"
    using assms by auto
  show "\<exists>acc'. base64url_loop acc 0 (url_alphabet ! (b0 div 4) # url_alphabet ! (b0 mod 4 * 16 + b1 div 16) #
      url_alphabet ! (b1 mod 16 * 4 + b2 div 64) # url_alphabet ! (b2 mod 64) # cs) =
    map_option (\<lambda>r. char_of b0 # char_of b1 # char_of b2 # r) (base64url_loop acc' 0 cs)"
    by (rule exI [of _ "shifted ?x3 (b2 mod 64)"])
      (simp add: loop_step lt first [OF lt(2) v(1)] second [OF lt(3) v(3)] third option.map_comp comp_def
        del: base64url_loop.simps)
  show "base64url_loop acc 0 [url_alphabet ! (b0 div 4), url_alphabet ! (b0 mod 4 * 16 + b1 div 16), url_alphabet ! (b1 mod 16 * 4)] =
      Some [char_of b0, char_of b1]"
    by (simp add: loop_step lt first [OF lt(2) v(1)] second [OF lt(5) v(4)] base64url_loop.simps(1) del: base64url_loop.simps(2))
  show "base64url_loop acc 0 [url_alphabet ! (b0 div 4), url_alphabet ! (b0 mod 4 * 16)] = Some [char_of b0]"
    by (simp add: loop_step lt first [OF lt(6) v(2)] base64url_loop.simps(1) del: base64url_loop.simps(2))
qed

lemma base64url_loop_encoded: "base64url_loop acc 0 (base64url_no_pad s) = Some s"
proof (induction s arbitrary: acc rule: base64url_no_pad.induct)
  case (1 a b c rest)
  obtain acc' where "base64url_loop acc 0 (base64url_no_pad (a # b # c # rest)) =
      map_option (\<lambda>r. char_of (of_char a :: nat) # char_of (of_char b :: nat) # char_of (of_char c :: nat) # r)
        (base64url_loop acc' 0 (base64url_no_pad rest))"
    unfolding base64url_no_pad.simps Let_def using loop_three(1) of_char_256 by metis
  then show ?case using 1 by simp
next
  case (2 a b)
  show ?case unfolding base64url_no_pad.simps Let_def by (subst loop_three(2) [of _ _ 0]) (simp_all add: of_char_256)
next
  case (3 a)
  show ?case unfolding base64url_no_pad.simps Let_def by (subst loop_three(3) [of _ 0 0]) (simp_all add: of_char_256)
qed simp

lemma base64url_roundtrip: "decode_base64url_no_pad (base64url_no_pad s) = Some s"
  by (simp add: decode_base64url_no_pad_def base64url_loop_encoded)

subsection \<open>A message sent and fetched\<close>

lemma find_snoc: "find P xs = None \<Longrightarrow> find P (xs @ [x]) = (if P x then Some x else None)"
  by (induction xs) (auto split: if_splits)

lemma sent_email_fields [simp]:
  "em_id (sent_email env a mb raw i t r) = i" "em_account_id (sent_email env a mb raw i t r) = a"
  "mailbox_ids (sent_email env a mb raw i t r) = [mb]" "em_keywords (sent_email env a mb raw i t r) = [''$seen'']"
  "em_thread_id (sent_email env a mb raw i t r) = (case t of Some x \<Rightarrow> x | None \<Rightarrow> i)"
  "raw_bytes (sent_email env a mb raw i t r) = Some (utf8_lossy raw)"
  by (simp_all add: sent_email_def Let_def)

lemma delivered_fields:
  assumes "deliver_sent_message env a mb raw t f = (i, f')"
  shows "i = mock_email_id (Suc (synthetic_email_seq f))"
    "emails f' = emails f @ [sent_email env a mb raw i t (latest_received env f)]"
    "mailboxes f' = mailboxes f"
    "uid_history f' m = uid_history f m @ (if m = mb then [Some i] else [])"
proof -
  let ?e = "sent_email env a mb raw i t (latest_received env f)"
  let ?g = "snd (assign_uid mb i (f\<lparr>synthetic_email_seq := Suc (synthetic_email_seq f), emails := emails f @ [?e]\<rparr>))"
  have run: "i = mock_email_id (Suc (synthetic_email_seq f))"
    "f' = snd (record_transition (diff_default\<lparr>email_created := [i]\<rparr>) ?g)"
    using assms by (auto simp: deliver_sent_message_def mint_email_id_def mock_email_id_def mutate_def Let_def)
  show "i = mock_email_id (Suc (synthetic_email_seq f))" by (rule run)
  show "emails f' = emails f @ [?e]" "mailboxes f' = mailboxes f"
    unfolding run(2) by (subst record_transition_frame, simp add: assign_uid_def Let_def)+
  have "uid_history f' m = uid_history ?g m"
    unfolding run(2) by (subst record_transition_frame) (simp add: uid_history_def)
  then show "uid_history f' m = uid_history f m @ (if m = mb then [Some i] else [])"
    unfolding uid_history_assign by (simp add: uid_history_def)
qed

text \<open>
  C19. A message sent through \<open>messages.send\<close> comes back byte for byte. When the account has a Sent mailbox
  and the \<open>raw\<close> field is the base64url form of a UTF-8 message, the message is filed there under a
  fresh id with the mailbox's next UID and exactly the label \<open>SENT\<close>, the reply is the message resource,
  and \<open>messages.get\<close> of that id with \<open>format=raw\<close> answers a \<open>raw\<close> field that
  decodes to the bytes sent.
\<close>

theorem gmail_send_raw_roundtrip:
  assumes "store_ok f" and "distinct (map mb_id (mailboxes f))" and "role_mailbox f a Sent = Some mb"
    and "jget ''raw'' body = Some (JString (base64url_no_pad raw))" and "utf8_valid raw"
    and "gm_override env ''get_message'' [(''message_id'', i)] = None"
    and "gq_format (parse_gmail_query q) = Some ''raw''"
    and "i = mock_email_id (Suc (synthetic_email_seq f))"
    and "gmail_send_message env a body f = (reply, f')"
  shows "\<exists>e v. email_of f a i = None \<and> email_of f' a i = Some e \<and> reply = google_json (gmail_message_value env f' e) \<and>
    gmail_label_ids f' e = [''SENT''] \<and> uid_history f' mb = uid_history f mb @ [Some i] \<and>
    gmail_get_message env f' a i q = google_json v \<and>
    Option.bind (Option.bind (jget ''raw'' v) as_str) decode_base64url_no_pad = Some raw"
proof -
  obtain f1 where run: "deliver_sent_message env a mb raw (Option.bind (jget ''threadId'' body) as_str) f = (i, f1)"
    using delivered_fields(1) assms(8) by (metis surj_pair)
  let ?e = "sent_email env a mb raw i (Option.bind (jget ''threadId'' body) as_str) (latest_received env f)"
  have fresh: "i \<notin> email_ids f" using mail_okD(4) [of f] assms(1,8) by (simp add: store_ok_def)
  then have none: "find (\<lambda>e. em_id e = i) (emails_for f a) = None"
    by (auto simp: find_None_iff email_ids_def emails_for_def)
  have "emails_for f1 a = emails_for f a @ [?e]" by (simp add: emails_for_def delivered_fields(2) [OF run])
  then have found: "email_of f1 a i = Some ?e" using none by (simp add: email_of_def find_snoc)
  have "google_json (gmail_message_value env f1 ?e) = reply \<and> f1 = f'"
    using assms(9) by (auto simp: gmail_send_message_def assms(3,4) base64url_roundtrip run found)
  then have send: "reply = google_json (gmail_message_value env f1 ?e)" "f' = f1" by blast+
  obtain m where m: "m \<in> set (mailboxes f)" "mb_id m = mb" "mb_role m = Some Sent"
    using assms(3) by (auto simp: role_mailbox_def mailboxes_for_def dest!: find_SomeD)
  have "collect_map mb_id (\<lambda>m. m) (mailboxes f1) mb = Some m"
    using collect_map_member [OF assms(2) m(1)] m(2) by (simp add: delivered_fields(3) [OF run])
  then have labels: "gmail_label_ids f1 ?e = [''SENT'']"
    by (simp add: gmail_label_ids_def role_label.simps m(3) sort_dedup_def)
  let ?v = "jobj (gmail_message_fields env f1 ?e @ [(''raw'', JString (base64url_no_pad (assembled_rfc822 (gm_render env) ?e)))])"
  have "gmail_get_message env f1 a i q = google_json ?v"
    by (simp add: gmail_get_message_def gmail_overridden_def assms(6,7) found)
  moreover have "jget ''raw'' ?v = Some (JString (base64url_no_pad (assembled_rfc822 (gm_render env) ?e)))"
    by (simp add: jget_jobj)
  moreover have "assembled_rfc822 (gm_render env) ?e = raw"
    by (simp add: assembled_rfc822_def rendered_for_email_def utf8_lossy_valid [OF assms(5)] case_prod_beta)
  ultimately have "gmail_get_message env f' a i q = google_json ?v"
    "Option.bind (Option.bind (jget ''raw'' ?v) as_str) decode_base64url_no_pad = Some raw"
    by (simp_all add: send(2) base64url_roundtrip)
  moreover have "email_of f a i = None" "email_of f' a i = Some ?e" "gmail_label_ids f' ?e = [''SENT'']"
    "uid_history f' mb = uid_history f mb @ [Some i]" "reply = google_json (gmail_message_value env f' ?e)"
    using send found labels none delivered_fields(4) [OF run, of mb] by (simp_all add: email_of_def)
  ultimately show ?thesis by blast
qed

theorem gmail_send_raw_roundtrip_witness:
  "let (reply, f') = gmail_send_message sample_gmail_env ''a'' (jobj [(''raw'', JString ''aGk'')]) sample_gmail
   in \<exists>v. gmail_get_message sample_gmail_env f' ''a'' ''mock-email-1'' (Some ''format=raw'') = google_json v \<and>
     Option.bind (Option.bind (jget ''raw'' v) as_str) decode_base64url_no_pad = Some ''hi''"
proof -
  obtain reply f' where run: "gmail_send_message sample_gmail_env ''a'' (jobj [(''raw'', JString ''aGk'')]) sample_gmail = (reply, f')"
    by fastforce
  have "base64url_no_pad ''hi'' = ''aGk''" by (simp add: url_alphabet_def)
  then have body: "jget ''raw'' (jobj [(''raw'', JString ''aGk'')]) = Some (JString (base64url_no_pad ''hi''))"
    by (simp add: jget_jobj)
  have "role_mailbox sample_gmail ''a'' Sent = Some ''sent''"
    by (simp add: role_mailbox_def mailboxes_for_def sample_gmail_def)
  moreover have "''mock-email-1'' = mock_email_id (Suc (synthetic_email_seq sample_gmail))"
    by (simp add: mock_email_id_def sample_gmail_def empty_fixture_def show_nat.simps str_simps)
  moreover have "gq_format (parse_gmail_query (Some ''format=raw'')) = Some ''raw''"
    by (simp add: parse_gmail_query_def gmail_query_field_def gmail_query_default_def url_decode_def utf8_lossy_ascii)
  moreover have "distinct (map mb_id (mailboxes sample_gmail))" "utf8_valid ''hi''"
    "gm_override sample_gmail_env ''get_message'' [(''message_id'', ''mock-email-1'')] = None"
    by (simp_all add: sample_gmail_def utf8_valid_ascii sample_gmail_env_def)
  ultimately show ?thesis
    using gmail_send_raw_roundtrip [OF sample_gmail_ok _ _ body _ _ _ _ run, of "''sent''" "''mock-email-1''" "Some ''format=raw''"]
    unfolding run by auto
qed

end
