(* ===== verification/Loader_Raw.thy ===== *)
theory Loader_Raw
  imports Fixture_Store Rust_Results
begin

text \<open>
  The authoring forms of a fixture (the \<open>Raw*\<close> types of \<open>src/fixture.rs\<close>), which serde reads from TOML and
  the Lua loader builds up, and their conversions to the runtime types.
\<close>

subsection \<open>Addresses\<close>

datatype raw_address = BareAddress string | FullAddress "string option" string

fun address_of_raw :: "raw_address \<Rightarrow> address" where
  "address_of_raw (BareAddress e) = \<lparr>ad_name = None, ad_email = e\<rparr>"
| "address_of_raw (FullAddress n e) = \<lparr>ad_name = n, ad_email = e\<rparr>"

datatype raw_event_attendee = BareAttendee string | FullAttendee "string option" string "string option"

fun attendee_of_raw :: "raw_event_attendee \<Rightarrow> event_attendee" where
  "attendee_of_raw (BareAttendee e) = event_attendee_new \<lparr>ad_name = None, ad_email = e\<rparr>"
| "attendee_of_raw (FullAttendee n e status) = \<lparr>ea_address = \<lparr>ad_name = n, ad_email = e\<rparr>,
     ea_status = or_else (Option.bind status participation_parse) NeedsAction\<rparr>"

datatype raw_contact_email = BareEmail string | FullEmail string "string option"

fun contact_email_of_raw :: "raw_contact_email \<Rightarrow> contact_email" where
  "contact_email_of_raw (BareEmail a) = \<lparr>ce_address = a, ce_name = None\<rparr>"
| "contact_email_of_raw (FullEmail a n) = \<lparr>ce_address = a, ce_name = n\<rparr>"

datatype raw_contact_phone = BarePhone string | FullPhone string "string option"

fun contact_phone_of_raw :: "raw_contact_phone \<Rightarrow> contact_phone" where
  "contact_phone_of_raw (BarePhone n) = \<lparr>cp_number = n, cp_kind = None\<rparr>"
| "contact_phone_of_raw (FullPhone n k) = \<lparr>cp_number = n, cp_kind = k\<rparr>"

subsection \<open>Accounts and mail\<close>

record raw_account =
  ra_id :: string
  ra_name :: string
  ra_is_personal :: bool
  ra_primary :: bool

record raw_mailbox =
  rmb_id :: string
  rmb_name :: string
  rmb_role :: "string option"
  rmb_parent_id :: "string option"
  rmb_sort_order :: "int option"
  rmb_is_subscribed :: "bool option"
  rmb_account_id :: "string option"

record raw_attachment =
  rat_blob_id :: string
  rat_name :: string
  rat_content_type :: string
  rat_size :: "int option"
  rat_disposition :: "string option"
  rat_cid :: "string option"
  rat_data_path :: string

record raw_email =
  rem_id :: string
  rem_thread_id :: "string option"
  rem_mailbox_ids :: "string list"
  rem_keywords :: "string list"
  rem_size :: "int option"
  rem_received_at :: string
  rem_sent_at :: "string option"
  rem_from :: "raw_address option"
  rem_to :: "raw_address list"
  rem_cc :: "raw_address list"
  rem_bcc :: "raw_address list"
  rem_reply_to :: "raw_address list"
  rem_subject :: "string option"
  rem_preview :: "string option"
  rem_message_id :: "string list"
  rem_in_reply_to :: "string list"
  rem_references :: "string list"
  rem_has_attachment :: "bool option"
  rem_body_text :: "string option"
  rem_body_raw_bytes :: "string option"
  rem_reaction_type :: "string option"
  rem_reaction_count :: "int option"
  rem_attachments :: "raw_attachment list"
  rem_account_id :: "string option"

record raw_send_as =
  rsa_send_as_email :: string
  rsa_account_id :: "string option"
  rsa_display_name :: "string option"
  rsa_reply_to_address :: "string option"
  rsa_signature :: "string option"
  rsa_is_primary :: "bool option"
  rsa_is_default :: "bool option"
  rsa_treat_as_alias :: "bool option"

record raw_acl =
  racl_mailbox_id :: string
  racl_identifier :: string
  racl_rights :: "string option"

record raw_acl_revoke =
  rrv_mailbox_id :: string
  rrv_identifier :: string

subsection \<open>Calendars\<close>

record raw_calendar =
  rca_id :: string
  rca_name :: string
  rca_color :: "string option"
  rca_is_default :: bool
  rca_account_id :: "string option"
  rca_caldav_empty_report :: bool

record raw_reminder =
  rr_trigger :: string
  rr_absolute :: bool
  rr_related_end :: bool
  rr_action :: "string option"

definition reminder_of_raw :: "raw_reminder \<Rightarrow> reminder" where
  "reminder_of_raw r = \<lparr>rm_trigger = rr_trigger r, rm_absolute = rr_absolute r, related_end = rr_related_end r,
     rm_action = rr_action r\<rparr>"

record raw_event =
  rev_id :: string
  rev_calendar_id :: string
  rev_subject :: string
  rev_body_preview :: "string option"
  rev_body_text :: "string option"
  rev_start :: string
  rev_end :: string
  rev_location :: "string option"
  rev_organizer :: "raw_address option"
  rev_attendees :: "raw_event_attendee list"
  rev_is_all_day :: bool
  rev_recurrence_rule :: "string option"
  rev_recurrence_exdates :: "string list"
  rev_time_zone :: "string option"
  rev_reminders :: "raw_reminder list"
  rev_raw_ical :: "string option"
  rev_account_id :: "string option"

subsection \<open>Contacts and groups\<close>

record raw_contact_folder =
  rcf_id :: string
  rcf_display_name :: string
  rcf_parent_folder_id :: "string option"
  rcf_is_default :: bool
  rcf_account_id :: "string option"

record raw_contact =
  rct_id :: string
  rct_folder_id :: string
  rct_display_name :: "string option"
  rct_emails :: "raw_contact_email list"
  rct_phones :: "raw_contact_phone list"
  rct_company :: "string option"
  rct_job_title :: "string option"
  rct_department :: "string option"
  rct_notes :: "string option"
  rct_groups :: "string list"
  rct_malformed_vcard :: bool
  rct_account_id :: "string option"

record raw_contact_group =
  rcg_id :: string
  rcg_name :: string
  rcg_account_id :: "string option"

record raw_other_contact =
  roc_id :: string
  roc_display_name :: "string option"
  roc_emails :: "raw_contact_email list"
  roc_phones :: "raw_contact_phone list"
  roc_account_id :: "string option"

record raw_directory_person =
  rdp_id :: string
  rdp_display_name :: "string option"
  rdp_emails :: "raw_contact_email list"
  rdp_phones :: "raw_contact_phone list"
  rdp_company :: "string option"
  rdp_job_title :: "string option"
  rdp_department :: "string option"
  rdp_account_id :: "string option"

record raw_category =
  rcat_id :: string
  rcat_display_name :: string
  rcat_color :: "string option"
  rcat_account_id :: "string option"

record raw_group =
  rgr_id :: string
  rgr_display_name :: string
  rgr_description :: "string option"
  rgr_mail :: "string option"
  rgr_mail_enabled :: "bool option"
  rgr_security_enabled :: "bool option"
  rgr_group_types :: "string list"
  rgr_members :: "string list"

record raw_group_update =
  rgu_id :: string
  rgu_display_name :: "string option"
  rgu_mail :: "string option option"
  rgu_group_types :: "string list option"
  rgu_members :: "string list option"

definition group_of_raw :: "raw_group \<Rightarrow> group" where
  "group_of_raw g = \<lparr>gr_id = rgr_id g, gr_display_name = rgr_display_name g, gr_description = rgr_description g,
     gr_mail = rgr_mail g, mail_enabled = or_else (rgr_mail_enabled g) False,
     security_enabled = or_else (rgr_security_enabled g) False, group_types = rgr_group_types g,
     gr_members = rgr_members g\<rparr>"

subsection \<open>Public folders\<close>

record raw_effective_rights =
  rer_create_associated :: "bool option"
  rer_create_contents :: "bool option"
  rer_create_hierarchy :: "bool option"
  rer_delete :: "bool option"
  rer_modify :: "bool option"
  rer_read :: "bool option"
  rer_view_private_items :: "bool option"

definition effective_rights_of_raw :: "raw_effective_rights \<Rightarrow> effective_rights" where
  "effective_rights_of_raw r = (let d = effective_rights_default in
     \<lparr>create_associated = or_else (rer_create_associated r) (create_associated d),
      create_contents = or_else (rer_create_contents r) (create_contents d),
      create_hierarchy = or_else (rer_create_hierarchy r) (create_hierarchy d),
      er_delete = or_else (rer_delete r) (er_delete d),
      er_modify = or_else (rer_modify r) (er_modify d),
      er_read = or_else (rer_read r) (er_read d),
      view_private_items = or_else (rer_view_private_items r) (view_private_items d)\<rparr>)"

record raw_public_folder =
  rpf_id :: string
  rpf_display_name :: string
  rpf_parent_id :: "string option"
  rpf_folder_class :: "string option"
  rpf_effective_rights :: "raw_effective_rights option"

record raw_public_item =
  rpi_id :: string
  rpi_folder_id :: string
  rpi_subject :: string
  rpi_from :: raw_address
  rpi_to :: "raw_address list"
  rpi_body_text :: string
  rpi_body_html :: "string option"
  rpi_attachments :: "raw_attachment list"
  rpi_received_at :: string

subsection \<open>Configuration\<close>

record raw_oauth =
  rou_enforce :: bool
  rou_issuer :: "string option"

record raw_announce =
  ran_step :: string
  ran_before :: string
  ran_nth :: "nat option"

record raw_caldav =
  rcd_scheduling :: "bool option"

record raw_web_finger_link =
  rwl_rel :: string
  rwl_href :: string

record raw_web_finger =
  rwf_links :: "raw_web_finger_link list"
  rwf_raw_body :: "string option"
  rwf_raw_content_type :: "string option"

record raw_oidc =
  roi_issuer :: string
  roi_authorization_endpoint :: string
  roi_token_endpoint :: string
  roi_userinfo_endpoint :: "string option"
  roi_scopes_supported :: "string list"
  roi_code_challenge_methods_supported :: "string list"
  roi_token_endpoint_auth_methods_supported :: "string list"
  roi_raw_body :: "string option"
  roi_raw_content_type :: "string option"

record raw_autoconfig =
  rau_raw_body :: string
  rau_raw_content_type :: "string option"

record raw_discovery_entry =
  rde_webfinger :: "raw_web_finger option"
  rde_oidc :: "raw_oidc option"
  rde_autoconfig :: "raw_autoconfig option"

subsection \<open>Change steps and the fixture\<close>

record raw_email_update =
  reu_id :: string
  reu_keywords :: "string list option"
  reu_mailbox_ids :: "string list option"

record raw_email_reaction =
  rre_id :: string
  rre_reaction_type :: "string option"
  rre_reaction_count :: "int option"
  rre_clear :: "bool option"

record raw_email_move =
  rmv_id :: string
  rmv_mailbox_ids :: "string list"

record raw_mailbox_update =
  rmu_id :: string
  rmu_name :: "string option"
  rmu_parent_id :: "string option"
  rmu_sort_order :: "int option"
  rmu_role :: "string option"
  rmu_is_subscribed :: "bool option"

record raw_event_update =
  rvu_id :: string
  rvu_subject :: "string option"
  rvu_start :: "string option"
  rvu_end :: "string option"
  rvu_location :: "string option"
  rvu_body_text :: "string option"

record raw_contact_folder_update =
  rfu_id :: string
  rfu_display_name :: "string option"
  rfu_parent_folder_id :: "string option"

record raw_contact_update =
  rcu_id :: string
  rcu_display_name :: "string option"
  rcu_folder_id :: "string option"
  rcu_emails :: "raw_contact_email list option"
  rcu_phones :: "raw_contact_phone list option"
  rcu_company :: "string option"
  rcu_job_title :: "string option"
  rcu_department :: "string option"
  rcu_notes :: "string option"

record raw_change_step =
  rcs_id :: string
  rcs_email_create :: "raw_email list"
  rcs_email_update :: "raw_email_update list"
  rcs_email_reaction :: "raw_email_reaction list"
  rcs_email_move :: "raw_email_move list"
  rcs_email_destroy :: "string list"
  rcs_mailbox_create :: "raw_mailbox list"
  rcs_mailbox_update :: "raw_mailbox_update list"
  rcs_mailbox_destroy :: "string list"
  rcs_event_create :: "raw_event list"
  rcs_event_update :: "raw_event_update list"
  rcs_event_destroy :: "string list"
  rcs_contact_folder_create :: "raw_contact_folder list"
  rcs_contact_folder_update :: "raw_contact_folder_update list"
  rcs_contact_folder_destroy :: "string list"
  rcs_contact_create :: "raw_contact list"
  rcs_contact_update :: "raw_contact_update list"
  rcs_contact_destroy :: "string list"
  rcs_group_create :: "raw_group list"
  rcs_group_update :: "raw_group_update list"
  rcs_group_destroy :: "string list"
  rcs_acl_grant :: "raw_acl list"
  rcs_acl_revoke :: "raw_acl_revoke list"

record raw_fixture =
  rf_name :: string
  rf_state :: "string option"
  rf_accounts :: "raw_account list"
  rf_mailboxes :: "raw_mailbox list"
  rf_emails :: "raw_email list"
  rf_oauth :: "raw_oauth option"
  rf_caldav :: "raw_caldav option"
  rf_announce :: "raw_announce list"
  rf_discovery :: "(string, raw_discovery_entry) btmap"
  rf_calendars :: "raw_calendar list"
  rf_events :: "raw_event list"
  rf_contact_folders :: "raw_contact_folder list"
  rf_contacts :: "raw_contact list"
  rf_contact_groups :: "raw_contact_group list"
  rf_other_contacts :: "raw_other_contact list"
  rf_directory_people :: "raw_directory_person list"
  rf_categories :: "raw_category list"
  rf_groups :: "raw_group list"
  rf_acls :: "raw_acl list"
  rf_public_folders :: "raw_public_folder list"
  rf_public_items :: "raw_public_item list"
  rf_send_as :: "raw_send_as list"
  rf_change_script :: "raw_change_step list"

end
