(* ===== verification/Loader_Email.thy ===== *)
theory Loader_Email
  imports Loader_Raw
begin

text \<open>
  The loader's checks of one email and its attachments, the account and mailbox checks it shares
  (\<open>normalize_email\<close>, \<open>normalize_attachments\<close>, \<open>is_email_shaped\<close>, \<open>detect_cycles\<close>, \<open>max_mock_seq\<close> of
  \<open>src/fixture.rs\<close>).
\<close>

text \<open>
  jiff's parser of an instant (\<open>Inl\<close> is its error text) and reading a blob relative to the fixture's directory
  (\<open>Inl\<close> is \<open>read <path>: <error>\<close>).
\<close>

record load_env =
  le_parse_ts :: "string \<Rightarrow> string + timestamp"
  le_read :: "string \<Rightarrow> string + bytes"

text \<open>\<open>parse_ts\<close> over jiff's parser.\<close>

definition load_ts :: "(string \<Rightarrow> string + timestamp) \<Rightarrow> string \<Rightarrow> string + timestamp" where
  "load_ts parse s = map_err (\<lambda>e. ''invalid RFC3339 timestamp '' @ debug_str s @ '': '' @ e) (parse s)"

subsection \<open>Attachments\<close>

definition load_attachment :: "load_env \<Rightarrow> string \<Rightarrow> raw_attachment \<Rightarrow> attachment list \<Rightarrow> string + attachment list" where
  "load_attachment env owner a atts =
     (let i = rat_blob_id a; label = owner @ '' attachment '' @ debug_str i @ '': '' in
      if i \<in> at_blob_id ` set atts then Inl (owner @ '': duplicate attachment blob_id '' @ debug_str i)
      else
        and_then (case rat_disposition a of
            Some s \<Rightarrow> map_err (\<lambda>e. label @ e) (disposition_parse s)
          | None \<Rightarrow> Inr Attach) (\<lambda>d.
        and_then (map_err (\<lambda>e. label @ e) (le_read env (rat_data_path a))) (\<lambda>bytes.
          Inr (atts @ [\<lparr>at_blob_id = i, at_name = rat_name a, at_content_type = rat_content_type a,
            at_size = or_else (rat_size a) (int (length bytes)), at_disposition = d, at_cid = rat_cid a,
            at_data = bytes\<rparr>]))))"

definition normalize_attachments :: "load_env \<Rightarrow> raw_attachment list \<Rightarrow> string \<Rightarrow> string + attachment list" where
  "normalize_attachments env raws owner = fold_result (load_attachment env owner) raws []"

subsection \<open>Emails\<close>

text \<open>
  The account of an email is the one of its mailboxes, which must agree. A table of accounts holds an entry
  for every mailbox id that passed the check before.
\<close>

definition derived_account :: "string \<Rightarrow> (string \<times> string) list \<Rightarrow> string list \<Rightarrow> string + string" where
  "derived_account label mb_accounts ids =
     (let account = (\<lambda>m. or_else (map_of mb_accounts m) []) in
      case ids of
        [] \<Rightarrow> Inr []
      | first # rest \<Rightarrow>
          (case find (\<lambda>m. account m \<noteq> account first) rest of
             Some m \<Rightarrow> Inl (label @ '': mailboxes '' @ debug_str first @ '' and '' @ debug_str m @
               '' live in different accounts ('' @ debug_str (account first) @ '' vs '' @ debug_str (account m) @ '')'')
           | None \<Rightarrow> Inr (account first)))"

definition declared_account :: "string \<Rightarrow> string list \<Rightarrow> string option \<Rightarrow> string \<Rightarrow> string + unit" where
  "declared_account label account_ids declared derived =
     (case declared of
        None \<Rightarrow> Inr ()
      | Some a \<Rightarrow>
          if a \<notin> set account_ids
          then Inl (label @ '': account_id '' @ debug_str a @ '' does not match any declared account'')
          else if derived \<noteq> [] \<and> a \<noteq> derived
          then Inl (label @ '': declared account_id '' @ debug_str a @ '' disagrees with mailbox-derived account '' @
                 debug_str derived)
          else Inr ())"

text \<open>The checks that follow the body, in order.\<close>

definition check_has_attachment :: "string \<Rightarrow> raw_email \<Rightarrow> attachment list \<Rightarrow> string + bool" where
  "check_has_attachment label em atts =
     (if rem_has_attachment em = Some False \<and> atts \<noteq> []
      then Inl (label @ '': has_attachment=false but '' @ show_nat (length atts) @ '' attachment(s) declared'')
      else if rem_body_raw_bytes em \<noteq> None \<and> atts \<noteq> []
      then Inl (label @ '': body_raw_bytes is mutually exclusive with attachments (the raw block is the entire body)'')
      else if rem_reaction_type em = Some []
      then Inl (label @ '': reaction_type must be non-empty (omit the field to stage a message with no reaction)'')
      else if (case rem_reaction_count em of Some c \<Rightarrow> c < 0 | None \<Rightarrow> False)
      then Inl (label @ '': reaction_count must be >= 0 (got '' @ show_int (or_else (rem_reaction_count em) 0) @ '')'')
      else Inr (or_else (rem_has_attachment em) (atts \<noteq> [])))"

definition email_of_raw ::
    "raw_email \<Rightarrow> string \<Rightarrow> string \<Rightarrow> timestamp \<Rightarrow> timestamp \<Rightarrow> attachment list \<Rightarrow> bool \<Rightarrow> email" where
  "email_of_raw em a text received sent atts has = \<lparr>
     em_id = rem_id em, em_account_id = a, em_thread_id = or_else (rem_thread_id em) (rem_id em),
     mailbox_ids = rem_mailbox_ids em, em_keywords = rem_keywords em,
     em_size = or_else (rem_size em) (int (length text)), received_at = received, sent_at = sent,
     em_from = map_option address_of_raw (rem_from em), em_to = map address_of_raw (rem_to em),
     em_cc = map address_of_raw (rem_cc em), em_bcc = map address_of_raw (rem_bcc em),
     reply_to = map address_of_raw (rem_reply_to em), em_subject = rem_subject em, em_preview = rem_preview em,
     message_id = rem_message_id em, in_reply_to = rem_in_reply_to em, em_references = rem_references em,
     has_attachment = has, em_body = Text text, attachments = atts, raw_bytes = rem_body_raw_bytes em,
     reaction_type = rem_reaction_type em, reaction_count = rem_reaction_count em\<rparr>"

definition normalize_email ::
    "load_env \<Rightarrow> string list \<Rightarrow> (string \<times> string) list option \<Rightarrow> string list option \<Rightarrow> raw_email \<Rightarrow> string + email" where
  "normalize_email env mb_ids mb_accounts account_ids em =
     (let label = ''email '' @ debug_str (rem_id em); ids = rem_mailbox_ids em in
      if ids = [] then Inl (label @ '': mailbox_ids must not be empty'')
      else case find (\<lambda>m. m \<notin> set mb_ids) ids of
        Some m \<Rightarrow> Inl (label @ '': mailbox_ids contains unknown '' @ debug_str m)
      | None \<Rightarrow>
          and_then (case mb_accounts of Some t \<Rightarrow> derived_account label t ids | None \<Rightarrow> Inr []) (\<lambda>a.
          and_then (case account_ids of Some t \<Rightarrow> declared_account label t (rem_account_id em) a | None \<Rightarrow> Inr ()) (\<lambda>_.
          case rem_body_text em of
            None \<Rightarrow> Inl (label @ '': must declare body_text (body_path/body_html not yet implemented)'')
          | Some text \<Rightarrow>
              and_then (map_err (\<lambda>e. label @ '' received_at: '' @ e) (load_ts (le_parse_ts env) (rem_received_at em))) (\<lambda>received.
              and_then (case rem_sent_at em of
                  Some s \<Rightarrow> map_err (\<lambda>e. label @ '' sent_at: '' @ e) (load_ts (le_parse_ts env) s) | None \<Rightarrow> Inr received) (\<lambda>sent.
              and_then (normalize_attachments env (rem_attachments em) label) (\<lambda>atts.
              and_then (check_has_attachment label em atts) (\<lambda>has.
                Inr (email_of_raw em a text received sent atts has))))))))"

lemma normalize_email_Inr:
  assumes "normalize_email env mb_ids (Some mb_accounts) account_ids em = Inr e"
  shows "em_id e = rem_id em" "mailbox_ids e = rem_mailbox_ids em" "rem_mailbox_ids em \<noteq> []"
    "set (rem_mailbox_ids em) \<subseteq> set mb_ids"
    "m \<in> set (rem_mailbox_ids em) \<Longrightarrow> or_else (map_of mb_accounts m) [] = em_account_id e"
proof -
  obtain first rest where ids: "rem_mailbox_ids em = first # rest"
    using assms by (cases "rem_mailbox_ids em") (auto simp: normalize_email_def Let_def)
  from assms show "em_id e = rem_id em" "mailbox_ids e = rem_mailbox_ids em" "rem_mailbox_ids em \<noteq> []"
    "set (rem_mailbox_ids em) \<subseteq> set mb_ids"
    by (auto simp: normalize_email_def Let_def and_then_Inr email_of_raw_def find_None_iff
        split: if_splits option.splits)
  have "derived_account (''email '' @ debug_str (rem_id em)) mb_accounts (rem_mailbox_ids em) = Inr (em_account_id e)"
    using assms by (auto simp: normalize_email_def Let_def and_then_Inr email_of_raw_def split: if_splits option.splits)
  then show "m \<in> set (rem_mailbox_ids em) \<Longrightarrow> or_else (map_of mb_accounts m) [] = em_account_id e"
    by (auto simp: derived_account_def ids Let_def find_None_iff split: option.splits)
qed

subsection \<open>Accounts, mailboxes, counters\<close>

definition is_email_shaped :: "string \<Rightarrow> bool" where
  "is_email_shaped s \<longleftrightarrow> \<not> list_ex (\<lambda>w. contains_sub w s) ws_codes \<and>
     (case split_on CHR ''@'' s of [who, host] \<Rightarrow> who \<noteq> [] \<and> host \<noteq> [] | _ \<Rightarrow> False)"

text \<open>
  The walk up from one mailbox, as many steps as there are mailboxes: whether it comes back to its start.
  The parent exists, so the lookup does not panic.
\<close>

fun walk_returns :: "(string \<Rightarrow> mailbox option) \<Rightarrow> string \<Rightarrow> nat \<Rightarrow> mailbox \<Rightarrow> bool" where
  "walk_returns by_id start 0 cur = False"
| "walk_returns by_id start (Suc n) cur =
     (case Option.bind (mb_parent_id cur) by_id of
        None \<Rightarrow> False
      | Some p \<Rightarrow> mb_id p = start \<or> walk_returns by_id start n p)"

definition detect_cycles :: "mailbox list \<Rightarrow> string + unit" where
  "detect_cycles ms =
     (case find (\<lambda>m. walk_returns (collect_map mb_id (\<lambda>m. m) ms) (mb_id m) (length ms) m) ms of
        Some m \<Rightarrow> Inl (''mailbox parent cycle including '' @ debug_str (mb_id m))
      | None \<Rightarrow> Inr ())"

definition max_mock_seq :: "string list \<Rightarrow> string \<Rightarrow> nat" where
  "max_mock_seq ids p = fold max (List.map_filter (\<lambda>i. Option.bind (strip_prefix p i) parse_u64) ids) 0"

end
