(* ===== verification/Change_Ops.thy ===== *)
theory Change_Ops
  imports Loader_Email Jmap_Email
begin

text \<open>
  The change script as it is loaded: the builders that turn an authored entry into a \<open>ChangeOp\<close>, the appliers
  of the patches they build, and \<open>normalize_change_step\<close> (\<open>src/fixture.rs\<close>).
\<close>

subsection \<open>Builders\<close>

text \<open>An optional field of a patch under construction.\<close>

definition field_if :: "string \<Rightarrow> ('a \<Rightarrow> json) \<Rightarrow> 'a option \<Rightarrow> (string \<times> json) list" where
  "field_if k g v = (case v of None \<Rightarrow> [] | Some x \<Rightarrow> [(k, g x)])"

abbreviation no_field :: string where
  "no_field \<equiv> ''at least one field must be set''"

definition email_update_op :: "string \<Rightarrow> string list option \<Rightarrow> string list option \<Rightarrow> string + change_op" where
  "email_update_op i ks ms =
     (let patch = field_if ''keywords'' bool_map ks @ field_if ''mailboxIds'' bool_map ms in
      if patch = [] then Inl ''at least one of keywords / mailbox_ids must be set'' else Inr (EmailUpdate i (jobj patch)))"

definition email_reaction_op :: "string \<Rightarrow> string option \<Rightarrow> int option \<Rightarrow> bool \<Rightarrow> string + change_op" where
  "email_reaction_op i t c clear =
     (if clear \<and> (t \<noteq> None \<or> c \<noteq> None)
      then Inl ''clear is mutually exclusive with reaction_type / reaction_count''
      else if \<not> clear \<and> t = None \<and> c = None
      then Inl ''at least one of reaction_type / reaction_count / clear must be set''
      else if t = Some [] then Inl ''reaction_type must be non-empty (use clear = true to remove it)''
      else if (case c of Some n \<Rightarrow> n < 0 | None \<Rightarrow> False) then Inl ''reaction_count must be >= 0''
      else Inr (EmailReaction i t c clear))"

definition email_move_op :: "string \<Rightarrow> string list \<Rightarrow> string + change_op" where
  "email_move_op i ms = (if ms = [] then Inl ''mailbox_ids must be non-empty'' else Inr (EmailMove i ms))"

text \<open>\<open>raw.role.as_deref().map(Role::parse).transpose()\<close>\<close>

definition role_of_raw :: "string option \<Rightarrow> string + role option" where
  "role_of_raw r = (case r of None \<Rightarrow> Inr None | Some s \<Rightarrow> and_then (role_parse s) (\<lambda>x. Inr (Some x)))"

text \<open>An unset account is left empty: the applier replaces it.\<close>

definition mailbox_create_op :: "raw_mailbox \<Rightarrow> string + change_op" where
  "mailbox_create_op r = and_then (role_of_raw (rmb_role r)) (\<lambda>ro.
     Inr (MailboxCreate \<lparr>mb_id = rmb_id r, mb_account_id = or_else (rmb_account_id r) [], mb_name = rmb_name r,
       mb_role = ro, mb_parent_id = rmb_parent_id r, sort_order = rmb_sort_order r,
       is_subscribed = or_else (rmb_is_subscribed r) True\<rparr>))"

definition mailbox_update_op ::
    "string \<Rightarrow> string option \<Rightarrow> string option \<Rightarrow> int option \<Rightarrow> string option \<Rightarrow> bool option \<Rightarrow> string + change_op" where
  "mailbox_update_op i name parent order r sub =
     (let patch = field_if ''name'' JString name @ field_if ''parentId'' JString parent @
        field_if ''sortOrder'' jint order @ field_if ''role'' JString r @ field_if ''isSubscribed'' JBool sub in
      if patch = [] then Inl no_field else Inr (MailboxUpdate i (jobj patch)))"

text \<open>The parts of an event that need no check.\<close>

definition event_of_raw :: "raw_event \<Rightarrow> string \<Rightarrow> timestamp \<Rightarrow> timestamp \<Rightarrow> timestamp list \<Rightarrow> event" where
  "event_of_raw r a s e ex = \<lparr>ev_id = rev_id r, ev_account_id = a, ev_calendar_id = rev_calendar_id r,
     ev_subject = rev_subject r, body_preview = rev_body_preview r, body_text = rev_body_text r,
     ev_start = s, ev_end = e, ev_location = rev_location r,
     organizer = map_option address_of_raw (rev_organizer r), attendees = map attendee_of_raw (rev_attendees r),
     is_all_day = rev_is_all_day r, recurrence_rule = rev_recurrence_rule r, recurrence_exdates = ex,
     time_zone = rev_time_zone r, reminders = map reminder_of_raw (rev_reminders r), raw_ical = rev_raw_ical r\<rparr>"

text \<open>The three instants of an event, each with its own error.\<close>

definition raw_event_times ::
    "(string \<Rightarrow> string + timestamp) \<Rightarrow> string \<Rightarrow> raw_event \<Rightarrow> string + timestamp \<times> timestamp \<times> timestamp list" where
  "raw_event_times parse label r =
     and_then (map_err (\<lambda>e. label @ '' start: '' @ e) (load_ts parse (rev_start r))) (\<lambda>s.
     and_then (map_err (\<lambda>e. label @ '' end: '' @ e) (load_ts parse (rev_end r))) (\<lambda>e.
     and_then (map_err (\<lambda>e. label @ '' recurrence_exdates: '' @ e)
        (map_result (load_ts parse) (rev_recurrence_exdates r))) (\<lambda>ex. Inr (s, e, ex))))"

definition event_create_op :: "(string \<Rightarrow> string + timestamp) \<Rightarrow> raw_event \<Rightarrow> string + change_op" where
  "event_create_op parse r = and_then (raw_event_times parse (debug_str (rev_id r)) r) (\<lambda>(s, e, ex).
     Inr (EventCreate (event_of_raw r (or_else (rev_account_id r) []) s e ex)))"

definition event_update_op ::
    "string \<Rightarrow> string option \<Rightarrow> string option \<Rightarrow> string option \<Rightarrow> string option \<Rightarrow> string option \<Rightarrow> string + change_op" where
  "event_update_op i subject s e loc txt =
     (let patch = field_if ''subject'' JString subject @ field_if ''start'' JString s @ field_if ''end'' JString e @
        field_if ''location'' JString loc @ field_if ''body_text'' JString txt in
      if patch = [] then Inl no_field else Inr (EventUpdate i (jobj patch)))"

definition acl_grant_op :: "raw_acl \<Rightarrow> string + change_op" where
  "acl_grant_op r =
     (if racl_mailbox_id r = [] then Inl ''mailbox_id must be non-empty''
      else if racl_identifier r = [] then Inl ''identifier must be non-empty''
      else let rights = or_else (racl_rights r) default_shared_rights in
        if rights = [] then Inl ''rights, when given, must be non-empty''
        else Inr (AclGrant (racl_mailbox_id r) (racl_identifier r) rights))"

definition acl_revoke_op :: "raw_acl_revoke \<Rightarrow> string + change_op" where
  "acl_revoke_op r =
     (if rrv_mailbox_id r = [] then Inl ''mailbox_id must be non-empty''
      else if rrv_identifier r = [] then Inl ''identifier must be non-empty''
      else Inr (AclRevoke (rrv_mailbox_id r) (rrv_identifier r)))"

definition contact_folder_create_op :: "raw_contact_folder \<Rightarrow> change_op" where
  "contact_folder_create_op r = ContactFolderCreate \<lparr>cf_id = rcf_id r, cf_account_id = or_else (rcf_account_id r) [],
     cf_display_name = rcf_display_name r, cf_parent_folder_id = rcf_parent_folder_id r,
     cf_is_default = rcf_is_default r\<rparr>"

definition contact_folder_update_op :: "string \<Rightarrow> string option \<Rightarrow> string option \<Rightarrow> string + change_op" where
  "contact_folder_update_op i name parent =
     (let patch = field_if ''display_name'' JString name @ field_if ''parent_folder_id'' JString parent in
      if patch = [] then Inl no_field else Inr (ContactFolderUpdate i (jobj patch)))"

definition contact_of_raw :: "raw_contact \<Rightarrow> string \<Rightarrow> contact" where
  "contact_of_raw r a = \<lparr>ct_id = rct_id r, ct_account_id = a, ct_folder_id = rct_folder_id r,
     ct_display_name = rct_display_name r, ct_emails = map contact_email_of_raw (rct_emails r),
     ct_phones = map contact_phone_of_raw (rct_phones r), ct_company = rct_company r, ct_job_title = rct_job_title r,
     ct_department = rct_department r, ct_notes = rct_notes r, ct_groups = rct_groups r,
     malformed_vcard = rct_malformed_vcard r\<rparr>"

definition contact_create_op :: "raw_contact \<Rightarrow> change_op" where
  "contact_create_op r = ContactCreate (contact_of_raw r (or_else (rct_account_id r) []))"

record contact_update_fields =
  cuf_display_name :: "string option"
  cuf_folder_id :: "string option"
  cuf_emails :: "contact_email list option"
  cuf_phones :: "contact_phone list option"
  cuf_company :: "string option"
  cuf_job_title :: "string option"
  cuf_department :: "string option"
  cuf_notes :: "string option"

definition contact_email_value :: "contact_email \<Rightarrow> json" where
  "contact_email_value e = jobj ((''address'', JString (ce_address e)) # field_if ''name'' JString (ce_name e))"

definition contact_phone_value :: "contact_phone \<Rightarrow> json" where
  "contact_phone_value p = jobj ((''number'', JString (cp_number p)) # field_if ''kind'' JString (cp_kind p))"

definition contact_update_op :: "string \<Rightarrow> contact_update_fields \<Rightarrow> string + change_op" where
  "contact_update_op i u =
     (let patch = field_if ''display_name'' JString (cuf_display_name u) @ field_if ''folder_id'' JString (cuf_folder_id u) @
        field_if ''emails'' (\<lambda>es. JArray (map contact_email_value es)) (cuf_emails u) @
        field_if ''phones'' (\<lambda>ps. JArray (map contact_phone_value ps)) (cuf_phones u) @
        field_if ''company'' JString (cuf_company u) @ field_if ''job_title'' JString (cuf_job_title u) @
        field_if ''department'' JString (cuf_department u) @ field_if ''notes'' JString (cuf_notes u) in
      if patch = [] then Inl no_field else Inr (ContactUpdate i (jobj patch)))"

subsection \<open>Appliers\<close>

text \<open>
  The fields of a patch in the order of its map, applied in place: an error leaves the fields before it applied.
\<close>

fun fields_in_place :: "(string \<Rightarrow> json \<Rightarrow> 'a \<Rightarrow> string + 'a) \<Rightarrow> (string \<times> json) list \<Rightarrow> 'a \<Rightarrow> 'a \<times> string option" where
  "fields_in_place field [] x = (x, None)"
| "fields_in_place field ((k, v) # kvs) x =
     (case field k v x of Inl e \<Rightarrow> (x, Some e) | Inr x' \<Rightarrow> fields_in_place field kvs x')"

definition patch_in_place :: "(string \<Rightarrow> json \<Rightarrow> 'a \<Rightarrow> string + 'a) \<Rightarrow> json \<Rightarrow> 'a \<Rightarrow> 'a \<times> string option" where
  "patch_in_place field patch x =
     (case as_object patch of
        None \<Rightarrow> (x, Some ''patch must be an object'')
      | Some kvs \<Rightarrow> fields_in_place field kvs x)"

text \<open>The same on a clone that is dropped on an error.\<close>

definition patch_clone :: "(string \<Rightarrow> json \<Rightarrow> 'a \<Rightarrow> string + 'a) \<Rightarrow> json \<Rightarrow> 'a \<Rightarrow> string + 'a" where
  "patch_clone field patch x =
     (case patch_in_place field patch x of (x', None) \<Rightarrow> Inr x' | (_, Some e) \<Rightarrow> Inl e)"

definition unknown_field :: "string \<Rightarrow> string + 'a" where
  "unknown_field k = Inl (''unknown patch field '' @ debug_str k)"

definition string_or_null :: "json \<Rightarrow> string \<Rightarrow> string + string option" where
  "string_or_null v name =
     (case v of JNull \<Rightarrow> Inr None | JString s \<Rightarrow> Inr (Some s) | _ \<Rightarrow> Inl (name @ '' must be a string or null''))"

definition string_or :: "json \<Rightarrow> string \<Rightarrow> string + string" where
  "string_or v e = (case as_str v of None \<Rightarrow> Inl e | Some s \<Rightarrow> Inr s)"

definition contact_folder_field :: "string \<Rightarrow> json \<Rightarrow> contact_folder \<Rightarrow> string + contact_folder" where
  "contact_folder_field k v c =
     (if k = ''display_name'' then
        and_then (string_or v ''display_name must be a string'') (\<lambda>s. Inr (c\<lparr>cf_display_name := s\<rparr>))
      else if k = ''parent_folder_id'' then
        and_then (string_or_null v k) (\<lambda>s. Inr (c\<lparr>cf_parent_folder_id := s\<rparr>))
      else unknown_field k)"

definition apply_contact_folder_patch :: "json \<Rightarrow> contact_folder \<Rightarrow> string + contact_folder" where
  "apply_contact_folder_patch = patch_clone contact_folder_field"

text \<open>One entry of an \<open>emails\<close> or \<open>phones\<close> array.\<close>

definition patch_entry :: "string \<Rightarrow> string \<Rightarrow> string \<Rightarrow> (string \<Rightarrow> string option \<Rightarrow> 'a) \<Rightarrow> json \<Rightarrow> string + 'a" where
  "patch_entry kind needed optional mk v =
     (case Option.bind (jget needed v) as_str of
        None \<Rightarrow> Inl (kind @ '' entry missing '' @ needed)
      | Some s \<Rightarrow> Inr (mk s (Option.bind (jget optional v) as_str)))"

definition patch_entries ::
    "string \<Rightarrow> string \<Rightarrow> string \<Rightarrow> (string \<Rightarrow> string option \<Rightarrow> 'a) \<Rightarrow> json \<Rightarrow> string + 'a list" where
  "patch_entries kind needed optional mk v =
     (case as_array v of
        None \<Rightarrow> Inl (kind @ '' must be an array'')
      | Some vs \<Rightarrow> map_result (patch_entry kind needed optional mk) vs)"

definition change_contact_field :: "contact_folder list \<Rightarrow> string \<Rightarrow> json \<Rightarrow> contact \<Rightarrow> string + contact" where
  "change_contact_field folders k v c =
     (if k = ''display_name'' then and_then (string_or_null v k) (\<lambda>s. Inr (c\<lparr>ct_display_name := s\<rparr>))
      else if k = ''folder_id'' then
        and_then (string_or v ''folder_id must be a string'') (\<lambda>i.
          if i \<notin> cf_id ` set folders then Inl (''folder_id '' @ debug_str i @ '' not in fixture'')
          else if i \<noteq> ct_folder_id c
          then Inl (''folder_id update from '' @ debug_str (ct_folder_id c) @ '' to '' @ debug_str i @
                 '' not supported - issue contact_destroy + contact_create instead'')
          else Inr c)
      else if k = ''emails'' then
        and_then (patch_entries k ''address'' ''name'' contact_email.make v) (\<lambda>es. Inr (c\<lparr>ct_emails := es\<rparr>))
      else if k = ''phones'' then
        and_then (patch_entries k ''number'' ''kind'' contact_phone.make v) (\<lambda>ps. Inr (c\<lparr>ct_phones := ps\<rparr>))
      else if k = ''company'' then and_then (string_or_null v k) (\<lambda>s. Inr (c\<lparr>ct_company := s\<rparr>))
      else if k = ''job_title'' then and_then (string_or_null v k) (\<lambda>s. Inr (c\<lparr>ct_job_title := s\<rparr>))
      else if k = ''department'' then and_then (string_or_null v k) (\<lambda>s. Inr (c\<lparr>ct_department := s\<rparr>))
      else if k = ''notes'' then and_then (string_or_null v k) (\<lambda>s. Inr (c\<lparr>ct_notes := s\<rparr>))
      else unknown_field k)"

text \<open>\<open>apply_contact_patch\<close> of \<open>src/fixture.rs\<close>.\<close>

definition change_contact_patch :: "contact_folder list \<Rightarrow> json \<Rightarrow> contact \<Rightarrow> string + contact" where
  "change_contact_patch folders = patch_clone (change_contact_field folders)"

definition change_event_field :: "(string \<Rightarrow> string + timestamp) \<Rightarrow> string \<Rightarrow> json \<Rightarrow> event \<Rightarrow> string + event" where
  "change_event_field parse k v e =
     (if k = ''subject'' then and_then (string_or v ''subject must be a string'') (\<lambda>s. Inr (e\<lparr>ev_subject := s\<rparr>))
      else if k = ''start'' then
        and_then (string_or v ''start must be an RFC3339 string'') (\<lambda>s.
        and_then (load_ts parse s) (\<lambda>t. Inr (e\<lparr>ev_start := t\<rparr>)))
      else if k = ''end'' then
        and_then (string_or v ''end must be an RFC3339 string'') (\<lambda>s.
        and_then (load_ts parse s) (\<lambda>t. Inr (e\<lparr>ev_end := t\<rparr>)))
      else if k = ''location'' then and_then (string_or_null v k) (\<lambda>s. Inr (e\<lparr>ev_location := s\<rparr>))
      else if k = ''body_text'' then and_then (string_or_null v k) (\<lambda>s. Inr (e\<lparr>event.body_text := s\<rparr>))
      else unknown_field k)"

definition apply_change_event_patch :: "(string \<Rightarrow> string + timestamp) \<Rightarrow> json \<Rightarrow> event \<Rightarrow> event \<times> string option" where
  "apply_change_event_patch parse = patch_in_place (change_event_field parse)"

subsection \<open>One step\<close>

text \<open>What a step is checked against: the baseline's mailboxes, their accounts, and the accounts.\<close>

record baseline =
  bl_mailboxes :: "string list"
  bl_accounts :: "(string \<times> string) list"
  bl_account_ids :: "string list"

definition email_create_op :: "load_env \<Rightarrow> baseline \<Rightarrow> raw_email \<Rightarrow> string + change_op" where
  "email_create_op env b em = and_then
     (normalize_email env (bl_mailboxes b) (Some (bl_accounts b)) (Some (bl_account_ids b)) em) (\<lambda>e. Inr (EmailCreate e))"

definition normalize_email_create :: "load_env \<Rightarrow> baseline \<Rightarrow> string \<Rightarrow> raw_email \<Rightarrow> string + change_op" where
  "normalize_email_create env b step em =
     (let label = ''change step '' @ debug_str step @ '': email_create entry '' @ debug_str (rem_id em) @ '': '' in
      if rem_attachments em \<noteq> [] then Inl (label @ ''attachments are not supported in change scripts (v0)'')
      else map_err (\<lambda>e. label @ e) (email_create_op env b em))"

definition contact_update_fields_of_raw :: "raw_contact_update \<Rightarrow> contact_update_fields" where
  "contact_update_fields_of_raw u = \<lparr>cuf_display_name = rcu_display_name u, cuf_folder_id = rcu_folder_id u,
     cuf_emails = map_option (map contact_email_of_raw) (rcu_emails u),
     cuf_phones = map_option (map contact_phone_of_raw) (rcu_phones u), cuf_company = rcu_company u,
     cuf_job_title = rcu_job_title u, cuf_department = rcu_department u, cuf_notes = rcu_notes u\<rparr>"

text \<open>The kinds of operation in the order of the loops; \<open>inr_all\<close> is a kind whose entries are never refused.\<close>

definition inr_all :: "('a \<Rightarrow> change_op) \<Rightarrow> 'a list \<Rightarrow> string + change_op list" where
  "inr_all g xs = Inr (map g xs)"

definition labelled :: "string \<Rightarrow> string \<Rightarrow> ('a \<Rightarrow> string) \<Rightarrow> ('a \<Rightarrow> string + change_op) \<Rightarrow> 'a list \<Rightarrow> string + change_op list" where
  "labelled step kind of_entry g xs = map_result (\<lambda>x. map_err
     (\<lambda>e. ''change step '' @ debug_str step @ '': '' @ kind @ of_entry x @ e) (g x)) xs"

fun append_results :: "(string + 'a list) list \<Rightarrow> string + 'a list" where
  "append_results [] = Inr []"
| "append_results (r # rs) = and_then r (\<lambda>xs. and_then (append_results rs) (\<lambda>ys. Inr (xs @ ys)))"

definition entry_label :: "('a \<Rightarrow> string) \<Rightarrow> 'a \<Rightarrow> string" where
  "entry_label g x = debug_str (g x) @ '': ''"

definition email_ops :: "load_env \<Rightarrow> baseline \<Rightarrow> raw_change_step \<Rightarrow> (string + change_op list) list" where
  "email_ops env b r = (let step = rcs_id r in
     [map_result (normalize_email_create env b step) (rcs_email_create r),
      labelled step ''email_update entry '' (entry_label reu_id)
        (\<lambda>u. email_update_op (reu_id u) (reu_keywords u) (reu_mailbox_ids u)) (rcs_email_update r),
      labelled step ''email_reaction entry '' (entry_label rre_id)
        (\<lambda>x. email_reaction_op (rre_id x) (rre_reaction_type x) (rre_reaction_count x) (or_else (rre_clear x) False))
        (rcs_email_reaction r),
      labelled step ''email_move entry '' (entry_label rmv_id)
        (\<lambda>m. email_move_op (rmv_id m) (rmv_mailbox_ids m)) (rcs_email_move r),
      inr_all EmailDestroy (rcs_email_destroy r)])"

definition mailbox_ops :: "raw_change_step \<Rightarrow> (string + change_op list) list" where
  "mailbox_ops r = (let step = rcs_id r in
     [labelled step ''mailbox_create '' (entry_label rmb_id) mailbox_create_op (rcs_mailbox_create r),
      labelled step ''mailbox_update entry '' (entry_label rmu_id)
        (\<lambda>u. mailbox_update_op (rmu_id u) (rmu_name u) (rmu_parent_id u) (rmu_sort_order u) (rmu_role u)
          (rmu_is_subscribed u)) (rcs_mailbox_update r),
      inr_all MailboxDestroy (rcs_mailbox_destroy r)])"

definition event_ops :: "load_env \<Rightarrow> raw_change_step \<Rightarrow> (string + change_op list) list" where
  "event_ops env r = (let step = rcs_id r in
     [labelled step ''event_create '' (\<lambda>_. []) (event_create_op (le_parse_ts env)) (rcs_event_create r),
      labelled step ''event_update entry '' (entry_label rvu_id)
        (\<lambda>u. event_update_op (rvu_id u) (rvu_subject u) (rvu_start u) (rvu_end u) (rvu_location u) (rvu_body_text u))
        (rcs_event_update r),
      inr_all EventDestroy (rcs_event_destroy r)])"

definition contact_ops :: "raw_change_step \<Rightarrow> (string + change_op list) list" where
  "contact_ops r = (let step = rcs_id r in
     [inr_all contact_folder_create_op (rcs_contact_folder_create r),
      labelled step ''contact_folder_update entry '' (entry_label rfu_id)
        (\<lambda>u. contact_folder_update_op (rfu_id u) (rfu_display_name u) (rfu_parent_folder_id u))
        (rcs_contact_folder_update r),
      inr_all ContactFolderDestroy (rcs_contact_folder_destroy r),
      inr_all contact_create_op (rcs_contact_create r),
      labelled step ''contact_update entry '' (entry_label rcu_id)
        (\<lambda>u. contact_update_op (rcu_id u) (contact_update_fields_of_raw u)) (rcs_contact_update r),
      inr_all ContactDestroy (rcs_contact_destroy r)])"

definition group_ops :: "raw_change_step \<Rightarrow> (string + change_op list) list" where
  "group_ops r =
     [inr_all (\<lambda>g. GroupCreate (group_of_raw g)) (rcs_group_create r),
      inr_all (\<lambda>g. GroupUpdate (rgu_id g) (rgu_display_name g) (rgu_mail g) (rgu_group_types g) (rgu_members g))
        (rcs_group_update r),
      inr_all GroupDestroy (rcs_group_destroy r)]"

definition acl_ops :: "raw_change_step \<Rightarrow> (string + change_op list) list" where
  "acl_ops r = (let step = rcs_id r in
     [labelled step ''acl_grant '' (entry_label (\<lambda>a. racl_mailbox_id a @ ''/'' @ racl_identifier a)) acl_grant_op
        (rcs_acl_grant r),
      labelled step ''acl_revoke '' (entry_label (\<lambda>a. rrv_mailbox_id a @ ''/'' @ rrv_identifier a)) acl_revoke_op
        (rcs_acl_revoke r)])"

definition normalize_change_step :: "load_env \<Rightarrow> baseline \<Rightarrow> raw_change_step \<Rightarrow> string + change_step" where
  "normalize_change_step env b r = and_then
     (append_results (email_ops env b r @ mailbox_ops r @ event_ops env r @ contact_ops r @ group_ops r @ acl_ops r))
     (\<lambda>ops. Inr \<lparr>cs_id = rcs_id r, cs_ops = ops\<rparr>)"

end
