(* ===== verification/Change_Script.thy ===== *)
theory Change_Script
  imports Change_Ops Jmap_Set Test_Knobs
begin

text \<open>
  The change script as it runs (\<open>src/test_admin.rs\<close>): one operation of a step on the live fixture, the step with
  its rewind on an error, the cursor. An operation returns the state as it left it and, when it refused, the kind
  and the detail of the error: only \<open>event_update\<close> can have changed something by then.
\<close>

text \<open>What is given: jiff's parser of an instant and serde's printing of a value.\<close>

record change_env =
  ch_parse_ts :: "string \<Rightarrow> string + timestamp"
  ch_show_json :: "json \<Rightarrow> string"

type_synonym op_state = "fixture \<times> mutation_diff \<times> string list"
type_synonym op_result = "op_state \<times> (string \<times> string) option"

definition refuse_op :: "string \<Rightarrow> string \<Rightarrow> op_state \<Rightarrow> op_result" where
  "refuse_op kind detail s = (s, Some (kind, detail))"

definition accept_op :: "op_state \<Rightarrow> op_result" where
  "accept_op s = (s, None)"

text \<open>\<open>op "id": ...\<close>\<close>

definition op_label :: "string \<Rightarrow> string \<Rightarrow> string" where
  "op_label op i = op @ '' '' @ debug_str i @ '': ''"

subsection \<open>Emails\<close>

text \<open>The account of the email's mailboxes, which must exist and agree.\<close>

fun mailboxes_account :: "fixture \<Rightarrow> string \<Rightarrow> string list \<Rightarrow> string option \<Rightarrow> string \<times> string + string option" where
  "mailboxes_account f label [] first = Inr first"
| "mailboxes_account f label (i # is) first =
     (case find (\<lambda>m. mb_id m = i) (mailboxes f) of
        None \<Rightarrow> Inl (''unknownMailbox'', label @ ''mailbox '' @ debug_str i @ '' not in fixture'')
      | Some m \<Rightarrow>
          (case first of
             None \<Rightarrow> mailboxes_account f label is (Some (mb_account_id m))
           | Some prev \<Rightarrow>
               if prev \<noteq> mb_account_id m
               then Inl (''accountMismatch'', label @ ''mailbox '' @ debug_str i @ '' lives in account '' @
                      debug_str (mb_account_id m) @ '' but a sibling mailbox lives in '' @ debug_str prev)
               else mailboxes_account f label is first))"

definition op_email_create :: "email \<Rightarrow> op_state \<Rightarrow> op_result" where
  "op_email_create e = (\<lambda>(f, d, moved). let label = op_label ''email_create email'' (em_id e) in
     case mailboxes_account f label (mailbox_ids e) None of
       Inl (kind, detail) \<Rightarrow> refuse_op kind detail (f, d, moved)
     | Inr first \<Rightarrow>
         let derived = or_else first (primary_id f) in
         if em_account_id e \<noteq> [] \<and> em_account_id e \<noteq> derived
         then refuse_op ''accountMismatch'' (label @ ''declared account '' @ debug_str (em_account_id e) @
                '' disagrees with mailbox-derived '' @ debug_str derived) (f, d, moved)
         else if em_id e \<in> em_id ` set (emails f)
         then refuse_op ''duplicate'' (label @ ''id already exists'') (f, d, moved)
         else accept_op (file_email (em_id e) (e\<lparr>em_account_id := derived\<rparr>) f,
                d\<lparr>email_created := email_created d @ [em_id e]\<rparr>, moved))"

text \<open>The email changed in place, its UIDs, and the marks in the diff.\<close>

definition relabelled :: "fixture \<Rightarrow> string \<Rightarrow> nat \<Rightarrow> email \<Rightarrow> mutation_diff \<Rightarrow> mutation_diff" where
  "relabelled f i n e' d = d\<lparr>email_updated := email_updated d @ [i],
     email_label_changes := email_label_changes d @
       (case gmail_label_change i (gmail_label_ids f (emails f ! n)) (gmail_label_ids f e') of
          None \<Rightarrow> [] | Some c \<Rightarrow> [c])\<rparr>"

definition op_email_update :: "change_env \<Rightarrow> string \<Rightarrow> json \<Rightarrow> op_state \<Rightarrow> op_result" where
  "op_email_update env i patch = (\<lambda>(f, d, moved). let label = op_label ''email_update'' i in
     case email_position f i of
       None \<Rightarrow> refuse_op ''notFound'' (label @ ''no such email'') (f, d, moved)
     | Some n \<Rightarrow>
         (case apply_email_patch patch (emails f ! n) of
            Inl e \<Rightarrow> refuse_op ''invalidPatch'' (label @ ch_show_json env e) (f, d, moved)
          | Inr e' \<Rightarrow> accept_op (patch_email_at i n e' f, relabelled f i n e' d, moved)))"

definition op_email_reaction :: "string \<Rightarrow> string option \<Rightarrow> int option \<Rightarrow> bool \<Rightarrow> op_state \<Rightarrow> op_result" where
  "op_email_reaction i t c clear = (\<lambda>(f, d, moved).
     case email_position f i of
       None \<Rightarrow> refuse_op ''notFound'' (op_label ''email_reaction'' i @ ''no such email'') (f, d, moved)
     | Some n \<Rightarrow>
         let e = emails f ! n;
             e' = (if clear then e\<lparr>reaction_type := None, reaction_count := None\<rparr>
                   else e\<lparr>reaction_type := (case t of Some s \<Rightarrow> Some s | None \<Rightarrow> reaction_type e),
                          reaction_count := (case c of Some k \<Rightarrow> Some k | None \<Rightarrow> reaction_count e)\<rparr>)
         in accept_op (f\<lparr>emails := (emails f)[n := e']\<rparr>, d\<lparr>email_updated := email_updated d @ [i]\<rparr>, moved))"

definition op_email_move :: "string \<Rightarrow> string list \<Rightarrow> op_state \<Rightarrow> op_result" where
  "op_email_move i ms = (\<lambda>(f, d, moved). let label = op_label ''email_move'' i in
     case find (\<lambda>m. m \<notin> mb_id ` set (mailboxes f)) ms of
       Some m \<Rightarrow> refuse_op ''unknownMailbox'' (label @ ''mailbox '' @ debug_str m @ '' not in fixture'') (f, d, moved)
     | None \<Rightarrow>
         (case email_position f i of
            None \<Rightarrow> refuse_op ''notFound'' (label @ ''no such email'') (f, d, moved)
          | Some n \<Rightarrow>
              let e' = (emails f ! n)\<lparr>mailbox_ids := ms\<rparr>
              in accept_op (patch_email_at i n e' f, relabelled f i n e' d, moved @ [i])))"

definition op_email_destroy :: "string \<Rightarrow> op_state \<Rightarrow> op_result" where
  "op_email_destroy i = (\<lambda>(f, d, moved).
     case email_position f i of
       None \<Rightarrow> refuse_op ''notFound'' (op_label ''email_destroy'' i @ ''no such email'') (f, d, moved)
     | Some n \<Rightarrow>
         let e = emails f ! n
         in accept_op (fold (\<lambda>mb. retire_uid mb i) (mailbox_ids e)
                (f\<lparr>emails := take n (emails f) @ drop (Suc n) (emails f)\<rparr>),
              d\<lparr>email_destroyed := email_destroyed d @ [i],
                email_destroyed_accounts := email_destroyed_accounts d @ [em_account_id e]\<rparr>, moved))"

subsection \<open>Mailboxes\<close>

text \<open>
  The account of a resource below an optional parent: the parent's, else the primary account; a declared one must
  be it. The parent is looked up with \<open>parent_account\<close>.
\<close>

definition adopt ::
    "fixture \<Rightarrow> string \<Rightarrow> string \<Rightarrow> (string \<Rightarrow> string option) \<Rightarrow> string option \<Rightarrow> string \<times> string + string" where
  "adopt f label declared parent_account parent =
     (let own = (\<lambda>a. if declared = [] \<or> declared = a then Inr a
        else Inl (''accountMismatch'', label @ ''account '' @ debug_str declared @ '' disagrees with parent '' @ debug_str a))
      in case parent of
           None \<Rightarrow> own (primary_id f)
         | Some p \<Rightarrow> (case parent_account p of
             None \<Rightarrow> Inl (''unknownParent'', label @ ''parent '' @ debug_str p @ '' not in fixture'')
           | Some a \<Rightarrow> own a))"

definition op_mailbox_create :: "mailbox \<Rightarrow> op_state \<Rightarrow> op_result" where
  "op_mailbox_create m = (\<lambda>(f, d, moved). let label = op_label ''mailbox_create'' (mb_id m) in
     if mb_id m \<in> mb_id ` set (mailboxes f)
     then refuse_op ''duplicate'' (label @ ''id already exists'') (f, d, moved)
     else case adopt f label (mb_account_id m)
         (\<lambda>p. map_option mb_account_id (find (\<lambda>x. mb_id x = p) (mailboxes f))) (mb_parent_id m) of
       Inl (kind, detail) \<Rightarrow> refuse_op kind detail (f, d, moved)
     | Inr a \<Rightarrow> accept_op (f\<lparr>mailboxes := mailboxes f @ [m\<lparr>mb_account_id := a\<rparr>]\<rparr>,
         d\<lparr>mailbox_created := mailbox_created d @ [mb_id m]\<rparr>, moved))"

definition op_mailbox_update :: "change_env \<Rightarrow> string \<Rightarrow> json \<Rightarrow> op_state \<Rightarrow> op_result" where
  "op_mailbox_update env i patch = (\<lambda>(f, d, moved). let label = op_label ''mailbox_update'' i in
     case find (\<lambda>m. mb_id m = i) (mailboxes f) of
       None \<Rightarrow> refuse_op ''notFound'' (label @ ''no such mailbox'') (f, d, moved)
     | Some m \<Rightarrow>
         (case apply_mailbox_patch patch m of
            Inl e \<Rightarrow> refuse_op ''invalidPatch'' (label @ ch_show_json env e) (f, d, moved)
          | Inr m' \<Rightarrow> accept_op (f\<lparr>mailboxes := update_first (\<lambda>m. mb_id m = i) (\<lambda>_. m') (mailboxes f)\<rparr>,
              d\<lparr>mailbox_updated := mailbox_updated d @ [i]\<rparr>, moved)))"

definition op_mailbox_destroy :: "string \<Rightarrow> op_state \<Rightarrow> op_result" where
  "op_mailbox_destroy i = (\<lambda>(f, d, moved). let label = op_label ''mailbox_destroy'' i in
     if list_ex (\<lambda>e. i \<in> set (mailbox_ids e)) (emails f)
     then refuse_op ''mailboxHasEmail'' (label @ ''mailbox is referenced by an email'') (f, d, moved)
     else case find (\<lambda>m. mb_id m = i) (mailboxes f) of
       None \<Rightarrow> refuse_op ''notFound'' (label @ ''no such mailbox'') (f, d, moved)
     | Some m \<Rightarrow> accept_op (f\<lparr>mailboxes := filter (\<lambda>m. mb_id m \<noteq> i) (mailboxes f)\<rparr>,
         d\<lparr>mailbox_destroyed := mailbox_destroyed d @ [i],
           mailbox_destroyed_accounts := mailbox_destroyed_accounts d @ [mb_account_id m]\<rparr>, moved))"

subsection \<open>Events\<close>

definition op_event_create :: "event \<Rightarrow> op_state \<Rightarrow> op_result" where
  "op_event_create e = (\<lambda>(f, d, moved). let label = op_label ''event_create'' (ev_id e) in
     case find (\<lambda>c. cal_id c = ev_calendar_id e) (calendars f) of
       None \<Rightarrow> refuse_op ''unknownCalendar'' (label @ ''calendar '' @ debug_str (ev_calendar_id e) @ '' not in fixture'')
         (f, d, moved)
     | Some c \<Rightarrow>
         if ev_account_id e \<noteq> [] \<and> ev_account_id e \<noteq> cal_account_id c
         then refuse_op ''accountMismatch'' (label @ ''declared account '' @ debug_str (ev_account_id e) @
                '' disagrees with calendar's '' @ debug_str (cal_account_id c)) (f, d, moved)
         else if ev_id e \<in> ev_id ` set (events f)
         then refuse_op ''duplicate'' (label @ ''id already exists'') (f, d, moved)
         else accept_op (f\<lparr>events := events f @ [e\<lparr>ev_account_id := cal_account_id c\<rparr>]\<rparr>,
           d\<lparr>event_created := event_created d @ [ev_id e]\<rparr>, moved))"

text \<open>The patch is applied in place: a refused one leaves its first fields changed.\<close>

definition op_event_update :: "change_env \<Rightarrow> string \<Rightarrow> json \<Rightarrow> op_state \<Rightarrow> op_result" where
  "op_event_update env i patch = (\<lambda>(f, d, moved). let label = op_label ''event_update'' i in
     case find (\<lambda>e. ev_id e = i) (events f) of
       None \<Rightarrow> refuse_op ''notFound'' (label @ ''no such event'') (f, d, moved)
     | Some e \<Rightarrow>
         let (e', err) = apply_change_event_patch (ch_parse_ts env) patch e;
             f' = f\<lparr>events := update_first (\<lambda>e. ev_id e = i) (\<lambda>_. e') (events f)\<rparr>
         in case err of
              Some s \<Rightarrow> refuse_op ''invalidPatch'' (label @ s) (f', d, moved)
            | None \<Rightarrow> accept_op (f', d\<lparr>event_updated := event_updated d @ [i]\<rparr>, moved))"

definition op_event_destroy :: "string \<Rightarrow> op_state \<Rightarrow> op_result" where
  "op_event_destroy i = (\<lambda>(f, d, moved).
     case find (\<lambda>e. ev_id e = i) (events f) of
       None \<Rightarrow> refuse_op ''notFound'' (op_label ''event_destroy'' i @ ''no such event'') (f, d, moved)
     | Some e \<Rightarrow> accept_op (f\<lparr>events := filter (\<lambda>e. ev_id e \<noteq> i) (events f)\<rparr>,
         d\<lparr>event_destroyed := event_destroyed d @ [i],
           event_destroyed_parents := event_destroyed_parents d @ [ev_calendar_id e]\<rparr>, moved))"

subsection \<open>Contact folders and contacts\<close>

definition op_contact_folder_create :: "contact_folder \<Rightarrow> op_state \<Rightarrow> op_result" where
  "op_contact_folder_create c = (\<lambda>(f, d, moved). let label = op_label ''contact_folder_create'' (cf_id c) in
     if cf_id c \<in> cf_id ` set (contact_folders f)
     then refuse_op ''duplicate'' (label @ ''id already exists'') (f, d, moved)
     else case adopt f label (cf_account_id c)
         (\<lambda>p. map_option cf_account_id (find (\<lambda>x. cf_id x = p) (contact_folders f))) (cf_parent_folder_id c) of
       Inl (kind, detail) \<Rightarrow> refuse_op kind detail (f, d, moved)
     | Inr a \<Rightarrow> accept_op (f\<lparr>contact_folders := contact_folders f @ [c\<lparr>cf_account_id := a\<rparr>]\<rparr>,
         d\<lparr>contact_folder_created := contact_folder_created d @ [cf_id c]\<rparr>, moved))"

definition op_contact_folder_update :: "string \<Rightarrow> json \<Rightarrow> op_state \<Rightarrow> op_result" where
  "op_contact_folder_update i patch = (\<lambda>(f, d, moved). let label = op_label ''contact_folder_update'' i in
     case find (\<lambda>c. cf_id c = i) (contact_folders f) of
       None \<Rightarrow> refuse_op ''notFound'' (label @ ''no such folder'') (f, d, moved)
     | Some c \<Rightarrow>
         (case apply_contact_folder_patch patch c of
            Inl e \<Rightarrow> refuse_op ''invalidPatch'' (label @ e) (f, d, moved)
          | Inr c' \<Rightarrow> accept_op (f\<lparr>contact_folders := update_first (\<lambda>c. cf_id c = i) (\<lambda>_. c') (contact_folders f)\<rparr>,
              d\<lparr>contact_folder_updated := contact_folder_updated d @ [i]\<rparr>, moved)))"

definition op_contact_folder_destroy :: "string \<Rightarrow> op_state \<Rightarrow> op_result" where
  "op_contact_folder_destroy i = (\<lambda>(f, d, moved). let label = op_label ''contact_folder_destroy'' i in
     if i \<in> ct_folder_id ` set (contacts f)
     then refuse_op ''folderHasContacts'' (label @ ''folder still has contacts'') (f, d, moved)
     else case find (\<lambda>c. cf_id c = i) (contact_folders f) of
       None \<Rightarrow> refuse_op ''notFound'' (label @ ''no such folder'') (f, d, moved)
     | Some c \<Rightarrow> accept_op (f\<lparr>contact_folders := filter (\<lambda>c. cf_id c \<noteq> i) (contact_folders f)\<rparr>,
         d\<lparr>contact_folder_destroyed := contact_folder_destroyed d @ [i],
           contact_folder_destroyed_accounts := contact_folder_destroyed_accounts d @ [cf_account_id c]\<rparr>, moved))"

definition op_contact_create :: "contact \<Rightarrow> op_state \<Rightarrow> op_result" where
  "op_contact_create c = (\<lambda>(f, d, moved). let label = op_label ''contact_create'' (ct_id c) in
     case find (\<lambda>k. cf_id k = ct_folder_id c) (contact_folders f) of
       None \<Rightarrow> refuse_op ''unknownFolder'' (label @ ''folder '' @ debug_str (ct_folder_id c) @ '' not in fixture'') (f, d, moved)
     | Some k \<Rightarrow>
         if ct_account_id c \<noteq> [] \<and> ct_account_id c \<noteq> cf_account_id k
         then refuse_op ''accountMismatch'' (label @ ''account '' @ debug_str (ct_account_id c) @
                '' disagrees with folder's '' @ debug_str (cf_account_id k)) (f, d, moved)
         else if ct_id c \<in> ct_id ` set (contacts f)
         then refuse_op ''duplicate'' (label @ ''id already exists'') (f, d, moved)
         else accept_op (f\<lparr>contacts := contacts f @ [c\<lparr>ct_account_id := cf_account_id k\<rparr>]\<rparr>,
           d\<lparr>contact_created := contact_created d @ [ct_id c]\<rparr>, moved))"

definition op_contact_update :: "string \<Rightarrow> json \<Rightarrow> op_state \<Rightarrow> op_result" where
  "op_contact_update i patch = (\<lambda>(f, d, moved). let label = op_label ''contact_update'' i in
     case find (\<lambda>c. ct_id c = i) (contacts f) of
       None \<Rightarrow> refuse_op ''notFound'' (label @ ''no such contact'') (f, d, moved)
     | Some c \<Rightarrow>
         (case change_contact_patch (contact_folders f) patch c of
            Inl e \<Rightarrow> refuse_op ''invalidPatch'' (label @ e) (f, d, moved)
          | Inr c' \<Rightarrow> accept_op (f\<lparr>contacts := update_first (\<lambda>c. ct_id c = i) (\<lambda>_. c') (contacts f)\<rparr>,
              d\<lparr>contact_updated := contact_updated d @ [i]\<rparr>, moved)))"

definition op_contact_destroy :: "string \<Rightarrow> op_state \<Rightarrow> op_result" where
  "op_contact_destroy i = (\<lambda>(f, d, moved).
     case find (\<lambda>c. ct_id c = i) (contacts f) of
       None \<Rightarrow> refuse_op ''notFound'' (op_label ''contact_destroy'' i @ ''no such contact'') (f, d, moved)
     | Some c \<Rightarrow> accept_op (f\<lparr>contacts := filter (\<lambda>c. ct_id c \<noteq> i) (contacts f)\<rparr>,
         d\<lparr>contact_destroyed := contact_destroyed d @ [i],
           contact_destroyed_parents := contact_destroyed_parents d @ [ct_folder_id c]\<rparr>, moved))"

subsection \<open>Groups and grants\<close>

definition undeclared_member :: "fixture \<Rightarrow> string list \<Rightarrow> bool" where
  "undeclared_member f ms = list_ex (\<lambda>m. m \<notin> ac_id ` set (accounts f)) ms"

definition op_group_create :: "group \<Rightarrow> op_state \<Rightarrow> op_result" where
  "op_group_create g = (\<lambda>(f, d, moved).
     if gr_id g \<in> gr_id ` set (groups f)
     then refuse_op ''duplicate'' (op_label ''group_create'' (gr_id g) @ ''id already exists'') (f, d, moved)
     else if undeclared_member f (gr_members g)
     then refuse_op ''unknownAccount'' ''group_create member not declared'' (f, d, moved)
     else accept_op (f\<lparr>groups := groups f @ [g]\<rparr>, d, moved))"

definition op_group_update ::
    "string \<Rightarrow> string option \<Rightarrow> string option option \<Rightarrow> string list option \<Rightarrow> string list option \<Rightarrow> op_state \<Rightarrow> op_result" where
  "op_group_update i name mail kinds ms = (\<lambda>(f, d, moved).
     if undeclared_member f (or_else ms [])
     then refuse_op ''unknownAccount'' ''group_update member not declared'' (f, d, moved)
     else if i \<notin> gr_id ` set (groups f)
     then refuse_op ''notFound'' (op_label ''group_update'' i @ ''no such group'') (f, d, moved)
     else accept_op (f\<lparr>groups := update_first (\<lambda>g. gr_id g = i) (\<lambda>g. g\<lparr>
            gr_display_name := or_else name (gr_display_name g), gr_mail := or_else mail (gr_mail g),
            group_types := or_else kinds (group_types g), gr_members := or_else ms (gr_members g)\<rparr>) (groups f)\<rparr>,
          d, moved))"

definition op_group_destroy :: "string \<Rightarrow> op_state \<Rightarrow> op_result" where
  "op_group_destroy i = (\<lambda>(f, d, moved).
     if i \<notin> gr_id ` set (groups f)
     then refuse_op ''notFound'' (op_label ''group_destroy'' i @ ''no such group'') (f, d, moved)
     else accept_op (f\<lparr>groups := filter (\<lambda>g. gr_id g \<noteq> i) (groups f)\<rparr>, d, moved))"

definition is_grant :: "string \<Rightarrow> string \<Rightarrow> acl_grant \<Rightarrow> bool" where
  "is_grant m i a \<longleftrightarrow> acl_mailbox_id a = m \<and> acl_identifier a = i"

definition op_acl_grant :: "string \<Rightarrow> string \<Rightarrow> string \<Rightarrow> op_state \<Rightarrow> op_result" where
  "op_acl_grant m i rights = (\<lambda>(f, d, moved).
     let label = ''acl_grant on '' @ debug_str m @ '': ''; who = label @ ''identifier '' @ debug_str i in
     case find (\<lambda>b. mb_id b = m) (mailboxes f) of
       None \<Rightarrow> refuse_op ''unknownMailbox'' (op_label ''acl_grant'' m @ ''mailbox not in fixture'') (f, d, moved)
     | Some b \<Rightarrow>
         if find_account f i = None
         then refuse_op ''unknownAccount'' (who @ '' does not match any declared account'') (f, d, moved)
         else if mb_account_id b = i
         then refuse_op ''ownerGrant'' (who @ '' owns the mailbox (owner rights are implicit)'') (f, d, moved)
         else let granted = d\<lparr>acl_granted := acl_granted d @
             [\<lparr>ar_mailbox_id = m, ar_identifier = i, owner_account_id = mb_account_id b\<rparr>]\<rparr> in
           (case find (is_grant m i) (acls f) of
              Some a \<Rightarrow>
                if acl_rights a = rights
                then refuse_op ''duplicate'' (label @ debug_str i @ '' already holds '' @ debug_str rights) (f, d, moved)
                else accept_op (f\<lparr>acls := update_first (is_grant m i) (\<lambda>a. a\<lparr>acl_rights := rights\<rparr>) (acls f)\<rparr>,
                  granted, moved)
            | None \<Rightarrow> accept_op (f\<lparr>acls := acls f @
                [\<lparr>acl_mailbox_id = m, acl_identifier = i, acl_rights = rights\<rparr>]\<rparr>, granted, moved)))"

definition op_acl_revoke :: "string \<Rightarrow> string \<Rightarrow> op_state \<Rightarrow> op_result" where
  "op_acl_revoke m i = (\<lambda>(f, d, moved).
     if \<not> list_ex (is_grant m i) (acls f)
     then refuse_op ''notFound'' (''acl_revoke on '' @ debug_str m @ '': no grant for '' @ debug_str i) (f, d, moved)
     else accept_op (f\<lparr>acls := remove_first (is_grant m i) (acls f)\<rparr>,
       d\<lparr>acl_revoked := acl_revoked d @ [\<lparr>ar_mailbox_id = m, ar_identifier = i,
         owner_account_id = or_else (map_option mb_account_id (mailbox_by_id f m)) (primary_id f)\<rparr>]\<rparr>, moved))"

subsection \<open>A step\<close>

fun apply_op :: "change_env \<Rightarrow> change_op \<Rightarrow> op_state \<Rightarrow> op_result" where
  "apply_op env (EmailCreate e) = op_email_create e"
| "apply_op env (EmailUpdate i patch) = op_email_update env i patch"
| "apply_op env (EmailReaction i t c clear) = op_email_reaction i t c clear"
| "apply_op env (EmailMove i ms) = op_email_move i ms"
| "apply_op env (EmailDestroy i) = op_email_destroy i"
| "apply_op env (MailboxCreate m) = op_mailbox_create m"
| "apply_op env (MailboxUpdate i patch) = op_mailbox_update env i patch"
| "apply_op env (MailboxDestroy i) = op_mailbox_destroy i"
| "apply_op env (EventCreate e) = op_event_create e"
| "apply_op env (EventUpdate i patch) = op_event_update env i patch"
| "apply_op env (EventDestroy i) = op_event_destroy i"
| "apply_op env (ContactFolderCreate c) = op_contact_folder_create c"
| "apply_op env (ContactFolderUpdate i patch) = op_contact_folder_update i patch"
| "apply_op env (ContactFolderDestroy i) = op_contact_folder_destroy i"
| "apply_op env (ContactCreate c) = op_contact_create c"
| "apply_op env (ContactUpdate i patch) = op_contact_update i patch"
| "apply_op env (ContactDestroy i) = op_contact_destroy i"
| "apply_op env (GroupCreate g) = op_group_create g"
| "apply_op env (GroupUpdate i name mail kinds ms) = op_group_update i name mail kinds ms"
| "apply_op env (GroupDestroy i) = op_group_destroy i"
| "apply_op env (AclGrant m i rights) = op_acl_grant m i rights"
| "apply_op env (AclRevoke m i) = op_acl_revoke m i"

definition step_apply_error :: "string \<Rightarrow> nat \<Rightarrow> string \<Rightarrow> string \<Rightarrow> nat \<times> json" where
  "step_apply_error step i kind detail = (422, jobj [(''error'', JString ''step apply failed''), (''step'', JString step),
     (''op_index'', jnat i), (''kind'', JString kind), (''detail'', JString detail)])"

fun apply_ops :: "change_env \<Rightarrow> string \<Rightarrow> nat \<Rightarrow> change_op list \<Rightarrow> op_state \<Rightarrow> op_state \<times> (nat \<times> json) option" where
  "apply_ops env step n [] s = (s, None)"
| "apply_ops env step n (op # ops) s =
     (case apply_op env op s of
        (s', None) \<Rightarrow> apply_ops env step (Suc n) ops s'
      | (s', Some (kind, detail)) \<Rightarrow> (s', Some (step_apply_error step n kind detail)))"

definition apply_change_step :: "change_env \<Rightarrow> change_step \<Rightarrow> op_state \<Rightarrow> op_state \<times> (nat \<times> json) option" where
  "apply_change_step env step s = apply_ops env (cs_id step) 0 (cs_ops step) s"

record step_touches =
  st_emails :: bool
  st_mailboxes :: bool
  st_events :: bool
  st_contacts :: bool
  st_contact_folders :: bool
  st_acls :: bool
  st_groups :: bool

definition touches_none :: step_touches where
  "touches_none = \<lparr>st_emails = False, st_mailboxes = False, st_events = False, st_contacts = False,
     st_contact_folders = False, st_acls = False, st_groups = False\<rparr>"

fun touch :: "change_op \<Rightarrow> step_touches \<Rightarrow> step_touches" where
  "touch (EmailCreate _) t = t\<lparr>st_emails := True\<rparr>"
| "touch (EmailUpdate _ _) t = t\<lparr>st_emails := True\<rparr>"
| "touch (EmailReaction _ _ _ _) t = t\<lparr>st_emails := True\<rparr>"
| "touch (EmailMove _ _) t = t\<lparr>st_emails := True\<rparr>"
| "touch (EmailDestroy _) t = t\<lparr>st_emails := True\<rparr>"
| "touch (MailboxCreate _) t = t\<lparr>st_mailboxes := True\<rparr>"
| "touch (MailboxUpdate _ _) t = t\<lparr>st_mailboxes := True\<rparr>"
| "touch (MailboxDestroy _) t = t\<lparr>st_mailboxes := True\<rparr>"
| "touch (EventCreate _) t = t\<lparr>st_events := True\<rparr>"
| "touch (EventUpdate _ _) t = t\<lparr>st_events := True\<rparr>"
| "touch (EventDestroy _) t = t\<lparr>st_events := True\<rparr>"
| "touch (ContactCreate _) t = t\<lparr>st_contacts := True\<rparr>"
| "touch (ContactUpdate _ _) t = t\<lparr>st_contacts := True\<rparr>"
| "touch (ContactDestroy _) t = t\<lparr>st_contacts := True\<rparr>"
| "touch (ContactFolderCreate _) t = t\<lparr>st_contact_folders := True\<rparr>"
| "touch (ContactFolderUpdate _ _) t = t\<lparr>st_contact_folders := True\<rparr>"
| "touch (ContactFolderDestroy _) t = t\<lparr>st_contact_folders := True\<rparr>"
| "touch (AclGrant _ _ _) t = t\<lparr>st_acls := True\<rparr>"
| "touch (AclRevoke _ _) t = t\<lparr>st_acls := True\<rparr>"
| "touch (GroupCreate _) t = t\<lparr>st_groups := True\<rparr>"
| "touch (GroupUpdate _ _ _ _ _) t = t\<lparr>st_groups := True\<rparr>"
| "touch (GroupDestroy _) t = t\<lparr>st_groups := True\<rparr>"

definition touches_from_step :: "change_step \<Rightarrow> step_touches" where
  "touches_from_step step = fold touch (cs_ops step) touches_none"

text \<open>The saved sections put back: the fixture \<open>g\<close> as the step left it, \<open>f\<close> as it was.\<close>

definition rewind :: "step_touches \<Rightarrow> fixture \<Rightarrow> fixture \<Rightarrow> fixture" where
  "rewind t f g = g\<lparr>
     emails := (if st_emails t then emails f else emails g),
     mailboxes := (if st_mailboxes t then mailboxes f else mailboxes g),
     events := (if st_events t then events f else events g),
     contacts := (if st_contacts t then contacts f else contacts g),
     contact_folders := (if st_contact_folders t then contact_folders f else contact_folders g),
     mailbox_uid_history := (if st_emails t then mailbox_uid_history f else mailbox_uid_history g),
     acls := (if st_acls t then acls f else acls g),
     groups := (if st_groups t then groups f else groups g)\<rparr>"

subsection \<open>The cursor\<close>

text \<open>What the push hub is told of one account.\<close>

record account_push =
  ap_account_id :: string
  ap_state :: string
  ap_history_id :: nat
  ap_has_calendars :: bool
  ap_has_contacts :: bool
  ap_change_type :: string
  ap_resource_id :: "string option"
  ap_email_address :: string

record applied_step =
  as_step_id :: string
  as_fixture_name :: string
  as_cursor_after :: nat
  as_new_state :: string
  as_trans :: transition
  as_moved :: "string list"

datatype step_result = Exhausted string | AppliedStep applied_step

definition push_change_type :: "transition \<Rightarrow> string" where
  "push_change_type t =
     (if email_created t \<noteq> [] then ''created'' else if email_destroyed t \<noteq> [] then ''deleted'' else ''updated'')"

definition push_resource_id :: "transition \<Rightarrow> string option" where
  "push_resource_id t =
     (case email_created t @ email_updated t @ email_destroyed t of [] \<Rightarrow> None | i # _ \<Rightarrow> Some i)"

definition account_push_for :: "fixture \<Rightarrow> transition \<Rightarrow> string \<Rightarrow> account_push" where
  "account_push_for f t a = \<lparr>ap_account_id = a, ap_state = state_for f a, ap_history_id = gmail_history_id f a,
     ap_has_calendars = (calendars_for f a \<noteq> []), ap_has_contacts = (contact_folders_for f a \<noteq> []),
     ap_change_type = push_change_type t, ap_resource_id = push_resource_id t,
     ap_email_address = or_else (map_option ac_name (find_account f a)) []\<rparr>"

text \<open>
  \<open>advance_change_cursor\<close> under its two locks: the outcome, the new cursor and fixture, and the pushes given to
  the hub.
\<close>

definition expect_mismatch :: "string \<Rightarrow> string \<Rightarrow> nat \<times> json" where
  "expect_mismatch step want = (409, jobj [(''error'', JString ''expect mismatch''),
     (''detail'', JString (''cursor is at '' @ debug_str step @ ''; got expect='' @ debug_str want)),
     (''cursor_step'', JString step), (''expect'', JString want)])"

definition advance_change_cursor ::
    "change_env \<Rightarrow> string option \<Rightarrow> nat \<times> fixture \<Rightarrow> ((nat \<times> json) + step_result) \<times> (nat \<times> fixture) \<times> account_push list" where
  "advance_change_cursor env expect = (\<lambda>(cursor, f).
     if cursor \<ge> length (change_script f) then (Inr (Exhausted (fx_name f)), (cursor, f), [])
     else let step = change_script f ! cursor in
     if expect \<noteq> None \<and> expect \<noteq> Some (cs_id step)
     then (Inl (expect_mismatch (cs_id step) (the expect)), (cursor, f), [])
     else case apply_change_step env step (f, diff_default, []) of
       ((g, d, moved), Some e) \<Rightarrow> (Inl e, (cursor, rewind (touches_from_step step) f g), [])
     | ((g, d, moved), None) \<Rightarrow>
         let (t, f') = record_transition d g
         in (Inr (AppliedStep \<lparr>as_step_id = cs_id step, as_fixture_name = fx_name f', as_cursor_after = cursor + 1,
                as_new_state = primary_state f', as_trans = t, as_moved = moved\<rparr>),
             (cursor + 1, f'), map (account_push_for f' t) (accounts_touched f' d)))"

subsection \<open>The endpoint\<close>

definition jstrs :: "string list \<Rightarrow> json" where
  "jstrs xs = JArray (map JString xs)"

definition acl_refs :: "acl_ref list \<Rightarrow> json" where
  "acl_refs rs = JArray (map (\<lambda>a. jobj [(''mailbox_id'', JString (ar_mailbox_id a)),
     (''identifier'', JString (ar_identifier a)), (''owner_account_id'', JString (owner_account_id a))]) rs)"

definition kinds_report :: "string list \<Rightarrow> string list \<Rightarrow> string list \<Rightarrow> (string \<times> json) list" where
  "kinds_report c u d = [(''created'', jstrs c), (''updated'', jstrs u), (''destroyed'', jstrs d)]"

definition step_report :: "applied_step \<Rightarrow> json" where
  "step_report a = (let t = as_trans a in
     jobj [(''ok'', JBool True), (''fixture'', JString (as_fixture_name a)), (''step'', JString (as_step_id a)),
       (''applied'', jnat 1), (''cursor'', jnat (as_cursor_after a)),
       (''changes'', jobj [
          (''emails'', jobj (kinds_report (email_created t) (email_updated t) (email_destroyed t) @
             [(''moved'', jstrs (as_moved a))])),
          (''mailboxes'', jobj (kinds_report (mailbox_created t) (mailbox_updated t) (mailbox_destroyed t))),
          (''events'', jobj (kinds_report (event_created t) (event_updated t) (event_destroyed t))),
          (''contact_folders'', jobj (kinds_report (contact_folder_created t) (contact_folder_updated t)
             (contact_folder_destroyed t))),
          (''contacts'', jobj (kinds_report (contact_created t) (contact_updated t) (contact_destroyed t))),
          (''acls'', jobj [(''granted'', acl_refs (acl_granted t)), (''revoked'', acl_refs (acl_revoked t))])]),
       (''state'', JString (as_new_state a))])"

definition malformed_body :: "string \<Rightarrow> nat \<times> json" where
  "malformed_body detail = (400, jobj [(''error'', JString ''malformed body''), (''detail'', JString detail)])"

text \<open>The \<open>expect\<close> of a request body; an absent body and \<open>null\<close> count as \<open>{}\<close>.\<close>

definition expect_of_body :: "json option \<Rightarrow> (nat \<times> json) + string option" where
  "expect_of_body body =
     (case body of
        None \<Rightarrow> Inr None
      | Some JNull \<Rightarrow> Inr None
      | Some (JObject kvs) \<Rightarrow>
          (case map_of kvs ''expect'' of
             None \<Rightarrow> Inr None
           | Some (JString s) \<Rightarrow> Inr (Some s)
           | Some _ \<Rightarrow> Inl (malformed_body ''`expect` must be a string when present''))
      | Some _ \<Rightarrow> Inl (malformed_body ''expected an object or empty body''))"

definition step_fixture ::
    "change_env \<Rightarrow> json option \<Rightarrow> nat \<times> fixture \<Rightarrow> (nat \<times> json) \<times> (nat \<times> fixture) \<times> account_push list" where
  "step_fixture env body s =
     (case expect_of_body body of
        Inl e \<Rightarrow> (e, s, [])
      | Inr expect \<Rightarrow>
          let (r, s', pushes) = advance_change_cursor env expect s
          in ((case r of
                 Inl e \<Rightarrow> e
               | Inr (Exhausted name) \<Rightarrow> (200, jobj [(''ok'', JBool True), (''fixture'', JString name), (''step'', JNull),
                   (''applied'', JBool False)])
               | Inr (AppliedStep a) \<Rightarrow> (200, step_report a)), s', pushes))"

end
