(* ===== verification/Push_Hub.thy ===== *)
theory Push_Hub
  imports Change_Script Gmail_Labels
begin

text \<open>
  The push hub (\<open>src/push.rs\<close>): who listens, what has been sent, and the fan-out of a state advance to the JMAP
  WebSockets, the IMAP connections in IDLE, Pub/Sub, the Graph webhooks and the EWS queues. The hub is one value;
  an operation returns it updated. A channel is the list of what was sent on it, with a flag that says whether its
  receiver is still there. \<open>show\<close> is serde's printing.
\<close>

subsection \<open>Namespaces\<close>

datatype push_namespace = Personal | Shared | Public

fun namespace_as_str :: "push_namespace \<Rightarrow> string" where
  "namespace_as_str Personal = ''personal''"
| "namespace_as_str Shared = ''shared''"
| "namespace_as_str Public = ''public''"

definition emits :: "push_namespace \<Rightarrow> bool" where
  "emits ns \<longleftrightarrow> ns \<noteq> Public"

definition namespace_for_resource :: "string \<Rightarrow> push_namespace" where
  "namespace_for_resource r =
     (let lower = to_lower (dropWhile (\<lambda>c. c = CHR ''/'') r) in
      if prefix ''publicfolders'' lower \<or> prefix ''publicfolderroot'' lower \<or> prefix ''publicfoldersroot'' lower \<or>
         contains_sub ''/publicfolders'' lower then Public
      else if prefix ''users/'' lower then Shared else Personal)"

subsection \<open>The registries\<close>

record jmap_listener =
  jl_account_id :: string
  jl_alive :: bool
  jl_frames :: "string list"

record imap_idle_listener =
  il_account_id :: string
  il_alive :: bool
  il_wakes :: nat

record ews_subscription =
  ews_id :: string
  ews_account_id :: string

record graph_subscription =
  gsu_id :: string
  gsu_account_id :: string
  gsu_resource :: string
  gsu_change_type :: string
  gsu_client_state :: "string option"
  gsu_notification_url :: string
  gsu_expiration :: string

definition subscription_namespace :: "graph_subscription \<Rightarrow> push_namespace" where
  "subscription_namespace s = namespace_for_resource (gsu_resource s)"

text \<open>\<open>Inner\<close>; \<open>ph_posts\<close> lists the POSTs given to the runtime, each with its URL and its body.\<close>

record push_hub =
  ph_seq :: nat
  ph_jmap_ws :: "jmap_listener list"
  ph_imap_idle :: "imap_idle_listener list"
  ph_jmap_log :: "json list"
  ph_gmail_watches :: "(string, gmail_watch) btmap"
  ph_gmail_endpoints :: "(string, string) btmap"
  ph_pubsub :: "json list"
  ph_graph_subs :: "(string, graph_subscription) btmap"
  ph_graph_log :: "json list"
  ph_graph_excluded :: "json list"
  ph_ews_subs :: "(string, ews_subscription) btmap"
  ph_ews_queues :: "(string, json list) btmap"
  ph_posts :: "(string \<times> json) list"

definition push_hub_new :: push_hub where
  "push_hub_new = \<lparr>ph_seq = 1, ph_jmap_ws = [], ph_imap_idle = [], ph_jmap_log = [], ph_gmail_watches = [],
     ph_gmail_endpoints = [], ph_pubsub = [], ph_graph_subs = [], ph_graph_log = [], ph_graph_excluded = [],
     ph_ews_subs = [], ph_ews_queues = [], ph_posts = []\<rparr>"

definition next_seq :: "push_hub \<Rightarrow> nat \<times> push_hub" where
  "next_seq h = (ph_seq h, h\<lparr>ph_seq := ph_seq h + 1\<rparr>)"

definition register_jmap_ws :: "string \<Rightarrow> push_hub \<Rightarrow> push_hub" where
  "register_jmap_ws a h = h\<lparr>ph_jmap_ws := ph_jmap_ws h @ [\<lparr>jl_account_id = a, jl_alive = True, jl_frames = []\<rparr>]\<rparr>"

definition register_imap_idle :: "string \<Rightarrow> push_hub \<Rightarrow> push_hub" where
  "register_imap_idle a h =
     h\<lparr>ph_imap_idle := ph_imap_idle h @ [\<lparr>il_account_id = a, il_alive = True, il_wakes = 0\<rparr>]\<rparr>"

definition set_push_endpoint :: "string \<Rightarrow> string \<Rightarrow> push_hub \<Rightarrow> push_hub" where
  "set_push_endpoint a url h = h\<lparr>ph_gmail_endpoints := bt_insert a url (ph_gmail_endpoints h)\<rparr>"

definition pubsub_clear :: "push_hub \<Rightarrow> push_hub" where
  "pubsub_clear h = h\<lparr>ph_pubsub := []\<rparr>"

definition graph_create_subscription :: "graph_subscription \<Rightarrow> push_hub \<Rightarrow> push_hub" where
  "graph_create_subscription s h = h\<lparr>ph_graph_subs := bt_insert (gsu_id s) s (ph_graph_subs h)\<rparr>"

definition graph_renew_subscription :: "string \<Rightarrow> string \<Rightarrow> push_hub \<Rightarrow> graph_subscription option \<times> push_hub" where
  "graph_renew_subscription i expiration h =
     (case map_of (ph_graph_subs h) i of
        None \<Rightarrow> (None, h)
      | Some s \<Rightarrow> let s' = s\<lparr>gsu_expiration := expiration\<rparr>
          in (Some s', h\<lparr>ph_graph_subs := bt_insert i s' (ph_graph_subs h)\<rparr>))"

definition graph_delete_subscription :: "string \<Rightarrow> push_hub \<Rightarrow> bool \<times> push_hub" where
  "graph_delete_subscription i h =
     (map_of (ph_graph_subs h) i \<noteq> None, h\<lparr>ph_graph_subs := bt_remove i (ph_graph_subs h)\<rparr>)"

definition graph_subscriptions :: "push_hub \<Rightarrow> json list" where
  "graph_subscriptions h = map (\<lambda>(_, s). jobj
     [(''id'', JString (gsu_id s)), (''account_id'', JString (gsu_account_id s)), (''resource'', JString (gsu_resource s)),
      (''change_type'', JString (gsu_change_type s)), (''notification_url'', JString (gsu_notification_url s)),
      (''namespace'', JString (namespace_as_str (subscription_namespace s))),
      (''emits'', JBool (emits (subscription_namespace s)))]) (ph_graph_subs h)"

definition ews_create_subscription :: "ews_subscription \<Rightarrow> push_hub \<Rightarrow> push_hub" where
  "ews_create_subscription s h = h\<lparr>ph_ews_subs := bt_insert (ews_id s) s (ph_ews_subs h)\<rparr>"

definition ews_delete_subscription :: "string \<Rightarrow> push_hub \<Rightarrow> bool \<times> push_hub" where
  "ews_delete_subscription i h = (map_of (ph_ews_subs h) i \<noteq> None,
     h\<lparr>ph_ews_queues := bt_remove i (ph_ews_queues h), ph_ews_subs := bt_remove i (ph_ews_subs h)\<rparr>)"

definition ews_drain_events :: "string \<Rightarrow> push_hub \<Rightarrow> json list \<times> push_hub" where
  "ews_drain_events i h =
     (case map_of (ph_ews_queues h) i of
        None \<Rightarrow> ([], h)
      | Some q \<Rightarrow> (q, h\<lparr>ph_ews_queues := bt_insert i [] (ph_ews_queues h)\<rparr>))"

text \<open>\<open>clear\<close> keeps the registered listeners and the id counter.\<close>

definition push_clear :: "push_hub \<Rightarrow> push_hub" where
  "push_clear h = h\<lparr>ph_jmap_log := [], ph_gmail_watches := [], ph_gmail_endpoints := [], ph_pubsub := [],
     ph_graph_subs := [], ph_graph_log := [], ph_graph_excluded := [], ph_ews_subs := [], ph_ews_queues := []\<rparr>"

subsection \<open>Emission\<close>

definition jmap_state_change :: "account_push \<Rightarrow> json" where
  "jmap_state_change p = (let state = JString (ap_state p) in
     jobj [(''@type'', JString ''StateChange''), (''changed'', jobj [(ap_account_id p, jobj
       ([(''Email'', state), (''Mailbox'', state), (''Thread'', state), (''EmailDelivery'', state)] @
        (if ap_has_calendars p then [(''CalendarEvent'', state)] else []) @
        (if ap_has_contacts p then [(''ContactCard'', state)] else [])))])])"

text \<open>\<open>send\<close> fails when the receiver is gone, and \<open>retain\<close> then drops the listener.\<close>

definition jmap_send :: "string \<Rightarrow> string \<Rightarrow> jmap_listener \<Rightarrow> jmap_listener option" where
  "jmap_send a frame l =
     (if jl_account_id l \<noteq> a then Some l
      else if jl_alive l then Some (l\<lparr>jl_frames := jl_frames l @ [frame]\<rparr>) else None)"

definition imap_wake :: "string \<Rightarrow> imap_idle_listener \<Rightarrow> imap_idle_listener option" where
  "imap_wake a l =
     (if il_account_id l \<noteq> a then Some l
      else if il_alive l then Some (l\<lparr>il_wakes := il_wakes l + 1\<rparr>) else None)"

definition emit_jmap :: "(json \<Rightarrow> string) \<Rightarrow> account_push \<Rightarrow> push_hub \<Rightarrow> push_hub" where
  "emit_jmap show p h = (let frame = jmap_state_change p in
     h\<lparr>ph_jmap_ws := List.map_filter (jmap_send (ap_account_id p) (show frame)) (ph_jmap_ws h),
       ph_jmap_log := ph_jmap_log h @ [frame]\<rparr>)"

definition emit_imap :: "account_push \<Rightarrow> push_hub \<Rightarrow> push_hub" where
  "emit_imap p h = h\<lparr>ph_imap_idle := List.map_filter (imap_wake (ap_account_id p)) (ph_imap_idle h)\<rparr>"

definition subscription_of_topic :: "gmail_watch \<Rightarrow> string" where
  "subscription_of_topic w = replace_sub ''/topics/'' ''/subscriptions/'' (topic_name w)"

definition subscription_for :: "push_hub \<Rightarrow> string \<Rightarrow> string" where
  "subscription_for h a = (case map_of (ph_gmail_watches h) a of
     Some w \<Rightarrow> subscription_of_topic w | None \<Rightarrow> ''projects/saehrimnir/subscriptions/mock'')"

definition publish_time :: string where "publish_time = ''2026-01-01T00:00:00Z''"

definition pubsub_envelope :: "(json \<Rightarrow> string) \<Rightarrow> string \<Rightarrow> nat \<Rightarrow> string \<Rightarrow> push_hub \<Rightarrow> json \<times> push_hub" where
  "pubsub_envelope show email history_id subscription h =
     (let encoded = base64_standard (show (jobj [(''emailAddress'', JString email), (''historyId'', jnat history_id)]));
          (n, h') = next_seq h
      in (jobj [(''message'', jobj [(''data'', JString encoded), (''messageId'', JString (''mock-msg-'' @ show_nat n)),
              (''publishTime'', JString publish_time), (''attributes'', jobj [])]),
            (''subscription'', JString subscription)], h'))"

definition publish_pubsub :: "json \<Rightarrow> string \<Rightarrow> push_hub \<Rightarrow> push_hub" where
  "publish_pubsub env a h = h\<lparr>ph_posts := ph_posts h @ (case map_of (ph_gmail_endpoints h) a of
       Some url \<Rightarrow> [(url, env)] | None \<Rightarrow> []), ph_pubsub := ph_pubsub h @ [env]\<rparr>"

definition publish_gmail :: "(json \<Rightarrow> string) \<Rightarrow> string \<Rightarrow> nat \<Rightarrow> string \<Rightarrow> push_hub \<Rightarrow> json \<times> push_hub" where
  "publish_gmail show email history_id a h =
     (let (env, h') = pubsub_envelope show email history_id (subscription_for h a) h
      in (env, publish_pubsub env a h'))"

definition emit_gmail :: "(json \<Rightarrow> string) \<Rightarrow> account_push \<Rightarrow> push_hub \<Rightarrow> push_hub" where
  "emit_gmail show p h =
     (case map_of (ph_gmail_watches h) (ap_account_id p) of
        None \<Rightarrow> h
      | Some w \<Rightarrow>
          let (env, h') = pubsub_envelope show (ap_email_address p) (ap_history_id p) (subscription_of_topic w) h
          in publish_pubsub env (ap_account_id p) h')"

definition graph_notification :: "graph_subscription \<Rightarrow> account_push \<Rightarrow> json" where
  "graph_notification s p = jobj [(''value'', JArray [jobj
     ([(''subscriptionId'', JString (gsu_id s)), (''subscriptionExpirationDateTime'', JString (gsu_expiration s)),
       (''changeType'', JString (ap_change_type p)), (''resource'', JString (gsu_resource s)),
       (''resourceData'', jobj ((''@odata.type'', JString ''#Microsoft.Graph.Message'') #
          (case ap_resource_id p of None \<Rightarrow> []
           | Some i \<Rightarrow> [(''id'', JString i), (''@odata.id'', JString (gsu_resource s @ ''/'' @ i))])))] @
      (case gsu_client_state s of None \<Rightarrow> [] | Some c \<Rightarrow> [(''clientState'', JString c)]) @
      [(''tenantId'', JString ''mock-tenant'')])])]"

definition graph_log_entry :: "account_push \<Rightarrow> graph_subscription \<Rightarrow> json" where
  "graph_log_entry p s = jobj [(''notification_url'', JString (gsu_notification_url s)),
     (''namespace'', JString (namespace_as_str (subscription_namespace s))), (''body'', graph_notification s p)]"

definition graph_excluded_entry :: "graph_subscription \<Rightarrow> json" where
  "graph_excluded_entry s = jobj [(''subscription_id'', JString (gsu_id s)), (''account_id'', JString (gsu_account_id s)),
     (''resource'', JString (gsu_resource s)), (''namespace'', JString (namespace_as_str (subscription_namespace s))),
     (''reason'', JString ''public-folder resources are not push-bearing'')]"

definition notify_subscription :: "account_push \<Rightarrow> graph_subscription \<Rightarrow> push_hub \<Rightarrow> push_hub" where
  "notify_subscription p s h =
     (if \<not> emits (subscription_namespace s)
      then h\<lparr>ph_graph_excluded := ph_graph_excluded h @ [graph_excluded_entry s]\<rparr>
      else h\<lparr>ph_graph_log := ph_graph_log h @ [graph_log_entry p s],
         ph_posts := ph_posts h @ [(gsu_notification_url s, graph_notification s p)]\<rparr>)"

text \<open>The subscriptions of an account, in the order of their ids.\<close>

definition subscriptions_of :: "push_hub \<Rightarrow> string \<Rightarrow> graph_subscription list" where
  "subscriptions_of h a = filter (\<lambda>s. gsu_account_id s = a) (map snd (ph_graph_subs h))"

definition emit_graph :: "account_push \<Rightarrow> push_hub \<Rightarrow> push_hub" where
  "emit_graph p h = fold (notify_subscription p) (subscriptions_of h (ap_account_id p)) h"

definition emit_ews :: "account_push \<Rightarrow> push_hub \<Rightarrow> push_hub" where
  "emit_ews p h =
     (let ids = map ews_id (filter (\<lambda>s. ews_account_id s = ap_account_id p) (map snd (ph_ews_subs h))) in
      if ids = [] then h
      else let (n, h') = next_seq h;
               note = jobj [(''watermark'', JString (''W'' @ show_nat n)),
                 (''timestamp'', JString (show_nat (ap_history_id p)))]
           in h'\<lparr>ph_ews_queues := fold (\<lambda>i. bt_entry i [] (\<lambda>q. q @ [note])) ids (ph_ews_queues h')\<rparr>)"

definition emit_push :: "(json \<Rightarrow> string) \<Rightarrow> account_push \<Rightarrow> push_hub \<Rightarrow> push_hub" where
  "emit_push show p h = emit_ews p (emit_graph p (emit_gmail show p (emit_imap p (emit_jmap show p h))))"

definition emit_state_advance :: "(json \<Rightarrow> string) \<Rightarrow> account_push list \<Rightarrow> push_hub \<Rightarrow> push_hub" where
  "emit_state_advance show = fold (emit_push show)"

subsection \<open>The fan-out\<close>

text \<open>What one push does to the parts that clients see.\<close>

lemma notify_simps [simp]:
  "ph_graph_log (notify_subscription p s h) =
     ph_graph_log h @ (if emits (subscription_namespace s) then [graph_log_entry p s] else [])"
  "ph_graph_excluded (notify_subscription p s h) =
     ph_graph_excluded h @ (if emits (subscription_namespace s) then [] else [graph_excluded_entry s])"
  "ph_jmap_ws (notify_subscription p s h) = ph_jmap_ws h" "ph_imap_idle (notify_subscription p s h) = ph_imap_idle h"
  "ph_jmap_log (notify_subscription p s h) = ph_jmap_log h" "ph_pubsub (notify_subscription p s h) = ph_pubsub h"
  "ph_gmail_watches (notify_subscription p s h) = ph_gmail_watches h"
  "ph_gmail_endpoints (notify_subscription p s h) = ph_gmail_endpoints h"
  "ph_graph_subs (notify_subscription p s h) = ph_graph_subs h"
  "ph_ews_subs (notify_subscription p s h) = ph_ews_subs h"
  by (simp_all add: notify_subscription_def)

lemma fold_notify_simps [simp]:
  "ph_graph_log (fold (notify_subscription p) ss h) =
     ph_graph_log h @ map (graph_log_entry p) (filter (\<lambda>s. emits (subscription_namespace s)) ss)"
  "ph_graph_excluded (fold (notify_subscription p) ss h) =
     ph_graph_excluded h @ map graph_excluded_entry (filter (\<lambda>s. \<not> emits (subscription_namespace s)) ss)"
  "ph_jmap_ws (fold (notify_subscription p) ss h) = ph_jmap_ws h"
  "ph_imap_idle (fold (notify_subscription p) ss h) = ph_imap_idle h"
  "ph_jmap_log (fold (notify_subscription p) ss h) = ph_jmap_log h"
  "ph_pubsub (fold (notify_subscription p) ss h) = ph_pubsub h"
  "ph_gmail_watches (fold (notify_subscription p) ss h) = ph_gmail_watches h"
  "ph_gmail_endpoints (fold (notify_subscription p) ss h) = ph_gmail_endpoints h"
  "ph_graph_subs (fold (notify_subscription p) ss h) = ph_graph_subs h"
  "ph_ews_subs (fold (notify_subscription p) ss h) = ph_ews_subs h"
  by (induction ss arbitrary: h) simp_all

lemma emit_jmap_simps [simp]:
  "ph_jmap_ws (emit_jmap show p h) =
     List.map_filter (jmap_send (ap_account_id p) (show (jmap_state_change p))) (ph_jmap_ws h)"
  "ph_jmap_log (emit_jmap show p h) = ph_jmap_log h @ [jmap_state_change p]"
  "ph_imap_idle (emit_jmap show p h) = ph_imap_idle h" "ph_pubsub (emit_jmap show p h) = ph_pubsub h"
  "ph_graph_log (emit_jmap show p h) = ph_graph_log h" "ph_graph_excluded (emit_jmap show p h) = ph_graph_excluded h"
  "ph_gmail_watches (emit_jmap show p h) = ph_gmail_watches h" "ph_graph_subs (emit_jmap show p h) = ph_graph_subs h"
  "ph_ews_subs (emit_jmap show p h) = ph_ews_subs h" "ph_gmail_endpoints (emit_jmap show p h) = ph_gmail_endpoints h"
  by (simp_all add: emit_jmap_def Let_def)

lemma emit_imap_simps [simp]:
  "ph_imap_idle (emit_imap p h) = List.map_filter (imap_wake (ap_account_id p)) (ph_imap_idle h)"
  "ph_jmap_ws (emit_imap p h) = ph_jmap_ws h" "ph_jmap_log (emit_imap p h) = ph_jmap_log h"
  "ph_pubsub (emit_imap p h) = ph_pubsub h" "ph_graph_log (emit_imap p h) = ph_graph_log h"
  "ph_graph_excluded (emit_imap p h) = ph_graph_excluded h" "ph_gmail_watches (emit_imap p h) = ph_gmail_watches h"
  "ph_graph_subs (emit_imap p h) = ph_graph_subs h" "ph_ews_subs (emit_imap p h) = ph_ews_subs h"
  "ph_gmail_endpoints (emit_imap p h) = ph_gmail_endpoints h"
  by (simp_all add: emit_imap_def)

text \<open>What a Pub/Sub subscriber reads of an envelope: the encoded notification and the subscription.\<close>

definition envelope_content :: "json \<Rightarrow> json option \<times> json option" where
  "envelope_content v = (Option.bind (jget ''message'' v) (jget ''data''), jget ''subscription'' v)"

definition gmail_content :: "(json \<Rightarrow> string) \<Rightarrow> push_hub \<Rightarrow> account_push \<Rightarrow> (json option \<times> json option) option" where
  "gmail_content show h p = map_option (\<lambda>w. (Some (JString (base64_standard (show (jobj
       [(''emailAddress'', JString (ap_email_address p)), (''historyId'', jnat (ap_history_id p))])))),
     Some (JString (subscription_of_topic w)))) (map_of (ph_gmail_watches h) (ap_account_id p))"

lemma emit_gmail_simps [simp]:
  "map envelope_content (ph_pubsub (emit_gmail show p h)) =
     map envelope_content (ph_pubsub h) @ List.map_filter (gmail_content show h) [p]"
  "ph_jmap_ws (emit_gmail show p h) = ph_jmap_ws h" "ph_jmap_log (emit_gmail show p h) = ph_jmap_log h"
  "ph_imap_idle (emit_gmail show p h) = ph_imap_idle h" "ph_graph_log (emit_gmail show p h) = ph_graph_log h"
  "ph_graph_excluded (emit_gmail show p h) = ph_graph_excluded h"
  "ph_gmail_watches (emit_gmail show p h) = ph_gmail_watches h"
  "ph_graph_subs (emit_gmail show p h) = ph_graph_subs h" "ph_ews_subs (emit_gmail show p h) = ph_ews_subs h"
  "ph_gmail_endpoints (emit_gmail show p h) = ph_gmail_endpoints h"
  by (simp_all add: emit_gmail_def pubsub_envelope_def publish_pubsub_def next_seq_def Let_def gmail_content_def
      envelope_content_def jget_jobj map_filter_simps split: option.split)

lemma emit_ews_simps [simp]:
  "ph_jmap_ws (emit_ews p h) = ph_jmap_ws h" "ph_jmap_log (emit_ews p h) = ph_jmap_log h"
  "ph_imap_idle (emit_ews p h) = ph_imap_idle h" "ph_graph_log (emit_ews p h) = ph_graph_log h"
  "ph_graph_excluded (emit_ews p h) = ph_graph_excluded h" "ph_gmail_watches (emit_ews p h) = ph_gmail_watches h"
  "ph_graph_subs (emit_ews p h) = ph_graph_subs h" "ph_ews_subs (emit_ews p h) = ph_ews_subs h"
  "ph_gmail_endpoints (emit_ews p h) = ph_gmail_endpoints h" "ph_pubsub (emit_ews p h) = ph_pubsub h"
  by (simp_all add: emit_ews_def next_seq_def Let_def)

text \<open>A listener after a run of frames: one that is gone is dropped by the first of them.\<close>

definition jmap_deliver :: "string list \<Rightarrow> jmap_listener \<Rightarrow> jmap_listener option" where
  "jmap_deliver frames l =
     (if jl_alive l \<or> frames = [] then Some (l\<lparr>jl_frames := jl_frames l @ frames\<rparr>) else None)"

definition imap_wakes :: "nat \<Rightarrow> imap_idle_listener \<Rightarrow> imap_idle_listener option" where
  "imap_wakes n l = (if il_alive l \<or> n = 0 then Some (l\<lparr>il_wakes := il_wakes l + n\<rparr>) else None)"

definition frames_for :: "(json \<Rightarrow> string) \<Rightarrow> account_push list \<Rightarrow> string \<Rightarrow> string list" where
  "frames_for show ps a = map (\<lambda>p. show (jmap_state_change p)) (filter (\<lambda>p. ap_account_id p = a) ps)"

definition pushed_to :: "push_hub \<Rightarrow> account_push \<Rightarrow> graph_subscription list" where
  "pushed_to h p = filter (\<lambda>s. emits (subscription_namespace s)) (subscriptions_of h (ap_account_id p))"

definition held_back :: "push_hub \<Rightarrow> account_push \<Rightarrow> graph_subscription list" where
  "held_back h p = filter (\<lambda>s. \<not> emits (subscription_namespace s)) (subscriptions_of h (ap_account_id p))"

lemma map_filter_twice: "List.map_filter g (List.map_filter f xs) = List.map_filter (\<lambda>x. Option.bind (f x) g) xs"
  by (induction xs) (auto simp: map_filter_simps split: option.split)

lemma map_filter_id: "List.map_filter (\<lambda>x. Some x) xs = xs"
  by (induction xs) (simp_all add: map_filter_simps)

lemma deliver_step:
  "Option.bind (jmap_send (ap_account_id p) (show (jmap_state_change p)) l)
     (\<lambda>l. jmap_deliver (frames_for show ps (jl_account_id l)) l) =
   jmap_deliver (frames_for show (p # ps) (jl_account_id l)) l"
  by (simp add: jmap_send_def jmap_deliver_def frames_for_def)

lemma wake_step:
  "Option.bind (imap_wake (ap_account_id p) l)
     (\<lambda>l. imap_wakes (length (filter (\<lambda>p. ap_account_id p = il_account_id l) ps)) l) =
   imap_wakes (length (filter (\<lambda>p. ap_account_id p = il_account_id l) (p # ps))) l"
  by (simp add: imap_wake_def imap_wakes_def)

lemma same_registries:
  "ph_gmail_watches h' = ph_gmail_watches h \<Longrightarrow> gmail_content show h' = gmail_content show h"
  "ph_graph_subs h' = ph_graph_subs h \<Longrightarrow> pushed_to h' = pushed_to h"
  "ph_graph_subs h' = ph_graph_subs h \<Longrightarrow> held_back h' = held_back h"
  by (simp_all add: gmail_content_def pushed_to_def held_back_def subscriptions_of_def fun_eq_iff)

lemma emit_push_simps [simp]:
  "ph_jmap_log (emit_push show p h) = ph_jmap_log h @ [jmap_state_change p]"
  "ph_jmap_ws (emit_push show p h) =
     List.map_filter (jmap_send (ap_account_id p) (show (jmap_state_change p))) (ph_jmap_ws h)"
  "ph_imap_idle (emit_push show p h) = List.map_filter (imap_wake (ap_account_id p)) (ph_imap_idle h)"
  "map envelope_content (ph_pubsub (emit_push show p h)) =
     map envelope_content (ph_pubsub h) @ List.map_filter (gmail_content show h) [p]"
  "ph_graph_log (emit_push show p h) = ph_graph_log h @ map (graph_log_entry p) (pushed_to h p)"
  "ph_graph_excluded (emit_push show p h) = ph_graph_excluded h @ map graph_excluded_entry (held_back h p)"
  "ph_gmail_watches (emit_push show p h) = ph_gmail_watches h" "ph_graph_subs (emit_push show p h) = ph_graph_subs h"
  "ph_ews_subs (emit_push show p h) = ph_ews_subs h" "ph_gmail_endpoints (emit_push show p h) = ph_gmail_endpoints h"
  by (simp_all add: emit_push_def emit_graph_def pushed_to_def held_back_def subscriptions_of_def
      same_registries(1) [of "emit_imap p (emit_jmap show p h)" h])

lemma advance_simps:
  "ph_jmap_log (emit_state_advance show ps h) = ph_jmap_log h @ map jmap_state_change ps"
  "ph_jmap_ws (emit_state_advance show ps h) =
     List.map_filter (\<lambda>l. jmap_deliver (frames_for show ps (jl_account_id l)) l) (ph_jmap_ws h)"
  "ph_imap_idle (emit_state_advance show ps h) =
     List.map_filter (\<lambda>l. imap_wakes (length (filter (\<lambda>p. ap_account_id p = il_account_id l) ps)) l) (ph_imap_idle h)"
  "map envelope_content (ph_pubsub (emit_state_advance show ps h)) =
     map envelope_content (ph_pubsub h) @ List.map_filter (gmail_content show h) ps"
  "ph_graph_log (emit_state_advance show ps h) =
     ph_graph_log h @ concat (map (\<lambda>p. map (graph_log_entry p) (pushed_to h p)) ps)"
  "ph_graph_excluded (emit_state_advance show ps h) =
     ph_graph_excluded h @ concat (map (\<lambda>p. map graph_excluded_entry (held_back h p)) ps)"
  "ph_gmail_watches (emit_state_advance show ps h) = ph_gmail_watches h"
  "ph_graph_subs (emit_state_advance show ps h) = ph_graph_subs h"
  "ph_ews_subs (emit_state_advance show ps h) = ph_ews_subs h"
  "ph_gmail_endpoints (emit_state_advance show ps h) = ph_gmail_endpoints h"
proof -
  have same: "gmail_content show (emit_push show p h) = gmail_content show h"
    "pushed_to (emit_push show p h) = pushed_to h" "held_back (emit_push show p h) = held_back h" for p h
    by (rule same_registries, simp)+
  have none: "jmap_deliver (frames_for show [] a) l = Some l" "imap_wakes 0 i = Some i" for a l i
    by (simp_all add: jmap_deliver_def frames_for_def imap_wakes_def)
  show "ph_jmap_log (emit_state_advance show ps h) = ph_jmap_log h @ map jmap_state_change ps"
    "ph_gmail_watches (emit_state_advance show ps h) = ph_gmail_watches h"
    "ph_graph_subs (emit_state_advance show ps h) = ph_graph_subs h"
    "ph_ews_subs (emit_state_advance show ps h) = ph_ews_subs h"
    "ph_gmail_endpoints (emit_state_advance show ps h) = ph_gmail_endpoints h"
    unfolding emit_state_advance_def by (induction ps arbitrary: h) simp_all
  show "ph_jmap_ws (emit_state_advance show ps h) =
      List.map_filter (\<lambda>l. jmap_deliver (frames_for show ps (jl_account_id l)) l) (ph_jmap_ws h)"
    unfolding emit_state_advance_def
    by (induction ps arbitrary: h) (simp_all add: none map_filter_id map_filter_twice deliver_step)
  show "ph_imap_idle (emit_state_advance show ps h) =
      List.map_filter (\<lambda>l. imap_wakes (length (filter (\<lambda>p. ap_account_id p = il_account_id l) ps)) l) (ph_imap_idle h)"
    unfolding emit_state_advance_def
    by (induction ps arbitrary: h) (simp_all add: none map_filter_id map_filter_twice wake_step del: filter.simps)
  show "map envelope_content (ph_pubsub (emit_state_advance show ps h)) =
      map envelope_content (ph_pubsub h) @ List.map_filter (gmail_content show h) ps"
    unfolding emit_state_advance_def
    by (induction ps arbitrary: h) (simp_all add: same map_filter_simps split: option.split)
  show "ph_graph_log (emit_state_advance show ps h) =
      ph_graph_log h @ concat (map (\<lambda>p. map (graph_log_entry p) (pushed_to h p)) ps)"
    "ph_graph_excluded (emit_state_advance show ps h) =
      ph_graph_excluded h @ concat (map (\<lambda>p. map graph_excluded_entry (held_back h p)) ps)"
    unfolding emit_state_advance_def by (induction ps arbitrary: h) (simp_all add: same)
qed

end
