(* ===== verification/Graph_Settings.thy ===== *)
theory Graph_Settings
  imports Push_Hub Graph_Mail Oauth_Store
begin

text \<open>
  The settings of the Graph listener (\<open>src/graph/settings.rs\<close>): the mailbox settings and message rules, which the
  mock answers without keeping, and the webhook subscriptions, which it keeps in the push hub. A body is given
  parsed; the rejection of one that does not parse is axum's.
\<close>

subsection \<open>Mailbox settings and rules\<close>

definition settings_context :: string where
  "settings_context = ''https://graph.microsoft.com/v1.0/$metadata#users('' @ [CHR 0x27] @ ''me'' @ [CHR 0x27] @ '')/mailboxSettings''"

definition get_mailbox_settings :: graph_response where
  "get_mailbox_settings = ok_json (jobj [(''@odata.context'', JString settings_context),
     (''automaticRepliesSetting'', jobj [(''status'', JString ''disabled''), (''externalAudience'', JString ''all''),
        (''internalReplyMessage'', JString []), (''externalReplyMessage'', JString [])])])"

definition patch_mailbox_settings :: "json \<Rightarrow> graph_response" where
  "patch_mailbox_settings body = ok_json (jobj [(''@odata.context'', JString settings_context),
     (''automaticRepliesSetting'', or_else (jget ''automaticRepliesSetting'' body) JNull)])"

definition list_rules :: graph_response where
  "list_rules = ok_json (jobj [(''@odata.context'', JString (''https://graph.microsoft.com/v1.0/$metadata#me/mailFolders('' @
     [CHR 0x27] @ ''inbox'' @ [CHR 0x27] @ '')/messageRules'')), (''value'', JArray [])])"

definition create_rule :: "json \<Rightarrow> graph_response" where
  "create_rule body = respond 201 (Json (case body of
     JObject m \<Rightarrow> JObject (if map_of m ''id'' = None then bt_insert ''id'' (JString ''mock-rule-1'') m else m)
   | v \<Rightarrow> v))"

definition get_rule :: graph_response where
  "get_rule = graph_error 404 ''ErrorItemNotFound'' ''v0 stores no message rules''"

definition patch_rule :: "json \<Rightarrow> graph_response" where
  "patch_rule body = ok_json body"

definition delete_rule :: graph_response where
  "delete_rule = respond 204 Empty"

subsection \<open>Subscriptions\<close>

definition subscription_expiration :: string where
  "subscription_expiration = ''2100-01-01T00:00:00Z''"

definition str_field :: "string \<Rightarrow> json \<Rightarrow> string option" where
  "str_field k body = Option.bind (jget k body) as_str"

text \<open>The account that a \<open>users/{id}/...\<close> resource names, by its id or its address.\<close>

definition account_for_subscription_resource :: "fixture \<Rightarrow> string \<Rightarrow> string option" where
  "account_for_subscription_resource f r =
     (if namespace_for_resource r \<noteq> Shared then None
      else let quote = (\<lambda>c. c = CHR 0x27);
               rest = drop (length ''users/'') (dropWhile (\<lambda>c. c = CHR ''/'') r);
               segment = rev (dropWhile quote (rev (dropWhile quote (hd (split_on (CHR ''/'') rest)))))
           in map_option ac_id (find (\<lambda>a. ac_id a = segment \<or> ac_name a = segment) (accounts f)))"

definition create_subscription ::
    "(string \<times> string) list \<Rightarrow> headers \<Rightarrow> json option \<Rightarrow> fixture \<Rightarrow> token_store \<Rightarrow> push_hub \<Rightarrow> graph_response \<times> push_hub" where
  "create_subscription params hs body0 f ts h =
     (case map_of params ''validationToken'' of
        Some token \<Rightarrow> (respond 200 (Raw ''text/plain'' token), h)
      | None \<Rightarrow>
          let body = or_else body0 JNull;
              resource = or_else (str_field ''resource'' body) [];
              a = or_else (account_for_subscription_resource f resource) (account_from_bearer f ts hs);
              change_type = or_else (str_field ''changeType'' body) ''created,updated,deleted'';
              url = or_else (str_field ''notificationUrl'' body) [];
              client_state = str_field ''clientState'' body;
              expiration = or_else (str_field ''expirationDateTime'' body) subscription_expiration;
              (n, h1) = next_seq h;
              i = ''mock-subscription-'' @ show_nat n
          in (respond 201 (Json (jobj
                [(''@odata.context'', JString ''https://graph.microsoft.com/v1.0/$metadata#subscriptions/$entity''),
                 (''id'', JString i), (''resource'', JString resource), (''changeType'', JString change_type),
                 (''notificationUrl'', JString url), (''clientState'', jstring_or_null client_state),
                 (''expirationDateTime'', JString expiration)])),
              graph_create_subscription \<lparr>gsu_id = i, gsu_account_id = a, gsu_resource = resource,
                gsu_change_type = change_type, gsu_client_state = client_state, gsu_notification_url = url,
                gsu_expiration = expiration\<rparr> h1))"

definition renew_subscription :: "string \<Rightarrow> json \<Rightarrow> push_hub \<Rightarrow> graph_response \<times> push_hub" where
  "renew_subscription i body h =
     (let expiration = or_else (str_field ''expirationDateTime'' body) subscription_expiration
      in (ok_json (jobj [(''id'', JString i), (''expirationDateTime'', JString expiration)]),
          snd (graph_renew_subscription i expiration h)))"

definition delete_subscription :: "string \<Rightarrow> push_hub \<Rightarrow> graph_response \<times> push_hub" where
  "delete_subscription i h = (respond 204 Empty, snd (graph_delete_subscription i h))"

subsection \<open>Whom a subscription follows\<close>

definition reply_field :: "string \<Rightarrow> graph_response \<Rightarrow> string option" where
  "reply_field k r = (case gs_body r of Json v \<Rightarrow> str_field k v | _ \<Rightarrow> None)"

lemma pushed_to_member:
  assumes "map_of (ph_graph_subs h) i = Some s"
  shows "s \<in> set (pushed_to h p) \<longleftrightarrow> emits (subscription_namespace s) \<and> gsu_account_id s = ap_account_id p"
proof -
  have "s \<in> snd ` set (ph_graph_subs h)" using map_of_SomeD [OF assms] by force
  then show ?thesis by (auto simp: pushed_to_def subscriptions_of_def)
qed

text \<open>
  C39. A subscription follows the mailbox it names. A subscription that a client creates is stored under the id
  of the answer, and from then on it is among those a push notifies exactly when the push is for its owner and
  the resource is not a public folder: the owner is the account a \<open>users/{id}/...\<close> resource names, and the account
  of the bearer for any other resource. So a change of a shared mailbox reaches it, one of the bearer's own does not.
\<close>

theorem subscription_follows_owner:
  "case create_subscription [] hs body f ts h of (r, h') \<Rightarrow>
     (let resource = or_else (str_field ''resource'' (or_else body JNull)) [];
          owner = or_else (account_for_subscription_resource f resource) (account_from_bearer f ts hs) in
      \<exists>i s. reply_field ''id'' r = Some i \<and> map_of (ph_graph_subs h') i = Some s \<and> gsu_resource s = resource \<and>
        (\<lambda>p. s \<in> set (pushed_to h' p)) =
          (\<lambda>p. emits (namespace_for_resource resource) \<and> ap_account_id p = owner))"
proof -
  obtain r h' where run: "create_subscription [] hs body f ts h = (r, h')" by (cases "create_subscription [] hs body f ts h")
  let ?resource = "or_else (str_field ''resource'' (or_else body JNull)) []"
  let ?owner = "or_else (account_for_subscription_resource f ?resource) (account_from_bearer f ts hs)"
  let ?i = "''mock-subscription-'' @ show_nat (ph_seq h)"
  obtain s where s: "map_of (ph_graph_subs h') ?i = Some s" "gsu_resource s = ?resource" "gsu_account_id s = ?owner"
    and r: "reply_field ''id'' r = Some ?i"
    using run by (auto simp: create_subscription_def Let_def next_seq_def graph_create_subscription_def reply_field_def
        respond_def str_field_def jget_jobj)
  have "(\<lambda>p. s \<in> set (pushed_to h' p)) = (\<lambda>p. emits (namespace_for_resource ?resource) \<and> ap_account_id p = ?owner)"
    using pushed_to_member [OF s(1)] s(2,3) by (auto simp: subscription_namespace_def)
  then show ?thesis using run r s(1,2) by (auto simp: Let_def)
qed

end
