(* ===== verification/Harness.thy ===== *)
theory Harness
  imports Push_Hub Oauth_Store Smtp_Session
begin

text \<open>
  The handles every listener shares (\<open>src/shared.rs\<close>), the announce triggers (\<open>src/announce.rs\<close>) and the
  \<open>/test\<close> routes (\<open>src/test_admin.rs\<close>). A request runs to its end before the next one, so a handler is a function
  of the handles; a poisoned lock, which needs a panic while it is held, does not occur.
\<close>

subsection \<open>The handles\<close>

text \<open>
  \<open>SharedHandles\<close> with the submission log of the SMTP listener; the call counts are those of the Lua dispatcher,
  where one is attached.
\<close>

record shared_handles =
  sh_fixture :: fixture
  sh_baseline :: fixture
  sh_cursor :: nat
  sh_call_counts :: "((string \<times> string) \<times> nat) list option"
  sh_requests :: "request_entry list"
  sh_tokens :: token_store
  sh_latency :: latency_knob
  sh_push :: push_hub
  sh_open_fault :: open_fault
  sh_announce_counts :: "(nat, nat) btmap"
  sh_submissions :: submission_log

definition handles_for_test :: "fixture \<Rightarrow> shared_handles" where
  "handles_for_test f = \<lparr>sh_fixture = f, sh_baseline = f, sh_cursor = 0, sh_call_counts = None, sh_requests = [],
     sh_tokens = token_store_new, sh_latency = latency_clear [], sh_push = push_hub_new, sh_open_fault = None,
     sh_announce_counts = [], sh_submissions = []\<rparr>"

text \<open>The server-side projection of a submission, which the mail-parser crate produces.\<close>

record parsed_attachment =
  pa_filename :: "string option"
  pa_content_type :: string
  pa_data :: string
  pa_content_id :: "string option"

record parsed_submission =
  ps_subject :: "string option"
  ps_text_bodies :: "string list"
  ps_html_bodies :: "string list"
  ps_attachments :: "parsed_attachment list"
  ps_headers :: "(string \<times> string) list"

text \<open>What is given: the environment of the change script, jiff's printing and clock, the parser of MIME text.\<close>

record admin_env =
  ae_change :: change_env
  ae_show_ts :: "timestamp \<Rightarrow> string"
  ae_now :: timestamp
  ae_parse_mime :: "string \<Rightarrow> parsed_submission option"

subsection \<open>The change script on the handles\<close>

definition advance_cursor ::
    "admin_env \<Rightarrow> string option \<Rightarrow> shared_handles \<Rightarrow> ((nat \<times> json) + step_result) \<times> shared_handles" where
  "advance_cursor env expect s =
     (let (r, (c, f), pushes) = advance_change_cursor (ae_change env) expect (sh_cursor s, sh_fixture s)
      in (r, s\<lparr>sh_cursor := c, sh_fixture := f,
         sh_push := emit_state_advance (ch_show_json (ae_change env)) pushes (sh_push s)\<rparr>))"

subsection \<open>Announce triggers\<close>

text \<open>The triggers that match a request line, each with its index in the fixture.\<close>

definition announce_matches :: "fixture \<Rightarrow> string \<Rightarrow> (nat \<times> string \<times> nat) list" where
  "announce_matches f request =
     map (\<lambda>(i, t). (i, an_step t, an_nth t)) (filter (\<lambda>(i, t). prefix (an_before t) request) (enumerate0 (announce f)))"

text \<open>
  Every match is counted; a trigger is due when its count reaches its \<open>nth\<close>. The counter is a \<open>u32\<close> in the
  code and a \<open>nat\<close> here: they differ after \<open>2^32\<close> matches without a reset.
\<close>

fun count_matches ::
    "(nat \<times> string \<times> nat) list \<Rightarrow> (nat, nat) btmap \<Rightarrow> (string \<times> nat) list \<times> (nat, nat) btmap" where
  "count_matches [] counts = ([], counts)"
| "count_matches ((i, step, n) # ms) counts =
     (let counts' = bt_entry i 0 Suc counts;
          (due, counts'') = count_matches ms counts'
      in (if map_of counts' i = Some n then (step, n) # due else due, counts''))"

definition announce_detail :: "string \<Rightarrow> nat \<Rightarrow> (nat \<times> json) + step_result \<Rightarrow> json" where
  "announce_detail step n outcome = jobj
     ([(''announce'', JBool True), (''step'', JString step), (''nth'', jnat n)] @
      (case outcome of
         Inr (AppliedStep a) \<Rightarrow> [(''applied'', JBool True), (''state'', JString (as_new_state a))]
       | Inr (Exhausted _) \<Rightarrow> [(''applied'', JBool False),
           (''error'', JString ''change script is exhausted; the cursor is past its end'')]
       | Inl (code, payload) \<Rightarrow> [(''applied'', JBool False), (''error'', payload), (''status'', jnat code)]))"

definition fire_trigger :: "admin_env \<Rightarrow> string \<Rightarrow> string \<times> nat \<Rightarrow> shared_handles \<Rightarrow> shared_handles" where
  "fire_trigger env protocol = (\<lambda>(step, n) s.
     let (outcome, s') = advance_cursor env (Some step) s
     in s'\<lparr>sh_requests := request_log_record (ae_now env) protocol (''ANNOUNCE '' @ step)
          (announce_detail step n outcome) (sh_requests s')\<rparr>)"

definition fire_for_request :: "admin_env \<Rightarrow> string \<Rightarrow> string \<Rightarrow> shared_handles \<Rightarrow> shared_handles" where
  "fire_for_request env protocol request s =
     (let ms = announce_matches (sh_fixture s) request in
      if ms = [] then s
      else let (due, counts) = count_matches ms (sh_announce_counts s)
           in fold (fire_trigger env protocol) due (s\<lparr>sh_announce_counts := counts\<rparr>))"

subsection \<open>Replies\<close>

record admin_reply =
  ad_status :: nat
  ad_body :: "json option"

definition admin_json :: "json \<Rightarrow> admin_reply" where
  "admin_json v = \<lparr>ad_status = 200, ad_body = Some v\<rparr>"

definition admin_empty :: admin_reply where
  "admin_empty = \<lparr>ad_status = 204, ad_body = None\<rparr>"

definition admin_malformed :: "string \<Rightarrow> admin_reply" where
  "admin_malformed detail = (let (code, v) = malformed_body detail in \<lparr>ad_status = code, ad_body = Some v\<rparr>)"

type_synonym admin_handler = "shared_handles \<Rightarrow> admin_reply \<times> shared_handles"

subsection \<open>Push observation\<close>

definition list_jmap_push :: admin_handler where
  "list_jmap_push s = (admin_json (JArray (ph_jmap_log (sh_push s))), s)"

definition list_graph_push :: admin_handler where
  "list_graph_push s = (admin_json (JArray (ph_graph_log (sh_push s))), s)"

definition list_graph_excluded :: admin_handler where
  "list_graph_excluded s = (admin_json (JArray (ph_graph_excluded (sh_push s))), s)"

definition list_push_subscriptions :: admin_handler where
  "list_push_subscriptions s = (admin_json (JArray (graph_subscriptions (sh_push s))), s)"

definition list_pubsub :: admin_handler where
  "list_pubsub s = (admin_json (JArray (ph_pubsub (sh_push s))), s)"

definition clear_pubsub :: admin_handler where
  "clear_pubsub s = (admin_empty, s\<lparr>sh_push := pubsub_clear (sh_push s)\<rparr>)"

definition publish_pubsub_route :: "admin_env \<Rightarrow> json option \<Rightarrow> admin_handler" where
  "publish_pubsub_route env body s =
     (case body of
        Some (JObject kvs) \<Rightarrow>
          (case Option.bind (map_of kvs ''emailAddress'') as_str of
             None \<Rightarrow> (admin_malformed ''emailAddress (string) required'', s)
           | Some email \<Rightarrow>
               (case Option.bind (map_of kvs ''historyId'') as_u64 of
                  None \<Rightarrow> (admin_malformed ''historyId (number) required'', s)
                | Some history_id \<Rightarrow>
                    let a = or_else (Option.bind (map_of kvs ''account_id'') as_str) email;
                        (v, h) = publish_gmail (ch_show_json (ae_change env)) email history_id a (sh_push s)
                    in (admin_json v, s\<lparr>sh_push := h\<rparr>)))
      | _ \<Rightarrow> (admin_malformed ''expected a JSON object'', s))"

definition set_pubsub_endpoint :: "json option \<Rightarrow> admin_handler" where
  "set_pubsub_endpoint body s =
     (case body of
        Some (JObject kvs) \<Rightarrow>
          (case (Option.bind (map_of kvs ''account_id'') as_str, Option.bind (map_of kvs ''url'') as_str) of
             (Some a, Some url) \<Rightarrow> (admin_empty, s\<lparr>sh_push := set_push_endpoint a url (sh_push s)\<rparr>)
           | _ \<Rightarrow> (admin_malformed ''account_id (string) and url (string) required'', s))
      | _ \<Rightarrow> (admin_malformed ''expected a JSON object'', s))"

subsection \<open>Submissions and requests\<close>

definition jstring_option :: "string option \<Rightarrow> json" where
  "jstring_option x = (case x of None \<Rightarrow> JNull | Some s \<Rightarrow> JString s)"

definition attachment_json :: "parsed_attachment \<Rightarrow> json" where
  "attachment_json a = jobj [(''filename'', jstring_option (pa_filename a)),
     (''content_type'', JString (pa_content_type a)), (''size'', jnat (length (pa_data a))),
     (''content_id'', jstring_option (pa_content_id a))]"

definition parsed_json :: "parsed_submission \<Rightarrow> json" where
  "parsed_json p = jobj [(''subject'', jstring_option (ps_subject p)),
     (''text_body_count'', jnat (length (ps_text_bodies p))), (''html_body_count'', jnat (length (ps_html_bodies p))),
     (''attachments'', JArray (map attachment_json (ps_attachments p))),
     (''headers'', JArray (map (\<lambda>(n, v). jobj [(''name'', JString n), (''value'', JString v)]) (ps_headers p)))]"

definition params_json :: "(string, string) btmap \<Rightarrow> json" where
  "params_json m = JObject (map (apsnd JString) m)"

definition submission_json :: "admin_env \<Rightarrow> submission \<Rightarrow> json" where
  "submission_json env s = jobj [(''from'', JString (su_from s)), (''recipients'', jstrs (su_recipients s)),
     (''from_params'', params_json (su_from_params s)), (''rcpt_params'', JArray (map params_json (su_rcpt_params s))),
     (''auth_mechanism'', jstring_option (su_auth_mechanism s)), (''account_id'', JString (su_account_id s)),
     (''received_at'', JString (ae_show_ts env (su_received_at s))), (''raw_size'', jnat (length (su_data s))),
     (''parsed'', case ae_parse_mime env (su_data s) of None \<Rightarrow> JNull | Some p \<Rightarrow> parsed_json p)]"

definition list_smtp_submissions :: "admin_env \<Rightarrow> admin_handler" where
  "list_smtp_submissions env s = (admin_json (JArray (map (submission_json env) (sh_submissions s))), s)"

definition clear_smtp_submissions :: admin_handler where
  "clear_smtp_submissions s = (admin_empty, s\<lparr>sh_submissions := submission_clear (sh_submissions s)\<rparr>)"

text \<open>The dense numbering of the connections of the log, by their first entry.\<close>

fun dense_ids :: "request_entry list \<Rightarrow> (nat \<times> nat) list \<Rightarrow> (nat \<times> nat) list" where
  "dense_ids [] m = m"
| "dense_ids (e # es) m =
     (case re_connection_id e of
        None \<Rightarrow> dense_ids es m
      | Some raw \<Rightarrow> dense_ids es (if map_of m raw = None then m @ [(raw, length m)] else m))"

definition connection_field :: "nat option \<Rightarrow> (string \<times> json) list" where
  "connection_field c = (case c of None \<Rightarrow> [] | Some n \<Rightarrow> [(''connection_id'', jnat n)])"

definition stable_row :: "(nat \<times> nat) list \<Rightarrow> request_entry \<Rightarrow> json" where
  "stable_row dense e = jobj ([(''protocol'', JString (re_protocol e)), (''command'', JString (re_command e)),
     (''detail'', re_detail e)] @ connection_field (Option.bind (re_connection_id e) (map_of dense)))"

definition request_row :: "admin_env \<Rightarrow> request_entry \<Rightarrow> json" where
  "request_row env e = jobj ([(''protocol'', JString (re_protocol e)), (''command'', JString (re_command e)),
     (''received_at'', JString (ae_show_ts env (re_received_at e))), (''detail'', re_detail e)] @
     connection_field (re_connection_id e))"

definition list_requests :: "admin_env \<Rightarrow> (string \<times> string) list \<Rightarrow> admin_handler" where
  "list_requests env params s =
     (admin_json (JArray
        (if map_of params ''stable'' = Some ''true''
         then map (stable_row (dense_ids (sh_requests s) [])) (sh_requests s)
         else map (request_row env) (sh_requests s))), s)"

definition clear_requests :: admin_handler where
  "clear_requests s = (admin_empty, s\<lparr>sh_requests := request_log_clear (sh_requests s)\<rparr>)"

subsection \<open>The knobs\<close>

definition get_latency :: admin_handler where
  "get_latency s = (admin_json (JObject (map (apsnd jnat) (latency_snapshot (sh_latency s)))), s)"

definition latency_max_ms :: nat where "latency_max_ms = 60000"

text \<open>An absent body and \<open>null\<close> count as \<open>{}\<close>.\<close>

definition object_or_empty :: "json option \<Rightarrow> (string \<times> json) list option" where
  "object_or_empty body =
     (case body of None \<Rightarrow> Some [] | Some JNull \<Rightarrow> Some [] | Some (JObject kvs) \<Rightarrow> Some kvs | Some _ \<Rightarrow> None)"

definition global_latency :: "(string \<times> json) list \<Rightarrow> latency_knob \<Rightarrow> string option \<times> latency_knob" where
  "global_latency kvs g =
     (case map_of kvs ''global_ms'' of
        None \<Rightarrow> (None, g)
      | Some v \<Rightarrow>
          (case as_u64 v of
             None \<Rightarrow> (Some ''global_ms must be a non-negative integer'', g)
           | Some n \<Rightarrow>
               if n > latency_max_ms
               then (Some (''global_ms '' @ show_nat n @ '' exceeds cap of '' @ show_nat latency_max_ms @ ''ms''), g)
               else (None, latency_set ''global'' n g)))"

text \<open>The entries before a refused one stay set.\<close>

fun protocol_latencies :: "(string \<times> json) list \<Rightarrow> latency_knob \<Rightarrow> string option \<times> latency_knob" where
  "protocol_latencies [] g = (None, g)"
| "protocol_latencies ((k, v) # kvs) g =
     (if k = ''global'' then (Some ''use top-level `global_ms`, not per_protocol.global'', g)
      else case as_u64 v of
        None \<Rightarrow> (Some (''per_protocol.'' @ k @ '' must be a non-negative integer''), g)
      | Some n \<Rightarrow>
          if n > latency_max_ms
          then (Some (''per_protocol.'' @ k @ '' value '' @ show_nat n @ '' exceeds cap of '' @ show_nat latency_max_ms @
                 ''ms''), g)
          else protocol_latencies kvs (latency_set k n g))"

definition set_latency :: "json option \<Rightarrow> admin_handler" where
  "set_latency body s =
     (case object_or_empty body of
        None \<Rightarrow> (admin_malformed ''expected an object or empty body'', s)
      | Some kvs \<Rightarrow>
          (case global_latency kvs (sh_latency s) of
             (Some e, g) \<Rightarrow> (admin_malformed e, s\<lparr>sh_latency := g\<rparr>)
           | (None, g) \<Rightarrow>
               (case map_of kvs ''per_protocol'' of
                  None \<Rightarrow> get_latency (s\<lparr>sh_latency := g\<rparr>)
                | Some per \<Rightarrow>
                    (case as_object per of
                       None \<Rightarrow> (admin_malformed ''per_protocol must be an object'', s\<lparr>sh_latency := g\<rparr>)
                     | Some m \<Rightarrow>
                         (case protocol_latencies m g of
                            (Some e, g') \<Rightarrow> (admin_malformed e, s\<lparr>sh_latency := g'\<rparr>)
                          | (None, g') \<Rightarrow> get_latency (s\<lparr>sh_latency := g'\<rparr>))))))"

text \<open>\<open>Inl\<close> is the detail of a refusal; no count at all is \<open>sticky\<close>.\<close>

definition fail_count :: "(string \<times> json) list \<Rightarrow> string + nat option" where
  "fail_count kvs =
     (if or_else (Option.bind (map_of kvs ''sticky'') as_bool) False then Inr None
      else case map_of kvs ''count'' of
        None \<Rightarrow> Inr (Some 3)
      | Some v \<Rightarrow> (case as_u64 v of
          Some n \<Rightarrow> Inr (Some n) | None \<Rightarrow> Inl ''count must be a non-negative integer''))"

definition fail_status :: "(string \<times> json) list \<Rightarrow> string + nat" where
  "fail_status kvs =
     (case map_of kvs ''status'' of
        None \<Rightarrow> Inr default_fail_status
      | Some v \<Rightarrow> (case Option.bind (as_u64 v) (fit_nat 65535) of
          Some n \<Rightarrow> if 400 \<le> n \<and> n \<le> 599 then Inr n else Inl ''status must be an integer in 400..=599''
        | None \<Rightarrow> Inl ''status must be an integer in 400..=599''))"

definition remaining_json :: "open_fault \<Rightarrow> json" where
  "remaining_json g =
     (case fault_snapshot g of None \<Rightarrow> JNull | Some None \<Rightarrow> JString ''sticky'' | Some (Some n) \<Rightarrow> jnat n)"

definition arm_fail_open :: "json option \<Rightarrow> admin_handler" where
  "arm_fail_open body s =
     (case object_or_empty body of
        None \<Rightarrow> (admin_malformed ''expected an object or empty body'', s)
      | Some kvs \<Rightarrow>
          (case and_then (fail_count kvs) (\<lambda>count. and_then (fail_status kvs) (\<lambda>status. Inr (count, status))) of
             Inl e \<Rightarrow> (admin_malformed e, s)
           | Inr (count, status) \<Rightarrow>
               let g = fault_arm count status (or_else (Option.bind (map_of kvs ''message'') as_str) default_fail_message)
                     (sh_open_fault s)
               in (admin_json (jobj [(''remaining'', remaining_json g)]), s\<lparr>sh_open_fault := g\<rparr>)))"

definition clear_fail_open :: admin_handler where
  "clear_fail_open s = (admin_empty, s\<lparr>sh_open_fault := fault_clear (sh_open_fault s)\<rparr>)"

subsection \<open>The fixture\<close>

definition reset_fixture :: admin_handler where
  "reset_fixture s = (admin_empty, s\<lparr>
     sh_submissions := submission_clear (sh_submissions s),
     sh_requests := request_log_clear (sh_requests s),
     sh_tokens := store_clear (sh_tokens s),
     sh_latency := latency_clear (sh_latency s),
     sh_push := push_clear (sh_push s),
     sh_open_fault := fault_clear (sh_open_fault s),
     sh_announce_counts := [],
     sh_call_counts := map_option (\<lambda>_. []) (sh_call_counts s),
     sh_fixture := sh_baseline s,
     sh_cursor := 0\<rparr>)"

definition fixture_identity_route :: admin_handler where
  "fixture_identity_route s = (let f = sh_fixture s in
     (admin_json (jobj [(''name'', JString (fx_name f)), (''path'', jstring_option (fi_path (identity f))),
        (''sha256'', JString (fi_sha256 (identity f)))]), s))"

definition snapshot_mailbox :: "mailbox \<Rightarrow> json" where
  "snapshot_mailbox m = jobj [(''id'', JString (mb_id m)), (''name'', JString (mb_name m)),
     (''role'', jstring_option (map_option role_as_str (mb_role m))), (''parent_id'', jstring_option (mb_parent_id m)),
     (''sort_order'', case sort_order m of None \<Rightarrow> JNull | Some n \<Rightarrow> jint n), (''is_subscribed'', JBool (is_subscribed m))]"

definition snapshot_email :: "admin_env \<Rightarrow> email \<Rightarrow> json" where
  "snapshot_email env e = jobj [(''id'', JString (em_id e)), (''thread_id'', JString (em_thread_id e)),
     (''mailbox_ids'', jstrs (mailbox_ids e)), (''keywords'', jstrs (em_keywords e)),
     (''subject'', jstring_option (em_subject e)), (''received_at'', JString (ae_show_ts env (received_at e))),
     (''has_attachment'', JBool (has_attachment e))]"

definition snapshot_event :: "admin_env \<Rightarrow> event \<Rightarrow> json" where
  "snapshot_event env e = jobj [(''id'', JString (ev_id e)), (''calendar_id'', JString (ev_calendar_id e)),
     (''subject'', JString (ev_subject e)), (''start'', JString (ae_show_ts env (ev_start e))),
     (''end'', JString (ae_show_ts env (ev_end e))), (''location'', jstring_option (ev_location e))]"

definition snapshot_contact_folder :: "contact_folder \<Rightarrow> json" where
  "snapshot_contact_folder c = jobj [(''id'', JString (cf_id c)), (''display_name'', JString (cf_display_name c)),
     (''parent_folder_id'', jstring_option (cf_parent_folder_id c)), (''is_default'', JBool (cf_is_default c))]"

definition snapshot_contact :: "contact \<Rightarrow> json" where
  "snapshot_contact c = jobj [(''id'', JString (ct_id c)), (''folder_id'', JString (ct_folder_id c)),
     (''display_name'', jstring_option (ct_display_name c)),
     (''emails'', JArray (map (\<lambda>e. jobj [(''address'', JString (ce_address e)), (''name'', jstring_option (ce_name e))])
        (ct_emails c)))]"

definition snapshot_acl :: "acl_grant \<Rightarrow> json" where
  "snapshot_acl a = jobj [(''mailbox_id'', JString (acl_mailbox_id a)), (''identifier'', JString (acl_identifier a)),
     (''rights'', JString (acl_rights a))]"

definition snapshot_public_folder :: "public_folder \<Rightarrow> json" where
  "snapshot_public_folder p = jobj [(''id'', JString (pf_id p)), (''display_name'', JString (pf_display_name p)),
     (''parent_id'', jstring_option (pf_parent_id p)), (''folder_class'', JString (folder_class p))]"

definition snapshot_state :: "admin_env \<Rightarrow> admin_handler" where
  "snapshot_state env s = (let f = sh_fixture s in
     (admin_json (jobj [(''name'', JString (fx_name f)), (''state'', JString (primary_state f)),
        (''mailboxes'', JArray (map snapshot_mailbox (mailboxes f))),
        (''emails'', JArray (map (snapshot_email env) (emails f))),
        (''events'', JArray (map (snapshot_event env) (events f))),
        (''contact_folders'', JArray (map snapshot_contact_folder (contact_folders f))),
        (''contacts'', JArray (map snapshot_contact (contacts f))), (''acls'', JArray (map snapshot_acl (acls f))),
        (''public_folders'', JArray (map snapshot_public_folder (public_folders f)))]), s))"

text \<open>The step endpoint on the handles: \<open>step_fixture\<close> with the pushes sent.\<close>

definition step_route :: "admin_env \<Rightarrow> json option \<Rightarrow> admin_handler" where
  "step_route env body s =
     (let ((code, v), (c, f), pushes) = step_fixture (ae_change env) body (sh_cursor s, sh_fixture s)
      in (\<lparr>ad_status = code, ad_body = Some v\<rparr>, s\<lparr>sh_cursor := c, sh_fixture := f,
         sh_push := emit_state_advance (ch_show_json (ae_change env)) pushes (sh_push s)\<rparr>))"

subsection \<open>The routes\<close>

record admin_request =
  aq_method :: string
  aq_path :: string
  aq_query :: "(string \<times> string) list"
  aq_body :: "json option"

definition admin_routes :: "admin_env \<Rightarrow> admin_request \<Rightarrow> (string \<times> (string \<times> admin_handler) list) list" where
  "admin_routes env r =
     [(''/test/smtp/submissions'', [(''GET'', list_smtp_submissions env), (''DELETE'', clear_smtp_submissions)]),
      (''/test/requests'', [(''GET'', list_requests env (aq_query r)), (''DELETE'', clear_requests)]),
      (''/test/fixture/identity'', [(''GET'', fixture_identity_route)]),
      (''/test/fixture/reset'', [(''POST'', reset_fixture)]),
      (''/test/fixture/step'', [(''POST'', step_route env (aq_body r))]),
      (''/test/snapshot-state'', [(''GET'', snapshot_state env)]),
      (''/test/latency'', [(''GET'', get_latency), (''POST'', set_latency (aq_body r))]),
      (''/test/jmap/fail-open'', [(''POST'', arm_fail_open (aq_body r)), (''DELETE'', clear_fail_open)]),
      (''/test/push/jmap'', [(''GET'', list_jmap_push)]),
      (''/test/push/graph'', [(''GET'', list_graph_push)]),
      (''/test/push/graph/excluded'', [(''GET'', list_graph_excluded)]),
      (''/test/push/subscriptions'', [(''GET'', list_push_subscriptions)]),
      (''/test/gmail/pubsub/messages'', [(''GET'', list_pubsub), (''DELETE'', clear_pubsub)]),
      (''/test/gmail/pubsub/publish'', [(''POST'', publish_pubsub_route env (aq_body r))]),
      (''/test/gmail/pubsub/push-endpoint'', [(''POST'', set_pubsub_endpoint (aq_body r))])]"

definition admin_handle :: "admin_env \<Rightarrow> admin_request \<Rightarrow> admin_handler" where
  "admin_handle env r s =
     (case map_of (admin_routes env r) (aq_path r) of
        None \<Rightarrow> (\<lparr>ad_status = 404, ad_body = None\<rparr>, s)
      | Some methods \<Rightarrow>
          (case map_of methods (aq_method r) of
             None \<Rightarrow> (\<lparr>ad_status = 405, ad_body = None\<rparr>, s)
           | Some handler \<Rightarrow> handler s))"

end
