(* ===== verification/Change_Props.thy ===== *)
theory Change_Props
  imports Change_Script Jmap_Sync
begin

text \<open>
  The change script's promises: a refused step leaves nothing behind, an accepted one is recorded once, and the
  mail invariant survives a step whose new emails are filed like the ones the protocols create.
\<close>

subsection \<open>What a step touches\<close>

text \<open>The fixture is the old one outside the sections a step announced.\<close>

definition within :: "step_touches \<Rightarrow> fixture \<Rightarrow> fixture \<Rightarrow> bool" where
  "within t f g \<longleftrightarrow> rewind t f g = f"

lemma within_refl: "within t f f"
  by (simp add: within_def rewind_def)

lemma within_section:
  "st_emails t \<Longrightarrow> within t f (g\<lparr>emails := x1\<rparr>) = within t f g"
  "st_emails t \<Longrightarrow> within t f (g\<lparr>mailbox_uid_history := x2\<rparr>) = within t f g"
  "st_mailboxes t \<Longrightarrow> within t f (g\<lparr>mailboxes := x3\<rparr>) = within t f g"
  "st_events t \<Longrightarrow> within t f (g\<lparr>events := x4\<rparr>) = within t f g"
  "st_contacts t \<Longrightarrow> within t f (g\<lparr>contacts := x5\<rparr>) = within t f g"
  "st_contact_folders t \<Longrightarrow> within t f (g\<lparr>contact_folders := x6\<rparr>) = within t f g"
  "st_acls t \<Longrightarrow> within t f (g\<lparr>acls := x7\<rparr>) = within t f g"
  "st_groups t \<Longrightarrow> within t f (g\<lparr>groups := x8\<rparr>) = within t f g"
  by (simp_all add: within_def rewind_def)

text \<open>The UID operations change the histories and nothing else.\<close>

lemma within_uid:
  assumes "st_emails t"
  shows "within t f (snd (assign_uid mb i g)) = within t f g" "within t f (retire_uid mb i g) = within t f g"
  by (simp_all add: assign_uid_def retire_uid_def Let_def within_section(2) [OF assms] split: option.split)

lemma within_uids:
  assumes "st_emails t"
  shows "within t f (fold (\<lambda>mb f. snd (assign_uid mb i f)) mbs g) = within t f g"
    "within t f (fold (\<lambda>mb. retire_uid mb i) mbs g) = within t f g"
    "within t f (sync_mailbox_uids i olds news g) = within t f g"
  unfolding sync_mailbox_uids_def Let_def
  by (rule fold_same, simp add: within_uid [OF assms])+
    (subst fold_same [where k = "within t f"], simp add: within_uid [OF assms],
      rule fold_same, simp add: within_uid [OF assms])

text \<open>An operation changes the sections it is classified under.\<close>

lemmas op_defs = refuse_op_def accept_op_def Let_def

lemma email_ops_within:
  assumes "st_emails t"
  shows "within t f (fst (fst (op_email_create e (g, d, mv)))) = within t f g"
    "within t f (fst (fst (op_email_update env i patch (g, d, mv)))) = within t f g"
    "within t f (fst (fst (op_email_reaction i rt rc clear (g, d, mv)))) = within t f g"
    "within t f (fst (fst (op_email_move i ms (g, d, mv)))) = within t f g"
    "within t f (fst (fst (op_email_destroy i (g, d, mv)))) = within t f g"
  by (simp_all add: op_email_create_def op_email_update_def op_email_reaction_def op_email_move_def
      op_email_destroy_def op_defs file_email_def patch_email_at_def within_uids [OF assms] within_section(1) [OF assms]
      split: sum.split option.split prod.split)

lemma mailbox_ops_within:
  assumes "st_mailboxes t"
  shows "within t f (fst (fst (op_mailbox_create e (g, d, mv)))) = within t f g"
    "within t f (fst (fst (op_mailbox_update env i patch (g, d, mv)))) = within t f g"
    "within t f (fst (fst (op_mailbox_destroy i (g, d, mv)))) = within t f g"
  by (simp_all add: op_mailbox_create_def op_mailbox_update_def op_mailbox_destroy_def op_defs within_section(3) [OF assms]
      split: sum.split option.split prod.split)

lemma event_ops_within:
  assumes "st_events t"
  shows "within t f (fst (fst (op_event_create ev (g, d, mv)))) = within t f g"
    "within t f (fst (fst (op_event_update env i patch (g, d, mv)))) = within t f g"
    "within t f (fst (fst (op_event_destroy i (g, d, mv)))) = within t f g"
  by (simp_all add: op_event_create_def op_event_update_def op_event_destroy_def op_defs within_section(4) [OF assms]
      split: sum.split option.split prod.split)

lemma contact_ops_within:
  assumes "st_contacts t"
  shows "within t f (fst (fst (op_contact_create c (g, d, mv)))) = within t f g"
    "within t f (fst (fst (op_contact_update i patch (g, d, mv)))) = within t f g"
    "within t f (fst (fst (op_contact_destroy i (g, d, mv)))) = within t f g"
  by (simp_all add: op_contact_create_def op_contact_update_def op_contact_destroy_def op_defs within_section(5) [OF assms]
      split: sum.split option.split prod.split)

lemma contact_folder_ops_within:
  assumes "st_contact_folders t"
  shows "within t f (fst (fst (op_contact_folder_create c (g, d, mv)))) = within t f g"
    "within t f (fst (fst (op_contact_folder_update i patch (g, d, mv)))) = within t f g"
    "within t f (fst (fst (op_contact_folder_destroy i (g, d, mv)))) = within t f g"
  by (simp_all add: op_contact_folder_create_def op_contact_folder_update_def op_contact_folder_destroy_def op_defs
      within_section(6) [OF assms] split: sum.split option.split prod.split)

lemma shared_ops_within:
  "st_groups t \<Longrightarrow> within t f (fst (fst (op_group_create x (g, d, mv)))) = within t f g"
  "st_groups t \<Longrightarrow> within t f (fst (fst (op_group_update i name mail kinds ms (g, d, mv)))) = within t f g"
  "st_groups t \<Longrightarrow> within t f (fst (fst (op_group_destroy i (g, d, mv)))) = within t f g"
  "st_acls t \<Longrightarrow> within t f (fst (fst (op_acl_grant m i rights (g, d, mv)))) = within t f g"
  "st_acls t \<Longrightarrow> within t f (fst (fst (op_acl_revoke m i (g, d, mv)))) = within t f g"
  by (simp_all add: op_group_create_def op_group_update_def op_group_destroy_def op_acl_grant_def op_acl_revoke_def
      op_defs within_section split: option.split)

text \<open>Classifying an operation sets its flag, whatever was set before.\<close>

definition either :: "step_touches \<Rightarrow> step_touches \<Rightarrow> step_touches" where
  "either t u = \<lparr>st_emails = (st_emails t \<or> st_emails u), st_mailboxes = (st_mailboxes t \<or> st_mailboxes u),
     st_events = (st_events t \<or> st_events u), st_contacts = (st_contacts t \<or> st_contacts u),
     st_contact_folders = (st_contact_folders t \<or> st_contact_folders u), st_acls = (st_acls t \<or> st_acls u),
     st_groups = (st_groups t \<or> st_groups u)\<rparr>"

lemma touch_either: "touch op t = either (touch op touches_none) t"
  by (cases op; cases t) (simp_all add: either_def touches_none_def)

lemma either_swap: "either t (either u v) = either u (either t v)"
  and either_again: "either t (either t v) = either t v"
  by (auto simp: either_def)

lemma touched: "op \<in> set ops \<Longrightarrow> touch op (fold touch ops t) = fold touch ops t"
proof (induction ops rule: rev_induct)
  case (snoc op' ops)
  have "touch op (touch op' u) = touch op' (touch op u)" "touch op (touch op u) = touch op u" for u
    by (metis touch_either either_swap) (metis touch_either either_again)
  with snoc show ?case by auto
qed simp

lemma flag_set:
  "t\<lparr>st_emails := True\<rparr> = t \<longleftrightarrow> st_emails t" "t\<lparr>st_mailboxes := True\<rparr> = t \<longleftrightarrow> st_mailboxes t"
  "t\<lparr>st_events := True\<rparr> = t \<longleftrightarrow> st_events t" "t\<lparr>st_contacts := True\<rparr> = t \<longleftrightarrow> st_contacts t"
  "t\<lparr>st_contact_folders := True\<rparr> = t \<longleftrightarrow> st_contact_folders t" "t\<lparr>st_acls := True\<rparr> = t \<longleftrightarrow> st_acls t"
  "t\<lparr>st_groups := True\<rparr> = t \<longleftrightarrow> st_groups t" for t :: step_touches
  by (cases t; auto)+

lemma apply_op_within:
  assumes "touch op t = t"
  shows "within t f (fst (fst (apply_op env op (g, d, mv)))) = within t f g"
  using assms
  by (cases op) (simp_all only: touch.simps apply_op.simps flag_set email_ops_within mailbox_ops_within event_ops_within
      contact_ops_within contact_folder_ops_within shared_ops_within)

lemma apply_ops_within:
  assumes "list_all (\<lambda>op. touch op t = t) ops" and "within t f (fst s)"
  shows "within t f (fst (fst (apply_ops env step n ops s)))"
  using assms
proof (induction ops arbitrary: n s)
  case (Cons op ops)
  obtain g d mv where s: "s = (g, d, mv)" by (cases s)
  have "within t f (fst (fst (apply_op env op s)))"
    using apply_op_within [of op t f env g d mv] Cons.prems by (simp add: s)
  then show ?case using Cons.IH Cons.prems(1) by (auto split: prod.split option.split)
qed simp

lemma step_within: "within (touches_from_step step) f (fst (fst (apply_change_step env step (f, d, mv))))"
  unfolding apply_change_step_def
  by (rule apply_ops_within) (simp_all add: list_all_iff touches_from_step_def touched within_refl)

lemma within_announce: "within t f g \<Longrightarrow> announce g = announce f"
  unfolding within_def by (drule arg_cong [where f = announce]) (simp add: rewind_def)

text \<open>Either nothing happened, or the step at the cursor was applied and recorded.\<close>

lemma advance_cases:
  assumes "advance_change_cursor env expect (c, f) = (r, (c', f'), pushes)"
  obtains (stays) "c' = c" "f' = f" "pushes = []" "case r of Inr (AppliedStep a) \<Rightarrow> False
      | Inr (Exhausted name) \<Rightarrow> length (change_script f) \<le> c | Inl e \<Rightarrow> True"
  | (applied) a g d where "r = Inr (AppliedStep a)" "c < length (change_script f)" "c' = c + 1"
      "expect = None \<or> expect = Some (as_step_id a)" "as_step_id a = cs_id (change_script f ! c)"
      "apply_change_step env (change_script f ! c) (f, diff_default, []) = ((g, d, as_moved a), None)"
      "record_transition d g = (as_trans a, f')"
      "pushes = map (account_push_for f' (as_trans a)) (accounts_touched f' d)"
proof -
  let ?step = "change_script f ! c"
  obtain g d mv e where run: "apply_change_step env ?step (f, diff_default, []) = ((g, d, mv), e)"
    by (metis prod_cases3 surj_pair)
  have rewound: "rewind (touches_from_step ?step) f g = f"
    using step_within [of ?step f env diff_default "[]"] by (simp add: run within_def)
  obtain t f1 where rec: "record_transition d g = (t, f1)" by fastforce
  note def = advance_change_cursor_def Let_def run rec rewound
  show thesis
  proof (cases "length (change_script f) \<le> c \<or> (expect \<noteq> None \<and> expect \<noteq> Some (cs_id ?step)) \<or> e \<noteq> None")
    case True
    then show thesis using assms by (intro stays) (auto simp: def split: if_splits)
  next
    case False
    then have e: "e = None" by blast
    from False show thesis
      using assms by (intro applied [of "\<lparr>as_step_id = cs_id ?step, as_fixture_name = fx_name f1, as_cursor_after = c + 1,
        as_new_state = primary_state f1, as_trans = t, as_moved = mv\<rparr>" g d]) (auto simp: def e split: if_splits)
  qed
qed

text \<open>
  C11. A change step is atomic. However the cursor is asked to advance, a refusal (a wrong expectation, or any operation of
  the step) leaves the cursor and the whole fixture exactly as they were, with nothing pushed, even where an
  operation had already changed something; past the end nothing happens either. Otherwise every operation was accepted, the
  cursor moved by one, the collected changes were recorded as the one transition that is reported, and exactly the
  accounts they touch are pushed.
\<close>

theorem change_step_atomic:
  "case advance_change_cursor env expect (c, f) of (r, (c', f'), pushes) \<Rightarrow>
     (case r of
        Inl e \<Rightarrow> c' = c \<and> f' = f \<and> pushes = []
      | Inr (Exhausted name) \<Rightarrow> length (change_script f) \<le> c \<and> c' = c \<and> f' = f \<and> pushes = []
      | Inr (AppliedStep a) \<Rightarrow> c < length (change_script f) \<and> (expect = None \<or> expect = Some (as_step_id a)) \<and>
          as_step_id a = cs_id (change_script f ! c) \<and> c' = c + 1 \<and>
          (\<exists>g d. apply_change_step env (change_script f ! c) (f, diff_default, []) = ((g, d, as_moved a), None) \<and>
             record_transition d g = (as_trans a, f') \<and> map ap_account_id pushes = accounts_touched f' d))"
proof -
  obtain r c' f' pushes where run: "advance_change_cursor env expect (c, f) = (r, (c', f'), pushes)"
    by (metis prod_cases3 surj_pair)
  from run show ?thesis
  proof (cases rule: advance_cases)
    case stays
    then show ?thesis by (auto simp: run split: sum.splits step_result.splits)
  next
    case (applied a g d)
    then show ?thesis by (simp add: run account_push_for_def o_def)
  qed
qed

subsection \<open>The mail invariant\<close>

text \<open>What the loader does not check of a script: a new or moved email names no mailbox twice, a new id is not to be minted.\<close>

fun op_ok :: "fixture \<Rightarrow> change_op \<Rightarrow> bool" where
  "op_ok f (EmailCreate e) \<longleftrightarrow> filed e \<and> \<not> to_be_minted f (em_id e)"
| "op_ok f (EmailUpdate i patch) \<longleftrightarrow> json_ok patch"
| "op_ok f (EmailMove i ms) \<longleftrightarrow> ms \<noteq> [] \<and> distinct ms"
| "op_ok f _ \<longleftrightarrow> True"

definition script_ok :: "fixture \<Rightarrow> bool" where
  "script_ok f \<longleftrightarrow> list_all (\<lambda>step. list_all (op_ok f) (cs_ops step)) (change_script f)"

text \<open>A state the script can go on from: the invariant, the counter, the logs and the script as they were.\<close>

definition goes_on :: "fixture \<Rightarrow> fixture \<Rightarrow> bool" where
  "goes_on f g \<longleftrightarrow> mail_ok g \<and> synthetic_email_seq g = synthetic_email_seq f \<and> account_logs g = account_logs f \<and>
     state_seed g = state_seed f \<and> change_script g = change_script f"

lemma mail_ok_file:
  assumes "mail_ok f" and "filed e" and "em_id e \<notin> email_ids f" and "\<not> to_be_minted f (em_id e)"
  shows "mail_ok (file_email (em_id e) e f)"
  unfolding mail_ok_def
proof (intro conjI allI impI)
  let ?g = "file_email (em_id e) e f"
  have g: "emails ?g = emails f @ [e]" "synthetic_email_seq ?g = synthetic_email_seq f"
    by (simp_all add: file_email_def)
  have held: "held ?g mb i = held f mb i + (if i = em_id e \<and> mb \<in> set (mailbox_ids e) then 1 else 0)" for mb i
    using assms(2) by (simp add: file_email_def held_assign_all filed_def)
  have fresh: "em_id x \<noteq> em_id e" if "x \<in> set (emails f)" for x
    using assms(3) imageI [OF that, of em_id] by (auto simp: email_ids_def)
  show "distinct (map em_id (emails ?g))"
    using mail_okD(1) [OF assms(1)] assms(3) by (simp add: g email_ids_def)
  show "list_all filed (emails ?g)"
    using mail_okD(2) [OF assms(1)] assms(2) by (simp add: g list_all_iff)
  show "held ?g mb i = (if lies_in ?g mb i then 1 else 0)" for mb i
    using mail_okD(3) [OF assms(1), of mb i] fresh by (auto simp: held lies_in_iff g)
  show "mock_email_id n \<notin> email_ids ?g" if "n > synthetic_email_seq ?g" for n
    using mail_okD(4) [OF assms(1), of n] assms(4) that by (auto simp: g email_ids_def to_be_minted_def)
qed

lemma file_email_rest [simp]:
  "synthetic_email_seq (file_email i e f) = synthetic_email_seq f" "account_logs (file_email i e f) = account_logs f"
  "state_seed (file_email i e f) = state_seed f"
  by (simp_all add: file_email_def)

lemma position_at: "email_position f i = Some n \<Longrightarrow> n < length (emails f) \<and> em_id (emails f ! n) = i"
  using file_position [of _ i "emails f"] by (auto simp: email_position_def Let_def split: if_splits)

lemma sync_same: "sync_mailbox_uids i ms ms f = f"
proof -
  have "fold (\<lambda>m f. if m \<notin> set ms then k m f else f) xs f = f" if "set xs \<subseteq> set ms" for k f xs
    using that by (induction xs arbitrary: f) auto
  from this [of ms "\<lambda>m. retire_uid m i" f] this [of ms "\<lambda>m f. snd (assign_uid m i f)" f] show ?thesis
    by (simp add: sync_mailbox_uids_def)
qed

lemma moved_edits:
  assumes "mail_ok f" and "email_position f i = Some n" and "filed e'"
    and "em_id e' = i" and "em_account_id e' = em_account_id (emails f ! n)"
  shows "edits n e' f (patch_email_at i n e' f)"
  using sync_edits [OF assms(1) _ assms(3), of n] position_at [OF assms(2)] assms(4,5) by (simp add: patch_email_at_def)

text \<open>The email operations are the steps of the mail contract; the others leave mail alone.\<close>

lemma edits_goes_on:
  assumes "mail_ok f" and "edits n e' f f1" and "change_script f1 = change_script f"
  shows "goes_on f f1"
  using mail_ok_edits [OF assms(1,2)] assms(2,3) by (simp add: goes_on_def edits_def same_rest_def)

lemma same_mail_goes_on:
  "mail_ok f \<Longrightarrow> mail_state g = mail_state f \<Longrightarrow> change_script g = change_script f \<Longrightarrow> goes_on f g"
  using mail_ok_cong [of g f] by (simp add: goes_on_def mail_state_def)

lemma goes_on_refl: "mail_ok f \<Longrightarrow> goes_on f f"
  by (simp add: goes_on_def)

lemma email_create_goes_on:
  assumes "mail_ok f" and "filed e" and "\<not> to_be_minted f (em_id e)"
  shows "goes_on f (fst (fst (op_email_create e (f, d, mv))))"
proof -
  have "goes_on f (file_email (em_id e) (e\<lparr>em_account_id := a\<rparr>) f)" if "em_id e \<notin> em_id ` set (emails f)" for a
    using mail_ok_file [OF assms(1), of "e\<lparr>em_account_id := a\<rparr>"] assms(2,3) that
    by (simp add: goes_on_def filed_def email_ids_def, simp add: file_email_def)
  then show ?thesis
    using goes_on_refl [OF assms(1)]
    by (simp add: op_email_create_def op_defs split: sum.split option.split prod.split)
qed

lemma email_change_goes_on:
  assumes "mail_ok f"
  shows "json_ok patch \<Longrightarrow> goes_on f (fst (fst (op_email_update env i patch (f, d, mv))))"
    and "ms \<noteq> [] \<Longrightarrow> distinct ms \<Longrightarrow> goes_on f (fst (fst (op_email_move i ms (f, d, mv))))"
    and "goes_on f (fst (fst (op_email_reaction i rt rc clear (f, d, mv))))"
proof -
  have old: "n < length (emails f) \<and> filed (emails f ! n) \<and> em_id (emails f ! n) = i"
    if "email_position f i = Some n" for n
    using position_at [OF that] mail_okD(2) [OF assms] by simp
  have edit: "goes_on f (patch_email_at i n e' f)" if "email_position f i = Some n"
    "filed e' \<and> em_id e' = em_id (emails f ! n) \<and> em_account_id e' = em_account_id (emails f ! n)" for n e'
    using edits_goes_on [OF assms moved_edits [OF assms that(1)]] that old [OF that(1)]
    by (simp add: patch_email_at_def)
  show "json_ok patch \<Longrightarrow> goes_on f (fst (fst (op_email_update env i patch (f, d, mv))))"
    using goes_on_refl [OF assms] edit apply_email_patch_keeps old
    by (auto simp: op_email_update_def op_defs split: option.split sum.split)
  have "goes_on f (patch_email_at i n ((emails f ! n)\<lparr>mailbox_ids := ms\<rparr>) f)"
    if "email_position f i = Some n" "ms \<noteq> []" "distinct ms" for n
    using old [OF that(1)] that by (intro edit) (simp_all add: filed_def)
  then show "ms \<noteq> [] \<Longrightarrow> distinct ms \<Longrightarrow> goes_on f (fst (fst (op_email_move i ms (f, d, mv))))"
    using goes_on_refl [OF assms] by (simp add: op_email_move_def op_defs split: option.split)
  have "goes_on f (f\<lparr>emails := (emails f)[n := (emails f ! n)\<lparr>reaction_type := x, reaction_count := y\<rparr>]\<rparr>)"
    if "email_position f i = Some n" for n x y
  proof -
    have "goes_on f (patch_email_at i n ((emails f ! n)\<lparr>reaction_type := x, reaction_count := y\<rparr>) f)"
      using old [OF that] that by (intro edit) (simp_all add: filed_def)
    then show ?thesis by (simp add: patch_email_at_def sync_same)
  qed
  then show "goes_on f (fst (fst (op_email_reaction i rt rc clear (f, d, mv))))"
    using goes_on_refl [OF assms] by (simp add: op_email_reaction_def op_defs split: option.split)
qed

lemma email_destroy_goes_on:
  assumes "mail_ok f"
  shows "goes_on f (fst (fst (op_email_destroy i (f, d, mv))))"
proof -
  have "goes_on f (fold (\<lambda>mb. retire_uid mb i) (mailbox_ids (emails f ! n))
      (f\<lparr>emails := take n (emails f) @ drop (Suc n) (emails f)\<rparr>))" if "email_position f i = Some n" for n
    using mail_ok_removes [OF assms retire_removes [OF assms, of n i]] position_at [OF that]
    by (simp add: goes_on_def)
  then show ?thesis
    using goes_on_refl [OF assms] by (simp add: op_email_destroy_def op_defs split: option.split)
qed

lemma apply_op_goes_on:
  assumes "mail_ok f" and "op_ok f op"
  shows "goes_on f (fst (fst (apply_op env op (f, d, mv))))"
proof -
  have same: "goes_on f g" if "mail_state g = mail_state f \<and> change_script g = change_script f" for g
    using same_mail_goes_on [OF assms(1)] that by blast
  show ?thesis
  proof (cases op)
    case (EmailCreate e)
    then show ?thesis using email_create_goes_on [OF assms(1)] assms(2) by simp
  next
    case (EmailUpdate i patch)
    then show ?thesis using email_change_goes_on(1) [OF assms(1)] assms(2) by simp
  next
    case (EmailMove i ms)
    then show ?thesis using email_change_goes_on(2) [OF assms(1)] assms(2) by simp
  next
    case (EmailReaction i rt rc clear)
    then show ?thesis using email_change_goes_on(3) [OF assms(1)] by simp
  next
    case (EmailDestroy i)
    then show ?thesis using email_destroy_goes_on [OF assms(1)] by simp
  qed (rule same, simp add: mail_state_def op_defs op_mailbox_create_def op_mailbox_update_def op_mailbox_destroy_def
      op_event_create_def op_event_update_def op_event_destroy_def op_contact_create_def op_contact_update_def
      op_contact_destroy_def op_contact_folder_create_def op_contact_folder_update_def op_contact_folder_destroy_def
      op_group_create_def op_group_update_def op_group_destroy_def op_acl_grant_def op_acl_revoke_def
      split: option.split sum.split prod.split)+
qed

lemma goes_on_trans: "goes_on f g \<Longrightarrow> goes_on g h \<Longrightarrow> goes_on f h"
  by (simp add: goes_on_def)

lemma op_ok_cong: "synthetic_email_seq g = synthetic_email_seq f \<Longrightarrow> op_ok g op = op_ok f op"
  by (cases op) (simp_all add: to_be_minted_def)

lemma apply_ops_goes_on:
  assumes "goes_on f (fst s)" and "list_all (op_ok f) ops"
  shows "goes_on f (fst (fst (apply_ops env step n ops s)))"
  using assms
proof (induction ops arbitrary: n s)
  case (Cons op ops)
  obtain g d mv where s: "s = (g, d, mv)" by (cases s)
  have "op_ok g op" using Cons.prems op_ok_cong [of g f op] by (simp add: s goes_on_def)
  then have "goes_on g (fst (fst (apply_op env op s)))"
    using apply_op_goes_on [of g op env d mv] Cons.prems(1) by (simp add: s goes_on_def)
  with Cons.prems(1) have "goes_on f (fst (fst (apply_op env op s)))"
    using goes_on_trans [of f g] by (simp add: s)
  then show ?case using Cons.IH Cons.prems(2) by (auto split: prod.split option.split)
qed simp

lemma advance_keeps:
  assumes "store_ok f" and "script_ok f" and "advance_change_cursor env expect (c, f) = (r, (c', f'), pushes)"
  shows "store_ok f' \<and> script_kept f f'"
  using assms(3)
proof (cases rule: advance_cases)
  case (applied a g d)
  let ?step = "change_script f ! c"
  have mail: "mail_ok f" "wf_store f" using assms(1) by (simp_all add: store_ok_def)
  have "list_all (op_ok f) (cs_ops ?step)" using assms(2) applied(2) by (simp add: script_ok_def list_all_length)
  from apply_ops_goes_on [OF _ this, of "(f, diff_default, [])" env "cs_id ?step" 0]
  have g: "goes_on f g" using applied(6) goes_on_refl [OF mail(1)] by (simp add: apply_change_step_def)
  have "announce g = announce f"
    using within_announce [OF step_within [of ?step f env diff_default "[]"]] by (simp add: applied(6))
  with g have "store_ok g" "script_kept f g"
    using mail(2) by (simp_all add: store_ok_def goes_on_def wf_store_def script_kept_def)
  then show ?thesis using kept_script.recorded [of g f d] applied(7) by simp
qed (use assms(1) in \<open>simp add: script_kept_def\<close>)

text \<open>A script that is fine stays fine: the ids to be minted become fewer.\<close>

lemma script_ok_kept:
  assumes "script_ok f" and "script_kept f f'"
  shows "script_ok f'"
proof -
  have "to_be_minted f i" if i: "to_be_minted f' i" for i
  proof -
    from i obtain n where n: "synthetic_email_seq f' < n" "i = mock_email_id n" by (auto simp: to_be_minted_def)
    moreover have "synthetic_email_seq f < n" using n(1) assms(2) by (simp add: script_kept_def)
    ultimately show ?thesis by (auto simp: to_be_minted_def)
  qed
  then have "op_ok f op \<Longrightarrow> op_ok f' op" for op by (cases op) auto
  then show ?thesis using assms by (auto simp: script_ok_def script_kept_def list_all_iff)
qed

text \<open>
  A change step keeps the mail invariant. From a fixture that satisfies it, with a script whose new and moved
  emails name each mailbox once and whose new ids are not to be minted, whatever step is applied or refused: email ids stay unique,
  every email is in at least one mailbox, listed there once, with exactly one live IMAP UID in each of its mailboxes
  and none elsewhere, the change logs are well-formed, and the rest of the script can go on.
\<close>

theorem change_step_keeps_mail:
  assumes "store_ok f" and "script_ok f" and "advance_change_cursor env expect (c, f) = (r, (c', f'), pushes)"
  shows "store_ok f' \<and> script_ok f' \<and> change_script f' = change_script f"
  using advance_keeps [OF assms] script_ok_kept [OF assms(2)] by (simp add: script_kept_def)

lemma recorded_emails: "record_transition d g = (t, f') \<Longrightarrow> emails f' = emails g"
  using arg_cong [OF record_transition_frame [of d g], of emails] by simp

definition sample_scripted :: fixture where
  "sample_scripted = sample_inbox\<lparr>change_script := [\<lparr>cs_id = ''s1'', cs_ops = [EmailDestroy ''e1'']\<rparr>]\<rparr>"

definition sample_change_env :: change_env where
  "sample_change_env = \<lparr>ch_parse_ts = (\<lambda>_. Inl []), ch_show_json = (\<lambda>_. [])\<rparr>"

theorem change_step_keeps_mail_witness:
  "case advance_change_cursor sample_change_env (Some ''s1'') (0, sample_scripted) of (r, (c', f'), pushes) \<Rightarrow>
     c' = 1 \<and> store_ok f' \<and> map em_id (emails f') = [''e2'']"
proof -
  obtain r c' f' pushes where run:
    "advance_change_cursor sample_change_env (Some ''s1'') (0, sample_scripted) = (r, (c', f'), pushes)"
    by (metis prod_cases3 surj_pair)
  have "store_ok sample_scripted"
    using sample_store_ok(1)
    by (simp add: store_ok_def wf_store_def mail_ok_def lies_in_def email_ids_def held_def uid_history_def sample_scripted_def)
  moreover have "script_ok sample_scripted" by (simp add: script_ok_def sample_scripted_def)
  ultimately have "store_ok f'" using change_step_keeps_mail [OF _ _ run] by blast
  moreover have "c' = 1 \<and> map em_id (emails f') = [''e2'']"
    using run by (auto simp: advance_change_cursor_def Let_def sample_scripted_def sample_inbox_def sample_email_def
        apply_change_step_def op_email_destroy_def email_position_def accept_op_def
        dest!: recorded_emails split: prod.splits)
  ultimately show ?thesis by (simp add: run)
qed

end
