(* ===== verification/Harness_Props.thy ===== *)
theory Harness_Props
  imports Harness Change_Props
begin

text \<open>
  What a test that drives the server may rely on: an applied step pushes exactly the accounts it touched, an
  announce trigger fires before exactly the request it names, and a reset forgets the run.
\<close>

subsection \<open>An applied step and the push hub\<close>

lemma distinct_touched: "distinct (accounts_touched f d)"
  by (simp add: accounts_touched_def bt_ok_distinct)

lemma push_for_account [simp]: "ap_account_id (account_push_for f t a) = a" "ap_state (account_push_for f t a) = state_for f a"
  by (simp_all add: account_push_for_def)

lemma pushes_for:
  "distinct as \<Longrightarrow> filter (\<lambda>p. ap_account_id p = b) (map (account_push_for f t) as) =
     (if b \<in> set as then [account_push_for f t b] else [])"
  by (induction as) auto

lemma filter_one: "distinct as \<Longrightarrow> length (filter (\<lambda>a. a = b) as) = (if b \<in> set as then 1 else 0)"
  by (induction as) auto

text \<open>What a JMAP client reads of a frame: the accounts and the state of their mail.\<close>

definition changed_states :: "json \<Rightarrow> (string \<times> string option) list" where
  "changed_states frame =
     (case Option.bind (jget ''changed'' frame) as_object of
        None \<Rightarrow> []
      | Some kvs \<Rightarrow> map (apsnd (\<lambda>v. Option.bind (jget ''Email'' v) as_str)) kvs)"

lemma changed_states_frame: "changed_states (jmap_state_change p) = [(ap_account_id p, Some (ap_state p))]"
  by (simp add: changed_states_def jmap_state_change_def Let_def jget_jobj jfields_def)

text \<open>
  C12. A step pushes exactly the accounts it touched. When a step is applied, each account it touched gets one
  JMAP \<open>StateChange\<close> with the state the account has now, in one frame on every live WebSocket of the account and
  on no other; its IDLE connections wake once, a watching Gmail account gets one Pub/Sub message, and of its
  Graph subscriptions those of a personal or shared mailbox get one notification and those of public folders
  are reported as held back. When no step is applied, nothing is pushed.
\<close>

theorem step_pushes_touched:
  "case advance_cursor env expect s of (r, s') \<Rightarrow>
     (let h = sh_push s; h' = sh_push s'; show = ch_show_json (ae_change env) in
      case r of
        Inr (AppliedStep a) \<Rightarrow>
          (\<exists>g d. apply_change_step (ae_change env) (change_script (sh_fixture s) ! sh_cursor s)
               (sh_fixture s, diff_default, []) = ((g, d, as_moved a), None) \<and>
             record_transition d g = (as_trans a, sh_fixture s') \<and>
             (let touched = accounts_touched (sh_fixture s') d; push = account_push_for (sh_fixture s') (as_trans a) in
              distinct touched \<and>
              map changed_states (drop (length (ph_jmap_log h)) (ph_jmap_log h')) =
                map (\<lambda>b. [(b, Some (state_for (sh_fixture s') b))]) touched \<and>
              ph_jmap_ws h' = List.map_filter (\<lambda>l. jmap_deliver (if jl_account_id l \<in> set touched
                then [show (jmap_state_change (push (jl_account_id l)))] else []) l) (ph_jmap_ws h) \<and>
              ph_imap_idle h' = List.map_filter (\<lambda>l. imap_wakes (if il_account_id l \<in> set touched then 1 else 0) l)
                (ph_imap_idle h) \<and>
              map envelope_content (ph_pubsub h') = map envelope_content (ph_pubsub h) @
                List.map_filter (\<lambda>b. gmail_content show h (push b)) touched \<and>
              ph_graph_log h' = ph_graph_log h @ concat (map (\<lambda>b. map (graph_log_entry (push b))
                (filter (\<lambda>u. emits (subscription_namespace u)) (subscriptions_of h b))) touched) \<and>
              ph_graph_excluded h' = ph_graph_excluded h @ concat (map (\<lambda>b. map graph_excluded_entry
                (filter (\<lambda>u. \<not> emits (subscription_namespace u)) (subscriptions_of h b))) touched)))
      | _ \<Rightarrow> h' = h)"
proof -
  obtain r c' f' ps where run:
    "advance_change_cursor (ae_change env) expect (sh_cursor s, sh_fixture s) = (r, (c', f'), ps)"
    by (metis prod_cases3 surj_pair)
  from run show ?thesis
  proof (cases rule: advance_cases)
    case stays
    then show ?thesis
      by (auto simp: advance_cursor_def run emit_state_advance_def split: sum.splits step_result.splits)
  next
    case (applied a g d)
    let ?touched = "accounts_touched f' d" and ?push = "account_push_for f' (as_trans a)"
    have frames: "frames_for k (map ?push ?touched) b =
        (if b \<in> set ?touched then [k (jmap_state_change (?push b))] else [])" for k b
      by (simp add: frames_for_def pushes_for [OF distinct_touched])
    have wakes: "length (filter (\<lambda>a. a = b) ?touched) = (if b \<in> set ?touched then 1 else 0)" for b
      by (rule filter_one [OF distinct_touched])
    show ?thesis
      using applied(6,7)
      by (simp add: advance_cursor_def run applied(1,8) advance_simps frames wakes distinct_touched changed_states_frame
          pushed_to_def held_back_def o_def map_filter_def filter_map)
  qed
qed

subsection \<open>Announce triggers\<close>

definition serve_requests :: "admin_env \<Rightarrow> (string \<times> string) list \<Rightarrow> shared_handles \<Rightarrow> shared_handles" where
  "serve_requests env rs = fold (\<lambda>(protocol, request). fire_for_request env protocol request) rs"

text \<open>The step endpoint asked for these steps, one after the other.\<close>

definition take_steps :: "admin_env \<Rightarrow> string list \<Rightarrow> shared_handles \<Rightarrow> shared_handles" where
  "take_steps env steps = fold (\<lambda>step s. snd (advance_cursor env (Some step) s)) steps"

text \<open>How many of the requests a trigger matches, and which triggers a request makes due.\<close>

definition times_matched :: "string list \<Rightarrow> announce_trigger \<Rightarrow> nat" where
  "times_matched requests t = length (filter (prefix (an_before t)) requests)"

definition due_triggers :: "announce_trigger list \<Rightarrow> string list \<Rightarrow> string \<Rightarrow> announce_trigger list" where
  "due_triggers ts earlier request =
     filter (\<lambda>t. prefix (an_before t) request \<and> an_nth t = Suc (times_matched earlier t)) ts"

definition count_of :: "(nat, nat) btmap \<Rightarrow> nat \<Rightarrow> nat" where
  "count_of counts i = (case map_of counts i of Some n \<Rightarrow> n | None \<Rightarrow> 0)"

lemma count_of_entry [simp]: "count_of (bt_entry i 0 Suc counts) j = (if i = j then Suc (count_of counts i) else count_of counts j)"
  by (simp add: count_of_def split: option.split)

lemma count_matches_counts:
  "distinct (map fst ms) \<Longrightarrow>
     count_of (snd (count_matches ms counts)) i = count_of counts i + (if i \<in> fst ` set ms then 1 else 0)"
  by (induction ms counts rule: count_matches.induct) (simp_all add: Let_def case_prod_beta, blast)

lemma count_matches_due:
  "distinct (map fst ms) \<Longrightarrow>
     fst (count_matches ms counts) = map snd (filter (\<lambda>m. snd (snd m) = Suc (count_of counts (fst m))) ms)"
proof (induction ms counts rule: count_matches.induct)
  case (2 i step n ms counts)
  have "map_of (bt_entry i 0 Suc counts) i = Some n \<longleftrightarrow> n = Suc (count_of counts i)"
    by (auto simp: count_of_def split: option.split)
  moreover have "filter (\<lambda>m. snd (snd m) = Suc (count_of (bt_entry i 0 Suc counts) (fst m))) ms =
      filter (\<lambda>m. snd (snd m) = Suc (count_of counts (fst m))) ms"
    using 2(2) by (intro filter_cong) auto
  ultimately show ?case
    using 2 by (simp add: Let_def case_prod_beta del: count_of_entry map_of_bt_entry)
qed simp

text \<open>What an applied step leaves alone.\<close>

lemma advance_rest [simp]:
  "announce (sh_fixture (snd (advance_cursor env expect s))) = announce (sh_fixture s)"
  "sh_baseline (snd (advance_cursor env expect s)) = sh_baseline s"
  "sh_requests (snd (advance_cursor env expect s)) = sh_requests s"
  "sh_announce_counts (snd (advance_cursor env expect s)) = sh_announce_counts s"
proof -
  obtain r c' f' ps where run:
    "advance_change_cursor (ae_change env) expect (sh_cursor s, sh_fixture s) = (r, (c', f'), ps)"
    by (metis prod_cases3 surj_pair)
  have "announce f' = announce (sh_fixture s)"
    using run
  proof (cases rule: advance_cases)
    case (applied a g d)
    have "announce f' = announce g"
      using applied(7) arg_cong [OF record_transition_frame [of d g], of announce] by simp
    moreover have "announce g = announce (sh_fixture s)"
      using within_announce [OF step_within [of "change_script (sh_fixture s) ! sh_cursor s" "sh_fixture s"
        "ae_change env" diff_default "[]"]] by (simp add: applied(6))
    ultimately show ?thesis by simp
  qed simp
  then show "announce (sh_fixture (snd (advance_cursor env expect s))) = announce (sh_fixture s)"
    "sh_baseline (snd (advance_cursor env expect s)) = sh_baseline s"
    "sh_requests (snd (advance_cursor env expect s)) = sh_requests s"
    "sh_announce_counts (snd (advance_cursor env expect s)) = sh_announce_counts s"
    by (simp_all add: advance_cursor_def run)
qed

text \<open>The cursor reads the script part of the handles only.\<close>

definition script_part :: "shared_handles \<Rightarrow> fixture \<times> nat \<times> push_hub" where
  "script_part s = (sh_fixture s, sh_cursor s, sh_push s)"

lemma advance_script_part:
  "script_part s = script_part s' \<Longrightarrow>
     script_part (snd (advance_cursor env expect s)) = script_part (snd (advance_cursor env expect s'))"
  by (simp add: script_part_def advance_cursor_def split: prod.split)

lemma fire_trigger_rest [simp]:
  "announce (sh_fixture (fire_trigger env protocol d s)) = announce (sh_fixture s)"
  "sh_baseline (fire_trigger env protocol d s) = sh_baseline s"
  "sh_announce_counts (fire_trigger env protocol d s) = sh_announce_counts s"
  by (simp_all add: fire_trigger_def case_prod_beta Let_def)

lemma fire_trigger_script:
  "script_part (fire_trigger env protocol d s) = script_part (snd (advance_cursor env (Some (fst d)) s))"
  by (simp add: fire_trigger_def script_part_def case_prod_beta Let_def)

lemma fire_trigger_logged:
  "\<exists>e. sh_requests (fire_trigger env protocol d s) = request_log_push e (sh_requests s) \<and>
     re_protocol e = protocol \<and> re_command e = ''ANNOUNCE '' @ fst d"
  by (auto simp: fire_trigger_def case_prod_beta Let_def request_log_record_def record_with_conn_def)

lemma fire_all:
  "script_part s = script_part s' \<Longrightarrow>
     script_part (fold (fire_trigger env protocol) due s) = script_part (take_steps env (map fst due) s')"
  unfolding take_steps_def
proof (induction due arbitrary: s s')
  case (Cons d due)
  from Cons.IH [OF trans [OF fire_trigger_script advance_script_part [OF Cons.prems]]] show ?case by simp
qed simp

lemma fire_all_rest [simp]:
  "announce (sh_fixture (fold (fire_trigger env protocol) due s)) = announce (sh_fixture s)"
  "sh_baseline (fold (fire_trigger env protocol) due s) = sh_baseline s"
  "sh_announce_counts (fold (fire_trigger env protocol) due s) = sh_announce_counts s"
  by (induction due arbitrary: s) simp_all

lemma fire_all_logged:
  "\<exists>es. sh_requests (fold (fire_trigger env protocol) due s) = fold request_log_push es (sh_requests s) \<and>
     map (\<lambda>e. (re_protocol e, re_command e)) es = map (\<lambda>d. (protocol, ''ANNOUNCE '' @ fst d)) due"
proof (induction due arbitrary: s)
  case (Cons d due)
  obtain e where e: "sh_requests (fire_trigger env protocol d s) = request_log_push e (sh_requests s)"
    "re_protocol e = protocol" "re_command e = ''ANNOUNCE '' @ fst d"
    using fire_trigger_logged by blast
  obtain es where "sh_requests (fold (fire_trigger env protocol) due (fire_trigger env protocol d s)) =
      fold request_log_push es (sh_requests (fire_trigger env protocol d s))"
    "map (\<lambda>e. (re_protocol e, re_command e)) es = map (\<lambda>d. (protocol, ''ANNOUNCE '' @ fst d)) due"
    using Cons.IH by blast
  then show ?case using e by (intro exI [of _ "e # es"]) simp
qed simp

text \<open>The matches of a request, by the index of the trigger.\<close>

lemma matches_of:
  "distinct (map fst (announce_matches f request))"
  "i \<in> fst ` set (announce_matches f request) \<longleftrightarrow>
     i < length (announce f) \<and> prefix (an_before (announce f ! i)) request"
proof -
  let ?es = "filter (\<lambda>(i, t). prefix (an_before t) request) (enumerate0 (announce f))"
  have "map fst (announce_matches f request) = map fst ?es"
    by (simp add: announce_matches_def case_prod_beta)
  moreover have "distinct (map fst ?es)" by (simp add: enumerate0_def distinct_map_filter)
  ultimately show "distinct (map fst (announce_matches f request))" by simp
  show "i \<in> fst ` set (announce_matches f request) \<longleftrightarrow>
      i < length (announce f) \<and> prefix (an_before (announce f ! i)) request"
    by (force simp: announce_matches_def enumerate0_def in_set_enumerate_eq image_iff)
qed

text \<open>The counters after some requests, and the triggers the next one makes due.\<close>

definition counts_match :: "announce_trigger list \<Rightarrow> string list \<Rightarrow> shared_handles \<Rightarrow> bool" where
  "counts_match ts requests s \<longleftrightarrow> announce (sh_fixture s) = ts \<and>
     (\<forall>i < length ts. count_of (sh_announce_counts s) i = times_matched requests (ts ! i))"

lemma matched_due:
  assumes "counts_match ts earlier s"
  shows "map snd (filter (\<lambda>m. snd (snd m) = Suc (count_of (sh_announce_counts s) (fst m)))
      (announce_matches (sh_fixture s) request)) = map (\<lambda>t. (an_step t, an_nth t)) (due_triggers ts earlier request)"
proof -
  let ?due = "\<lambda>t. prefix (an_before t) request \<and> an_nth t = Suc (times_matched earlier t)"
  have ts: "announce (sh_fixture s) = ts" using assms by (simp add: counts_match_def)
  have "filter (\<lambda>p. prefix (an_before (snd p)) request \<and> an_nth (snd p) = Suc (count_of (sh_announce_counts s) (fst p)))
      (enumerate 0 ts) = filter (\<lambda>p. ?due (snd p)) (enumerate 0 ts)"
    using assms by (intro filter_cong) (auto simp: counts_match_def in_set_enumerate_eq)
  then have "map (\<lambda>p. (an_step (snd p), an_nth (snd p))) (filter (\<lambda>p. prefix (an_before (snd p)) request \<and>
      an_nth (snd p) = Suc (count_of (sh_announce_counts s) (fst p))) (enumerate 0 ts)) =
      map (\<lambda>t. (an_step t, an_nth t)) (map snd (filter (\<lambda>p. ?due (snd p)) (enumerate 0 ts)))"
    by simp
  also have "map snd (filter (\<lambda>p. ?due (snd p)) (enumerate 0 ts)) = filter ?due ts"
    using filter_map [of ?due snd "enumerate 0 ts"] by (simp add: o_def)
  finally show ?thesis
    by (simp add: announce_matches_def ts due_triggers_def enumerate0_def filter_map o_def case_prod_beta)
qed

lemma request_fires:
  assumes "counts_match ts earlier s"
  shows "\<exists>counts. fire_for_request env protocol request s =
      fold (fire_trigger env protocol) (map (\<lambda>t. (an_step t, an_nth t)) (due_triggers ts earlier request))
        (s\<lparr>sh_announce_counts := counts\<rparr>) \<and>
    (\<forall>i < length ts. count_of counts i = times_matched (earlier @ [request]) (ts ! i))"
proof -
  let ?ms = "announce_matches (sh_fixture s) request"
  have ts: "announce (sh_fixture s) = ts" using assms by (simp add: counts_match_def)
  have after: "count_of (snd (count_matches ?ms (sh_announce_counts s))) i = times_matched (earlier @ [request]) (ts ! i)"
    if "i < length ts" for i
    using that assms count_matches_counts [OF matches_of(1), of "sh_fixture s" request "sh_announce_counts s" i]
    by (simp add: matches_of(2) ts counts_match_def times_matched_def)
  show ?thesis
  proof (cases "?ms = []")
    case True
    then have "due_triggers ts earlier request = []" using matched_due [OF assms, of request] by simp
    then show ?thesis
      using True after by (intro exI [of _ "sh_announce_counts s"]) (simp add: fire_for_request_def)
  next
    case False
    then show ?thesis
      using after count_matches_due [OF matches_of(1), of "sh_fixture s" request "sh_announce_counts s"]
        matched_due [OF assms, of request]
      by (intro exI [of _ "snd (count_matches ?ms (sh_announce_counts s))"])
        (simp add: fire_for_request_def Let_def case_prod_beta)
  qed
qed

lemma requests_counted:
  "counts_match ts [] s \<Longrightarrow> counts_match ts (map snd rs) (serve_requests env rs s)"
proof (induction rs rule: rev_induct)
  case (snoc r rs)
  obtain protocol request where r: "r = (protocol, request)" by (cases r)
  let ?s = "serve_requests env rs s"
  have s: "counts_match ts (map snd rs) ?s" using snoc by simp
  obtain counts where counts: "fire_for_request env protocol request ?s =
      fold (fire_trigger env protocol) (map (\<lambda>t. (an_step t, an_nth t)) (due_triggers ts (map snd rs) request))
        (?s\<lparr>sh_announce_counts := counts\<rparr>)"
    "\<forall>i < length ts. count_of counts i = times_matched (map snd rs @ [request]) (ts ! i)"
    using request_fires [OF s] by blast
  have "serve_requests env (rs @ [r]) s = fire_for_request env protocol request ?s"
    by (simp add: serve_requests_def r)
  then show ?case using s counts by (simp add: counts_match_def r)
qed (simp add: serve_requests_def)

text \<open>
  C13. An announce trigger fires before exactly the request it names. After a reset and any earlier requests, a
  request applies the steps of the triggers whose prefix it has and whose \<open>nth\<close> match it is, in the order of the
  fixture: the fixture, the cursor and the push hub are as if the step endpoint had been asked for these steps
  at this point, and the request log has one \<open>ANNOUNCE\<close> entry for each, under the protocol of the request.
  So a trigger fires at most once in a run, and one whose step is not at the cursor is logged all the same.
\<close>

theorem announce_fires_on_nth:
  "let s1 = serve_requests env earlier (snd (reset_fixture s));
       s2 = fire_for_request env protocol request s1;
       due = due_triggers (announce (sh_baseline s)) (map snd earlier) request in
     script_part s2 = script_part (take_steps env (map an_step due) s1) \<and>
     (\<exists>es. sh_requests s2 = fold request_log_push es (sh_requests s1) \<and>
        map (\<lambda>e. (re_protocol e, re_command e)) es = map (\<lambda>t. (protocol, ''ANNOUNCE '' @ an_step t)) due)"
proof -
  let ?ts = "announce (sh_baseline s)" and ?s1 = "serve_requests env earlier (snd (reset_fixture s))"
  let ?due = "due_triggers ?ts (map snd earlier) request"
  have "counts_match ?ts [] (snd (reset_fixture s))"
    by (simp add: counts_match_def reset_fixture_def count_of_def times_matched_def)
  then have "counts_match ?ts (map snd earlier) ?s1" by (rule requests_counted)
  then obtain counts where fired: "fire_for_request env protocol request ?s1 =
      fold (fire_trigger env protocol) (map (\<lambda>t. (an_step t, an_nth t)) ?due) (?s1\<lparr>sh_announce_counts := counts\<rparr>)"
    using request_fires by blast
  have "script_part (?s1\<lparr>sh_announce_counts := counts\<rparr>) = script_part ?s1" by (simp add: script_part_def)
  then show ?thesis
    using fire_all [of "?s1\<lparr>sh_announce_counts := counts\<rparr>" ?s1 env protocol "map (\<lambda>t. (an_step t, an_nth t)) ?due"]
      fire_all_logged [of env protocol "map (\<lambda>t. (an_step t, an_nth t)) ?due" "?s1\<lparr>sh_announce_counts := counts\<rparr>"]
    by (simp add: Let_def fired o_def)
qed

end
