(* ===== verification/Loader_Accounts.thy ===== *)
theory Loader_Accounts
  imports Change_Ops
begin

text \<open>
  The first half of \<open>normalize_with_dir\<close> (\<open>src/fixture.rs\<close>): accounts, mailboxes, emails, configuration.
  The sections of \<open>Loader\<close> follow it.
\<close>

subsection \<open>Sections with unique ids\<close>

text \<open>The first id that occurred before.\<close>

fun repeated_id :: "string list \<Rightarrow> string list \<Rightarrow> string option" where
  "repeated_id seen [] = None"
| "repeated_id seen (i # is) = (if i \<in> set seen then Some i else repeated_id (i # seen) is)"

definition check_unique :: "string \<Rightarrow> string list \<Rightarrow> string + unit" where
  "check_unique kind is =
     (case repeated_id [] is of Some i \<Rightarrow> Inl (''duplicate '' @ kind @ '' id '' @ debug_str i) | None \<Rightarrow> Inr ())"

text \<open>
  A section whose loop checks the id of each entry against those before it: the ids of the entries accepted so
  far are the table the source keeps.
\<close>

definition push_unique ::
    "string \<Rightarrow> ('a \<Rightarrow> string) \<Rightarrow> ('b \<Rightarrow> string) \<Rightarrow> ('b list \<Rightarrow> 'a \<Rightarrow> string + 'b) \<Rightarrow> 'a \<Rightarrow> 'b list \<Rightarrow> string + 'b list" where
  "push_unique kind raw_id built_id build r acc =
     (if raw_id r \<in> built_id ` set acc then Inl (''duplicate '' @ kind @ '' id '' @ debug_str (raw_id r))
      else and_then (build acc r) (\<lambda>b. Inr (acc @ [b])))"

definition load_unique ::
    "string \<Rightarrow> ('a \<Rightarrow> string) \<Rightarrow> ('b \<Rightarrow> string) \<Rightarrow> ('b list \<Rightarrow> 'a \<Rightarrow> string + 'b) \<Rightarrow> 'a list \<Rightarrow> string + 'b list" where
  "load_unique kind raw_id built_id build rs = fold_result (push_unique kind raw_id built_id build) rs []"

lemma repeated_id_None: "repeated_id seen is = None \<longleftrightarrow> distinct is \<and> set is \<inter> set seen = {}"
  by (induction "is" arbitrary: seen) auto

lemma check_unique_Inr [simp]: "check_unique kind is = Inr u \<longleftrightarrow> distinct is"
  using repeated_id_None [of "[]" "is"] by (auto simp: check_unique_def split: option.split)

text \<open>A loaded section has distinct ids, and what each build promises holds of its entries.\<close>

lemma load_unique_all:
  assumes "load_unique kind raw_id built_id build rs = Inr out"
    and built: "\<And>acc r b. build acc r = Inr b \<Longrightarrow> built_id b = raw_id r \<and> P b"
  shows "distinct (map built_id out)" "list_all P out"
proof -
  have "distinct (map built_id out) \<and> list_all P out"
    using assms(1) unfolding load_unique_def
    by (rule fold_result_keeps) (auto simp: push_unique_def and_then_Inr dest!: built split: if_splits)
  then show "distinct (map built_id out)" "list_all P out" by simp_all
qed

subsection \<open>Accounts\<close>

definition account_of_raw :: "raw_account \<Rightarrow> string + account" where
  "account_of_raw r =
     (if \<not> is_email_shaped (ra_name r)
      then Inl (''account '' @ debug_str (ra_id r) @ '': name must be email-shaped (got '' @ debug_str (ra_name r) @
        ''); the OAuth userinfo endpoint exposes it as the `email` claim'')
      else Inr \<lparr>ac_id = ra_id r, ac_name = ra_name r, is_personal = ra_is_personal r, primary = ra_primary r\<rparr>)"

text \<open>The lone account becomes primary; of several, exactly one says so.\<close>

definition mark_primary :: "raw_account list \<Rightarrow> string + raw_account list" where
  "mark_primary rs =
     (let n = length (filter ra_primary rs) in
      if n = 0 then (case rs of
          [r] \<Rightarrow> Inr [r\<lparr>ra_primary := True\<rparr>]
        | _ \<Rightarrow> Inl ''fixture declares multiple accounts but none is `primary = true`'')
      else if n > 1 then Inl (''fixture declares '' @ show_nat n @ '' primary accounts; exactly one may be primary'')
      else Inr rs)"

definition normalize_accounts :: "raw_account list \<Rightarrow> string + account list" where
  "normalize_accounts rs =
     (if rs = [] then Inl ''fixture must declare at least one `[[account]]`''
      else and_then (check_unique ''account'' (map ra_id rs)) (\<lambda>_.
           and_then (mark_primary rs) (map_result account_of_raw)))"

text \<open>The tables the rest of the loader resolves an account with.\<close>

record load_ctx =
  lc_accounts :: "string list"
  lc_primary :: string

definition resolve_account :: "load_ctx \<Rightarrow> string option \<Rightarrow> string \<Rightarrow> string \<Rightarrow> string + string" where
  "resolve_account c declared kind i =
     (case declared of
        Some a \<Rightarrow> if a \<notin> set (lc_accounts c)
          then Inl (kind @ '' '' @ debug_str i @ '': account_id '' @ debug_str a @ '' does not match any declared account'')
          else Inr a
      | None \<Rightarrow> Inr (lc_primary c))"

text \<open>An event or a contact takes its parent's account and may declare no other.\<close>

definition child_account ::
    "load_ctx \<Rightarrow> string \<Rightarrow> string \<Rightarrow> string option \<Rightarrow> string \<Rightarrow> string + unit" where
  "child_account c label parent declared a =
     (case declared of
        None \<Rightarrow> Inr ()
      | Some d \<Rightarrow>
          if d \<notin> set (lc_accounts c)
          then Inl (label @ '': account_id '' @ debug_str d @ '' does not match any declared account'')
          else if d \<noteq> a
          then Inl (label @ '': declared account_id '' @ debug_str d @ '' disagrees with '' @ parent @ '' account '' @
                 debug_str a)
          else Inr ())"

subsection \<open>Mailboxes\<close>

definition mailbox_of_raw :: "load_ctx \<Rightarrow> string list \<Rightarrow> raw_mailbox \<Rightarrow> string + mailbox" where
  "mailbox_of_raw c mb_ids r =
     and_then (role_of_raw (rmb_role r)) (\<lambda>ro.
     case find (\<lambda>p. p \<notin> set mb_ids) (case rmb_parent_id r of Some p \<Rightarrow> [p] | None \<Rightarrow> []) of
       Some p \<Rightarrow> Inl (''mailbox '' @ debug_str (rmb_id r) @ '': parent_id '' @ debug_str p @ '' does not exist'')
     | None \<Rightarrow> and_then (resolve_account c (rmb_account_id r) ''mailbox'' (rmb_id r)) (\<lambda>a.
         Inr \<lparr>mb_id = rmb_id r, mb_account_id = a, mb_name = rmb_name r, mb_role = ro,
           mb_parent_id = rmb_parent_id r, sort_order = rmb_sort_order r,
           is_subscribed = or_else (rmb_is_subscribed r) True\<rparr>))"

text \<open>A child and its parent must share an account.\<close>

definition foreign_parent :: "mailbox list \<Rightarrow> mailbox \<Rightarrow> bool" where
  "foreign_parent ms m =
     (case Option.bind (mb_parent_id m) (collect_map mb_id mb_account_id ms) of
        Some a \<Rightarrow> a \<noteq> mb_account_id m | None \<Rightarrow> False)"

definition check_parents :: "mailbox list \<Rightarrow> string + unit" where
  "check_parents ms =
     (case find (foreign_parent ms) ms of
        None \<Rightarrow> Inr ()
      | Some m \<Rightarrow> let p = or_else (mb_parent_id m) [] in
          Inl (''mailbox '' @ debug_str (mb_id m) @ '': account_id '' @ debug_str (mb_account_id m) @
            '' disagrees with parent '' @ debug_str p @ '' on account '' @
            debug_str (or_else (collect_map mb_id mb_account_id ms p) [])))"

definition normalize_mailboxes :: "load_ctx \<Rightarrow> raw_mailbox list \<Rightarrow> string + mailbox list" where
  "normalize_mailboxes c rs =
     and_then (check_unique ''mailbox'' (map rmb_id rs)) (\<lambda>_.
     and_then (map_result (mailbox_of_raw c (map rmb_id rs)) rs) (\<lambda>ms.
     and_then (detect_cycles ms) (\<lambda>_.
     and_then (check_parents ms) (\<lambda>_. Inr ms))))"

text \<open>\<open>mb_ids\<close>, \<open>mb_accounts\<close> and \<open>account_ids\<close>.\<close>

definition baseline_of :: "load_ctx \<Rightarrow> mailbox list \<Rightarrow> baseline" where
  "baseline_of c ms = \<lparr>bl_mailboxes = map mb_id ms, bl_accounts = map (\<lambda>m. (mb_id m, mb_account_id m)) ms,
     bl_account_ids = lc_accounts c\<rparr>"

definition normalize_emails :: "load_env \<Rightarrow> baseline \<Rightarrow> raw_email list \<Rightarrow> string + email list" where
  "normalize_emails env b rs =
     and_then (check_unique ''email'' (map rem_id rs)) (\<lambda>_.
       map_result (normalize_email env (bl_mailboxes b) (Some (bl_accounts b)) (Some (bl_account_ids b))) rs)"

subsection \<open>Configuration\<close>

definition normalize_oauth :: "raw_oauth option \<Rightarrow> oauth_config" where
  "normalize_oauth r =
     (case r of
        Some o' \<Rightarrow> \<lparr>enforce = rou_enforce o', issuer = or_else (rou_issuer o') (issuer oauth_config_default)\<rparr>
      | None \<Rightarrow> oauth_config_default)"

definition normalize_caldav :: "raw_caldav option \<Rightarrow> caldav_config" where
  "normalize_caldav r =
     (case r of
        Some c \<Rightarrow> \<lparr>scheduling = or_else (rcd_scheduling c) (scheduling caldav_config_default)\<rparr>
      | None \<Rightarrow> caldav_config_default)"

definition announce_of_raw :: "raw_announce \<Rightarrow> string + announce_trigger" where
  "announce_of_raw r =
     (if ran_step r = [] then Inl ''announce trigger: `step` must be a non-empty step id''
      else if ran_before r = []
      then Inl (''announce trigger '' @ debug_str (ran_step r) @
        '': `before` must be a non-empty \"<METHOD> <path>\" prefix'')
      else let n = or_else (ran_nth r) 1 in
        if n = 0 then Inl (''announce trigger '' @ debug_str (ran_step r) @ '': `nth` is 1-based; 0 would never fire'')
        else Inr \<lparr>an_step = ran_step r, an_before = ran_before r, an_nth = n\<rparr>)"

definition web_finger_of_raw :: "raw_web_finger \<Rightarrow> web_finger_doc" where
  "web_finger_of_raw w = \<lparr>wf_links = map (\<lambda>l. \<lparr>wf_rel = rwl_rel l, wf_href = rwl_href l\<rparr>) (rwf_links w),
     wf_raw_body = rwf_raw_body w, wf_raw_content_type = rwf_raw_content_type w\<rparr>"

definition oidc_of_raw :: "raw_oidc \<Rightarrow> oidc_doc" where
  "oidc_of_raw r = \<lparr>oidc_issuer = roi_issuer r, authorization_endpoint = roi_authorization_endpoint r,
     token_endpoint_url = roi_token_endpoint r, userinfo_endpoint_url = roi_userinfo_endpoint r,
     scopes_supported = roi_scopes_supported r,
     code_challenge_methods_supported = roi_code_challenge_methods_supported r,
     token_endpoint_auth_methods_supported = roi_token_endpoint_auth_methods_supported r,
     oidc_raw_body = roi_raw_body r, oidc_raw_content_type = roi_raw_content_type r\<rparr>"

definition discovery_entry_of_raw :: "string \<times> raw_discovery_entry \<Rightarrow> string + discovery_entry" where
  "discovery_entry_of_raw = (\<lambda>(p, r).
     if p = [] then Inl ''discovery prefix must be non-empty''
     else if hd p = CHR ''/'' \<or> last p = CHR ''/''
     then Inl (''discovery prefix '' @ debug_str p @ '' must not start or end with '' @ [CHR 0x27, CHR ''/'', CHR 0x27])
     else Inr \<lparr>de_prefix = p, de_webfinger = map_option web_finger_of_raw (rde_webfinger r),
       de_oidc = map_option oidc_of_raw (rde_oidc r),
       de_autoconfig = map_option (\<lambda>a. \<lparr>ac_raw_body = rau_raw_body a, ac_raw_content_type = rau_raw_content_type a\<rparr>)
         (rde_autoconfig r)\<rparr>)"

definition normalize_discovery :: "(string, raw_discovery_entry) btmap \<Rightarrow> string + discovery_config" where
  "normalize_discovery m = and_then (map_result discovery_entry_of_raw m) (\<lambda>es. Inr \<lparr>entries = es\<rparr>)"

end
