(* ===== verification/Loader.thy ===== *)
theory Loader
  imports Loader_Accounts
begin

text \<open>
  The second half of \<open>normalize_with_dir\<close> (\<open>src/fixture.rs\<close>): calendars, contacts, groups, grants, public
  folders, aliases, categories; then the fixture built from the sections, and \<open>load\<close>.
\<close>

subsection \<open>Calendars and events\<close>

definition two_defaults :: "string \<Rightarrow> string \<Rightarrow> string \<Rightarrow> string" where
  "two_defaults kind a b = ''fixture has two default '' @ kind @ '': '' @ debug_str a @ '' and '' @ debug_str b @
     '' - is_default = true must be unique''"

definition calendar_of_raw :: "load_ctx \<Rightarrow> calendar list \<Rightarrow> raw_calendar \<Rightarrow> string + calendar" where
  "calendar_of_raw c acc r =
     (case (if rca_is_default r then find cal_is_default acc else None) of
        Some prev \<Rightarrow> Inl (two_defaults ''calendars'' (cal_id prev) (rca_id r))
      | None \<Rightarrow> and_then (resolve_account c (rca_account_id r) ''calendar'' (rca_id r)) (\<lambda>a.
          Inr \<lparr>cal_id = rca_id r, cal_name = rca_name r, cal_color = rca_color r, cal_is_default = rca_is_default r,
            cal_account_id = a, caldav_empty_report = rca_caldav_empty_report r\<rparr>))"

definition normalize_calendars :: "load_ctx \<Rightarrow> raw_calendar list \<Rightarrow> string + calendar list" where
  "normalize_calendars c = load_unique ''calendar'' rca_id cal_id (calendar_of_raw c)"

definition load_event ::
    "load_env \<Rightarrow> load_ctx \<Rightarrow> calendar list \<Rightarrow> event list \<Rightarrow> raw_event \<Rightarrow> string + event" where
  "load_event env c cals acc r =
     (let label = ''event '' @ debug_str (rev_id r) in
      case find (\<lambda>k. cal_id k = rev_calendar_id r) cals of
        None \<Rightarrow> Inl (label @ '' references unknown calendar '' @ debug_str (rev_calendar_id r))
      | Some k \<Rightarrow>
          and_then (child_account c label ''calendar's'' (rev_account_id r) (cal_account_id k)) (\<lambda>_.
          and_then (raw_event_times (le_parse_ts env) label r) (\<lambda>(s, e, ex).
            Inr (event_of_raw r (cal_account_id k) s e ex))))"

definition normalize_events :: "load_env \<Rightarrow> load_ctx \<Rightarrow> calendar list \<Rightarrow> raw_event list \<Rightarrow> string + event list" where
  "normalize_events env c cals = load_unique ''event'' rev_id ev_id (load_event env c cals)"

subsection \<open>Contact folders and contacts\<close>

text \<open>
  The id of a folder is in the table before its parent is looked up there: a folder may name itself as its
  parent, and then has no parent account to agree with.
\<close>

definition contact_folder_of_raw :: "load_ctx \<Rightarrow> contact_folder list \<Rightarrow> raw_contact_folder \<Rightarrow> string + contact_folder" where
  "contact_folder_of_raw c acc r =
     (let label = ''contact_folder '' @ debug_str (rcf_id r); parent = rcf_parent_folder_id r in
      case (if rcf_is_default r then find cf_is_default acc else None) of
        Some prev \<Rightarrow> Inl (two_defaults ''contact folders'' (cf_id prev) (rcf_id r))
      | None \<Rightarrow>
          (case find (\<lambda>p. p \<noteq> rcf_id r \<and> p \<notin> cf_id ` set acc) (case parent of Some p \<Rightarrow> [p] | None \<Rightarrow> []) of
             Some p \<Rightarrow> Inl (label @ '': parent_folder_id '' @ debug_str p @ '' does not exist'')
           | None \<Rightarrow>
               and_then (resolve_account c (rcf_account_id r) ''contact_folder'' (rcf_id r)) (\<lambda>a.
               case Option.bind parent (\<lambda>p. find (\<lambda>f. cf_id f = p \<and> cf_account_id f \<noteq> a) acc) of
                 Some f \<Rightarrow> Inl (label @ '': account '' @ debug_str a @ '' disagrees with parent '' @ debug_str (cf_id f) @
                   '' on account '' @ debug_str (cf_account_id f))
               | None \<Rightarrow> Inr \<lparr>cf_id = rcf_id r, cf_account_id = a, cf_display_name = rcf_display_name r,
                   cf_parent_folder_id = parent, cf_is_default = rcf_is_default r\<rparr>)))"

definition normalize_contact_folders :: "load_ctx \<Rightarrow> raw_contact_folder list \<Rightarrow> string + contact_folder list" where
  "normalize_contact_folders c = load_unique ''contact_folder'' rcf_id cf_id (contact_folder_of_raw c)"

definition load_contact :: "load_ctx \<Rightarrow> contact_folder list \<Rightarrow> contact list \<Rightarrow> raw_contact \<Rightarrow> string + contact" where
  "load_contact c folders acc r =
     (let label = ''contact '' @ debug_str (rct_id r) in
      case find (\<lambda>k. cf_id k = rct_folder_id r) folders of
        None \<Rightarrow> Inl (label @ '' references unknown folder '' @ debug_str (rct_folder_id r))
      | Some k \<Rightarrow> and_then (child_account c label ''folder's'' (rct_account_id r) (cf_account_id k)) (\<lambda>_.
          Inr (contact_of_raw r (cf_account_id k))))"

definition normalize_contacts :: "load_ctx \<Rightarrow> contact_folder list \<Rightarrow> raw_contact list \<Rightarrow> string + contact list" where
  "normalize_contacts c folders = load_unique ''contact'' rct_id ct_id (load_contact c folders)"

text \<open>A section without a parent: the entry resolves its account and is built with it.\<close>

definition owned ::
    "load_ctx \<Rightarrow> string \<Rightarrow> ('a \<Rightarrow> string) \<Rightarrow> ('a \<Rightarrow> string option) \<Rightarrow> ('a \<Rightarrow> string \<Rightarrow> 'b) \<Rightarrow> 'b list \<Rightarrow> 'a \<Rightarrow> string + 'b" where
  "owned c kind raw_id declared mk acc r =
     and_then (resolve_account c (declared r) kind (raw_id r)) (\<lambda>a. Inr (mk r a))"

definition contact_group_of_raw :: "raw_contact_group \<Rightarrow> string \<Rightarrow> contact_group" where
  "contact_group_of_raw r a = \<lparr>cg_id = rcg_id r, cg_account_id = a, cg_name = rcg_name r\<rparr>"

definition normalize_contact_groups :: "load_ctx \<Rightarrow> raw_contact_group list \<Rightarrow> string + contact_group list" where
  "normalize_contact_groups c = load_unique ''contact_group'' rcg_id cg_id
     (owned c ''contact_group'' rcg_id rcg_account_id contact_group_of_raw)"

definition other_contact_of_raw :: "raw_other_contact \<Rightarrow> string \<Rightarrow> other_contact" where
  "other_contact_of_raw r a = \<lparr>oc_id = roc_id r, oc_account_id = a, oc_display_name = roc_display_name r,
     oc_emails = map contact_email_of_raw (roc_emails r), oc_phones = map contact_phone_of_raw (roc_phones r)\<rparr>"

definition normalize_other_contacts :: "load_ctx \<Rightarrow> raw_other_contact list \<Rightarrow> string + other_contact list" where
  "normalize_other_contacts c = load_unique ''other_contact'' roc_id oc_id
     (owned c ''other_contact'' roc_id roc_account_id other_contact_of_raw)"

definition directory_person_of_raw :: "raw_directory_person \<Rightarrow> string \<Rightarrow> directory_person" where
  "directory_person_of_raw r a = \<lparr>dp_id = rdp_id r, dp_account_id = a, dp_display_name = rdp_display_name r,
     dp_emails = map contact_email_of_raw (rdp_emails r), dp_phones = map contact_phone_of_raw (rdp_phones r),
     dp_company = rdp_company r, dp_job_title = rdp_job_title r, dp_department = rdp_department r\<rparr>"

definition normalize_directory_people :: "load_ctx \<Rightarrow> raw_directory_person list \<Rightarrow> string + directory_person list" where
  "normalize_directory_people c = load_unique ''directory_person'' rdp_id dp_id
     (owned c ''directory_person'' rdp_id rdp_account_id directory_person_of_raw)"

subsection \<open>Groups and grants\<close>

fun check_members :: "load_ctx \<Rightarrow> string \<Rightarrow> string list \<Rightarrow> string list \<Rightarrow> string + unit" where
  "check_members c g seen [] = Inr ()"
| "check_members c g seen (m # ms) =
     (if m \<notin> set (lc_accounts c)
      then Inl (''group '' @ debug_str g @ '': member '' @ debug_str m @ '' does not match any declared account'')
      else if m \<in> set seen then Inl (''group '' @ debug_str g @ '': duplicate member '' @ debug_str m)
      else check_members c g (m # seen) ms)"

definition load_group :: "load_ctx \<Rightarrow> group list \<Rightarrow> raw_group \<Rightarrow> string + group" where
  "load_group c acc r = and_then (check_members c (rgr_id r) [] (rgr_members r)) (\<lambda>_. Inr (group_of_raw r))"

definition normalize_groups :: "load_ctx \<Rightarrow> raw_group list \<Rightarrow> string + group list" where
  "normalize_groups c = load_unique ''group'' rgr_id gr_id (load_group c)"

definition load_acl :: "load_ctx \<Rightarrow> mailbox list \<Rightarrow> raw_acl \<Rightarrow> acl_grant list \<Rightarrow> string + acl_grant list" where
  "load_acl c ms r acc =
     (let m = racl_mailbox_id r; i = racl_identifier r; label = ''acl on '' @ debug_str m @ '': identifier '' @ debug_str i in
      case collect_map mb_id mb_account_id ms m of
        None \<Rightarrow> Inl (''acl: mailbox_id '' @ debug_str m @ '' does not match any declared mailbox'')
      | Some owner \<Rightarrow>
          if i \<notin> set (lc_accounts c) then Inl (label @ '' does not match any declared account'')
          else if owner = i then Inl (label @ '' owns the mailbox (owner rights are implicit)'')
          else if (m, i) \<in> (\<lambda>a. (acl_mailbox_id a, acl_identifier a)) ` set acc
          then Inl (''duplicate acl grant on '' @ debug_str m @ '' for '' @ debug_str i)
          else Inr (acc @ [\<lparr>acl_mailbox_id = m, acl_identifier = i,
                  acl_rights = or_else (racl_rights r) default_shared_rights\<rparr>]))"

definition normalize_acls :: "load_ctx \<Rightarrow> mailbox list \<Rightarrow> raw_acl list \<Rightarrow> string + acl_grant list" where
  "normalize_acls c ms rs = fold_result (load_acl c ms) rs []"

subsection \<open>Public folders\<close>

definition default_folder_class :: string where "default_folder_class = ''IPF.Note''"

definition public_folder_of_raw :: "public_folder list \<Rightarrow> raw_public_folder \<Rightarrow> string + public_folder" where
  "public_folder_of_raw acc r =
     (let k = or_else (rpf_folder_class r) default_folder_class in
      if trim k = []
      then Inl (''public_folder '' @ debug_str (rpf_id r) @ '': folder_class must be non-empty (omit the field for the '' @
             default_folder_class @ '' default)'')
      else Inr \<lparr>pf_id = rpf_id r, pf_display_name = rpf_display_name r, pf_parent_id = rpf_parent_id r, folder_class = k,
             pf_effective_rights = (case rpf_effective_rights r of
                Some e \<Rightarrow> effective_rights_of_raw e | None \<Rightarrow> effective_rights_default)\<rparr>)"

definition check_public_parent :: "string list \<Rightarrow> public_folder \<Rightarrow> string + unit" where
  "check_public_parent is f =
     (case pf_parent_id f of
        None \<Rightarrow> Inr ()
      | Some p \<Rightarrow>
          if p = pf_id f then Inl (''public_folder '' @ debug_str (pf_id f) @ '' is its own parent'')
          else if p \<notin> set is
          then Inl (''public_folder '' @ debug_str (pf_id f) @ '': parent_id '' @ debug_str p @
                 '' does not match any declared public_folder'')
          else Inr ())"

definition normalize_public_folders :: "raw_public_folder list \<Rightarrow> string + public_folder list" where
  "normalize_public_folders rs =
     and_then (load_unique ''public_folder'' rpf_id pf_id public_folder_of_raw rs) (\<lambda>fs.
     and_then (map_result (check_public_parent (map pf_id fs)) fs) (\<lambda>_. Inr fs))"

text \<open>The blob ids of the items' attachments are unique across the tree; the items before hold them.\<close>

definition public_item_of_raw ::
    "load_env \<Rightarrow> public_folder list \<Rightarrow> public_item list \<Rightarrow> raw_public_item \<Rightarrow> string + public_item" where
  "public_item_of_raw env folders acc r =
     (let label = ''public_item '' @ debug_str (rpi_id r) in
      if rpi_folder_id r \<notin> pf_id ` set folders
      then Inl (label @ '': folder_id '' @ debug_str (rpi_folder_id r) @ '' does not match any declared public_folder'')
      else
        and_then (map_err (\<lambda>e. label @ '' received_at: '' @ e) (load_ts (le_parse_ts env) (rpi_received_at r))) (\<lambda>t.
        and_then (normalize_attachments env (rpi_attachments r) label) (\<lambda>atts.
        case find (\<lambda>a. at_blob_id a \<in> at_blob_id ` set (concat (map pi_attachments acc))) atts of
          Some a \<Rightarrow> Inl (label @ '': attachment blob_id '' @ debug_str (at_blob_id a) @
            '' is already used by another public item (EWS AttachmentIds are resolved without item context, '' @
            ''so they must be unique across the public tree)'')
        | None \<Rightarrow> Inr \<lparr>pi_id = rpi_id r, pi_folder_id = rpi_folder_id r, pi_subject = rpi_subject r,
            pi_from = address_of_raw (rpi_from r), pi_to = map address_of_raw (rpi_to r), pi_body_text = rpi_body_text r,
            pi_body_html = rpi_body_html r, pi_attachments = atts, pi_received_at = t\<rparr>)))"

definition normalize_public_items ::
    "load_env \<Rightarrow> public_folder list \<Rightarrow> raw_public_item list \<Rightarrow> string + public_item list" where
  "normalize_public_items env folders =
     load_unique ''public_item'' rpi_id pi_id (public_item_of_raw env folders)"

subsection \<open>Aliases and categories\<close>

definition load_send_as :: "load_ctx \<Rightarrow> raw_send_as \<Rightarrow> send_as list \<Rightarrow> string + send_as list" where
  "load_send_as c r acc =
     (let m = rsa_send_as_email r in
      and_then (resolve_account c (rsa_account_id r) ''send_as'' m) (\<lambda>a.
        if (a, m) \<in> (\<lambda>s. (sa_account_id s, send_as_email s)) ` set acc
        then Inl (''duplicate send_as '' @ debug_str m @ '' on account '' @ debug_str a)
        else Inr (acc @ [\<lparr>sa_account_id = a, send_as_email = m, sa_display_name = rsa_display_name r,
          reply_to_address = rsa_reply_to_address r, signature = rsa_signature r,
          sa_is_primary = or_else (rsa_is_primary r) False, sa_is_default = or_else (rsa_is_default r) False,
          treat_as_alias = or_else (rsa_treat_as_alias r) True\<rparr>])))"

definition normalize_send_as :: "load_ctx \<Rightarrow> raw_send_as list \<Rightarrow> string + send_as list" where
  "normalize_send_as c rs = fold_result (load_send_as c) rs []"

definition category_of_raw :: "raw_category \<Rightarrow> string \<Rightarrow> category" where
  "category_of_raw r a = \<lparr>ca_id = rcat_id r, ca_account_id = a, ca_display_name = rcat_display_name r,
     ca_color = rcat_color r\<rparr>"

definition normalize_categories :: "load_ctx \<Rightarrow> raw_category list \<Rightarrow> string + category list" where
  "normalize_categories c = load_unique ''category'' rcat_id ca_id (owned c ''category'' rcat_id rcat_account_id category_of_raw)"

subsection \<open>The fixture\<close>

text \<open>A counter starts at the highest declared number of its kind, or at the number of entries.\<close>

definition seed_counter :: "string list \<Rightarrow> string \<Rightarrow> nat" where
  "seed_counter is p = max (max_mock_seq is p) (length is)"

text \<open>The sections in the order of the source; each fills its fields of the fixture.\<close>

definition load_mail :: "load_env \<Rightarrow> raw_fixture \<Rightarrow> string + load_ctx \<times> fixture" where
  "load_mail env raw =
     and_then (normalize_accounts (rf_accounts raw)) (\<lambda>accs.
     let c = \<lparr>lc_accounts = map ac_id accs, lc_primary = or_else (map_option ac_id (find primary accs)) []\<rparr> in
     and_then (normalize_mailboxes c (rf_mailboxes raw)) (\<lambda>ms.
     and_then (normalize_emails env (baseline_of c ms) (rf_emails raw)) (\<lambda>es.
     and_then (map_result announce_of_raw (rf_announce raw)) (\<lambda>an.
     and_then (normalize_discovery (rf_discovery raw)) (\<lambda>d.
     Inr (c, empty_fixture\<lparr>fx_name := rf_name raw, state_seed := or_else (rf_state raw) ''fixture-state'',
       accounts := accs, mailboxes := ms, emails := es, oauth := normalize_oauth (rf_oauth raw),
       caldav := normalize_caldav (rf_caldav raw), announce := an, discovery := d\<rparr>))))))"

definition load_people :: "load_env \<Rightarrow> raw_fixture \<Rightarrow> load_ctx \<Rightarrow> fixture \<Rightarrow> string + fixture" where
  "load_people env raw c f =
     and_then (normalize_calendars c (rf_calendars raw)) (\<lambda>cals.
     and_then (normalize_events env c cals (rf_events raw)) (\<lambda>evs.
     and_then (normalize_contact_folders c (rf_contact_folders raw)) (\<lambda>cfs.
     and_then (normalize_contacts c cfs (rf_contacts raw)) (\<lambda>cts.
     and_then (normalize_contact_groups c (rf_contact_groups raw)) (\<lambda>cgs.
     and_then (normalize_other_contacts c (rf_other_contacts raw)) (\<lambda>ocs.
     and_then (normalize_directory_people c (rf_directory_people raw)) (\<lambda>dps.
     Inr (f\<lparr>calendars := cals, events := evs, contact_folders := cfs, contacts := cts, contact_groups := cgs,
       other_contacts := ocs, directory_people := dps\<rparr>))))))))"

definition load_shared :: "load_env \<Rightarrow> raw_fixture \<Rightarrow> load_ctx \<Rightarrow> fixture \<Rightarrow> string + fixture" where
  "load_shared env raw c f =
     and_then (normalize_groups c (rf_groups raw)) (\<lambda>gs.
     and_then (normalize_acls c (mailboxes f) (rf_acls raw)) (\<lambda>as.
     and_then (normalize_public_folders (rf_public_folders raw)) (\<lambda>pfs.
     and_then (normalize_public_items env pfs (rf_public_items raw)) (\<lambda>pis.
     and_then (normalize_send_as c (rf_send_as raw)) (\<lambda>sas.
     and_then (normalize_categories c (rf_categories raw)) (\<lambda>cats.
     and_then (map_result (normalize_change_step env (baseline_of c (mailboxes f))) (rf_change_script raw)) (\<lambda>script.
     Inr (f\<lparr>groups := gs, acls := as, public_folders := pfs, public_items := pis, send_as_list := sas,
       categories := cats, change_script := script\<rparr>))))))))"

definition seed_counters :: "fixture \<Rightarrow> fixture" where
  "seed_counters f = f\<lparr>
     synthetic_event_seq := seed_counter (map ev_id (events f)) ''mock-event-'',
     synthetic_email_seq := seed_counter (map em_id (emails f)) ''mock-email-'',
     synthetic_category_seq := seed_counter (map ca_id (categories f)) ''mock-category-'',
     synthetic_contact_seq := seed_counter (map ct_id (contacts f)) ''mock-contact-''\<rparr>"

text \<open>
  \<open>normalize_with_dir\<close>. The UID histories give every membership of every email, in declaration order, one slot:
  the same loop as \<open>rebuild_uid_history\<close>. The change logs, the uploads and the label colours start empty.
\<close>

definition normalize_with_dir :: "load_env \<Rightarrow> raw_fixture \<Rightarrow> string + fixture" where
  "normalize_with_dir env raw =
     and_then (load_mail env raw) (\<lambda>(c, f0).
     and_then (load_people env raw c f0) (\<lambda>f1.
     and_then (load_shared env raw c f1) (\<lambda>f2.
       Inr (seed_counters (rebuild_uid_history f2)))))"

subsection \<open>Files\<close>

definition validate_announce_triggers :: "fixture \<Rightarrow> string + unit" where
  "validate_announce_triggers f =
     (case find (\<lambda>t. an_step t \<notin> cs_id ` set (change_script f)) (announce f) of
        Some t \<Rightarrow> Inl (''announce trigger references step '' @ debug_str (an_step t) @
          '', which no `change` step declares'')
      | None \<Rightarrow> Inr ())"

text \<open>
  The file system and the two front ends: the extension of a path, reading a file (\<open>Inl\<close> is
  \<open>read <path>: <error>\<close>), the TOML parser (\<open>Inl\<close> is \<open>parse <path>: <error>\<close>), the Lua loader, the digest, the
  absolute form of a path, and the readers relative to a file's directory.
\<close>

record source_env =
  se_extension :: "string \<Rightarrow> string option"
  se_read :: "string \<Rightarrow> string + string"
  se_toml :: "string \<Rightarrow> string \<Rightarrow> string + raw_fixture"
  se_lua :: "string \<Rightarrow> string + fixture"
  se_sha256 :: "string \<Rightarrow> string"
  se_absolute :: "string \<Rightarrow> string"
  se_dir :: "string \<Rightarrow> load_env"

definition load :: "source_env \<Rightarrow> string \<Rightarrow> string + fixture" where
  "load env path =
     (if se_extension env path = Some ''lua'' then se_lua env path
      else
        and_then (se_read env path) (\<lambda>src.
        and_then (se_toml env path src) (\<lambda>raw.
        and_then (normalize_with_dir (se_dir env path) raw) (\<lambda>f.
        let f' = f\<lparr>identity := \<lparr>fi_path = Some (se_absolute env path), fi_sha256 = se_sha256 env src\<rparr>\<rparr> in
        and_then (validate_announce_triggers f') (\<lambda>_. Inr f')))))"

end
