(* ===== verification/Loader_Props.thy ===== *)
theory Loader_Props
  imports Loader Mail_Sync Imap_Tree
begin

text \<open>
  What a loaded fixture satisfies: the mail invariant the protocol handlers keep, the mailboxes as a forest, and
  every reference of an entry met within its account.
\<close>

subsection \<open>Mailbox parents without a cycle\<close>

definition parent_of :: "mailbox list \<Rightarrow> (string \<times> string) set" where
  "parent_of ms = {(mb_id m, p) | m p. m \<in> set ms \<and> mb_parent_id m = Some p}"

lemma walk_returns_path:
  assumes "distinct (map mb_id ms)" and "(mb_id cur, start) \<in> parent_of ms ^^ Suc k" and "k < n" and "cur \<in> set ms"
    and "\<And>m p. m \<in> set ms \<Longrightarrow> mb_parent_id m = Some p \<Longrightarrow> p \<in> mb_id ` set ms"
  shows "walk_returns (collect_map mb_id (\<lambda>m. m) ms) start n cur"
  using assms(2-4)
proof (induction k arbitrary: n cur)
  case (0 n)
  then obtain m where "m \<in> set ms" "mb_id m = mb_id cur" "mb_parent_id m = Some start"
    by (auto simp: parent_of_def)
  moreover have "m = cur" using calculation 0 assms(1) by (auto simp: distinct_map inj_on_def)
  moreover obtain p where "p \<in> set ms" "mb_id p = start" using assms(5) calculation by blast
  ultimately show ?case
    using 0 collect_map_member [OF assms(1), of p "\<lambda>m. m"] by (cases n) auto
next
  case (Suc k)
  from Suc.prems(1) obtain q where q: "(mb_id cur, q) \<in> parent_of ms" "(q, start) \<in> parent_of ms ^^ Suc k"
    by (meson relpow_Suc_D2)
  obtain m where m: "m \<in> set ms" "mb_id m = mb_id cur" "mb_parent_id m = Some q"
    using q(1) by (auto simp: parent_of_def)
  have "m = cur" using m Suc.prems assms(1) by (auto simp: distinct_map inj_on_def)
  obtain p where p: "p \<in> set ms" "mb_id p = q" using assms(5) [OF m(1,3)] by blast
  obtain n' where n': "n = Suc n'" "k < n'" using Suc.prems(2) by (cases n) auto
  have "walk_returns (collect_map mb_id (\<lambda>m. m) ms) start n' p"
    by (rule Suc.IH) (use q(2) p n' in auto)
  then show ?case
    using m(3) \<open>m = cur\<close> p n' collect_map_member [OF assms(1) p(1), of "\<lambda>m. m"] by simp
qed

text \<open>A shortest cycle visits no mailbox twice, so the walk is long enough to see it.\<close>

lemma short_cycle:
  assumes "(x, x) \<in> R\<^sup>+" and "R \<subseteq> A \<times> A" and "finite A"
  shows "\<exists>k < card A. (x, x) \<in> R ^^ Suc k"
proof -
  define k where "k = (LEAST k. 0 < k \<and> (x, x) \<in> R ^^ k)"
  have "\<exists>k > 0. (x, x) \<in> R ^^ k" using assms(1) by (simp add: trancl_power)
  then have k: "0 < k" "(x, x) \<in> R ^^ k"
    unfolding k_def by (metis (mono_tags, lifting) LeastI)+
  obtain f where f: "f 0 = x" "f k = x" "\<And>i. i < k \<Longrightarrow> (f i, f (Suc i)) \<in> R"
    using k(2) unfolding relpow_fun_conv by blast
  have path: "(f i, f j) \<in> R ^^ (j - i)" if "i \<le> j" "j \<le> k" for i j
    unfolding relpow_fun_conv using that f(3) by (intro exI [of _ "\<lambda>n. f (i + n)"]) auto
  have "inj_on f {..<k}"
  proof (rule linorder_inj_onI)
    fix i j assume ij: "i < j" "i \<in> {..<k}" "j \<in> {..<k}"
    show "f i \<noteq> f j"
    proof
      assume "f i = f j"
      then have "(x, x) \<in> R ^^ (i + (k - j))"
        using relpow_trans [of x "f i" i R x "k - j"] path [of 0 i] path [of j k] ij f(1,2) by simp
      then have "k \<le> i + (k - j)" unfolding k_def using ij k_def by (intro Least_le) auto
      then show False using ij by auto
    qed
  qed auto
  moreover have "f ` {..<k} \<subseteq> A" using f(3) assms(2) by auto
  ultimately have "k \<le> card A" using card_inj_on_le [of f "{..<k}" A] assms(3) by simp
  then show ?thesis using k by (intro exI [of _ "k - 1"]) auto
qed

lemma acyclic_rank:
  assumes "acyclic R" and "finite R"
  shows "\<exists>r :: 'a \<Rightarrow> nat. \<forall>(x, y) \<in> R. r y < r x"
proof -
  have fin: "finite (R\<^sup>+ `` {x})" for x
    using assms(2) by (simp add: finite_Image)
  have "card (R\<^sup>+ `` {y}) < card (R\<^sup>+ `` {x})" if "(x, y) \<in> R" for x y
  proof (rule psubset_card_mono [OF fin])
    have "y \<in> R\<^sup>+ `` {x}" using that by auto
    moreover have "y \<notin> R\<^sup>+ `` {y}" using assms(1) by (auto simp: acyclic_def)
    moreover have "R\<^sup>+ `` {y} \<subseteq> R\<^sup>+ `` {x}" using that by (auto intro: trancl_into_trancl2)
    ultimately show "R\<^sup>+ `` {y} \<subset> R\<^sup>+ `` {x}" by blast
  qed
  then show ?thesis by (intro exI [of _ "\<lambda>x. card (R\<^sup>+ `` {x})"]) auto
qed

lemma checked_forest:
  assumes "distinct (map mb_id ms)" and "detect_cycles ms = Inr u"
    and parents: "\<And>m p. m \<in> set ms \<Longrightarrow> mb_parent_id m = Some p \<Longrightarrow> p \<in> mb_id ` set ms"
  shows "\<exists>r :: string \<Rightarrow> nat. \<forall>m \<in> set ms. \<forall>p. mb_parent_id m = Some p \<longrightarrow>
    p \<in> mb_id ` set ms \<and> r p < r (mb_id m)"
proof -
  let ?R = "parent_of ms" and ?A = "mb_id ` set ms"
  have R: "?R \<subseteq> ?A \<times> ?A" using parents by (auto simp: parent_of_def)
  then have fin: "finite ?R" by (rule finite_subset) simp
  have "acyclic ?R"
  proof (rule ccontr)
    assume "\<not> acyclic ?R"
    then obtain x where x: "(x, x) \<in> ?R\<^sup>+" by (auto simp: acyclic_def)
    obtain k where k: "k < card ?A" "(x, x) \<in> ?R ^^ Suc k" using short_cycle [OF x R] by auto
    obtain m where m: "m \<in> set ms" "mb_id m = x"
      using x R by (metis (no_types, lifting) image_iff mem_Sigma_iff subset_iff tranclD)
    have "k < length ms" using k(1) card_image_le [of "set ms" mb_id] card_length [of ms] by simp
    then have "walk_returns (collect_map mb_id (\<lambda>m. m) ms) (mb_id m) (length ms) m"
      using k(2) m by (intro walk_returns_path [OF assms(1) _ _ m(1) parents]) auto
    then show False
      using assms(2) m(1) by (auto simp: detect_cycles_def find_None_iff split: option.splits)
  qed
  from acyclic_rank [OF this fin] obtain r :: "string \<Rightarrow> nat" where "\<forall>(x, y) \<in> ?R. r y < r x" by blast
  then show ?thesis using parents by (intro exI [of _ r]) (auto simp: parent_of_def)
qed

subsection \<open>Counters\<close>

text \<open>An id whose number, if it ends in one, is a \<open>u64\<close>: the loader ignores the others.\<close>

definition number_in_range :: "string \<Rightarrow> string \<Rightarrow> bool" where
  "number_in_range p i =
     (case Option.bind (strip_prefix p i) (parse_digits 0) of Some n \<Rightarrow> n \<le> u64_max | None \<Rightarrow> True)"

lemma fold_max_ge: "x \<in> set xs \<or> x \<le> a \<Longrightarrow> x \<le> fold max xs (a :: nat)"
  by (induction xs arbitrary: a) fastforce+

lemma seed_counter_above:
  assumes "seed_counter is p < n" and "list_all (number_in_range p) is"
  shows "p @ show_nat n \<notin> set is"
proof
  assume i: "p @ show_nat n \<in> set is"
  then have "n \<le> u64_max"
    using assms(2) by (auto simp: number_in_range_def list_all_iff parse_digits_show_nat dest!: bspec)
  then have "n \<in> set (List.map_filter (\<lambda>i. Option.bind (strip_prefix p i) parse_u64) is)"
    using i by (auto simp: List.map_filter_def intro!: rev_image_eqI [of "p @ show_nat n"])
  then have "n \<le> max_mock_seq is p" unfolding max_mock_seq_def by (intro fold_max_ge) simp
  then show False using assms(1) by (simp add: seed_counter_def)
qed

subsection \<open>What the sections promise\<close>

lemma mark_primary_Inr:
  assumes "mark_primary rs = Inr rs'"
  shows "map ra_id rs' = map ra_id rs" "length (filter ra_primary rs') = 1"
proof -
  consider (none) "length (filter ra_primary rs) = 0" | (one) "length (filter ra_primary rs) = 1"
    | (more) "length (filter ra_primary rs) > 1" by linarith
  then have "map ra_id rs' = map ra_id rs \<and> length (filter ra_primary rs') = 1"
  proof cases
    case none
    then obtain r where "rs = [r]" "rs' = [r\<lparr>ra_primary := True\<rparr>]"
      using assms unfolding mark_primary_def Let_def by (cases rs; cases "tl rs") auto
    then show ?thesis by simp
  next
    case one
    then have "rs' = rs" using assms unfolding mark_primary_def Let_def by simp
    then show ?thesis using one by simp
  next
    case more
    then have "length (filter ra_primary rs) \<noteq> 0" by linarith
    then show ?thesis using assms more unfolding mark_primary_def Let_def by (simp del: length_0_conv)
  qed
  then show "map ra_id rs' = map ra_id rs" "length (filter ra_primary rs') = 1" by simp_all
qed

lemma normalize_accounts_Inr:
  assumes "normalize_accounts rs = Inr accs"
  shows "distinct (map ac_id accs)" "length (filter primary accs) = 1"
proof -
  obtain rs' where rs': "rs \<noteq> []" "distinct (map ra_id rs)" "mark_primary rs = Inr rs'"
    and "list_all2 (\<lambda>r a. account_of_raw r = Inr a) rs' accs"
    using assms by (auto simp: normalize_accounts_def and_then_Inr map_result_Inr split: if_splits)
  then have all: "list_all2 (\<lambda>r a. ac_id a = ra_id r \<and> primary a = ra_primary r) rs' accs"
    by (auto simp: account_of_raw_def elim!: list_all2_mono split: if_splits)
  then have "map ac_id accs = map ra_id rs'" "length (filter primary accs) = length (filter ra_primary rs')"
    by (induction rule: list_all2_induct) auto
  moreover have "map ra_id rs' = map ra_id rs" "length (filter ra_primary rs') = 1"
    using mark_primary_Inr [OF rs'(3)] by simp_all
  ultimately show "distinct (map ac_id accs)" "length (filter primary accs) = 1" using rs'(2) by simp_all
qed

lemma resolve_account_Inr: "resolve_account c d kind i = Inr a \<Longrightarrow> a \<in> set (lc_accounts c) \<or> a = lc_primary c"
  by (auto simp: resolve_account_def split: option.splits if_splits)

lemma normalize_mailboxes_Inr:
  assumes "normalize_mailboxes c rs = Inr ms" and "lc_primary c \<in> set (lc_accounts c)"
  shows "distinct (map mb_id ms)" "list_all (\<lambda>m. mb_account_id m \<in> set (lc_accounts c)) ms"
    "m \<in> set ms \<Longrightarrow> mb_parent_id m = Some p \<Longrightarrow> p \<in> mb_id ` set ms" "\<exists>u. detect_cycles ms = Inr u"
    "list_all (\<lambda>m. \<not> foreign_parent ms m) ms"
proof -
  from assms have distinct: "distinct (map rmb_id rs)"
    and built: "list_all2 (\<lambda>r m. mailbox_of_raw c (map rmb_id rs) r = Inr m) rs ms"
    and check: "\<exists>u. detect_cycles ms = Inr u" "check_parents ms = Inr ()"
    by (auto simp: normalize_mailboxes_def and_then_Inr map_result_Inr)
  have one: "mb_id m = rmb_id r \<and> mb_account_id m \<in> set (lc_accounts c) \<and>
      (\<forall>p. mb_parent_id m = Some p \<longrightarrow> p \<in> rmb_id ` set rs)" if "mailbox_of_raw c (map rmb_id rs) r = Inr m" for r m
    using that assms(2)
    by (auto simp: mailbox_of_raw_def and_then_Inr dest!: resolve_account_Inr split: option.splits if_splits)
  have ids: "map mb_id ms = map rmb_id rs"
    using built one by (auto simp: list_eq_iff_nth_eq list_all2_conv_all_nth)
  show "distinct (map mb_id ms)" using ids distinct by simp
  show "list_all (\<lambda>m. mb_account_id m \<in> set (lc_accounts c)) ms"
    using built one by (auto simp: list_all_length list_all2_conv_all_nth)
  show "m \<in> set ms \<Longrightarrow> mb_parent_id m = Some p \<Longrightarrow> p \<in> mb_id ` set ms"
    using built one arg_cong [OF ids, of set] by (fastforce simp: in_set_conv_nth list_all2_conv_all_nth)
  show "\<exists>u. detect_cycles ms = Inr u" by (rule check(1))
  show "list_all (\<lambda>m. \<not> foreign_parent ms m) ms"
    using check(2) by (auto simp: check_parents_def Let_def find_None_iff list_all_iff split: option.splits)
qed

lemma baseline_account:
  assumes "distinct (map mb_id ms)" and "m \<in> set ms"
  shows "map_of (bl_accounts (baseline_of c ms)) (mb_id m) = Some (mb_account_id m)"
  using assms by (intro map_of_is_SomeI) (auto simp: baseline_of_def o_def)

text \<open>Every email is filed in mailboxes of its own account.\<close>

definition filed_home :: "mailbox list \<Rightarrow> email \<Rightarrow> bool" where
  "filed_home ms e \<longleftrightarrow>
     list_all (\<lambda>i. list_ex (\<lambda>m. mb_id m = i \<and> mb_account_id m = em_account_id e) ms) (mailbox_ids e)"

lemma normalize_emails_Inr:
  assumes "normalize_emails env (baseline_of c ms) rs = Inr es" and "distinct (map mb_id ms)"
    and "list_all (\<lambda>r. distinct (rem_mailbox_ids r)) rs"
  shows "map em_id es = map rem_id rs" "distinct (map em_id es)" "list_all filed es" "list_all (filed_home ms) es"
proof -
  from assms(1) have distinct: "distinct (map rem_id rs)"
    and built: "list_all2 (\<lambda>r e. normalize_email env (map mb_id ms) (Some (bl_accounts (baseline_of c ms)))
      (Some (lc_accounts c)) r = Inr e) rs es"
    by (auto simp: normalize_emails_def and_then_Inr map_result_Inr baseline_of_def)
  then show ids: "map em_id es = map rem_id rs"
    by (auto simp: list_eq_iff_nth_eq list_all2_conv_all_nth dest!: normalize_email_Inr(1) spec)
  show "distinct (map em_id es)" using ids distinct by simp
  show "list_all filed es"
    using built assms(3) unfolding filed_def list_all_length list_all2_conv_all_nth
    by (metis normalize_email_Inr(2,3))
  have "filed_home ms e" if e: "normalize_email env (map mb_id ms) (Some (bl_accounts (baseline_of c ms)))
      (Some (lc_accounts c)) r = Inr e" for r e
    unfolding filed_home_def list_all_iff list_ex_iff
  proof
    fix i assume "i \<in> set (mailbox_ids e)"
    then have i: "i \<in> set (rem_mailbox_ids r)" using normalize_email_Inr(2) [OF e] by simp
    then obtain m where m: "m \<in> set ms" "mb_id m = i" using normalize_email_Inr(4) [OF e] by auto
    then have "mb_account_id m = em_account_id e"
      using normalize_email_Inr(5) [OF e i] baseline_account [OF assms(2) m(1), of c] by (simp add: or_else_def)
    then show "\<exists>m \<in> set ms. mb_id m = i \<and> mb_account_id m = em_account_id e" using m by blast
  qed
  then show "list_all (filed_home ms) es"
    using built by (auto simp: list_all_length list_all2_conv_all_nth)
qed

lemma normalize_events_Inr:
  assumes "normalize_events env c cals rs = Inr evs"
  shows "distinct (map ev_id evs)"
    "list_all (\<lambda>e. list_ex (\<lambda>k. cal_id k = ev_calendar_id e \<and> cal_account_id k = ev_account_id e) cals) evs"
proof -
  have "ev_id e = rev_id r \<and> list_ex (\<lambda>k. cal_id k = ev_calendar_id e \<and> cal_account_id k = ev_account_id e) cals"
    if "load_event env c cals acc r = Inr e" for acc r e
    using that by (auto simp: load_event_def Let_def and_then_Inr event_of_raw_def find_Some_iff list_ex_iff
        split: option.splits)
  note built = this
  show "distinct (map ev_id evs)"
    by (rule load_unique_all(1) [OF assms [unfolded normalize_events_def]]) (rule built)
  show "list_all (\<lambda>e. list_ex (\<lambda>k. cal_id k = ev_calendar_id e \<and> cal_account_id k = ev_account_id e) cals) evs"
    by (rule load_unique_all(2) [OF assms [unfolded normalize_events_def]]) (rule built)
qed

lemma normalize_contacts_Inr:
  assumes "normalize_contacts c cfs rs = Inr cts"
  shows "distinct (map ct_id cts)"
    "list_all (\<lambda>e. list_ex (\<lambda>k. cf_id k = ct_folder_id e \<and> cf_account_id k = ct_account_id e) cfs) cts"
proof -
  have "ct_id e = rct_id r \<and> list_ex (\<lambda>k. cf_id k = ct_folder_id e \<and> cf_account_id k = ct_account_id e) cfs"
    if "load_contact c cfs acc r = Inr e" for acc r e
    using that by (auto simp: load_contact_def Let_def and_then_Inr contact_of_raw_def find_Some_iff list_ex_iff
        split: option.splits)
  note built = this
  show "distinct (map ct_id cts)"
    by (rule load_unique_all(1) [OF assms [unfolded normalize_contacts_def]]) (rule built)
  show "list_all (\<lambda>e. list_ex (\<lambda>k. cf_id k = ct_folder_id e \<and> cf_account_id k = ct_account_id e) cfs) cts"
    by (rule load_unique_all(2) [OF assms [unfolded normalize_contacts_def]]) (rule built)
qed

lemma normalize_acls_Inr:
  assumes "normalize_acls c ms rs = Inr as"
  shows "distinct (map (\<lambda>a. (acl_mailbox_id a, acl_identifier a)) as)"
    "list_all (\<lambda>a. acl_identifier a \<in> set (lc_accounts c) \<and>
       list_ex (\<lambda>m. mb_id m = acl_mailbox_id a \<and> mb_account_id m \<noteq> acl_identifier a) ms) as"
proof -
  have "distinct (map (\<lambda>a. (acl_mailbox_id a, acl_identifier a)) as) \<and>
     list_all (\<lambda>a. acl_identifier a \<in> set (lc_accounts c) \<and>
       list_ex (\<lambda>m. mb_id m = acl_mailbox_id a \<and> mb_account_id m \<noteq> acl_identifier a) ms) as"
    using assms unfolding normalize_acls_def
    by (rule fold_result_keeps)
      (fastforce simp: load_acl_def Let_def list_ex_iff dest: collect_map_Some split: option.splits if_splits)+
  then show "distinct (map (\<lambda>a. (acl_mailbox_id a, acl_identifier a)) as)"
    "list_all (\<lambda>a. acl_identifier a \<in> set (lc_accounts c) \<and>
       list_ex (\<lambda>m. mb_id m = acl_mailbox_id a \<and> mb_account_id m \<noteq> acl_identifier a) ms) as"
    by simp_all
qed

subsection \<open>The loaded fixture\<close>

text \<open>
  The cross references: one primary account, every owner a declared account, a mailbox on its parent's account,
  an email, an event and a contact in a parent of their own account, a grant to another account than the owner's.
\<close>

definition references_met :: "fixture \<Rightarrow> bool" where
  "references_met f \<longleftrightarrow>
     distinct (map ac_id (accounts f)) \<and> length (filter primary (accounts f)) = 1 \<and>
     list_all (\<lambda>m. mb_account_id m \<in> ac_id ` set (accounts f) \<and> \<not> foreign_parent (mailboxes f) m) (mailboxes f) \<and>
     list_all (filed_home (mailboxes f)) (emails f) \<and>
     distinct (map ev_id (events f)) \<and>
     list_all (\<lambda>e. list_ex (\<lambda>k. cal_id k = ev_calendar_id e \<and> cal_account_id k = ev_account_id e) (calendars f)) (events f) \<and>
     distinct (map ct_id (contacts f)) \<and>
     list_all (\<lambda>e. list_ex (\<lambda>k. cf_id k = ct_folder_id e \<and> cf_account_id k = ct_account_id e) (contact_folders f))
       (contacts f) \<and>
     distinct (map (\<lambda>a. (acl_mailbox_id a, acl_identifier a)) (acls f)) \<and>
     list_all (\<lambda>a. acl_identifier a \<in> ac_id ` set (accounts f) \<and>
       list_ex (\<lambda>m. mb_id m = acl_mailbox_id a \<and> mb_account_id m \<noteq> acl_identifier a) (mailboxes f)) (acls f)"

lemma primary_declared:
  assumes "length (filter primary accs) = 1"
  shows "or_else (map_option ac_id (find primary accs)) [] \<in> set (map ac_id accs)"
  using assms by (auto simp: or_else_def find_None_iff find_Some_iff filter_empty_conv
      split: option.split dest!: arg_cong [of _ _ length])

text \<open>What the three groups of sections leave in the fixture.\<close>

lemma normalize_sections:
  assumes "normalize_with_dir env raw = Inr f"
  obtains c where "normalize_accounts (rf_accounts raw) = Inr (accounts f)"
    "lc_accounts c = map ac_id (accounts f)" "lc_primary c = or_else (map_option ac_id (find primary (accounts f))) []"
    "normalize_mailboxes c (rf_mailboxes raw) = Inr (mailboxes f)"
    "normalize_emails env (baseline_of c (mailboxes f)) (rf_emails raw) = Inr (emails f)"
    "normalize_events env c (calendars f) (rf_events raw) = Inr (events f)"
    "normalize_contacts c (contact_folders f) (rf_contacts raw) = Inr (contacts f)"
    "normalize_acls c (mailboxes f) (rf_acls raw) = Inr (acls f)"
    "account_logs f = []" "synthetic_email_seq f = seed_counter (map em_id (emails f)) ''mock-email-''"
    "mailbox_uid_history f = mailbox_uid_history (rebuild_uid_history f)"
proof -
  obtain c f0 f1 f2 where l: "load_mail env raw = Inr (c, f0)" "load_people env raw c f0 = Inr f1"
    "load_shared env raw c f1 = Inr f2" "f = seed_counters (rebuild_uid_history f2)"
    using assms by (auto simp: normalize_with_dir_def and_then_Inr)
  have mail: "normalize_accounts (rf_accounts raw) = Inr (accounts f0)"
    "lc_accounts c = map ac_id (accounts f0)" "lc_primary c = or_else (map_option ac_id (find primary (accounts f0))) []"
    "normalize_mailboxes c (rf_mailboxes raw) = Inr (mailboxes f0)"
    "normalize_emails env (baseline_of c (mailboxes f0)) (rf_emails raw) = Inr (emails f0)" "account_logs f0 = []"
    using l(1) by (auto simp: load_mail_def Let_def and_then_Inr empty_fixture_def)
  have people: "normalize_events env c (calendars f1) (rf_events raw) = Inr (events f1)"
    "normalize_contacts c (contact_folders f1) (rf_contacts raw) = Inr (contacts f1)"
    "accounts f1 = accounts f0" "mailboxes f1 = mailboxes f0" "emails f1 = emails f0" "account_logs f1 = account_logs f0"
    using l(2) by (auto simp: load_people_def and_then_Inr)
  have shared: "normalize_acls c (mailboxes f2) (rf_acls raw) = Inr (acls f2)"
    "accounts f2 = accounts f1" "mailboxes f2 = mailboxes f1" "emails f2 = emails f1" "account_logs f2 = account_logs f1"
    "events f2 = events f1" "calendars f2 = calendars f1" "contacts f2 = contacts f1"
    "contact_folders f2 = contact_folders f1"
    using l(3) by (auto simp: load_shared_def and_then_Inr)
  have seeded: "accounts f = accounts f2" "mailboxes f = mailboxes f2" "emails f = emails f2"
    "account_logs f = account_logs f2" "events f = events f2" "calendars f = calendars f2" "contacts f = contacts f2"
    "contact_folders f = contact_folders f2" "acls f = acls f2"
    "synthetic_email_seq f = seed_counter (map em_id (emails f)) ''mock-email-''"
    "mailbox_uid_history f = mailbox_uid_history (rebuild_uid_history f)"
    by (simp_all add: l(4) seed_counters_def rebuild_uid_history_def)
  show thesis
    by (rule that [of c], insert seeded(11))
      (simp_all add: mail people shared shared(1) [unfolded shared(3) people(4)] seeded(1-9)
        seeded(10) [unfolded seeded(3) shared(4) people(5)])
qed

lemma count_list_distinct: "distinct xs \<Longrightarrow> count_list xs x = (if x \<in> set xs then 1 else 0)"
  by (induction xs) auto

text \<open>The rebuilt histories hold one live slot for each membership.\<close>

lemma held_rebuilt:
  assumes "distinct (map em_id (emails f))" and "list_all filed (emails f)"
  shows "held (rebuild_uid_history f) mb i = (if lies_in f mb i then 1 else 0)"
proof -
  have "sum_list (map (\<lambda>m. if em_id m = i then count_list (mailbox_ids m) mb else 0) es) =
      (if \<exists>e \<in> set es. em_id e = i \<and> mb \<in> set (mailbox_ids e) then 1 else 0)"
    if "distinct (map em_id es)" "list_all filed es" for es
    using that
  proof (induction es)
    case (Cons e es)
    then have rest: "sum_list (map (\<lambda>m. if em_id m = i then count_list (mailbox_ids m) mb else 0) es) =
        (if \<exists>e \<in> set es. em_id e = i \<and> mb \<in> set (mailbox_ids e) then 1 else 0)" by simp
    show ?case
    proof (cases "em_id e = i")
      case True
      then have "\<not> (\<exists>x \<in> set es. em_id x = i \<and> mb \<in> set (mailbox_ids x))"
        using Cons.prems(1) by (metis distinct.simps(2) image_eqI image_set list.simps(9))
      then show ?thesis using Cons.prems(2) True rest by (simp add: filed_def count_list_distinct)
    next
      case False
      then show ?thesis using rest by simp
    qed
  qed simp
  from this [OF assms] show ?thesis by (simp add: rebuild_held lies_in_iff)
qed

lemma loaded_ok:
  assumes "normalize_with_dir env raw = Inr f"
    and "list_all (\<lambda>r. distinct (rem_mailbox_ids r)) (rf_emails raw)"
    and "list_all (\<lambda>r. number_in_range ''mock-email-'' (rem_id r)) (rf_emails raw)"
  shows "store_ok f \<and> tree_ok f \<and> references_met f"
proof -
  obtain c where c: "normalize_accounts (rf_accounts raw) = Inr (accounts f)"
    "lc_accounts c = map ac_id (accounts f)" "lc_primary c = or_else (map_option ac_id (find primary (accounts f))) []"
    and ms: "normalize_mailboxes c (rf_mailboxes raw) = Inr (mailboxes f)"
    and es: "normalize_emails env (baseline_of c (mailboxes f)) (rf_emails raw) = Inr (emails f)"
    and evs: "normalize_events env c (calendars f) (rf_events raw) = Inr (events f)"
    and cts: "normalize_contacts c (contact_folders f) (rf_contacts raw) = Inr (contacts f)"
    and as: "normalize_acls c (mailboxes f) (rf_acls raw) = Inr (acls f)"
    and rest: "account_logs f = []" "synthetic_email_seq f = seed_counter (map em_id (emails f)) ''mock-email-''"
      "mailbox_uid_history f = mailbox_uid_history (rebuild_uid_history f)"
    by (rule normalize_sections [OF assms(1)])
  note accs = normalize_accounts_Inr [OF c(1)]
  have "lc_primary c \<in> set (lc_accounts c)" using primary_declared [OF accs(2)] c by simp
  note boxes = normalize_mailboxes_Inr [OF ms this]
  note mail = normalize_emails_Inr [OF es boxes(1) assms(2)]
  have "list_all (number_in_range ''mock-email-'') (map em_id (emails f))"
    using assms(3) mail(1) by (simp add: list.pred_map o_def)
  then have "synthetic_email_seq f < n \<Longrightarrow> mock_email_id n \<notin> email_ids f" for n
    using seed_counter_above [of "map em_id (emails f)" "''mock-email-''" n] rest(2)
    by (simp add: mock_email_id_def email_ids_def)
  moreover have "held f mb i = (if lies_in f mb i then 1 else 0)" for mb i
    using held_rebuilt [OF mail(2,3), of mb i] rest(3) by (simp add: held_def uid_history_def)
  ultimately have "store_ok f"
    using mail(2,3) rest(1) by (simp add: store_ok_def mail_ok_def wf_store_def bt_ok_def)
  moreover obtain u where "detect_cycles (mailboxes f) = Inr u" using boxes(4) by blast
  then have "tree_ok f"
    unfolding tree_ok_def using boxes(1,3) by (intro conjI checked_forest) auto
  moreover have "references_met f"
    unfolding references_met_def
    using accs boxes(2,5) mail(4) normalize_events_Inr [OF evs] normalize_contacts_Inr [OF cts]
      normalize_acls_Inr [OF as] c(2)
    by (simp add: list_all_iff)
  ultimately show ?thesis by simp
qed

text \<open>
  C10. A loaded fixture satisfies the invariants the handlers rely on. When the loader accepts a fixture whose emails
  name no mailbox twice and whose \<open>mock-email-N\<close> ids have numbers of a \<open>u64\<close>, the mail invariant and the
  change-log invariant hold (ids are unique and not yet to be minted, every membership has exactly one live UID),
  the mailboxes form a forest, and every cross reference is met: one primary account, owners declared, emails,
  events and contacts in a parent of their own account, grants to others than the owner.
\<close>

theorem loaded_fixture_ok:
  assumes "normalize_with_dir env raw = Inr f"
    and "list_all (\<lambda>r. distinct (rem_mailbox_ids r)) (rf_emails raw)"
    and "list_all (\<lambda>r. number_in_range ''mock-email-'' (rem_id r)) (rf_emails raw)"
  shows "store_ok f \<and> tree_ok f \<and> references_met f"
  using assms by (rule loaded_ok)

text \<open>Two accounts, a nested mailbox, an email in two mailboxes, an event, a contact and a grant.\<close>

definition sample_load_env :: load_env where
  "sample_load_env = \<lparr>le_parse_ts = (\<lambda>s. Inr (int (length s))), le_read = (\<lambda>p. Inr p)\<rparr>"

definition sample_raw_email :: raw_email where
  "sample_raw_email = \<lparr>rem_id = ''mock-email-7'', rem_thread_id = None, rem_mailbox_ids = [''inbox'', ''work''],
     rem_keywords = [''$seen''], rem_size = None, rem_received_at = ''2026-01-01T00:00:00Z'', rem_sent_at = None,
     rem_from = Some (BareAddress ''bob@x''), rem_to = [], rem_cc = [], rem_bcc = [], rem_reply_to = [],
     rem_subject = Some ''hi'', rem_preview = None, rem_message_id = [], rem_in_reply_to = [], rem_references = [],
     rem_has_attachment = None, rem_body_text = Some ''hello'', rem_body_raw_bytes = None, rem_reaction_type = None,
     rem_reaction_count = None, rem_attachments = [], rem_account_id = Some ''a1''\<rparr>"

definition sample_raw_event :: raw_event where
  "sample_raw_event = \<lparr>rev_id = ''e1'', rev_calendar_id = ''c1'', rev_subject = ''stand-up'', rev_body_preview = None,
     rev_body_text = None, rev_start = ''2026-01-01T00:00:00Z'', rev_end = ''2026-01-01T01:00:00Z'', rev_location = None,
     rev_organizer = None, rev_attendees = [], rev_is_all_day = False, rev_recurrence_rule = None,
     rev_recurrence_exdates = [], rev_time_zone = None, rev_reminders = [], rev_raw_ical = None,
     rev_account_id = None\<rparr>"

definition sample_raw_contact :: raw_contact where
  "sample_raw_contact = \<lparr>rct_id = ''p1'', rct_folder_id = ''f1'', rct_display_name = Some ''Bob'', rct_emails = [],
     rct_phones = [], rct_company = None, rct_job_title = None, rct_department = None, rct_notes = None, rct_groups = [],
     rct_malformed_vcard = False, rct_account_id = Some ''a2''\<rparr>"

definition sample_raw :: raw_fixture where
  "sample_raw = \<lparr>rf_name = ''sample'', rf_state = None,
     rf_accounts = [raw_account.make ''a1'' ''alice@x'' True True, raw_account.make ''a2'' ''team@x'' False False],
     rf_mailboxes = [raw_mailbox.make ''inbox'' ''Inbox'' (Some ''inbox'') None None None None,
       raw_mailbox.make ''work'' ''Work'' None (Some ''inbox'') (Some 1) (Some False) (Some ''a1'')],
     rf_emails = [sample_raw_email], rf_oauth = None, rf_caldav = None, rf_announce = [], rf_discovery = [],
     rf_calendars = [raw_calendar.make ''c1'' ''Main'' None True None False], rf_events = [sample_raw_event],
     rf_contact_folders = [raw_contact_folder.make ''f1'' ''Team'' None True (Some ''a2'')],
     rf_contacts = [sample_raw_contact], rf_contact_groups = [], rf_other_contacts = [], rf_directory_people = [],
     rf_categories = [], rf_groups = [], rf_acls = [raw_acl.make ''inbox'' ''a2'' None], rf_public_folders = [],
     rf_public_items = [], rf_send_as = [], rf_change_script = []\<rparr>"

lemmas sample_raw_simps = sample_raw_def sample_raw_email_def sample_raw_event_def sample_raw_contact_def
  raw_account.defs raw_mailbox.defs raw_calendar.defs raw_contact_folder.defs raw_acl.defs sample_load_env_def

lemma sample_names: "is_email_shaped ''alice@x''" "is_email_shaped ''team@x''"
  by code_simp+

lemma sample_mail:
  "\<exists>f0. load_mail sample_load_env sample_raw = Inr (\<lparr>lc_accounts = [''a1'', ''a2''], lc_primary = ''a1''\<rparr>, f0) \<and>
     collect_map mb_id mb_account_id (mailboxes f0) ''inbox'' = Some ''a1''"
  by (simp add: load_mail_def Let_def normalize_accounts_def mark_primary_def check_unique_def account_of_raw_def
      sample_names sample_raw_simps or_else_def normalize_mailboxes_def mailbox_of_raw_def role_of_raw_def role_parse_def
      resolve_account_def detect_cycles_def collect_map_def check_parents_def foreign_parent_def baseline_of_def
      normalize_emails_def normalize_email_def derived_account_def declared_account_def load_ts_def map_err_def
      normalize_attachments_def check_has_attachment_def normalize_discovery_def normalize_oauth_def normalize_caldav_def)

lemma sample_people:
  "\<exists>f1. load_people sample_load_env sample_raw \<lparr>lc_accounts = [''a1'', ''a2''], lc_primary = ''a1''\<rparr> f = Inr f1 \<and>
     mailboxes f1 = mailboxes f"
  by (simp add: load_people_def Let_def sample_raw_simps normalize_calendars_def load_unique_def push_unique_def
      calendar_of_raw_def resolve_account_def normalize_events_def load_event_def raw_event_times_def load_ts_def map_err_def
      child_account_def normalize_contact_folders_def contact_folder_of_raw_def normalize_contacts_def load_contact_def
      normalize_contact_groups_def normalize_other_contacts_def normalize_directory_people_def)

lemma sample_shared:
  assumes "collect_map mb_id mb_account_id (mailboxes f) ''inbox'' = Some ''a1''"
  shows "\<exists>f1. load_shared sample_load_env sample_raw \<lparr>lc_accounts = [''a1'', ''a2''], lc_primary = ''a1''\<rparr> f = Inr f1"
  using assms
  by (simp add: load_shared_def sample_raw_simps normalize_groups_def load_unique_def normalize_acls_def
      load_acl_def Let_def normalize_public_folders_def normalize_public_items_def normalize_send_as_def
      normalize_categories_def)

lemma sample_loads: "\<exists>f. normalize_with_dir sample_load_env sample_raw = Inr f"
proof -
  let ?c = "\<lparr>lc_accounts = [''a1'', ''a2''], lc_primary = ''a1''\<rparr>"
  obtain f0 where f0: "load_mail sample_load_env sample_raw = Inr (?c, f0)"
    "collect_map mb_id mb_account_id (mailboxes f0) ''inbox'' = Some ''a1''"
    using sample_mail by blast
  obtain f1 where f1: "load_people sample_load_env sample_raw ?c f0 = Inr f1" "mailboxes f1 = mailboxes f0"
    using sample_people by blast
  obtain f2 where "load_shared sample_load_env sample_raw ?c f1 = Inr f2"
    using sample_shared [of f1] f0(2) f1(2) by auto
  then show ?thesis using f0(1) f1(1) by (simp add: normalize_with_dir_def)
qed

lemma sample_raw_ok:
  "list_all (\<lambda>r. distinct (rem_mailbox_ids r)) (rf_emails sample_raw)"
  "list_all (\<lambda>r. number_in_range ''mock-email-'' (rem_id r)) (rf_emails sample_raw)"
  by (simp_all add: sample_raw_simps number_in_range_def is_digit_def digit_val_def)

theorem loaded_fixture_ok_witness:
  "\<exists>f. normalize_with_dir sample_load_env sample_raw = Inr f \<and> store_ok f \<and> tree_ok f \<and> references_met f"
  using sample_loads loaded_fixture_ok [OF _ sample_raw_ok] by blast

text \<open>Without change steps in the file there is no script.\<close>

lemma loaded_empty_script:
  assumes "normalize_with_dir env raw = Inr f" and "rf_change_script raw = []"
  shows "change_script f = []"
  using assms
  by (auto simp: normalize_with_dir_def and_then_Inr load_shared_def seed_counters_def rebuild_uid_history_def)

end
