(* ===== verification/Server_Run.thy ===== *)
theory Server_Run
  imports Harness_Props Loader_Props Gmail_Sync Jmap_Props
begin

text \<open>
  The server as a whole: one step is one request of a JMAP, Gmail, OAuth, SMTP or test client that is answered, or
  a trigger before a request. The step relation interleaves them in any order; its invariants are proved by rule
  induction. A JMAP request is answered unless an \<open>i64\<close> overflows in a build with overflow checks
  (\<open>jmap_total\<close>); that request panics under the write lock, which poisons it, and every later request
  that takes the lock, the reset included, panics too. Such a run is no run of these relations.
\<close>

subsection \<open>The steps\<close>

definition gmail_view :: "shared_handles \<Rightarrow> gmail_state" where
  "gmail_view s = \<lparr>gs_fixture = sh_fixture s, gs_tokens = sh_tokens s, gs_watches = ph_gmail_watches (sh_push s)\<rparr>"

inductive server_step :: "shared_handles \<Rightarrow> shared_handles \<Rightarrow> bool" where
  Jmap: "list_all (\<lambda>(_, args, _). json_ok args) (method_calls req) \<Longrightarrow>
    jmap_handle jenv req (sh_fixture s) = Some (resp, f) \<Longrightarrow> server_step s (s\<lparr>sh_fixture := f\<rparr>)"
| Gmail: "gmail_handle genv r (gmail_view s) = (ans, g) \<Longrightarrow>
    server_step s (s\<lparr>sh_fixture := gs_fixture g, sh_tokens := gs_tokens g,
      sh_push := (sh_push s)\<lparr>ph_gmail_watches := gs_watches g\<rparr>\<rparr>)"
| Oauth: "server_step s (s\<lparr>sh_tokens := oauth_step parse_json op (sh_tokens s)\<rparr>)"
| Smtp: "server_step s (s\<lparr>sh_submissions := submission_push m (sh_submissions s)\<rparr>)"
| Announce: "server_step s (fire_for_request env protocol request s)"
| Test: "server_step s (snd (admin_handle env a s))"
| Log: "server_step s (s\<lparr>sh_requests := request_log_push e (sh_requests s)\<rparr>)"
| Open: "server_step s (s\<lparr>sh_open_fault := snd (fault_take (sh_open_fault s))\<rparr>)"
| Listen: "h \<in> {register_jmap_ws b (sh_push s), register_imap_idle b (sh_push s), graph_create_subscription u (sh_push s),
      snd (graph_renew_subscription i x (sh_push s)), snd (graph_delete_subscription i (sh_push s)),
      ews_create_subscription w (sh_push s), snd (ews_delete_subscription i (sh_push s)),
      snd (ews_drain_events i (sh_push s)), snd (next_seq (sh_push s))} \<Longrightarrow> server_step s (s\<lparr>sh_push := h\<rparr>)"

inductive_cases server_step_cases: "server_step s s'"

text \<open>
  The JMAP rule fits every request of a release build: there is always an answer.
\<close>

lemma release_step:
  assumes "\<not> je_overflow_checks jenv" and "list_all (\<lambda>(_, args, _). json_ok args) (method_calls req)"
  shows "\<exists>resp f. jmap_handle jenv req (sh_fixture s) = Some (resp, f) \<and> server_step s (s\<lparr>sh_fixture := f\<rparr>)"
  using jmap_total [OF assms(1), of req "sh_fixture s"] Jmap [OF assms(2)] by fastforce

text \<open>
  Any step of the server: one of the above, or a request of any other listener (IMAP, Graph, EWS, the Google and DAV
  surfaces). Of those it is only said which handles they hold: they may leave any fixture, tokens, push hub
  and request log behind, but they cannot write the baseline, which is an \<open>Arc\<close> without a lock, and do not
  touch the cursor, the knobs, the trigger counts and the submissions.
\<close>

inductive any_step :: "shared_handles \<Rightarrow> shared_handles \<Rightarrow> bool" where
  Modelled: "server_step s s' \<Longrightarrow> any_step s s'"
| Other: "any_step s (s\<lparr>sh_fixture := f, sh_tokens := t, sh_push := h, sh_requests := l\<rparr>)"

inductive_cases any_step_cases: "any_step s s'"

subsection \<open>What a step keeps\<close>

text \<open>The baseline never changes, and a dispatcher is never attached.\<close>

definition fixed_part :: "shared_handles \<Rightarrow> fixture \<times> bool" where
  "fixed_part s = (sh_baseline s, sh_call_counts s = None)"

lemma fixed_advance [simp]: "fixed_part (snd (advance_cursor env expect s)) = fixed_part s"
  by (simp add: fixed_part_def advance_cursor_def split: prod.split)

lemma fixed_fire_trigger [simp]: "fixed_part (fire_trigger env protocol d s) = fixed_part s"
  using fixed_advance [of env "Some (fst d)" s] by (simp add: fire_trigger_def fixed_part_def case_prod_beta Let_def)

lemma fixed_fire [simp]: "fixed_part (fire_for_request env protocol request s) = fixed_part s"
proof -
  have "fixed_part (fold (fire_trigger env protocol) due s) = fixed_part s" for due s
    by (induction due arbitrary: s) simp_all
  then have "fixed_part (fold (fire_trigger env protocol) due (s\<lparr>sh_announce_counts := c\<rparr>)) = fixed_part s" for due c
    by (simp add: fixed_part_def)
  then show ?thesis by (simp add: fire_for_request_def Let_def case_prod_beta)
qed

text \<open>The routes that read, or change only the logs, the knobs and the push hub.\<close>

lemma quiet_routes:
  "sh_fixture (snd (list_jmap_push s)) = sh_fixture s \<and> fixed_part (snd (list_jmap_push s)) = fixed_part s"
  "sh_fixture (snd (list_graph_push s)) = sh_fixture s \<and> fixed_part (snd (list_graph_push s)) = fixed_part s"
  "sh_fixture (snd (list_graph_excluded s)) = sh_fixture s \<and> fixed_part (snd (list_graph_excluded s)) = fixed_part s"
  "sh_fixture (snd (list_push_subscriptions s)) = sh_fixture s \<and> fixed_part (snd (list_push_subscriptions s)) = fixed_part s"
  "sh_fixture (snd (list_pubsub s)) = sh_fixture s \<and> fixed_part (snd (list_pubsub s)) = fixed_part s"
  "sh_fixture (snd (clear_pubsub s)) = sh_fixture s \<and> fixed_part (snd (clear_pubsub s)) = fixed_part s"
  "sh_fixture (snd (publish_pubsub_route env b s)) = sh_fixture s \<and> fixed_part (snd (publish_pubsub_route env b s)) = fixed_part s"
  "sh_fixture (snd (set_pubsub_endpoint b s)) = sh_fixture s \<and> fixed_part (snd (set_pubsub_endpoint b s)) = fixed_part s"
  "sh_fixture (snd (list_smtp_submissions env s)) = sh_fixture s \<and> fixed_part (snd (list_smtp_submissions env s)) = fixed_part s"
  "sh_fixture (snd (clear_smtp_submissions s)) = sh_fixture s \<and> fixed_part (snd (clear_smtp_submissions s)) = fixed_part s"
  "sh_fixture (snd (list_requests env q s)) = sh_fixture s \<and> fixed_part (snd (list_requests env q s)) = fixed_part s"
  "sh_fixture (snd (clear_requests s)) = sh_fixture s \<and> fixed_part (snd (clear_requests s)) = fixed_part s"
  "sh_fixture (snd (get_latency s)) = sh_fixture s \<and> fixed_part (snd (get_latency s)) = fixed_part s"
  "sh_fixture (snd (set_latency b s)) = sh_fixture s \<and> fixed_part (snd (set_latency b s)) = fixed_part s"
  "sh_fixture (snd (arm_fail_open b s)) = sh_fixture s \<and> fixed_part (snd (arm_fail_open b s)) = fixed_part s"
  "sh_fixture (snd (clear_fail_open s)) = sh_fixture s \<and> fixed_part (snd (clear_fail_open s)) = fixed_part s"
  "sh_fixture (snd (fixture_identity_route s)) = sh_fixture s \<and> fixed_part (snd (fixture_identity_route s)) = fixed_part s"
  "sh_fixture (snd (snapshot_state env s)) = sh_fixture s \<and> fixed_part (snd (snapshot_state env s)) = fixed_part s"
  by (simp_all add: list_jmap_push_def list_graph_push_def list_graph_excluded_def list_push_subscriptions_def
      list_pubsub_def clear_pubsub_def publish_pubsub_route_def set_pubsub_endpoint_def list_smtp_submissions_def
      clear_smtp_submissions_def list_requests_def clear_requests_def get_latency_def set_latency_def arm_fail_open_def
      clear_fail_open_def fixture_identity_route_def snapshot_state_def fixed_part_def Let_def
      split: option.split json.split prod.split sum.split)

lemma step_route_cases:
  "sh_fixture (snd (step_route env b s)) = sh_fixture s \<and> fixed_part (snd (step_route env b s)) = fixed_part s \<or>
   (\<exists>expect. sh_fixture (snd (step_route env b s)) = sh_fixture (snd (advance_cursor env expect s)) \<and>
     fixed_part (snd (step_route env b s)) = fixed_part s)"
proof (cases "expect_of_body b")
  case (Inr expect)
  then show ?thesis
    by (intro disjI2 exI [of _ expect]) (simp add: step_route_def step_fixture_def advance_cursor_def fixed_part_def
        split: prod.split)
qed (simp add: step_route_def step_fixture_def fixed_part_def split: prod.split)

lemma admin_cases:
  obtains (quiet) "sh_fixture (snd (admin_handle env r s)) = sh_fixture s"
      "fixed_part (snd (admin_handle env r s)) = fixed_part s"
  | (step) expect where "sh_fixture (snd (admin_handle env r s)) = sh_fixture (snd (advance_cursor env expect s))"
      "fixed_part (snd (admin_handle env r s)) = fixed_part s"
  | (reset) "snd (admin_handle env r s) = snd (reset_fixture s)"
proof (cases "Option.bind (map_of (admin_routes env r) (aq_path r)) (\<lambda>ms. map_of ms (aq_method r))")
  case None
  then show thesis
    by (intro quiet) (auto simp: admin_handle_def split: option.split option.splits)
next
  case (Some handler)
  then obtain ms where ms: "map_of (admin_routes env r) (aq_path r) = Some ms" "map_of ms (aq_method r) = Some handler"
    by (auto simp: bind_eq_Some_conv)
  then have run: "admin_handle env r s = handler s" by (simp add: admin_handle_def)
  have "handler \<in> snd ` set (concat (map snd (admin_routes env r)))"
    using ms by (force dest!: map_of_SomeD)
  then consider "handler = step_route env (aq_body r)" | "handler = reset_fixture"
    | "sh_fixture (snd (handler s)) = sh_fixture s \<and> fixed_part (snd (handler s)) = fixed_part s"
    by (auto simp: admin_routes_def quiet_routes)
  then show thesis
    using quiet step reset step_route_cases [of env "aq_body r" s] by (cases) (auto simp: run)
qed

lemma fixed_admin [simp]: "fixed_part (snd (admin_handle env r s)) = fixed_part s"
  by (rule admin_cases [of env r s]) (auto simp: fixed_part_def reset_fixture_def)

lemma fixed_step: "server_step s s' \<Longrightarrow> fixed_part s' = fixed_part s"
  by (erule server_step_cases) (simp_all, simp_all add: fixed_part_def)

lemma fixed_any_step: "any_step s s' \<Longrightarrow> fixed_part s' = fixed_part s"
  by (erule any_step_cases) (simp add: fixed_step, simp add: fixed_part_def)

lemma fixed_run: "rtranclp any_step s s' \<Longrightarrow> fixed_part s' = fixed_part s"
  by (induction rule: rtranclp_induct) (simp_all add: fixed_any_step)

subsection \<open>A reset starts again\<close>

text \<open>The handles after a reset: as at startup, but for the listeners, the id counter and what was sent out.\<close>

definition restarted :: "fixture \<Rightarrow> push_hub \<Rightarrow> shared_handles" where
  "restarted f h = (handles_for_test f)\<lparr>sh_push := push_hub_new\<lparr>ph_seq := ph_seq h, ph_jmap_ws := ph_jmap_ws h,
     ph_imap_idle := ph_imap_idle h, ph_posts := ph_posts h\<rparr>\<rparr>"

lemma reset_restarts:
  assumes "fixed_part s = (f, True)"
  shows "snd (reset_fixture s) = restarted f (sh_push s)"
  using assms
  by (cases s) (simp add: fixed_part_def reset_fixture_def restarted_def handles_for_test_def submission_clear_def
      request_log_clear_def store_clear_def token_store_new_def latency_clear_def push_clear_def push_hub_new_def
      fault_clear_def)

text \<open>The script runs on the fixture and the cursor; the hub is an output.\<close>

lemma advance_same_script:
  assumes "sh_fixture s = sh_fixture s'" and "sh_cursor s = sh_cursor s'"
  shows "fst (advance_cursor env expect s) = fst (advance_cursor env expect s')"
    "sh_fixture (snd (advance_cursor env expect s)) = sh_fixture (snd (advance_cursor env expect s'))"
    "sh_cursor (snd (advance_cursor env expect s)) = sh_cursor (snd (advance_cursor env expect s'))"
proof -
  obtain r c f ps where run:
    "advance_change_cursor (ae_change env) expect (sh_cursor s', sh_fixture s') = (r, (c, f), ps)"
    by (metis prod_cases3 surj_pair)
  then have "advance_change_cursor (ae_change env) expect (sh_cursor s, sh_fixture s) = (r, (c, f), ps)"
    by (simp only: assms)
  with run show "fst (advance_cursor env expect s) = fst (advance_cursor env expect s')"
    "sh_fixture (snd (advance_cursor env expect s)) = sh_fixture (snd (advance_cursor env expect s'))"
    "sh_cursor (snd (advance_cursor env expect s)) = sh_cursor (snd (advance_cursor env expect s'))"
    by (simp_all add: advance_cursor_def)
qed

fun step_outcomes :: "admin_env \<Rightarrow> string option list \<Rightarrow> shared_handles \<Rightarrow> ((nat \<times> json) + step_result) list" where
  "step_outcomes env [] s = []"
| "step_outcomes env (expect # es) s =
     (let (r, s') = advance_cursor env expect s in r # step_outcomes env es s')"

lemma outcomes_same_script:
  "sh_fixture s = sh_fixture s' \<Longrightarrow> sh_cursor s = sh_cursor s' \<Longrightarrow>
     step_outcomes env es s = step_outcomes env es s'"
proof (induction es arbitrary: s s')
  case (Cons e es)
  note same = advance_same_script [OF Cons.prems, of env e]
  from Cons.IH [OF same(2,3)] same(1) show ?case by (simp add: case_prod_beta Let_def)
qed simp

text \<open>
  C14. A reset starts the run again. Start the server on a fixture without a Lua dispatcher, and let the clients of
  all listeners do what they like, as long as every request returned (none has panicked under the fixture lock
  or holds it for ever): \<open>POST /test/fixture/reset\<close> then leaves the handles as they were at startup
  (fixture, cursor, logs, tokens, knobs, trigger counts, subscriptions), except for the open listeners, the
  counter of minted ids and what has already been sent. So the change script, asked for the same steps, answers
  as it did from startup.
\<close>

theorem reset_starts_again:
  assumes "rtranclp any_step (handles_for_test f) s"
  shows "snd (reset_fixture s) = restarted f (sh_push s) \<and>
    step_outcomes env es (snd (reset_fixture s)) = step_outcomes env es (handles_for_test f)"
proof -
  have "fixed_part s = (f, True)"
    using fixed_run [OF assms] by (simp add: fixed_part_def handles_for_test_def)
  from reset_restarts [OF this] show ?thesis
    using outcomes_same_script [of "restarted f (sh_push s)" "handles_for_test f" env es]
    by (simp add: restarted_def handles_for_test_def)
qed

definition sample_admin_env :: admin_env where
  "sample_admin_env = \<lparr>ae_change = sample_change_env, ae_show_ts = (\<lambda>_. []), ae_now = 0, ae_parse_mime = (\<lambda>_. None)\<rparr>"

definition sample_step_request :: admin_request where
  "sample_step_request = \<lparr>aq_method = ''POST'', aq_path = ''/test/fixture/step'', aq_query = [], aq_body = None\<rparr>"

lemma sample_step_run:
  "snd (admin_handle sample_admin_env sample_step_request s) = snd (step_route sample_admin_env None s)"
  by (simp add: admin_handle_def admin_routes_def sample_step_request_def)

theorem reset_starts_again_witness:
  "let s = snd (admin_handle sample_admin_env sample_step_request (handles_for_test sample_scripted)) in
     sh_cursor s = 1 \<and> snd (reset_fixture s) = restarted sample_scripted (sh_push s)"
proof -
  let ?start = "handles_for_test sample_scripted"
  let ?s = "snd (admin_handle sample_admin_env sample_step_request ?start)"
  have "any_step ?start ?s" by (rule Modelled [OF Test])
  then have "rtranclp any_step ?start ?s" by (rule r_into_rtranclp)
  from reset_starts_again [OF this] have "snd (reset_fixture ?s) = restarted sample_scripted (sh_push ?s)" by blast
  moreover have "sh_cursor ?s = 1"
    unfolding sample_step_run
    by (auto simp: step_route_def step_fixture_def expect_of_body_def advance_change_cursor_def Let_def handles_for_test_def
        sample_admin_env_def sample_scripted_def sample_inbox_def sample_email_def apply_change_step_def
        op_email_destroy_def email_position_def accept_op_def split: prod.splits)
  ultimately show ?thesis by (simp add: Let_def)
qed

subsection \<open>The mail invariant of the server\<close>

definition server_ok :: "fixture \<Rightarrow> shared_handles \<Rightarrow> bool" where
  "server_ok f0 s \<longleftrightarrow> sh_baseline s = f0 \<and> store_ok (sh_fixture s) \<and> script_kept f0 (sh_fixture s)"

lemma script_kept_trans: "script_kept f g \<Longrightarrow> script_kept g h \<Longrightarrow> script_kept f h"
  by (simp add: script_kept_def)

lemma server_ok_advance:
  assumes "script_ok f0" and "server_ok f0 s"
  shows "server_ok f0 (snd (advance_cursor env expect s))"
proof -
  obtain r c' f' ps where run:
    "advance_change_cursor (ae_change env) expect (sh_cursor s, sh_fixture s) = (r, (c', f'), ps)"
    by (metis prod_cases3 surj_pair)
  have s: "store_ok (sh_fixture s)" "script_kept f0 (sh_fixture s)" using assms(2) by (simp_all add: server_ok_def)
  from advance_keeps [OF s(1) script_ok_kept [OF assms(1) s(2)] run] show ?thesis
    using assms(2) script_kept_trans [OF s(2)] by (simp add: server_ok_def advance_cursor_def run)
qed

lemma server_ok_fire:
  assumes "script_ok f0" and "server_ok f0 s"
  shows "server_ok f0 (fire_for_request env protocol request s)"
proof -
  have one: "server_ok f0 (fire_trigger env protocol d s)" if "server_ok f0 s" for d s
    using server_ok_advance [OF assms(1) that, of env "Some (fst d)"]
    by (simp add: server_ok_def fire_trigger_def case_prod_beta Let_def)
  have "server_ok f0 (fold (fire_trigger env protocol) due s)" if "server_ok f0 s" for due s
    using that by (induction due arbitrary: s) (simp_all add: one)
  moreover have "server_ok f0 (s\<lparr>sh_announce_counts := c\<rparr>)" for c using assms(2) by (simp add: server_ok_def)
  ultimately show ?thesis using assms(2) by (simp add: fire_for_request_def Let_def case_prod_beta)
qed

lemma server_ok_admin:
  assumes "store_ok f0" and "script_ok f0" and "server_ok f0 s"
  shows "server_ok f0 (snd (admin_handle env r s))"
proof (rule admin_cases [of env r s])
  show ?thesis if "sh_fixture (snd (admin_handle env r s)) = sh_fixture s" "fixed_part (snd (admin_handle env r s)) = fixed_part s"
    using that assms(3) by (simp add: server_ok_def fixed_part_def)
  show ?thesis if "sh_fixture (snd (admin_handle env r s)) = sh_fixture (snd (advance_cursor env expect s))"
    "fixed_part (snd (admin_handle env r s)) = fixed_part s" for expect
    using that server_ok_advance [OF assms(2,3), of env expect] by (simp add: server_ok_def fixed_part_def)
  show ?thesis if "snd (admin_handle env r s) = snd (reset_fixture s)"
    using assms(1,3) by (simp add: that server_ok_def reset_fixture_def script_kept_def)
qed

lemma server_ok_step:
  assumes "server_step s s'" and "store_ok f0" and "script_ok f0" and "server_ok f0 s"
  shows "server_ok f0 s'"
  using assms(1)
proof cases
  case (Jmap req jenv resp f)
  then show ?thesis
    using assms(4) kept_script.request_keeps [of "sh_fixture s" f0 req jenv resp f] by (simp add: server_ok_def)
next
  case (Gmail genv r reply g)
  then show ?thesis
    using assms(4) kept_script.gmail_keeps [of "gmail_view s" f0 genv r reply g] by (simp add: server_ok_def gmail_view_def)
next
  case (Announce env protocol request)
  then show ?thesis using server_ok_fire [OF assms(3,4)] by simp
next
  case (Test env a)
  then show ?thesis using server_ok_admin [OF assms(2-4)] by simp
qed (use assms(4) in \<open>simp_all add: server_ok_def\<close>)

text \<open>
  C3. The mail invariant holds in every reachable state of the server. Start it on a fixture that the loader
  accepted and that satisfies three conditions the loader does not check: its emails name no mailbox twice, the
  numbers of its \<open>mock-email-N\<close> ids fit in \<open>u64\<close>, and its change script is well-formed (an email
  it creates names a mailbox, none twice, and an id that the server will not mint itself; an email it moves goes
  to some mailboxes, none twice). Let JMAP, Gmail, OAuth, SMTP and test clients make whatever requests they like
  that are answered, in any order, with the announce triggers firing between them and resets in the middle: in
  every state email ids are unique and none is an id that the server is still to mint, every email lies in at
  least one mailbox with exactly one live IMAP UID in each of its mailboxes and none elsewhere, and the change
  logs that every incremental sync reads are well-formed.
\<close>

theorem reachable_mail_ok:
  assumes "normalize_with_dir env raw = Inr f"
    and "list_all (\<lambda>r. distinct (rem_mailbox_ids r)) (rf_emails raw)"
    and "list_all (\<lambda>r. number_in_range ''mock-email-'' (rem_id r)) (rf_emails raw)"
    and "script_ok f" and "rtranclp server_step (handles_for_test f) s"
  shows "mail_ok (sh_fixture s) \<and> wf_store (sh_fixture s) \<and> change_script (sh_fixture s) = change_script f"
proof -
  have f: "store_ok f" using loaded_ok [OF assms(1-3)] by simp
  from assms(5) have "server_ok f s"
  proof (induction rule: rtranclp_induct)
    case base
    show ?case using f by (simp add: server_ok_def handles_for_test_def script_kept_def)
  next
    case (step s s')
    then show ?case using server_ok_step [OF _ f assms(4)] by blast
  qed
  then show ?thesis by (simp add: server_ok_def store_ok_def script_kept_def)
qed

theorem reachable_mail_ok_witness:
  "\<exists>f s. normalize_with_dir sample_load_env sample_raw = Inr f \<and> rtranclp server_step (handles_for_test f) s \<and>
     sh_requests s \<noteq> [] \<and> mail_ok (sh_fixture s)"
proof -
  obtain f where f: "normalize_with_dir sample_load_env sample_raw = Inr f" using sample_loads by blast
  have "script_ok f" using loaded_empty_script [OF f] by (simp add: script_ok_def sample_raw_simps)
  moreover define s where "s = (handles_for_test f)\<lparr>sh_requests := request_log_push \<lparr>re_protocol = ''jmap'',
     re_command = ''GET /jmap/session'', re_received_at = 0, re_detail = JNull, re_connection_id = None\<rparr> []\<rparr>"
  then have run: "rtranclp server_step (handles_for_test f) s"
    using Log [of "handles_for_test f"] by (simp add: handles_for_test_def r_into_rtranclp)
  ultimately have "mail_ok (sh_fixture s)" using reachable_mail_ok [OF f sample_raw_ok] by blast
  moreover have "sh_requests s \<noteq> []" by (simp add: s_def request_log_push_def)
  ultimately show ?thesis using f run by blast
qed

end
