(* ===== verification/Spec2Isabelle.thy ===== *)
theory Spec2Isabelle
  imports Fixture_Delta Imap_Safety Imap_Tree Imap_Move Smtp_Delivery Recurrence_Translate Graph_Props Jmap_Props Gmail_Props Graph_Settings Server_Run
begin

text \<open>
  A verification development for \<open>saehrimnir\<close>, a mock mail and groupware server written in Rust.

  The program. A fixture (\<open>src/src/fixture.rs\<close>) holds accounts, mailboxes, emails, events,
  contacts and a change log per account. Protocol listeners (IMAP, SMTP, JMAP, Graph, Gmail,
  CalDAV and others) serve it: they read it through the accessors of \<open>impl Fixture\<close>, and every
  write ends in \<open>record_transition\<close>, which splits the diff of the mutation by account and
  appends one transition to the log of each account touched. Incremental sync in every protocol
  (JMAP \<open>changes\<close>, Graph \<open>delta\<close>, Gmail \<open>history.list\<close>, IMAP CONDSTORE and QRESYNC) reads these
  logs and the UID histories. A token store (\<open>oauth.rs\<close>) and three test knobs
  (\<open>open_fault.rs\<close>, \<open>latency.rs\<close>, \<open>request_log.rs\<close>) sit beside it.

  The theories.
  \<^item> \<open>Rust_Prelude\<close>: what the code uses of the Rust standard library on strings and lists
    (decimal printing and parsing, \<open>split\<close>, \<open>trim\<close>, \<open>strip_prefix\<close>, case folding, UTF-8 validity,
    \<open>sort\<close> and \<open>dedup\<close>).
  \<^item> \<open>Rust_Collections\<close>: \<open>BTreeMap\<close> as a sorted association list, and the interfaces used by the
    components as locales: \<open>dict\<close> (a map), \<open>bounded_ring\<close> (a queue that drops its oldest
    element) and \<open>id_mint\<close> (a counter that mints fresh ids).
  \<^item> \<open>Fixture_Types\<close>: the runtime types of \<open>fixture.rs\<close>.
  \<^item> \<open>Change_Log\<close>: \<open>ChangeLog\<close>, \<open>Transition\<close>, \<open>MutationDiff\<close>, the state tokens, \<open>delta_since\<close> and
    the dominance rules. Its lemmas show that an incremental sync is exact within retention and
    say which tokens are refused.
  \<^item> \<open>Fixture_Store\<close>: the accessors, the id mints, UID histories, uploaded blobs, the split of a
    diff by account and \<open>record_transition\<close>. Its lemmas show UID stability, fresh ids and that a
    recording touches only the accounts it belongs to.
  \<^item> \<open>Fixture_Delta\<close>: the per-protocol delta functions, Gmail labels and Gmail history.
  \<^item> \<open>Test_Knobs\<close>: the knobs and the request log.
  \<^item> \<open>Oauth_Store\<close>: the token store, the token, userinfo and invalidate endpoints and the bearer
    checks of the listeners.
  \<^item> \<open>Sasl_Base64\<close>: base64 and SASL credential extraction, shared by IMAP and SMTP.
  \<^item> \<open>Imap_Syntax\<close>: the argument parsers of \<open>imap.rs\<close> and the UID set printer.
  \<^item> \<open>Imap_Mailbox\<close>: mailbox paths, LIST and shared mailboxes, name resolution, and the messages,
    UIDs, counts and flags of a mailbox.
  \<^item> \<open>Imap_Render\<close>: the RFC 822 text of an email, its MIME parts, ENVELOPE, BODYSTRUCTURE and the
    FETCH response line, with a reader for ENVELOPE by the grammar of RFC 3501.
  \<^item> \<open>Imap_Session\<close>, \<open>Imap_Folders\<close>, \<open>Imap_Messages\<close>: the connection and the command handlers; a
    handler returns the bytes it writes (and the latency sleeps between them), the new connection
    and the new fixture.
  \<^item> \<open>Imap_Dispatch\<close>: the dispatcher, its request log entry and the command loop.
  \<^item> \<open>Imap_Views\<close>, \<open>Imap_Expunge\<close>, \<open>Imap_Move\<close>: what the message commands do to the emails, to the
    UID histories and to a client that keeps its own list of the mailbox.
  \<^item> \<open>Imap_Safety\<close>, \<open>Imap_Tree\<close>: every command is answered and a session runs to its end, nothing is
    served before authentication, credentials are not logged; CREATE and RENAME in the listing.
  \<^item> \<open>Smtp_Session\<close>, \<open>Smtp_Delivery\<close>: the submission server of \<open>smtp.rs\<close> as a function of the bytes
    the client sends, with what it captures: dot-stuffing, envelopes, and which bodies are lost.
  \<^item> \<open>Json_Value\<close>: building and reading \<open>serde_json\<close> values.
  \<^item> \<open>Recurrence_Rule\<close>, \<open>Recurrence_Translate\<close>: \<open>recurrence.rs\<close> and the translators of
    \<open>jmap_calendar.rs\<close> and \<open>graph/calendar.rs\<close>, with their round trips.
  \<^item> \<open>Odata_Query\<close>, \<open>Graph_Values\<close>, \<open>Graph_Mail\<close>, \<open>Graph_Writes\<close>: the Graph mail surface, from the query
    string to \<open>$batch\<close>. \<open>Graph_Paging\<close> follows the links of a listing, \<open>Graph_Props\<close> says what a move
    does to the folders and to the other protocols.
  \<^item> \<open>Jmap_Core\<close>, \<open>Jmap_Email\<close>, \<open>Jmap_Set\<close>, \<open>Jmap_Contacts\<close>, \<open>Jmap_Calendar\<close>, \<open>Jmap_Dispatch\<close>: the JMAP
    methods over parsed JSON (\<open>jmap.rs\<close>, \<open>jmap_contacts.rs\<close>, \<open>jmap_principals.rs\<close>, \<open>jmap_calendar.rs\<close>):
    gets and changes, queries, the set methods, imports and submissions, contact cards, calendar events
    with their durations, and the request envelope with its method calls in order.
  \<^item> \<open>Mail_Sync\<close>: the mail invariant and the interface \<open>mail_contract\<close> of a write to mail (add, edit,
    remove): a client's delta stays exact. \<open>mail_invariant\<close> extends it to invariants that recording keeps, with
    two instances, the mail invariant and the change script. \<open>Jmap_Sync\<close>
    shows that every JMAP method is a sequence of such writes, \<open>Jmap_Props\<close> follows a client: the anchored
    walk, a draft that is sent, durations and cards written back, and two calls that reach too far.
  \<^item> \<open>Gmail_Mail\<close>, \<open>Gmail_Labels\<close>, \<open>Gmail_Writes\<close>: the Gmail listener (\<open>gmail/mail.rs\<close>), its reads, labels,
    history, label patches, deletes and sends, and the route table with the bearer check. \<open>Gmail_Sync\<close>
    shows that every request is a sequence of writes of the mail contract, \<open>Gmail_Props\<close> what a patch does to
    the labels and the history, and that a UTF-8 message sent comes back byte for byte.
  \<^item> \<open>Rust_Results\<close>, \<open>Loader_Raw\<close>, \<open>Loader_Email\<close>, \<open>Loader_Accounts\<close>, \<open>Change_Ops\<close>, \<open>Loader\<close>: the fixture loader,
    from the raw types of the file to the fixture, a fold over the rows of each section in the order of the
    source, every check with its message. \<open>Loader_Props\<close> shows that what the loader accepts satisfies the
    invariants on which the handlers' theorems rest.
  \<^item> \<open>Change_Script\<close>: the change script as \<open>test_admin.rs\<close> runs it, operation by operation, with the rewind
    of a refused step, the cursor and the report. \<open>Change_Props\<close>: a step is atomic and keeps the mail invariant.
  \<^item> \<open>Push_Hub\<close>: the push hub (\<open>push.rs\<close>), its registries and the fan-out of a state advance.
    \<open>Graph_Settings\<close>: the webhook subscriptions of the Graph listener, and whom a subscription follows.
  \<^item> \<open>Harness\<close>: the shared handles, the announce triggers and the \<open>/test\<close> routes. \<open>Harness_Props\<close>: what an
    applied step pushes, and when a trigger fires.
  \<^item> \<open>Server_Run\<close>: the requests of all these clients as one step relation on the handles. By rule induction, a
    reset starts the run again, and the mail invariant holds in every state reachable from a loaded fixture that
    meets the conditions the loader leaves unchecked. The first also allows any request of the listeners that are not in
    the relation (IMAP, Graph and those not modelled), the second does not. Both are about runs of requests that
    return: a panic under the write lock poisons the lock, and a reset panics on it.

  Conventions. A Rust string is the list of its UTF-8 bytes. A timestamp is an \<open>int\<close>; counters
  that the code keeps in \<open>u64\<close> or \<open>u32\<close> are \<open>nat\<close>, with the bound as a hypothesis where it
  matters; the FNV hash of the token store is a 64-bit word. A \<open>BTreeMap\<close> or \<open>HashMap\<close> is an
  association list. \<open>Option\<close> and \<open>Result\<close> are \<open>option\<close>; where the code can panic or loop forever,
  the model has one more \<open>option\<close> around the result, whose \<open>None\<close> is that outcome (the parent walk
  of \<open>mailbox_path\<close>, the byte slice of \<open>strip_prefix_ci\<close>, a signed overflow). Client-supplied \<open>i64\<close>
  arithmetic in JMAP (durations, the anchor of a query) panics in a build with overflow checks and wraps around
  in a release build: \<open>je_overflow_checks\<close> says which, and \<open>jmap_total\<close> that a release build answers every
  request. Two \<open>u32\<close> conversions are total here, as no fixture in memory reaches their bound: the UIDs of
  \<open>uidnext\<close> and \<open>assign_uid\<close>, whose \<open>expect\<close> needs a mailbox history of \<open>2^32\<close> slots, and the match
  count of an announce trigger, which needs \<open>2^32\<close> requests without a reset. A lock is the value it guards.

  Parameters. JSON parsing (serde), date parsing and printing (jiff), Unicode upper-casing and the
  override of a Lua callback are functions given to the definitions that use them.

  Sessions. A command of a connection runs to its end before another connection's mutation, a write
  to the socket succeeds, and what reaches a connection from outside while it runs (a continuation
  line, the events of an IDLE) is an input of the step.

  Not modelled. Google Calendar and People, CalDAV and CardDAV, EWS, the Graph calendar, contacts and profile,
  the Lua bindings and the process wiring.
\<close>

end
